(* ===== verification/Prelude.thy ===== *)
theory Prelude
  imports Complex_Main
begin

text \<open>
  Shared vocabulary of the development: the errors a service can raise, the
  state-and-exception functions every service operation is written in, the Prisma-style
  operations on a table kept as a list of rows, and the generic lemmas and automation
  collections the component theories use. Nothing here models one particular module,
  apart from \<open>apiError\<close>, the constructor of \<^verbatim>\<open>src/utils/ApiError.ts\<close>.
\<close>

named_theorems keep
  \<open>introduction rules: an operation relates its initial and final state by a preorder\<close>
named_theorems eval
  \<open>rewrite rules that run a service operation on a given state\<close>

section \<open>JSON values\<close>

text \<open>What the code stores in a \<^verbatim>\<open>Json\<close> column or answers as a body.\<close>

datatype json =
    JNull
  | JBool bool
  | JNum real
  | JStr string
  | JArr "json list"
  | JObj "(string \<times> json) list"

definition jopt :: "('a \<Rightarrow> json) \<Rightarrow> 'a option \<Rightarrow> json" where
  "jopt f x = (case x of None \<Rightarrow> JNull | Some v \<Rightarrow> f v)"

section \<open>Errors as values\<close>

text \<open>\<open>ApiErrorDetail\<close>: three optional properties.\<close>

record detail =
  d_field :: "string option"
  d_code :: "string option"
  d_message :: "string option"

definition det :: "string \<Rightarrow> string \<Rightarrow> detail" where
  "det c m = \<lparr>d_field = None, d_code = Some c, d_message = Some m\<rparr>"

definition detF :: "string \<Rightarrow> string \<Rightarrow> string \<Rightarrow> detail" where
  "detF f c m = \<lparr>d_field = Some f, d_code = Some c, d_message = Some m\<rparr>"

definition detC :: "string \<Rightarrow> detail" where
  "detC c = \<lparr>d_field = None, d_code = Some c, d_message = None\<rparr>"

text \<open>
  Everything a service or a middleware can throw: an \<open>ApiError\<close>, a Prisma known-request
  error with its code and target columns, a Prisma validation error, a violated database
  check, a failing Redis command, the two errors of \<^verbatim>\<open>jsonwebtoken\<close>, the body parser's \<open>SyntaxError\<close>, and any other value.
\<close>

datatype exn =
    ApiErr int string "detail list"
  | PrismaKnown string "string list"
  | PrismaValidation
  | DbCheck string
  | RedisErr
  | ZodErr "(string \<times> string) list"
  | MulterErr string "string option" string
  | JwtExpired
  | JwtInvalid
  | JsonSyntax
  | OtherErr string

text \<open>The constructor of \<open>ApiError\<close>: with no detail, the message becomes the only one.\<close>

definition apiError :: "int \<Rightarrow> string \<Rightarrow> detail list \<Rightarrow> exn" where
  "apiError statusCode message errs =
     ApiErr statusCode message
       (if errs \<noteq> [] then errs
        else [\<lparr>d_field = None, d_code = None, d_message = Some message\<rparr>])"

section \<open>Service operations\<close>

text \<open>
  A service operation takes the state and returns either the thrown error or its result,
  together with the state it leaves. The state is returned in both cases, because an
  effect that happened before a throw (a Redis counter, a row outside the transaction)
  stays.
\<close>

type_synonym ('s, 'a) svc = "'s \<Rightarrow> (exn + 'a) \<times> 's"

definition returnM :: "'a \<Rightarrow> ('s, 'a) svc" where
  "returnM x = (\<lambda>s. (Inr x, s))"

definition throwM :: "exn \<Rightarrow> ('s, 'a) svc" where
  "throwM e = (\<lambda>s. (Inl e, s))"

definition bindM :: "('s, 'a) svc \<Rightarrow> ('a \<Rightarrow> ('s, 'b) svc) \<Rightarrow> ('s, 'b) svc" where
  "bindM m f = (\<lambda>s. case m s of (Inl e, s') \<Rightarrow> (Inl e, s') | (Inr x, s') \<Rightarrow> f x s')"

definition thenM :: "('s, 'a) svc \<Rightarrow> ('s, 'b) svc \<Rightarrow> ('s, 'b) svc" where
  "thenM m k = bindM m (\<lambda>_. k)"

definition getsM :: "('s \<Rightarrow> 'a) \<Rightarrow> ('s, 'a) svc" where
  "getsM f = (\<lambda>s. (Inr (f s), s))"

definition modifyM :: "('s \<Rightarrow> 's) \<Rightarrow> ('s, unit) svc" where
  "modifyM f = (\<lambda>s. (Inr (), f s))"

definition throwIf :: "bool \<Rightarrow> exn \<Rightarrow> ('s, unit) svc" where
  "throwIf b e = (if b then throwM e else returnM ())"

definition orThrow :: "exn \<Rightarrow> 'a option \<Rightarrow> ('s, 'a) svc" where
  "orThrow e x = (case x of None \<Rightarrow> throwM e | Some v \<Rightarrow> returnM v)"

definition catchM :: "('s, 'a) svc \<Rightarrow> (exn \<Rightarrow> ('s, 'a) svc) \<Rightarrow> ('s, 'a) svc" where
  "catchM m h = (\<lambda>s. case m s of (Inl e, s') \<Rightarrow> h e s' | (Inr x, s') \<Rightarrow> (Inr x, s'))"

definition whenM :: "bool \<Rightarrow> ('s, unit) svc \<Rightarrow> ('s, unit) svc" where
  "whenM b m = (if b then m else returnM ())"

text \<open>A check that reads the state, such as a database constraint.\<close>

definition guardM :: "('s \<Rightarrow> exn option) \<Rightarrow> ('s, unit) svc" where
  "guardM c = (\<lambda>s. case c s of None \<Rightarrow> (Inr (), s) | Some e \<Rightarrow> (Inl e, s))"

text \<open>A \<^verbatim>\<open>for\<close> loop over an array, with an accumulator.\<close>

fun loopM :: "('a \<Rightarrow> 'b \<Rightarrow> ('s, 'b) svc) \<Rightarrow> 'a list \<Rightarrow> 'b \<Rightarrow> ('s, 'b) svc" where
  "loopM f [] acc = returnM acc"
| "loopM f (x # xs) acc = bindM (f x acc) (\<lambda>acc'. loopM f xs acc')"

text \<open>
  \<^verbatim>\<open>prisma.$transaction\<close>: a throw inside puts the state back. \<open>undo before after\<close> says
  what is put back; a component that keeps part of the state outside the database passes
  its own.
\<close>

definition rollbackTo :: "('s \<Rightarrow> 's \<Rightarrow> 's) \<Rightarrow> ('s, 'a) svc \<Rightarrow> ('s, 'a) svc" where
  "rollbackTo undo m =
     (\<lambda>s. case m s of (Inl e, s') \<Rightarrow> (Inl e, undo s s') | (Inr x, s') \<Rightarrow> (Inr x, s'))"

subsection \<open>Writes to a table\<close>

text \<open>
  A table is the list of its rows in the order a scan returns them. The theorems hold for
  every list, so for whatever order the database scans in. \<open>put\<close> is the update function
  of the state's table, \<open>sel\<close> its selector.
\<close>

definition countWhere :: "('r \<Rightarrow> bool) \<Rightarrow> 'r list \<Rightarrow> nat" where
  "countWhere P rows = length (filter P rows)"

definition updateWhere :: "('r \<Rightarrow> bool) \<Rightarrow> ('r \<Rightarrow> 'r) \<Rightarrow> 'r list \<Rightarrow> 'r list" where
  "updateWhere P f rows = map (\<lambda>r. if P r then f r else r) rows"

definition deleteWhere :: "('r \<Rightarrow> bool) \<Rightarrow> 'r list \<Rightarrow> 'r list" where
  "deleteWhere P rows = filter (\<lambda>r. \<not> P r) rows"

type_synonym ('s, 'r) putter = "('r list \<Rightarrow> 'r list) \<Rightarrow> 's \<Rightarrow> 's"

definition insertRow :: "('s, 'r) putter \<Rightarrow> 'r \<Rightarrow> ('s, 'r) svc" where
  "insertRow put r = (\<lambda>s. (Inr r, put (\<lambda>rows. rows @ [r]) s))"

definition insertMany :: "('s, 'r) putter \<Rightarrow> 'r list \<Rightarrow> ('s, nat) svc" where
  "insertMany put rs = (\<lambda>s. (Inr (length rs), put (\<lambda>rows. rows @ rs) s))"

text \<open>\<open>updateMany\<close> answers how many rows matched.\<close>

definition updateMany ::
  "('s \<Rightarrow> 'r list) \<Rightarrow> ('s, 'r) putter \<Rightarrow> ('r \<Rightarrow> bool) \<Rightarrow> ('r \<Rightarrow> 'r) \<Rightarrow> ('s, nat) svc" where
  "updateMany sel put P f = (\<lambda>s. (Inr (countWhere P (sel s)), put (updateWhere P f) s))"

text \<open>\<open>update\<close> by a unique key: the updated row, or error P2025 when there is none.\<close>

definition updateRow ::
  "('s \<Rightarrow> 'r list) \<Rightarrow> ('s, 'r) putter \<Rightarrow> ('r \<Rightarrow> bool) \<Rightarrow> ('r \<Rightarrow> 'r) \<Rightarrow> ('s, 'r) svc" where
  "updateRow sel put P f =
     (\<lambda>s. case find P (sel s) of
            None \<Rightarrow> (Inl (PrismaKnown ''P2025'' []), s)
          | Some r \<Rightarrow> (Inr (f r), put (updateWhere P f) s))"

definition deleteMany ::
  "('s \<Rightarrow> 'r list) \<Rightarrow> ('s, 'r) putter \<Rightarrow> ('r \<Rightarrow> bool) \<Rightarrow> ('s, nat) svc" where
  "deleteMany sel put P = (\<lambda>s. (Inr (countWhere P (sel s)), put (deleteWhere P) s))"

subsection \<open>Running an operation\<close>

lemma run_return [eval]: "returnM x s = (Inr x, s)"
  by (simp add: returnM_def)

lemma run_throw [eval]: "throwM e s = (Inl e, s)"
  by (simp add: throwM_def)

lemma run_gets [eval]: "getsM f s = (Inr (f s), s)"
  by (simp add: getsM_def)

lemma run_modify [eval]: "modifyM f s = (Inr (), f s)"
  by (simp add: modifyM_def)

lemma run_bind [eval]:
  "bindM m f s = (case m s of (Inl e, s') \<Rightarrow> (Inl e, s') | (Inr x, s') \<Rightarrow> f x s')"
  by (simp add: bindM_def)

lemma run_then [eval]:
  "thenM m k s = (case m s of (Inl e, s') \<Rightarrow> (Inl e, s') | (Inr x, s') \<Rightarrow> k s')"
  by (simp add: thenM_def bindM_def)

lemma run_throwIf [eval]: "throwIf b e s = (if b then (Inl e, s) else (Inr (), s))"
  by (simp add: throwIf_def eval)

lemma run_orThrow [eval]:
  "orThrow e x s = (case x of None \<Rightarrow> (Inl e, s) | Some v \<Rightarrow> (Inr v, s))"
  by (simp add: orThrow_def eval split: option.split)

lemma run_catch [eval]:
  "catchM m h s = (case m s of (Inl e, s') \<Rightarrow> h e s' | (Inr x, s') \<Rightarrow> (Inr x, s'))"
  by (simp add: catchM_def)

lemma run_guard [eval]:
  "guardM c s = (case c s of None \<Rightarrow> (Inr (), s) | Some e \<Rightarrow> (Inl e, s))"
  by (simp add: guardM_def)

lemma run_when [eval]: "whenM b m s = (if b then m s else (Inr (), s))"
  by (simp add: whenM_def eval)

lemma run_rollback [eval]:
  "rollbackTo undo m s =
     (case m s of (Inl e, s') \<Rightarrow> (Inl e, undo s s') | (Inr x, s') \<Rightarrow> (Inr x, s'))"
  by (simp add: rollbackTo_def)

lemma run_insert [eval]: "insertRow put r s = (Inr r, put (\<lambda>rows. rows @ [r]) s)"
  by (simp add: insertRow_def)

lemma run_insertMany [eval]:
  "insertMany put rs s = (Inr (length rs), put (\<lambda>rows. rows @ rs) s)"
  by (simp add: insertMany_def)

lemma run_updateMany [eval]:
  "updateMany sel put P f s = (Inr (countWhere P (sel s)), put (updateWhere P f) s)"
  by (simp add: updateMany_def)

lemma run_updateRow [eval]:
  "updateRow sel put P f s =
     (case find P (sel s) of
        None \<Rightarrow> (Inl (PrismaKnown ''P2025'' []), s)
      | Some r \<Rightarrow> (Inr (f r), put (updateWhere P f) s))"
  by (simp add: updateRow_def)

lemma run_deleteMany [eval]:
  "deleteMany sel put P s = (Inr (countWhere P (sel s)), put (deleteWhere P) s)"
  by (simp add: deleteMany_def)

text \<open>Inverting a successful run: every step of it succeeded.\<close>

lemma bindM_InrE:
  assumes "bindM m f s = (Inr y, s')"
  obtains x s1 where "m s = (Inr x, s1)" and "f x s1 = (Inr y, s')"
  using assms by (auto simp: bindM_def split: prod.splits sum.splits)

lemma thenM_InrE:
  assumes "thenM m k s = (Inr y, s')"
  obtains x s1 where "m s = (Inr x, s1)" and "k s1 = (Inr y, s')"
  using assms by (auto simp: thenM_def elim: bindM_InrE)

lemma throwIf_InrE:
  assumes "throwIf b e s = (Inr y, s')"
  obtains "\<not> b" and "s' = s"
  using assms by (auto simp: eval split: if_splits)

lemma orThrow_InrE:
  assumes "orThrow e x s = (Inr y, s')"
  obtains "x = Some y" and "s' = s"
  using assms by (auto simp: eval split: option.splits)

lemma guardM_InrE:
  assumes "guardM c s = (Inr y, s')"
  obtains "c s = None" and "s' = s"
  using assms by (auto simp: eval split: option.splits)

lemma returnM_InrE:
  assumes "returnM x s = (Inr y, s')"
  obtains "y = x" and "s' = s"
  using assms by (auto simp: eval)

lemma getsM_InrE:
  assumes "getsM f s = (Inr y, s')"
  obtains "y = f s" and "s' = s"
  using assms unfolding getsM_def by (intro that) (metis Pair_inject sum.inject(2))+

lemma rollbackTo_InrE:
  assumes "rollbackTo undo m s = (Inr y, s')"
  obtains "m s = (Inr y, s')"
  using assms by (auto simp: eval split: prod.splits sum.splits)

lemma insertRow_InrE:
  assumes "insertRow put r s = (Inr y, s')"
  obtains "y = r" and "s' = put (\<lambda>rows. rows @ [r]) s"
  using assms unfolding insertRow_def by (intro that) (metis Pair_inject sum.inject(2))+

lemma updateRow_InrE:
  assumes "updateRow sel put P f s = (Inr y, s')"
  obtains r where "find P (sel s) = Some r" and "y = f r" and "s' = put (updateWhere P f) s"
  using assms by (auto simp: eval split: option.splits)

lemma updateMany_InrE:
  assumes "updateMany sel put P f s = (Inr y, s')"
  obtains "y = countWhere P (sel s)" and "s' = put (updateWhere P f) s"
  using assms unfolding updateMany_def by (intro that) (metis Pair_inject sum.inject(2))+

lemmas run_elims =
  bindM_InrE thenM_InrE throwIf_InrE orThrow_InrE guardM_InrE returnM_InrE getsM_InrE
  rollbackTo_InrE insertRow_InrE updateRow_InrE updateMany_InrE

section \<open>What every step of an operation keeps\<close>

text \<open>
  \<open>related R m\<close>: the operation takes every state to a state in relation \<open>R\<close> with it,
  whether it returns or throws. For a preorder \<open>R\<close> it is enough to look at the single
  writes of the operation. A frame condition (a table is not written), an append-only
  table and a kept invariant are all preorders.
\<close>

definition related :: "('s \<Rightarrow> 's \<Rightarrow> bool) \<Rightarrow> ('s, 'a) svc \<Rightarrow> bool" where
  "related R m \<longleftrightarrow> (\<forall>s. R s (snd (m s)))"

definition keeps :: "('s \<Rightarrow> bool) \<Rightarrow> 's \<Rightarrow> 's \<Rightarrow> bool" where
  "keeps I s s' \<longleftrightarrow> (I s \<longrightarrow> I s')"

locale step_preorder =
  fixes R :: "'s \<Rightarrow> 's \<Rightarrow> bool"
    and undo :: "'s \<Rightarrow> 's \<Rightarrow> 's"
  assumes refl: "R s s"
    and trans: "R s t \<Longrightarrow> R t u \<Longrightarrow> R s u"
    and undone: "R s t \<Longrightarrow> R s (undo s t)"
begin

lemma return_rel: "related R (returnM x)"
  by (simp add: related_def returnM_def refl)

lemma throw_rel: "related R (throwM e)"
  by (simp add: related_def throwM_def refl)

lemma gets_rel: "related R (getsM f)"
  by (simp add: related_def getsM_def refl)

lemma throwIf_rel: "related R (throwIf b e)"
  by (simp add: throwIf_def return_rel throw_rel)

lemma orThrow_rel: "related R (orThrow e x)"
  by (simp add: orThrow_def return_rel throw_rel split: option.split)

lemma bind_rel: "related R m \<Longrightarrow> (\<And>x. related R (f x)) \<Longrightarrow> related R (bindM m f)"
  unfolding related_def bindM_def
  by (auto split: prod.splits sum.splits) (metis snd_conv, metis snd_conv trans)

lemma then_rel: "related R m \<Longrightarrow> related R k \<Longrightarrow> related R (thenM m k)"
  by (simp add: thenM_def bind_rel)

lemma catch_rel: "related R m \<Longrightarrow> (\<And>e. related R (h e)) \<Longrightarrow> related R (catchM m h)"
  unfolding related_def catchM_def
  by (auto split: prod.splits sum.splits) (metis snd_conv trans, metis snd_conv)

lemma guard_rel: "related R (guardM c)"
  by (simp add: related_def guardM_def refl split: option.split)

lemma insert_rel: "(\<And>s. R s (put (\<lambda>rows. rows @ [r]) s)) \<Longrightarrow> related R (insertRow put r)"
  by (simp add: related_def insertRow_def)

lemma insertMany_rel:
  "(\<And>s. R s (put (\<lambda>rows. rows @ rs) s)) \<Longrightarrow> related R (insertMany put rs)"
  by (simp add: related_def insertMany_def)

lemma updateMany_rel:
  "(\<And>s. R s (put (updateWhere P f) s)) \<Longrightarrow> related R (updateMany sel put P f)"
  by (simp add: related_def updateMany_def)

lemma updateRow_rel:
  "(\<And>s. R s (put (updateWhere P f) s)) \<Longrightarrow> related R (updateRow sel put P f)"
  by (simp add: related_def updateRow_def refl split: option.split)

lemma deleteMany_rel:
  "(\<And>s. R s (put (deleteWhere P) s)) \<Longrightarrow> related R (deleteMany sel put P)"
  by (simp add: related_def deleteMany_def)

lemma when_rel: "(b \<Longrightarrow> related R m) \<Longrightarrow> related R (whenM b m)"
  by (simp add: whenM_def return_rel)

lemma rollback_rel: "related R m \<Longrightarrow> related R (rollbackTo undo m)"
  unfolding related_def rollbackTo_def
  by (auto split: prod.splits sum.splits) (metis snd_conv undone, metis snd_conv)

lemma if_rel:
  "(b \<Longrightarrow> related R m) \<Longrightarrow> (\<not> b \<Longrightarrow> related R k) \<Longrightarrow> related R (if b then m else k)"
  by simp

lemma option_rel:
  "related R n \<Longrightarrow> (\<And>v. related R (f v)) \<Longrightarrow>
   related R (case x of None \<Rightarrow> n | Some v \<Rightarrow> f v)"
  by (simp split: option.split)

lemma prod_rel:
  "(\<And>a b. related R (f a b)) \<Longrightarrow> related R (case x of (a, b) \<Rightarrow> f a b)"
  by (simp split: prod.split)

lemma modify_rel: "(\<And>s. R s (f s)) \<Longrightarrow> related R (modifyM f)"
  by (simp add: related_def modifyM_def)

lemma loop_rel: "(\<And>x a. related R (f x a)) \<Longrightarrow> related R (loopM f xs acc)"
  by (induction xs arbitrary: acc) (auto intro: return_rel bind_rel)

text \<open>The same at one state, where what the earlier steps have established can be used.\<close>

lemma rel_at: "related R m \<Longrightarrow> R s (snd (m s))"
  by (simp add: related_def)

lemma bind_at:
  assumes "R s (snd (m s))" and "\<And>x t. m s = (Inr x, t) \<Longrightarrow> R t (snd (f x t))"
  shows "R s (snd (bindM m f s))"
  using assms by (auto simp: bindM_def split: prod.splits sum.splits intro: trans)

lemma then_at:
  assumes "R s (snd (m s))" and "\<And>x t. m s = (Inr x, t) \<Longrightarrow> R t (snd (k t))"
  shows "R s (snd (thenM m k s))"
  unfolding thenM_def using assms by (rule bind_at)

lemma gets_bind_at: "R s (snd (f (g s) s)) \<Longrightarrow> R s (snd (bindM (getsM g) f s))"
  by (simp add: bindM_def getsM_def)

lemma orThrow_bind_at:
  "(\<And>v. x = Some v \<Longrightarrow> R s (snd (f v s))) \<Longrightarrow> R s (snd (bindM (orThrow e x) f s))"
  by (cases x) (auto simp: bindM_def orThrow_def throwM_def returnM_def refl)

lemma throwIf_then_at:
  "(\<not> b \<Longrightarrow> R s (snd (k s))) \<Longrightarrow> R s (snd (thenM (throwIf b e) k s))"
  by (cases b) (auto simp: thenM_def bindM_def throwIf_def throwM_def returnM_def refl)

text \<open>A step that only reads passes its state on.\<close>

lemma ro_bind_at:
  assumes "related (=) m" and "\<And>x. m s = (Inr x, s) \<Longrightarrow> R s (snd (f x s))"
  shows "R s (snd (bindM m f s))"
proof (cases "m s")
  case (Pair r t)
  then have "t = s" using assms(1) by (metis related_def snd_conv)
  with Pair assms(2) show ?thesis by (cases r) (auto simp: bindM_def refl)
qed

lemmas rel_intros =
  return_rel throw_rel gets_rel throwIf_rel orThrow_rel bind_rel then_rel catch_rel
  guard_rel insert_rel insertMany_rel updateMany_rel updateRow_rel deleteMany_rel
  when_rel rollback_rel if_rel option_rel prod_rel modify_rel loop_rel

end

lemma relatedD: "related R m \<Longrightarrow> m s = (r, s') \<Longrightarrow> R s s'"
  by (metis related_def snd_conv)

lemma related_keepsD: "related (keeps I) m \<Longrightarrow> I s \<Longrightarrow> I (snd (m s))"
  by (simp add: related_def keeps_def)

section \<open>Tables\<close>

text \<open>
  Prisma's \<open>skip\<close> and \<open>take\<close>.
\<close>

definition page_of :: "nat \<Rightarrow> nat \<Rightarrow> 'r list \<Rightarrow> 'r list" where
  "page_of skip tk rows = take tk (drop skip rows)"

lemma find_Some_in: "find P xs = Some x \<Longrightarrow> x \<in> set xs \<and> P x"
  by (induction xs) (auto split: if_splits)

lemma find_None_all: "find P xs = None \<longleftrightarrow> (\<forall>x \<in> set xs. \<not> P x)"
  by (induction xs) auto

lemma find_filter: "find P (filter Q xs) = find (\<lambda>x. Q x \<and> P x) xs"
  by (induction xs) auto

lemma countWhere_Nil [simp]: "countWhere P [] = 0"
  by (simp add: countWhere_def)

lemma countWhere_Cons [simp]:
  "countWhere P (r # rows) = (if P r then Suc (countWhere P rows) else countWhere P rows)"
  by (simp add: countWhere_def)

lemma countWhere_append [simp]:
  "countWhere P (xs @ ys) = countWhere P xs + countWhere P ys"
  by (simp add: countWhere_def)

lemma countWhere_0: "countWhere P rows = 0 \<longleftrightarrow> (\<forall>r \<in> set rows. \<not> P r)"
  by (induction rows) auto

lemma countWhere_pos: "0 < countWhere P rows \<longleftrightarrow> (\<exists>r \<in> set rows. P r)"
  by (induction rows) auto

lemma countWhere_cong:
  "(\<And>r. r \<in> set rows \<Longrightarrow> P r = Q r) \<Longrightarrow> countWhere P rows = countWhere Q rows"
  unfolding countWhere_def by (metis filter_cong)

lemma countWhere_mono:
  "(\<And>r. r \<in> set rows \<Longrightarrow> P r \<Longrightarrow> Q r) \<Longrightarrow> countWhere P rows \<le> countWhere Q rows"
  by (induction rows) auto

lemma length_updateWhere [simp]: "length (updateWhere P f rows) = length rows"
  by (simp add: updateWhere_def)

lemma updateWhere_Nil [simp]: "updateWhere P f [] = []"
  by (simp add: updateWhere_def)

lemma updateWhere_Cons [simp]:
  "updateWhere P f (r # rows) = (if P r then f r else r) # updateWhere P f rows"
  by (simp add: updateWhere_def)

lemma updateWhere_none: "countWhere P rows = 0 \<Longrightarrow> updateWhere P f rows = rows"
  by (induction rows) (auto split: if_splits)

lemma in_updateWhere:
  "r \<in> set (updateWhere P f rows) \<longleftrightarrow>
   (\<exists>q \<in> set rows. r = (if P q then f q else q))"
  by (auto simp: updateWhere_def)

lemma updateWhere_keyed:
  assumes "d \<in> set (updateWhere (\<lambda>r. key r = k) f rows)" and "key d = k"
    and "\<And>r. key (f r) = key r"
  shows "\<exists>r \<in> set rows. key r = k \<and> d = f r"
  using assms by (auto simp: updateWhere_def split: if_splits)

lemma map_updateWhere:
  "(\<And>r. g (f r) = g r) \<Longrightarrow> map g (updateWhere P f rows) = map g rows"
  by (simp add: updateWhere_def)

lemma countWhere_updateWhere_same:
  "(\<And>r. Q (f r) = Q r) \<Longrightarrow> countWhere Q (updateWhere P f rows) = countWhere Q rows"
  by (induction rows) auto

lemma in_deleteWhere [simp]: "r \<in> set (deleteWhere P rows) \<longleftrightarrow> r \<in> set rows \<and> \<not> P r"
  by (auto simp: deleteWhere_def)

lemma find_updateWhere_key:
  assumes "\<And>r. key (f r) = key r"
  shows "find (\<lambda>r. key r = k) (updateWhere P f rows) =
         map_option (\<lambda>r. if P r then f r else r) (find (\<lambda>r. key r = k) rows)"
  using assms by (induction rows) auto

text \<open>With distinct keys, the row found by its key is the only one with that key.\<close>

lemma distinct_key_unique:
  assumes "distinct (map key rows)" and "r \<in> set rows" and "q \<in> set rows" and "key r = key q"
  shows "r = q"
  using assms by (induction rows) (auto simp: image_iff)

lemma countWhere_key_le_1:
  assumes "distinct (map key rows)"
  shows "countWhere (\<lambda>r. key r = k \<and> P r) rows \<le> 1"
  using assms
proof (induction rows)
  case Nil
  then show ?case by simp
next
  case (Cons r rows)
  then show ?case
    by (cases "key r = k \<and> P r") (auto simp: countWhere_0 countWhere_def image_iff filter_empty_conv)
qed

lemma length_page_of: "length (page_of skip tk rows) \<le> tk"
  by (simp add: page_of_def)

lemma set_page_of: "set (page_of skip tk rows) \<subseteq> set rows"
  unfolding page_of_def by (meson set_drop_subset set_take_subset subset_trans)

section \<open>Interfaces\<close>

text \<open>
  A compare-and-set on one row: \<open>cas e n\<close> moves the row from \<open>e\<close> to \<open>n\<close> and gives nothing when
  the row is not at \<open>e\<close>. \<open>move e n\<close> says which moves there is an operation for. Of any number of
  requests that decided on the same value, in whatever order they commit, exactly one gets
  through.
\<close>

fun raceWins :: "('v \<Rightarrow> 's \<Rightarrow> 's option) \<Rightarrow> 'v list \<Rightarrow> 's \<Rightarrow> nat" where
  "raceWins f [] s = 0"
| "raceWins f (n # ns) s =
     (case f n s of None \<Rightarrow> raceWins f ns s | Some t \<Rightarrow> Suc (raceWins f ns t))"

locale optimistic_lock =
  fixes ok :: "'s \<Rightarrow> bool"
    and cur :: "'s \<Rightarrow> 'v option"
    and move :: "'v \<Rightarrow> 'v \<Rightarrow> bool"
    and cas :: "'v \<Rightarrow> 'v \<Rightarrow> 's \<Rightarrow> 's option"
  assumes win: "ok s \<Longrightarrow> move e n \<Longrightarrow> cas e n s = Some t \<Longrightarrow> cur t = Some n \<and> ok t"
    and lose: "ok s \<Longrightarrow> move e n \<Longrightarrow> cur s \<noteq> Some e \<Longrightarrow> cas e n s = None"
    and progress: "ok s \<Longrightarrow> move e n \<Longrightarrow> cur s = Some e \<Longrightarrow> cas e n s \<noteq> None"
begin

lemma loser:
  "ok s \<Longrightarrow> move e n \<Longrightarrow> move e m \<Longrightarrow> cas e n s = Some t \<Longrightarrow> n \<noteq> e \<Longrightarrow> cas e m t = None"
  using win [of s e n t] lose [of t e m] by simp

lemma no_win: "ok s \<Longrightarrow> \<forall>n \<in> set ns. move e n \<Longrightarrow> cur s \<noteq> Some e \<Longrightarrow> raceWins (cas e) ns s = 0"
  by (induction ns) (simp_all add: lose)

lemma one_winner:
  assumes "ok s" and "cur s = Some e" and "ns \<noteq> []" and "\<forall>n \<in> set ns. n \<noteq> e \<and> move e n"
  shows "raceWins (cas e) ns s = 1"
proof -
  obtain n ms where ns: "ns = n # ms" using assms(3) by (cases ns) auto
  then have mv: "move e n" using assms(4) by simp
  obtain t where t: "cas e n s = Some t" using progress [OF assms(1) mv assms(2)] by blast
  then have "cur t = Some n" "ok t" using win [OF assms(1) mv t] by auto
  then have "raceWins (cas e) ms t = 0" using assms(4) ns by (intro no_win) auto
  then show ?thesis by (simp add: ns t)
qed

end

end
