(* ===== verification/Js.thy ===== *)
theory Js
  imports Prelude
begin

text \<open>
  What the code uses of the JavaScript standard library: numbers as decimal strings and
  \<open>padStart\<close>, the string methods, \<open>Math.min\<close>, \<open>Math.max\<close> and truncation, and UTC
  dates held as milliseconds since 1970. Strings are lists of characters; only ASCII case
  and white space are folded.
\<close>

section \<open>Decimal numerals\<close>

definition digits :: string where
  "digits = ''0123456789''"

fun show_nat :: "nat \<Rightarrow> string" where
  "show_nat n =
     (if n < 10 then [digits ! n] else show_nat (n div 10) @ [digits ! (n mod 10)])"

declare show_nat.simps [simp del]

definition show_int :: "int \<Rightarrow> string" where
  "show_int i = (if i < 0 then ''-'' @ show_nat (nat (- i)) else show_nat (nat i))"

text \<open>\<open>s.padStart(n, c)\<close>.\<close>

definition padStart :: "nat \<Rightarrow> char \<Rightarrow> string \<Rightarrow> string" where
  "padStart n c s = replicate (n - length s) c @ s"

text \<open>Reading a numeral back, used to show that two numerals differ.\<close>

definition digit_val :: "char \<Rightarrow> nat" where
  "digit_val c = (of_char c :: nat) - 48"

definition read_nat :: "string \<Rightarrow> nat" where
  "read_nat s = foldl (\<lambda>n c. 10 * n + digit_val c) 0 s"

lemma less_10_cases:
  "(n::nat) < 10 \<Longrightarrow>
   n = 0 \<or> n = 1 \<or> n = 2 \<or> n = 3 \<or> n = 4 \<or> n = 5 \<or> n = 6 \<or> n = 7 \<or> n = 8 \<or> n = 9"
  by arith

lemma digit_val_nth: "n < 10 \<Longrightarrow> digit_val (digits ! n) = n"
  by (drule less_10_cases) (auto simp: digit_val_def digits_def)

lemma digit_in: "n < 10 \<Longrightarrow> digits ! n \<in> set digits"
  by (rule nth_mem) (simp add: digits_def)

lemma read_nat_snoc [simp]: "read_nat (s @ [c]) = 10 * read_nat s + digit_val c"
  by (simp add: read_nat_def)

lemma read_show_nat: "read_nat (show_nat n) = n"
proof (induction n rule: show_nat.induct)
  case (1 n)
  show ?case
  proof (cases "n < 10")
    case True
    then show ?thesis
      by (subst show_nat.simps) (simp add: read_nat_def digit_val_nth)
  next
    case False
    then show ?thesis
      using 1 by (subst show_nat.simps) (simp add: digit_val_nth)
  qed
qed

lemma show_nat_digits: "set (show_nat n) \<subseteq> set digits"
proof (induction n rule: show_nat.induct)
  case (1 n)
  then show ?case
    by (cases "n < 10") (auto simp: show_nat.simps [of n] digit_in)
qed

lemma show_nat_nonempty: "show_nat n \<noteq> []"
  by (subst show_nat.simps) simp

lemma show_nat_inj: "show_nat m = show_nat n \<longleftrightarrow> m = n"
  by (metis read_show_nat)

lemma read_nat_zeros: "read_nat (replicate k (CHR ''0'') @ s) = read_nat s"
  by (induction k) (auto simp: read_nat_def digit_val_def)

lemma read_pad: "read_nat (padStart k (CHR ''0'') s) = read_nat s"
  by (simp add: padStart_def read_nat_zeros)

lemma length_padStart: "length (padStart k c s) = max k (length s)"
  by (simp add: padStart_def)

lemma length_show_nat: "0 < k \<Longrightarrow> n < 10 ^ k \<Longrightarrow> length (show_nat n) \<le> k"
proof (induction n arbitrary: k rule: show_nat.induct)
  case (1 n)
  show ?case
  proof (cases "n < 10")
    case True
    with "1.prems" show ?thesis by (subst show_nat.simps) simp
  next
    case False
    with "1.prems" obtain j where j: "k = Suc j" "0 < j"
      by (cases k; cases "k - 1") auto
    with "1.prems" have "n div 10 < 10 ^ j" by (simp add: less_mult_imp_div_less mult.commute)
    with "1.IH" False j show ?thesis by (subst show_nat.simps) simp
  qed
qed

section \<open>Strings\<close>

definition is_space :: "char \<Rightarrow> bool" where
  "is_space c = (c \<in> {CHR '' '', CHR 0x09, CHR 0x0A, CHR 0x0B, CHR 0x0C, CHR 0x0D})"

definition js_trim :: "string \<Rightarrow> string" where
  "js_trim s = rev (dropWhile is_space (rev (dropWhile is_space s)))"

definition lower_char :: "char \<Rightarrow> char" where
  "lower_char c =
     (let n = (of_char c :: nat) in if 65 \<le> n \<and> n \<le> 90 then char_of (n + 32) else c)"

definition js_lower :: "string \<Rightarrow> string" where
  "js_lower s = map lower_char s"

text \<open>\<open>s.split(c)\<close> for a one-character separator.\<close>

fun split_on :: "char \<Rightarrow> string \<Rightarrow> string list" where
  "split_on c [] = [[]]"
| "split_on c (x # xs) =
     (if x = c then [] # split_on c xs
      else (case split_on c xs of [] \<Rightarrow> [[x]] | p # ps \<Rightarrow> (x # p) # ps))"

text \<open>\<open>parts.join(sep)\<close>.\<close>

fun join_with :: "string \<Rightarrow> string list \<Rightarrow> string" where
  "join_with sep [] = []"
| "join_with sep [s] = s"
| "join_with sep (s # t # ts) = s @ sep @ join_with sep (t # ts)"

definition starts_with :: "string \<Rightarrow> string \<Rightarrow> bool" where
  "starts_with p s = (take (length p) s = p)"

definition ends_with :: "string \<Rightarrow> string \<Rightarrow> bool" where
  "ends_with p s = starts_with (rev p) (rev s)"

lemma split_on_nonempty: "split_on c s \<noteq> []"
  by (induction s) (auto split: list.splits)

lemma join_split_on: "join_with [c] (split_on c s) = s"
proof (induction s)
  case Nil
  then show ?case by simp
next
  case (Cons x s)
  then show ?case
    by (cases "split_on c s"; cases "tl (split_on c s)")
      (auto simp: split_on_nonempty split: list.splits)
qed

lemma js_trim_idem: "js_trim (js_trim s) = js_trim s"
proof -
  have drop_idem: "dropWhile is_space (dropWhile is_space t) = dropWhile is_space t" for t
    by (induction t) auto
  have keep_end: "dropWhile is_space (rev (dropWhile is_space (rev t))) =
      rev (dropWhile is_space (rev (dropWhile is_space t)))" for t
  proof (induction t)
    case Nil
    then show ?case by simp
  next
    case (Cons x t)
    show ?case
    proof (cases "is_space x")
      case True
      show ?thesis
      proof (cases "\<exists>y \<in> set t. \<not> is_space y")
        case ex: True
        then have "dropWhile is_space (rev t @ [x]) = dropWhile is_space (rev t) @ [x]"
          by (metis dropWhile_append1 set_rev)
        with True Cons show ?thesis by simp
      next
        case False
        with True have e: "dropWhile is_space (rev t @ [x]) = []" and f: "dropWhile is_space t = []"
          by (auto simp: dropWhile_eq_Nil_conv)
        show ?thesis using True by (simp add: e f)
      qed
    next
      case False
      then have "dropWhile is_space (rev t @ [x]) = dropWhile is_space (rev t) @ [x]"
        by (cases "\<exists>y \<in> set t. \<not> is_space y")
          (auto simp: dropWhile_append dropWhile_eq_Nil_conv dropWhile_append3)
      with False show ?thesis by simp
    qed
  qed
  show ?thesis by (simp add: js_trim_def keep_end drop_idem)
qed

lemma lower_char_idem: "lower_char (lower_char c) = lower_char c"
proof -
  have "of_char (char_of (n + 32) :: char) = n + 32" if "65 \<le> n" "n \<le> 90" for n :: nat
    using that by simp
  then show ?thesis by (simp add: lower_char_def Let_def)
qed

lemma js_lower_idem: "js_lower (js_lower s) = js_lower s"
  by (simp add: js_lower_def lower_char_idem)

section \<open>Numbers\<close>

text \<open>\<open>Math.trunc\<close>, which is also what \<open>new Date(x)\<close> does to a fractional time.\<close>

definition js_trunc :: "real \<Rightarrow> int" where
  "js_trunc x = (if 0 \<le> x then \<lfloor>x\<rfloor> else \<lceil>x\<rceil>)"

text \<open>\<open>Math.round\<close>: halves go up.\<close>

definition js_round :: "real \<Rightarrow> int" where
  "js_round x = \<lfloor>x + 1/2\<rfloor>"

section \<open>UTC dates\<close>

definition ms_per_day :: int where
  "ms_per_day = 86400000"

text \<open>The civil date (year, month 1..12, day 1..31) of a day counted from 1970-01-01.\<close>

definition civil_of_day :: "int \<Rightarrow> int \<times> int \<times> int" where
  "civil_of_day d =
     (let z = d + 719468;
          era = z div 146097;
          doe = z mod 146097;
          yoe = (doe - doe div 1460 + doe div 36524 - doe div 146096) div 365;
          doy = doe - (365 * yoe + yoe div 4 - yoe div 100);
          mp = (5 * doy + 2) div 153;
          day = doy - (153 * mp + 2) div 5 + 1;
          month = (if mp < 10 then mp + 3 else mp - 9);
          year = yoe + era * 400 + (if month \<le> 2 then 1 else 0)
      in (year, month, day))"

text \<open>\<open>getUTCFullYear()\<close>.\<close>

definition utc_year :: "int \<Rightarrow> int" where
  "utc_year t = fst (civil_of_day (t div ms_per_day))"

text \<open>\<open>setUTCHours(0, 0, 0, 0)\<close> and, before it, \<open>setUTCDate(1)\<close>.\<close>

definition start_of_day :: "int \<Rightarrow> int" where
  "start_of_day t = t - t mod ms_per_day"

definition start_of_month :: "int \<Rightarrow> int" where
  "start_of_month t = start_of_day t - (snd (snd (civil_of_day (t div ms_per_day))) - 1) * ms_per_day"

text \<open>\<open>setUTCHours(23, 59, 59, 999)\<close>.\<close>

definition end_of_day :: "int \<Rightarrow> int" where
  "end_of_day t = start_of_day t + (ms_per_day - 1)"

definition pad_int :: "nat \<Rightarrow> int \<Rightarrow> string" where
  "pad_int k i = padStart k (CHR ''0'') (show_int i)"

text \<open>\<open>toISOString()\<close> for the years 0 to 9999.\<close>

definition iso_string :: "int \<Rightarrow> string" where
  "iso_string t =
     (case civil_of_day (t div ms_per_day) of (y, m, d) \<Rightarrow>
       (let ms = t mod ms_per_day in
        pad_int 4 y @ ''-'' @ pad_int 2 m @ ''-'' @ pad_int 2 d @ ''T'' @
        pad_int 2 (ms div 3600000) @ '':'' @ pad_int 2 (ms div 60000 mod 60) @ '':'' @
        pad_int 2 (ms div 1000 mod 60) @ ''.'' @ pad_int 3 (ms mod 1000) @ ''Z''))"

lemma start_of_day_le: "start_of_day t \<le> t \<and> t < start_of_day t + ms_per_day"
  by (simp add: start_of_day_def ms_per_day_def)

lemma end_of_day_bounds: "t \<le> end_of_day t \<and> end_of_day t < start_of_day t + ms_per_day"
  using start_of_day_le [of t] by (simp add: end_of_day_def)

lemma utc_year_nonneg:
  assumes "0 \<le> t"
  shows "0 \<le> utc_year t"
proof -
  define z where "z = t div ms_per_day + 719468"
  define doe where "doe = z mod 146097"
  define yoe where "yoe = (doe - doe div 1460 + doe div 36524 - doe div 146096) div 365"
  have z: "0 \<le> z" using assms by (simp add: z_def ms_per_day_def pos_imp_zdiv_nonneg_iff)
  then have era: "0 \<le> z div 146097" by (simp add: pos_imp_zdiv_nonneg_iff)
  have doe: "0 \<le> doe" "doe \<le> 146096" by (simp_all add: doe_def)
  have parts: "doe div 1460 \<le> doe" "doe div 146096 \<le> 1" "0 \<le> doe div 36524"
    using doe zdiv_mono1 [of doe 146096 146096] zdiv_mono2 [of doe 1 1460]
    by (simp_all add: pos_imp_zdiv_nonneg_iff)
  have gen: "-1 \<le> d - a + c - b" if "a \<le> d" "b \<le> 1" "0 \<le> c" for a b c d :: int
    using that by linarith
  have "-1 \<le> doe - doe div 1460 + doe div 36524 - doe div 146096" by (rule gen [OF parts])
  moreover have "-1 \<le> x div 365" if "-1 \<le> x" for x :: int
    using zdiv_mono1 [OF that, of 365] by simp
  ultimately have yoe: "-1 \<le> yoe" unfolding yoe_def by blast
  have "719468 \<le> z" using assms by (simp add: z_def ms_per_day_def pos_imp_zdiv_nonneg_iff)
  then have "719468 div 146097 \<le> z div 146097" by (rule zdiv_mono1) simp
  then have era1: "1 \<le> z div 146097" by simp
  have "\<exists>M. utc_year t = yoe + z div 146097 * 400 + (if M \<le> (2 :: int) then 1 else 0)"
    unfolding utc_year_def civil_of_day_def Let_def fst_conv z_def [symmetric] doe_def [symmetric]
      yoe_def [symmetric]
    by (rule exI) (rule refl)
  then obtain M where "utc_year t = yoe + z div 146097 * 400 + (if M \<le> (2 :: int) then 1 else 0)" ..
  moreover have "0 \<le> y + e * 400 + (if M \<le> (2 :: int) then 1 else 0)" if "-1 \<le> y" "1 \<le> e" for y e :: int
    using that by simp
  ultimately show ?thesis using yoe era1 by metis
qed

end
