(* ===== verification/Schema.thy ===== *)
theory Schema
  imports Js
begin

text \<open>
  The data the server keeps: the Prisma models of \<^verbatim>\<open>prisma/schema/*.prisma\<close>
  as records (one field per column, relations left out because they are looked up by id),
  the enums as datatypes, what the authentication flows park in Redis, and the whole
  state of the server as one record. Fields carry a short prefix per table, and enum
  constructors one per enum where two enums share a name, because HOL has one name space.
  Times are milliseconds since 1970, \<open>Decimal(10,2)\<close> columns are whole hundredths.
\<close>

type_synonym instant = int
type_synonym paisa = int

section \<open>Enums\<close>

datatype role = CITIZEN | OFFICER | ADMIN

datatype user_status = ACTIVE | BLOCKED

datatype auth_provider = LOCAL | GOOGLE

datatype priority = LOW | MEDIUM | HIGH | URGENT

datatype complaint_status =
    SUBMITTED
  | UNDER_REVIEW
  | ASSIGNED
  | IN_PROGRESS
  | RESOLVED
  | CLOSED
  | REOPENED
  | REJECTED
  | CANCELLED

datatype sr_status =
    SR_PENDING_PAYMENT
  | SR_PAID
  | SR_PROCESSING
  | SR_COMPLETED
  | SR_REJECTED
  | SR_CANCELLED

datatype pay_status = PENDING | SUCCESS | FAILED | PAY_CANCELLED | REFUNDED

datatype sec_event =
    EV_LOGIN_SUCCESS
  | EV_LOGIN_FAILED
  | EV_OTP_SENT
  | EV_OTP_FAILED
  | EV_ACCOUNT_LOCKED
  | EV_NEW_DEVICE
  | EV_TOKEN_REUSE
  | EV_PASSWORD_CHANGED
  | EV_TWO_FA_TOGGLED
  | EV_ROLE_CHANGED
  | EV_SESSION_REVOKED

datatype refund_status = REQUESTED | APPROVED | PROCESSED | RF_REJECTED

datatype email_status = QUEUED | SENT | EM_FAILED

datatype attachment_kind = EVIDENCE | RESOLUTION_PROOF

datatype contact_status = CM_NEW | CM_IN_PROGRESS | CM_RESOLVED | CM_SPAM

text \<open>The enum values as the strings the code compares and prints.\<close>

fun show_role :: "role \<Rightarrow> string" where
  "show_role CITIZEN = ''CITIZEN''"
| "show_role OFFICER = ''OFFICER''"
| "show_role ADMIN = ''ADMIN''"

fun show_user_status :: "user_status \<Rightarrow> string" where
  "show_user_status ACTIVE = ''ACTIVE''"
| "show_user_status BLOCKED = ''BLOCKED''"

fun show_priority :: "priority \<Rightarrow> string" where
  "show_priority LOW = ''LOW''"
| "show_priority MEDIUM = ''MEDIUM''"
| "show_priority HIGH = ''HIGH''"
| "show_priority URGENT = ''URGENT''"

fun show_status :: "complaint_status \<Rightarrow> string" where
  "show_status SUBMITTED = ''SUBMITTED''"
| "show_status UNDER_REVIEW = ''UNDER_REVIEW''"
| "show_status ASSIGNED = ''ASSIGNED''"
| "show_status IN_PROGRESS = ''IN_PROGRESS''"
| "show_status RESOLVED = ''RESOLVED''"
| "show_status CLOSED = ''CLOSED''"
| "show_status REOPENED = ''REOPENED''"
| "show_status REJECTED = ''REJECTED''"
| "show_status CANCELLED = ''CANCELLED''"

fun show_sr_status :: "sr_status \<Rightarrow> string" where
  "show_sr_status SR_PENDING_PAYMENT = ''PENDING_PAYMENT''"
| "show_sr_status SR_PAID = ''PAID''"
| "show_sr_status SR_PROCESSING = ''PROCESSING''"
| "show_sr_status SR_COMPLETED = ''COMPLETED''"
| "show_sr_status SR_REJECTED = ''REJECTED''"
| "show_sr_status SR_CANCELLED = ''CANCELLED''"

fun show_pay_status :: "pay_status \<Rightarrow> string" where
  "show_pay_status PENDING = ''PENDING''"
| "show_pay_status SUCCESS = ''SUCCESS''"
| "show_pay_status FAILED = ''FAILED''"
| "show_pay_status PAY_CANCELLED = ''CANCELLED''"
| "show_pay_status REFUNDED = ''REFUNDED''"

definition show_bool :: "bool \<Rightarrow> string" where
  "show_bool b = (if b then ''true'' else ''false'')"

section \<open>Rows\<close>

text \<open>\<^verbatim>\<open>user.prisma\<close>.\<close>

record user =
  u_id :: "string"
  u_name :: "string"
  u_email :: "string"
  u_password :: "string option"
  u_phone :: "string option"
  u_avatarUrl :: "string option"
  u_role :: "role"
  u_status :: "user_status"
  u_provider :: "auth_provider"
  u_googleId :: "string option"
  u_emailVerifiedAt :: "instant option"
  u_twoFactorEnabled :: "bool"
  u_isSuperAdmin :: "bool"
  u_lastLoginAt :: "instant option"
  u_lastLoginIp :: "string option"
  u_wardId :: "string option"
  u_departmentId :: "string option"
  u_passwordChangedAt :: "instant option"
  u_createdAt :: "instant"
  u_updatedAt :: "instant"
  u_deletedAt :: "instant option"

text \<open>\<^verbatim>\<open>auth.prisma\<close>.\<close>

record session =
  se_id :: "string"
  se_userId :: "string"
  se_ip :: "string option"
  se_userAgent :: "string option"
  se_deviceName :: "string option"
  se_lastUsedAt :: "instant"
  se_expiresAt :: "instant"
  se_revokedAt :: "instant option"
  se_revokedReason :: "string option"
  se_createdAt :: "instant"

record refreshToken =
  rt_id :: "string"
  rt_tokenHash :: "string"
  rt_userId :: "string"
  rt_sessionId :: "string"
  rt_replacedById :: "string option"
  rt_expiresAt :: "instant"
  rt_revokedAt :: "instant option"
  rt_createdAt :: "instant"

record trustedDevice =
  td_id :: "string"
  td_userId :: "string"
  td_tokenHash :: "string"
  td_userAgent :: "string option"
  td_expiresAt :: "instant"
  td_createdAt :: "instant"

record securityEvent =
  sv_id :: "string"
  sv_userId :: "string option"
  sv_email :: "string option"
  sv_type :: "sec_event"
  sv_ip :: "string option"
  sv_userAgent :: "string option"
  sv_meta :: "json option"
  sv_createdAt :: "instant"

text \<open>\<^verbatim>\<open>location.prisma\<close> and \<^verbatim>\<open>organization.prisma\<close>.\<close>

record zone =
  z_id :: "string"
  z_name :: "string"

record ward =
  w_id :: "string"
  w_number :: "int"
  w_name :: "string"
  w_zoneId :: "string option"

record department =
  dp_id :: "string"
  dp_name :: "string"
  dp_email :: "string option"
  dp_phone :: "string option"
  dp_address :: "string option"
  dp_deletedAt :: "instant option"
  dp_createdAt :: "instant"

record category =
  cat_id :: "string"
  cat_name :: "string"
  cat_departmentId :: "string"
  cat_slaHours :: "int"
  cat_defaultPriority :: "priority"
  cat_deletedAt :: "instant option"

text \<open>\<^verbatim>\<open>complaint.prisma\<close>.\<close>

record counter =
  cn_year :: "int"
  cn_value :: "nat"

record complaint =
  c_id :: "string"
  c_trackingId :: "string"
  c_title :: "string"
  c_description :: "string"
  c_status :: "complaint_status"
  c_priority :: "priority"
  c_address :: "string"
  c_latitude :: "real option"
  c_longitude :: "real option"
  c_citizenId :: "string"
  c_officerId :: "string option"
  c_categoryId :: "string"
  c_wardId :: "string"
  c_slaDueAt :: "instant"
  c_isEscalated :: "bool"
  c_upvoteCount :: "int"
  c_reopenCount :: "int"
  c_resolvedAt :: "instant option"
  c_closedAt :: "instant option"
  c_createdAt :: "instant"
  c_updatedAt :: "instant"
  c_deletedAt :: "instant option"

record history =
  h_id :: "string"
  h_complaintId :: "string"
  h_fromStatus :: "complaint_status option"
  h_toStatus :: "complaint_status"
  h_note :: "string option"
  h_changedById :: "string option"
  h_createdAt :: "instant"

record assignment =
  as_id :: "string"
  as_complaintId :: "string"
  as_officerId :: "string"
  as_assignedById :: "string option"
  as_reason :: "string option"
  as_assignedAt :: "instant"
  as_unassignedAt :: "instant option"

record escalation =
  es_id :: "string"
  es_complaintId :: "string"
  es_level :: "int"
  es_reason :: "string"
  es_notifiedUserId :: "string option"
  es_resolvedAt :: "instant option"
  es_createdAt :: "instant"

record attachment =
  at_id :: "string"
  at_complaintId :: "string"
  at_url :: "string"
  at_publicId :: "string"
  at_kind :: "attachment_kind"
  at_uploadedById :: "string"
  at_createdAt :: "instant"

record comment =
  cm_id :: "string"
  cm_complaintId :: "string"
  cm_authorId :: "string"
  cm_body :: "string"
  cm_isInternal :: "bool"
  cm_createdAt :: "instant"
  cm_deletedAt :: "instant option"

record upvote =
  uv_id :: "string"
  uv_complaintId :: "string"
  uv_userId :: "string"
  uv_createdAt :: "instant"

record feedback =
  fb_id :: "string"
  fb_complaintId :: "string"
  fb_rating :: "int"
  fb_comment :: "string option"
  fb_createdAt :: "instant"

text \<open>\<^verbatim>\<open>service-request.prisma\<close> and \<^verbatim>\<open>payment.prisma\<close>.\<close>

record serviceType =
  st_id :: "string"
  st_name :: "string"
  st_fee :: "paisa"
  st_isActive :: "bool"
  st_deletedAt :: "instant option"

record serviceRequest =
  sr_id :: "string"
  sr_referenceNo :: "string"
  sr_citizenId :: "string"
  sr_serviceTypeId :: "string"
  sr_details :: "json option"
  sr_status :: "sr_status"
  sr_processedById :: "string option"
  sr_createdAt :: "instant"
  sr_updatedAt :: "instant"
  sr_deletedAt :: "instant option"

record document =
  doc_id :: "string"
  doc_serviceRequestId :: "string"
  doc_label :: "string"
  doc_url :: "string"
  doc_publicId :: "string"
  doc_createdAt :: "instant"

record payment =
  p_id :: "string"
  p_transactionId :: "string"
  p_serviceRequestId :: "string"
  p_userId :: "string"
  p_amount :: "paisa"
  p_currency :: "string"
  p_status :: "pay_status"
  p_gateway :: "string"
  p_valId :: "string option"
  p_gatewayResponse :: "json option"
  p_paidAt :: "instant option"
  p_createdAt :: "instant"
  p_updatedAt :: "instant"

record paymentEvent =
  pe_id :: "string"
  pe_paymentId :: "string option"
  pe_transactionId :: "string"
  pe_source :: "string"
  pe_payload :: "json"
  pe_signatureOk :: "bool"
  pe_processed :: "bool"
  pe_ip :: "string option"
  pe_createdAt :: "instant"

record refund =
  rf_id :: "string"
  rf_paymentId :: "string"
  rf_amount :: "paisa"
  rf_reason :: "string"
  rf_status :: "refund_status"
  rf_requestedById :: "string"
  rf_approvedById :: "string option"
  rf_gatewayRefId :: "string option"
  rf_processedAt :: "instant option"
  rf_createdAt :: "instant"

text \<open>\<^verbatim>\<open>system.prisma\<close>, \<^verbatim>\<open>rbac.prisma\<close> and \<^verbatim>\<open>contact.prisma\<close>.\<close>

record idempotencyKey =
  ik_id :: "string"
  ik_key :: "string"
  ik_userId :: "string"
  ik_endpoint :: "string"
  ik_requestHash :: "string"
  ik_responseBody :: "json option"
  ik_statusCode :: "int option"
  ik_expiresAt :: "instant"
  ik_createdAt :: "instant"

record notification =
  n_id :: "string"
  n_userId :: "string"
  n_title :: "string"
  n_body :: "string"
  n_isRead :: "bool"
  n_meta :: "json option"
  n_createdAt :: "instant"

record emailLog =
  el_id :: "string"
  el_to :: "string"
  el_template :: "string"
  el_status :: "email_status"
  el_error :: "string option"
  el_attempts :: "nat"
  el_createdAt :: "instant"
  el_sentAt :: "instant option"

record auditLog =
  al_id :: "string"
  al_actorId :: "string option"
  al_action :: "string"
  al_entityType :: "string"
  al_entityId :: "string"
  al_before :: "json option"
  al_after :: "json option"
  al_ip :: "string option"
  al_userAgent :: "string option"
  al_createdAt :: "instant"

record setting =
  ss_key :: "string"
  ss_value :: "json"
  ss_updatedById :: "string option"
  ss_updatedAt :: "instant"

record permission =
  pm_id :: "string"
  pm_code :: "string"
  pm_name :: "string"
  pm_description :: "string option"
  pm_category :: "string"
  pm_isSystem :: "bool"
  pm_createdAt :: "instant"
  pm_updatedAt :: "instant"

record accessRole =
  ar_id :: "string"
  ar_name :: "string"
  ar_description :: "string option"
  ar_isSystem :: "bool"
  ar_mirrors :: "role option"
  ar_createdAt :: "instant"
  ar_updatedAt :: "instant"

record accessRolePermission =
  arp_roleId :: "string"
  arp_permissionId :: "string"

record userAccessRole =
  uar_userId :: "string"
  uar_roleId :: "string"
  uar_assignedAt :: "instant"

record contactMessage =
  ct_id :: "string"
  ct_name :: "string"
  ct_email :: "string"
  ct_phone :: "string option"
  ct_subject :: "string"
  ct_message :: "string"
  ct_status :: "contact_status"
  ct_handledById :: "string option"
  ct_handledAt :: "instant option"
  ct_note :: "string option"
  ct_ip :: "string option"
  ct_userAgent :: "string option"
  ct_createdAt :: "instant"
  ct_updatedAt :: "instant"

section \<open>Redis\<close>

text \<open>
  \<open>PendingSignup\<close> and \<open>LoginChallenge\<close> of \<^verbatim>\<open>auth.types.ts\<close>. The code stores them, and every
  cached list, as JSON text; the model stores the value whose text it is.
\<close>

record pendingSignup =
  ps_name :: "string"
  ps_email :: "string"
  ps_provider :: "auth_provider"
  ps_passwordHash :: "string option"
  ps_googleId :: "string option"
  ps_avatarUrl :: "string option"
  ps_phone :: "string option"
  ps_otpHash :: "string"
  ps_attempts :: "nat"

record loginChallenge =
  lc_userId :: "string"
  lc_otpHash :: "string"
  lc_attempts :: "nat"
  lc_resends :: "nat"
  lc_ipHash :: "string"
  lc_uaHash :: "string"
  lc_magicHash :: "string option"

datatype rval =
    RText string
  | RNum nat
  | RPending pendingSignup
  | RChallenge loginChallenge
  | RCached json

text \<open>A key holds a value and the instant it expires, if it does.\<close>

type_synonym redis = "string \<Rightarrow> (rval \<times> instant option) option"

section \<open>The state of the server\<close>

text \<open>
  The database, Redis, the setting cache of \<^verbatim>\<open>settings.ts\<close>, the metric counters, the mail
  handed to the transport and the positions in the three random tapes. \<open>clock\<close> is what
  \<open>Date.now()\<close> reads; no operation moves it, so one operation sees one instant.
\<close>

record world =
  clock :: "instant"
  uuidPos :: "nat"
  tokPos :: "nat"
  otpPos :: "nat"
  redisUp :: "bool"
  redis :: "redis"
  settingCache :: "string \<Rightarrow> (real \<times> instant) option"
  metrics :: "string \<Rightarrow> nat"
  mailbox :: "(string \<times> string \<times> string list) list"
  users :: "user list"
  sessions :: "session list"
  refreshTokens :: "refreshToken list"
  trustedDevices :: "trustedDevice list"
  securityEvents :: "securityEvent list"
  zones :: "zone list"
  wards :: "ward list"
  departments :: "department list"
  categories :: "category list"
  counters :: "counter list"
  complaints :: "complaint list"
  histories :: "history list"
  assignments :: "assignment list"
  escalations :: "escalation list"
  attachments :: "attachment list"
  comments :: "comment list"
  upvotes :: "upvote list"
  feedbacks :: "feedback list"
  serviceTypes :: "serviceType list"
  serviceRequests :: "serviceRequest list"
  documents :: "document list"
  payments :: "payment list"
  paymentEvents :: "paymentEvent list"
  refunds :: "refund list"
  idempotencyKeys :: "idempotencyKey list"
  notifications :: "notification list"
  emailLogs :: "emailLog list"
  auditLogs :: "auditLog list"
  settings :: "setting list"
  permissions :: "permission list"
  accessRoles :: "accessRole list"
  accessRolePermissions :: "accessRolePermission list"
  userAccessRoles :: "userAccessRole list"
  contactMessages :: "contactMessage list"

text \<open>A freshly migrated database with nothing in it, and Redis up.\<close>

definition empty_world :: world where
  "empty_world = \<lparr>
     clock = 0,
     uuidPos = 0,
     tokPos = 0,
     otpPos = 0,
     redisUp = True,
     redis = (\<lambda>_. None),
     settingCache = (\<lambda>_. None),
     metrics = (\<lambda>_. 0),
     mailbox = [],
     users = [],
     sessions = [],
     refreshTokens = [],
     trustedDevices = [],
     securityEvents = [],
     zones = [],
     wards = [],
     departments = [],
     categories = [],
     counters = [],
     complaints = [],
     histories = [],
     assignments = [],
     escalations = [],
     attachments = [],
     comments = [],
     upvotes = [],
     feedbacks = [],
     serviceTypes = [],
     serviceRequests = [],
     documents = [],
     payments = [],
     paymentEvents = [],
     refunds = [],
     idempotencyKeys = [],
     notifications = [],
     emailLogs = [],
     auditLogs = [],
     settings = [],
     permissions = [],
     accessRoles = [],
     accessRolePermissions = [],
     userAccessRoles = [],
     contactMessages = []\<rparr>"

type_synonym 'a act = "(world, 'a) svc"

section \<open>Orders the code sorts by\<close>

text \<open>Enum columns sort in declaration order.\<close>

fun priority_rank :: "priority \<Rightarrow> nat" where
  "priority_rank LOW = 0"
| "priority_rank MEDIUM = 1"
| "priority_rank HIGH = 2"
| "priority_rank URGENT = 3"

instantiation priority :: linorder
begin

definition less_eq_priority :: "priority \<Rightarrow> priority \<Rightarrow> bool" where
  "less_eq_priority p q \<longleftrightarrow> priority_rank p \<le> priority_rank q"

definition less_priority :: "priority \<Rightarrow> priority \<Rightarrow> bool" where
  "less_priority p q \<longleftrightarrow> priority_rank p < priority_rank q"

instance
proof
  fix p q r :: priority
  show "p < q \<longleftrightarrow> p \<le> q \<and> \<not> q \<le> p"
    by (auto simp: less_eq_priority_def less_priority_def)
  show "p \<le> p" by (simp add: less_eq_priority_def)
  show "p \<le> q \<Longrightarrow> q \<le> r \<Longrightarrow> p \<le> r" by (simp add: less_eq_priority_def)
  show "p \<le> q \<Longrightarrow> q \<le> p \<Longrightarrow> p = q"
    by (cases p; cases q) (auto simp: less_eq_priority_def)
  show "p \<le> q \<or> q \<le> p" by (auto simp: less_eq_priority_def)
qed

end

lemma priority_order [simp]:
  "LOW \<le> p" "p \<le> URGENT" "LOW < MEDIUM" "MEDIUM < HIGH" "HIGH < URGENT"
  by (cases p; simp add: less_eq_priority_def less_priority_def)+

lemma show_role_inj [simp]: "show_role r = show_role q \<longleftrightarrow> r = q"
  by (cases r; cases q) auto

lemma show_status_inj [simp]: "show_status r = show_status q \<longleftrightarrow> r = q"
  by (cases r; cases q) auto

end
