(* ===== verification/Db.thy ===== *)
theory Db
  imports Schema
begin

text \<open>
  What every service stands on: the parameters for code the repository does not contain,
  the soft-delete read filter and the transactions of \<^verbatim>\<open>src/lib/prisma.ts\<close>, Redis, the audit
  log, in-app notifications, the mailer, the metric counters and the runtime settings.
\<close>

section \<open>Code outside the repository\<close>

text \<open>
  The hash functions, the JSON web tokens, the random sources, the number formatting of the
  decimal library, the SMTP transport and the environment are one record of functions. A
  theorem that needs something of them says so.
\<close>

record lib =
  sha256 :: "string \<Rightarrow> string"
  otpHash :: "string \<Rightarrow> string"
  bcryptHash :: "nat \<Rightarrow> string \<Rightarrow> string"
  bcryptCompare :: "string \<Rightarrow> string \<Rightarrow> bool"
  uuidTape :: "nat \<Rightarrow> string"
  tokenTape :: "nat \<Rightarrow> string"
  otpTape :: "nat \<Rightarrow> string"
  signAccess :: "string \<Rightarrow> role \<Rightarrow> string \<Rightarrow> string \<Rightarrow> instant \<Rightarrow> string"
  signRefresh :: "string \<Rightarrow> string \<Rightarrow> string \<Rightarrow> instant \<Rightarrow> string"
  decStr :: "paisa \<Rightarrow> string"
  numStr :: "real \<Rightarrow> string"
  toNumber :: "json \<Rightarrow> real option"
  stringify :: "json \<Rightarrow> string"
  ilike :: "string \<Rightarrow> string \<Rightarrow> bool"
  parseDate :: "string \<Rightarrow> instant option"
  smtpConfigured :: bool
  smtpSend :: "string \<Rightarrow> string \<Rightarrow> string option"
  BACKEND_URL :: string
  CLIENT_URL :: string
  SSL_STORE_ID :: string
  SSL_STORE_PASSWORD :: string
  DUMMY_HASH :: string

section \<open>The caller\<close>

text \<open>\<open>Ctx\<close> of \<^verbatim>\<open>src/utils/context.ts\<close>, \<open>Actor\<close> and \<open>AdminActor\<close> of \<^verbatim>\<open>src/types/actor.ts\<close>.\<close>

record ctx =
  ctx_ip :: string
  ctx_ua :: string

record actor =
  a_id :: string
  a_role :: role
  a_departmentId :: "string option"
  a_email :: string
  a_name :: string

record adminActor = actor +
  a_isSuperAdmin :: bool

section \<open>Random values\<close>

text \<open>Each draw moves one step along its tape, so no draw is used twice.\<close>

definition freshId :: "lib \<Rightarrow> string act" where
  "freshId L = (\<lambda>w. (Inr (uuidTape L (uuidPos w)), w\<lparr>uuidPos := Suc (uuidPos w)\<rparr>))"

definition randomToken :: "lib \<Rightarrow> string act" where
  "randomToken L = (\<lambda>w. (Inr (tokenTape L (tokPos w)), w\<lparr>tokPos := Suc (tokPos w)\<rparr>))"

definition randomOtp :: "lib \<Rightarrow> string act" where
  "randomOtp L = (\<lambda>w. (Inr (otpTape L (otpPos w)), w\<lparr>otpPos := Suc (otpPos w)\<rparr>))"

definition bcrypt_hash :: "lib \<Rightarrow> string \<Rightarrow> string act" where
  "bcrypt_hash L pw =
     (\<lambda>w. (Inr (bcryptHash L (tokPos w) pw), w\<lparr>tokPos := Suc (tokPos w)\<rparr>))"

section \<open>Soft delete and transactions\<close>

text \<open>
  The read filter the client extension adds to \<open>findMany\<close>, \<open>findFirst\<close> and \<open>count\<close> on the
  seven models with a \<open>deletedAt\<close>. \<open>findUnique\<close>, \<open>update\<close>, \<open>updateMany\<close>, \<open>groupBy\<close> and
  \<open>aggregate\<close> do not pass through it and read the table itself.
\<close>

definition applySoftDelete :: "('r \<Rightarrow> instant option) \<Rightarrow> 'r list \<Rightarrow> 'r list" where
  "applySoftDelete deletedAt rows = filter (\<lambda>r. deletedAt r = None) rows"

definition liveComplaints :: "world \<Rightarrow> complaint list" where
  "liveComplaints w = applySoftDelete c_deletedAt (complaints w)"

definition liveUsers :: "world \<Rightarrow> user list" where
  "liveUsers w = applySoftDelete u_deletedAt (users w)"

definition liveComments :: "world \<Rightarrow> comment list" where
  "liveComments w = applySoftDelete cm_deletedAt (comments w)"

definition liveDepartments :: "world \<Rightarrow> department list" where
  "liveDepartments w = applySoftDelete dp_deletedAt (departments w)"

definition liveCategories :: "world \<Rightarrow> category list" where
  "liveCategories w = applySoftDelete cat_deletedAt (categories w)"

definition liveServiceTypes :: "world \<Rightarrow> serviceType list" where
  "liveServiceTypes w = applySoftDelete st_deletedAt (serviceTypes w)"

definition liveServiceRequests :: "world \<Rightarrow> serviceRequest list" where
  "liveServiceRequests w = applySoftDelete sr_deletedAt (serviceRequests w)"

lemmas live_defs = liveComplaints_def liveUsers_def liveComments_def liveDepartments_def
  liveCategories_def liveServiceTypes_def liveServiceRequests_def applySoftDelete_def

text \<open>
  A rolled back transaction puts every table back. What is not in the database stays: Redis,
  the setting cache, the mail already handed over, the counters and the random draws.
\<close>

definition undoTx :: "world \<Rightarrow> world \<Rightarrow> world" where
  "undoTx w w' = w\<lparr>
     uuidPos := uuidPos w', tokPos := tokPos w', otpPos := otpPos w', redis := redis w',
     settingCache := settingCache w', metrics := metrics w', mailbox := mailbox w'\<rparr>"

definition transaction :: "'a act \<Rightarrow> 'a act" where
  "transaction m = rollbackTo undoTx m"

lemma transaction_InrE:
  assumes "transaction m w = (Inr y, w')"
  obtains "m w = (Inr y, w')"
  using assms unfolding transaction_def by (rule rollbackTo_InrE)

lemma run_transaction [eval]:
  "transaction m w =
     (case m w of (Inl e, w') \<Rightarrow> (Inl e, undoTx w w') | (Inr x, w') \<Rightarrow> (Inr x, w'))"
  by (simp add: transaction_def eval)

text \<open>Unique-constraint and check violations as Prisma reports them.\<close>

definition uniqueBy :: "(world \<Rightarrow> 'r list) \<Rightarrow> ('r \<Rightarrow> bool) \<Rightarrow> string list \<Rightarrow> world \<Rightarrow> exn option" where
  "uniqueBy sel clash cols w =
     (if \<exists>r \<in> set (sel w). clash r then Some (PrismaKnown ''P2002'' cols) else None)"

section \<open>Redis\<close>

text \<open>
  A key whose expiry has come is gone. Every command fails while Redis is down. \<open>EX\<close> takes
  a positive whole number of seconds and fails on anything else.
\<close>

definition redisLive :: "world \<Rightarrow> string \<Rightarrow> (rval \<times> instant option) option" where
  "redisLive w k =
     (case redis w k of
        None \<Rightarrow> None
      | Some (v, None) \<Rightarrow> Some (v, None)
      | Some (v, Some t) \<Rightarrow> if clock w < t then Some (v, Some t) else None)"

definition redisCmd :: "(world \<Rightarrow> 'a \<times> world) \<Rightarrow> 'a act" where
  "redisCmd f = (\<lambda>w. if redisUp w then (case f w of (x, w') \<Rightarrow> (Inr x, w')) else (Inl RedisErr, w))"

definition redisGet :: "string \<Rightarrow> rval option act" where
  "redisGet k = redisCmd (\<lambda>w. (map_option fst (redisLive w k), w))"

definition redisExists :: "string \<Rightarrow> bool act" where
  "redisExists k = redisCmd (\<lambda>w. (redisLive w k \<noteq> None, w))"

definition redisPut :: "string \<Rightarrow> rval \<Rightarrow> instant option \<Rightarrow> world \<Rightarrow> world" where
  "redisPut k v e w = w\<lparr>redis := (redis w)(k \<mapsto> (v, e))\<rparr>"

definition isPosInt :: "real \<Rightarrow> bool" where
  "isPosInt x \<longleftrightarrow> 0 < x \<and> of_int \<lfloor>x\<rfloor> = x"

definition redisSetEx :: "string \<Rightarrow> rval \<Rightarrow> real \<Rightarrow> unit act" where
  "redisSetEx k v ttl =
     thenM (throwIf (\<not> isPosInt ttl) RedisErr)
       (redisCmd (\<lambda>w. ((), redisPut k v (Some (clock w + \<lfloor>ttl\<rfloor> * 1000)) w)))"

definition redisSetKeepTtl :: "string \<Rightarrow> rval \<Rightarrow> unit act" where
  "redisSetKeepTtl k v =
     redisCmd (\<lambda>w. ((), redisPut k v (case redisLive w k of None \<Rightarrow> None | Some (_, e) \<Rightarrow> e) w))"

definition redisDel :: "string list \<Rightarrow> nat act" where
  "redisDel ks =
     redisCmd (\<lambda>w. (length (filter (\<lambda>k. redisLive w k \<noteq> None) (remdups ks)),
                    w\<lparr>redis := (\<lambda>k. if k \<in> set ks then None else redis w k)\<rparr>))"

definition rnum :: "rval \<Rightarrow> nat" where
  "rnum v = (case v of RNum n \<Rightarrow> n | _ \<Rightarrow> 0)"

definition redisIncr :: "string \<Rightarrow> nat act" where
  "redisIncr k =
     redisCmd (\<lambda>w. (case redisLive w k of
         None \<Rightarrow> (1, redisPut k (RNum 1) None w)
       | Some (v, e) \<Rightarrow> (Suc (rnum v), redisPut k (RNum (Suc (rnum v))) e w)))"

definition redisExpire :: "string \<Rightarrow> int \<Rightarrow> unit act" where
  "redisExpire k secs =
     redisCmd (\<lambda>w. ((), case redisLive w k of
         None \<Rightarrow> w
       | Some (v, _) \<Rightarrow> redisPut k v (Some (clock w + secs * 1000)) w))"

text \<open>\<open>cmd.catch(() \<Rightarrow> x)\<close>.\<close>

definition orElse :: "'a act \<Rightarrow> 'a \<Rightarrow> 'a act" where
  "orElse m x = catchM m (\<lambda>_. returnM x)"

text \<open>\<open>invalidate\<close> of \<^verbatim>\<open>cache.ts\<close>: nothing to do for no key, and never an error.\<close>

definition invalidate :: "string list \<Rightarrow> unit act" where
  "invalidate ks = whenM (ks \<noteq> []) (orElse (thenM (redisDel ks) (returnM ())) ())"

text \<open>
  \<open>cached\<close> of \<^verbatim>\<open>cache.ts\<close>: a hit is answered from Redis; otherwise, or when Redis is down, the
  value is computed, and written back if Redis takes it.
\<close>

definition cachedVal ::
  "('a \<Rightarrow> json) \<Rightarrow> (json \<Rightarrow> 'a) \<Rightarrow> string \<Rightarrow> real \<Rightarrow> 'a act \<Rightarrow> 'a act" where
  "cachedVal enc dec k ttl fn =
     bindM (orElse (redisGet k) None) (\<lambda>hit.
       case hit of
         Some (RCached j) \<Rightarrow> returnM (dec j)
       | _ \<Rightarrow> bindM fn (\<lambda>data.
           thenM (orElse (redisSetEx k (RCached (enc data)) ttl) ()) (returnM data)))"

section \<open>Audit log\<close>

text \<open>\<open>audit\<close> of \<^verbatim>\<open>auditLogger.ts\<close>: one inserted row.\<close>

definition audit ::
  "lib \<Rightarrow> string option \<Rightarrow> string \<Rightarrow> string \<Rightarrow> string \<Rightarrow> json option \<Rightarrow> json option \<Rightarrow>
   ctx option \<Rightarrow> unit act" where
  "audit L actorId action entityType entityId before after cx =
     bindM (freshId L) (\<lambda>i. bindM (getsM clock) (\<lambda>now.
       thenM (insertRow auditLogs_update
         \<lparr>al_id = i, al_actorId = actorId, al_action = action, al_entityType = entityType,
          al_entityId = entityId, al_before = before, al_after = after,
          al_ip = map_option ctx_ip cx, al_userAgent = map_option ctx_ua cx,
          al_createdAt = now\<rparr>)
         (returnM ())))"

section \<open>Notifications\<close>

text \<open>\<open>notify\<close> and \<open>notifyMany\<close> of \<^verbatim>\<open>notification.service.ts\<close>.\<close>

definition newNotification ::
  "string \<Rightarrow> instant \<Rightarrow> string \<Rightarrow> string \<Rightarrow> string \<Rightarrow> json option \<Rightarrow> notification" where
  "newNotification i now userId title body meta =
     \<lparr>n_id = i, n_userId = userId, n_title = title, n_body = body, n_isRead = False,
      n_meta = meta, n_createdAt = now\<rparr>"

definition notify :: "lib \<Rightarrow> string \<Rightarrow> string \<Rightarrow> string \<Rightarrow> json option \<Rightarrow> unit act" where
  "notify L userId title body meta =
     bindM (freshId L) (\<lambda>i. bindM (getsM clock) (\<lambda>now.
       thenM (insertRow notifications_update (newNotification i now userId title body meta))
         (returnM ())))"

definition notifyMany :: "lib \<Rightarrow> string list \<Rightarrow> string \<Rightarrow> string \<Rightarrow> json option \<Rightarrow> unit act" where
  "notifyMany L userIds title body meta =
     whenM (userIds \<noteq> [])
       (loopM (\<lambda>userId _. notify L userId title body meta) userIds ())"

section \<open>Mail\<close>

text \<open>
  \<open>send\<close> of \<^verbatim>\<open>mailer.ts\<close>: the log row is written before the attempt and updated after it, and a
  failing transport is recorded, not thrown. The body is the list of the values the
  template shows. Only a mail the transport took reaches the mailbox.
\<close>

definition queuedMail :: "string \<Rightarrow> string \<Rightarrow> string \<Rightarrow> instant \<Rightarrow> emailLog" where
  "queuedMail i to template now =
     \<lparr>el_id = i, el_to = to, el_template = template, el_status = QUEUED, el_error = None,
      el_attempts = 0, el_createdAt = now, el_sentAt = None\<rparr>"

definition sendMail :: "lib \<Rightarrow> string \<Rightarrow> string \<Rightarrow> string list \<Rightarrow> unit act" where
  "sendMail L to template body =
     bindM (freshId L) (\<lambda>i. bindM (getsM clock) (\<lambda>now.
       thenM (insertRow emailLogs_update (queuedMail i to template now))
       (if \<not> smtpConfigured L then
          thenM (updateRow emailLogs emailLogs_update (\<lambda>r. el_id r = i)
            (\<lambda>r. r\<lparr>el_status := EM_FAILED, el_error := Some ''SMTP not configured'',
                    el_attempts := el_attempts r + 1\<rparr>))
            (returnM ())
        else
          (case smtpSend L to template of
             None \<Rightarrow>
               thenM (modifyM (mailbox_update (\<lambda>m. m @ [(to, template, body)])))
               (thenM (updateRow emailLogs emailLogs_update (\<lambda>r. el_id r = i)
                 (\<lambda>r. r\<lparr>el_status := SENT, el_sentAt := Some now,
                         el_attempts := el_attempts r + 1\<rparr>))
                 (returnM ()))
           | Some err \<Rightarrow>
               thenM (updateRow emailLogs emailLogs_update (\<lambda>r. el_id r = i)
                 (\<lambda>r. r\<lparr>el_status := EM_FAILED, el_error := Some (take 500 err),
                         el_attempts := el_attempts r + 1\<rparr>))
                 (returnM ())))))"

text \<open>
  \<open>dispatchEmail\<close>: nobody awaits the task and its error is swallowed. The model runs it
  where it is started.
\<close>

definition dispatchEmail :: "unit act \<Rightarrow> unit act" where
  "dispatchEmail task = orElse task ()"

definition sendOtpEmail :: "lib \<Rightarrow> string \<Rightarrow> string \<Rightarrow> int \<Rightarrow> unit act" where
  "sendOtpEmail L to otp minutes = sendMail L to ''OTP_SIGNUP'' [otp, show_int minutes]"

definition sendLoginOtpEmail :: "lib \<Rightarrow> string \<Rightarrow> string \<Rightarrow> int \<Rightarrow> string option \<Rightarrow> unit act" where
  "sendLoginOtpEmail L to otp minutes link =
     sendMail L to ''OTP_LOGIN''
       ([otp, show_int minutes] @ (case link of None \<Rightarrow> [] | Some l \<Rightarrow> [l]))"

definition sendNewLoginAlert :: "lib \<Rightarrow> string \<Rightarrow> ctx \<Rightarrow> unit act" where
  "sendNewLoginAlert L to cx = sendMail L to ''NEW_DEVICE'' [ctx_ip cx, ctx_ua cx]"

definition sendPasswordResetEmail :: "lib \<Rightarrow> string \<Rightarrow> string \<Rightarrow> unit act" where
  "sendPasswordResetEmail L to token =
     sendMail L to ''PASSWORD_RESET''
       [hd (split_on (CHR '','') (CLIENT_URL L)) @ ''/auth/reset-password?token='' @ token]"

definition sendStatusUpdateEmail ::
  "lib \<Rightarrow> string \<Rightarrow> string \<Rightarrow> complaint_status \<Rightarrow> string option \<Rightarrow> unit act" where
  "sendStatusUpdateEmail L to trackingId status note =
     sendMail L to ''STATUS_UPDATE''
       ([trackingId, show_status status] @
        (case note of None \<Rightarrow> [] | Some n \<Rightarrow> if n = [] then [] else [n]))"

definition sendReceiptEmail ::
  "lib \<Rightarrow> string \<Rightarrow> string \<Rightarrow> string \<Rightarrow> string \<Rightarrow> string \<Rightarrow> string option \<Rightarrow>
   string option \<Rightarrow> unit act" where
  "sendReceiptEmail L to transactionId amount serviceName referenceNo receiptUrl pdf =
     sendMail L to ''RECEIPT''
       ([transactionId, amount, serviceName, referenceNo] @
        (case receiptUrl of None \<Rightarrow> [] | Some l \<Rightarrow> if l = [] then [] else [l]) @
        (case pdf of None \<Rightarrow> [] | Some bytes \<Rightarrow> [bytes]))"

definition sendOfficerInviteEmail :: "lib \<Rightarrow> string \<Rightarrow> string \<Rightarrow> string \<Rightarrow> unit act" where
  "sendOfficerInviteEmail L to name tempPassword =
     sendMail L to ''OFFICER_INVITE'' [name, to, tempPassword]"

definition sendEscalationEmail :: "lib \<Rightarrow> string \<Rightarrow> string \<Rightarrow> int \<Rightarrow> string \<Rightarrow> unit act" where
  "sendEscalationEmail L to trackingId level reason =
     sendMail L to ''ESCALATION'' [trackingId, show_int level, reason]"

section \<open>Metrics\<close>

definition incCounter :: "string \<Rightarrow> unit act" where
  "incCounter name = modifyM (metrics_update (\<lambda>m. m(name := Suc (m name))))"

section \<open>Runtime settings\<close>

text \<open>\<open>SETTING_DEFAULTS\<close> and \<open>getSetting\<close> of \<^verbatim>\<open>settings.ts\<close>, with its one-minute cache.\<close>

definition SETTING_DEFAULTS :: "string \<Rightarrow> real" where
  "SETTING_DEFAULTS k =
     (if k = ''REOPEN_LIMIT'' then 2
      else if k = ''REOPEN_WINDOW_DAYS'' then 7
      else if k = ''URGENT_SLA_FACTOR'' then 1/2
      else if k = ''LOGIN_OTP_TTL_SEC'' then 300
      else 600)"

definition settingKeys :: "string list" where
  "settingKeys = [''REOPEN_LIMIT'', ''REOPEN_WINDOW_DAYS'', ''URGENT_SLA_FACTOR'',
     ''LOGIN_OTP_TTL_SEC'', ''SIGNUP_OTP_TTL_SEC'']"

definition SETTING_TTL_MS :: int where
  "SETTING_TTL_MS = 60000"

definition jsNumber :: "lib \<Rightarrow> json \<Rightarrow> real option" where
  "jsNumber L j = (case j of JNum x \<Rightarrow> Some x | _ \<Rightarrow> toNumber L j)"

definition settingValue :: "lib \<Rightarrow> string \<Rightarrow> world \<Rightarrow> real" where
  "settingValue L k w =
     (case find (\<lambda>r. ss_key r = k) (settings w) of
        None \<Rightarrow> SETTING_DEFAULTS k
      | Some r \<Rightarrow> (case jsNumber L (ss_value r) of
                     None \<Rightarrow> SETTING_DEFAULTS k
                   | Some x \<Rightarrow> x))"

definition getSetting :: "lib \<Rightarrow> string \<Rightarrow> real act" where
  "getSetting L k =
     (\<lambda>w. case settingCache w k of
        Some (v, expires) \<Rightarrow>
          if clock w < expires then (Inr v, w)
          else (let v = settingValue L k w in
                (Inr v, w\<lparr>settingCache := (settingCache w)(k \<mapsto> (v, clock w + SETTING_TTL_MS))\<rparr>))
      | None \<Rightarrow>
          (let v = settingValue L k w in
           (Inr v, w\<lparr>settingCache := (settingCache w)(k \<mapsto> (v, clock w + SETTING_TTL_MS))\<rparr>)))"

definition clearSettingCache :: "string option \<Rightarrow> unit act" where
  "clearSettingCache k =
     modifyM (\<lambda>w. w\<lparr>settingCache := (case k of None \<Rightarrow> (\<lambda>_. None)
                                            | Some key \<Rightarrow> (settingCache w)(key := None))\<rparr>)"

section \<open>Running the helpers\<close>

lemma run_freshId [eval]:
  "freshId L w = (Inr (uuidTape L (uuidPos w)), w\<lparr>uuidPos := Suc (uuidPos w)\<rparr>)"
  by (simp add: freshId_def)

lemma run_randomToken [eval]:
  "randomToken L w = (Inr (tokenTape L (tokPos w)), w\<lparr>tokPos := Suc (tokPos w)\<rparr>)"
  by (simp add: randomToken_def)

lemma run_randomOtp [eval]:
  "randomOtp L w = (Inr (otpTape L (otpPos w)), w\<lparr>otpPos := Suc (otpPos w)\<rparr>)"
  by (simp add: randomOtp_def)

lemma run_bcrypt [eval]:
  "bcrypt_hash L pw w = (Inr (bcryptHash L (tokPos w) pw), w\<lparr>tokPos := Suc (tokPos w)\<rparr>)"
  by (simp add: bcrypt_hash_def)

lemma run_redisCmd [eval]:
  "redisCmd f w = (if redisUp w then (case f w of (x, w') \<Rightarrow> (Inr x, w')) else (Inl RedisErr, w))"
  by (simp add: redisCmd_def)

lemma run_orElse [eval]:
  "orElse m x w = (case m w of (Inl e, w') \<Rightarrow> (Inr x, w') | (Inr y, w') \<Rightarrow> (Inr y, w'))"
  by (simp add: orElse_def eval split: prod.splits sum.splits)

definition auditRow ::
  "lib \<Rightarrow> string option \<Rightarrow> string \<Rightarrow> string \<Rightarrow> string \<Rightarrow> json option \<Rightarrow> json option \<Rightarrow>
   ctx option \<Rightarrow> world \<Rightarrow> auditLog" where
  "auditRow L actorId action entityType entityId before after cx w =
     \<lparr>al_id = uuidTape L (uuidPos w), al_actorId = actorId, al_action = action,
      al_entityType = entityType, al_entityId = entityId, al_before = before,
      al_after = after, al_ip = map_option ctx_ip cx,
      al_userAgent = map_option ctx_ua cx, al_createdAt = clock w\<rparr>"

lemma run_audit [eval]:
  "audit L a ac et ei b af cx w =
     (Inr (), w\<lparr>uuidPos := Suc (uuidPos w),
                auditLogs := auditLogs w @ [auditRow L a ac et ei b af cx w]\<rparr>)"
  by (simp add: audit_def auditRow_def eval)

lemma run_notify [eval]:
  "notify L u t b m w =
     (Inr (), w\<lparr>uuidPos := Suc (uuidPos w),
                notifications := notifications w @
                  [newNotification (uuidTape L (uuidPos w)) (clock w) u t b m]\<rparr>)"
  by (simp add: notify_def eval)

lemma run_incCounter [eval]:
  "incCounter name w = (Inr (), w\<lparr>metrics := (metrics w)(name := Suc (metrics w name))\<rparr>)"
  by (simp add: incCounter_def eval)

text \<open>The value a setting has for an operation, and the cache entry reading it leaves.\<close>

definition effSetting :: "lib \<Rightarrow> string \<Rightarrow> world \<Rightarrow> real" where
  "effSetting L k w =
     (case settingCache w k of
        Some (v, expires) \<Rightarrow> if clock w < expires then v else settingValue L k w
      | None \<Rightarrow> settingValue L k w)"

lemma run_getSetting [eval]:
  "\<exists>c. getSetting L k w = (Inr (effSetting L k w), w\<lparr>settingCache := c\<rparr>)"
proof -
  have same: "w = w\<lparr>settingCache := settingCache w\<rparr>" by simp
  show ?thesis
    unfolding getSetting_def effSetting_def
    by (auto simp: Let_def split: option.splits intro: same)
qed

text \<open>Reading one setting changes the value of none, not even of itself.\<close>

lemma run_getSetting_stable:
  "\<exists>c. getSetting L k w = (Inr (effSetting L k w), w\<lparr>settingCache := c\<rparr>) \<and>
       (\<forall>j. effSetting L j (w\<lparr>settingCache := c\<rparr>) = effSetting L j w)"
proof -
  have same: "w\<lparr>settingCache := settingCache w\<rparr> = w" by simp
  have sval: "settingValue L j (w\<lparr>settingCache := c\<rparr>) = settingValue L j w" for j c
    by (simp add: settingValue_def)
  show ?thesis
  proof (cases "\<exists>v expires. settingCache w k = Some (v, expires) \<and> clock w < expires")
    case True
    then show ?thesis
      by (intro exI [of _ "settingCache w"]) (auto simp: getSetting_def effSetting_def)
  next
    case False
    let ?c = "(settingCache w)(k \<mapsto> (settingValue L k w, clock w + SETTING_TTL_MS))"
    have "getSetting L k w = (Inr (effSetting L k w), w\<lparr>settingCache := ?c\<rparr>)"
      using False by (auto simp: getSetting_def effSetting_def Let_def split: option.splits)
    moreover have "effSetting L j (w\<lparr>settingCache := ?c\<rparr>) = effSetting L j w" for j
      using False
      by (auto simp: effSetting_def sval SETTING_TTL_MS_def split: option.splits)
    ultimately show ?thesis by blast
  qed
qed

lemma getSetting_cases:
  obtains c where "getSetting L k w = (Inr (effSetting L k w), w\<lparr>settingCache := c\<rparr>)"
  using run_getSetting by blast

text \<open>A mail touches the email log, the mailbox and the id tape, and never throws.\<close>

definition mailed :: "world \<Rightarrow> world \<Rightarrow> bool" where
  "mailed w w' \<longleftrightarrow>
     w'\<lparr>uuidPos := 0, emailLogs := [], mailbox := []\<rparr> =
     w\<lparr>uuidPos := 0, emailLogs := [], mailbox := []\<rparr>"

lemma mailed_upd [intro]:
  "mailed w (emailLogs_update f (w\<lparr>uuidPos := i\<rparr>))"
  "mailed w (emailLogs_update f (mailbox_update g (w\<lparr>uuidPos := i\<rparr>)))"
  by (simp_all add: mailed_def)

lemma mailed_refl: "mailed w w"
  by (simp add: mailed_def)

lemma mailed_trans: "mailed u v \<Longrightarrow> mailed v w \<Longrightarrow> mailed u w"
  by (simp add: mailed_def)

lemma mailed_field:
  assumes "mailed w w'" and "\<And>v. f (v\<lparr>uuidPos := 0, emailLogs := [], mailbox := []\<rparr>) = f v"
  shows "f w' = f w"
  using assms unfolding mailed_def by metis

lemma mailed_frame:
  assumes "mailed w w'"
  shows "clock w' = clock w"
    and "tokPos w' = tokPos w"
    and "otpPos w' = otpPos w"
    and "redisUp w' = redisUp w"
    and "redis w' = redis w"
    and "settingCache w' = settingCache w"
    and "metrics w' = metrics w"
    and "users w' = users w"
    and "sessions w' = sessions w"
    and "refreshTokens w' = refreshTokens w"
    and "trustedDevices w' = trustedDevices w"
    and "securityEvents w' = securityEvents w"
    and "zones w' = zones w"
    and "wards w' = wards w"
    and "departments w' = departments w"
    and "categories w' = categories w"
    and "counters w' = counters w"
    and "complaints w' = complaints w"
    and "histories w' = histories w"
    and "assignments w' = assignments w"
    and "escalations w' = escalations w"
    and "attachments w' = attachments w"
    and "comments w' = comments w"
    and "upvotes w' = upvotes w"
    and "feedbacks w' = feedbacks w"
    and "serviceTypes w' = serviceTypes w"
    and "serviceRequests w' = serviceRequests w"
    and "documents w' = documents w"
    and "payments w' = payments w"
    and "paymentEvents w' = paymentEvents w"
    and "refunds w' = refunds w"
    and "idempotencyKeys w' = idempotencyKeys w"
    and "notifications w' = notifications w"
    and "auditLogs w' = auditLogs w"
    and "settings w' = settings w"
    and "permissions w' = permissions w"
    and "accessRoles w' = accessRoles w"
    and "accessRolePermissions w' = accessRolePermissions w"
    and "userAccessRoles w' = userAccessRoles w"
    and "contactMessages w' = contactMessages w"
  by (rule mailed_field [OF assms], simp)+

lemma found_inserted: "\<exists>r. find (\<lambda>r. el_id r = i) (rows @ [queuedMail i to t now]) = Some r"
  by (induction rows) (auto simp: queuedMail_def)

lemma run_sendMail: "\<exists>w'. sendMail L to t b w = (Inr (), w') \<and> mailed w w'"
proof -
  obtain r where r: "find (\<lambda>r. el_id r = uuidTape L (uuidPos w)) (emailLogs w @
      [queuedMail (uuidTape L (uuidPos w)) to t (clock w)]) = Some r"
    using found_inserted by blast
  show ?thesis
    unfolding sendMail_def
    by (cases "smtpConfigured L"; cases "smtpSend L to t") (simp_all add: eval r mailed_def)
qed

lemma dispatch_sendMail: "\<exists>w'. dispatchEmail (sendMail L to t b) w = (Inr (), w') \<and> mailed w w'"
  using run_sendMail [of L to t b w] by (auto simp: dispatchEmail_def eval)

lemma undoTx_self [simp]: "undoTx w w = w"
  by (simp add: undoTx_def)

lemma undoTx_tables [simp]:
  "clock (undoTx w w') = clock w"
  "redisUp (undoTx w w') = redisUp w"
  "users (undoTx w w') = users w"
  "sessions (undoTx w w') = sessions w"
  "refreshTokens (undoTx w w') = refreshTokens w"
  "trustedDevices (undoTx w w') = trustedDevices w"
  "securityEvents (undoTx w w') = securityEvents w"
  "zones (undoTx w w') = zones w"
  "wards (undoTx w w') = wards w"
  "departments (undoTx w w') = departments w"
  "categories (undoTx w w') = categories w"
  "counters (undoTx w w') = counters w"
  "complaints (undoTx w w') = complaints w"
  "histories (undoTx w w') = histories w"
  "assignments (undoTx w w') = assignments w"
  "escalations (undoTx w w') = escalations w"
  "attachments (undoTx w w') = attachments w"
  "comments (undoTx w w') = comments w"
  "upvotes (undoTx w w') = upvotes w"
  "feedbacks (undoTx w w') = feedbacks w"
  "serviceTypes (undoTx w w') = serviceTypes w"
  "serviceRequests (undoTx w w') = serviceRequests w"
  "documents (undoTx w w') = documents w"
  "payments (undoTx w w') = payments w"
  "paymentEvents (undoTx w w') = paymentEvents w"
  "refunds (undoTx w w') = refunds w"
  "idempotencyKeys (undoTx w w') = idempotencyKeys w"
  "notifications (undoTx w w') = notifications w"
  "emailLogs (undoTx w w') = emailLogs w"
  "auditLogs (undoTx w w') = auditLogs w"
  "settings (undoTx w w') = settings w"
  "permissions (undoTx w w') = permissions w"
  "accessRoles (undoTx w w') = accessRoles w"
  "accessRolePermissions (undoTx w w') = accessRolePermissions w"
  "userAccessRoles (undoTx w w') = userAccessRoles w"
  "contactMessages (undoTx w w') = contactMessages w"
  by (simp_all add: undoTx_def)

lemma undoTx_rest [simp]:
  "uuidPos (undoTx w w') = uuidPos w'"
  "tokPos (undoTx w w') = tokPos w'"
  "otpPos (undoTx w w') = otpPos w'"
  "redis (undoTx w w') = redis w'"
  "settingCache (undoTx w w') = settingCache w'"
  "metrics (undoTx w w') = metrics w'"
  "mailbox (undoTx w w') = mailbox w'"
  by (simp_all add: undoTx_def)

section \<open>The ids drawn so far\<close>

definition drawnIds :: "lib \<Rightarrow> world \<Rightarrow> string set" where
  "drawnIds L w = uuidTape L ` {..<uuidPos w}"

lemma drawn_mono: "uuidPos w \<le> uuidPos w' \<Longrightarrow> drawnIds L w \<subseteq> drawnIds L w'"
  by (auto simp: drawnIds_def)

lemma drawn_new:
  assumes "inj (uuidTape L)"
  shows "uuidTape L (uuidPos w) \<notin> drawnIds L w"
    and "uuidPos w < uuidPos w' \<Longrightarrow> uuidTape L (uuidPos w) \<in> drawnIds L w'"
  using assms by (auto simp: drawnIds_def inj_eq)

end
