(* ===== verification/Utils.thy ===== *)
theory Utils
  imports Db "HOL-Library.Multiset"
begin

text \<open>
  The pure helpers of \<^verbatim>\<open>src/utils\<close>: pagination, sort and filter builders, the two
  race-safe number sequences, and the secrets helpers. Query parameters have already been
  validated and coerced by zod, so a page or a limit is a whole number or absent.
\<close>

section \<open>Pagination\<close>

definition MAX_PAGE_SIZE :: int where
  "MAX_PAGE_SIZE = 100"

definition DEFAULT_PAGE_SIZE :: int where
  "DEFAULT_PAGE_SIZE = 10"

record pagination =
  pg_page :: int
  pg_limit :: int
  pg_skip :: int
  pg_take :: int

text \<open>\<open>x || d\<close> on an optional number: absent and 0 both give the default.\<close>

definition orDefault :: "int option \<Rightarrow> int \<Rightarrow> int" where
  "orDefault x d = (case x of None \<Rightarrow> d | Some v \<Rightarrow> if v = 0 then d else v)"

definition getPagination :: "int option \<Rightarrow> int option \<Rightarrow> pagination" where
  "getPagination pageQ limitQ =
     (let page = max 1 (orDefault pageQ 1);
          rawLimit = orDefault limitQ DEFAULT_PAGE_SIZE;
          limit = min (max 1 rawLimit) MAX_PAGE_SIZE
      in \<lparr>pg_page = page, pg_limit = limit, pg_skip = (page - 1) * limit, pg_take = limit\<rparr>)"

record meta =
  mt_page :: int
  mt_limit :: int
  mt_total :: int
  mt_totalPages :: int

definition buildMeta :: "pagination \<Rightarrow> nat \<Rightarrow> meta" where
  "buildMeta p n =
     \<lparr>mt_page = pg_page p, mt_limit = pg_limit p, mt_total = int n,
      mt_totalPages = max 1 (\<lceil>real n / of_int (pg_limit p)\<rceil>)\<rparr>"

text \<open>\<open>skip\<close> and \<open>take\<close> applied to the rows of a query.\<close>

definition pageRows :: "pagination \<Rightarrow> 'r list \<Rightarrow> 'r list" where
  "pageRows p rows = page_of (nat (pg_skip p)) (nat (pg_take p)) rows"

lemma getPagination_bounds:
  "1 \<le> pg_page (getPagination a b)" "1 \<le> pg_limit (getPagination a b)"
  "pg_limit (getPagination a b) \<le> MAX_PAGE_SIZE"
  "pg_take (getPagination a b) = pg_limit (getPagination a b)"
  "pg_skip (getPagination a b) = (pg_page (getPagination a b) - 1) * pg_limit (getPagination a b)"
  by (simp_all add: getPagination_def Let_def MAX_PAGE_SIZE_def)

lemma getPagination_limit: "pg_limit (getPagination a b) = pg_limit (getPagination c b)"
  by (simp add: getPagination_def Let_def)

lemma getPagination_page: "0 < k \<Longrightarrow> pg_page (getPagination (Some k) b) = k"
  by (simp add: getPagination_def Let_def orDefault_def)

text \<open>Consecutive pages laid end to end are a prefix of the rows.\<close>

lemma concat_pages:
  "concat (map (\<lambda>k. page_of (k * n) n rows) [0..<m]) = take (m * n) rows"
proof (induction m)
  case 0
  then show ?case by simp
next
  case (Suc m)
  have "take (m * n) rows @ take n (drop (m * n) rows) = take (m * n + n) rows"
    by (simp add: take_add)
  moreover have "concat (map (\<lambda>k. take n (drop (k * n) rows)) [0..<m]) = take (m * n) rows"
    using Suc by (simp add: page_of_def)
  ultimately show ?case by (simp add: page_of_def add.commute)
qed

section \<open>Sort and filter builders\<close>

text \<open>\<open>SORT_WHITELIST\<close> and \<open>buildOrderBy\<close>: the column and whether it is ascending.\<close>

datatype sort_module =
  SortComplaint | SortUser | SortServiceRequest | SortPayment | SortAuditLog
| SortNotification | SortSecurityEvent

fun SORT_WHITELIST :: "sort_module \<Rightarrow> string list" where
  "SORT_WHITELIST SortComplaint =
     [''createdAt'', ''updatedAt'', ''priority'', ''status'', ''slaDueAt'', ''upvoteCount'']"
| "SORT_WHITELIST SortUser = [''createdAt'', ''name'', ''email'', ''role'', ''status'']"
| "SORT_WHITELIST SortServiceRequest = [''createdAt'', ''updatedAt'', ''status'']"
| "SORT_WHITELIST SortPayment = [''createdAt'', ''amount'', ''status'']"
| "SORT_WHITELIST SortAuditLog = [''createdAt'', ''action'']"
| "SORT_WHITELIST SortNotification = [''createdAt'', ''isRead'']"
| "SORT_WHITELIST SortSecurityEvent = [''createdAt'', ''type'']"

definition buildOrderBy ::
  "sort_module \<Rightarrow> string option \<Rightarrow> string option \<Rightarrow> exn + (string \<times> bool)" where
  "buildOrderBy m sortBy sortOrder =
     (let allowed = SORT_WHITELIST m;
          field = (case sortBy of None \<Rightarrow> ''createdAt'' | Some f \<Rightarrow> f)
      in if field \<notin> set allowed then
           Inl (apiError 400 ''Validation failed''
             [detF ''query.sortBy'' ''VALIDATION_ERROR''
               (''sortBy must be one of: '' @ join_with '', '' allowed)])
         else Inr (field, sortOrder = Some ''asc''))"

definition liftE :: "exn + 'a \<Rightarrow> ('s, 'a) svc" where
  "liftE r = (case r of Inl e \<Rightarrow> throwM e | Inr x \<Rightarrow> returnM x)"

lemma run_liftE [eval]: "liftE r s = (case r of Inl e \<Rightarrow> (Inl e, s) | Inr x \<Rightarrow> (Inr x, s))"
  by (simp add: liftE_def eval split: sum.split)

text \<open>\<open>ORDER BY\<close> on a column read as a number, stable on the scan order.\<close>

definition orderRows :: "('r \<Rightarrow> int) \<Rightarrow> bool \<Rightarrow> 'r list \<Rightarrow> 'r list" where
  "orderRows key asc rows = sort_key (\<lambda>r. if asc then key r else - key r) rows"

lemma orderRows_set [simp]: "set (orderRows key asc rows) = set rows"
  by (simp add: orderRows_def)

lemma orderRows_length [simp]: "length (orderRows key asc rows) = length rows"
  by (simp add: orderRows_def)

lemma orderRows_mset: "mset (orderRows key asc rows) = mset rows"
  by (simp add: orderRows_def)

lemma orderRows_sorted: "sorted (map (\<lambda>r. if asc then key r else - key r) (orderRows key asc rows))"
  by (simp add: orderRows_def)

text \<open>\<open>csv\<close>: \<open>"A, B"\<close> to \<open>["A", "B"]\<close>; nothing left is no filter.\<close>

definition csvList :: "string option \<Rightarrow> string list option" where
  "csvList value =
     (case value of
        None \<Rightarrow> None
      | Some v \<Rightarrow>
          (if v = [] then None
           else (let l = filter (\<lambda>s. s \<noteq> []) (map js_trim (split_on (CHR '','') v))
                 in if l = [] then None else Some l)))"

text \<open>
  \<open>dateRange\<close>: both ends inclusive, the upper one moved to the end of its UTC day. A string
  that is no date makes an invalid \<open>Date\<close>, which Prisma refuses in the query it is put in.
\<close>

definition dateBound :: "lib \<Rightarrow> string option \<Rightarrow> exn + instant option" where
  "dateBound L s =
     (case s of
        None \<Rightarrow> Inr None
      | Some d \<Rightarrow> if d = [] then Inr None
                  else (case parseDate L d of None \<Rightarrow> Inl PrismaValidation | Some t \<Rightarrow> Inr (Some t)))"

definition dateRange ::
  "lib \<Rightarrow> string option \<Rightarrow> string option \<Rightarrow> exn + (instant option \<times> instant option) option" where
  "dateRange L from to =
     (case dateBound L from of
        Inl e \<Rightarrow> Inl e
      | Inr gte \<Rightarrow>
          (case dateBound L to of
             Inl e \<Rightarrow> Inl e
           | Inr lte \<Rightarrow>
               Inr (if gte = None \<and> lte = None then None
                    else Some (gte, map_option end_of_day lte))))"

definition inRange :: "(instant option \<times> instant option) option \<Rightarrow> instant \<Rightarrow> bool" where
  "inRange r t =
     (case r of
        None \<Rightarrow> True
      | Some (lo, hi) \<Rightarrow> (case lo of None \<Rightarrow> True | Some l \<Rightarrow> l \<le> t)
                        \<and> (case hi of None \<Rightarrow> True | Some h \<Rightarrow> t \<le> h))"

section \<open>Tracking ids and reference numbers\<close>

text \<open>
  The upsert with an atomic \<open>increment\<close>: the row of the key is created with 1 or raised by
  one, and the new value is answered. Complaints use the year, service requests its
  negation.
\<close>

definition nextCounter :: "int \<Rightarrow> nat act" where
  "nextCounter key =
     (\<lambda>w. case find (\<lambda>r. cn_year r = key) (counters w) of
        None \<Rightarrow> (Inr 1, w\<lparr>counters := counters w @ [\<lparr>cn_year = key, cn_value = 1\<rparr>]\<rparr>)
      | Some r \<Rightarrow> (Inr (Suc (cn_value r)),
          w\<lparr>counters := updateWhere (\<lambda>q. cn_year q = key)
                         (\<lambda>q. q\<lparr>cn_value := Suc (cn_value q)\<rparr>) (counters w)\<rparr>))"

definition trackingIdOf :: "int \<Rightarrow> nat \<Rightarrow> string" where
  "trackingIdOf year value = ''CC-'' @ show_int year @ ''-'' @ padStart 6 (CHR ''0'') (show_nat value)"

definition referenceNoOf :: "int \<Rightarrow> nat \<Rightarrow> string" where
  "referenceNoOf year value = ''SR-'' @ show_int year @ ''-'' @ padStart 6 (CHR ''0'') (show_nat value)"

definition nextTrackingId :: "string act" where
  "nextTrackingId =
     bindM (getsM (\<lambda>w. utc_year (clock w))) (\<lambda>year.
     bindM (nextCounter year) (\<lambda>value. returnM (trackingIdOf year value)))"

definition nextReferenceNo :: "string act" where
  "nextReferenceNo =
     bindM (getsM (\<lambda>w. utc_year (clock w))) (\<lambda>year.
     bindM (nextCounter (- year)) (\<lambda>value. returnM (referenceNoOf year value)))"

text \<open>The value a sequence has reached; 0 before its first use.\<close>

definition counterValue :: "int \<Rightarrow> world \<Rightarrow> nat" where
  "counterValue key w =
     (case find (\<lambda>r. cn_year r = key) (counters w) of None \<Rightarrow> 0 | Some r \<Rightarrow> cn_value r)"

lemma run_nextCounter:
  "fst (nextCounter key w) = Inr (Suc (counterValue key w))"
  "counterValue k (snd (nextCounter key w)) =
     (if k = key then Suc (counterValue key w) else counterValue k w)"
proof -
  have app: "find (\<lambda>r. cn_year r = k) (rows @ [r]) =
      (case find (\<lambda>r. cn_year r = k) rows of None \<Rightarrow> (if cn_year r = k then Some r else None)
       | Some q \<Rightarrow> Some q)" for rows r
    by (induction rows) auto
  show "fst (nextCounter key w) = Inr (Suc (counterValue key w))"
    by (simp add: nextCounter_def counterValue_def split: option.split)
  show "counterValue k (snd (nextCounter key w)) =
     (if k = key then Suc (counterValue key w) else counterValue k w)"
    by (auto simp: nextCounter_def counterValue_def app find_updateWhere_key split: option.splits
        dest: find_Some_in)
qed

lemma nextCounter_frame:
  "\<exists>c. snd (nextCounter key w) = w\<lparr>counters := c\<rparr>"
  by (auto simp: nextCounter_def split: option.split)

lemma trackingIdOf_inj: "trackingIdOf y m = trackingIdOf y n \<Longrightarrow> m = n"
  unfolding trackingIdOf_def by (metis append_same_eq read_pad read_show_nat same_append_eq)

lemma referenceNoOf_inj: "referenceNoOf y m = referenceNoOf y n \<Longrightarrow> m = n"
  unfolding referenceNoOf_def by (metis append_same_eq read_pad read_show_nat same_append_eq)

text \<open>Ids of different years differ too, because no numeral contains the separator.\<close>

lemma split_at_sep:
  "c \<notin> set a \<Longrightarrow> c \<notin> set b \<Longrightarrow> a @ c # x = b @ c # y \<longleftrightarrow> a = b \<and> x = y"
proof (induction a arbitrary: b)
  case Nil
  then show ?case by (cases b) auto
next
  case (Cons d a)
  then show ?case by (cases b) auto
qed

lemma show_int_no_sep: "0 \<le> y \<Longrightarrow> CHR ''-'' \<notin> set (show_int y)"
  using show_nat_digits [of "nat y"] by (auto simp: show_int_def digits_def)

lemma show_int_inj: "0 \<le> y \<Longrightarrow> 0 \<le> z \<Longrightarrow> show_int y = show_int z \<Longrightarrow> y = z"
  by (auto simp: show_int_def show_nat_inj)

lemma trackingIdOf_eq:
  assumes "0 \<le> y" and "0 \<le> z"
  shows "trackingIdOf y m = trackingIdOf z n \<longleftrightarrow> y = z \<and> m = n"
proof
  assume eq: "trackingIdOf y m = trackingIdOf z n"
  then have "show_int y = show_int z"
    using split_at_sep [OF show_int_no_sep [OF assms(1)] show_int_no_sep [OF assms(2)]]
    by (simp add: trackingIdOf_def)
  then have "y = z" by (rule show_int_inj [OF assms])
  with eq show "y = z \<and> m = n" using trackingIdOf_inj by blast
qed simp

lemma referenceNoOf_eq:
  assumes "0 \<le> y" and "0 \<le> z"
  shows "referenceNoOf y m = referenceNoOf z n \<longleftrightarrow> y = z \<and> m = n"
proof
  assume eq: "referenceNoOf y m = referenceNoOf z n"
  then have "show_int y = show_int z"
    using split_at_sep [OF show_int_no_sep [OF assms(1)] show_int_no_sep [OF assms(2)]]
    by (simp add: referenceNoOf_def)
  then have "y = z" by (rule show_int_inj [OF assms])
  with eq show "y = z \<and> m = n" using referenceNoOf_inj by blast
qed simp

section \<open>Secrets\<close>

text \<open>\<open>safeEqual\<close>: different lengths are different, otherwise byte by byte.\<close>

definition safeEqual :: "string \<Rightarrow> string \<Rightarrow> bool" where
  "safeEqual a b = (if length a \<noteq> length b then False else list_all2 (=) a b)"

lemma safeEqual_iff [simp]: "safeEqual a b \<longleftrightarrow> a = b"
  by (auto simp: safeEqual_def list.rel_eq)

definition maskEmail :: "string \<Rightarrow> string" where
  "maskEmail email =
     (case split_on (CHR ''@'') email of
        local # domain # _ \<Rightarrow>
          (if domain = [] then ''***''
           else if length local \<le> 2 then take 1 local @ ''***@'' @ domain
           else take 1 local @ replicate (min (length local - 2) 5) (CHR ''*'') @
                [last local] @ ''@'' @ domain)
      | _ \<Rightarrow> ''***'')"

text \<open>\<open>remainingTtl\<close> of \<^verbatim>\<open>jwt.ts\<close>: the seconds a token has left, at least one.\<close>

definition remainingTtl :: "int \<Rightarrow> instant \<Rightarrow> int" where
  "remainingTtl expAt now = max 1 (expAt - now div 1000)"

end
