(* ===== verification/ComplaintMachine.thy ===== *)
theory ComplaintMachine
  imports Utils
begin

text \<open>
  The complaint state machine and the constants of \<^verbatim>\<open>complaint.constants.ts\<close>, and the
  distance function both location features use.
\<close>

section \<open>Transitions\<close>

fun transitions :: "complaint_status \<Rightarrow> (complaint_status \<times> role list) list" where
  "transitions SUBMITTED = [(UNDER_REVIEW, [ADMIN]), (CANCELLED, [CITIZEN])]"
| "transitions UNDER_REVIEW = [(ASSIGNED, [ADMIN]), (REJECTED, [ADMIN])]"
| "transitions ASSIGNED = [(IN_PROGRESS, [OFFICER])]"
| "transitions IN_PROGRESS = [(RESOLVED, [OFFICER])]"
| "transitions RESOLVED = [(CLOSED, [CITIZEN, ADMIN]), (REOPENED, [CITIZEN])]"
| "transitions REOPENED = [(ASSIGNED, [ADMIN])]"
| "transitions CLOSED = []"
| "transitions REJECTED = []"
| "transitions CANCELLED = []"

definition OPEN_STATUSES :: "complaint_status list" where
  "OPEN_STATUSES = [SUBMITTED, UNDER_REVIEW, ASSIGNED, IN_PROGRESS, REOPENED]"

definition isOpen :: "complaint_status \<Rightarrow> bool" where
  "isOpen s \<longleftrightarrow> s \<in> set OPEN_STATUSES"

text \<open>\<open>transitions[from].find((t) \<Rightarrow> t.to === next)\<close>.\<close>

definition findEdge :: "complaint_status \<Rightarrow> complaint_status \<Rightarrow> (complaint_status \<times> role list) option" where
  "findEdge src tgt = find (\<lambda>t. fst t = tgt) (transitions src)"

definition canTransition :: "complaint_status \<Rightarrow> complaint_status \<Rightarrow> role \<Rightarrow> bool \<times> bool" where
  "canTransition src tgt r =
     (case findEdge src tgt of
        None \<Rightarrow> (False, False)
      | Some edge \<Rightarrow> (r \<in> set (snd edge), r \<in> set (snd edge)))"

definition mayMove :: "complaint_status \<Rightarrow> complaint_status \<Rightarrow> bool" where
  "mayMove src tgt \<longleftrightarrow> findEdge src tgt \<noteq> None"

lemma mayMove_cases:
  "mayMove src tgt \<longleftrightarrow>
     (src, tgt) \<in> {(SUBMITTED, UNDER_REVIEW), (SUBMITTED, CANCELLED), (UNDER_REVIEW, ASSIGNED),
       (UNDER_REVIEW, REJECTED), (ASSIGNED, IN_PROGRESS), (IN_PROGRESS, RESOLVED),
       (RESOLVED, CLOSED), (RESOLVED, REOPENED), (REOPENED, ASSIGNED)}"
  by (cases src; cases tgt) (simp_all add: mayMove_def findEdge_def)

lemma mayMove_terminal: "src \<in> {CLOSED, REJECTED, CANCELLED} \<Longrightarrow> \<not> mayMove src tgt"
  by (auto simp: mayMove_def findEdge_def)

lemma isOpen_cases [simp]:
  "isOpen s \<longleftrightarrow> s = SUBMITTED \<or> s = UNDER_REVIEW \<or> s = ASSIGNED \<or> s = IN_PROGRESS \<or> s = REOPENED"
  by (cases s) (simp_all add: isOpen_def OPEN_STATUSES_def)

section \<open>Constants\<close>

definition PRIORITY_LADDER :: "priority list" where
  "PRIORITY_LADDER = [LOW, MEDIUM, HIGH, URGENT]"

definition UPVOTES_FOR_PRIORITY_BUMP :: int where "UPVOTES_FOR_PRIORITY_BUMP = 10"
definition MAX_ATTACHMENTS :: nat where "MAX_ATTACHMENTS = 5"
definition DUPLICATE_WINDOW_HOURS :: int where "DUPLICATE_WINDOW_HOURS = 24"
definition NEARBY_DUPLICATE_METERS :: real where "NEARBY_DUPLICATE_METERS = 100"
definition AUTO_CLOSE_AFTER_DAYS :: int where "AUTO_CLOSE_AFTER_DAYS = 7"

text \<open>\<open>indexOf\<close>, which every priority has on the ladder.\<close>

definition ladderIndex :: "priority \<Rightarrow> nat" where
  "ladderIndex p = length (takeWhile (\<lambda>q. q \<noteq> p) PRIORITY_LADDER)"

definition bumpPriority :: "priority \<Rightarrow> priority" where
  "bumpPriority current =
     PRIORITY_LADDER ! min (ladderIndex current + 1) (length PRIORITY_LADDER - 1)"

lemma bumpPriority_simps [simp]:
  "bumpPriority LOW = MEDIUM" "bumpPriority MEDIUM = HIGH" "bumpPriority HIGH = URGENT"
  "bumpPriority URGENT = URGENT"
  by (simp_all add: bumpPriority_def ladderIndex_def PRIORITY_LADDER_def)

section \<open>Distance\<close>

text \<open>\<open>distanceMeters\<close>: haversine on a sphere of 6371 km, over the reals.\<close>

definition toRad :: "real \<Rightarrow> real" where
  "toRad deg = deg * pi / 180"

definition haversine :: "real \<Rightarrow> real \<Rightarrow> real \<Rightarrow> real \<Rightarrow> real" where
  "haversine lat1 lng1 lat2 lng2 =
     (let dLat = toRad (lat2 - lat1); dLng = toRad (lng2 - lng1) in
      (sin (dLat / 2))\<^sup>2 + cos (toRad lat1) * cos (toRad lat2) * (sin (dLng / 2))\<^sup>2)"

definition EARTH_RADIUS :: real where "EARTH_RADIUS = 6371000"

definition distanceMeters :: "real \<Rightarrow> real \<Rightarrow> real \<Rightarrow> real \<Rightarrow> real" where
  "distanceMeters lat1 lng1 lat2 lng2 =
     2 * EARTH_RADIUS * arcsin (sqrt (haversine lat1 lng1 lat2 lng2))"

lemma haversine_sym: "haversine a b c d = haversine c d a b"
proof -
  have neg: "toRad (x - y) / 2 = - (toRad (y - x) / 2)" for x y
    by (simp add: toRad_def field_simps)
  have "(sin (toRad (c - a) / 2))\<^sup>2 = (sin (toRad (a - c) / 2))\<^sup>2"
    by (subst neg [of c a]) (simp only: sin_minus power2_minus)
  moreover have "(sin (toRad (d - b) / 2))\<^sup>2 = (sin (toRad (b - d) / 2))\<^sup>2"
    by (subst neg [of d b]) (simp only: sin_minus power2_minus)
  ultimately show ?thesis by (simp add: haversine_def Let_def mult.commute)
qed

lemma cos_lat_nonneg: "\<bar>lat\<bar> \<le> 90 \<Longrightarrow> 0 \<le> cos (toRad lat)"
proof (rule cos_ge_zero)
  assume "\<bar>lat\<bar> \<le> 90"
  then have "(- 90) * pi \<le> lat * pi" "lat * pi \<le> 90 * pi"
    by (intro mult_right_mono; simp)+
  then show "- (pi / 2) \<le> toRad lat" "toRad lat \<le> pi / 2" by (auto simp: toRad_def)
qed

text \<open>
  For latitudes between -90 and 90 the argument of \<open>sqrt\<close> lies between 0 and 1, so \<open>asin\<close> is
  never handed a value outside its domain.
\<close>

lemma haversine_bounds:
  assumes "\<bar>lat1\<bar> \<le> 90" and "\<bar>lat2\<bar> \<le> 90"
  shows "0 \<le> haversine lat1 lng1 lat2 lng2" and "haversine lat1 lng1 lat2 lng2 \<le> 1"
proof -
  define a where "a = toRad lat1"
  define b where "b = toRad lat2"
  define t where "t = (sin (toRad (lng2 - lng1) / 2))\<^sup>2"
  have cc: "0 \<le> cos a * cos b"
    unfolding a_def b_def using assms by (intro mult_nonneg_nonneg cos_lat_nonneg)
  have t: "0 \<le> t" "t \<le> 1"
    unfolding t_def by (simp_all add: abs_square_le_1)
  have hav: "haversine lat1 lng1 lat2 lng2 = (sin ((b - a) / 2))\<^sup>2 + cos a * cos b * t"
    by (simp add: haversine_def Let_def a_def b_def t_def toRad_def right_diff_distrib left_diff_distrib diff_divide_distrib)
  show "0 \<le> haversine lat1 lng1 lat2 lng2"
    unfolding hav using cc t by (simp add: add_nonneg_nonneg)
  have half: "(sin ((b - a) / 2))\<^sup>2 = (1 - cos (b - a)) / 2"
  proof -
    have "2 * ((b - a) / 2) = b - a" by simp
    then show ?thesis using cos_double_sin [of "(b - a) / 2"] by (simp only:) simp
  qed
  have "cos a * cos b * t \<le> cos a * cos b"
    using cc t by (simp add: mult_left_le)
  then have "(1 - cos (b - a)) / 2 + cos a * cos b * t \<le> (1 - cos (b - a)) / 2 + cos a * cos b"
    by simp
  also have "\<dots> = (1 + cos (a + b)) / 2"
    by (simp add: cos_diff cos_add field_simps)
  also have "\<dots> \<le> 1" using cos_le_one [of "a + b"] by simp
  finally show "haversine lat1 lng1 lat2 lng2 \<le> 1"
    unfolding hav half .
qed

lemma distanceMeters_bounds:
  assumes "\<bar>lat1\<bar> \<le> 90" and "\<bar>lat2\<bar> \<le> 90"
  shows "0 \<le> distanceMeters lat1 lng1 lat2 lng2"
    and "distanceMeters lat1 lng1 lat2 lng2 \<le> EARTH_RADIUS * pi"
proof -
  define s where "s = sqrt (haversine lat1 lng1 lat2 lng2)"
  have s: "0 \<le> s" "s \<le> 1"
    unfolding s_def using haversine_bounds [OF assms] by simp_all
  then have "0 \<le> arcsin s" "arcsin s \<le> pi / 2"
    using arcsin_le_arcsin [of 0 s] arcsin_bounded [of s] by auto
  then show "0 \<le> distanceMeters lat1 lng1 lat2 lng2"
    "distanceMeters lat1 lng1 lat2 lng2 \<le> EARTH_RADIUS * pi"
    unfolding distanceMeters_def s_def [symmetric] EARTH_RADIUS_def by simp_all
qed

lemma distanceMeters_self: "distanceMeters a b a b = 0"
  by (simp add: distanceMeters_def haversine_def toRad_def)

lemma distanceMeters_sym: "distanceMeters a b c d = distanceMeters c d a b"
  by (simp add: distanceMeters_def haversine_sym [of a b c d])

end
