(* ===== verification/Complaint.thy ===== *)
theory Complaint
  imports ComplaintMachine
begin

text \<open>
  The operations of \<^verbatim>\<open>complaint.service.ts\<close> that change state: create, update, soft
  delete, status changes, assignment, attachments, comments, upvotes and feedback, with the
  access checks in front of them. Reads that only project rows are in the theory
  ComplaintReads.
\<close>

section \<open>Access helpers\<close>

definition noComplaint :: exn where
  "noComplaint = apiError 404 ''Complaint not found'' [det ''NOT_FOUND'' ''Complaint not found'']"

definition notReader :: exn where
  "notReader = apiError 403 ''You do not have access to this complaint''
     [det ''NOT_OWNER'' ''You do not have access to this complaint'']"

definition notOwner :: exn where
  "notOwner = apiError 403 ''You do not own this complaint''
     [det ''NOT_OWNER'' ''You do not own this complaint'']"

definition findComplaint :: "string \<Rightarrow> world \<Rightarrow> complaint option" where
  "findComplaint i w = find (\<lambda>c. c_id c = i) (liveComplaints w)"

definition getOrThrow :: "string \<Rightarrow> complaint act" where
  "getOrThrow i = bindM (getsM (findComplaint i)) (orThrow noComplaint)"

definition assertCanRead :: "complaint \<Rightarrow> actor \<Rightarrow> unit act" where
  "assertCanRead c a =
     (if a_role a = ADMIN then returnM ()
      else if a_role a = CITIZEN \<and> c_citizenId c = a_id a then returnM ()
      else if a_role a = OFFICER then
        (if c_officerId c = Some (a_id a) then returnM ()
         else bindM (getsM (\<lambda>w. find (\<lambda>k. cat_id k = c_categoryId c) (liveCategories w)))
           (\<lambda>category. case category of
               None \<Rightarrow> throwM notReader
             | Some k \<Rightarrow> throwIf (Some (cat_departmentId k) \<noteq> a_departmentId a) notReader))
      else throwM notReader)"

definition assertOwner :: "complaint \<Rightarrow> actor \<Rightarrow> unit act" where
  "assertOwner c a = throwIf (c_citizenId c \<noteq> a_id a) notOwner"

section \<open>Row writes\<close>

text \<open>The table's checks \<^verbatim>\<open>complaint_lat_ck\<close>, \<^verbatim>\<open>complaint_lng_ck\<close> and the unique tracking id.\<close>

definition complaintCheck :: "complaint \<Rightarrow> world \<Rightarrow> exn option" where
  "complaintCheck c w =
     (case c_latitude c of
        Some x \<Rightarrow> if x < -90 \<or> 90 < x then Some (DbCheck ''complaint_lat_ck'')
                  else (case c_longitude c of
                          Some y \<Rightarrow> if y < -180 \<or> 180 < y then Some (DbCheck ''complaint_lng_ck'') else None
                        | None \<Rightarrow> None)
      | None \<Rightarrow> (case c_longitude c of
                    Some y \<Rightarrow> if y < -180 \<or> 180 < y then Some (DbCheck ''complaint_lng_ck'') else None
                  | None \<Rightarrow> None))"

definition insertComplaint :: "complaint \<Rightarrow> complaint act" where
  "insertComplaint c =
     thenM (guardM (complaintCheck c))
     (thenM (guardM (uniqueBy complaints (\<lambda>r. c_trackingId r = c_trackingId c) [''trackingId'']))
       (insertRow complaints_update c))"

text \<open>\<open>tx.complaint.update\<close> by id; \<open>updatedAt\<close> is touched by every update.\<close>

definition updateComplaint :: "string \<Rightarrow> (instant \<Rightarrow> complaint \<Rightarrow> complaint) \<Rightarrow> complaint act" where
  "updateComplaint i f =
     bindM (getsM clock) (\<lambda>now.
       updateRow complaints complaints_update (\<lambda>c. c_id c = i) (\<lambda>c. (f now c)\<lparr>c_updatedAt := now\<rparr>))"

definition insertHistory ::
  "lib \<Rightarrow> string \<Rightarrow> complaint_status option \<Rightarrow> complaint_status \<Rightarrow> string option \<Rightarrow>
   string option \<Rightarrow> unit act" where
  "insertHistory L complaintId src tgt note changedById =
     bindM (freshId L) (\<lambda>i. bindM (getsM clock) (\<lambda>now.
       thenM (insertRow histories_update
         \<lparr>h_id = i, h_complaintId = complaintId, h_fromStatus = src, h_toStatus = tgt,
          h_note = note, h_changedById = changedById, h_createdAt = now\<rparr>)
         (returnM ())))"

definition jstatus :: "complaint_status \<Rightarrow> json" where
  "jstatus s = JStr (show_status s)"

section \<open>Create\<close>

record createInput =
  ci_title :: string
  ci_description :: string
  ci_categoryId :: string
  ci_wardId :: string
  ci_address :: string
  ci_latitude :: "real option"
  ci_longitude :: "real option"

definition badRef :: "string \<Rightarrow> string \<Rightarrow> exn" where
  "badRef field message =
     apiError 400 ''Invalid reference id'' [detF field ''VALIDATION_ERROR'' message]"

text \<open>The open complaint of the same citizen, category and ward in the last 24 hours.\<close>

definition duplicateOf :: "createInput \<Rightarrow> actor \<Rightarrow> world \<Rightarrow> complaint option" where
  "duplicateOf input a w =
     find (\<lambda>c. c_citizenId c = a_id a \<and> c_categoryId c = ci_categoryId input
             \<and> c_wardId c = ci_wardId input \<and> isOpen (c_status c)
             \<and> clock w - DUPLICATE_WINDOW_HOURS * 3600000 \<le> c_createdAt c) (liveComplaints w)"

definition slaHoursOf :: "category \<Rightarrow> real \<Rightarrow> real" where
  "slaHoursOf k urgentFactor =
     (if cat_defaultPriority k = URGENT then of_int (cat_slaHours k) * urgentFactor
      else of_int (cat_slaHours k))"

record nearbyHint =
  nh_id :: string
  nh_trackingId :: string
  nh_title :: string
  nh_distanceMeters :: int

definition firstWithin ::
  "real \<Rightarrow> real \<Rightarrow> complaint list \<Rightarrow> nearbyHint option" where
  "firstWithin lat lng candidates =
     (case find (\<lambda>c. case (c_latitude c, c_longitude c) of
                 (Some y, Some x) \<Rightarrow> distanceMeters lat lng y x \<le> NEARBY_DUPLICATE_METERS
               | _ \<Rightarrow> False) candidates of
        None \<Rightarrow> None
      | Some c \<Rightarrow>
          (case (c_latitude c, c_longitude c) of
             (Some y, Some x) \<Rightarrow>
               Some \<lparr>nh_id = c_id c, nh_trackingId = c_trackingId c, nh_title = c_title c,
                     nh_distanceMeters = js_round (distanceMeters lat lng y x)\<rparr>
           | _ \<Rightarrow> None))"

definition inBox :: "real \<Rightarrow> real \<Rightarrow> real \<Rightarrow> real \<Rightarrow> complaint \<Rightarrow> bool" where
  "inBox lat latDelta lng lngDelta c =
     (case (c_latitude c, c_longitude c) of
        (Some y, Some x) \<Rightarrow> lat - latDelta \<le> y \<and> y \<le> lat + latDelta
                          \<and> lng - lngDelta \<le> x \<and> x \<le> lng + lngDelta
      | _ \<Rightarrow> False)"

definition findNearbyDuplicate :: "complaint \<Rightarrow> createInput \<Rightarrow> nearbyHint option act" where
  "findNearbyDuplicate created input =
     (case (c_latitude created, c_longitude created) of
        (Some lat, Some lng) \<Rightarrow>
          bindM (getsM (\<lambda>w. take 20 (filter (\<lambda>c. c_id c \<noteq> c_id created
                    \<and> c_categoryId c = ci_categoryId input \<and> isOpen (c_status c)
                    \<and> inBox lat (2/1000) lng (2/1000) c) (liveComplaints w))))
            (\<lambda>candidates. returnM (firstWithin lat lng candidates))
      | _ \<Rightarrow> returnM None)"

definition newComplaint ::
  "string \<Rightarrow> string \<Rightarrow> createInput \<Rightarrow> actor \<Rightarrow> category \<Rightarrow> real \<Rightarrow> instant \<Rightarrow> complaint" where
  "newComplaint i trackingId input a k slaHours now =
     \<lparr>c_id = i, c_trackingId = trackingId, c_title = ci_title input,
      c_description = ci_description input, c_status = SUBMITTED,
      c_priority = cat_defaultPriority k, c_address = ci_address input,
      c_latitude = ci_latitude input, c_longitude = ci_longitude input, c_citizenId = a_id a,
      c_officerId = None, c_categoryId = ci_categoryId input, c_wardId = ci_wardId input,
      c_slaDueAt = js_trunc (of_int now + slaHours * 3600000), c_isEscalated = False,
      c_upvoteCount = 0, c_reopenCount = 0, c_resolvedAt = None, c_closedAt = None,
      c_createdAt = now, c_updatedAt = now, c_deletedAt = None\<rparr>"

definition createTx :: "lib \<Rightarrow> createInput \<Rightarrow> actor \<Rightarrow> ctx \<Rightarrow> category \<Rightarrow> real \<Rightarrow> complaint act" where
  "createTx L input a cx k slaHours =
     transaction
       (bindM nextTrackingId (\<lambda>trackingId.
        bindM (freshId L) (\<lambda>i.
        bindM (getsM clock) (\<lambda>now.
        bindM (insertComplaint (newComplaint i trackingId input a k slaHours now)) (\<lambda>created.
        thenM (insertHistory L (c_id created) None SUBMITTED None (Some (a_id a)))
        (thenM (audit L (Some (a_id a)) ''COMPLAINT_CREATED'' ''Complaint'' (c_id created) None
            (Some (JObj [(''trackingId'', JStr (c_trackingId created)),
                         (''status'', jstatus (c_status created))])) (Some cx))
          (returnM created)))))))"

definition create ::
  "lib \<Rightarrow> createInput \<Rightarrow> actor \<Rightarrow> ctx \<Rightarrow> (complaint \<times> nearbyHint option) act" where
  "create L input a cx =
     bindM (getsM (\<lambda>w. find (\<lambda>k. cat_id k = ci_categoryId input) (liveCategories w))) (\<lambda>category.
     bindM (orThrow (badRef ''categoryId'' ''Category does not exist'') category) (\<lambda>k.
     bindM (getsM (\<lambda>w. find (\<lambda>r. w_id r = ci_wardId input) (wards w))) (\<lambda>ward.
     thenM (throwIf (ward = None) (badRef ''wardId'' ''Ward does not exist''))
     (bindM (getsM (duplicateOf input a)) (\<lambda>duplicate.
     thenM (case duplicate of
              None \<Rightarrow> returnM ()
            | Some d \<Rightarrow> throwM (apiError 409 ''You already reported this in the last 24 hours''
                [det ''DUPLICATE_COMPLAINT'' (''Existing complaint: '' @ c_trackingId d)]))
     (bindM (getSetting L ''URGENT_SLA_FACTOR'') (\<lambda>urgentFactor.
     bindM (createTx L input a cx k (slaHoursOf k urgentFactor)) (\<lambda>complaint.
     bindM (findNearbyDuplicate complaint input) (\<lambda>hint.
       returnM (complaint, hint)))))))))) "

section \<open>Update and soft delete\<close>

record updateInput =
  ui_title :: "string option"
  ui_description :: "string option"
  ui_address :: "string option"
  ui_latitude :: "real option"
  ui_longitude :: "real option"

text \<open>An absent property leaves the column alone.\<close>

definition patchOpt :: "'a option \<Rightarrow> 'a \<Rightarrow> 'a" where
  "patchOpt x old = (case x of None \<Rightarrow> old | Some v \<Rightarrow> v)"

definition patchComplaint :: "updateInput \<Rightarrow> complaint \<Rightarrow> complaint" where
  "patchComplaint input c = c\<lparr>
     c_title := patchOpt (ui_title input) (c_title c),
     c_description := patchOpt (ui_description input) (c_description c),
     c_address := patchOpt (ui_address input) (c_address c),
     c_latitude := (case ui_latitude input of None \<Rightarrow> c_latitude c | Some x \<Rightarrow> Some x),
     c_longitude := (case ui_longitude input of None \<Rightarrow> c_longitude c | Some x \<Rightarrow> Some x)\<rparr>"

definition update :: "lib \<Rightarrow> string \<Rightarrow> updateInput \<Rightarrow> actor \<Rightarrow> ctx \<Rightarrow> complaint act" where
  "update L i input a cx =
     bindM (getOrThrow i) (\<lambda>complaint.
     thenM (assertOwner complaint a)
     (thenM (throwIf (c_status complaint \<noteq> SUBMITTED)
        (apiError 409 ''A complaint can only be edited while it is SUBMITTED''
          [det ''INVALID_TRANSITION'' (''Current status: '' @ show_status (c_status complaint))]))
     (transaction
       (thenM (guardM (complaintCheck (patchComplaint input complaint)))
       (bindM (updateComplaint i (\<lambda>_. patchComplaint input)) (\<lambda>updated.
        thenM (audit L (Some (a_id a)) ''COMPLAINT_UPDATED'' ''Complaint'' i
            (Some (JObj [(''title'', JStr (c_title complaint)),
                         (''description'', JStr (c_description complaint))]))
            (Some (JObj [(''title'', JStr (c_title updated)),
                         (''description'', JStr (c_description updated))])) (Some cx))
          (returnM updated)))))))"

definition softDelete :: "lib \<Rightarrow> string \<Rightarrow> actor \<Rightarrow> ctx \<Rightarrow> string act" where
  "softDelete L i a cx =
     bindM (getOrThrow i) (\<lambda>complaint.
     thenM (transaction
       (thenM (updateComplaint i (\<lambda>now c. c\<lparr>c_deletedAt := Some now\<rparr>))
       (audit L (Some (a_id a)) ''COMPLAINT_DELETED'' ''Complaint'' i
          (Some (JObj [(''trackingId'', JStr (c_trackingId complaint)),
                       (''status'', jstatus (c_status complaint))])) None (Some cx))))
     (returnM ''Complaint deleted''))"

section \<open>Status changes\<close>

text \<open>The columns \<open>applyStatusChange\<close> writes.\<close>

definition statusData :: "complaint_status \<Rightarrow> instant \<Rightarrow> complaint \<Rightarrow> complaint" where
  "statusData tgt now c =
     (let c1 = c\<lparr>c_status := tgt\<rparr>;
          c2 = (if tgt = RESOLVED then c1\<lparr>c_resolvedAt := Some now\<rparr> else c1);
          c3 = (if tgt = CLOSED then c2\<lparr>c_closedAt := Some now\<rparr> else c2)
      in (if tgt = REOPENED then c3\<lparr>c_reopenCount := c_reopenCount c3 + 1, c_resolvedAt := None\<rparr>
          else c3))"

definition modifiedElsewhere :: exn where
  "modifiedElsewhere = apiError 409 ''Complaint was modified by someone else''
     [det ''CONFLICT'' ''Complaint was modified by someone else'']"

text \<open>The row still in the status it was read with: the \<open>WHERE\<close> clause of the optimistic lock.\<close>

definition lockedBy :: "complaint \<Rightarrow> complaint \<Rightarrow> bool" where
  "lockedBy c r \<longleftrightarrow> c_id r = c_id c \<and> c_status r = c_status c \<and> c_deletedAt r = None"

definition applyStatusChange ::
  "lib \<Rightarrow> complaint \<Rightarrow> complaint_status \<Rightarrow> string option \<Rightarrow> string option \<Rightarrow> ctx option \<Rightarrow>
   unit act" where
  "applyStatusChange L complaint tgt note changedById cx =
     transaction
       (bindM (getsM clock) (\<lambda>now.
        bindM (updateMany complaints complaints_update (lockedBy complaint)
                 (\<lambda>c. (statusData tgt now c)\<lparr>c_updatedAt := now\<rparr>)) (\<lambda>count.
        thenM (throwIf (count = 0) modifiedElsewhere)
        (thenM (insertHistory L (c_id complaint) (Some (c_status complaint)) tgt note changedById)
        (thenM (audit L changedById ''COMPLAINT_STATUS_CHANGED'' ''Complaint'' (c_id complaint)
            (Some (JObj [(''status'', jstatus (c_status complaint))]))
            (Some (JObj [(''status'', jstatus tgt)])) cx)
        (notify L (c_citizenId complaint) ''Complaint update''
            (c_trackingId complaint @ '' is now '' @ show_status tgt)
            (Some (JObj [(''complaintId'', JStr (c_id complaint)),
                         (''status'', jstatus tgt)]))))))))"

text \<open>\<open>LIST_SELECT\<close>: the columns a list or a status change answers with.\<close>

record listItem =
  li_id :: string
  li_trackingId :: string
  li_title :: string
  li_status :: complaint_status
  li_priority :: priority
  li_address :: string
  li_isEscalated :: bool
  li_upvoteCount :: int
  li_slaDueAt :: instant
  li_createdAt :: instant
  li_resolvedAt :: "instant option"
  li_category :: "(string \<times> string) option"
  li_ward :: "(string \<times> int \<times> string) option"
  li_officer :: "(string \<times> string) option"

definition LIST_SELECT :: "world \<Rightarrow> complaint \<Rightarrow> listItem" where
  "LIST_SELECT w c =
     \<lparr>li_id = c_id c, li_trackingId = c_trackingId c, li_title = c_title c,
      li_status = c_status c, li_priority = c_priority c, li_address = c_address c,
      li_isEscalated = c_isEscalated c, li_upvoteCount = c_upvoteCount c,
      li_slaDueAt = c_slaDueAt c, li_createdAt = c_createdAt c, li_resolvedAt = c_resolvedAt c,
      li_category = map_option (\<lambda>k. (cat_id k, cat_name k))
        (find (\<lambda>k. cat_id k = c_categoryId c) (categories w)),
      li_ward = map_option (\<lambda>r. (w_id r, w_number r, w_name r))
        (find (\<lambda>r. w_id r = c_wardId c) (wards w)),
      li_officer = map_option (\<lambda>u. (u_id u, u_name u))
        (find (\<lambda>u. Some (u_id u) = c_officerId c) (users w))\<rparr>"

definition selectById :: "string \<Rightarrow> listItem option act" where
  "selectById i = getsM (\<lambda>w. map_option (LIST_SELECT w) (findComplaint i w))"

text \<open>
  \<open>changeStatus\<close> in its two halves: the checks, which answer the row they read, and the
  locked write with the mail. Another request may run between the two.
\<close>

definition noEdge :: "complaint_status \<Rightarrow> complaint_status \<Rightarrow> exn" where
  "noEdge src tgt =
     (let m = ''Cannot change status from '' @ show_status src @ '' to '' @ show_status tgt
      in apiError 409 m [det ''INVALID_TRANSITION'' m])"

definition changeStatusGuard ::
  "string \<Rightarrow> complaint_status \<Rightarrow> string option \<Rightarrow> actor \<Rightarrow> complaint act" where
  "changeStatusGuard i tgt note a =
     bindM (getOrThrow i) (\<lambda>current.
     bindM (orThrow (noEdge (c_status current) tgt) (findEdge (c_status current) tgt)) (\<lambda>edge.
     thenM (throwIf (a_role a \<notin> set (snd edge))
        (apiError 403 ''Your role cannot make this transition''
          [det ''FORBIDDEN_ROLE''
            (''Allowed roles: '' @ join_with '', '' (map show_role (snd edge)))]))
     (thenM (whenM (a_role a = CITIZEN) (assertOwner current a))
     (thenM (throwIf (a_role a = OFFICER \<and> c_officerId current \<noteq> Some (a_id a))
        (apiError 403 ''This complaint is not assigned to you''
          [det ''NOT_OWNER'' ''This complaint is not assigned to you'']))
     (thenM (throwIf (tgt = REJECTED \<and> (note = None \<or> note = Some []))
        (apiError 400 ''Validation failed''
          [detF ''note'' ''VALIDATION_ERROR'' ''A note is required when rejecting'']))
     (thenM (whenM (tgt = RESOLVED)
        (bindM (getsM (\<lambda>w. countWhere (\<lambda>t. at_complaintId t = i \<and> at_kind t = RESOLUTION_PROOF)
                             (attachments w))) (\<lambda>proof.
           throwIf (proof = 0) (apiError 409 ''Upload resolution proof before resolving''
             [det ''CONFLICT'' ''At least one RESOLUTION_PROOF attachment is required'']))))
     (returnM current)))))))"

definition changeStatusCommit ::
  "lib \<Rightarrow> string \<Rightarrow> complaint_status \<Rightarrow> string option \<Rightarrow> actor \<Rightarrow> ctx \<Rightarrow> complaint \<Rightarrow>
   listItem option act" where
  "changeStatusCommit L i tgt note a cx current =
     thenM (applyStatusChange L current tgt note (Some (a_id a)) (Some cx))
     (bindM (getsM (\<lambda>w. find (\<lambda>u. u_id u = c_citizenId current) (liveUsers w))) (\<lambda>citizen.
      thenM (case citizen of
               None \<Rightarrow> returnM ()
             | Some u \<Rightarrow> dispatchEmail
                 (sendStatusUpdateEmail L (u_email u) (c_trackingId current) tgt note))
      (selectById i)))"

definition changeStatus ::
  "lib \<Rightarrow> string \<Rightarrow> complaint_status \<Rightarrow> string option \<Rightarrow> actor \<Rightarrow> ctx \<Rightarrow> listItem option act" where
  "changeStatus L i tgt note a cx =
     bindM (changeStatusGuard i tgt note a) (changeStatusCommit L i tgt note a cx)"

definition cancel :: "lib \<Rightarrow> string \<Rightarrow> string option \<Rightarrow> actor \<Rightarrow> ctx \<Rightarrow> listItem option act" where
  "cancel L i note a cx = changeStatus L i CANCELLED note a cx"

definition reopenGuard :: "lib \<Rightarrow> string \<Rightarrow> actor \<Rightarrow> unit act" where
  "reopenGuard L i a =
     bindM (getOrThrow i) (\<lambda>complaint.
     thenM (assertOwner complaint a)
     (bindM (getSetting L ''REOPEN_LIMIT'') (\<lambda>limit.
      bindM (getSetting L ''REOPEN_WINDOW_DAYS'') (\<lambda>windowDays.
      thenM (throwIf (limit \<le> of_int (c_reopenCount complaint))
        (apiError 409 (''A complaint can be reopened at most '' @ numStr L limit @ '' times'')
          [det ''CONFLICT'' (''Reopen limit of '' @ numStr L limit @ '' reached'')]))
      (bindM (getsM clock) (\<lambda>now.
        throwIf (case c_resolvedAt complaint of
                   None \<Rightarrow> True
                 | Some t \<Rightarrow> js_trunc (of_int t + windowDays * 86400000) < now)
          (apiError 409 (''A complaint can only be reopened within '' @ numStr L windowDays @ '' days'')
            [det ''CONFLICT'' ''Reopen window has closed'']))))))) "

definition reopen :: "lib \<Rightarrow> string \<Rightarrow> string option \<Rightarrow> actor \<Rightarrow> ctx \<Rightarrow> listItem option act" where
  "reopen L i note a cx = thenM (reopenGuard L i a) (changeStatus L i REOPENED note a cx)"

section \<open>Assignment\<close>

record assignInput =
  asg_officerId :: "string option"
  asg_auto :: bool
  asg_reason :: "string option"

definition activeOfficers :: "string \<Rightarrow> world \<Rightarrow> user list" where
  "activeOfficers departmentId w =
     filter (\<lambda>u. u_role u = OFFICER \<and> u_status u = ACTIVE \<and> u_departmentId u = Some departmentId)
       (liveUsers w)"

text \<open>The \<open>groupBy\<close> reads the table itself, soft-deleted rows included.\<close>

definition officerLoad :: "world \<Rightarrow> user \<Rightarrow> nat" where
  "officerLoad w u = countWhere (\<lambda>c. c_officerId c = Some (u_id u) \<and> isOpen (c_status c)) (complaints w)"

text \<open>\<open>officers.reduce(...)\<close>: the first of the least loaded.\<close>

fun leastLoaded :: "(user \<Rightarrow> nat) \<Rightarrow> user \<Rightarrow> user list \<Rightarrow> user" where
  "leastLoaded load best [] = best"
| "leastLoaded load best (u # us) = leastLoaded load (if load u < load best then u else best) us"

definition pickLeastLoadedOfficer :: "string \<Rightarrow> string act" where
  "pickLeastLoadedOfficer departmentId =
     (\<lambda>w. case activeOfficers departmentId w of
        [] \<Rightarrow> (Inl (apiError 409 ''No active officer in this department''
                [det ''CONFLICT'' ''No active officer in this department'']), w)
      | u # us \<Rightarrow> (Inr (u_id (leastLoaded (officerLoad w) u us)), w))"

text \<open>
  \<open>assign\<close> in its two halves: what it reads and checks, and the transaction, which writes the
  status it decided on from that read without looking at the row again.
\<close>

definition assignedStatus :: "complaint_status \<Rightarrow> complaint_status" where
  "assignedStatus s = (if s = UNDER_REVIEW \<or> s = REOPENED then ASSIGNED else s)"

definition assignGuard :: "string \<Rightarrow> assignInput \<Rightarrow> (complaint \<times> user) act" where
  "assignGuard i input =
     bindM (getsM (findComplaint i)) (\<lambda>row.
     bindM (orThrow (apiError 404 ''Complaint not found'' [detC ''NOT_FOUND'']) row) (\<lambda>complaint.
     bindM (getsM (\<lambda>w. find (\<lambda>k. cat_id k = c_categoryId complaint) (categories w))) (\<lambda>category.
     bindM (orThrow (OtherErr ''category'') category) (\<lambda>k.
     bindM (if asg_auto input
            then bindM (pickLeastLoadedOfficer (cat_departmentId k)) (\<lambda>oid. returnM (Some oid))
            else returnM (asg_officerId input)) (\<lambda>officerId.
     bindM (getsM (\<lambda>w. find (\<lambda>u. (case officerId of None \<Rightarrow> True | Some oid \<Rightarrow> u_id u = oid)
                           \<and> u_role u = OFFICER \<and> u_status u = ACTIVE) (liveUsers w))) (\<lambda>found.
     bindM (orThrow (badRef ''officerId'' ''No such active officer'') found) (\<lambda>officer.
     thenM (throwIf (u_departmentId officer \<noteq> Some (cat_departmentId k))
        (apiError 409 ''Officer belongs to a different department''
          [det ''CONFLICT'' ''Officer must belong to the category's department'']))
     (returnM (complaint, officer)))))))))"

definition insertAssignment ::
  "lib \<Rightarrow> string \<Rightarrow> string \<Rightarrow> string option \<Rightarrow> string option \<Rightarrow> unit act" where
  "insertAssignment L complaintId officerId assignedById reason =
     bindM (freshId L) (\<lambda>i. bindM (getsM clock) (\<lambda>now.
       thenM (guardM (uniqueBy assignments
          (\<lambda>r. as_complaintId r = complaintId \<and> as_unassignedAt r = None) [''complaintId'']))
       (thenM (insertRow assignments_update
         \<lparr>as_id = i, as_complaintId = complaintId, as_officerId = officerId,
          as_assignedById = assignedById, as_reason = reason, as_assignedAt = now,
          as_unassignedAt = None\<rparr>)
        (returnM ()))))"

definition assignCommit ::
  "lib \<Rightarrow> string \<Rightarrow> assignInput \<Rightarrow> actor \<Rightarrow> ctx \<Rightarrow> complaint \<times> user \<Rightarrow> listItem option act" where
  "assignCommit L i input a cx snapshot =
     (case snapshot of (complaint, officer) \<Rightarrow>
       let nextStatus = assignedStatus (c_status complaint) in
       thenM (transaction
         (bindM (getsM clock) (\<lambda>now.
          thenM (updateMany assignments assignments_update
             (\<lambda>r. as_complaintId r = i \<and> as_unassignedAt r = None)
             (\<lambda>r. r\<lparr>as_unassignedAt := Some now\<rparr>))
          (thenM (insertAssignment L i (u_id officer)
             (if asg_auto input then None else Some (a_id a)) (asg_reason input))
          (thenM (updateComplaint i
             (\<lambda>_ c. c\<lparr>c_officerId := Some (u_id officer), c_status := nextStatus\<rparr>))
          (thenM (whenM (nextStatus \<noteq> c_status complaint)
             (insertHistory L i (Some (c_status complaint)) nextStatus (asg_reason input)
               (Some (a_id a))))
          (thenM (audit L (Some (a_id a)) ''COMPLAINT_ASSIGNED'' ''Complaint'' i
             (Some (JObj [(''officerId'', jopt JStr (c_officerId complaint)),
                          (''status'', jstatus (c_status complaint))]))
             (Some (JObj [(''officerId'', JStr (u_id officer)),
                          (''status'', jstatus nextStatus)])) (Some cx))
          (notify L (u_id officer) ''New complaint assigned''
             (c_trackingId complaint @ '' has been assigned to you'')
             (Some (JObj [(''complaintId'', JStr i)]))))))))))
       (selectById i))"

definition assign ::
  "lib \<Rightarrow> string \<Rightarrow> assignInput \<Rightarrow> actor \<Rightarrow> ctx \<Rightarrow> listItem option act" where
  "assign L i input a cx = bindM (assignGuard i input) (assignCommit L i input a cx)"

section \<open>Attachments, comments, upvotes, feedback\<close>

text \<open>\<open>upload\<close> is what the storage service answered: an error, or the url and the public id.\<close>

definition attachmentKind :: "complaint \<Rightarrow> attachment_kind option \<Rightarrow> actor \<Rightarrow> attachment_kind" where
  "attachmentKind complaint kind a =
     (case kind of
        Some k \<Rightarrow> k
      | None \<Rightarrow> if c_officerId complaint = Some (a_id a) \<and> a_role a = OFFICER
                then RESOLUTION_PROOF else EVIDENCE)"

definition addAttachment ::
  "lib \<Rightarrow> string \<Rightarrow> exn + string \<times> string \<Rightarrow> attachment_kind option \<Rightarrow> actor \<Rightarrow> attachment act" where
  "addAttachment L i upload kind a =
     bindM (getOrThrow i) (\<lambda>complaint.
     let isOwner = (c_citizenId complaint = a_id a);
         isAssignedOfficer = (c_officerId complaint = Some (a_id a));
         resolvedKind = attachmentKind complaint kind a
     in
     thenM (throwIf (resolvedKind = EVIDENCE \<and> \<not> isOwner \<and> a_role a \<noteq> ADMIN)
        (apiError 403 ''Only the owner can add evidence''
          [det ''NOT_OWNER'' ''Only the owner can add evidence'']))
     (thenM (throwIf (resolvedKind = RESOLUTION_PROOF \<and> \<not> isAssignedOfficer \<and> a_role a \<noteq> ADMIN)
        (apiError 403 ''Only the assigned officer can add resolution proof''
          [det ''NOT_OWNER'' ''Only the assigned officer can add resolution proof'']))
     (bindM (getsM (\<lambda>w. countWhere (\<lambda>t. at_complaintId t = i) (attachments w))) (\<lambda>count.
      thenM (throwIf (MAX_ATTACHMENTS \<le> count)
        (apiError 409 (''A complaint can hold at most '' @ show_nat MAX_ATTACHMENTS @ '' attachments'')
          [det ''CONFLICT'' ''Attachment limit reached'']))
      (bindM (liftE upload) (\<lambda>file.
       bindM (freshId L) (\<lambda>aid.
       bindM (getsM clock) (\<lambda>now.
         insertRow attachments_update
           \<lparr>at_id = aid, at_complaintId = i, at_url = fst file, at_publicId = snd file,
            at_kind = resolvedKind, at_uploadedById = a_id a, at_createdAt = now\<rparr>))))))))"

definition addComment :: "lib \<Rightarrow> string \<Rightarrow> string \<Rightarrow> bool \<Rightarrow> actor \<Rightarrow> comment act" where
  "addComment L i body internal a =
     bindM (getOrThrow i) (\<lambda>complaint.
     thenM (assertCanRead complaint a)
     (thenM (throwIf (internal \<and> a_role a = CITIZEN)
        (apiError 403 ''Citizens cannot post internal notes''
          [det ''FORBIDDEN_ROLE'' ''Internal notes are staff only'']))
     (bindM (freshId L) (\<lambda>cid.
      bindM (getsM clock) (\<lambda>now.
      bindM (insertRow comments_update
         \<lparr>cm_id = cid, cm_complaintId = i, cm_authorId = a_id a, cm_body = body,
          cm_isInternal = internal, cm_createdAt = now, cm_deletedAt = None\<rparr>) (\<lambda>comment.
      thenM (whenM (\<not> cm_isInternal comment)
        (case (if a_id a = c_citizenId complaint then c_officerId complaint
               else Some (c_citizenId complaint)) of
           None \<Rightarrow> returnM ()
         | Some recipient \<Rightarrow>
             (if recipient = [] then returnM ()
              else notify L recipient ''New comment''
                (c_trackingId complaint @ '' has a new comment'')
                (Some (JObj [(''complaintId'', JStr i)])))))
      (returnM comment)))))))"

record upvoteResult =
  up_id :: string
  up_upvoteCount :: int
  up_priority :: priority

definition upvoteSelect :: "complaint \<Rightarrow> upvoteResult" where
  "upvoteSelect c = \<lparr>up_id = c_id c, up_upvoteCount = c_upvoteCount c, up_priority = c_priority c\<rparr>"

definition insertUpvote :: "lib \<Rightarrow> string \<Rightarrow> string \<Rightarrow> unit act" where
  "insertUpvote L complaintId userId =
     bindM (freshId L) (\<lambda>i. bindM (getsM clock) (\<lambda>now.
       thenM (guardM (uniqueBy upvotes (\<lambda>r. uv_complaintId r = complaintId \<and> uv_userId r = userId)
                [''complaintId'', ''userId'']))
       (thenM (insertRow upvotes_update
         \<lparr>uv_id = i, uv_complaintId = complaintId, uv_userId = userId, uv_createdAt = now\<rparr>)
        (returnM ()))))"

definition upvoteTx :: "lib \<Rightarrow> string \<Rightarrow> actor \<Rightarrow> upvoteResult act" where
  "upvoteTx L i a =
     transaction
       (thenM (insertUpvote L i (a_id a))
       (bindM (updateComplaint i (\<lambda>_ c. c\<lparr>c_upvoteCount := c_upvoteCount c + 1\<rparr>)) (\<lambda>row.
        if c_upvoteCount row = UPVOTES_FOR_PRIORITY_BUMP
             \<and> bumpPriority (c_priority row) \<noteq> c_priority row
        then bindM (updateComplaint i (\<lambda>_ c. c\<lparr>c_priority := bumpPriority (c_priority row)\<rparr>))
               (\<lambda>bumped. returnM (upvoteSelect bumped))
        else returnM (upvoteSelect row))))"

definition upvote :: "lib \<Rightarrow> string \<Rightarrow> actor \<Rightarrow> upvoteResult act" where
  "upvote L i a =
     bindM (getOrThrow i) (\<lambda>_.
     bindM (getsM (\<lambda>w. find (\<lambda>r. uv_complaintId r = i \<and> uv_userId r = a_id a) (upvotes w))) (\<lambda>existing.
     thenM (throwIf (existing \<noteq> None)
        (apiError 409 ''You already upvoted this complaint''
          [det ''CONFLICT'' ''You already upvoted this complaint'']))
     (upvoteTx L i a)))"

record feedbackInput =
  fi_rating :: int
  fi_comment :: "string option"

definition insertFeedback :: "lib \<Rightarrow> string \<Rightarrow> feedbackInput \<Rightarrow> feedback act" where
  "insertFeedback L i input =
     bindM (freshId L) (\<lambda>fid. bindM (getsM clock) (\<lambda>now.
       thenM (throwIf (fi_rating input < 1 \<or> 5 < fi_rating input) (DbCheck ''feedback_rating_ck''))
       (thenM (guardM (uniqueBy feedbacks (\<lambda>r. fb_complaintId r = i) [''complaintId'']))
       (insertRow feedbacks_update
         \<lparr>fb_id = fid, fb_complaintId = i, fb_rating = fi_rating input,
          fb_comment = fi_comment input, fb_createdAt = now\<rparr>))))"

text \<open>The row is written before, and outside, the transaction that closes the complaint.\<close>

definition feedback :: "lib \<Rightarrow> string \<Rightarrow> feedbackInput \<Rightarrow> actor \<Rightarrow> ctx \<Rightarrow> feedback act" where
  "feedback L i input a cx =
     bindM (getOrThrow i) (\<lambda>complaint.
     thenM (assertOwner complaint a)
     (thenM (throwIf (c_status complaint \<noteq> RESOLVED \<and> c_status complaint \<noteq> CLOSED)
        (apiError 409 ''Feedback is only possible on a resolved complaint''
          [det ''CONFLICT'' (''Current status: '' @ show_status (c_status complaint))]))
     (bindM (getsM (\<lambda>w. find (\<lambda>r. fb_complaintId r = i) (feedbacks w))) (\<lambda>existing.
      thenM (throwIf (existing \<noteq> None)
        (apiError 409 ''Feedback has already been given''
          [det ''CONFLICT'' ''Feedback has already been given'']))
      (bindM (insertFeedback L i input) (\<lambda>created.
       thenM (whenM (c_status complaint = RESOLVED)
         (applyStatusChange L complaint CLOSED (Some ''Closed by citizen feedback'')
            (Some (a_id a)) (Some cx)))
       (returnM created)))))))"

end
