(* ===== verification/ComplaintFacts.thy ===== *)
theory ComplaintFacts
  imports Complaint
begin

text \<open>
  What the complaint operations do to the state: the closed form of the locked status write,
  what a successful check has established, and which parts of the state each operation
  leaves alone. The invariants of the theory ComplaintInv rest on these.
\<close>

section \<open>Read-only operations\<close>

interpretation ro: step_preorder "(=)" undoTx
  by unfold_locales auto

lemma sel_getOrThrow: "related (=) (getOrThrow i)"
  unfolding getOrThrow_def by (intro ro.rel_intros)

lemma ro_assertCanRead: "related (=) (assertCanRead c a)"
  unfolding assertCanRead_def by (intro ro.rel_intros)

lemma ro_assertOwner: "related (=) (assertOwner c a)"
  unfolding assertOwner_def by (intro ro.rel_intros)

lemma ro_changeStatusGuard: "related (=) (changeStatusGuard i tgt msg a)"
  unfolding changeStatusGuard_def by (intro ro.rel_intros sel_getOrThrow ro_assertOwner)

lemma ro_pick: "related (=) (pickLeastLoadedOfficer d)"
  unfolding pickLeastLoadedOfficer_def related_def by (simp split: list.split)

lemma ro_assignGuard: "related (=) (assignGuard i input)"
  unfolding assignGuard_def by (intro ro.rel_intros ro_pick)

lemma ro_state: "related (=) m \<Longrightarrow> m w = (r, w') \<Longrightarrow> w' = w"
  by (auto dest: relatedD)

section \<open>Finding the row\<close>

lemma findComplaint_Some:
  "findComplaint i w = Some c \<Longrightarrow> c \<in> set (complaints w) \<and> c_id c = i \<and> c_deletedAt c = None"
  by (auto simp: findComplaint_def live_defs dest: find_Some_in)

lemma run_getOrThrow [eval]:
  "getOrThrow i w =
     (case findComplaint i w of None \<Rightarrow> (Inl noComplaint, w) | Some c \<Rightarrow> (Inr c, w))"
  by (simp add: getOrThrow_def eval)

lemma getOrThrow_InrE:
  assumes "getOrThrow i w = (Inr c, w')"
  obtains "findComplaint i w = Some c" and "w' = w"
  using assms by (auto simp: eval split: option.splits)

text \<open>With distinct ids the row is found by its id.\<close>

lemma findComplaint_unique:
  assumes "distinct (map c_id (complaints w))" and "c \<in> set (complaints w)" and "c_deletedAt c = None"
  shows "findComplaint (c_id c) w = Some c"
proof -
  have "findComplaint (c_id c) w \<noteq> None"
    using assms(2,3) by (auto simp: findComplaint_def live_defs find_None_all)
  then obtain d where d: "findComplaint (c_id c) w = Some d" by auto
  then show ?thesis
    using findComplaint_Some [OF d] distinct_key_unique [OF assms(1)] assms(2) by metis
qed

section \<open>The locked status write\<close>

definition historyRow ::
  "lib \<Rightarrow> nat \<Rightarrow> instant \<Rightarrow> string \<Rightarrow> complaint_status option \<Rightarrow> complaint_status \<Rightarrow>
   string option \<Rightarrow> string option \<Rightarrow> history" where
  "historyRow L pos now complaintId src tgt msg changedById =
     \<lparr>h_id = uuidTape L pos, h_complaintId = complaintId, h_fromStatus = src, h_toStatus = tgt,
      h_note = msg, h_changedById = changedById, h_createdAt = now\<rparr>"

lemma historyRow_simps [simp]:
  "h_complaintId (historyRow L p t i s g n b) = i" "h_fromStatus (historyRow L p t i s g n b) = s"
  "h_toStatus (historyRow L p t i s g n b) = g" "h_note (historyRow L p t i s g n b) = n"
  "h_changedById (historyRow L p t i s g n b) = b" "h_createdAt (historyRow L p t i s g n b) = t"
  by (simp_all add: historyRow_def)

lemma run_insertHistory [eval]:
  "insertHistory L i s g n b w =
     (Inr (), w\<lparr>uuidPos := Suc (uuidPos w),
        histories := histories w @ [historyRow L (uuidPos w) (clock w) i s g n b]\<rparr>)"
  by (simp add: insertHistory_def historyRow_def eval)

lemma statusData_keeps [simp]:
  "c_id (statusData tgt now c) = c_id c" "c_status (statusData tgt now c) = tgt"
  "c_deletedAt (statusData tgt now c) = c_deletedAt c"
  "c_trackingId (statusData tgt now c) = c_trackingId c"
  "c_citizenId (statusData tgt now c) = c_citizenId c"
  "c_officerId (statusData tgt now c) = c_officerId c"
  "c_upvoteCount (statusData tgt now c) = c_upvoteCount c"
  "c_priority (statusData tgt now c) = c_priority c"
  by (simp_all add: statusData_def Let_def)

text \<open>What a successful write leaves behind.\<close>

definition lockedWrite :: "complaint \<Rightarrow> complaint_status \<Rightarrow> world \<Rightarrow> complaint list" where
  "lockedWrite c tgt w =
     updateWhere (lockedBy c) (\<lambda>r. (statusData tgt (clock w) r)\<lparr>c_updatedAt := clock w\<rparr>) (complaints w)"

lemma applyStatusChange_lost:
  assumes "countWhere (lockedBy c) (complaints w) = 0"
  shows "applyStatusChange L c tgt msg who cx w = (Inl modifiedElsewhere, w)"
  using assms by (simp add: applyStatusChange_def eval undoTx_def)

lemma applyStatusChange_won:
  assumes "countWhere (lockedBy c) (complaints w) \<noteq> 0"
  obtains w' where "applyStatusChange L c tgt msg who cx w = (Inr (), w')"
    and "complaints w' = lockedWrite c tgt w"
    and "histories w' = histories w @
           [historyRow L (uuidPos w) (clock w) (c_id c) (Some (c_status c)) tgt msg who]"
    and "auditLogs w' = auditLogs w @
           [auditRow L who ''COMPLAINT_STATUS_CHANGED'' ''Complaint'' (c_id c)
              (Some (JObj [(''status'', jstatus (c_status c))]))
              (Some (JObj [(''status'', jstatus tgt)])) cx (w\<lparr>uuidPos := Suc (uuidPos w)\<rparr>)]"
    and "\<exists>n. notifications w' = notifications w @ [n] \<and> n_userId n = c_citizenId c"
    and "w'\<lparr>complaints := [], histories := [], auditLogs := [], notifications := [], uuidPos := 0\<rparr> =
         w\<lparr>complaints := [], histories := [], auditLogs := [], notifications := [], uuidPos := 0\<rparr>"
    and "uuidPos w' = uuidPos w + 3"
proof -
  have run: "applyStatusChange L c tgt msg who cx w = (Inr (), snd (applyStatusChange L c tgt msg who cx w))"
    using assms by (simp add: applyStatusChange_def eval)
  show thesis
    by (rule that [OF run])
      (use assms in \<open>simp_all add: applyStatusChange_def eval lockedWrite_def newNotification_def
         auditRow_def\<close>)
qed

lemma applyStatusChange_InrE:
  assumes "applyStatusChange L c tgt msg who cx w = (Inr x, w')"
  obtains "countWhere (lockedBy c) (complaints w) \<noteq> 0"
  using assms by (cases "countWhere (lockedBy c) (complaints w) = 0") (auto simp: applyStatusChange_lost)

section \<open>What the checks of a status change establish\<close>

definition moveAllowed ::
  "string \<Rightarrow> complaint_status \<Rightarrow> string option \<Rightarrow> actor \<Rightarrow> complaint \<Rightarrow> world \<Rightarrow> bool" where
  "moveAllowed i tgt msg a c w \<longleftrightarrow>
     findComplaint i w = Some c \<and>
     (\<exists>edge. findEdge (c_status c) tgt = Some edge \<and> a_role a \<in> set (snd edge)) \<and>
     (a_role a = CITIZEN \<longrightarrow> c_citizenId c = a_id a) \<and>
     (a_role a = OFFICER \<longrightarrow> c_officerId c = Some (a_id a)) \<and>
     (tgt = REJECTED \<longrightarrow> msg \<noteq> None \<and> msg \<noteq> Some []) \<and>
     (tgt = RESOLVED \<longrightarrow>
        0 < countWhere (\<lambda>t. at_complaintId t = i \<and> at_kind t = RESOLUTION_PROOF) (attachments w))"

lemma changeStatusGuard_ok:
  "moveAllowed i tgt msg a c w \<Longrightarrow> changeStatusGuard i tgt msg a w = (Inr c, w)"
  by (auto simp: moveAllowed_def changeStatusGuard_def assertOwner_def eval split: if_splits)

lemma changeStatusGuard_InrD:
  assumes "changeStatusGuard i tgt msg a w = (Inr c, w')"
  shows "moveAllowed i tgt msg a c w" and "w' = w"
proof -
  show "w' = w" by (rule ro_state [OF ro_changeStatusGuard assms])
  show "moveAllowed i tgt msg a c w"
    using assms unfolding changeStatusGuard_def
    by (auto simp: eval moveAllowed_def assertOwner_def split: option.splits if_splits)
qed

lemma changeStatusGuard_iff:
  "changeStatusGuard i tgt msg a w = (Inr c, w') \<longleftrightarrow> w' = w \<and> moveAllowed i tgt msg a c w"
  using changeStatusGuard_ok changeStatusGuard_InrD by blast

lemma moveAllowed_mayMove: "moveAllowed i tgt msg a c w \<Longrightarrow> mayMove (c_status c) tgt"
  by (auto simp: moveAllowed_def mayMove_def)

lemma findComplaint_locked:
  "findComplaint i w = Some c \<Longrightarrow> countWhere (lockedBy c) (complaints w) \<noteq> 0"
  by (auto simp: countWhere_0 lockedBy_def dest!: findComplaint_Some)

section \<open>Frames\<close>

text \<open>
  The part of the state the status history is about: the rows' ids and statuses, and the
  history rows. Most operations leave it as it is.
\<close>

definition statusView :: "world \<Rightarrow> (string \<times> complaint_status) list \<times> history list" where
  "statusView w = (map (\<lambda>c. (c_id c, c_status c)) (complaints w), histories w)"

definition sameStatus :: "world \<Rightarrow> world \<Rightarrow> bool" where
  "sameStatus w w' \<longleftrightarrow> statusView w = statusView w' \<and> uuidPos w \<le> uuidPos w'"

interpretation st: step_preorder sameStatus undoTx
  by unfold_locales (auto simp: sameStatus_def statusView_def)

lemma st_freshId: "related sameStatus (freshId L)"
  by (simp add: related_def eval sameStatus_def statusView_def)

lemma st_audit: "related sameStatus (audit L a b c d e f g)"
  by (simp add: related_def eval sameStatus_def statusView_def)

lemma st_notify: "related sameStatus (notify L u t b m)"
  by (simp add: related_def eval sameStatus_def statusView_def)

lemma st_getSetting: "related sameStatus (getSetting L k)"
proof -
  have "sameStatus w (snd (getSetting L k w))" for w
    by (rule getSetting_cases [of L k w]) (simp add: sameStatus_def statusView_def)
  then show ?thesis by (simp add: related_def)
qed

lemma st_updateComplaint:
  "(\<And>now c. c_id (f now c) = c_id c) \<Longrightarrow> (\<And>now c. c_status (f now c) = c_status c) \<Longrightarrow>
   related sameStatus (updateComplaint i f)"
  unfolding updateComplaint_def
  by (intro st.rel_intros) (simp add: sameStatus_def statusView_def updateWhere_def)

lemma st_transaction: "related sameStatus m \<Longrightarrow> related sameStatus (transaction m)"
  unfolding transaction_def by (rule st.rollback_rel)

lemma ro_st: "related (=) m \<Longrightarrow> related sameStatus m"
  by (auto simp: related_def sameStatus_def statusView_def)

lemma mailed_st: "mailed w w' \<Longrightarrow> uuidPos w \<le> uuidPos w' \<Longrightarrow> sameStatus w w'"
  by (simp add: sameStatus_def statusView_def mailed_frame)

section \<open>A status request\<close>

lemma changeStatus_denied:
  assumes "\<not> (\<exists>c. moveAllowed i tgt msg a c w)"
  obtains e where "changeStatus L i tgt msg a cx w = (Inl e, w)"
proof -
  obtain r w1 where g: "changeStatusGuard i tgt msg a w = (r, w1)" by (cases "changeStatusGuard i tgt msg a w")
  have "w1 = w" by (rule ro_state [OF ro_changeStatusGuard g])
  moreover obtain e where "r = Inl e"
    using g assms changeStatusGuard_InrD(1) by (cases r) blast+
  ultimately show thesis using g that by (simp add: changeStatus_def eval)
qed

lemma changeStatus_allowed:
  assumes c: "moveAllowed i tgt msg a c w"
  obtains x w2 n where "changeStatus L i tgt msg a cx w = (Inr x, w2)"
    and "complaints w2 = lockedWrite c tgt w"
    and "histories w2 = histories w @
           [historyRow L (uuidPos w) (clock w) i (Some (c_status c)) tgt msg (Some (a_id a))]"
    and "auditLogs w2 = auditLogs w @
           [auditRow L (Some (a_id a)) ''COMPLAINT_STATUS_CHANGED'' ''Complaint'' i
              (Some (JObj [(''status'', jstatus (c_status c))]))
              (Some (JObj [(''status'', jstatus tgt)])) (Some cx) (w\<lparr>uuidPos := Suc (uuidPos w)\<rparr>)]"
    and "notifications w2 = notifications w @ [n]" and "n_userId n = c_citizenId c"
proof -
  have found: "findComplaint i w = Some c" using c by (simp add: moveAllowed_def)
  have ci: "c_id c = i" using findComplaint_Some [OF found] by simp
  obtain w1 where run: "applyStatusChange L c tgt msg (Some (a_id a)) (Some cx) w = (Inr (), w1)"
    and rows: "complaints w1 = lockedWrite c tgt w"
    and hist: "histories w1 = histories w @
           [historyRow L (uuidPos w) (clock w) (c_id c) (Some (c_status c)) tgt msg (Some (a_id a))]"
    and aud: "auditLogs w1 = auditLogs w @
           [auditRow L (Some (a_id a)) ''COMPLAINT_STATUS_CHANGED'' ''Complaint'' (c_id c)
              (Some (JObj [(''status'', jstatus (c_status c))]))
              (Some (JObj [(''status'', jstatus tgt)])) (Some cx) (w\<lparr>uuidPos := Suc (uuidPos w)\<rparr>)]"
    and ntf: "\<exists>n. notifications w1 = notifications w @ [n] \<and> n_userId n = c_citizenId c"
    by (rule applyStatusChange_won [OF findComplaint_locked [OF found]]) (rule that)
  have mail: "\<exists>w2. dispatchEmail (sendStatusUpdateEmail L to t s b) w1 = (Inr (), w2) \<and> mailed w1 w2" for to t s b
    unfolding sendStatusUpdateEmail_def by (rule dispatch_sendMail)
  have "\<exists>x w2. changeStatus L i tgt msg a cx w = (Inr x, w2) \<and> mailed w1 w2"
  proof (cases "find (\<lambda>u. u_id u = c_citizenId c) (liveUsers w1)")
    case None
    with changeStatusGuard_ok [OF c] run show ?thesis
      by (simp add: changeStatus_def changeStatusCommit_def eval selectById_def mailed_refl)
  next
    case (Some u)
    obtain w2 where "dispatchEmail (sendStatusUpdateEmail L (u_email u) (c_trackingId c) tgt msg) w1 = (Inr (), w2)"
      "mailed w1 w2" using mail by blast
    with Some changeStatusGuard_ok [OF c] run show ?thesis
      by (simp add: changeStatus_def changeStatusCommit_def eval selectById_def)
  qed
  then obtain x w2 where r2: "changeStatus L i tgt msg a cx w = (Inr x, w2)" and m: "mailed w1 w2"
    by blast
  obtain n where n: "notifications w1 = notifications w @ [n]" "n_userId n = c_citizenId c"
    using ntf by blast
  show thesis
    by (rule that [OF r2 _ _ _ _ n(2)]) (use rows hist aud n in \<open>simp_all add: mailed_frame [OF m] ci\<close>)
qed

end
