(* ===== verification/SlaChecker.thy ===== *)
theory SlaChecker
  imports ComplaintFacts
begin

text \<open>
  The two scheduled jobs: the hourly SLA check with its auto-close pass
  (\<^verbatim>\<open>jobs/slaChecker.ts\<close>) and the daily retention purge (\<^verbatim>\<open>jobs/purge.ts\<close>).
\<close>

section \<open>SLA check\<close>

definition levelFor :: "instant \<Rightarrow> instant \<Rightarrow> int" where
  "levelFor now breachedAt =
     (let hours = of_int (now - breachedAt) / (3600000 :: real) in
      if 96 \<le> hours then 3 else if 24 \<le> hours then 2 else 1)"

definition BATCH :: nat where "BATCH = 200"

definition AUTO_CLOSE_DAYS :: int where "AUTO_CLOSE_DAYS = 7"

definition breachedNow :: "world \<Rightarrow> complaint list" where
  "breachedNow w =
     take BATCH (filter (\<lambda>c. isOpen (c_status c) \<and> c_slaDueAt c < clock w) (liveComplaints w))"

text \<open>The levels a complaint has been escalated to, as the batch read saw them.\<close>

definition levelsOf :: "world \<Rightarrow> string \<Rightarrow> int list" where
  "levelsOf w i = map es_level (filter (\<lambda>e. es_complaintId e = i) (escalations w))"

definition insertEscalation :: "lib \<Rightarrow> string \<Rightarrow> int \<Rightarrow> string \<Rightarrow> unit act" where
  "insertEscalation L complaintId level reason =
     bindM (freshId L) (\<lambda>i. bindM (getsM clock) (\<lambda>now.
       thenM (throwIf (level < 1 \<or> 3 < level) (DbCheck ''escalation_level_ck''))
       (thenM (guardM (uniqueBy escalations
          (\<lambda>e. es_complaintId e = complaintId \<and> es_level e = level) [''complaintId'', ''level'']))
       (thenM (insertRow escalations_update
         \<lparr>es_id = i, es_complaintId = complaintId, es_level = level, es_reason = reason,
          es_notifiedUserId = None, es_resolvedAt = None, es_createdAt = now\<rparr>)
         (returnM ())))))"

definition departmentEmail :: "world \<Rightarrow> complaint \<Rightarrow> string option" where
  "departmentEmail w c =
     (case find (\<lambda>k. cat_id k = c_categoryId c) (categories w) of
        None \<Rightarrow> None
      | Some k \<Rightarrow> (case find (\<lambda>d. dp_id d = cat_departmentId k) (departments w) of
                     None \<Rightarrow> None
                   | Some d \<Rightarrow> dp_email d))"

definition escalateTx :: "lib \<Rightarrow> string list \<Rightarrow> complaint \<Rightarrow> int \<Rightarrow> string \<Rightarrow> unit act" where
  "escalateTx L adminIds c level reason =
     transaction
       (thenM (insertEscalation L (c_id c) level reason)
       (thenM (whenM (\<not> c_isEscalated c)
          (thenM (updateComplaint (c_id c) (\<lambda>_ r. r\<lparr>c_isEscalated := True\<rparr>)) (returnM ())))
       (thenM (audit L None ''COMPLAINT_ESCALATED'' ''Complaint'' (c_id c) None
          (Some (JObj [(''level'', JNum (of_int level)), (''reason'', JStr reason)])) None)
        (notifyMany L adminIds (''SLA breach (level '' @ show_int level @ '')'')
          (c_trackingId c @ '' has missed its SLA'')
          (Some (JObj [(''complaintId'', JStr (c_id c)), (''level'', JNum (of_int level))]))))))"

text \<open>One turn of the loop: the row, its levels and the department's address as they were read.\<close>

definition escalateOne ::
  "lib \<Rightarrow> string list \<Rightarrow> complaint \<times> int list \<times> string option \<Rightarrow> nat \<Rightarrow> nat act" where
  "escalateOne L adminIds snap escalated =
     (case snap of (c, already, email) \<Rightarrow>
      bindM (getsM clock) (\<lambda>now.
      let level = levelFor now (c_slaDueAt c);
          reason = ''SLA due at '' @ iso_string (c_slaDueAt c) @ '' was missed''
      in if level \<in> set already then returnM escalated
         else catchM
           (thenM (escalateTx L adminIds c level reason)
           (thenM (case email of
                     None \<Rightarrow> returnM ()
                   | Some e \<Rightarrow> if e = [] then returnM ()
                               else dispatchEmail (sendEscalationEmail L e (c_trackingId c) level reason))
             (returnM (escalated + 1))))
           (\<lambda>_. returnM escalated)))"

definition staleResolved :: "world \<Rightarrow> complaint list" where
  "staleResolved w =
     take BATCH (filter (\<lambda>c. c_status c = RESOLVED
         \<and> (case c_resolvedAt c of None \<Rightarrow> False
                                 | Some t \<Rightarrow> t < clock w - AUTO_CLOSE_DAYS * 86400000)
         \<and> find (\<lambda>f. fb_complaintId f = c_id c) (feedbacks w) = None) (liveComplaints w))"

definition autoCloseResolved :: "lib \<Rightarrow> nat act" where
  "autoCloseResolved L =
     bindM (getsM staleResolved) (\<lambda>stale.
       loopM (\<lambda>c closed. catchM
           (thenM (applyStatusChange L c CLOSED
              (Some (''Auto-closed after '' @ show_int AUTO_CLOSE_DAYS @ '' days without feedback''))
              None None)
             (returnM (closed + 1)))
           (\<lambda>_. returnM closed)) stale 0)"

definition runSlaCheck :: "lib \<Rightarrow> (nat \<times> nat) act" where
  "runSlaCheck L =
     bindM (getsM (\<lambda>w. map (\<lambda>c. (c, levelsOf w (c_id c), departmentEmail w c)) (breachedNow w)))
       (\<lambda>breached.
     bindM (getsM (\<lambda>w. map u_id (filter (\<lambda>u. u_role u = ADMIN \<and> u_status u = ACTIVE) (liveUsers w))))
       (\<lambda>adminIds.
     bindM (loopM (escalateOne L adminIds) breached 0) (\<lambda>escalated.
     bindM (autoCloseResolved L) (\<lambda>autoClosed.
     bindM (getsM (\<lambda>w. countWhere (\<lambda>c. isOpen (c_status c)) (liveComplaints w))) (\<lambda>n.
     thenM (modifyM (metrics_update (\<lambda>m. m(''open_complaints'' := n))))
       (returnM (escalated, autoClosed)))))))"

section \<open>Retention purge\<close>

definition daysAgo :: "instant \<Rightarrow> int \<Rightarrow> instant" where
  "daysAgo now days = now - days * 86400000"

definition INVALID_DOMAIN :: string where
  "INVALID_DOMAIN = ''@citycare.invalid''"

definition anonymise :: "string \<Rightarrow> instant \<Rightarrow> user \<Rightarrow> user" where
  "anonymise i now u = u\<lparr>u_name := ''Deleted User'', u_email := ''deleted-'' @ i @ INVALID_DOMAIN,
     u_phone := None, u_avatarUrl := None, u_password := None, u_googleId := None,
     u_lastLoginIp := None, u_updatedAt := now\<rparr>"

text \<open>The query names \<open>deletedAt\<close>, so it reads past the soft-delete filter.\<close>

definition dueForAnonymising :: "world \<Rightarrow> user list" where
  "dueForAnonymising w =
     take 500 (filter (\<lambda>u. (case u_deletedAt u of None \<Rightarrow> False | Some t \<Rightarrow> t < daysAgo (clock w) 30)
                          \<and> \<not> ends_with INVALID_DOMAIN (u_email u)) (users w))"

definition anonymiseDeletedUsers :: "lib \<Rightarrow> nat act" where
  "anonymiseDeletedUsers L =
     bindM (getsM dueForAnonymising) (\<lambda>due.
     thenM (loopM (\<lambda>u _. bindM (freshId L) (\<lambda>i. bindM (getsM clock) (\<lambda>now.
              thenM (updateRow users users_update (\<lambda>r. u_id r = u_id u) (anonymise i now))
                (returnM ())))) due ())
       (returnM (length due)))"

record purgeResult =
  pr_securityEvents :: nat
  pr_idempotencyKeys :: nat
  pr_emailLogs :: nat
  pr_anonymised :: nat

definition runPurge :: "lib \<Rightarrow> purgeResult act" where
  "runPurge L =
     bindM (getsM clock) (\<lambda>now.
     bindM (deleteMany securityEvents securityEvents_update (\<lambda>e. sv_createdAt e < daysAgo now 90)) (\<lambda>a.
     bindM (deleteMany idempotencyKeys idempotencyKeys_update (\<lambda>k. ik_expiresAt k < now)) (\<lambda>b.
     bindM (deleteMany emailLogs emailLogs_update (\<lambda>e. el_createdAt e < daysAgo now 30)) (\<lambda>c.
     bindM (anonymiseDeletedUsers L) (\<lambda>d.
       returnM \<lparr>pr_securityEvents = a, pr_idempotencyKeys = b, pr_emailLogs = c,
                pr_anonymised = d\<rparr>)))))"

end
