(* ===== verification/ComplaintInv.thy ===== *)
theory ComplaintInv
  imports SlaChecker
begin

text \<open>
  Runs of the complaint module: any sequence of its operations and of the SLA job, with time
  passing in between, and the invariants every run keeps.
\<close>

section \<open>Runs\<close>

inductive complaint_step :: "lib \<Rightarrow> world \<Rightarrow> world \<Rightarrow> bool" for L where
  step_create: "complaint_step L w (snd (create L input a cx w))"
| step_update: "complaint_step L w (snd (update L i uinput a cx w))"
| step_delete: "complaint_step L w (snd (softDelete L i a cx w))"
| step_status: "complaint_step L w (snd (changeStatus L i tgt note a cx w))"
| step_cancel: "complaint_step L w (snd (cancel L i note a cx w))"
| step_reopen: "complaint_step L w (snd (reopen L i note a cx w))"
| step_assign: "complaint_step L w (snd (assign L i asg a cx w))"
| step_attach: "complaint_step L w (snd (addAttachment L i up kind a w))"
| step_comment: "complaint_step L w (snd (addComment L i body internal a w))"
| step_upvote: "complaint_step L w (snd (upvote L i a w))"
| step_feedback: "complaint_step L w (snd (feedback L i finput a cx w))"
| step_sla: "complaint_step L w (snd (runSlaCheck L w))"
| step_tick: "0 \<le> d \<Longrightarrow> complaint_step L w (w\<lparr>clock := clock w + d\<rparr>)"

definition complaint_run :: "lib \<Rightarrow> world \<Rightarrow> world \<Rightarrow> bool" where
  "complaint_run L = (complaint_step L)\<^sup>*\<^sup>*"

lemma complaint_run_induct:
  assumes "complaint_run L w w'" and "I w"
    and "\<And>u v. complaint_step L u v \<Longrightarrow> I u \<Longrightarrow> I v"
  shows "I w'"
  using assms(1) unfolding complaint_run_def
  by (induction rule: rtranclp_induct) (use assms(2,3) in auto)

lemma run_refl: "complaint_run L w w"
  by (simp add: complaint_run_def)

lemma run_step: "complaint_run L u v \<Longrightarrow> complaint_step L v w \<Longrightarrow> complaint_run L u w"
  unfolding complaint_run_def by (rule rtranclp.rtrancl_into_rtrancl)

section \<open>The history of a complaint\<close>

text \<open>
  Reading a complaint's history from its first row: each row starts from the status the one
  before it ended with, the first from none, and every move is an edge of the state machine.
  The answer is the status the history ends with, or nothing when it is broken.
\<close>

fun chainEnd :: "complaint_status option \<Rightarrow> history list \<Rightarrow> complaint_status option option" where
  "chainEnd prev [] = Some prev"
| "chainEnd prev (h # hs) =
     (if h_fromStatus h = prev
         \<and> (case prev of None \<Rightarrow> h_toStatus h = SUBMITTED | Some p \<Rightarrow> mayMove p (h_toStatus h))
      then chainEnd (Some (h_toStatus h)) hs else None)"

lemma chainEnd_append:
  "chainEnd p (hs @ ks) = (case chainEnd p hs of None \<Rightarrow> None | Some q \<Rightarrow> chainEnd q ks)"
  by (induction p hs rule: chainEnd.induct) auto

definition histOf :: "string \<Rightarrow> history list \<Rightarrow> history list" where
  "histOf i hs = filter (\<lambda>h. h_complaintId h = i) hs"

definition historyGood ::
  "lib \<Rightarrow> nat \<Rightarrow> (string \<times> complaint_status) list \<times> history list \<Rightarrow> bool" where
  "historyGood L pos v \<longleftrightarrow>
     distinct (map fst (fst v)) \<and>
     (\<forall>(i, s) \<in> set (fst v). chainEnd None (histOf i (snd v)) = Some (Some s)) \<and>
     (\<forall>h \<in> set (snd v). h_complaintId h \<in> fst ` set (fst v)) \<and>
     fst ` set (fst v) \<subseteq> uuidTape L ` {..<pos}"

definition history_inv :: "lib \<Rightarrow> world \<Rightarrow> bool" where
  "history_inv L w \<longleftrightarrow> historyGood L (uuidPos w) (statusView w)"

lemma historyGood_mono:
  "historyGood L pos v \<Longrightarrow> pos \<le> pos' \<Longrightarrow> historyGood L pos' v"
proof -
  assume good: "historyGood L pos v" and le: "pos \<le> pos'"
  have "uuidTape L ` {..<pos} \<subseteq> uuidTape L ` {..<pos'}"
    using le by (intro image_mono) auto
  with good show ?thesis unfolding historyGood_def by blast
qed

lemma historyGood_move:
  assumes good: "historyGood L pos (rows, hs)" and row: "(i, s) \<in> set rows" and move: "mayMove s t"
    and h: "h_complaintId h = i" "h_fromStatus h = Some s" "h_toStatus h = t"
  shows "historyGood L pos (map (\<lambda>(j, u). (j, if j = i then t else u)) rows, hs @ [h])"
proof -
  have fsts: "map fst (map (\<lambda>(j, u). (j, if j = i then t else u)) rows) = map fst rows"
    by (auto simp: case_prod_beta)
  have dom: "fst ` set (map (\<lambda>(j, u). (j, if j = i then t else u)) rows) = fst ` set rows"
    by (metis fsts set_map)
  have chain_i: "chainEnd None (histOf i (hs @ [h])) = Some (Some t)"
    using good row move h by (auto simp: historyGood_def histOf_def chainEnd_append)
  have chain_j: "chainEnd None (histOf j (hs @ [h])) = Some (Some u)" if "(j, u) \<in> set rows" "j \<noteq> i" for j u
    using good that h by (auto simp: historyGood_def histOf_def)
  have "chainEnd None (histOf j (hs @ [h])) = Some (Some (if j = i then t else u))"
    if "(j, u) \<in> set rows" for j u
    using chain_i chain_j that by auto
  moreover have "i \<in> fst ` set rows" using row by force
  then have "h_complaintId k \<in> fst ` set rows" if "k \<in> set (hs @ [h])" for k
    using good that h(1) by (auto simp: historyGood_def)
  moreover have "distinct (map fst rows)" "fst ` set rows \<subseteq> uuidTape L ` {..<pos}"
    using good by (auto simp: historyGood_def)
  ultimately show ?thesis
    unfolding historyGood_def fst_conv snd_conv fsts dom by auto
qed

lemma historyGood_create:
  assumes good: "historyGood L pos (rows, hs)" and inj: "inj (uuidTape L)"
    and pos: "pos \<le> p" "p < pos'"
    and h: "h_complaintId h = uuidTape L p" "h_fromStatus h = None" "h_toStatus h = SUBMITTED"
  shows "historyGood L pos' (rows @ [(uuidTape L p, SUBMITTED)], hs @ [h])"
proof -
  have fresh: "uuidTape L p \<notin> fst ` set rows"
    using good inj pos by (auto simp: historyGood_def inj_eq subset_iff)
  then have none: "histOf (uuidTape L p) hs = []"
    using good unfolding historyGood_def histOf_def filter_empty_conv fst_conv snd_conv by metis
  have old: "histOf j (hs @ [h]) = histOf j hs" if "(j, u) \<in> set rows" for j u
    using fresh that h by (auto simp: histOf_def image_iff)
  have new: "histOf (uuidTape L p) (hs @ [h]) = [h]"
    using none h by (simp add: histOf_def)
  have chains: "\<forall>(j, u) \<in> set rows. chainEnd None (histOf j (hs @ [h])) = Some (Some u)"
    using good old by (auto simp: historyGood_def)
  have dom: "fst ` set rows \<subseteq> uuidTape L ` {..<pos'}"
    using historyGood_mono [OF good, of pos'] pos by (auto simp: historyGood_def)
  show ?thesis
    unfolding historyGood_def fst_conv snd_conv
    using good fresh chains new dom pos h by (auto simp: historyGood_def)
qed

section \<open>Every step keeps the history\<close>

text \<open>
  The ids only grow in number, history rows are only appended, and a good history stays good.
\<close>

definition rowIds :: "world \<Rightarrow> string set" where
  "rowIds w = c_id ` set (complaints w)"

definition evolves :: "lib \<Rightarrow> world \<Rightarrow> world \<Rightarrow> bool" where
  "evolves L w w' \<longleftrightarrow>
     uuidPos w \<le> uuidPos w' \<and> (\<exists>hs. histories w' = histories w @ hs) \<and>
     rowIds w \<subseteq> rowIds w' \<and> (history_inv L w \<longrightarrow> history_inv L w')"

lemma rowIds_undo [simp]: "rowIds (undoTx w w') = rowIds w"
  by (simp add: rowIds_def)

lemma rowIds_view: "rowIds w = fst ` set (fst (statusView w))"
  by (simp add: rowIds_def statusView_def image_image)

lemma rowIds_updateWhere:
  "(\<And>r. c_id (f r) = c_id r) \<Longrightarrow> c_id ` set (updateWhere P f rows) = c_id ` set rows"
  by (induction rows) auto

lemma statusView_undo [simp]: "statusView (undoTx w w') = statusView w"
  by (simp add: statusView_def)

interpretation ev: step_preorder "evolves L" undoTx for L
  by unfold_locales (auto simp: evolves_def history_inv_def intro: historyGood_mono)

lemma sameStatus_evolves: "sameStatus w w' \<Longrightarrow> evolves L w w'"
  by (auto simp: sameStatus_def evolves_def history_inv_def rowIds_view statusView_def
      intro: historyGood_mono)

lemma st_ev: "related sameStatus m \<Longrightarrow> related (evolves L) m"
  by (auto simp: related_def intro: sameStatus_evolves)

lemma ro_ev: "related (=) m \<Longrightarrow> related (evolves L) m"
  by (intro st_ev ro_st)

lemma statusView_lockedWrite:
  assumes dist: "distinct (map c_id rows)" and some: "r \<in> set rows" "lockedBy c r"
  shows "map (\<lambda>c. (c_id c, c_status c))
       (updateWhere (lockedBy c) (\<lambda>r. (statusData tgt now r)\<lparr>c_updatedAt := now\<rparr>) rows) =
     map (\<lambda>(j, u). (j, if j = c_id c then tgt else u)) (map (\<lambda>c. (c_id c, c_status c)) rows)"
proof -
  have "lockedBy c q" if "q \<in> set rows" "c_id q = c_id c" for q
    using distinct_key_unique [OF dist] some that by (auto simp: lockedBy_def) metis+
  then have "(c_id (if lockedBy c q then (statusData tgt now q)\<lparr>c_updatedAt := now\<rparr> else q),
       c_status (if lockedBy c q then (statusData tgt now q)\<lparr>c_updatedAt := now\<rparr> else q)) =
     (c_id q, if c_id q = c_id c then tgt else c_status q)" if "q \<in> set rows" for q
    using that by (auto simp: lockedBy_def)
  then show ?thesis
    by (simp add: updateWhere_def)
qed

lemma ev_applyStatusChange:
  assumes move: "mayMove (c_status c) tgt"
  shows "related (evolves L) (applyStatusChange L c tgt note who cx)"
  unfolding related_def
proof
  fix w
  show "evolves L w (snd (applyStatusChange L c tgt note who cx w))"
  proof (cases "countWhere (lockedBy c) (complaints w) = 0")
    case True
    then show ?thesis by (simp add: applyStatusChange_lost evolves_def)
  next
    case False
    then obtain r where r: "r \<in> set (complaints w)" "lockedBy c r" by (auto simp: countWhere_0)
    obtain w' where run: "applyStatusChange L c tgt note who cx w = (Inr (), w')"
      and rows: "complaints w' = lockedWrite c tgt w"
      and hist: "histories w' = histories w @
           [historyRow L (uuidPos w) (clock w) (c_id c) (Some (c_status c)) tgt note who]"
      and pos: "uuidPos w' = uuidPos w + 3"
      by (rule applyStatusChange_won [OF False]) (rule that)
    have "history_inv L w'" if inv: "history_inv L w"
    proof -
      have good: "historyGood L (uuidPos w) (map (\<lambda>c. (c_id c, c_status c)) (complaints w), histories w)"
        using inv by (simp add: history_inv_def statusView_def)
      then have dist: "distinct (map c_id (complaints w))"
        by (simp add: historyGood_def comp_def)
      have "(c_id c, c_status c) \<in> set (map (\<lambda>c. (c_id c, c_status c)) (complaints w))"
        using r by (auto simp: lockedBy_def image_iff) metis
      from historyGood_move [OF good this move] have
        "historyGood L (uuidPos w) (map (\<lambda>c. (c_id c, c_status c)) (lockedWrite c tgt w), histories w')"
        unfolding lockedWrite_def statusView_lockedWrite [OF dist r] hist by simp
      then show ?thesis
        unfolding history_inv_def statusView_def rows by (rule historyGood_mono) (simp add: pos)
    qed
    then show ?thesis
      by (simp add: run evolves_def pos hist rows rowIds_def lockedWrite_def rowIds_updateWhere)
  qed
qed

lemma ev_keeps:
  assumes "statusView w' = statusView w" and "uuidPos w \<le> uuidPos w'"
  shows "evolves L w w'"
  using assms by (simp add: sameStatus_def sameStatus_evolves)

text \<open>The row a create adds, whatever the counters hold.\<close>

lemma createTx_cases:
  obtains
    (failed) e v where "createTx L input a cx k sh w = (Inl e, undoTx w v)"
      and "uuidPos w \<le> uuidPos v"
      and "(\<exists>ck. e = DbCheck ck) \<or>
           trackingIdOf (utc_year (clock w)) (Suc (counterValue (utc_year (clock w)) w))
             \<in> c_trackingId ` set (complaints w)"
  | (created) c w' h where "createTx L input a cx k sh w = (Inr c, w')"
      and "complaints w' = complaints w @ [c]" and "histories w' = histories w @ [h]"
      and "c_id c = uuidTape L (uuidPos w)" and "c_status c = SUBMITTED"
      and "c_citizenId c = a_id a" and "c_deletedAt c = None"
      and "h_complaintId h = c_id c" and "h_fromStatus h = None" and "h_toStatus h = SUBMITTED"
      and "uuidPos w' = uuidPos w + 3"
      and "c_trackingId c = trackingIdOf (utc_year (clock w)) (Suc (counterValue (utc_year (clock w)) w))"
      and "counters w' = counters (snd (nextCounter (utc_year (clock w)) w))"
      and "c_trackingId c \<notin> c_trackingId ` set (complaints w)"
      and "c_upvoteCount c = 0" and "attachments w' = attachments w"
      and "assignments w' = assignments w" and "upvotes w' = upvotes w"
      and "feedbacks w' = feedbacks w" and "clock w' = clock w"
proof -
  define y where "y = utc_year (clock w)"
  obtain cs where cs: "snd (nextCounter y w) = w\<lparr>counters := cs\<rparr>"
    using nextCounter_frame by blast
  have nc: "nextCounter y w = (Inr (Suc (counterValue y w)), w\<lparr>counters := cs\<rparr>)"
    using run_nextCounter(1) [of y w] cs by (metis prod.collapse)
  define t where "t = trackingIdOf y (Suc (counterValue y w))"
  define c where "c = newComplaint (uuidTape L (uuidPos w)) t input a k sh (clock w)"
  let ?w2 = "w\<lparr>counters := cs, uuidPos := Suc (uuidPos w)\<rparr>"
  have run: "createTx L input a cx k sh w =
      (case complaintCheck c ?w2 of
         Some e \<Rightarrow> (Inl e, undoTx w ?w2)
       | None \<Rightarrow> if \<exists>r \<in> set (complaints w). c_trackingId r = c_trackingId c
                 then (Inl (PrismaKnown ''P2002'' [''trackingId'']), undoTx w ?w2)
                 else createTx L input a cx k sh w)"
    unfolding createTx_def
    by (simp add: eval nextTrackingId_def nc y_def [symmetric] t_def [symmetric] c_def [symmetric]
        insertComplaint_def uniqueBy_def split: option.split)
  show thesis
  proof (cases "complaintCheck c ?w2")
    case (Some e)
    then have "\<exists>ck. e = DbCheck ck"
      by (auto simp: complaintCheck_def split: option.splits if_splits)
    then show thesis using run Some failed [of e ?w2] by simp
  next
    case None
    show thesis
    proof (cases "\<exists>r \<in> set (complaints w). c_trackingId r = c_trackingId c")
      case True
      then have "t \<in> c_trackingId ` set (complaints w)"
        by (auto simp: c_def newComplaint_def image_iff)
      with True show thesis
        using run None failed [of "PrismaKnown ''P2002'' [''trackingId'']" ?w2]
        by (simp add: t_def y_def)
    next
      case False
      have ids: "c_id c = uuidTape L (uuidPos w)" "c_status c = SUBMITTED" "c_citizenId c = a_id a"
        "c_deletedAt c = None" "c_trackingId c = t" "c_upvoteCount c = 0"
        by (simp_all add: c_def newComplaint_def)
      show thesis
        by (rule created [of c "snd (createTx L input a cx k sh w)"
              "historyRow L (Suc (uuidPos w)) (clock w) (c_id c) None SUBMITTED None (Some (a_id a))"])
          (use None False in \<open>auto simp: createTx_def eval nextTrackingId_def nc y_def [symmetric]
             t_def [symmetric] c_def [symmetric] insertComplaint_def uniqueBy_def cs ids image_iff\<close>)
    qed
  qed
qed

lemma ev_createTx:
  assumes inj: "inj (uuidTape L)"
  shows "related (evolves L) (createTx L input a cx k sh)"
  unfolding related_def
proof
  fix w
  show "evolves L w (snd (createTx L input a cx k sh w))"
  proof (cases rule: createTx_cases [of L input a cx k sh w])
    case (failed e v)
    then show ?thesis by (simp add: ev_keeps)
  next
    case (created c w' h)
    have "history_inv L w'" if inv: "history_inv L w"
    proof -
      have good: "historyGood L (uuidPos w) (map (\<lambda>c. (c_id c, c_status c)) (complaints w), histories w)"
        using inv by (simp add: history_inv_def statusView_def)
      have "historyGood L (uuidPos w')
          (map (\<lambda>c. (c_id c, c_status c)) (complaints w) @ [(uuidTape L (uuidPos w), SUBMITTED)],
           histories w @ [h])"
        by (rule historyGood_create [OF good inj]) (use created in simp_all)
      with created show ?thesis by (simp add: history_inv_def statusView_def)
    qed
    with created show ?thesis by (auto simp: evolves_def rowIds_def)
  qed
qed

subsection \<open>Assignment\<close>

lemma assignGuard_InrD:
  assumes "assignGuard i input w = (Inr (c, u), w')"
  shows "w' = w" and "findComplaint i w = Some c"
    and "u \<in> set (liveUsers w)" and "u_role u = OFFICER" and "u_status u = ACTIVE"
    and "\<exists>k \<in> set (categories w). cat_id k = c_categoryId c \<and> u_departmentId u = Some (cat_departmentId k)"
proof -
  show "w' = w" by (rule ro_state [OF ro_assignGuard assms])
  show "findComplaint i w = Some c" "u \<in> set (liveUsers w)" "u_role u = OFFICER" "u_status u = ACTIVE"
    "\<exists>k \<in> set (categories w). cat_id k = c_categoryId c \<and> u_departmentId u = Some (cat_departmentId k)"
    using assms unfolding assignGuard_def
    by (auto elim!: run_elims split: if_splits dest!: find_Some_in dest: ro_state [OF ro_pick])
qed

text \<open>After the open assignments are closed, inserting the new one cannot clash.\<close>

lemma no_active_left [simp]:
  "(\<exists>r \<in> set (updateWhere (\<lambda>r. as_complaintId r = i \<and> as_unassignedAt r = None)
          (as_unassignedAt_update (\<lambda>_. Some now)) rows).
        as_complaintId r = i \<and> as_unassignedAt r = None) = False"
  by (induction rows) auto

definition newAssignment ::
  "lib \<Rightarrow> world \<Rightarrow> string \<Rightarrow> assignInput \<Rightarrow> actor \<Rightarrow> user \<Rightarrow> assignment" where
  "newAssignment L w i input a u =
     \<lparr>as_id = uuidTape L (uuidPos w), as_complaintId = i, as_officerId = u_id u,
      as_assignedById = (if asg_auto input then None else Some (a_id a)),
      as_reason = asg_reason input, as_assignedAt = clock w, as_unassignedAt = None\<rparr>"

lemma assignCommit_run:
  assumes "find (\<lambda>c. c_id c = i) (complaints w) \<noteq> None"
  obtains w' x where "assignCommit L i input a cx (c, u) w = (Inr x, w')"
    and "complaints w' = updateWhere (\<lambda>r. c_id r = i)
           (\<lambda>r. (r\<lparr>c_officerId := Some (u_id u), c_status := assignedStatus (c_status c)\<rparr>)
                   \<lparr>c_updatedAt := clock w\<rparr>) (complaints w)"
    and "assignments w' =
           updateWhere (\<lambda>r. as_complaintId r = i \<and> as_unassignedAt r = None)
             (\<lambda>r. r\<lparr>as_unassignedAt := Some (clock w)\<rparr>) (assignments w)
           @ [newAssignment L w i input a u]"
    and "histories w' = (if assignedStatus (c_status c) = c_status c then histories w
           else histories w @ [historyRow L (Suc (uuidPos w)) (clock w) i (Some (c_status c))
                  (assignedStatus (c_status c)) (asg_reason input) (Some (a_id a))])"
    and "uuidPos w \<le> uuidPos w'"
    and "attachments w' = attachments w" and "upvotes w' = upvotes w" and "feedbacks w' = feedbacks w"
proof -
  obtain r where r: "find (\<lambda>c. c_id c = i) (complaints w) = Some r" using assms by auto
  have run: "assignCommit L i input a cx (c, u) w =
     (fst (assignCommit L i input a cx (c, u) w), snd (assignCommit L i input a cx (c, u) w))"
    by simp
  have ok: "\<exists>x. fst (assignCommit L i input a cx (c, u) w) = Inr x"
    using r
    by (simp add: assignCommit_def Let_def eval insertAssignment_def uniqueBy_def
        updateComplaint_def selectById_def)
  then obtain x where x: "fst (assignCommit L i input a cx (c, u) w) = Inr x" by auto
  show thesis
    by (rule that [of x "snd (assignCommit L i input a cx (c, u) w)"])
      (use r x in
        \<open>simp_all add: prod_eq_iff assignCommit_def Let_def eval insertAssignment_def uniqueBy_def
          updateComplaint_def selectById_def newAssignment_def\<close>)
qed

lemma find_by_id:
  assumes "findComplaint i w = Some c"
  shows "find (\<lambda>c. c_id c = i) (complaints w) \<noteq> None"
  using findComplaint_Some [OF assms] by (auto simp: find_None_all)

lemma statusView_byId:
  assumes "distinct (map c_id rows)" and "c \<in> set rows" and "\<And>r. c_id (f r) = c_id r"
    and "\<And>r. c_status (f r) = s"
  shows "map (\<lambda>c. (c_id c, c_status c)) (updateWhere (\<lambda>r. c_id r = c_id c) f rows) =
     map (\<lambda>(j, u). (j, if j = c_id c then s else u)) (map (\<lambda>c. (c_id c, c_status c)) rows)"
  using assms by (auto simp: updateWhere_def)

lemma ev_assign:
  assumes guard: "assignGuard i input w = (Inr (c, u), w)"
  shows "evolves L w (snd (assignCommit L i input a cx (c, u) w))"
proof -
  note g = assignGuard_InrD [OF guard]
  have c: "c \<in> set (complaints w)" "c_id c = i" using findComplaint_Some [OF g(2)] by auto
  obtain w' x where run: "assignCommit L i input a cx (c, u) w = (Inr x, w')"
    and rows: "complaints w' = updateWhere (\<lambda>r. c_id r = i)
           (\<lambda>r. (r\<lparr>c_officerId := Some (u_id u), c_status := assignedStatus (c_status c)\<rparr>)
                   \<lparr>c_updatedAt := clock w\<rparr>) (complaints w)"
    and hist: "histories w' = (if assignedStatus (c_status c) = c_status c then histories w
           else histories w @ [historyRow L (Suc (uuidPos w)) (clock w) i (Some (c_status c))
                  (assignedStatus (c_status c)) (asg_reason input) (Some (a_id a))])"
    and pos: "uuidPos w \<le> uuidPos w'"
    by (rule assignCommit_run [OF find_by_id [OF g(2)]]) (rule that)
  have "history_inv L w'" if inv: "history_inv L w"
  proof -
    let ?v = "map (\<lambda>c. (c_id c, c_status c)) (complaints w)"
    have good: "historyGood L (uuidPos w) (?v, histories w)"
      using inv by (simp add: history_inv_def statusView_def)
    then have dist: "distinct (map c_id (complaints w))" by (simp add: historyGood_def comp_def)
    let ?t = "assignedStatus (c_status c)"
    have view: "map (\<lambda>c. (c_id c, c_status c)) (complaints w') =
        map (\<lambda>(j, s). (j, if j = c_id c then ?t else s)) ?v"
      unfolding rows c(2) [symmetric] by (rule statusView_byId [OF dist c(1)]) simp_all
    have row: "(c_id c, c_status c) \<in> set ?v" using c by auto
    have "historyGood L (uuidPos w) (statusView w')"
    proof (cases "?t = c_status c")
      case True
      have "(if c_id r = c_id c then ?t else c_status r) = c_status r" if "r \<in> set (complaints w)" for r
        using distinct_key_unique [OF dist that c(1)] True by auto
      then have "map (\<lambda>c. (c_id c, c_status c)) (complaints w') = ?v"
        unfolding view by (auto simp: comp_def)
      with good True show ?thesis by (simp add: statusView_def hist)
    next
      case False
      then have move: "mayMove (c_status c) ?t"
        by (auto simp: assignedStatus_def mayMove_cases split: if_splits)
      have "historyGood L (uuidPos w)
          (map (\<lambda>(j, s). (j, if j = c_id c then ?t else s)) ?v,
           histories w @ [historyRow L (Suc (uuidPos w)) (clock w) i (Some (c_status c))
                  (assignedStatus (c_status c)) (asg_reason input) (Some (a_id a))])"
        by (rule historyGood_move [OF good row move]) (simp_all add: c)
      with False show ?thesis by (simp add: statusView_def view hist)
    qed
    then show ?thesis unfolding history_inv_def by (rule historyGood_mono [OF _ pos])
  qed
  then show ?thesis by (simp add: run evolves_def pos hist rows rowIds_def rowIds_updateWhere)
qed

section \<open>Every step\<close>

lemma st_dispatch: "related sameStatus (dispatchEmail (sendMail L to t b))"
proof -
  have "sameStatus w (snd (dispatchEmail (sendMail L to t b) w))" for w
  proof -
    obtain w' where "dispatchEmail (sendMail L to t b) w = (Inr (), w')" "mailed w w'"
      using dispatch_sendMail by blast
    moreover have "uuidPos w \<le> uuidPos (snd (dispatchEmail (sendMail L to t b) w))"
    proof -
      have up: "step_preorder (\<lambda>u v. uuidPos u \<le> uuidPos v) undoTx" by unfold_locales auto
      have fresh: "related (\<lambda>u v. uuidPos u \<le> uuidPos v) (freshId L)" by (simp add: related_def eval)
      have "related (\<lambda>u v. uuidPos u \<le> uuidPos v) (dispatchEmail (sendMail L to t b))"
        unfolding dispatchEmail_def orElse_def sendMail_def
        by (intro step_preorder.rel_intros [OF up] fresh) simp_all
      then show ?thesis by (simp add: related_def)
    qed
    ultimately show ?thesis by (simp add: mailed_st)
  qed
  then show ?thesis by (simp add: related_def)
qed

lemma st_statusMail: "related sameStatus (dispatchEmail (sendStatusUpdateEmail L to t s n))"
  unfolding sendStatusUpdateEmail_def by (rule st_dispatch)

lemma st_escalationMail: "related sameStatus (dispatchEmail (sendEscalationEmail L to t l r))"
  unfolding sendEscalationEmail_def by (rule st_dispatch)

lemma st_notifyMany: "related sameStatus (notifyMany L us t b m)"
  unfolding notifyMany_def by (intro st.rel_intros st_notify)

lemma ev_changeStatus: "related (evolves L) (changeStatus L i tgt note a cx)"
proof -
  have commit: "related (evolves L) (changeStatusCommit L i tgt note a cx c)" if "mayMove (c_status c) tgt" for c
    unfolding changeStatusCommit_def selectById_def
    by (intro ev.rel_intros ev_applyStatusChange that st_ev [OF st_statusMail])
  have "evolves L w (snd (changeStatus L i tgt note a cx w))" for w
  proof (cases "changeStatusGuard i tgt note a w")
    case (Pair r w1)
    then have w1: "w1 = w" by (rule ro_state [OF ro_changeStatusGuard])
    show ?thesis
    proof (cases r)
      case (Inl e)
      then show ?thesis using Pair w1 by (simp add: changeStatus_def eval ev.refl)
    next
      case (Inr c)
      have "mayMove (c_status c) tgt"
        using Pair Inr by (auto dest!: changeStatusGuard_InrD(1) intro: moveAllowed_mayMove)
      then show ?thesis
        using commit Pair Inr w1 by (simp add: changeStatus_def eval related_def)
    qed
  qed
  then show ?thesis by (simp add: related_def)
qed

lemma st_reopenGuard: "related sameStatus (reopenGuard L i a)"
  unfolding reopenGuard_def
  by (intro st.rel_intros st_getSetting ro_st [OF sel_getOrThrow] ro_st [OF ro_assertOwner])

lemma st_update: "related sameStatus (update L i input a cx)"
  unfolding update_def
  by (intro st.rel_intros st_transaction st_audit st_updateComplaint
      ro_st [OF sel_getOrThrow] ro_st [OF ro_assertOwner]) (simp_all add: patchComplaint_def)

lemma st_softDelete: "related sameStatus (softDelete L i a cx)"
  unfolding softDelete_def
  by (intro st.rel_intros st_transaction st_audit st_updateComplaint ro_st [OF sel_getOrThrow]) simp_all

lemma st_liftE: "related sameStatus (liftE r)"
  unfolding liftE_def by (cases r) (simp_all add: st.return_rel st.throw_rel)

lemma st_addAttachment: "related sameStatus (addAttachment L i up kind a)"
  unfolding addAttachment_def Let_def
  by (intro st.rel_intros st_freshId st_liftE ro_st [OF sel_getOrThrow])
    (simp add: sameStatus_def statusView_def)

lemma st_addComment: "related sameStatus (addComment L i body internal a)"
  unfolding addComment_def
  by (intro st.rel_intros st_freshId st_notify ro_st [OF sel_getOrThrow] ro_st [OF ro_assertCanRead])
    (simp add: sameStatus_def statusView_def)

lemma st_upvote: "related sameStatus (upvote L i a)"
  unfolding upvote_def upvoteTx_def insertUpvote_def
  by (intro st.rel_intros st_transaction st_freshId st_updateComplaint ro_st [OF sel_getOrThrow])
    (simp_all add: sameStatus_def statusView_def)

lemma st_insertFeedback: "related sameStatus (insertFeedback L i input)"
  unfolding insertFeedback_def
  by (intro st.rel_intros st_freshId) (simp add: sameStatus_def statusView_def)

lemma ev_feedback: "related (evolves L) (feedback L i input a cx)"
proof -
  have close: "related (evolves L) (whenM (c_status c = RESOLVED) (applyStatusChange L c CLOSED n b x))" for c n b x
    by (intro ev.when_rel ev_applyStatusChange) (simp add: mayMove_cases)
  show ?thesis
    unfolding feedback_def
    by (intro ev.rel_intros close st_ev [OF st_insertFeedback] ro_ev [OF sel_getOrThrow]
        ro_ev [OF ro_assertOwner])
qed

lemma ev_create:
  assumes "inj (uuidTape L)"
  shows "related (evolves L) (create L input a cx)"
proof -
  have nearby: "related (=) (findNearbyDuplicate c input)" for c
    unfolding findNearbyDuplicate_def by (intro ro.rel_intros)
  show ?thesis
    unfolding create_def
    by (intro ev.rel_intros ev_createTx [OF assms] st_ev [OF st_getSetting] ro_ev [OF nearby])
qed

lemma st_escalateOne: "related sameStatus (escalateOne L adminIds snap n)"
  unfolding escalateOne_def escalateTx_def insertEscalation_def Let_def
  by (intro st.rel_intros st_transaction st_freshId st_audit st_notifyMany st_updateComplaint
      st_escalationMail) (simp_all add: sameStatus_def statusView_def)

lemma ev_autoClose: "related (evolves L) (autoCloseResolved L)"
proof -
  have one: "related (evolves L) (catchM (thenM (applyStatusChange L c CLOSED n b x) (returnM k)) (\<lambda>_. returnM m))"
    if "c_status c = RESOLVED" for c n b x k m
    using that by (intro ev.rel_intros ev_applyStatusChange) (simp add: mayMove_cases)
  have loop: "related (evolves L) (loopM (\<lambda>c closed. catchM (thenM (applyStatusChange L c CLOSED n b x)
        (returnM (closed + 1))) (\<lambda>_. returnM closed)) cs k)"
    if "\<forall>c \<in> set cs. c_status c = RESOLVED" for cs n b x and k :: nat
    using that
  proof (induction cs arbitrary: k)
    case Nil
    then show ?case by (simp add: ev.return_rel)
  next
    case (Cons c cs)
    then show ?case by (simp add: ev.bind_rel one)
  qed
  have all: "\<forall>c \<in> set (staleResolved w). c_status c = RESOLVED" for w
    by (auto simp: staleResolved_def dest: in_set_takeD)
  have "evolves L w (snd (autoCloseResolved L w))" for w
    using loop [OF all] by (simp add: autoCloseResolved_def eval related_def)
  then show ?thesis by (simp add: related_def)
qed

lemma ev_runSlaCheck: "related (evolves L) (runSlaCheck L)"
  unfolding runSlaCheck_def
  by (intro ev.rel_intros st_ev [OF st_escalateOne] ev_autoClose)
    (simp add: ev_keeps statusView_def)

lemma step_evolves:
  assumes inj: "inj (uuidTape L)" and step: "complaint_step L w w'"
  shows "evolves L w w'"
  using step
proof cases
  case (step_assign i asg a cx)
  show ?thesis
  proof (cases "assignGuard i asg w")
    case (Pair r w1)
    then have "w1 = w" by (rule ro_state [OF ro_assignGuard])
    with Pair step_assign show ?thesis
      by (cases r) (auto simp: assign_def eval ev.refl intro: ev_assign)
  qed
next
  case (step_reopen i msg a cx)
  have "related (evolves L) (reopen L i msg a cx)"
    unfolding reopen_def by (intro ev.rel_intros st_ev [OF st_reopenGuard] ev_changeStatus)
  with step_reopen show ?thesis by (simp add: related_def)
next
  case (step_tick d)
  then show ?thesis by (simp add: ev_keeps statusView_def)
qed (use ev_create [OF inj] ev_changeStatus ev_feedback ev_runSlaCheck st_ev [OF st_update]
       st_ev [OF st_softDelete] st_ev [OF st_addAttachment] st_ev [OF st_addComment]
       st_ev [OF st_upvote] in \<open>simp_all add: related_def cancel_def\<close>)

lemma run_history_inv:
  assumes "inj (uuidTape L)" and "complaint_run L w w'" and "history_inv L w"
  shows "history_inv L w'"
  using assms(2,3)
  by (rule complaint_run_induct) (use step_evolves [OF assms(1)] in \<open>simp add: evolves_def\<close>)

lemma run_evolves:
  assumes "inj (uuidTape L)" and "complaint_run L w w'"
  shows "evolves L w w'"
  using assms(2) unfolding complaint_run_def
  by (induction rule: rtranclp_induct)
    (use step_evolves [OF assms(1)] in \<open>auto intro: ev.refl ev.trans\<close>)

text \<open>A finished complaint has no further history rows in any later state.\<close>

lemma chainEnd_terminal:
  "s \<in> {CLOSED, REJECTED, CANCELLED} \<Longrightarrow> chainEnd (Some s) hs = Some q \<Longrightarrow> hs = [] \<and> q = Some s"
  by (cases hs) (auto simp: mayMove_terminal split: if_splits)

lemma history_invD:
  assumes "history_inv L w" and "c \<in> set (complaints w)"
  shows "chainEnd None (histOf (c_id c) (histories w)) = Some (Some (c_status c))"
  using assms by (auto simp: history_inv_def historyGood_def statusView_def)

lemma terminal_stays:
  assumes inj: "inj (uuidTape L)" and run: "complaint_run L w w'" and inv: "history_inv L w"
    and c: "c \<in> set (complaints w)" "c_status c \<in> {CLOSED, REJECTED, CANCELLED}"
    and d: "d \<in> set (complaints w')" "c_id d = c_id c"
  shows "c_status d = c_status c \<and> histOf (c_id c) (histories w') = histOf (c_id c) (histories w)"
proof -
  have inv': "history_inv L w'" by (rule run_history_inv [OF inj run inv])
  obtain hs where hs: "histories w' = histories w @ hs"
    using run_evolves [OF inj run] by (auto simp: evolves_def)
  have "chainEnd None (histOf (c_id c) (histories w')) = Some (Some (c_status d))"
    using history_invD [OF inv' d(1)] d(2) by simp
  then have "chainEnd (Some (c_status c)) (histOf (c_id c) hs) = Some (Some (c_status d))"
    using history_invD [OF inv c(1)] by (simp add: hs histOf_def chainEnd_append)
  then have "histOf (c_id c) hs = [] \<and> Some (c_status d) = Some (c_status c)"
    by (rule chainEnd_terminal [OF c(2)])
  then show ?thesis by (simp add: hs histOf_def)
qed

section \<open>Tracking ids\<close>

text \<open>
  Every tracking id in the table came from its year's counter, which has passed it, so the
  next one is new. Time never goes backwards and starts after 1970.
\<close>

definition ids_inv :: "world \<Rightarrow> bool" where
  "ids_inv w \<longleftrightarrow> 0 \<le> clock w \<and>
     (\<forall>t \<in> c_trackingId ` set (complaints w).
        \<exists>y n. 0 \<le> y \<and> t = trackingIdOf y n \<and> n \<le> counterValue y w)"

definition idsView :: "world \<Rightarrow> string list \<times> counter list \<times> int" where
  "idsView w = (map c_trackingId (complaints w), counters w, clock w)"

definition sameIds :: "world \<Rightarrow> world \<Rightarrow> bool" where
  "sameIds w w' \<longleftrightarrow> idsView w = idsView w'"

definition idsStep :: "world \<Rightarrow> world \<Rightarrow> bool" where
  "idsStep w w' \<longleftrightarrow> (ids_inv w \<longrightarrow> ids_inv w')"

lemma sameIds_step:
  assumes "sameIds w w'"
  shows "idsStep w w'"
proof -
  have "c_trackingId ` set (complaints w) = c_trackingId ` set (complaints w')"
    using assms by (metis Pair_inject idsView_def sameIds_def set_map)
  with assms show ?thesis
    by (simp add: idsStep_def ids_inv_def counterValue_def sameIds_def idsView_def)
qed

interpretation si: step_preorder sameIds undoTx
  by unfold_locales (auto simp: sameIds_def idsView_def)

interpretation id: step_preorder idsStep undoTx
  by unfold_locales (auto simp: idsStep_def ids_inv_def counterValue_def)

lemma si_id: "related sameIds m \<Longrightarrow> related idsStep m"
  by (auto simp: related_def intro: sameIds_step)

lemma ro_si: "related (=) m \<Longrightarrow> related sameIds m"
  by (auto simp: related_def sameIds_def)

lemma si_small:
  "related sameIds (freshId L)" "related sameIds (audit L a b c d e f g)"
  "related sameIds (notify L u t body m)" "related sameIds (insertHistory L i s tgt n who)"
  by (simp_all add: related_def eval sameIds_def idsView_def)

lemma si_getSetting: "related sameIds (getSetting L k)"
proof -
  have "sameIds w (snd (getSetting L k w))" for w
    by (rule getSetting_cases [of L k w]) (simp add: sameIds_def idsView_def)
  then show ?thesis by (simp add: related_def)
qed

lemma si_updateComplaint:
  "(\<And>now c. c_trackingId (f now c) = c_trackingId c) \<Longrightarrow> related sameIds (updateComplaint i f)"
  unfolding updateComplaint_def
  by (intro si.rel_intros) (simp add: sameIds_def idsView_def map_updateWhere)

lemma si_transaction: "related sameIds m \<Longrightarrow> related sameIds (transaction m)"
  unfolding transaction_def by (rule si.rollback_rel)

lemma si_applyStatusChange: "related sameIds (applyStatusChange L c tgt n who cx)"
  unfolding applyStatusChange_def
  by (intro si.rel_intros si_transaction si_small) (simp add: sameIds_def idsView_def map_updateWhere)

lemma si_dispatch: "related sameIds (dispatchEmail (sendMail L to t b))"
proof -
  have "sameIds w (snd (dispatchEmail (sendMail L to t b) w))" for w
    using dispatch_sendMail [of L to t b w] by (auto simp: sameIds_def idsView_def mailed_frame)
  then show ?thesis by (simp add: related_def)
qed

lemma si_mails:
  "related sameIds (dispatchEmail (sendStatusUpdateEmail L to t s n))"
  "related sameIds (dispatchEmail (sendEscalationEmail L to t l r))"
  unfolding sendStatusUpdateEmail_def sendEscalationEmail_def by (rule si_dispatch)+

lemma si_changeStatus: "related sameIds (changeStatus L i tgt n a cx)"
  unfolding changeStatus_def changeStatusCommit_def selectById_def
  by (intro si.rel_intros si_applyStatusChange si_mails ro_si [OF ro_changeStatusGuard])

lemma si_reopen: "related sameIds (reopen L i n a cx)"
  unfolding reopen_def reopenGuard_def
  by (intro si.rel_intros si_changeStatus si_getSetting ro_si [OF sel_getOrThrow] ro_si [OF ro_assertOwner])

lemma si_update: "related sameIds (update L i input a cx)"
  unfolding update_def
  by (intro si.rel_intros si_transaction si_small si_updateComplaint
      ro_si [OF sel_getOrThrow] ro_si [OF ro_assertOwner]) (simp_all add: patchComplaint_def)

lemma si_softDelete: "related sameIds (softDelete L i a cx)"
  unfolding softDelete_def
  by (intro si.rel_intros si_transaction si_small si_updateComplaint ro_si [OF sel_getOrThrow]) simp_all

lemma si_addComment: "related sameIds (addComment L i body internal a)"
  unfolding addComment_def
  by (intro si.rel_intros si_small ro_si [OF sel_getOrThrow] ro_si [OF ro_assertCanRead])
    (simp add: sameIds_def idsView_def)

lemma si_liftE: "related sameIds (liftE r)"
  unfolding liftE_def by (cases r) (simp_all add: si.return_rel si.throw_rel)

lemma si_addAttachment: "related sameIds (addAttachment L i up kind a)"
  unfolding addAttachment_def Let_def
  by (intro si.rel_intros si_small si_liftE ro_si [OF sel_getOrThrow])
    (simp add: sameIds_def idsView_def)

lemma si_upvote: "related sameIds (upvote L i a)"
  unfolding upvote_def upvoteTx_def insertUpvote_def
  by (intro si.rel_intros si_transaction si_small si_updateComplaint ro_si [OF sel_getOrThrow])
    (simp_all add: sameIds_def idsView_def)

lemma si_feedback: "related sameIds (feedback L i input a cx)"
  unfolding feedback_def insertFeedback_def
  by (intro si.rel_intros si_small si_applyStatusChange ro_si [OF sel_getOrThrow] ro_si [OF ro_assertOwner])
    (simp add: sameIds_def idsView_def)

lemma si_assign: "related sameIds (assign L i input a cx)"
  unfolding assign_def assignCommit_def insertAssignment_def selectById_def Let_def
  by (intro si.rel_intros si_transaction si_small si_updateComplaint ro_si [OF ro_assignGuard])
    (simp_all add: sameIds_def idsView_def)

lemma si_runSlaCheck: "related sameIds (runSlaCheck L)"
  unfolding runSlaCheck_def escalateOne_def escalateTx_def insertEscalation_def autoCloseResolved_def
    notifyMany_def Let_def
  by (intro si.rel_intros si_transaction si_small si_updateComplaint si_mails si_applyStatusChange)
    (simp_all add: sameIds_def idsView_def)

lemma id_createTx: "related idsStep (createTx L input a cx k sh)"
  unfolding related_def
proof
  fix w
  show "idsStep w (snd (createTx L input a cx k sh w))"
  proof (cases rule: createTx_cases [of L input a cx k sh w])
    case (failed e v)
    then show ?thesis by (simp add: idsStep_def ids_inv_def counterValue_def)
  next
    case (created c w' h)
    let ?y = "utc_year (clock w)"
    obtain cs where cs: "snd (nextCounter ?y w) = w\<lparr>counters := cs\<rparr>" using nextCounter_frame by blast
    have up: "counterValue y w' = (if y = ?y then Suc (counterValue ?y w) else counterValue y w)" for y
    proof -
      have "counterValue y w' = counterValue y (snd (nextCounter ?y w))"
        using created by (simp add: counterValue_def)
      then show ?thesis by (simp add: run_nextCounter(2))
    qed
    have "ids_inv w'" if inv: "ids_inv w"
    proof -
      have y: "0 \<le> ?y" using inv by (intro utc_year_nonneg) (simp add: ids_inv_def)
      have old: "\<exists>y n. 0 \<le> y \<and> t = trackingIdOf y n \<and> n \<le> counterValue y w'"
        if "t \<in> c_trackingId ` set (complaints w)" for t
      proof -
        obtain y n where "0 \<le> y" "t = trackingIdOf y n" "n \<le> counterValue y w"
          using inv \<open>t \<in> _\<close> unfolding ids_inv_def by blast
        then show ?thesis by (intro exI [of _ y] exI [of _ n]) (auto simp: up)
      qed
      have new: "\<exists>y n. 0 \<le> y \<and> c_trackingId c = trackingIdOf y n \<and> n \<le> counterValue y w'"
        using created y by (intro exI [of _ ?y] exI [of _ "Suc (counterValue ?y w)"]) (simp add: up)
      show ?thesis
        using old new inv created unfolding ids_inv_def by (auto simp del: ex_simps)
    qed
    then show ?thesis using created by (simp add: idsStep_def)
  qed
qed

lemma id_create: "related idsStep (create L input a cx)"
proof -
  have nearby: "related (=) (findNearbyDuplicate c input)" for c
    unfolding findNearbyDuplicate_def by (intro ro.rel_intros)
  show ?thesis
    unfolding create_def
    by (intro id.rel_intros id_createTx si_id [OF si_getSetting] si_id [OF ro_si [OF nearby]])
qed

lemma step_ids: "complaint_step L w w' \<Longrightarrow> idsStep w w'"
proof (induction rule: complaint_step.cases)
  case (step_tick d w)
  then show ?case by (simp add: idsStep_def ids_inv_def counterValue_def)
qed (use id_create si_id [OF si_update] si_id [OF si_softDelete] si_id [OF si_changeStatus]
       si_id [OF si_reopen] si_id [OF si_assign] si_id [OF si_addAttachment] si_id [OF si_addComment]
       si_id [OF si_upvote] si_id [OF si_feedback] si_id [OF si_runSlaCheck]
     in \<open>simp_all add: related_def cancel_def\<close>)

lemma run_ids_inv:
  assumes "complaint_run L w w'" and "ids_inv w"
  shows "ids_inv w'"
  using assms by (rule complaint_run_induct) (use step_ids in \<open>simp add: idsStep_def\<close>)

text \<open>The next id of a state that satisfies the invariant is in no row.\<close>

lemma next_id_fresh:
  assumes "ids_inv w"
  shows "trackingIdOf (utc_year (clock w)) (Suc (counterValue (utc_year (clock w)) w))
           \<notin> c_trackingId ` set (complaints w)"
proof
  let ?y = "utc_year (clock w)"
  assume "trackingIdOf ?y (Suc (counterValue ?y w)) \<in> c_trackingId ` set (complaints w)"
  then obtain y n where y: "0 \<le> y" "trackingIdOf ?y (Suc (counterValue ?y w)) = trackingIdOf y n"
    "n \<le> counterValue y w"
    using assms unfolding ids_inv_def by blast
  have "0 \<le> ?y" using assms by (intro utc_year_nonneg) (simp add: ids_inv_def)
  with y show False using trackingIdOf_eq by auto
qed

end
