(* ===== verification/ComplaintCounts.thy ===== *)
theory ComplaintCounts
  imports ComplaintInv
begin

text \<open>
  The counting invariants of a run: at most five attachments, one active assignment and one
  feedback per complaint, one upvote per citizen, and an upvote counter that is the number of
  upvotes.
\<close>

definition kidsView where
  "kidsView w = (attachments w, assignments w, upvotes w, feedbacks w,
     map (\<lambda>c. (c_id c, c_upvoteCount c)) (complaints w))"

definition sameKids :: "world \<Rightarrow> world \<Rightarrow> bool" where
  "sameKids w w' \<longleftrightarrow> kidsView w = kidsView w' \<and> uuidPos w \<le> uuidPos w'"

definition kidsGood where
  "kidsGood L pos v \<longleftrightarrow>
     (case v of (ats, ass, uvs, fbs, rows) \<Rightarrow>
       (\<forall>i. countWhere (\<lambda>t. at_complaintId t = i) ats \<le> MAX_ATTACHMENTS) \<and>
       (\<forall>i. countWhere (\<lambda>r. as_complaintId r = i \<and> as_unassignedAt r = None) ass \<le> 1) \<and>
       (\<forall>i u. countWhere (\<lambda>r. uv_complaintId r = i \<and> uv_userId r = u) uvs \<le> 1) \<and>
       (\<forall>i. countWhere (\<lambda>r. fb_complaintId r = i) fbs \<le> 1) \<and>
       distinct (map fst rows) \<and>
       (\<forall>(i, n) \<in> set rows. n = int (countWhere (\<lambda>r. uv_complaintId r = i) uvs)) \<and>
       (\<forall>r \<in> set uvs. uv_complaintId r \<in> fst ` set rows) \<and>
       fst ` set rows \<subseteq> uuidTape L ` {..<pos})"

definition kids_inv :: "lib \<Rightarrow> world \<Rightarrow> bool" where
  "kids_inv L w \<longleftrightarrow> kidsGood L (uuidPos w) (kidsView w)"

lemma kidsGood_mono: "kidsGood L pos v \<Longrightarrow> pos \<le> pos' \<Longrightarrow> kidsGood L pos' v"
proof -
  assume good: "kidsGood L pos v" and le: "pos \<le> pos'"
  have "uuidTape L ` {..<pos} \<subseteq> uuidTape L ` {..<pos'}" using le by (intro image_mono) auto
  with good show ?thesis unfolding kidsGood_def by (auto split: prod.splits)
qed

definition grows :: "lib \<Rightarrow> world \<Rightarrow> world \<Rightarrow> bool" where
  "grows L w w' \<longleftrightarrow> uuidPos w \<le> uuidPos w' \<and> (kids_inv L w \<longrightarrow> kids_inv L w')"

lemma kidsView_undo [simp]: "kidsView (undoTx w w') = kidsView w"
  by (simp add: kidsView_def)

interpretation kd: step_preorder sameKids undoTx
  by unfold_locales (auto simp: sameKids_def)

interpretation gr: step_preorder "grows L" undoTx for L
  by unfold_locales (auto simp: grows_def kids_inv_def intro: kidsGood_mono)

lemma sameKids_grows: "sameKids w w' \<Longrightarrow> grows L w w'"
  by (auto simp: sameKids_def grows_def kids_inv_def intro: kidsGood_mono)

lemma kd_gr: "related sameKids m \<Longrightarrow> related (grows L) m"
  by (auto simp: related_def intro: sameKids_grows)

lemma ro_kd: "related (=) m \<Longrightarrow> related sameKids m"
  by (auto simp: related_def sameKids_def)

section \<open>The operations that leave the children alone\<close>

lemma kd_freshId: "related sameKids (freshId L)"
  by (simp add: related_def eval sameKids_def kidsView_def)

lemma kd_audit: "related sameKids (audit L a b c d e f g)"
  by (simp add: related_def eval sameKids_def kidsView_def)

lemma kd_notify: "related sameKids (notify L u t b m)"
  by (simp add: related_def eval sameKids_def kidsView_def)

lemma kd_getSetting: "related sameKids (getSetting L k)"
proof -
  have "sameKids w (snd (getSetting L k w))" for w
    by (rule getSetting_cases [of L k w]) (simp add: sameKids_def kidsView_def)
  then show ?thesis by (simp add: related_def)
qed

lemma kd_updateComplaint:
  "(\<And>now c. c_id (f now c) = c_id c) \<Longrightarrow> (\<And>now c. c_upvoteCount (f now c) = c_upvoteCount c) \<Longrightarrow>
   related sameKids (updateComplaint i f)"
  unfolding updateComplaint_def
  by (intro kd.rel_intros) (simp add: sameKids_def kidsView_def updateWhere_def)

lemma kd_transaction: "related sameKids m \<Longrightarrow> related sameKids (transaction m)"
  unfolding transaction_def by (rule kd.rollback_rel)

lemma kd_insertHistory: "related sameKids (insertHistory L i s t n b)"
  by (simp add: related_def eval sameKids_def kidsView_def)

lemma kd_applyStatusChange: "related sameKids (applyStatusChange L c tgt n who cx)"
  unfolding applyStatusChange_def
  by (intro kd.rel_intros kd_transaction kd_audit kd_notify kd_insertHistory)
    (simp add: sameKids_def kidsView_def updateWhere_def)

lemma kd_dispatch: "related sameKids (dispatchEmail (sendMail L to t b))"
proof -
  have "sameKids w (snd (dispatchEmail (sendMail L to t b) w))" for w
  proof -
    obtain w' where "dispatchEmail (sendMail L to t b) w = (Inr (), w')" "mailed w w'"
      using dispatch_sendMail by blast
    moreover have "sameStatus w (snd (dispatchEmail (sendMail L to t b) w))"
      using st_dispatch by (simp add: related_def)
    ultimately show ?thesis
      by (simp add: sameKids_def kidsView_def mailed_frame sameStatus_def)
  qed
  then show ?thesis by (simp add: related_def)
qed

lemma kd_statusMail: "related sameKids (dispatchEmail (sendStatusUpdateEmail L to t s n))"
  unfolding sendStatusUpdateEmail_def by (rule kd_dispatch)

lemma kd_escalationMail: "related sameKids (dispatchEmail (sendEscalationEmail L to t l r))"
  unfolding sendEscalationEmail_def by (rule kd_dispatch)

lemma kd_notifyMany: "related sameKids (notifyMany L us t b m)"
  unfolding notifyMany_def by (intro kd.rel_intros kd_notify)

lemma kd_changeStatus: "related sameKids (changeStatus L i tgt n a cx)"
  unfolding changeStatus_def changeStatusCommit_def selectById_def
  by (intro kd.rel_intros kd_applyStatusChange kd_statusMail ro_kd [OF ro_changeStatusGuard])

lemma kd_reopen: "related sameKids (reopen L i n a cx)"
  unfolding reopen_def reopenGuard_def
  by (intro kd.rel_intros kd_changeStatus kd_getSetting ro_kd [OF sel_getOrThrow] ro_kd [OF ro_assertOwner])

lemma kd_update: "related sameKids (update L i input a cx)"
  unfolding update_def
  by (intro kd.rel_intros kd_transaction kd_audit kd_updateComplaint
      ro_kd [OF sel_getOrThrow] ro_kd [OF ro_assertOwner]) (simp_all add: patchComplaint_def)

lemma kd_softDelete: "related sameKids (softDelete L i a cx)"
  unfolding softDelete_def
  by (intro kd.rel_intros kd_transaction kd_audit kd_updateComplaint ro_kd [OF sel_getOrThrow]) simp_all

lemma kd_addComment: "related sameKids (addComment L i body internal a)"
  unfolding addComment_def
  by (intro kd.rel_intros kd_freshId kd_notify ro_kd [OF sel_getOrThrow] ro_kd [OF ro_assertCanRead])
    (simp add: sameKids_def kidsView_def)

lemma kd_runSlaCheck: "related sameKids (runSlaCheck L)"
proof -
  have one: "related sameKids (escalateOne L adminIds snap n)" for adminIds snap n
    unfolding escalateOne_def escalateTx_def insertEscalation_def Let_def
    by (intro kd.rel_intros kd_transaction kd_freshId kd_audit kd_notifyMany kd_updateComplaint
        kd_escalationMail) (simp_all add: sameKids_def kidsView_def)
  have close: "related sameKids (autoCloseResolved L)"
    unfolding autoCloseResolved_def by (intro kd.rel_intros kd_applyStatusChange)
  show ?thesis
    unfolding runSlaCheck_def by (intro kd.rel_intros one close) (simp add: sameKids_def kidsView_def)
qed

section \<open>The operations that add children\<close>

lemma kidsGood_attach:
  assumes "kidsGood L pos (ats, ass, uvs, fbs, rows)"
    and "countWhere (\<lambda>r. at_complaintId r = at_complaintId t) ats < MAX_ATTACHMENTS"
  shows "kidsGood L pos (ats @ [t], ass, uvs, fbs, rows)"
  using assms by (auto simp: kidsGood_def)

lemma kidsGood_feedback:
  assumes "kidsGood L pos (ats, ass, uvs, fbs, rows)"
    and "countWhere (\<lambda>r. fb_complaintId r = fb_complaintId t) fbs = 0"
  shows "kidsGood L pos (ats, ass, uvs, fbs @ [t], rows)"
  using assms by (auto simp: kidsGood_def)

lemma countWhere_unassign:
  "countWhere (\<lambda>r. as_complaintId r = j \<and> as_unassignedAt r = None)
     (updateWhere (\<lambda>r. as_complaintId r = i \<and> as_unassignedAt r = None)
        (as_unassignedAt_update (\<lambda>_. Some now)) ass) =
   (if j = i then 0 else countWhere (\<lambda>r. as_complaintId r = j \<and> as_unassignedAt r = None) ass)"
  by (induction ass) auto

lemma kidsGood_assign:
  assumes "kidsGood L pos (ats, ass, uvs, fbs, rows)" and "as_complaintId t = i"
  shows "kidsGood L pos (ats,
     updateWhere (\<lambda>r. as_complaintId r = i \<and> as_unassignedAt r = None)
        (as_unassignedAt_update (\<lambda>_. Some now)) ass @ [t], uvs, fbs, rows)"
  using assms by (auto simp: kidsGood_def countWhere_unassign)

lemma kidsGood_create:
  assumes good: "kidsGood L pos (ats, ass, uvs, fbs, rows)" and inj: "inj (uuidTape L)"
    and pos: "pos \<le> p" "p < pos'"
  shows "kidsGood L pos' (ats, ass, uvs, fbs, rows @ [(uuidTape L p, 0)])"
proof -
  have fresh: "uuidTape L p \<notin> fst ` set rows"
    using good inj pos by (auto simp: kidsGood_def inj_eq subset_iff)
  then have none: "countWhere (\<lambda>r. uv_complaintId r = uuidTape L p) uvs = 0"
    using good unfolding kidsGood_def countWhere_0 prod.case by metis
  have "kidsGood L pos' (ats, ass, uvs, fbs, rows)"
    by (rule kidsGood_mono [OF good]) (use pos in simp)
  with fresh none pos show ?thesis by (auto simp: kidsGood_def)
qed

lemma kidsGood_upvote:
  assumes good: "kidsGood L pos (ats, ass, uvs, fbs, rows)"
    and none: "countWhere (\<lambda>r. uv_complaintId r = i \<and> uv_userId r = u) uvs = 0"
    and v: "uv_complaintId v = i" "uv_userId v = u" and i: "i \<in> fst ` set rows"
  shows "kidsGood L pos (ats, ass, uvs @ [v], fbs, map (\<lambda>(j, n). (j, if j = i then n + 1 else n)) rows)"
proof -
  have fsts: "map fst (map (\<lambda>(j, n). (j, if j = i then n + 1 else n)) rows) = map fst rows"
    by (auto simp: case_prod_beta)
  have dom: "fst ` set (map (\<lambda>(j, n). (j, if j = i then n + 1 else n)) rows) = fst ` set rows"
    by (metis fsts set_map)
  have "\<forall>j x. countWhere (\<lambda>r. uv_complaintId r = j \<and> uv_userId r = x) (uvs @ [v]) \<le> 1"
    using good none v by (auto simp: kidsGood_def)
  moreover have "\<forall>(j, n) \<in> set (map (\<lambda>(j, n). (j, if j = i then n + 1 else n)) rows).
      n = int (countWhere (\<lambda>r. uv_complaintId r = j) (uvs @ [v]))"
    using good v by (auto simp: kidsGood_def)
  moreover have "\<forall>r \<in> set (uvs @ [v]). uv_complaintId r \<in> fst ` set rows"
    using good v i by (auto simp: kidsGood_def)
  ultimately show ?thesis
    using good unfolding kidsGood_def prod.case fsts dom by blast
qed

text \<open>A step that either keeps the view or extends it well is a \<open>grows\<close> step.\<close>

lemma growsI:
  assumes "uuidPos w \<le> uuidPos w'"
    and "kids_inv L w \<Longrightarrow> kidsGood L (uuidPos w) (kidsView w')"
  shows "grows L w w'"
  using assms by (auto simp: grows_def kids_inv_def intro: kidsGood_mono)

lemma addAttachment_effect:
  "kidsView (snd (addAttachment L i up kind a w)) = kidsView w \<or>
   (\<exists>t. at_complaintId t = i \<and> countWhere (\<lambda>t. at_complaintId t = i) (attachments w) < MAX_ATTACHMENTS \<and>
        kidsView (snd (addAttachment L i up kind a w)) =
          (attachments w @ [t], assignments w, upvotes w, feedbacks w,
           map (\<lambda>c. (c_id c, c_upvoteCount c)) (complaints w)))"
  by (cases "findComplaint i w"; cases up)
    (simp_all add: addAttachment_def Let_def eval kidsView_def not_le)

lemma gr_addAttachment: "related (grows L) (addAttachment L i up kind a)"
proof -
  have "grows L w (snd (addAttachment L i up kind a w))" for w
  proof (rule growsI)
    show "uuidPos w \<le> uuidPos (snd (addAttachment L i up kind a w))"
      using st_addAttachment by (simp add: related_def sameStatus_def)
    assume "kids_inv L w"
    then have "kidsGood L (uuidPos w) (kidsView w)" by (simp add: kids_inv_def)
    then show "kidsGood L (uuidPos w) (kidsView (snd (addAttachment L i up kind a w)))"
      using addAttachment_effect [of L i up kind a w]
      unfolding kidsView_def by (auto intro: kidsGood_attach)
  qed
  then show ?thesis by (simp add: related_def)
qed

lemma gr_insertFeedback: "related (grows L) (insertFeedback L i input)"
proof -
  have "grows L w (snd (insertFeedback L i input w))" for w
  proof (rule growsI)
    show "uuidPos w \<le> uuidPos (snd (insertFeedback L i input w))"
      using st_insertFeedback by (simp add: related_def sameStatus_def)
    assume "kids_inv L w"
    then have good: "kidsGood L (uuidPos w) (kidsView w)" by (simp add: kids_inv_def)
    show "kidsGood L (uuidPos w) (kidsView (snd (insertFeedback L i input w)))"
    proof (cases "countWhere (\<lambda>r. fb_complaintId r = i) (feedbacks w) = 0")
      case True
      then show ?thesis
        using good unfolding kidsView_def
        by (auto simp: insertFeedback_def eval uniqueBy_def countWhere_0 intro!: kidsGood_feedback)
    next
      case False
      then show ?thesis
        using good by (auto simp: insertFeedback_def eval uniqueBy_def kidsView_def countWhere_0)
    qed
  qed
  then show ?thesis by (simp add: related_def)
qed

lemma gr_feedback: "related (grows L) (feedback L i input a cx)"
  unfolding feedback_def
  by (intro gr.rel_intros gr_insertFeedback kd_gr [OF kd_applyStatusChange]
      kd_gr [OF ro_kd [OF sel_getOrThrow]] kd_gr [OF ro_kd [OF ro_assertOwner]])

lemma gr_create:
  assumes inj: "inj (uuidTape L)"
  shows "related (grows L) (create L input a cx)"
proof -
  have "grows L w (snd (createTx L input a cx k sh w))" for k sh w
  proof (cases rule: createTx_cases [of L input a cx k sh w])
    case (failed e v)
    then show ?thesis by (intro growsI) (simp_all add: kids_inv_def)
  next
    case (created c w' h)
    have "kids_inv L w'" if "kids_inv L w"
    proof -
      have "kidsGood L (uuidPos w') (attachments w, assignments w, upvotes w, feedbacks w,
          map (\<lambda>c. (c_id c, c_upvoteCount c)) (complaints w) @ [(uuidTape L (uuidPos w), 0)])"
        by (rule kidsGood_create [OF _ inj, of "uuidPos w"])
          (use that created in \<open>simp_all add: kids_inv_def kidsView_def\<close>)
      with created show ?thesis by (simp add: kids_inv_def kidsView_def)
    qed
    with created show ?thesis by (simp add: grows_def)
  qed
  then have tx: "related (grows L) (createTx L input a cx k sh)" for k sh by (simp add: related_def)
  have nearby: "related (=) (findNearbyDuplicate c input)" for c
    unfolding findNearbyDuplicate_def by (intro ro.rel_intros)
  show ?thesis
    unfolding create_def
    by (intro gr.rel_intros tx kd_gr [OF kd_getSetting] kd_gr [OF ro_kd [OF nearby]])
qed

lemma gr_assign: "related (grows L) (assign L i input a cx)"
proof -
  have "grows L w (snd (assign L i input a cx w))" for w
  proof (cases "assignGuard i input w")
    case (Pair r w1)
    then have w1: "w1 = w" by (rule ro_state [OF ro_assignGuard])
    show ?thesis
    proof (cases r)
      case (Inl e)
      with Pair w1 show ?thesis by (simp add: assign_def eval gr.refl)
    next
      case (Inr cu)
      obtain c u where cu: "cu = (c, u)" by (cases cu)
      have guard: "assignGuard i input w = (Inr (c, u), w)" using Pair w1 Inr cu by simp
      note g = assignGuard_InrD [OF guard]
      obtain w' x where run: "assignCommit L i input a cx (c, u) w = (Inr x, w')"
        and rows: "complaints w' = updateWhere (\<lambda>r. c_id r = i)
           (\<lambda>r. (r\<lparr>c_officerId := Some (u_id u), c_status := assignedStatus (c_status c)\<rparr>)
                   \<lparr>c_updatedAt := clock w\<rparr>) (complaints w)"
        and ass: "assignments w' =
           updateWhere (\<lambda>r. as_complaintId r = i \<and> as_unassignedAt r = None)
             (\<lambda>r. r\<lparr>as_unassignedAt := Some (clock w)\<rparr>) (assignments w)
           @ [newAssignment L w i input a u]"
        and pos: "uuidPos w \<le> uuidPos w'"
        and rest: "attachments w' = attachments w" "upvotes w' = upvotes w" "feedbacks w' = feedbacks w"
        by (rule assignCommit_run [OF find_by_id [OF g(2)]]) (rule that)
      have same: "map (\<lambda>c. (c_id c, c_upvoteCount c)) (complaints w') =
          map (\<lambda>c. (c_id c, c_upvoteCount c)) (complaints w)"
        by (simp add: rows updateWhere_def)
      have "grows L w w'"
      proof (rule growsI [OF pos])
        assume "kids_inv L w"
        then have "kidsGood L (uuidPos w) (kidsView w)" by (simp add: kids_inv_def)
        then show "kidsGood L (uuidPos w) (kidsView w')"
          unfolding kidsView_def same rest ass
          by (rule kidsGood_assign) (simp add: newAssignment_def)
      qed
      then show ?thesis using Pair w1 Inr cu run by (simp add: assign_def eval)
    qed
  qed
  then show ?thesis by (simp add: related_def)
qed

lemma upvote_view:
  "map (\<lambda>c. (c_id c, c_upvoteCount c))
     (updateWhere (\<lambda>c. c_id c = i) (\<lambda>c. (c\<lparr>c_upvoteCount := c_upvoteCount c + 1\<rparr>)\<lparr>c_updatedAt := now\<rparr>) rows) =
   map (\<lambda>(j, n). (j, if j = i then n + 1 else n)) (map (\<lambda>c. (c_id c, c_upvoteCount c)) rows)"
  by (simp add: updateWhere_def)

lemma bump_view:
  "map (\<lambda>c. (c_id c, c_upvoteCount c))
     (updateWhere P (\<lambda>c. (c\<lparr>c_priority := p\<rparr>)\<lparr>c_updatedAt := now\<rparr>) rows) =
   map (\<lambda>c. (c_id c, c_upvoteCount c)) rows"
  by (simp add: updateWhere_def)

lemma upvote_effect:
  "kidsView (snd (upvote L i a w)) = kidsView w \<or>
   (\<exists>v. uv_complaintId v = i \<and> uv_userId v = a_id a \<and> findComplaint i w \<noteq> None \<and>
        countWhere (\<lambda>r. uv_complaintId r = i \<and> uv_userId r = a_id a) (upvotes w) = 0 \<and>
        kidsView (snd (upvote L i a w)) =
          (attachments w, assignments w, upvotes w @ [v], feedbacks w,
           map (\<lambda>(j, n). (j, if j = i then n + 1 else n))
             (map (\<lambda>c. (c_id c, c_upvoteCount c)) (complaints w))))"
proof (cases "findComplaint i w")
  case None
  then show ?thesis by (simp add: upvote_def eval)
next
  case (Some c)
  show ?thesis
  proof (cases "find (\<lambda>r. uv_complaintId r = i \<and> uv_userId r = a_id a) (upvotes w)")
    case none: None
    obtain r where r: "find (\<lambda>c. c_id c = i) (complaints w) = Some r"
      using find_by_id [OF Some] by auto
    have clash: "\<not> (\<exists>r \<in> set (upvotes w). uv_complaintId r = i \<and> uv_userId r = a_id a)"
      using none by (simp add: find_None_all)
    then have cnt: "countWhere (\<lambda>r. uv_complaintId r = i \<and> uv_userId r = a_id a) (upvotes w) = 0"
      by (simp add: countWhere_0)
    let ?r1 = "r\<lparr>c_upvoteCount := c_upvoteCount r + 1, c_updatedAt := clock w\<rparr>"
    have "find (\<lambda>c. c_id c = i) (updateWhere (\<lambda>c. c_id c = i)
        (\<lambda>c. (c\<lparr>c_upvoteCount := c_upvoteCount c + 1\<rparr>)\<lparr>c_updatedAt := clock w\<rparr>) (complaints w)) \<noteq> None"
      using r by (subst find_updateWhere_key) simp_all
    then obtain r2 where r2: "find (\<lambda>c. c_id c = i) (updateWhere (\<lambda>c. c_id c = i)
        (\<lambda>c. (c\<lparr>c_upvoteCount := c_upvoteCount c + 1\<rparr>)\<lparr>c_updatedAt := clock w\<rparr>) (complaints w)) = Some r2"
      by auto
    show ?thesis
      by (rule disjI2, rule exI [of _ "\<lparr>uv_id = uuidTape L (uuidPos w), uv_complaintId = i,
            uv_userId = a_id a, uv_createdAt = clock w\<rparr>"])
        (use Some none r r2 clash cnt in \<open>simp add: upvote_def upvoteTx_def insertUpvote_def eval
           uniqueBy_def updateComplaint_def kidsView_def upvote_view bump_view
           del: map_map\<close>)
  next
    case (Some v)
    with \<open>findComplaint i w = Some c\<close> show ?thesis by (simp add: upvote_def eval)
  qed
qed

lemma gr_upvote: "related (grows L) (upvote L i a)"
proof -
  have "grows L w (snd (upvote L i a w))" for w
  proof (rule growsI)
    show "uuidPos w \<le> uuidPos (snd (upvote L i a w))"
      using st_upvote by (simp add: related_def sameStatus_def)
    assume "kids_inv L w"
    then have good: "kidsGood L (uuidPos w) (kidsView w)" by (simp add: kids_inv_def)
    show "kidsGood L (uuidPos w) (kidsView (snd (upvote L i a w)))"
      using upvote_effect [of L i a w]
    proof (elim disjE exE conjE)
      fix v
      assume v: "uv_complaintId v = i" "uv_userId v = a_id a" and row: "findComplaint i w \<noteq> None"
        and none: "countWhere (\<lambda>r. uv_complaintId r = i \<and> uv_userId r = a_id a) (upvotes w) = 0"
        and view: "kidsView (snd (upvote L i a w)) =
          (attachments w, assignments w, upvotes w @ [v], feedbacks w,
           map (\<lambda>(j, n). (j, if j = i then n + 1 else n))
             (map (\<lambda>c. (c_id c, c_upvoteCount c)) (complaints w)))"
      obtain c where "findComplaint i w = Some c" using row by auto
      then have "i \<in> fst ` set (map (\<lambda>c. (c_id c, c_upvoteCount c)) (complaints w))"
        by (auto dest!: findComplaint_Some simp: image_image)
      then show ?thesis
        unfolding view using good none v unfolding kidsView_def by (intro kidsGood_upvote)
    qed (use good in simp)
  qed
  then show ?thesis by (simp add: related_def)
qed

lemma step_grows:
  assumes inj: "inj (uuidTape L)" and step: "complaint_step L w w'"
  shows "grows L w w'"
  using step
proof cases
  case (step_tick d)
  then show ?thesis by (intro growsI) (simp_all add: kids_inv_def kidsView_def)
qed (use gr_create [OF inj] gr_feedback gr_assign gr_upvote gr_addAttachment
       kd_gr [OF kd_update] kd_gr [OF kd_softDelete] kd_gr [OF kd_changeStatus]
       kd_gr [OF kd_reopen] kd_gr [OF kd_addComment] kd_gr [OF kd_runSlaCheck]
     in \<open>simp_all add: related_def cancel_def\<close>)

lemma run_kids_inv:
  assumes "inj (uuidTape L)" and "complaint_run L w w'" and "kids_inv L w"
  shows "kids_inv L w'"
  using assms(2,3)
  by (rule complaint_run_induct) (use step_grows [OF assms(1)] in \<open>simp add: grows_def\<close>)

end
