(* ===== verification/ComplaintReads.thy ===== *)
theory ComplaintReads
  imports ComplaintFacts
begin

text \<open>
  The reads of \<^verbatim>\<open>complaint.service.ts\<close>: filtered and role-scoped lists, the detail view,
  public tracking, the timeline, the comments, the nearby search and an officer's figures.
\<close>

section \<open>Lists\<close>

record listQuery =
  lq_page :: "int option"
  lq_limit :: "int option"
  lq_status :: "string option"
  lq_priority :: "priority option"
  lq_wardId :: "string option"
  lq_categoryId :: "string option"
  lq_officerId :: "string option"
  lq_isEscalated :: "string option"
  lq_from :: "string option"
  lq_to :: "string option"
  lq_sortBy :: "string option"
  lq_sortOrder :: "string option"
  lq_q :: "string option"

definition allStatuses :: "complaint_status list" where
  "allStatuses = [SUBMITTED, UNDER_REVIEW, ASSIGNED, IN_PROGRESS, RESOLVED, CLOSED, REOPENED,
     REJECTED, CANCELLED]"

text \<open>A status name Prisma does not know makes the query invalid.\<close>

definition parseStatus :: "string \<Rightarrow> complaint_status option" where
  "parseStatus s = find (\<lambda>t. show_status t = s) allStatuses"

definition statusFilter :: "string list option \<Rightarrow> exn + (complaint_status \<Rightarrow> bool)" where
  "statusFilter names =
     (case names of
        None \<Rightarrow> Inr (\<lambda>_. True)
      | Some l \<Rightarrow> if \<forall>s \<in> set l. parseStatus s \<noteq> None
                  then Inr (\<lambda>t. show_status t \<in> set l) else Inl PrismaValidation)"

text \<open>A filter that is absent or an empty string lets every row through.\<close>

definition optMatch :: "string option \<Rightarrow> (string \<Rightarrow> bool) \<Rightarrow> bool" where
  "optMatch x f = (case x of None \<Rightarrow> True | Some s \<Rightarrow> s = [] \<or> f s)"

definition containsQ :: "lib \<Rightarrow> string \<Rightarrow> complaint \<Rightarrow> bool" where
  "containsQ L q c \<longleftrightarrow> ilike L q (c_title c) \<or> ilike L q (c_description c) \<or> ilike L q (c_trackingId c)"

definition buildListWhere :: "lib \<Rightarrow> listQuery \<Rightarrow> exn + (complaint \<Rightarrow> bool)" where
  "buildListWhere L query =
     (case statusFilter (csvList (lq_status query)) of
        Inl e \<Rightarrow> Inl e
      | Inr okStatus \<Rightarrow>
          (case dateRange L (lq_from query) (lq_to query) of
             Inl e \<Rightarrow> Inl e
           | Inr created \<Rightarrow> Inr (\<lambda>c.
               okStatus (c_status c)
               \<and> (case lq_priority query of None \<Rightarrow> True | Some p \<Rightarrow> c_priority c = p)
               \<and> optMatch (lq_wardId query) (\<lambda>x. c_wardId c = x)
               \<and> optMatch (lq_categoryId query) (\<lambda>x. c_categoryId c = x)
               \<and> optMatch (lq_officerId query) (\<lambda>x. c_officerId c = Some x)
               \<and> optMatch (lq_isEscalated query) (\<lambda>x. c_isEscalated c = (x = ''true''))
               \<and> inRange created (c_createdAt c)
               \<and> optMatch (lq_q query) (\<lambda>x. containsQ L x c))))"

fun status_rank :: "complaint_status \<Rightarrow> int" where
  "status_rank SUBMITTED = 0"
| "status_rank UNDER_REVIEW = 1"
| "status_rank ASSIGNED = 2"
| "status_rank IN_PROGRESS = 3"
| "status_rank RESOLVED = 4"
| "status_rank CLOSED = 5"
| "status_rank REOPENED = 6"
| "status_rank REJECTED = 7"
| "status_rank CANCELLED = 8"

definition complaintKey :: "string \<Rightarrow> complaint \<Rightarrow> int" where
  "complaintKey field c =
     (if field = ''updatedAt'' then c_updatedAt c
      else if field = ''priority'' then int (priority_rank (c_priority c))
      else if field = ''status'' then status_rank (c_status c)
      else if field = ''slaDueAt'' then c_slaDueAt c
      else if field = ''upvoteCount'' then c_upvoteCount c
      else c_createdAt c)"

definition paginatedList ::
  "(world \<Rightarrow> complaint \<Rightarrow> bool) \<Rightarrow> listQuery \<Rightarrow> (listItem list \<times> meta) act" where
  "paginatedList matches query =
     (let pagination = getPagination (lq_page query) (lq_limit query) in
      bindM (liftE (buildOrderBy SortComplaint (lq_sortBy query) (lq_sortOrder query))) (\<lambda>orderBy.
      bindM (getsM (\<lambda>w. filter (matches w) (liveComplaints w))) (\<lambda>rows.
      bindM (getsM (\<lambda>w. map (LIST_SELECT w)
          (pageRows pagination (orderRows (complaintKey (fst orderBy)) (snd orderBy) rows)))) (\<lambda>items.
        returnM (items, buildMeta pagination (length rows))))))"

text \<open>
  The category relation of the officer scope, and the officer's own department, with the
  placeholder that matches no department.
\<close>

definition inDepartment :: "actor \<Rightarrow> world \<Rightarrow> complaint \<Rightarrow> bool" where
  "inDepartment a w c =
     (case find (\<lambda>k. cat_id k = c_categoryId c) (categories w) of
        None \<Rightarrow> False
      | Some k \<Rightarrow> cat_departmentId k = (case a_departmentId a of None \<Rightarrow> ''__none__'' | Some d \<Rightarrow> d))"

definition listAll :: "lib \<Rightarrow> listQuery \<Rightarrow> actor \<Rightarrow> (listItem list \<times> meta) act" where
  "listAll L query a =
     bindM (liftE (buildListWhere L query)) (\<lambda>whereC.
       paginatedList (\<lambda>w c. whereC c \<and> (a_role a = OFFICER \<longrightarrow> inDepartment a w c)) query)"

definition listMine :: "lib \<Rightarrow> listQuery \<Rightarrow> actor \<Rightarrow> (listItem list \<times> meta) act" where
  "listMine L query a =
     bindM (liftE (buildListWhere L query)) (\<lambda>whereC.
       paginatedList (\<lambda>_ c. whereC c \<and> c_citizenId c = a_id a) query)"

text \<open>The \<open>officerId\<close> of the spread filter is overwritten by the caller's own id.\<close>

definition listAssigned :: "lib \<Rightarrow> listQuery \<Rightarrow> actor \<Rightarrow> (listItem list \<times> meta) act" where
  "listAssigned L query a =
     bindM (liftE (buildListWhere L (query\<lparr>lq_officerId := None\<rparr>))) (\<lambda>whereC.
       paginatedList (\<lambda>_ c. whereC c \<and> c_officerId c = Some (a_id a)) query)"

definition searchScope :: "actor \<Rightarrow> world \<Rightarrow> complaint \<Rightarrow> bool" where
  "searchScope a w c =
     (if a_role a = CITIZEN then c_citizenId c = a_id a
      else if a_role a = OFFICER then inDepartment a w c
      else True)"

definition search :: "lib \<Rightarrow> string \<Rightarrow> listQuery \<Rightarrow> actor \<Rightarrow> (listItem list \<times> meta) act" where
  "search L q query a = paginatedList (\<lambda>w c. searchScope a w c \<and> containsQ L q c) query"

section \<open>One complaint\<close>

text \<open>The citizen as the detail view shows them: id, name, email and phone.\<close>

record citizenView =
  cz_id :: string
  cz_name :: string
  cz_email :: string
  cz_phone :: "string option"

record detailView =
  dv_complaint :: complaint
  dv_category :: "category option"
  dv_ward :: "ward option"
  dv_citizen :: "citizenView option"
  dv_officer :: "(string \<times> string \<times> string) option"
  dv_attachments :: "attachment list"
  dv_feedback :: "feedback option"
  dv_history :: "history list"
  dv_comments :: "comment list"

definition citizenOf :: "world \<Rightarrow> complaint \<Rightarrow> citizenView option" where
  "citizenOf w c =
     map_option (\<lambda>u. \<lparr>cz_id = u_id u, cz_name = u_name u, cz_email = u_email u, cz_phone = u_phone u\<rparr>)
       (find (\<lambda>u. u_id u = c_citizenId c) (users w))"

definition historyOf :: "string \<Rightarrow> world \<Rightarrow> history list" where
  "historyOf i w = orderRows h_createdAt True (filter (\<lambda>h. h_complaintId h = i) (histories w))"

text \<open>The comments a caller may see, which is where internal notes are left out.\<close>

definition visibleComments :: "string \<Rightarrow> actor \<Rightarrow> world \<Rightarrow> comment list" where
  "visibleComments i a w =
     orderRows cm_createdAt True
       (filter (\<lambda>m. cm_complaintId m = i \<and> (a_role a = CITIZEN \<longrightarrow> \<not> cm_isInternal m)) (liveComments w))"

definition getById :: "string \<Rightarrow> actor \<Rightarrow> detailView act" where
  "getById i a =
     bindM (getsM (findComplaint i)) (\<lambda>row.
     bindM (orThrow (apiError 404 ''Complaint not found'' [detC ''NOT_FOUND'']) row) (\<lambda>complaint.
     thenM (assertCanRead complaint a)
     (bindM (getsM (visibleComments i a)) (\<lambda>seen.
      getsM (\<lambda>w.
        \<lparr>dv_complaint = complaint,
         dv_category = find (\<lambda>k. cat_id k = c_categoryId complaint) (categories w),
         dv_ward = find (\<lambda>r. w_id r = c_wardId complaint) (wards w),
         dv_citizen = (if a_role a = OFFICER \<and> c_officerId complaint \<noteq> Some (a_id a)
                       then map_option (\<lambda>v. v\<lparr>cz_phone := None\<rparr>) (citizenOf w complaint)
                       else citizenOf w complaint),
         dv_officer = map_option (\<lambda>u. (u_id u, u_name u, u_email u))
           (find (\<lambda>u. Some (u_id u) = c_officerId complaint) (users w)),
         dv_attachments = filter (\<lambda>t. at_complaintId t = i) (attachments w),
         dv_feedback = find (\<lambda>f. fb_complaintId f = i) (feedbacks w),
         dv_history = historyOf i w,
         dv_comments = seen\<rparr>)))))"

record trackView =
  tv_trackingId :: string
  tv_status :: complaint_status
  tv_priority :: priority
  tv_isEscalated :: bool
  tv_createdAt :: instant
  tv_resolvedAt :: "instant option"
  tv_closedAt :: "instant option"
  tv_category :: "string option"
  tv_ward :: "(int \<times> string) option"
  tv_history :: "(complaint_status option \<times> complaint_status \<times> instant) list"

definition track :: "string \<Rightarrow> trackView act" where
  "track trackingId =
     bindM (getsM (\<lambda>w. find (\<lambda>c. c_trackingId c = trackingId) (liveComplaints w))) (\<lambda>row.
     bindM (orThrow (apiError 404 ''Complaint not found'' [detC ''NOT_FOUND'']) row) (\<lambda>c.
     getsM (\<lambda>w.
       \<lparr>tv_trackingId = c_trackingId c, tv_status = c_status c, tv_priority = c_priority c,
        tv_isEscalated = c_isEscalated c, tv_createdAt = c_createdAt c,
        tv_resolvedAt = c_resolvedAt c, tv_closedAt = c_closedAt c,
        tv_category = map_option cat_name (find (\<lambda>k. cat_id k = c_categoryId c) (categories w)),
        tv_ward = map_option (\<lambda>r. (w_number r, w_name r)) (find (\<lambda>r. w_id r = c_wardId c) (wards w)),
        tv_history = map (\<lambda>h. (h_fromStatus h, h_toStatus h, h_createdAt h))
          (historyOf (c_id c) w)\<rparr>)))"

definition history :: "string \<Rightarrow> actor \<Rightarrow> history list act" where
  "history i a =
     bindM (getOrThrow i) (\<lambda>complaint.
     thenM (assertCanRead complaint a) (getsM (historyOf i)))"

definition listComments :: "string \<Rightarrow> actor \<Rightarrow> comment list act" where
  "listComments i a =
     bindM (getOrThrow i) (\<lambda>complaint.
     thenM (assertCanRead complaint a) (getsM (visibleComments i a)))"

section \<open>Nearby\<close>

record nearbyQuery =
  nq_lat :: real
  nq_lng :: real
  nq_radiusKm :: real
  nq_limit :: "nat option"

definition lngDeltaOf :: "real \<Rightarrow> real \<Rightarrow> real" where
  "lngDeltaOf radiusKm lat =
     (let d = 111 * cos (lat * pi / 180) in radiusKm / (if d = 0 then 1 else d))"

definition nearbyHits :: "nearbyQuery \<Rightarrow> complaint list \<Rightarrow> (complaint \<times> int) list" where
  "nearbyHits query candidates =
     concat (map (\<lambda>c. case (c_latitude c, c_longitude c) of
         (Some y, Some x) \<Rightarrow>
           (let metres = distanceMeters (nq_lat query) (nq_lng query) y x in
            if metres \<le> nq_radiusKm query * 1000 then [(c, js_round metres)] else [])
       | _ \<Rightarrow> []) candidates)"

definition nearbyCandidates :: "nearbyQuery \<Rightarrow> world \<Rightarrow> complaint list" where
  "nearbyCandidates query w =
     take 200 (filter (\<lambda>c. isOpen (c_status c)
       \<and> inBox (nq_lat query) (nq_radiusKm query / 111) (nq_lng query)
               (lngDeltaOf (nq_radiusKm query) (nq_lat query)) c) (liveComplaints w))"

definition nearby :: "nearbyQuery \<Rightarrow> (listItem \<times> int) list act" where
  "nearby query =
     getsM (\<lambda>w. map (\<lambda>(c, m). (LIST_SELECT w c, m))
       (take (case nq_limit query of None \<Rightarrow> 50 | Some n \<Rightarrow> n)
         (sort_key snd (nearbyHits query (nearbyCandidates query w)))))"

section \<open>An officer's figures\<close>

record officerStats =
  of_assigned :: nat
  of_inProgress :: nat
  of_resolvedThisMonth :: nat
  of_slaBreaches :: nat
  of_avgRating :: "real option"
  of_ratingCount :: nat

text \<open>\<open>Number(avg.toFixed(2))\<close>: rounded to hundredths.\<close>

definition round2 :: "real \<Rightarrow> real" where
  "round2 x = of_int (js_round (x * 100)) / 100"

definition ratingsOf :: "string \<Rightarrow> world \<Rightarrow> feedback list" where
  "ratingsOf officerId w =
     filter (\<lambda>f. \<exists>c \<in> set (complaints w). c_id c = fb_complaintId f \<and> c_officerId c = Some officerId)
       (feedbacks w)"

definition avgRating :: "feedback list \<Rightarrow> real option" where
  "avgRating fs =
     (if fs = [] then None
      else (let m = of_int (sum_list (map fb_rating fs)) / of_nat (length fs) in
            if m = 0 then None else Some (round2 m)))"

definition listOfficerStats :: "string \<Rightarrow> officerStats act" where
  "listOfficerStats officerId =
     getsM (\<lambda>w.
       let mine = filter (\<lambda>c. c_officerId c = Some officerId) (liveComplaints w) in
       \<lparr>of_assigned = countWhere (\<lambda>c. isOpen (c_status c)) mine,
        of_inProgress = countWhere (\<lambda>c. c_status c = IN_PROGRESS) mine,
        of_resolvedThisMonth = countWhere (\<lambda>c. (c_status c = RESOLVED \<or> c_status c = CLOSED)
          \<and> (case c_resolvedAt c of None \<Rightarrow> False | Some t \<Rightarrow> start_of_month (clock w) \<le> t)) mine,
        of_slaBreaches = countWhere c_isEscalated mine,
        of_avgRating = avgRating (ratingsOf officerId w),
        of_ratingCount = length (ratingsOf officerId w)\<rparr>)"

end
