(* ===== verification/Fixtures.thy ===== *)
theory Fixtures
  imports ComplaintInv
begin

text \<open>
  A concrete instance of the parameters and a small city, on which the witnesses run the
  definitions. The random tapes answer strings of growing length, so no two draws agree.
\<close>

definition demoLib :: lib where
  "demoLib = \<lparr>
     sha256 = (\<lambda>s. CHR ''h'' # s), otpHash = (\<lambda>s. CHR ''k'' # s),
     bcryptHash = (\<lambda>_ s. CHR ''b'' # s), bcryptCompare = (\<lambda>p h. h = CHR ''b'' # p),
     uuidTape = (\<lambda>n. replicate n (CHR ''u'')), tokenTape = (\<lambda>n. replicate n (CHR ''t'')),
     otpTape = (\<lambda>n. replicate n (CHR ''1'')),
     signAccess = (\<lambda>u r s j t. CHR ''A'' # j), signRefresh = (\<lambda>u s j t. CHR ''R'' # j),
     decStr = show_int, numStr = (\<lambda>x. ''n''), toNumber = (\<lambda>_. None),
     stringify = (\<lambda>_. ''json''), ilike = (\<lambda>q s. q = s), parseDate = (\<lambda>_. None),
     smtpConfigured = False, smtpSend = (\<lambda>_ _. None),
     BACKEND_URL = ''http://api'', CLIENT_URL = ''http://web'',
     SSL_STORE_ID = ''store'', SSL_STORE_PASSWORD = ''pass'', DUMMY_HASH = ''dummy''\<rparr>"

lemma demoLib_simps [simp]:
  "sha256 demoLib s = CHR ''h'' # s" "otpHash demoLib s = CHR ''k'' # s"
  "bcryptHash demoLib n s = CHR ''b'' # s" "bcryptCompare demoLib p h = (h = CHR ''b'' # p)"
  "uuidTape demoLib n = replicate n (CHR ''u'')" "tokenTape demoLib n = replicate n (CHR ''t'')"
  "otpTape demoLib n = replicate n (CHR ''1'')" "numStr demoLib x = ''n''"
  "signAccess demoLib u r sid j t = CHR ''A'' # j" "signRefresh demoLib u sid j t = CHR ''R'' # j"
  "decStr demoLib = show_int" "toNumber demoLib jv = None" "ilike demoLib q s = (q = s)"
  "parseDate demoLib s = None" "smtpConfigured demoLib = False" "smtpSend demoLib a b = None"
  "BACKEND_URL demoLib = ''http://api''" "CLIENT_URL demoLib = ''http://web''"
  "SSL_STORE_ID demoLib = ''store''" "SSL_STORE_PASSWORD demoLib = ''pass''"
  "DUMMY_HASH demoLib = ''dummy''"
  by (simp_all add: demoLib_def)

lemma demoLib_inj: "inj (uuidTape demoLib)"
proof (rule injI)
  fix m n :: nat
  assume "uuidTape demoLib m = uuidTape demoLib n"
  then have "length (replicate m (CHR ''u'')) = length (replicate n (CHR ''u''))" by simp
  then show "m = n" by simp
qed

definition demoCtx :: ctx where
  "demoCtx = \<lparr>ctx_ip = ''1.2.3.4'', ctx_ua = ''browser''\<rparr>"

definition demoUser :: "string \<Rightarrow> role \<Rightarrow> string option \<Rightarrow> user" where
  "demoUser i r dept =
     \<lparr>u_id = i, u_name = i, u_email = i, u_password = Some ''bpw'', u_phone = Some ''017'',
      u_avatarUrl = None, u_role = r, u_status = ACTIVE, u_provider = LOCAL, u_googleId = None,
      u_emailVerifiedAt = None, u_twoFactorEnabled = True, u_isSuperAdmin = False,
      u_lastLoginAt = None, u_lastLoginIp = None, u_wardId = None, u_departmentId = dept,
      u_passwordChangedAt = None, u_createdAt = 0, u_updatedAt = 0, u_deletedAt = None\<rparr>"

definition demoActor :: "string \<Rightarrow> role \<Rightarrow> string option \<Rightarrow> actor" where
  "demoActor i r dept =
     \<lparr>a_id = i, a_role = r, a_departmentId = dept, a_email = i, a_name = i\<rparr>"

definition citizenA :: actor where "citizenA = demoActor ''cit'' CITIZEN None"
definition officerA :: actor where "officerA = demoActor ''off'' OFFICER (Some ''dep'')"
definition adminA :: actor where "adminA = demoActor ''adm'' ADMIN None"

definition demoCategory :: category where
  "demoCategory = \<lparr>cat_id = ''cat'', cat_name = ''Roads'', cat_departmentId = ''dep'',
     cat_slaHours = 72, cat_defaultPriority = MEDIUM, cat_deletedAt = None\<rparr>"

definition demoWard :: ward where
  "demoWard = \<lparr>w_id = ''wrd'', w_number = 1, w_name = ''One'', w_zoneId = None\<rparr>"

definition demoComplaint :: "string \<Rightarrow> complaint_status \<Rightarrow> complaint" where
  "demoComplaint i s =
     \<lparr>c_id = i, c_trackingId = i, c_title = ''Pothole'', c_description = ''On the road'',
      c_status = s, c_priority = MEDIUM, c_address = ''Here'', c_latitude = None,
      c_longitude = None, c_citizenId = ''cit'', c_officerId = Some ''off'',
      c_categoryId = ''cat'', c_wardId = ''wrd'', c_slaDueAt = 0, c_isEscalated = False,
      c_upvoteCount = 0, c_reopenCount = 0, c_resolvedAt = None, c_closedAt = None,
      c_createdAt = 0, c_updatedAt = 0, c_deletedAt = None\<rparr>"

text \<open>A city with its people, one category and one ward, and the given complaints.\<close>

definition city :: "complaint list \<Rightarrow> world" where
  "city cs = empty_world\<lparr>
     users := [demoUser ''cit'' CITIZEN None, demoUser ''off'' OFFICER (Some ''dep''),
               demoUser ''adm'' ADMIN None],
     categories := [demoCategory], wards := [demoWard], complaints := cs\<rparr>"

lemma city_simps [simp]:
  "complaints (city cs) = cs" "clock (city cs) = 0" "histories (city cs) = []"
  "users (city cs) = [demoUser ''cit'' CITIZEN None, demoUser ''off'' OFFICER (Some ''dep''),
               demoUser ''adm'' ADMIN None]"
  "categories (city cs) = [demoCategory]" "wards (city cs) = [demoWard]"
  "attachments (city cs) = []" "upvotes (city cs) = []" "feedbacks (city cs) = []"
  "assignments (city cs) = []" "settings (city cs) = []" "settingCache (city cs) k = None"
  "uuidPos (city cs) = 0" "counters (city cs) = []" "redisUp (city cs)" "redis (city cs) k = None"
  "comments (city cs) = []" "escalations (city cs) = []" "auditLogs (city cs) = []"
  "emailLogs (city cs) = []" "notifications (city cs) = []" "mailbox (city cs) = []"
  by (simp_all add: city_def empty_world_def)

lemma demo_simps [simp]:
  "c_id (demoComplaint i s) = i" "c_status (demoComplaint i s) = s"
  "c_deletedAt (demoComplaint i s) = None" "c_citizenId (demoComplaint i s) = ''cit''"
  "c_officerId (demoComplaint i s) = Some ''off''" "c_categoryId (demoComplaint i s) = ''cat''"
  "c_reopenCount (demoComplaint i s) = 0" "c_resolvedAt (demoComplaint i s) = None"
  "c_upvoteCount (demoComplaint i s) = 0" "c_trackingId (demoComplaint i s) = i"
  "c_priority (demoComplaint i s) = MEDIUM"
  "a_id citizenA = ''cit''" "a_role citizenA = CITIZEN" "a_departmentId citizenA = None"
  "a_id officerA = ''off''" "a_role officerA = OFFICER" "a_departmentId officerA = Some ''dep''"
  "a_id adminA = ''adm''" "a_role adminA = ADMIN"
  "u_id (demoUser i r d) = i" "u_role (demoUser i r d) = r" "u_status (demoUser i r d) = ACTIVE"
  "u_departmentId (demoUser i r d) = d" "u_deletedAt (demoUser i r d) = None"
  "u_email (demoUser i r d) = i" "u_isSuperAdmin (demoUser i r d) = False"
  "cat_id demoCategory = ''cat''" "cat_departmentId demoCategory = ''dep''"
  "cat_deletedAt demoCategory = None" "cat_defaultPriority demoCategory = MEDIUM"
  "w_id demoWard = ''wrd''"
  by (simp_all add: demoComplaint_def citizenA_def officerA_def adminA_def demoActor_def
      demoUser_def demoCategory_def demoWard_def)

lemma city_find [simp]:
  "findComplaint i (city []) = None"
  "findComplaint i (city (c # cs)) =
     (if c_deletedAt c = None \<and> c_id c = i then Some c else findComplaint i (city cs))"
  by (simp_all add: findComplaint_def live_defs)

text \<open>A create that goes through.\<close>

definition demoInput :: createInput where
  "demoInput = \<lparr>ci_title = ''Pothole'', ci_description = ''On the road'', ci_categoryId = ''cat'',
     ci_wardId = ''wrd'', ci_address = ''Here'', ci_latitude = None, ci_longitude = None\<rparr>"

lemmas create_run = create_def eval live_defs duplicateOf_def getSetting_def settingValue_def
  Let_def createTx_def nextTrackingId_def nextCounter_def insertComplaint_def complaintCheck_def
  newComplaint_def uniqueBy_def findNearbyDuplicate_def demoInput_def

lemma demo_created:
  "\<exists>c. complaints (snd (create demoLib demoInput citizenA demoCtx (city []))) = [c]
       \<and> c_status c = SUBMITTED \<and> c_id c = [] \<and> c_upvoteCount c = 0"
  by (simp add: create_run)

lemma demo_run:
  "complaint_run demoLib (city []) (snd (create demoLib demoInput citizenA demoCtx (city [])))"
  by (rule run_step [OF run_refl step_create])

end
