(* ===== verification/ComplaintProps.thy ===== *)
theory ComplaintProps
  imports ComplaintCounts ComplaintReads Fixtures
begin

text \<open>
  The properties of the complaint module, over the definitions of the theories Complaint,
  ComplaintReads and SlaChecker, each with a concrete state on which its hypotheses hold.
\<close>

section \<open>The status machine\<close>



text \<open>The locked write as one compare-and-set of the status.\<close>

definition tryMove ::
  "lib \<Rightarrow> complaint \<Rightarrow> string option \<Rightarrow> string option \<Rightarrow> ctx option \<Rightarrow>
   complaint_status \<Rightarrow> complaint_status \<Rightarrow> world \<Rightarrow> world option" where
  "tryMove L c msg who cx src tgt w =
     (case applyStatusChange L (c\<lparr>c_status := src\<rparr>) tgt msg who cx w of
        (Inl _, _) \<Rightarrow> None | (Inr _, w') \<Rightarrow> Some w')"

lemma lockedWrite_ids: "map c_id (lockedWrite c tgt w) = map c_id (complaints w)"
  by (simp add: lockedWrite_def map_updateWhere)

interpretation sl: optimistic_lock
  "\<lambda>w. distinct (map c_id (complaints w))"
  "\<lambda>w. map_option c_status (findComplaint (c_id c) w)" "\<lambda>_ _. True"
  "tryMove L c msg who cx" for L c msg who cx
proof
  fix w t :: world and src tgt
  let ?c = "c\<lparr>c_status := src\<rparr>"
  assume ok: "distinct (map c_id (complaints w))"
  show "tryMove L c msg who cx src tgt w = None"
    if "map_option c_status (findComplaint (c_id c) w) \<noteq> Some src"
  proof -
    have "\<not> lockedBy ?c r" if r: "r \<in> set (complaints w)" for r
    proof
      assume "lockedBy ?c r"
      then have "c_id r = c_id c" "c_status r = src" "c_deletedAt r = None"
        by (simp_all add: lockedBy_def)
      with findComplaint_unique [OF ok r] \<open>map_option c_status (findComplaint (c_id c) w) \<noteq> Some src\<close>
      show False by simp
    qed
    then have "countWhere (lockedBy ?c) (complaints w) = 0" by (simp add: countWhere_0)
    then show ?thesis by (simp add: tryMove_def applyStatusChange_lost)
  qed
  show "tryMove L c msg who cx src tgt w \<noteq> None"
    if "map_option c_status (findComplaint (c_id c) w) = Some src"
  proof -
    have "countWhere (lockedBy ?c) (complaints w) \<noteq> 0"
      using that by (auto simp: countWhere_0 lockedBy_def dest!: findComplaint_Some)
    then show ?thesis
      by (rule applyStatusChange_won [where L = L and tgt = tgt and msg = msg and who = who and cx = cx])
        (simp add: tryMove_def)
  qed
  show "map_option c_status (findComplaint (c_id c) t) = Some tgt \<and> distinct (map c_id (complaints t))"
    if run: "tryMove L c msg who cx src tgt w = Some t"
  proof -
    have some: "countWhere (lockedBy ?c) (complaints w) \<noteq> 0"
    proof
      assume "countWhere (lockedBy ?c) (complaints w) = 0"
      from run [unfolded tryMove_def applyStatusChange_lost [OF this]] show False by simp
    qed
    then obtain r where r: "r \<in> set (complaints w)" "lockedBy ?c r" by (auto simp: countWhere_0)
    have rows: "complaints t = lockedWrite ?c tgt w"
      by (rule applyStatusChange_won [OF some, where L = L and tgt = tgt and msg = msg and who = who and cx = cx])
        (use run in \<open>simp add: tryMove_def\<close>)
    let ?r = "(statusData tgt (clock w) r)\<lparr>c_updatedAt := clock w\<rparr>"
    have dist: "distinct (map c_id (complaints t))"
      by (simp add: rows lockedWrite_ids ok)
    have "?r \<in> set (complaints t)"
      using r unfolding rows lockedWrite_def in_updateWhere by (intro bexI [of _ r]) auto
    moreover have "c_id ?r = c_id c" "c_deletedAt ?r = None" "c_status ?r = tgt"
      using r by (simp_all add: lockedBy_def)
    ultimately show ?thesis using findComplaint_unique [OF dist, of ?r] dist by simp
  qed
qed



text \<open>C3: A status request either changes nothing at all and answers an error, or it was a legal
  move by an allowed role and the right person, with a note for a rejection and a proof for a
  resolution, and then it writes exactly the locked row, one history row, one audit row and one
  notification for the citizen.\<close>

theorem change_status_effect:
  "case changeStatus L i tgt msg a cx w of
     (Inl e, w') \<Rightarrow> w' = w \<and> \<not> (\<exists>c. moveAllowed i tgt msg a c w)
   | (Inr r, w') \<Rightarrow> \<exists>c n. moveAllowed i tgt msg a c w \<and>
       complaints w' = lockedWrite c tgt w \<and>
       histories w' = histories w @ [historyRow L (uuidPos w) (clock w) i (Some (c_status c)) tgt msg (Some (a_id a))] \<and>
       auditLogs w' = auditLogs w @ [auditRow L (Some (a_id a)) ''COMPLAINT_STATUS_CHANGED'' ''Complaint'' i
           (Some (JObj [(''status'', jstatus (c_status c))])) (Some (JObj [(''status'', jstatus tgt)]))
           (Some cx) (w\<lparr>uuidPos := Suc (uuidPos w)\<rparr>)] \<and>
       notifications w' = notifications w @ [n] \<and> n_userId n = c_citizenId c"
proof (cases "\<exists>c. moveAllowed i tgt msg a c w")
  case False
  then show ?thesis by (rule changeStatus_denied [of i tgt msg a w L cx]) (use False in simp)
next
  case True
  then obtain c where c: "moveAllowed i tgt msg a c w" by blast
  show ?thesis
    by (rule changeStatus_allowed [OF c, of L cx]) (use c in fastforce)
qed


lemma demo_cancelled:
  "\<exists>c. complaints (snd (cancel demoLib [] None citizenA demoCtx
          (snd (create demoLib demoInput citizenA demoCtx (city []))))) = [c]
     \<and> c_status c = CANCELLED \<and> c_id c = []"
proof -
  obtain c where c: "complaints (snd (create demoLib demoInput citizenA demoCtx (city []))) = [c]"
    "c_status c = SUBMITTED" "c_id c = []" "c_citizenId c = ''cit''" "c_deletedAt c = None"
    using demo_created by (simp add: create_run)
  let ?w = "snd (create demoLib demoInput citizenA demoCtx (city []))"
  have found: "findComplaint [] ?w = Some c" by (simp add: findComplaint_def live_defs c)
  have "moveAllowed [] CANCELLED None citizenA c ?w"
    by (simp add: moveAllowed_def found c findEdge_def)
  then obtain x w2 where "changeStatus demoLib [] CANCELLED None citizenA demoCtx ?w = (Inr x, w2)"
    "complaints w2 = lockedWrite c CANCELLED ?w"
    by (rule changeStatus_allowed)
  then show ?thesis by (simp add: cancel_def lockedWrite_def c lockedBy_def)
qed


end
