(* ===== verification/ComplaintRules.thy ===== *)
theory ComplaintRules
  imports ComplaintCounts ComplaintReads Fixtures
begin

text \<open>
  The remaining properties of the complaint module: reopening, assignment, the counting
  rules, tracking ids, the SLA job, and who may see what.
\<close>

section \<open>Reopening\<close>

definition reopenable :: "lib \<Rightarrow> complaint \<Rightarrow> world \<Rightarrow> bool" where
  "reopenable L c w \<longleftrightarrow>
     of_int (c_reopenCount c) < effSetting L ''REOPEN_LIMIT'' w \<and>
     (\<exists>t. c_resolvedAt c = Some t \<and>
          clock w \<le> js_trunc (of_int t + effSetting L ''REOPEN_WINDOW_DAYS'' w * 86400000))"

lemma reopenGuard_run:
  assumes "findComplaint i w = Some c" and "c_citizenId c = a_id a"
  obtains sc where "reopenable L c w \<Longrightarrow> reopenGuard L i a w = (Inr (), w\<lparr>settingCache := sc\<rparr>)"
    and "\<not> reopenable L c w \<Longrightarrow> \<exists>e. reopenGuard L i a w = (Inl e, w\<lparr>settingCache := sc\<rparr>)"
proof -
  obtain s1 where s1: "getSetting L ''REOPEN_LIMIT'' w = (Inr (effSetting L ''REOPEN_LIMIT'' w), w\<lparr>settingCache := s1\<rparr>)"
    "\<forall>j. effSetting L j (w\<lparr>settingCache := s1\<rparr>) = effSetting L j w"
    using run_getSetting_stable by blast
  obtain s2 where s2: "getSetting L ''REOPEN_WINDOW_DAYS'' (w\<lparr>settingCache := s1\<rparr>) =
      (Inr (effSetting L ''REOPEN_WINDOW_DAYS'' w), w\<lparr>settingCache := s1\<rparr>\<lparr>settingCache := s2\<rparr>)"
    using run_getSetting_stable [of L "''REOPEN_WINDOW_DAYS''" "w\<lparr>settingCache := s1\<rparr>"] s1(2) by auto
  show thesis
  proof (rule that [of s2])
    show "reopenGuard L i a w = (Inr (), w\<lparr>settingCache := s2\<rparr>)" if "reopenable L c w"
      using that assms s1 s2
      by (auto simp: reopenable_def reopenGuard_def assertOwner_def eval not_le not_less)
    show "\<exists>e. reopenGuard L i a w = (Inl e, w\<lparr>settingCache := s2\<rparr>)" if "\<not> reopenable L c w"
      using that assms s1 s2
      by (auto simp: reopenable_def reopenGuard_def assertOwner_def eval not_le not_less split: option.splits)
  qed
qed

lemma reopenGuard_InrD:
  assumes "reopenGuard L i a w = (Inr x, w')"
  obtains c sc where "findComplaint i w = Some c" and "c_citizenId c = a_id a"
    and "reopenable L c w" and "w' = w\<lparr>settingCache := sc\<rparr>"
proof -
  obtain c where c: "findComplaint i w = Some c" "c_citizenId c = a_id a"
    using assms by (auto simp: reopenGuard_def assertOwner_def eval split: option.splits if_splits)
  show thesis
  proof (cases "reopenable L c w")
    case True
    show thesis
      by (rule reopenGuard_run [OF c, of L]) (use assms True that c in auto)
  next
    case False
    show thesis
      by (rule reopenGuard_run [OF c, of L]) (use assms False in auto)
  qed
qed

lemma findComplaint_cache [simp]: "findComplaint i (w\<lparr>settingCache := sc\<rparr>) = findComplaint i w"
  by (simp add: findComplaint_def live_defs)

text \<open>A successful reopen came from the citizen who owns the complaint, on a RESOLVED complaint
  that has been reopened fewer times than the limit and was resolved no longer ago than the
  window, and it raises the reopen counter of that row by one and forgets the resolution time.\<close>

theorem reopen_within_limits:
  assumes "reopen L i msg a cx w = (Inr r, w')"
  shows "\<exists>c t. findComplaint i w = Some c \<and> c_citizenId c = a_id a \<and> a_role a = CITIZEN \<and>
     c_status c = RESOLVED \<and> of_int (c_reopenCount c) < effSetting L ''REOPEN_LIMIT'' w \<and>
     c_resolvedAt c = Some t \<and>
     clock w \<le> js_trunc (of_int t + effSetting L ''REOPEN_WINDOW_DAYS'' w * 86400000)"
proof -
  obtain w1 where g: "reopenGuard L i a w = (Inr (), w1)" and ch: "changeStatus L i REOPENED msg a cx w1 = (Inr r, w')"
    using assms unfolding reopen_def by (auto elim: thenM_InrE)
  obtain c sc where c: "findComplaint i w = Some c" "c_citizenId c = a_id a" "reopenable L c w"
    "w1 = w\<lparr>settingCache := sc\<rparr>"
    by (rule reopenGuard_InrD [OF g])
  obtain d where "changeStatusGuard i REOPENED msg a w1 = (Inr d, w1)"
    using ch unfolding changeStatus_def
    by (elim bindM_InrE) (metis changeStatusGuard_iff)
  then have d: "moveAllowed i REOPENED msg a d w1" by (simp add: changeStatusGuard_iff)
  then have "d = c" using c by (simp add: moveAllowed_def)
  with d have "findEdge (c_status c) REOPENED = Some (REOPENED, [CITIZEN]) \<and> c_status c = RESOLVED \<and> a_role a = CITIZEN"
    by (cases "c_status c") (auto simp: moveAllowed_def findEdge_def)
  with c show ?thesis by (auto simp: reopenable_def)
qed

definition demoResolved :: complaint where
  "demoResolved = (demoComplaint ''c1'' RESOLVED)\<lparr>c_resolvedAt := Some 0\<rparr>"

lemma demoResolved_simps [simp]:
  "c_id demoResolved = ''c1''" "c_status demoResolved = RESOLVED" "c_citizenId demoResolved = ''cit''"
  "c_deletedAt demoResolved = None" "c_reopenCount demoResolved = 0" "c_resolvedAt demoResolved = Some 0"
  "c_trackingId demoResolved = ''c1''"
  by (simp_all add: demoResolved_def)

lemma demo_reopened:
  "\<exists>r w'. reopen demoLib ''c1'' None citizenA demoCtx (city [demoResolved]) = (Inr r, w')"
proof -
  let ?w = "city [demoResolved]"
  have "reopenable demoLib demoResolved ?w"
    by (simp add: reopenable_def effSetting_def settingValue_def SETTING_DEFAULTS_def js_trunc_def)
  then obtain sc where g: "reopenGuard demoLib ''c1'' citizenA ?w = (Inr (), ?w\<lparr>settingCache := sc\<rparr>)"
    using reopenGuard_run [of "''c1''" ?w demoResolved citizenA demoLib] by force
  have "moveAllowed ''c1'' REOPENED None citizenA demoResolved (?w\<lparr>settingCache := sc\<rparr>)"
    by (simp add: moveAllowed_def findEdge_def)
  then obtain x w2 where "changeStatus demoLib ''c1'' REOPENED None citizenA demoCtx
      (?w\<lparr>settingCache := sc\<rparr>) = (Inr x, w2)"
    by (rule changeStatus_allowed)
  with g show ?thesis by (simp add: reopen_def eval)
qed

theorem reopen_within_limits_witness:
  "\<exists>c t. findComplaint ''c1'' (city [demoResolved]) = Some c \<and> c_status c = RESOLVED \<and> c_resolvedAt c = Some t"
proof -
  obtain r w' where "reopen demoLib ''c1'' None citizenA demoCtx (city [demoResolved]) = (Inr r, w')"
    using demo_reopened by blast
  from reopen_within_limits [OF this] show ?thesis by blast
qed

text \<open>The limits of reopen are not limits of reopening: the owner of a RESOLVED complaint moves
  it to REOPENED through the status request however often it was reopened and however long ago it
  was resolved, in the very states in which reopen refuses.\<close>

theorem status_request_bypasses_reopen_limits:
  assumes "findComplaint i w = Some c" and "c_status c = RESOLVED"
    and "c_citizenId c = a_id a" and "a_role a = CITIZEN"
  shows "(\<exists>r w'. changeStatus L i REOPENED msg a cx w = (Inr r, w') \<and> complaints w' = lockedWrite c REOPENED w) \<and>
     (\<not> reopenable L c w \<longrightarrow> (\<exists>e w'. reopen L i msg a cx w = (Inl e, w') \<and> complaints w' = complaints w))"
proof
  have "moveAllowed i REOPENED msg a c w"
    using assms by (simp add: moveAllowed_def findEdge_def)
  then show "\<exists>r w'. changeStatus L i REOPENED msg a cx w = (Inr r, w') \<and> complaints w' = lockedWrite c REOPENED w"
    by (rule changeStatus_allowed [of i REOPENED msg a c w L cx]) blast
  show "\<not> reopenable L c w \<longrightarrow> (\<exists>e w'. reopen L i msg a cx w = (Inl e, w') \<and> complaints w' = complaints w)"
  proof
    assume "\<not> reopenable L c w"
    then obtain e sc where "reopenGuard L i a w = (Inl e, w\<lparr>settingCache := sc\<rparr>)"
      using reopenGuard_run [OF assms(1,3), of L] by blast
    then show "\<exists>e w'. reopen L i msg a cx w = (Inl e, w') \<and> complaints w' = complaints w"
      by (simp add: reopen_def eval)
  qed
qed

definition demoExhausted :: complaint where
  "demoExhausted = (demoComplaint ''c1'' RESOLVED)\<lparr>c_resolvedAt := Some 0, c_reopenCount := 9\<rparr>"

theorem status_request_bypasses_reopen_limits_witness:
  "(\<exists>r w'. changeStatus demoLib ''c1'' REOPENED None citizenA demoCtx (city [demoExhausted]) = (Inr r, w')
      \<and> map c_reopenCount (complaints w') = [10]) \<and>
   (\<exists>e w'. reopen demoLib ''c1'' None citizenA demoCtx (city [demoExhausted]) = (Inl e, w'))"
proof -
  let ?w = "city [demoExhausted]"
  have c: "findComplaint ''c1'' ?w = Some demoExhausted" "c_status demoExhausted = RESOLVED"
    "c_citizenId demoExhausted = a_id citizenA" "a_role citizenA = CITIZEN"
    by (simp_all add: demoExhausted_def)
  have no: "\<not> reopenable demoLib demoExhausted ?w"
    by (simp add: reopenable_def effSetting_def settingValue_def SETTING_DEFAULTS_def demoExhausted_def)
  have "map c_reopenCount (lockedWrite demoExhausted REOPENED ?w) = [10]"
    by (simp add: lockedWrite_def lockedBy_def statusData_def Let_def demoExhausted_def)
  then show ?thesis
    using status_request_bypasses_reopen_limits [OF c, of demoLib None demoCtx] no by metis
qed

section \<open>Assignment\<close>

text \<open>C34: A successful assignment hands the complaint to an active officer of the category's
  department: that officer is written to the row, is the only one with an open assignment to it, and
  a complaint under review or reopened becomes ASSIGNED while any other keeps its status.\<close>

theorem assignment_is_sound:
  assumes "assign L i input a cx w = (Inr r, w')"
  shows "\<exists>c u. findComplaint i w = Some c \<and> u \<in> set (liveUsers w) \<and> u_role u = OFFICER \<and>
     u_status u = ACTIVE \<and>
     (\<exists>k \<in> set (categories w). cat_id k = c_categoryId c \<and> u_departmentId u = Some (cat_departmentId k)) \<and>
     map as_officerId (filter (\<lambda>r. as_complaintId r = i \<and> as_unassignedAt r = None) (assignments w')) = [u_id u] \<and>
     (\<forall>d \<in> set (complaints w'). c_id d = i \<longrightarrow>
        c_officerId d = Some (u_id u) \<and> c_status d = assignedStatus (c_status c))"
proof -
  obtain c u w1 where g: "assignGuard i input w = (Inr (c, u), w1)"
    and commit: "assignCommit L i input a cx (c, u) w1 = (Inr r, w')"
    using assms unfolding assign_def by (elim bindM_InrE) (metis prod.collapse)
  note gd = assignGuard_InrD [OF g]
  have none: "filter (\<lambda>r. as_complaintId r = i \<and> as_unassignedAt r = None)
      (updateWhere (\<lambda>r. as_complaintId r = i \<and> as_unassignedAt r = None)
         (as_unassignedAt_update (\<lambda>_. Some now)) rows) = []" for now rows
    by (induction rows) auto
  obtain w2 x where run: "assignCommit L i input a cx (c, u) w = (Inr x, w2)"
    and rows: "complaints w2 = updateWhere (\<lambda>r. c_id r = i)
           (\<lambda>r. (r\<lparr>c_officerId := Some (u_id u), c_status := assignedStatus (c_status c)\<rparr>)
                   \<lparr>c_updatedAt := clock w\<rparr>) (complaints w)"
    and ass: "assignments w2 =
           updateWhere (\<lambda>r. as_complaintId r = i \<and> as_unassignedAt r = None)
             (\<lambda>r. r\<lparr>as_unassignedAt := Some (clock w)\<rparr>) (assignments w)
           @ [newAssignment L w i input a u]"
    by (rule assignCommit_run [OF find_by_id [OF gd(2)]]) (rule that)
  have w2: "w2 = w'" using run commit gd(1) by simp
  have "map as_officerId (filter (\<lambda>r. as_complaintId r = i \<and> as_unassignedAt r = None) (assignments w')) = [u_id u]"
    unfolding w2 [symmetric] ass by (simp add: none newAssignment_def)
  moreover have "\<forall>d \<in> set (complaints w'). c_id d = i \<longrightarrow>
        c_officerId d = Some (u_id u) \<and> c_status d = assignedStatus (c_status c)"
  proof (intro ballI impI)
    fix d
    assume d: "d \<in> set (complaints w')" "c_id d = i"
    show "c_officerId d = Some (u_id u) \<and> c_status d = assignedStatus (c_status c)"
      using updateWhere_keyed [OF d(1) [folded w2, unfolded rows] d(2)] by auto
  qed
  ultimately show ?thesis
    using gd(2-6) by (intro exI [of _ c] exI [of _ u] conjI)
qed

definition demoAssign :: assignInput where
  "demoAssign = \<lparr>asg_officerId = Some ''off'', asg_auto = False, asg_reason = None\<rparr>"

lemma demo_assignGuard:
  "assignGuard ''c1'' demoAssign (city (demoComplaint ''c1'' s # cs)) =
     (Inr (demoComplaint ''c1'' s, demoUser ''off'' OFFICER (Some ''dep'')), city (demoComplaint ''c1'' s # cs))"
  by (simp add: assignGuard_def demoAssign_def eval live_defs)

theorem assignment_is_sound_witness:
  "\<exists>r w'. assign demoLib ''c1'' demoAssign adminA demoCtx (city [demoComplaint ''c1'' UNDER_REVIEW]) = (Inr r, w') \<and>
     map as_officerId (filter (\<lambda>r. as_complaintId r = ''c1'' \<and> as_unassignedAt r = None) (assignments w')) = [''off'']"
proof -
  let ?w = "city [demoComplaint ''c1'' UNDER_REVIEW]"
  obtain w' x where run: "assignCommit demoLib ''c1'' demoAssign adminA demoCtx
      (demoComplaint ''c1'' UNDER_REVIEW, demoUser ''off'' OFFICER (Some ''dep'')) ?w = (Inr x, w')"
    by (rule assignCommit_run [of "''c1''" ?w]) simp_all
  then have ok: "assign demoLib ''c1'' demoAssign adminA demoCtx ?w = (Inr x, w')"
    by (simp add: assign_def eval demo_assignGuard)
  from assignment_is_sound [OF ok] ok show ?thesis by (auto simp: live_defs)
qed

text \<open>The write half of an assignment never looks at the row again. If it decided while the
  complaint was in a status it keeps, and somebody else has moved the complaint in the meantime, the
  assignment still commits: it puts the old status back and leaves no history row of doing so.\<close>

theorem stale_assignment_overwrites_status:
  assumes "findComplaint i w = Some d" and "c_status d \<noteq> c_status c"
    and "assignedStatus (c_status c) = c_status c"
  shows "\<exists>r w'. assignCommit L i input a cx (c, u) w = (Inr r, w') \<and> histories w' = histories w \<and>
     (\<forall>e \<in> set (complaints w'). c_id e = i \<longrightarrow> c_status e = c_status c)"
proof -
  obtain w' x where run: "assignCommit L i input a cx (c, u) w = (Inr x, w')"
    and rows: "complaints w' = updateWhere (\<lambda>r. c_id r = i)
           (\<lambda>r. (r\<lparr>c_officerId := Some (u_id u), c_status := assignedStatus (c_status c)\<rparr>)
                   \<lparr>c_updatedAt := clock w\<rparr>) (complaints w)"
    and hist: "histories w' = (if assignedStatus (c_status c) = c_status c then histories w
           else histories w @ [historyRow L (Suc (uuidPos w)) (clock w) i (Some (c_status c))
                  (assignedStatus (c_status c)) (asg_reason input) (Some (a_id a))])"
    by (rule assignCommit_run [OF find_by_id [OF assms(1)]]) (rule that)
  have "\<forall>e \<in> set (complaints w'). c_id e = i \<longrightarrow> c_status e = c_status c"
  proof (intro ballI impI)
    fix e
    assume e: "e \<in> set (complaints w')" "c_id e = i"
    show "c_status e = c_status c"
      using updateWhere_keyed [OF e(1) [unfolded rows] e(2)] assms(3) by auto
  qed
  with run hist assms(3) show ?thesis by auto
qed

text \<open>An admin decides on a complaint IN_PROGRESS, the officer resolves it, the admin commits.\<close>

theorem stale_assignment_overwrites_status_witness:
  "assignGuard ''c1'' demoAssign (city [demoComplaint ''c1'' IN_PROGRESS]) =
     (Inr (demoComplaint ''c1'' IN_PROGRESS, demoUser ''off'' OFFICER (Some ''dep'')),
      city [demoComplaint ''c1'' IN_PROGRESS]) \<and>
   (\<exists>r w'. assignCommit demoLib ''c1'' demoAssign adminA demoCtx
        (demoComplaint ''c1'' IN_PROGRESS, demoUser ''off'' OFFICER (Some ''dep''))
        (city [demoComplaint ''c1'' RESOLVED]) = (Inr r, w') \<and>
      histories w' = [] \<and> (\<forall>e \<in> set (complaints w'). c_id e = ''c1'' \<longrightarrow> c_status e = IN_PROGRESS))"
  using stale_assignment_overwrites_status
    [of "''c1''" "city [demoComplaint ''c1'' RESOLVED]" "demoComplaint ''c1'' RESOLVED"
        "demoComplaint ''c1'' IN_PROGRESS" demoLib demoAssign adminA demoCtx
        "demoUser ''off'' OFFICER (Some ''dep'')"]
    demo_assignGuard [of IN_PROGRESS "[]"]
  by (simp add: assignedStatus_def)

lemma leastLoaded_spec:
  "leastLoaded load b us \<in> set (b # us) \<and> (\<forall>v \<in> set (b # us). load (leastLoaded load b us) \<le> load v)"
  by (induction load b us rule: leastLoaded.induct) (auto split: if_splits)

text \<open>Automatic assignment picks an active officer of the department with the fewest open
  complaints, and refuses exactly when there is no such officer.\<close>

theorem auto_assignment_picks_least_loaded:
  "case pickLeastLoadedOfficer d w of
     (Inl _, w') \<Rightarrow> w' = w \<and> activeOfficers d w = []
   | (Inr oid, w') \<Rightarrow> w' = w \<and> (\<exists>u \<in> set (activeOfficers d w). u_id u = oid \<and>
       (\<forall>v \<in> set (activeOfficers d w). officerLoad w u \<le> officerLoad w v))"
proof (cases "activeOfficers d w")
  case Nil
  then show ?thesis by (simp add: pickLeastLoadedOfficer_def)
next
  case (Cons u us)
  then show ?thesis
    using leastLoaded_spec [of "officerLoad w" u us] unfolding pickLeastLoadedOfficer_def by auto
qed

theorem auto_assignment_picks_least_loaded_witness:
  "pickLeastLoadedOfficer ''dep'' (city [demoComplaint ''c1'' ASSIGNED]) = (Inr ''off'', city [demoComplaint ''c1'' ASSIGNED]) \<and>
   (\<exists>u \<in> set (activeOfficers ''dep'' (city [demoComplaint ''c1'' ASSIGNED])). u_id u = ''off'' \<and>
      (\<forall>v \<in> set (activeOfficers ''dep'' (city [demoComplaint ''c1'' ASSIGNED])).
         officerLoad (city [demoComplaint ''c1'' ASSIGNED]) u \<le> officerLoad (city [demoComplaint ''c1'' ASSIGNED]) v))"
proof -
  let ?w = "city [demoComplaint ''c1'' ASSIGNED]"
  have "pickLeastLoadedOfficer ''dep'' ?w = (Inr ''off'', ?w)"
    by (simp add: pickLeastLoadedOfficer_def activeOfficers_def live_defs)
  with auto_assignment_picks_least_loaded [where d = "''dep''" and w = ?w] show ?thesis by auto
qed

text \<open>The load the automatic assignment compares is not the officer's open complaints: it also
  counts the open complaints that were deleted, because grouping does not pass the soft-delete
  filter.\<close>

theorem load_counts_deleted_complaints:
  "officerLoad w u =
     countWhere (\<lambda>c. c_officerId c = Some (u_id u) \<and> isOpen (c_status c)) (liveComplaints w) +
     countWhere (\<lambda>c. c_officerId c = Some (u_id u) \<and> isOpen (c_status c) \<and> c_deletedAt c \<noteq> None)
       (complaints w)"
proof -
  have "countWhere P rows = countWhere P (filter (\<lambda>c. c_deletedAt c = None) rows) +
      countWhere (\<lambda>c. P c \<and> c_deletedAt c \<noteq> None) rows" for P and rows :: "complaint list"
    by (induction rows) auto
  from this [of "\<lambda>c. c_officerId c = Some (u_id u) \<and> isOpen (c_status c)" "complaints w"] show ?thesis
    by (simp add: officerLoad_def live_defs conj_assoc)
qed

section \<open>Counting rules\<close>

lemma kids_inv_start:
  assumes "complaints w = []" and "attachments w = []" and "assignments w = []"
    and "upvotes w = []" and "feedbacks w = []"
  shows "kids_inv L w"
  using assms by (simp add: kids_inv_def kidsGood_def kidsView_def)



text \<open>C32: In every reachable state the upvote counter of a complaint is the number of its upvotes,
  and no citizen has upvoted it twice.\<close>

theorem upvote_counter_is_exact:
  assumes "inj (uuidTape L)" and "complaints w0 = []" and "attachments w0 = []"
    and "assignments w0 = []" and "upvotes w0 = []" and "feedbacks w0 = []"
    and "complaint_run L w0 w" and "c \<in> set (complaints w)"
  shows "c_upvoteCount c = int (countWhere (\<lambda>v. uv_complaintId v = c_id c) (upvotes w)) \<and>
     countWhere (\<lambda>v. uv_complaintId v = c_id c \<and> uv_userId v = u) (upvotes w) \<le> 1"
  using run_kids_inv [OF assms(1,7) kids_inv_start [OF assms(2-6)]] assms(8)
  by (simp add: kids_inv_def kidsGood_def kidsView_def)

theorem upvote_counter_is_exact_witness:
  "\<exists>w c. complaint_run demoLib (city []) w \<and> c \<in> set (complaints w) \<and> c_upvoteCount c = 0 \<and>
     c_upvoteCount c = int (countWhere (\<lambda>v. uv_complaintId v = c_id c) (upvotes w))"
proof -
  let ?w = "snd (create demoLib demoInput citizenA demoCtx (city []))"
  obtain c where c: "c \<in> set (complaints ?w)" "c_upvoteCount c = 0"
    using demo_created by auto
  have "c_upvoteCount c = int (countWhere (\<lambda>v. uv_complaintId v = c_id c) (upvotes ?w))"
    using upvote_counter_is_exact [OF demoLib_inj _ _ _ _ _ demo_run c(1)] by simp
  with c demo_run show ?thesis by blast
qed

text \<open>C33: A create is never refused because of its tracking id: starting from an empty table at any
  time after 1970, the next id of the year's counter is in no row, deleted rows and rows of other
  years included.\<close>

theorem tracking_ids_never_clash:
  assumes "complaints w0 = []" and "0 \<le> clock w0" and "complaint_run L w0 w"
  shows "fst (createTx L input a cx k sh w) \<noteq> Inl (PrismaKnown code cols) \<and>
     trackingIdOf (utc_year (clock w)) (Suc (counterValue (utc_year (clock w)) w))
       \<notin> c_trackingId ` set (complaints w)"
proof -
  have "ids_inv w0" using assms by (simp add: ids_inv_def)
  then have fresh: "trackingIdOf (utc_year (clock w)) (Suc (counterValue (utc_year (clock w)) w))
       \<notin> c_trackingId ` set (complaints w)"
    by (intro next_id_fresh run_ids_inv [OF assms(3)])
  moreover have "fst (createTx L input a cx k sh w) \<noteq> Inl (PrismaKnown code cols)"
    by (cases rule: createTx_cases [of L input a cx k sh w]) (use fresh in auto)
  ultimately show ?thesis by blast
qed

theorem tracking_ids_never_clash_witness:
  "fst (createTx demoLib demoInput citizenA demoCtx demoCategory 72
      (snd (create demoLib demoInput citizenA demoCtx (city [])))) \<noteq> Inl (PrismaKnown ''P2002'' [''trackingId''])"
  using tracking_ids_never_clash [of "city []" demoLib "snd (create demoLib demoInput citizenA demoCtx (city []))"
      demoInput citizenA demoCtx demoCategory 72 "''P2002''" "[''trackingId'']"]
    demo_run
  by simp

end
