(* ===== verification/ComplaintAccess.thy ===== *)
theory ComplaintAccess
  imports ComplaintCounts ComplaintReads Fixtures
begin

text \<open>
  The properties of the reads of the complaint module, of its pagination and of the SLA job.
\<close>

section \<open>Who may read\<close>

definition mayRead :: "world \<Rightarrow> complaint \<Rightarrow> actor \<Rightarrow> bool" where
  "mayRead w c a \<longleftrightarrow>
     a_role a = ADMIN \<or>
     a_role a = CITIZEN \<and> c_citizenId c = a_id a \<or>
     a_role a = OFFICER \<and>
       (c_officerId c = Some (a_id a) \<or>
        (\<exists>k. find (\<lambda>k. cat_id k = c_categoryId c) (liveCategories w) = Some k \<and>
             a_departmentId a = Some (cat_departmentId k)))"

lemma run_assertCanRead [eval]:
  "assertCanRead c a w = (if mayRead w c a then (Inr (), w) else (Inl notReader, w))"
  by (cases "a_role a")
    (auto simp: assertCanRead_def mayRead_def eval split: option.splits if_splits)

text \<open>C35: The detail view is answered exactly to an admin, the citizen who owns the complaint, the
  officer it is assigned to and the officers of its category's department; everybody else gets 403
  and a deleted or unknown complaint 404. A citizen's view contains no internal note, and an officer
  the complaint is not assigned to does not see the citizen's phone number.\<close>

theorem detail_view_access:
  "case getById i a w of
     (Inl e, w') \<Rightarrow> w' = w \<and>
       (case findComplaint i w of
          None \<Rightarrow> e = apiError 404 ''Complaint not found'' [detC ''NOT_FOUND'']
        | Some c \<Rightarrow> \<not> mayRead w c a \<and> e = notReader)
   | (Inr v, w') \<Rightarrow> w' = w \<and> findComplaint i w = Some (dv_complaint v) \<and>
       mayRead w (dv_complaint v) a \<and>
       (\<forall>m \<in> set (dv_comments v). cm_complaintId m = i \<and> cm_deletedAt m = None \<and>
          (a_role a = CITIZEN \<longrightarrow> \<not> cm_isInternal m)) \<and>
       (a_role a = OFFICER \<and> c_officerId (dv_complaint v) \<noteq> Some (a_id a) \<longrightarrow>
          (\<forall>z. dv_citizen v = Some z \<longrightarrow> cz_phone z = None))"
  by (cases "findComplaint i w")
    (auto simp: getById_def eval visibleComments_def live_defs)

theorem detail_view_access_witness:
  "fst (getById ''c1'' citizenA (city [demoComplaint ''c1'' SUBMITTED])) \<noteq> Inl notReader"
  using detail_view_access [where i = "''c1''" and a = citizenA and w = "city [demoComplaint ''c1'' SUBMITTED]"]
  by (auto simp: mayRead_def split: prod.splits sum.splits)

definition redact :: "complaint \<Rightarrow> complaint" where
  "redact c = c\<lparr>c_citizenId := [], c_officerId := None, c_address := [], c_latitude := None,
     c_longitude := None, c_title := [], c_description := []\<rparr>"

text \<open>Public tracking answers the status and the timeline of a live complaint, the category and
  the ward by name; two complaints that differ only in the citizen, the officer, the address, the
  coordinates or the wording give the same answer, so none of these can be read from it.\<close>

theorem tracking_reveals_no_person:
  "fst (track t (w\<lparr>complaints := map redact (complaints w), users := []\<rparr>)) = fst (track t w)"
proof -
  have "find (\<lambda>c. c_trackingId c = t) (applySoftDelete c_deletedAt (map redact cs)) =
      map_option redact (find (\<lambda>c. c_trackingId c = t) (applySoftDelete c_deletedAt cs))" for cs
    by (induction cs) (auto simp: applySoftDelete_def redact_def)
  then show ?thesis
    by (auto simp: track_def eval liveComplaints_def historyOf_def redact_def split: option.split)
qed

lemma paginatedList_rows:
  assumes "paginatedList matches query w = (Inr (items, m), w')"
  shows "\<forall>it \<in> set items. \<exists>c \<in> set (liveComplaints w). matches w c \<and> it = LIST_SELECT w c"
proof -
  obtain ob where "buildOrderBy SortComplaint (lq_sortBy query) (lq_sortOrder query) = Inr ob"
    using assms by (auto simp: paginatedList_def Let_def eval split: sum.splits)
  with assms have "items = map (LIST_SELECT w)
      (pageRows (getPagination (lq_page query) (lq_limit query))
        (orderRows (complaintKey (fst ob)) (snd ob) (filter (matches w) (liveComplaints w))))"
    by (auto simp: paginatedList_def Let_def eval)
  moreover have "set (pageRows p (orderRows k b rows)) \<subseteq> set rows" for p k b and rows :: "complaint list"
    unfolding pageRows_def using set_page_of by fastforce
  ultimately show ?thesis by fastforce
qed

text \<open>C36: A citizen's search and every "my complaints" list contain only live complaints of that
  citizen, whatever the filters, the sort and the page.\<close>

theorem citizens_list_only_their_own:
  assumes "a_role a = CITIZEN"
    and "search L q query a w = (Inr (items, m), w') \<or> listMine L query a w = (Inr (items, m), w')"
  shows "\<forall>it \<in> set items. \<exists>c \<in> set (liveComplaints w). c_citizenId c = a_id a \<and> it = LIST_SELECT w c"
  using assms(2)
proof
  assume "search L q query a w = (Inr (items, m), w')"
  from paginatedList_rows [OF this [unfolded search_def]] assms(1) show ?thesis
    by (auto simp: searchScope_def)
next
  assume mine: "listMine L query a w = (Inr (items, m), w')"
  obtain f where "paginatedList (\<lambda>_ c. f c \<and> c_citizenId c = a_id a) query w = (Inr (items, m), w')"
    using mine unfolding listMine_def
    by (elim bindM_InrE) (auto simp: eval split: sum.splits)
  from paginatedList_rows [OF this] show ?thesis by auto
qed

definition anyQuery :: listQuery where
  "anyQuery = \<lparr>lq_page = None, lq_limit = None, lq_status = None, lq_priority = None,
     lq_wardId = None, lq_categoryId = None, lq_officerId = None, lq_isEscalated = None,
     lq_from = None, lq_to = None, lq_sortBy = None, lq_sortOrder = None, lq_q = None\<rparr>"

theorem citizens_list_only_their_own_witness:
  "\<exists>items m. listMine demoLib anyQuery citizenA (city [demoComplaint ''c1'' SUBMITTED]) =
       (Inr (items, m), city [demoComplaint ''c1'' SUBMITTED]) \<and>
     (\<forall>it \<in> set items. \<exists>c \<in> set (liveComplaints (city [demoComplaint ''c1'' SUBMITTED])).
        c_citizenId c = ''cit'' \<and> it = LIST_SELECT (city [demoComplaint ''c1'' SUBMITTED]) c)"
proof -
  let ?w = "city [demoComplaint ''c1'' SUBMITTED]"
  have "\<exists>items m. listMine demoLib anyQuery citizenA ?w = (Inr (items, m), ?w)"
    by (simp add: listMine_def buildListWhere_def anyQuery_def statusFilter_def csvList_def
        dateRange_def dateBound_def paginatedList_def buildOrderBy_def Let_def eval)
  then obtain items m where run: "listMine demoLib anyQuery citizenA ?w = (Inr (items, m), ?w)" by blast
  from citizens_list_only_their_own [of citizenA demoLib "[]" anyQuery ?w items m ?w] run
  show ?thesis by auto
qed

section \<open>Pagination\<close>

text \<open>The pages a client walks through, from page 1 to the total the answer announces, laid end
  to end are the rows of the query in their order, each exactly once, whatever limit was asked for.\<close>

theorem pages_partition_the_rows:
  "concat (map (\<lambda>k. pageRows (getPagination (Some (int k)) limitQ) rows)
      [1..<nat (mt_totalPages (buildMeta (getPagination pageQ limitQ) (length rows))) + 1]) = rows"
proof -
  define n where "n = nat (pg_limit (getPagination pageQ limitQ))"
  define m where "m = nat (mt_totalPages (buildMeta (getPagination pageQ limitQ) (length rows)))"
  have n: "0 < n" "int n = pg_limit (getPagination q limitQ)" for q
    using getPagination_bounds(2) [of pageQ limitQ] getPagination_limit [of pageQ limitQ q]
    by (simp_all add: n_def)
  have page: "pageRows (getPagination (Some (int (Suc j))) limitQ) rows = page_of (j * n) n rows" for j
    using n(2) [of "Some (int (Suc j))"] getPagination_page [of "int (Suc j)" limitQ]
    by (simp add: pageRows_def getPagination_bounds(4,5) nat_mult_distrib flip: n(2))
  have "real (length rows) \<le> real m * real n"
  proof -
    have "real (length rows) / real n \<le> of_int \<lceil>real (length rows) / real n\<rceil>" by simp
    also have "\<dots> \<le> real m"
      by (simp add: m_def buildMeta_def flip: n(2) [of pageQ])
    finally show ?thesis using n(1) by (simp add: field_simps)
  qed
  then have "length rows \<le> m * n" by (simp flip: of_nat_mult of_nat_le_iff)
  moreover have "concat (map (\<lambda>k. pageRows (getPagination (Some (int k)) limitQ) rows) [1..<m + 1]) =
      concat (map (\<lambda>j. page_of (j * n) n rows) [0..<m])"
  proof -
    have "[1..<m + 1] = map Suc [0..<m]" by (simp add: map_Suc_upt)
    then show ?thesis by (simp add: comp_def page del: of_nat_Suc upt_Suc)
  qed
  ultimately show ?thesis
    by (simp add: m_def [symmetric] concat_pages del: upt_Suc)
qed

section \<open>Nearby\<close>

text \<open>The public nearby search answers open, live complaints within the radius by the haversine
  distance, nearest first by the rounded distance, and never more than the limit.\<close>

theorem nearby_is_sound:
  "case nearby query w of
     (Inl _, _) \<Rightarrow> False
   | (Inr hits, w') \<Rightarrow> w' = w \<and> sorted (map snd hits) \<and>
       length hits \<le> (case nq_limit query of None \<Rightarrow> 50 | Some n \<Rightarrow> n) \<and>
       (\<forall>(it, m) \<in> set hits. \<exists>c \<in> set (liveComplaints w). \<exists>y x. it = LIST_SELECT w c \<and>
          isOpen (c_status c) \<and> c_latitude c = Some y \<and> c_longitude c = Some x \<and>
          distanceMeters (nq_lat query) (nq_lng query) y x \<le> nq_radiusKm query * 1000 \<and>
          m = js_round (distanceMeters (nq_lat query) (nq_lng query) y x))"
proof -
  let ?s = "take (case nq_limit query of None \<Rightarrow> 50 | Some n \<Rightarrow> n)
         (sort_key snd (nearbyHits query (nearbyCandidates query w)))"
  have run: "nearby query w = (Inr (map (\<lambda>(c, m). (LIST_SELECT w c, m)) ?s), w)"
    by (simp add: nearby_def eval)
  have snds: "map snd (map (\<lambda>(c, m). (LIST_SELECT w c, m)) xs) = map snd xs" for xs :: "(complaint \<times> int) list"
    by (induction xs) auto
  have "sorted (map snd ?s)"
    by (simp add: take_map [symmetric] sorted_wrt_take)
  then have sorted: "sorted (map snd (map (\<lambda>(c, m). (LIST_SELECT w c, m)) ?s))"
    by (simp only: snds)
  have hit: "\<exists>y x. isOpen (c_status c) \<and> c \<in> set (liveComplaints w) \<and> c_latitude c = Some y \<and>
      c_longitude c = Some x \<and>
      distanceMeters (nq_lat query) (nq_lng query) y x \<le> nq_radiusKm query * 1000 \<and>
      m = js_round (distanceMeters (nq_lat query) (nq_lng query) y x)"
    if "(c, m) \<in> set ?s" for c m
  proof -
    have "(c, m) \<in> set (nearbyHits query (nearbyCandidates query w))"
      using that by (auto dest!: in_set_takeD)
    then show ?thesis
      by (cases "c_latitude c"; cases "c_longitude c")
        (auto simp: nearbyHits_def nearbyCandidates_def Let_def dest!: in_set_takeD
          split: option.splits if_splits)
  qed
  have "\<exists>c \<in> set (liveComplaints w). \<exists>y x. it = LIST_SELECT w c \<and>
          isOpen (c_status c) \<and> c_latitude c = Some y \<and> c_longitude c = Some x \<and>
          distanceMeters (nq_lat query) (nq_lng query) y x \<le> nq_radiusKm query * 1000 \<and>
          m = js_round (distanceMeters (nq_lat query) (nq_lng query) y x)"
    if mem: "(it, m) \<in> set (map (\<lambda>(c, m). (LIST_SELECT w c, m)) ?s)" for it m
  proof -
    obtain c where "(c, m) \<in> set ?s" "it = LIST_SELECT w c" using mem by (auto simp only: set_map)
    with hit [of c m] show ?thesis by blast
  qed
  moreover have "length (map (\<lambda>(c, m). (LIST_SELECT w c, m)) ?s) \<le>
      (case nq_limit query of None \<Rightarrow> 50 | Some n \<Rightarrow> n)"
    by simp
  ultimately show ?thesis
    unfolding run prod.case sum.case using sorted by blast
qed

definition demoNearby :: nearbyQuery where
  "demoNearby = \<lparr>nq_lat = 0, nq_lng = 0, nq_radiusKm = 2, nq_limit = None\<rparr>"

definition demoHere :: complaint where
  "demoHere = (demoComplaint ''c1'' SUBMITTED)\<lparr>c_latitude := Some 0, c_longitude := Some 0\<rparr>"

theorem nearby_is_sound_witness:
  "\<exists>it hits. nearby demoNearby (city [demoHere]) = (Inr (it # hits), city [demoHere]) \<and>
     sorted (map snd (it # hits))"
proof -
  obtain it hits where "nearby demoNearby (city [demoHere]) = (Inr (it # hits), city [demoHere])"
    by (simp add: nearby_def nearbyHits_def nearbyCandidates_def demoNearby_def demoHere_def eval
        live_defs demoComplaint_def isOpen_def OPEN_STATUSES_def distanceMeters_def haversine_def
        toRad_def lngDeltaOf_def inBox_def Let_def)
  with nearby_is_sound [where query = demoNearby and w = "city [demoHere]"] show ?thesis by auto
qed

section \<open>The SLA job\<close>

lemma levelFor_range: "levelFor now t \<in> {1, 2, 3}"
  by (simp add: levelFor_def Let_def)

text \<open>The part of the state the escalation loop reads and writes.\<close>

definition slaStep :: "world \<Rightarrow> world \<Rightarrow> bool" where
  "slaStep w w' \<longleftrightarrow> clock w' = clock w \<and> c_id ` set (complaints w') = c_id ` set (complaints w) \<and>
     (\<exists>es. escalations w' = escalations w @ es)"

interpretation sa: step_preorder slaStep undoTx
  by unfold_locales (auto simp: slaStep_def)

lemma sa_small:
  "related slaStep (freshId L)" "related slaStep (audit L a b c d e f g)"
  "related slaStep (notify L u t body m)"
  by (simp_all add: related_def eval slaStep_def)

lemma sa_dispatch: "related slaStep (dispatchEmail (sendEscalationEmail L to t l r))"
proof -
  have "slaStep w (snd (dispatchEmail (sendMail L to t b) w))" for to t b w
    using dispatch_sendMail [of L to t b w] by (auto simp: slaStep_def mailed_frame)
  then show ?thesis by (simp add: related_def sendEscalationEmail_def)
qed

lemma sa_escalateOne: "related slaStep (escalateOne L adminIds snap n)"
  unfolding escalateOne_def escalateTx_def insertEscalation_def notifyMany_def updateComplaint_def
    transaction_def Let_def
  by (intro sa.rel_intros sa_small sa_dispatch) (auto simp: slaStep_def rowIds_updateWhere)

lemma levelsOf_mono: "slaStep w w' \<Longrightarrow> set (levelsOf w i) \<subseteq> set (levelsOf w' i)"
  by (auto simp: slaStep_def levelsOf_def)

lemma notifyMany_ok: "\<exists>w'. notifyMany L us t b m w = (Inr (), w') \<and> escalations w' = escalations w"
proof -
  have "\<exists>w'. loopM (\<lambda>userId _. notify L userId t b m) us () w = (Inr (), w') \<and>
      escalations w' = escalations w" for us w
  proof (induction us arbitrary: w)
    case Nil
    then show ?case by (simp add: eval)
  next
    case (Cons u us)
    let ?w = "w\<lparr>uuidPos := Suc (uuidPos w), notifications := notifications w @
                  [newNotification (uuidTape L (uuidPos w)) (clock w) u t b m]\<rparr>"
    from Cons.IH [of ?w] show ?case by (auto simp: eval)
  qed
  then show ?thesis by (simp add: notifyMany_def eval)
qed

text \<open>After a turn of the loop the complaint has its level, whoever wrote it.\<close>

lemma escalateTx_adds:
  assumes row: "c_id c \<in> c_id ` set (complaints w)" and lv: "1 \<le> level" "level \<le> 3"
    and new: "level \<notin> set (levelsOf w (c_id c))"
  shows "\<exists>w'. escalateTx L adminIds c level reason w = (Inr (), w') \<and> level \<in> set (levelsOf w' (c_id c))"
proof -
  let ?e = "\<lparr>es_id = uuidTape L (uuidPos w), es_complaintId = c_id c, es_level = level,
      es_reason = reason, es_notifiedUserId = None, es_resolvedAt = None, es_createdAt = clock w\<rparr>"
  have ins: "insertEscalation L (c_id c) level reason w =
      (Inr (), escalations_update (\<lambda>rows. rows @ [?e]) (w\<lparr>uuidPos := Suc (uuidPos w)\<rparr>))"
    using lv new by (auto simp: insertEscalation_def eval uniqueBy_def levelsOf_def)
  obtain r where r: "find (\<lambda>r. c_id r = c_id c) (complaints w) = Some r"
    using row by (cases "find (\<lambda>r. c_id r = c_id c) (complaints w)") (auto simp: find_None_all)
  have many: "fst (notifyMany L adminIds t b m v) = Inr ()"
    "escalations (snd (notifyMany L adminIds t b m v)) = escalations v" for t b m v
    using notifyMany_ok [of L adminIds t b m v] by auto
  let ?w1 = "escalations_update (\<lambda>rows. rows @ [?e]) (w\<lparr>uuidPos := Suc (uuidPos w)\<rparr>)"
  obtain w2 where w2: "whenM (\<not> c_isEscalated c)
      (thenM (updateComplaint (c_id c) (\<lambda>_ r. r\<lparr>c_isEscalated := True\<rparr>)) (returnM ())) ?w1 = (Inr (), w2)"
    "escalations w2 = escalations ?w1"
    using r by (cases "c_isEscalated c") (simp_all add: eval updateComplaint_def)
  have run: "fst (escalateTx L adminIds c level reason w) = Inr () \<and>
      escalations (snd (escalateTx L adminIds c level reason w)) = escalations w2"
    by (simp add: escalateTx_def run_transaction run_then ins w2 run_audit case_prod_beta many)
  show ?thesis
    by (rule exI [of _ "snd (escalateTx L adminIds c level reason w)"])
      (use run w2 in \<open>simp add: prod_eq_iff levelsOf_def\<close>)
qed

lemma escalateOne_level:
  assumes row: "c_id c \<in> c_id ` set (complaints w)" and lv: "set already \<subseteq> set (levelsOf w (c_id c))"
  shows "levelFor (clock w) (c_slaDueAt c) \<in>
     set (levelsOf (snd (escalateOne L adminIds (c, already, email) n w)) (c_id c))"
proof -
  let ?l = "levelFor (clock w) (c_slaDueAt c)"
  have mono: "slaStep w (snd (escalateOne L adminIds (c, already, email) n w))"
    using sa_escalateOne by (simp add: related_def)
  show ?thesis
  proof (cases "?l \<in> set (levelsOf w (c_id c))")
    case True
    then show ?thesis using levelsOf_mono [OF mono] by blast
  next
    case False
    have "1 \<le> ?l" "?l \<le> 3" using levelFor_range [of "clock w" "c_slaDueAt c"] by auto
    from escalateTx_adds [OF row this False] obtain w1 where
      tx: "escalateTx L adminIds c ?l (''SLA due at '' @ iso_string (c_slaDueAt c) @ '' was missed'') w = (Inr (), w1)"
      and w1: "?l \<in> set (levelsOf w1 (c_id c))" by blast
    have mail: "fst (dispatchEmail (sendEscalationEmail L e t l r) v) = Inr ()"
      "escalations (snd (dispatchEmail (sendEscalationEmail L e t l r) v)) = escalations v" for e t l r v
      using dispatch_sendMail [of L e "''ESCALATION''" "[t, show_int l, r]" v]
      by (auto simp: sendEscalationEmail_def mailed_frame)
    have "escalations (snd (escalateOne L adminIds (c, already, email) n w)) = escalations w1"
      using False lv tx
      by (auto simp: escalateOne_def Let_def eval case_prod_beta mail split: option.split)
    then show ?thesis using w1 by (simp add: levelsOf_def)
  qed
qed

lemma escalateLoop_levels:
  assumes "\<forall>(c, already, email) \<in> set snaps. c_id c \<in> c_id ` set (complaints w) \<and>
     set already \<subseteq> set (levelsOf w (c_id c))"
  shows "slaStep w (snd (loopM (escalateOne L adminIds) snaps n w)) \<and>
     (\<forall>(c, already, email) \<in> set snaps. levelFor (clock w) (c_slaDueAt c) \<in>
        set (levelsOf (snd (loopM (escalateOne L adminIds) snaps n w)) (c_id c)))"
  using assms
proof (induction snaps arbitrary: n w)
  case Nil
  then show ?case by (simp add: eval sa.refl)
next
  case (Cons s snaps)
  obtain c already email where s: "s = (c, already, email)" by (cases s)
  obtain r w1 where one: "escalateOne L adminIds (c, already, email) n w = (r, w1)"
    by (cases "escalateOne L adminIds (c, already, email) n w")
  have step: "slaStep w w1" by (rule relatedD [OF sa_escalateOne one])
  have lev: "levelFor (clock w) (c_slaDueAt c) \<in> set (levelsOf w1 (c_id c))"
    using escalateOne_level [of c w already L adminIds email n] Cons.prems by (simp add: s one)
  obtain m where r: "r = Inr m"
    using one by (auto simp: escalateOne_def Let_def eval case_prod_beta split: if_splits sum.splits)
  have "\<forall>(c, already, email) \<in> set snaps. c_id c \<in> c_id ` set (complaints w1) \<and>
     set already \<subseteq> set (levelsOf w1 (c_id c))"
  proof -
    have "c_id ` set (complaints w1) = c_id ` set (complaints w)" using step by (simp add: slaStep_def)
    then show ?thesis using Cons.prems levelsOf_mono [OF step] by fastforce
  qed
  from Cons.IH [OF this, of m] have IH: "slaStep w1 (snd (loopM (escalateOne L adminIds) snaps m w1))"
    "\<forall>(c, already, email) \<in> set snaps. levelFor (clock w1) (c_slaDueAt c) \<in>
        set (levelsOf (snd (loopM (escalateOne L adminIds) snaps m w1)) (c_id c))" by blast+
  have run: "snd (loopM (escalateOne L adminIds) (s # snaps) n w) =
      snd (loopM (escalateOne L adminIds) snaps m w1)"
    by (simp add: s eval one r)
  have "clock w1 = clock w" using step by (simp add: slaStep_def)
  then show ?case
    unfolding run using IH sa.trans [OF step IH(1)] lev levelsOf_mono [OF IH(1)]
    by (auto simp: s)
qed

text \<open>The auto-close pass writes no escalation row.\<close>

lemma autoClose_escalations: "escalations (snd (autoCloseResolved L w)) = escalations w"
proof -
  have pre: "step_preorder (\<lambda>u v. escalations v = escalations u) undoTx" by unfold_locales auto
  note intros = step_preorder.rel_intros [OF pre]
  have "related (\<lambda>u v. escalations v = escalations u) (autoCloseResolved L)"
    unfolding autoCloseResolved_def applyStatusChange_def transaction_def insertHistory_def audit_def
      notify_def
    by (intro intros) (simp_all add: related_def eval)
  then show ?thesis by (simp add: related_def)
qed

text \<open>C37: After an SLA run every complaint of its batch, which is up to 200 open complaints past
  their due time, has an escalation row of the level its breach has reached: 1 from the breach on, 2
  from a day after it, 3 from four days after it.\<close>

theorem sla_run_escalates_its_batch:
  "\<forall>c \<in> set (breachedNow w). levelFor (clock w) (c_slaDueAt c) \<in> set (levelsOf (snd (runSlaCheck L w)) (c_id c))"
proof -
  let ?snaps = "map (\<lambda>c. (c, levelsOf w (c_id c), departmentEmail w c)) (breachedNow w)"
  let ?admins = "map u_id (filter (\<lambda>u. u_role u = ADMIN \<and> u_status u = ACTIVE) (liveUsers w))"
  have pre: "\<forall>(c, already, email) \<in> set ?snaps. c_id c \<in> c_id ` set (complaints w) \<and>
     set already \<subseteq> set (levelsOf w (c_id c))"
    by (auto simp: breachedNow_def live_defs dest!: in_set_takeD)
  obtain r w1 where loop: "loopM (escalateOne L ?admins) ?snaps 0 w = (r, w1)"
    by (cases "loopM (escalateOne L ?admins) ?snaps 0 w")
  have lev: "\<forall>c \<in> set (breachedNow w). levelFor (clock w) (c_slaDueAt c) \<in> set (levelsOf w1 (c_id c))"
    using escalateLoop_levels [OF pre, of L ?admins 0] by (simp add: loop)
  have "escalations (snd (runSlaCheck L w)) = escalations w1"
    by (auto simp: runSlaCheck_def eval loop autoClose_escalations case_prod_beta split: sum.split)
  with lev show ?thesis by (simp add: levelsOf_def)
qed

theorem sla_run_escalates_its_batch_witness:
  "1 \<in> set (levelsOf (snd (runSlaCheck demoLib ((city [demoComplaint ''c1'' SUBMITTED])\<lparr>clock := 1\<rparr>))) ''c1'')"
  using sla_run_escalates_its_batch [of "(city [demoComplaint ''c1'' SUBMITTED])\<lparr>clock := 1\<rparr>" demoLib]
  by (simp add: breachedNow_def live_defs demoComplaint_def isOpen_def OPEN_STATUSES_def BATCH_def
      levelFor_def)

text \<open>The batch is cut to 200 rows before the escalated ones are skipped, so the job can starve: if
  the first 200 open complaints past their due time already have their level, a run escalates
  nothing, whatever newly breached complaint stands behind them.\<close>

theorem sla_batch_can_starve:
  assumes "\<forall>c \<in> set (breachedNow w). levelFor (clock w) (c_slaDueAt c) \<in> set (levelsOf w (c_id c))"
  shows "escalations (snd (runSlaCheck L w)) = escalations w"
proof -
  have one: "escalateOne L admins (c, levelsOf w (c_id c), email) n w = (Inr n, w)"
    if "c \<in> set (breachedNow w)" for admins c email n
    using assms that by (simp add: escalateOne_def Let_def eval)
  have loop: "loopM (escalateOne L admins) (map (\<lambda>c. (c, levelsOf w (c_id c), departmentEmail w c)) cs) n w = (Inr n, w)"
    if "set cs \<subseteq> set (breachedNow w)" for admins cs n
    using that by (induction cs) (simp_all add: eval one)
  show ?thesis
    by (auto simp: runSlaCheck_def eval loop autoClose_escalations case_prod_beta split: sum.split)
qed

text \<open>Two hundred complaints that have their escalation, and one more that waits behind them.\<close>

definition escalatedOnes :: "complaint list" where
  "escalatedOnes = map (\<lambda>n. demoComplaint (replicate n (CHR ''x'')) SUBMITTED) [0..<200]"

definition starvedCity :: world where
  "starvedCity = (city (escalatedOnes @ [demoComplaint ''late'' SUBMITTED]))\<lparr>clock := 1,
     escalations := map (\<lambda>c. \<lparr>es_id = c_id c, es_complaintId = c_id c, es_level = 1, es_reason = [],
       es_notifiedUserId = None, es_resolvedAt = None, es_createdAt = 1\<rparr>) escalatedOnes\<rparr>"

lemma escalatedOnes_breached:
  "filter (\<lambda>c. isOpen (c_status c) \<and> c_slaDueAt c < 1) (applySoftDelete c_deletedAt escalatedOnes)
   = escalatedOnes"
  by (auto simp: applySoftDelete_def escalatedOnes_def demoComplaint_def isOpen_def OPEN_STATUSES_def
      filter_id_conv)

lemma starved_batch: "breachedNow starvedCity = escalatedOnes"
proof -
  have "length escalatedOnes = 200" by (simp add: escalatedOnes_def)
  then show ?thesis
    using escalatedOnes_breached
    by (simp add: breachedNow_def starvedCity_def liveComplaints_def applySoftDelete_def BATCH_def)
qed

theorem sla_batch_can_starve_witness:
  "demoComplaint ''late'' SUBMITTED \<in> set (complaints starvedCity) \<and>
   levelsOf starvedCity ''late'' = [] \<and>
   escalations (snd (runSlaCheck demoLib starvedCity)) = escalations starvedCity"
proof -
  have "levelFor (clock starvedCity) (c_slaDueAt c) \<in> set (levelsOf starvedCity (c_id c))"
    if "c \<in> set escalatedOnes" for c
  proof -
    have "c_slaDueAt c = 0" using that by (auto simp: escalatedOnes_def demoComplaint_def)
    then have "levelFor (clock starvedCity) (c_slaDueAt c) = 1"
      by (simp add: levelFor_def starvedCity_def)
    moreover have "1 \<in> set (levelsOf starvedCity (c_id c))"
      using that by (simp add: starvedCity_def levelsOf_def filter_map comp_def)
    ultimately show ?thesis by simp
  qed
  from sla_batch_can_starve [of starvedCity demoLib] this
  have "escalations (snd (runSlaCheck demoLib starvedCity)) = escalations starvedCity"
    by (simp add: starved_batch)
  moreover have "replicate n (CHR ''x'') \<noteq> ''late''" for n by (cases n) auto
  then have "levelsOf starvedCity ''late'' = []"
    by (auto simp: starvedCity_def levelsOf_def escalatedOnes_def filter_empty_conv)
  ultimately show ?thesis by (simp add: starvedCity_def)
qed

end
