(* ===== verification/ServiceRequest.thy ===== *)
theory ServiceRequest
  imports Utils
begin

text \<open>
  The paid municipal services a citizen applies for, as
  \<^verbatim>\<open>modules/serviceRequest/serviceRequest.service.ts\<close> has them: the application with its reference
  number, its lists, the move from PAID to PROCESSING to COMPLETED or REJECTED, and the
  documents behind signed links.
\<close>

section \<open>What a request looks like from outside\<close>

text \<open>\<open>LIST_SELECT\<close> followed by \<open>toPublic\<close>: the fee leaves as a string.\<close>

record typeView =
  tv_id :: string
  tv_name :: string
  tv_fee :: string

record applicantView =
  av_id :: string
  av_name :: string
  av_email :: string

record srItem =
  si_id :: string
  si_referenceNo :: string
  si_status :: sr_status
  si_createdAt :: instant
  si_updatedAt :: instant
  si_serviceType :: "typeView option"
  si_citizen :: "applicantView option"

definition toPublicType :: "lib \<Rightarrow> serviceType \<Rightarrow> typeView" where
  "toPublicType L t = \<lparr>tv_id = st_id t, tv_name = st_name t, tv_fee = decStr L (st_fee t)\<rparr>"

definition serviceTypeOf :: "world \<Rightarrow> serviceRequest \<Rightarrow> serviceType option" where
  "serviceTypeOf w r = find (\<lambda>t. st_id t = sr_serviceTypeId r) (serviceTypes w)"

definition applicantOf :: "world \<Rightarrow> serviceRequest \<Rightarrow> applicantView option" where
  "applicantOf w r =
     map_option (\<lambda>u. \<lparr>av_id = u_id u, av_name = u_name u, av_email = u_email u\<rparr>)
       (find (\<lambda>u. u_id u = sr_citizenId r) (users w))"

definition srSelect :: "lib \<Rightarrow> world \<Rightarrow> serviceRequest \<Rightarrow> srItem" where
  "srSelect L w r =
     \<lparr>si_id = sr_id r, si_referenceNo = sr_referenceNo r, si_status = sr_status r,
      si_createdAt = sr_createdAt r, si_updatedAt = sr_updatedAt r,
      si_serviceType = map_option (toPublicType L) (serviceTypeOf w r),
      si_citizen = applicantOf w r\<rparr>"

section \<open>Rows\<close>

definition findRequest :: "string \<Rightarrow> world \<Rightarrow> serviceRequest option" where
  "findRequest i w = find (\<lambda>r. sr_id r = i) (liveServiceRequests w)"

definition noRequest :: exn where
  "noRequest = apiError 404 ''Service request not found'' [detC ''NOT_FOUND'']"

definition requestOrThrow :: "string \<Rightarrow> serviceRequest act" where
  "requestOrThrow i = bindM (getsM (findRequest i)) (orThrow noRequest)"

text \<open>\<open>tx.serviceRequest.update\<close>: the row with that id, deleted or not; \<open>updatedAt\<close> moves.\<close>

definition updateRequest :: "string \<Rightarrow> (serviceRequest \<Rightarrow> serviceRequest) \<Rightarrow> serviceRequest act" where
  "updateRequest i f =
     bindM (getsM clock) (\<lambda>now.
       updateRow serviceRequests serviceRequests_update (\<lambda>r. sr_id r = i)
         (\<lambda>r. (f r)\<lparr>sr_updatedAt := now\<rparr>))"

section \<open>Create\<close>

record createSrInput =
  cs_serviceTypeId :: string
  cs_details :: "json option"

definition newRequest ::
  "string \<Rightarrow> instant \<Rightarrow> string \<Rightarrow> createSrInput \<Rightarrow> actor \<Rightarrow> serviceRequest" where
  "newRequest i now referenceNo input a =
     \<lparr>sr_id = i, sr_referenceNo = referenceNo, sr_citizenId = a_id a,
      sr_serviceTypeId = cs_serviceTypeId input, sr_details = cs_details input,
      sr_status = SR_PENDING_PAYMENT, sr_processedById = None, sr_createdAt = now,
      sr_updatedAt = now, sr_deletedAt = None\<rparr>"

definition insertRequest :: "lib \<Rightarrow> string \<Rightarrow> createSrInput \<Rightarrow> actor \<Rightarrow> serviceRequest act" where
  "insertRequest L referenceNo input a =
     bindM (freshId L) (\<lambda>i. bindM (getsM clock) (\<lambda>now.
       thenM (guardM (uniqueBy serviceRequests (\<lambda>r. sr_referenceNo r = referenceNo) [''referenceNo'']))
         (insertRow serviceRequests_update (newRequest i now referenceNo input a))))"

definition createRequest :: "lib \<Rightarrow> createSrInput \<Rightarrow> actor \<Rightarrow> ctx \<Rightarrow> srItem act" where
  "createRequest L input a cx =
     bindM (getsM (\<lambda>w. find (\<lambda>t. st_id t = cs_serviceTypeId input \<and> st_isActive t)
                        (liveServiceTypes w))) (\<lambda>serviceType.
     thenM (throwIf (serviceType = None)
       (apiError 400 ''Invalid reference id''
         [detF ''serviceTypeId'' ''VALIDATION_ERROR'' ''No such active service'']))
     (bindM (transaction
        (bindM nextReferenceNo (\<lambda>referenceNo.
         bindM (insertRequest L referenceNo input a) (\<lambda>created.
         thenM (audit L (Some (a_id a)) ''SERVICE_REQUEST_CREATED'' ''ServiceRequest'' (sr_id created)
            None (Some (JObj [(''referenceNo'', JStr referenceNo),
                              (''serviceTypeId'', JStr (cs_serviceTypeId input))])) (Some cx))
           (returnM created))))) (\<lambda>request.
      getsM (\<lambda>w. srSelect L w request))))"

section \<open>Reads\<close>

record srQuery =
  sq_page :: "int option"
  sq_limit :: "int option"
  sq_status :: "sr_status option"
  sq_sortBy :: "string option"
  sq_sortOrder :: "string option"

fun sr_rank :: "sr_status \<Rightarrow> int" where
  "sr_rank SR_PENDING_PAYMENT = 0"
| "sr_rank SR_PAID = 1"
| "sr_rank SR_PROCESSING = 2"
| "sr_rank SR_COMPLETED = 3"
| "sr_rank SR_REJECTED = 4"
| "sr_rank SR_CANCELLED = 5"

definition requestKey :: "string \<Rightarrow> serviceRequest \<Rightarrow> int" where
  "requestKey field r =
     (if field = ''updatedAt'' then sr_updatedAt r
      else if field = ''status'' then sr_rank (sr_status r)
      else sr_createdAt r)"

definition paginatedRequests ::
  "lib \<Rightarrow> (serviceRequest \<Rightarrow> bool) \<Rightarrow> srQuery \<Rightarrow> (srItem list \<times> meta) act" where
  "paginatedRequests L matches query =
     (let pagination = getPagination (sq_page query) (sq_limit query) in
      bindM (liftE (buildOrderBy SortServiceRequest (sq_sortBy query) (sq_sortOrder query))) (\<lambda>orderBy.
      getsM (\<lambda>w. let rows = filter matches (liveServiceRequests w) in
        (map (srSelect L w)
           (pageRows pagination (orderRows (requestKey (fst orderBy)) (snd orderBy) rows)),
         buildMeta pagination (length rows)))))"

definition statusMatches :: "srQuery \<Rightarrow> serviceRequest \<Rightarrow> bool" where
  "statusMatches query r = (case sq_status query of None \<Rightarrow> True | Some s \<Rightarrow> sr_status r = s)"

definition listMyRequests :: "lib \<Rightarrow> srQuery \<Rightarrow> actor \<Rightarrow> (srItem list \<times> meta) act" where
  "listMyRequests L query a =
     paginatedRequests L (\<lambda>r. sr_citizenId r = a_id a \<and> statusMatches query r) query"

definition listRequests :: "lib \<Rightarrow> srQuery \<Rightarrow> (srItem list \<times> meta) act" where
  "listRequests L query = paginatedRequests L (statusMatches query) query"

definition assertAccess :: "serviceRequest \<Rightarrow> actor \<Rightarrow> unit act" where
  "assertAccess request a =
     (if a_role a = ADMIN \<or> a_role a = OFFICER then returnM ()
      else if sr_citizenId request = a_id a then returnM ()
      else throwM (apiError 403 ''You do not have access to this request''
             [det ''NOT_OWNER'' ''You do not have access to this request'']))"

record docView =
  ov_id :: string
  ov_label :: string
  ov_createdAt :: instant

record srPaymentView =
  sp_id :: string
  sp_transactionId :: string
  sp_amount :: string
  sp_status :: pay_status
  sp_paidAt :: "instant option"
  sp_createdAt :: instant

record srDetail =
  sd_request :: serviceRequest
  sd_serviceType :: "typeView option"
  sd_citizen :: "applicantView option"
  sd_documents :: "docView list"
  sd_payments :: "srPaymentView list"

definition docViewOf :: "document \<Rightarrow> docView" where
  "docViewOf d = \<lparr>ov_id = doc_id d, ov_label = doc_label d, ov_createdAt = doc_createdAt d\<rparr>"

definition srPaymentOf :: "lib \<Rightarrow> payment \<Rightarrow> srPaymentView" where
  "srPaymentOf L p =
     \<lparr>sp_id = p_id p, sp_transactionId = p_transactionId p, sp_amount = decStr L (p_amount p),
      sp_status = p_status p, sp_paidAt = p_paidAt p, sp_createdAt = p_createdAt p\<rparr>"

definition getRequest :: "lib \<Rightarrow> string \<Rightarrow> actor \<Rightarrow> srDetail act" where
  "getRequest L i a =
     bindM (requestOrThrow i) (\<lambda>request.
     thenM (assertAccess request a)
     (getsM (\<lambda>w.
       \<lparr>sd_request = request,
        sd_serviceType = map_option (toPublicType L) (serviceTypeOf w request),
        sd_citizen = applicantOf w request,
        sd_documents = map docViewOf (filter (\<lambda>d. doc_serviceRequestId d = i) (documents w)),
        sd_payments = map (srPaymentOf L) (filter (\<lambda>p. p_serviceRequestId p = i) (payments w))\<rparr>)))"

section \<open>Processing\<close>

fun allowedNext :: "sr_status \<Rightarrow> sr_status list" where
  "allowedNext SR_PAID = [SR_PROCESSING, SR_REJECTED]"
| "allowedNext SR_PROCESSING = [SR_COMPLETED, SR_REJECTED]"
| "allowedNext _ = []"

record updateSrInput =
  us_status :: sr_status
  us_note :: "string option"

definition noSrEdge :: "sr_status \<Rightarrow> sr_status \<Rightarrow> exn" where
  "noSrEdge src tgt =
     (let m = ''Cannot change status from '' @ show_sr_status src @ '' to '' @ show_sr_status tgt in
      apiError 409 m [det ''INVALID_TRANSITION'' m])"

definition jsr :: "sr_status \<Rightarrow> json" where
  "jsr s = JStr (show_sr_status s)"

text \<open>The check and the write are apart; the write takes the row as the check read it.\<close>

definition updateStatusGuard :: "string \<Rightarrow> updateSrInput \<Rightarrow> serviceRequest act" where
  "updateStatusGuard i input =
     bindM (requestOrThrow i) (\<lambda>request.
     thenM (throwIf (us_status input \<notin> set (allowedNext (sr_status request)))
        (noSrEdge (sr_status request) (us_status input)))
     (returnM request))"

definition updateStatusCommit ::
  "lib \<Rightarrow> string \<Rightarrow> updateSrInput \<Rightarrow> actor \<Rightarrow> ctx \<Rightarrow> serviceRequest \<Rightarrow> srItem act" where
  "updateStatusCommit L i input a cx request =
     bindM (transaction
       (bindM (updateRequest i (\<lambda>r. r\<lparr>sr_status := us_status input, sr_processedById := Some (a_id a)\<rparr>))
         (\<lambda>row.
        thenM (audit L (Some (a_id a)) ''SERVICE_REQUEST_STATUS_CHANGED'' ''ServiceRequest'' i
           (Some (JObj [(''status'', jsr (sr_status request))]))
           (Some (JObj ((''status'', jsr (us_status input)) #
              (case us_note input of None \<Rightarrow> [] | Some n \<Rightarrow> [(''note'', JStr n)])))) (Some cx))
        (thenM (notify L (sr_citizenId request) ''Service request update''
           (sr_referenceNo request @ '' is now '' @ show_sr_status (us_status input))
           (Some (JObj [(''serviceRequestId'', JStr i), (''status'', jsr (us_status input))])))
        (returnM row)))))
     (\<lambda>updated. getsM (\<lambda>w. srSelect L w updated))"

definition updateSrStatus ::
  "lib \<Rightarrow> string \<Rightarrow> updateSrInput \<Rightarrow> actor \<Rightarrow> ctx \<Rightarrow> srItem act" where
  "updateSrStatus L i input a cx = bindM (updateStatusGuard i input) (updateStatusCommit L i input a cx)"

section \<open>Documents\<close>

text \<open>\<open>upload\<close> is what the storage service answered: an error, or the url and the public id.\<close>

definition addDocument ::
  "lib \<Rightarrow> string \<Rightarrow> string \<Rightarrow> exn + string \<times> string \<Rightarrow> actor \<Rightarrow> docView act" where
  "addDocument L i label upload a =
     bindM (requestOrThrow i) (\<lambda>request.
     thenM (throwIf (sr_citizenId request \<noteq> a_id a)
        (apiError 403 ''Only the applicant can upload documents''
          [det ''NOT_OWNER'' ''Only the applicant can upload documents'']))
     (bindM (liftE upload) (\<lambda>file.
      bindM (freshId L) (\<lambda>did.
      bindM (getsM clock) (\<lambda>now.
      bindM (insertRow documents_update
         \<lparr>doc_id = did, doc_serviceRequestId = i, doc_label = label, doc_url = fst file,
          doc_publicId = snd file, doc_createdAt = now\<rparr>) (\<lambda>doc.
      returnM (docViewOf doc)))))))"

text \<open>\<open>signedUrl\<close> of the storage service is the parameter \<open>sign\<close>.\<close>

record docLink =
  dl_url :: string
  dl_expiresInSec :: int
  dl_label :: string

definition getDocumentUrl ::
  "(string \<Rightarrow> int \<Rightarrow> string) \<Rightarrow> string \<Rightarrow> string \<Rightarrow> actor \<Rightarrow> docLink act" where
  "getDocumentUrl sign i docId a =
     bindM (requestOrThrow i) (\<lambda>request.
     thenM (throwIf (\<not> (a_role a = ADMIN \<or> sr_citizenId request = a_id a \<or>
                       a_role a = OFFICER \<and> sr_processedById request = Some (a_id a)))
        (apiError 403 ''You do not have access to this document''
          [det ''NOT_OWNER'' ''You do not have access to this document'']))
     (bindM (getsM (\<lambda>w. find (\<lambda>d. doc_id d = docId \<and> doc_serviceRequestId d = i) (documents w))) (\<lambda>found.
      bindM (orThrow (apiError 404 ''Document not found'' [detC ''NOT_FOUND'']) found) (\<lambda>doc.
      returnM \<lparr>dl_url = sign (doc_publicId doc) 600, dl_expiresInSec = 600, dl_label = doc_label doc\<rparr>))))"

end
