(* ===== verification/Payment.thy ===== *)
theory Payment
  imports ServiceRequest
begin

text \<open>
  Payments, as \<^verbatim>\<open>modules/payment/payment.service.ts\<close> and the gateway callbacks of
  \<^verbatim>\<open>payment.controller.ts\<close> have them: a session is opened for the fee of the service, the
  callbacks are recorded and then verified against the gateway, a refund is asked for by one
  person and approved by another. The ledger is in the theory Ledger.
\<close>

section \<open>The gateway\<close>

text \<open>
  The client of SSLCommerz, the PDF library and the storage service are not part of the
  program: what they answer is the argument \<open>G\<close> of every operation that calls them, an error
  for a rejected promise. Only the fields \<^verbatim>\<open>types/sslcommerz-lts.d.ts\<close> declares and the
  code reads are kept.
\<close>

record sslInit =
  in_total_amount :: real
  in_currency :: string
  in_tran_id :: string
  in_success_url :: string
  in_fail_url :: string
  in_cancel_url :: string
  in_ipn_url :: string
  in_product_name :: string
  in_cus_name :: string
  in_cus_email :: string
  in_cus_phone :: string

record sslInitResponse =
  ir_failedreason :: "string option"
  ir_GatewayPageURL :: "string option"

record sslRefund =
  ri_refund_amount :: real
  ri_refund_remarks :: string
  ri_bank_tran_id :: string
  ri_refe_id :: string

record sslRefundResponse =
  rr_APIConnect :: "string option"
  rr_refund_ref_id :: "string option"
  rr_errorReason :: "string option"

record receiptData =
  rd_transactionId :: string
  rd_referenceNo :: string
  rd_serviceName :: string
  rd_amount :: string
  rd_currency :: string
  rd_payerName :: string
  rd_payerEmail :: string
  rd_paidAt :: instant

record gateway =
  gw_init :: "sslInit \<Rightarrow> exn + sslInitResponse"
  gw_validate :: "string \<Rightarrow> exn + json"
  gw_initiateRefund :: "sslRefund \<Rightarrow> exn + sslRefundResponse"
  renderReceipt :: "receiptData \<Rightarrow> exn + string"
  uploadReceipt :: "string \<Rightarrow> exn + string"

text \<open>A rejected promise whose handler answers \<open>null\<close>.\<close>

definition orNull :: "exn + 'a \<Rightarrow> 'a option" where
  "orNull r = (case r of Inl _ \<Rightarrow> None | Inr x \<Rightarrow> Some x)"

text \<open>\<open>storeReceipt\<close> of \<^verbatim>\<open>lib/receipt.ts\<close>.\<close>

definition storeReceipt :: "gateway \<Rightarrow> string \<Rightarrow> string option" where
  "storeReceipt G pdf = orNull (uploadReceipt G pdf)"

text \<open>Reading an untyped payload: a property of it, and \<open>String(x)\<close>.\<close>

definition jget :: "string \<Rightarrow> json \<Rightarrow> json option" where
  "jget k j = (case j of JObj kvs \<Rightarrow> map_of kvs k | _ \<Rightarrow> None)"

fun jsText :: "lib \<Rightarrow> json \<Rightarrow> string" where
  "jsText L JNull = ''null''"
| "jsText L (JBool b) = show_bool b"
| "jsText L (JNum x) = numStr L x"
| "jsText L (JStr s) = s"
| "jsText L (JArr js) = join_with '','' (map (\<lambda>j. if j = JNull then [] else jsText L j) js)"
| "jsText L (JObj _) = ''[object Object]''"

definition jsString :: "lib \<Rightarrow> json option \<Rightarrow> string" where
  "jsString L x = (case x of None \<Rightarrow> ''undefined'' | Some j \<Rightarrow> jsText L j)"

text \<open>\<open>String(x ?? d)\<close>.\<close>

definition textOr :: "lib \<Rightarrow> string \<Rightarrow> json option \<Rightarrow> string" where
  "textOr L d x =
     (case x of None \<Rightarrow> d | Some j \<Rightarrow> if j = JNull then d else jsText L j)"

text \<open>\<open>Number(decimal)\<close>: the model counts paisa.\<close>

definition taka :: "paisa \<Rightarrow> real" where
  "taka amount = of_int amount / 100"

definition assertGatewayConfigured :: "lib \<Rightarrow> unit act" where
  "assertGatewayConfigured L =
     throwIf (SSL_STORE_ID L = [] \<or> SSL_STORE_PASSWORD L = [])
       (apiError 503 ''Payment gateway is not configured''
         [det ''SERVICE_UNAVAILABLE'' ''SSLCommerz credentials are missing''])"

section \<open>Rows\<close>

definition findPayment :: "string \<Rightarrow> world \<Rightarrow> payment option" where
  "findPayment i w = find (\<lambda>p. p_id p = i) (payments w)"

definition findByTran :: "string \<Rightarrow> world \<Rightarrow> payment option" where
  "findByTran tranId w = find (\<lambda>p. p_transactionId p = tranId) (payments w)"

definition requestOf :: "world \<Rightarrow> payment \<Rightarrow> serviceRequest option" where
  "requestOf w p = find (\<lambda>r. sr_id r = p_serviceRequestId p) (serviceRequests w)"

definition payerOf :: "world \<Rightarrow> payment \<Rightarrow> user option" where
  "payerOf w p = find (\<lambda>u. u_id u = p_userId p) (users w)"

definition refundOf :: "world \<Rightarrow> payment \<Rightarrow> refund option" where
  "refundOf w p = find (\<lambda>r. rf_paymentId r = p_id p) (refunds w)"

definition updatePayment :: "string \<Rightarrow> (payment \<Rightarrow> payment) \<Rightarrow> payment act" where
  "updatePayment i f =
     bindM (getsM clock) (\<lambda>now.
       updateRow payments payments_update (\<lambda>p. p_id p = i) (\<lambda>p. (f p)\<lparr>p_updatedAt := now\<rparr>))"

definition noPayment :: exn where
  "noPayment = apiError 404 ''Payment not found'' [detC ''NOT_FOUND'']"

definition notPayer :: exn where
  "notPayer = apiError 403 ''You do not have access to this payment''
     [det ''NOT_OWNER'' ''You do not have access to this payment'']"

section \<open>Initiate\<close>

definition newPayment ::
  "string \<Rightarrow> instant \<Rightarrow> string \<Rightarrow> string \<Rightarrow> string \<Rightarrow> paisa \<Rightarrow> payment" where
  "newPayment i now tranId serviceRequestId userId amount =
     \<lparr>p_id = i, p_transactionId = tranId, p_serviceRequestId = serviceRequestId, p_userId = userId,
      p_amount = amount, p_currency = ''BDT'', p_status = PENDING, p_gateway = ''SSLCOMMERZ'',
      p_valId = None, p_gatewayResponse = None, p_paidAt = None, p_createdAt = now,
      p_updatedAt = now\<rparr>"

definition insertPayment ::
  "lib \<Rightarrow> string \<Rightarrow> string \<Rightarrow> string \<Rightarrow> paisa \<Rightarrow> payment act" where
  "insertPayment L tranId serviceRequestId userId amount =
     bindM (freshId L) (\<lambda>i. bindM (getsM clock) (\<lambda>now.
       thenM (throwIf (amount \<le> 0) (DbCheck ''payment_amount_ck''))
       (thenM (guardM (uniqueBy payments (\<lambda>p. p_transactionId p = tranId) [''transactionId'']))
         (insertRow payments_update (newPayment i now tranId serviceRequestId userId amount)))))"

definition sessionFor :: "lib \<Rightarrow> string \<Rightarrow> serviceType \<Rightarrow> user \<Rightarrow> sslInit" where
  "sessionFor L tranId t citizen =
     \<lparr>in_total_amount = taka (st_fee t), in_currency = ''BDT'', in_tran_id = tranId,
      in_success_url = BACKEND_URL L @ ''/api/v1/payments/success'',
      in_fail_url = BACKEND_URL L @ ''/api/v1/payments/fail'',
      in_cancel_url = BACKEND_URL L @ ''/api/v1/payments/cancel'',
      in_ipn_url = BACKEND_URL L @ ''/api/v1/payments/ipn'',
      in_product_name = st_name t, in_cus_name = u_name citizen, in_cus_email = u_email citizen,
      in_cus_phone = (case u_phone citizen of None \<Rightarrow> ''01700000000'' | Some n \<Rightarrow> n)\<rparr>"

record initiated =
  ini_paymentId :: string
  ini_transactionId :: string
  ini_paymentUrl :: string

definition pageUrl :: "sslInitResponse option \<Rightarrow> string option" where
  "pageUrl response =
     (case response of None \<Rightarrow> None
      | Some r \<Rightarrow> (case ir_GatewayPageURL r of None \<Rightarrow> None
                   | Some u \<Rightarrow> if u = [] then None else Some u))"

definition failedReason :: "sslInitResponse option \<Rightarrow> string" where
  "failedReason response =
     (case (case response of None \<Rightarrow> None | Some r \<Rightarrow> ir_failedreason r) of
        None \<Rightarrow> ''Gateway did not return a URL'' | Some m \<Rightarrow> m)"

definition initiate :: "lib \<Rightarrow> gateway \<Rightarrow> string \<Rightarrow> string \<Rightarrow> ctx \<Rightarrow> initiated act" where
  "initiate L G userId serviceRequestId cx =
     thenM (assertGatewayConfigured L)
     (bindM (getsM (\<lambda>w. find (\<lambda>r. sr_id r = serviceRequestId \<and> sr_citizenId r = userId)
                         (liveServiceRequests w))) (\<lambda>found.
      bindM (orThrow (apiError 404 ''Service request not found''
              [det ''NOT_FOUND'' ''Service request not found'']) found) (\<lambda>sr.
      bindM (getsM (\<lambda>w. serviceTypeOf w sr)) (\<lambda>st.
      bindM (orThrow (OtherErr ''serviceType'') st) (\<lambda>t.
      bindM (getsM (\<lambda>w. find (\<lambda>u. u_id u = sr_citizenId sr) (users w))) (\<lambda>cit.
      bindM (orThrow (OtherErr ''citizen'') cit) (\<lambda>citizen.
      thenM (throwIf (sr_status sr \<noteq> SR_PENDING_PAYMENT)
         (apiError 409 ''This request has already been paid or closed''
           [det ''ALREADY_PAID'' (''Current status: '' @ show_sr_status (sr_status sr))]))
      (bindM (getsM clock) (\<lambda>now.
       bindM (randomToken L) (\<lambda>tok.
       let tranId = ''CC-'' @ show_int now @ ''-'' @ tok in
       bindM (insertPayment L tranId serviceRequestId userId (st_fee t)) (\<lambda>payment.
       let response = orNull (gw_init G (sessionFor L tranId t citizen)) in
       case pageUrl response of
         None \<Rightarrow>
           thenM (updatePayment (p_id payment) (\<lambda>p. p\<lparr>p_status := FAILED\<rparr>))
             (throwM (apiError 502 ''Payment gateway error''
                [det ''GATEWAY_ERROR'' (failedReason response)]))
       | Some url \<Rightarrow>
           thenM (transaction
             (audit L (Some userId) ''PAYMENT_INITIATED'' ''Payment'' (p_id payment) None
               (Some (JObj [(''transactionId'', JStr tranId),
                            (''amount'', JStr (decStr L (p_amount payment)))])) (Some cx)))
           (returnM \<lparr>ini_paymentId = p_id payment, ini_transactionId = tranId,
                      ini_paymentUrl = url\<rparr>))))))))))))"

section \<open>Callbacks\<close>

definition recordEvent :: "lib \<Rightarrow> string \<Rightarrow> json \<Rightarrow> string \<Rightarrow> unit act" where
  "recordEvent L source payload ip =
     (let transactionId = textOr L ''unknown'' (jget ''tran_id'' payload) in
      bindM (getsM (findByTran transactionId)) (\<lambda>payment.
      bindM (freshId L) (\<lambda>i.
      bindM (getsM clock) (\<lambda>now.
      thenM (insertRow paymentEvents_update
        \<lparr>pe_id = i, pe_paymentId = map_option p_id payment, pe_transactionId = transactionId,
         pe_source = source, pe_payload = payload, pe_signatureOk = False, pe_processed = False,
         pe_ip = Some ip, pe_createdAt = now\<rparr>)
        (returnM ())))))"

text \<open>The gateway's own answer, compared field by field with the stored row.\<close>

definition validationOk :: "lib \<Rightarrow> payment \<Rightarrow> string \<Rightarrow> json option \<Rightarrow> bool" where
  "validationOk L payment tranId validation =
     (case validation of
        None \<Rightarrow> False
      | Some v \<Rightarrow>
          jsString L (jget ''status'' v) \<in> {''VALID'', ''VALIDATED''} \<and>
          jget ''tran_id'' v = Some (JStr tranId) \<and>
          (case jget ''amount'' v of
             None \<Rightarrow> False
           | Some a \<Rightarrow> jsNumber L a = Some (taka (p_amount payment))) \<and>
          jsString L (jget ''currency'' v) = p_currency payment)"

text \<open>The partial unique index \<open>payment_one_success_uq\<close>.\<close>

definition pendingRow :: "payment \<Rightarrow> payment \<Rightarrow> bool" where
  "pendingRow payment p \<longleftrightarrow> p_id p = p_id payment \<and> p_status p = PENDING"

definition oneSuccess :: "payment \<Rightarrow> world \<Rightarrow> exn option" where
  "oneSuccess payment w =
     (if \<exists>p \<in> set (payments w). pendingRow payment p \<and>
           (\<exists>q \<in> set (payments w). p_status q = SUCCESS \<and> p_serviceRequestId q = p_serviceRequestId p)
      then Some (PrismaKnown ''P2002'' [''serviceRequestId'']) else None)"

definition markPaid :: "string \<Rightarrow> json \<Rightarrow> instant \<Rightarrow> payment \<Rightarrow> payment" where
  "markPaid valId validation now p =
     p\<lparr>p_status := SUCCESS, p_valId := Some valId, p_paidAt := Some now,
        p_gatewayResponse := Some validation, p_updatedAt := now\<rparr>"

text \<open>
  Whoever gets here first flips the row; the loser's transaction writes nothing. \<open>tranId\<close> is the
  transaction id the payment was found by.
\<close>

definition confirmCommit :: "lib \<Rightarrow> string \<Rightarrow> json \<Rightarrow> payment \<Rightarrow> bool act" where
  "confirmCommit L valId validation payment =
     transaction
       (bindM (getsM clock) (\<lambda>now.
        thenM (guardM (oneSuccess payment))
        (bindM (updateMany payments payments_update (pendingRow payment) (markPaid valId validation now))
          (\<lambda>count.
         if count = 0 then returnM False
         else
           thenM (updateRequest (p_serviceRequestId payment) (\<lambda>r. r\<lparr>sr_status := SR_PAID\<rparr>))
           (thenM (audit L (Some (p_userId payment)) ''PAYMENT_SUCCESS'' ''Payment'' (p_id payment) None
              (Some (JObj [(''transactionId'', JStr (p_transactionId payment)),
                           (''amount'', JStr (decStr L (p_amount payment)))])) None)
           (thenM (notify L (p_userId payment) ''Payment received''
              (''Transaction '' @ p_transactionId payment @ '' completed successfully'')
              (Some (JObj [(''paymentId'', JStr (p_id payment))])))
           (thenM (updateMany paymentEvents paymentEvents_update
              (\<lambda>e. pe_transactionId e = p_transactionId payment \<and> \<not> pe_processed e)
              (\<lambda>e. e\<lparr>pe_processed := True, pe_signatureOk := True\<rparr>))
            (returnM True))))))))"

definition receiptFor :: "lib \<Rightarrow> payment \<Rightarrow> serviceRequest \<Rightarrow> serviceType \<Rightarrow> user \<Rightarrow> instant \<Rightarrow> receiptData" where
  "receiptFor L p r t u paidAt =
     \<lparr>rd_transactionId = p_transactionId p, rd_referenceNo = sr_referenceNo r,
      rd_serviceName = st_name t, rd_amount = decStr L (p_amount p), rd_currency = p_currency p,
      rd_payerName = u_name u, rd_payerEmail = u_email u, rd_paidAt = paidAt\<rparr>"

definition mailReceipt ::
  "lib \<Rightarrow> gateway \<Rightarrow> payment \<Rightarrow> serviceRequest \<Rightarrow> serviceType \<Rightarrow> user \<Rightarrow> unit act" where
  "mailReceipt L G p r t u =
     dispatchEmail (bindM (getsM clock) (\<lambda>now.
       let pdf = orNull (renderReceipt G (receiptFor L p r t u now));
           receiptUrl = (case pdf of None \<Rightarrow> None | Some b \<Rightarrow> storeReceipt G b)
       in sendReceiptEmail L (u_email u) (p_transactionId p) (decStr L (p_amount p)) (st_name t)
            (sr_referenceNo r) receiptUrl pdf))"

text \<open>The payment with the rows the query includes.\<close>

definition withRelations ::
  "payment \<Rightarrow> (serviceRequest \<times> serviceType \<times> user) act" where
  "withRelations p =
     bindM (getsM (\<lambda>w. requestOf w p)) (\<lambda>r'.
     bindM (orThrow (OtherErr ''serviceRequest'') r') (\<lambda>r.
     bindM (getsM (\<lambda>w. serviceTypeOf w r)) (\<lambda>t'.
     bindM (orThrow (OtherErr ''serviceType'') t') (\<lambda>t.
     bindM (getsM (\<lambda>w. payerOf w p)) (\<lambda>u'.
     bindM (orThrow (OtherErr ''user'') u') (\<lambda>u.
       returnM (r, t, u)))))))"

definition confirm :: "lib \<Rightarrow> gateway \<Rightarrow> string \<Rightarrow> string \<Rightarrow> payment act" where
  "confirm L G tranId valId =
     bindM (getsM (findByTran tranId)) (\<lambda>found.
     bindM (orThrow (apiError 404 ''Payment not found'' [det ''NOT_FOUND'' ''Payment not found'']) found)
       (\<lambda>payment.
     bindM (withRelations payment) (\<lambda>rel.
     case rel of (r, t, u) \<Rightarrow>
     if p_status payment = SUCCESS then returnM payment
     else
       thenM (assertGatewayConfigured L)
       (let validation = orNull (gw_validate G valId) in
        if \<not> validationOk L payment tranId validation
        then thenM (incCounter ''citycare_payments_total:invalid'')
               (throwM (apiError 400 ''Payment validation failed''
                  [det ''VALIDATION_ERROR'' ''Payment validation failed'']))
        else
          bindM (confirmCommit L valId (the validation) payment) (\<lambda>confirmed.
          if \<not> confirmed then returnM payment
          else thenM (incCounter ''citycare_payments_total:success'')
               (thenM (mailReceipt L G payment r t u)
               (returnM payment)))))))"

definition lower_status :: "pay_status \<Rightarrow> string" where
  "lower_status s = js_lower (show_pay_status s)"

definition markTerminal :: "string \<Rightarrow> pay_status \<Rightarrow> unit act" where
  "markTerminal tranId status =
     bindM (getsM clock) (\<lambda>now.
     bindM (updateMany payments payments_update
        (\<lambda>p. p_transactionId p = tranId \<and> p_status p = PENDING)
        (\<lambda>p. p\<lparr>p_status := status, p_updatedAt := now\<rparr>)) (\<lambda>count.
     whenM (0 < count) (incCounter (''citycare_payments_total:'' @ lower_status status))))"

section \<open>The callback endpoints\<close>

text \<open>
  The handlers of \<^verbatim>\<open>payment.controller.ts\<close>: the body with the query laid over it is recorded raw,
  then verified or marked. The redirect is answered as its URL.
\<close>

definition spreadOver :: "(string \<times> json) list \<Rightarrow> (string \<times> json) list \<Rightarrow> json" where
  "spreadOver body query =
     JObj (map (\<lambda>(k, v). (k, case map_of query k of None \<Rightarrow> v | Some v' \<Rightarrow> v')) body @
           filter (\<lambda>(k, _). map_of body k = None) query)"

definition unreserved :: "char \<Rightarrow> bool" where
  "unreserved c \<longleftrightarrow>
     (let n = of_char c :: nat in
      48 \<le> n \<and> n \<le> 57 \<or> 65 \<le> n \<and> n \<le> 90 \<or> 97 \<le> n \<and> n \<le> 122) \<or> c \<in> set ''-_.!~*'' \<or>
      c = CHR 0x27 \<or> c = CHR ''('' \<or> c = CHR '')''"

definition hexDigit :: "nat \<Rightarrow> char" where
  "hexDigit n = ''0123456789ABCDEF'' ! (n mod 16)"

definition encodeURIComponent :: "string \<Rightarrow> string" where
  "encodeURIComponent s =
     concat (map (\<lambda>c. if unreserved c then [c]
                      else [CHR ''%'', hexDigit (of_char c div 16), hexDigit (of_char c mod 16)]) s)"

definition resultUrl :: "lib \<Rightarrow> string \<Rightarrow> string \<Rightarrow> string" where
  "resultUrl L status tranId =
     hd (split_on (CHR '','') (CLIENT_URL L)) @ ''/payments/result?status='' @ status @ ''&tranId='' @
     encodeURIComponent tranId"

definition successCallback ::
  "lib \<Rightarrow> gateway \<Rightarrow> (string \<times> json) list \<Rightarrow> (string \<times> json) list \<Rightarrow> string \<Rightarrow> string act" where
  "successCallback L G body query ip =
     (let payload = spreadOver body query in
      thenM (recordEvent L ''SUCCESS_CALLBACK'' payload ip)
      (let tranId = textOr L [] (jget ''tran_id'' payload);
           valId = textOr L [] (jget ''val_id'' payload)
       in thenM (confirm L G tranId valId) (returnM (resultUrl L ''success'' tranId))))"

definition failCallback ::
  "lib \<Rightarrow> (string \<times> json) list \<Rightarrow> (string \<times> json) list \<Rightarrow> string \<Rightarrow> string act" where
  "failCallback L body query ip =
     (let payload = spreadOver body query in
      thenM (recordEvent L ''FAIL_CALLBACK'' payload ip)
      (let tranId = textOr L [] (jget ''tran_id'' payload)
       in thenM (markTerminal tranId FAILED) (returnM (resultUrl L ''failed'' tranId))))"

definition cancelCallback ::
  "lib \<Rightarrow> (string \<times> json) list \<Rightarrow> (string \<times> json) list \<Rightarrow> string \<Rightarrow> string act" where
  "cancelCallback L body query ip =
     (let payload = spreadOver body query in
      thenM (recordEvent L ''CANCEL_CALLBACK'' payload ip)
      (let tranId = textOr L [] (jget ''tran_id'' payload)
       in thenM (markTerminal tranId PAY_CANCELLED) (returnM (resultUrl L ''cancelled'' tranId))))"

definition ipn ::
  "lib \<Rightarrow> gateway \<Rightarrow> (string \<times> json) list \<Rightarrow> (string \<times> json) list \<Rightarrow> string \<Rightarrow> string act" where
  "ipn L G body query ip =
     (let payload = spreadOver body query in
      thenM (recordEvent L ''IPN'' payload ip)
      (let tranId = textOr L [] (jget ''tran_id'' payload);
           valId = textOr L [] (jget ''val_id'' payload)
       in thenM (confirm L G tranId valId) (returnM tranId)))"

section \<open>Reads\<close>

text \<open>\<open>publicPayment\<close>: the amount leaves as a string.\<close>

record paymentView =
  pv_id :: string
  pv_transactionId :: string
  pv_amount :: string
  pv_currency :: string
  pv_status :: pay_status
  pv_paidAt :: "instant option"
  pv_createdAt :: instant

definition publicPayment :: "lib \<Rightarrow> payment \<Rightarrow> paymentView" where
  "publicPayment L p =
     \<lparr>pv_id = p_id p, pv_transactionId = p_transactionId p, pv_amount = decStr L (p_amount p),
      pv_currency = p_currency p, pv_status = p_status p, pv_paidAt = p_paidAt p,
      pv_createdAt = p_createdAt p\<rparr>"

record paymentRequestView =
  pq_id :: string
  pq_referenceNo :: string
  pq_status :: sr_status
  pq_serviceType :: "string option"

definition paymentRequestOf :: "world \<Rightarrow> payment \<Rightarrow> paymentRequestView option" where
  "paymentRequestOf w p =
     map_option (\<lambda>r. \<lparr>pq_id = sr_id r, pq_referenceNo = sr_referenceNo r, pq_status = sr_status r,
         pq_serviceType = map_option st_name (serviceTypeOf w r)\<rparr>) (requestOf w p)"

definition listMyPayments ::
  "lib \<Rightarrow> string \<Rightarrow> int option \<Rightarrow> int option \<Rightarrow>
   ((paymentView \<times> paymentRequestView option) list \<times> meta) act" where
  "listMyPayments L userId page limit =
     (let pagination = getPagination page limit in
      getsM (\<lambda>w. let rows = filter (\<lambda>p. p_userId p = userId) (payments w) in
        (map (\<lambda>p. (publicPayment L p, paymentRequestOf w p))
           (pageRows pagination (orderRows p_createdAt False rows)),
         buildMeta pagination (length rows))))"

definition paymentForReader :: "string \<Rightarrow> actor \<Rightarrow> payment act" where
  "paymentForReader i a =
     bindM (getsM (findPayment i)) (\<lambda>found.
     bindM (orThrow noPayment found) (\<lambda>payment.
     thenM (throwIf (a_role a \<noteq> ADMIN \<and> p_userId payment \<noteq> a_id a) notPayer)
       (returnM payment)))"

text \<open>
  \<open>publicPayment\<close> spreads the row it is given, here the whole row with the gateway's answer,
  and only its amount is turned into a string.
\<close>

record paymentDetail =
  pd_payment :: payment
  pd_amount :: string
  pd_request :: "(string \<times> sr_status) option"
  pd_refund :: "(refund \<times> string) option"

definition getPayment :: "lib \<Rightarrow> string \<Rightarrow> actor \<Rightarrow> paymentDetail act" where
  "getPayment L i a =
     bindM (paymentForReader i a) (\<lambda>payment.
     getsM (\<lambda>w. \<lparr>pd_payment = payment, pd_amount = decStr L (p_amount payment),
       pd_request = map_option (\<lambda>r. (sr_referenceNo r, sr_status r)) (requestOf w payment),
       pd_refund = map_option (\<lambda>r. (r, decStr L (rf_amount r))) (refundOf w payment)\<rparr>))"

definition getReceipt :: "lib \<Rightarrow> gateway \<Rightarrow> string \<Rightarrow> actor \<Rightarrow> (string \<times> string) act" where
  "getReceipt L G i a =
     bindM (paymentForReader i a) (\<lambda>payment.
     thenM (throwIf (p_status payment \<noteq> SUCCESS)
       (apiError 409 ''Only a completed payment has a receipt''
         [det ''CONFLICT'' (''Current status: '' @ show_pay_status (p_status payment))]))
     (bindM (withRelations payment) (\<lambda>rel. case rel of (r, t, u) \<Rightarrow>
      bindM (liftE (renderReceipt G (receiptFor L payment r t u
         (case p_paidAt payment of None \<Rightarrow> p_updatedAt payment | Some m \<Rightarrow> m)))) (\<lambda>pdf.
      returnM (pdf, ''CityCare-receipt-'' @ p_transactionId payment @ ''.pdf'')))))"

section \<open>Refunds\<close>

fun show_refund_status :: "refund_status \<Rightarrow> string" where
  "show_refund_status REQUESTED = ''REQUESTED''"
| "show_refund_status APPROVED = ''APPROVED''"
| "show_refund_status PROCESSED = ''PROCESSED''"
| "show_refund_status RF_REJECTED = ''REJECTED''"

definition insertRefund :: "lib \<Rightarrow> string \<Rightarrow> paisa \<Rightarrow> string \<Rightarrow> string \<Rightarrow> refund act" where
  "insertRefund L paymentId amount reason requestedById =
     bindM (freshId L) (\<lambda>i. bindM (getsM clock) (\<lambda>now.
       thenM (throwIf (amount \<le> 0) (DbCheck ''refund_amount_ck''))
       (thenM (guardM (uniqueBy refunds (\<lambda>r. rf_paymentId r = paymentId) [''paymentId'']))
         (insertRow refunds_update
           \<lparr>rf_id = i, rf_paymentId = paymentId, rf_amount = amount, rf_reason = reason,
            rf_status = REQUESTED, rf_requestedById = requestedById, rf_approvedById = None,
            rf_gatewayRefId = None, rf_processedAt = None, rf_createdAt = now\<rparr>))))"

definition requestRefund ::
  "lib \<Rightarrow> string \<Rightarrow> string \<Rightarrow> actor \<Rightarrow> ctx \<Rightarrow> (refund \<times> string) act" where
  "requestRefund L paymentId reason a cx =
     bindM (getsM (findPayment paymentId)) (\<lambda>found.
     bindM (orThrow noPayment found) (\<lambda>payment.
     bindM (getsM (\<lambda>w. refundOf w payment)) (\<lambda>existing.
     thenM (throwIf (p_status payment \<noteq> SUCCESS)
       (apiError 409 ''Only a successful payment can be refunded''
         [det ''CONFLICT'' (''Current status: '' @ show_pay_status (p_status payment))]))
     (thenM (case existing of
         None \<Rightarrow> returnM ()
       | Some r \<Rightarrow> throwM (apiError 409 ''A refund has already been requested''
           [det ''CONFLICT'' (''Refund status: '' @ show_refund_status (rf_status r))]))
     (transaction
       (bindM (insertRefund L paymentId (p_amount payment) reason (a_id a)) (\<lambda>refund.
        thenM (audit L (Some (a_id a)) ''PAYMENT_REFUND_REQUESTED'' ''Payment'' paymentId None
           (Some (JObj [(''refundId'', JStr (rf_id refund)), (''reason'', JStr reason)])) (Some cx))
        (returnM (refund, decStr L (rf_amount refund))))))))))"

definition bankTranId :: "lib \<Rightarrow> payment \<Rightarrow> string" where
  "bankTranId L payment =
     (case p_gatewayResponse payment of
        None \<Rightarrow> []
      | Some v \<Rightarrow> textOr L [] (jget ''bank_tran_id'' v))"

text \<open>What is checked before the gateway is asked.\<close>

definition approveGuard :: "lib \<Rightarrow> string \<Rightarrow> (payment \<times> refund) act" where
  "approveGuard L paymentId =
     thenM (assertGatewayConfigured L)
     (bindM (getsM (findPayment paymentId)) (\<lambda>found.
      bindM (getsM (\<lambda>w. case found of None \<Rightarrow> None
                       | Some p \<Rightarrow> map_option (\<lambda>r. (p, r)) (refundOf w p))) (\<lambda>both.
      bindM (orThrow (apiError 404 ''Refund request not found'' [detC ''NOT_FOUND'']) both) (\<lambda>pr.
      thenM (throwIf (rf_status (snd pr) \<noteq> REQUESTED)
        (apiError 409 ''This refund has already been processed''
          [det ''CONFLICT'' (''Refund status: '' @ show_refund_status (rf_status (snd pr)))]))
      (thenM (throwIf (bankTranId L (fst pr) = [])
        (apiError 409 ''Gateway transaction reference is missing''
          [det ''CONFLICT'' ''bank_tran_id was not stored for this payment'']))
      (returnM pr))))))"

definition refundAsked :: "lib \<Rightarrow> payment \<Rightarrow> refund \<Rightarrow> sslRefund" where
  "refundAsked L payment r =
     \<lparr>ri_refund_amount = taka (p_amount payment), ri_refund_remarks = take 255 (rf_reason r),
      ri_bank_tran_id = bankTranId L payment, ri_refe_id = p_transactionId payment\<rparr>"

definition refundRefused :: "sslRefundResponse option \<Rightarrow> bool" where
  "refundRefused result =
     (case result of None \<Rightarrow> True | Some r \<Rightarrow> rr_APIConnect r \<noteq> Some ''DONE'')"

definition refusedReason :: "sslRefundResponse option \<Rightarrow> string" where
  "refusedReason result =
     (case (case result of None \<Rightarrow> None | Some r \<Rightarrow> rr_errorReason r) of
        None \<Rightarrow> ''Gateway refused the refund'' | Some m \<Rightarrow> m)"

definition updateRefund :: "string \<Rightarrow> (refund \<Rightarrow> refund) \<Rightarrow> refund act" where
  "updateRefund paymentId f = updateRow refunds refunds_update (\<lambda>r. rf_paymentId r = paymentId) f"

definition approveCommit ::
  "lib \<Rightarrow> string \<Rightarrow> actor \<Rightarrow> ctx \<Rightarrow> payment \<Rightarrow> string option \<Rightarrow> refund act" where
  "approveCommit L paymentId a cx payment gatewayRef =
     transaction
       (bindM (getsM clock) (\<lambda>now.
        bindM (updateRefund paymentId (\<lambda>r. r\<lparr>rf_status := PROCESSED, rf_approvedById := Some (a_id a),
            rf_gatewayRefId := gatewayRef, rf_processedAt := Some now\<rparr>)) (\<lambda>updated.
        thenM (updatePayment paymentId (\<lambda>p. p\<lparr>p_status := REFUNDED\<rparr>))
        (thenM (updateRequest (p_serviceRequestId payment) (\<lambda>r. r\<lparr>sr_status := SR_CANCELLED\<rparr>))
        (thenM (audit L (Some (a_id a)) ''PAYMENT_REFUNDED'' ''Payment'' paymentId
           (Some (JObj [(''status'', JStr (show_pay_status (p_status payment)))]))
           (Some (JObj ((''status'', JStr ''REFUNDED'') #
              (case gatewayRef of None \<Rightarrow> [] | Some g \<Rightarrow> [(''gatewayRefId'', JStr g)])))) (Some cx))
        (thenM (notify L (p_userId payment) ''Payment refunded''
           (''Transaction '' @ p_transactionId payment @ '' has been refunded'')
           (Some (JObj [(''paymentId'', JStr paymentId)])))
        (returnM updated)))))))"

definition approveRefund ::
  "lib \<Rightarrow> gateway \<Rightarrow> string \<Rightarrow> actor \<Rightarrow> ctx \<Rightarrow> (refund \<times> string) act" where
  "approveRefund L G paymentId a cx =
     bindM (approveGuard L paymentId) (\<lambda>pr.
     let result = orNull (gw_initiateRefund G (refundAsked L (fst pr) (snd pr))) in
     if refundRefused result
     then throwM (apiError 502 ''Refund could not be processed by the gateway''
            [det ''GATEWAY_ERROR'' (refusedReason result)])
     else
       bindM (approveCommit L paymentId a cx (fst pr)
                (case result of None \<Rightarrow> None | Some r \<Rightarrow> rr_refund_ref_id r)) (\<lambda>refund.
       thenM (incCounter ''citycare_payments_total:refunded'')
         (returnM (refund, decStr L (rf_amount refund)))))"

end
