(* ===== verification/PaymentInv.thy ===== *)
theory PaymentInv
  imports Payment
begin

text \<open>
  Runs of the payment and service-request modules: their handlers one after another in any
  order, with time passing in between, and the invariant every run keeps. The invariant ties
  three tables together: what a payment says, what its refund says and how far its service
  request has come.
\<close>

section \<open>Runs\<close>

inductive payment_step :: "lib \<Rightarrow> world \<Rightarrow> world \<Rightarrow> bool" for L where
  pay_request: "payment_step L w (snd (createRequest L input a cx w))"
| pay_process: "payment_step L w (snd (updateSrStatus L i uinput a cx w))"
| pay_document: "payment_step L w (snd (addDocument L i label up a w))"
| pay_initiate: "payment_step L w (snd (initiate L G u i cx w))"
| pay_success: "payment_step L w (snd (successCallback L G body query ip w))"
| pay_fail: "payment_step L w (snd (failCallback L body query ip w))"
| pay_cancel: "payment_step L w (snd (cancelCallback L body query ip w))"
| pay_ipn: "payment_step L w (snd (ipn L G body query ip w))"
| pay_ask: "payment_step L w (snd (requestRefund L i reason a cx w))"
| pay_approve: "payment_step L w (snd (approveRefund L G i a cx w))"
| pay_tick: "0 \<le> d \<Longrightarrow> payment_step L w (w\<lparr>clock := clock w + d\<rparr>)"

definition payment_run :: "lib \<Rightarrow> world \<Rightarrow> world \<Rightarrow> bool" where
  "payment_run L = (payment_step L)\<^sup>*\<^sup>*"

section \<open>The books are good\<close>

text \<open>A successful payment was validated by the gateway for its own id, amount and currency.\<close>

definition settled :: "lib \<Rightarrow> payment \<Rightarrow> bool" where
  "settled L p \<longleftrightarrow> p_paidAt p \<noteq> None \<and> p_valId p \<noteq> None \<and>
     validationOk L p (p_transactionId p) (p_gatewayResponse p)"

definition paymentOk :: "lib \<Rightarrow> refund list \<Rightarrow> payment \<Rightarrow> bool" where
  "paymentOk L rs p \<longleftrightarrow> 0 < p_amount p \<and>
     (p_status p \<in> {SUCCESS, REFUNDED} \<longrightarrow> settled L p) \<and>
     (p_status p = REFUNDED \<longrightarrow> (\<exists>r \<in> set rs. rf_paymentId r = p_id p \<and> rf_status r = PROCESSED))"

definition refundOk :: "payment list \<Rightarrow> refund \<Rightarrow> bool" where
  "refundOk ps r \<longleftrightarrow> (\<exists>p \<in> set ps. p_id p = rf_paymentId r \<and> rf_amount r = p_amount p \<and>
     (rf_status r = REQUESTED \<and> p_status p = SUCCESS \<and> rf_approvedById r = None \<or>
      rf_status r = PROCESSED \<and> p_status p = REFUNDED \<and> rf_approvedById r \<noteq> None))"

text \<open>The money of a request that is paid for or further is in.\<close>

definition requestOk :: "payment list \<Rightarrow> serviceRequest \<Rightarrow> bool" where
  "requestOk ps q \<longleftrightarrow>
     (sr_status q \<in> {SR_PAID, SR_PROCESSING, SR_COMPLETED, SR_REJECTED} \<longrightarrow>
        (\<exists>p \<in> set ps. p_serviceRequestId p = sr_id q \<and> p_status p = SUCCESS))"

definition oneOk :: "payment list \<Rightarrow> bool" where
  "oneOk ps \<longleftrightarrow> (\<forall>p \<in> set ps. \<forall>q \<in> set ps. p_status p = SUCCESS \<and> p_status q = SUCCESS \<and>
     p_serviceRequestId p = p_serviceRequestId q \<longrightarrow> p_id p = p_id q)"

lemma oneOkI:
  assumes "\<And>p q. p \<in> set ps \<Longrightarrow> q \<in> set ps \<Longrightarrow> p_status p = SUCCESS \<Longrightarrow> p_status q = SUCCESS \<Longrightarrow>
     p_serviceRequestId p = p_serviceRequestId q \<Longrightarrow> p_id p = p_id q"
  shows "oneOk ps"
  unfolding oneOk_def by (intro ballI impI) (elim conjE, rule assms)

lemma oneOkD:
  assumes "oneOk ps" and "p \<in> set ps" and "q \<in> set ps" and "p_status p = SUCCESS"
    and "p_status q = SUCCESS" and "p_serviceRequestId p = p_serviceRequestId q"
  shows "p_id p = p_id q"
  using assms unfolding oneOk_def by blast

definition keyed :: "lib \<Rightarrow> nat \<Rightarrow> ('r \<Rightarrow> string) \<Rightarrow> 'r list \<Rightarrow> bool" where
  "keyed L n key rows \<longleftrightarrow>
     distinct (map key rows) \<and> (\<forall>r \<in> set rows. \<exists>k<n. key r = uuidTape L k)"

definition booksGood ::
  "lib \<Rightarrow> nat \<Rightarrow> payment list \<Rightarrow> refund list \<Rightarrow> serviceRequest list \<Rightarrow> bool" where
  "booksGood L n ps rs qs \<longleftrightarrow> keyed L n p_id ps \<and> keyed L n sr_id qs \<and>
     distinct (map rf_paymentId rs) \<and> (\<forall>p \<in> set ps. paymentOk L rs p) \<and>
     (\<forall>r \<in> set rs. refundOk ps r) \<and> (\<forall>q \<in> set qs. requestOk ps q) \<and> oneOk ps"

definition books_inv :: "lib \<Rightarrow> world \<Rightarrow> bool" where
  "books_inv L w \<longleftrightarrow> booksGood L (uuidPos w) (payments w) (refunds w) (serviceRequests w)"

text \<open>What may become of a payment: it leaves PENDING once, and SUCCESS only for REFUNDED.\<close>

definition statusLe :: "pay_status \<Rightarrow> pay_status \<Rightarrow> bool" where
  "statusLe s t \<longleftrightarrow> s = t \<or> s = PENDING \<or> s = SUCCESS \<and> t = REFUNDED"

definition payEdge :: "payment \<Rightarrow> payment \<Rightarrow> bool" where
  "payEdge p p' \<longleftrightarrow> statusLe (p_status p) (p_status p') \<and> p_id p' = p_id p \<and>
     p_transactionId p' = p_transactionId p \<and> p_amount p' = p_amount p \<and>
     p_currency p' = p_currency p \<and> p_userId p' = p_userId p \<and>
     p_serviceRequestId p' = p_serviceRequestId p"

lemma statusLe_refl [simp]: "statusLe s s"
  by (simp add: statusLe_def)

lemma statusLe_trans: "statusLe s t \<Longrightarrow> statusLe t u \<Longrightarrow> statusLe s u"
  by (auto simp: statusLe_def)

lemma payEdge_refl [simp]: "payEdge p p"
  by (simp add: payEdge_def)

lemma payEdge_trans: "payEdge p q \<Longrightarrow> payEdge q r \<Longrightarrow> payEdge p r"
  by (auto simp: payEdge_def intro: statusLe_trans)

definition paymentsGrow :: "payment list \<Rightarrow> payment list \<Rightarrow> bool" where
  "paymentsGrow ps ps' \<longleftrightarrow>
     length ps \<le> length ps' \<and> list_all2 payEdge ps (take (length ps) ps')"

lemma paymentsGrow_refl [simp]: "paymentsGrow ps ps"
  by (simp add: paymentsGrow_def list_all2_same)

lemma paymentsGrow_trans:
  assumes "paymentsGrow ps qs" and "paymentsGrow qs rs"
  shows "paymentsGrow ps rs"
proof -
  have "list_all2 payEdge (take (length ps) qs) (take (length ps) (take (length qs) rs))"
    using assms by (intro list_all2_takeI) (simp add: paymentsGrow_def)
  then have "list_all2 payEdge ps (take (length ps) rs)"
    using assms by (auto simp: paymentsGrow_def min_def intro: list_all2_trans [OF payEdge_trans])
  then show ?thesis using assms by (simp add: paymentsGrow_def)
qed

lemma paymentsGrow_append: "paymentsGrow ps (ps @ new)"
  by (simp add: paymentsGrow_def list_all2_same)

lemma paymentsGrow_map:
  assumes "\<And>p. p \<in> set ps \<Longrightarrow> payEdge p (f p)"
  shows "paymentsGrow ps (map f ps)"
  using assms by (simp add: paymentsGrow_def list_all2_map2 list_all2_same)

lemma paymentsGrow_nth:
  assumes "paymentsGrow ps ps'" and "k < length ps"
  shows "k < length ps'" and "payEdge (ps ! k) (ps' ! k)"
  using assms by (auto simp: paymentsGrow_def list_all2_conv_all_nth)

text \<open>A step keeps the invariant, and under it only moves payments along their edges.\<close>

definition booksStep :: "lib \<Rightarrow> world \<Rightarrow> world \<Rightarrow> bool" where
  "booksStep L w w' \<longleftrightarrow> uuidPos w \<le> uuidPos w' \<and>
     (books_inv L w \<longrightarrow> books_inv L w' \<and> paymentsGrow (payments w) (payments w'))"

lemma keyed_mono: "keyed L n key rows \<Longrightarrow> n \<le> m \<Longrightarrow> keyed L m key rows"
  unfolding keyed_def by (meson less_le_trans)

lemma booksGood_mono: "booksGood L n ps rs qs \<Longrightarrow> n \<le> m \<Longrightarrow> booksGood L m ps rs qs"
  unfolding booksGood_def by (auto intro: keyed_mono)

interpretation bk: step_preorder "booksStep L" undoTx for L
proof
  fix s t u
  show "booksStep L s s" by (simp add: booksStep_def)
  show "booksStep L s u" if "booksStep L s t" "booksStep L t u"
    using that by (auto simp: booksStep_def intro: paymentsGrow_trans)
  show "booksStep L s (undoTx s t)" if "booksStep L s t"
    using that by (auto simp: booksStep_def books_inv_def intro: booksGood_mono)
qed

lemma booksStep_same:
  assumes "payments w' = payments w" and "refunds w' = refunds w"
    and "serviceRequests w' = serviceRequests w" and "uuidPos w \<le> uuidPos w'"
  shows "booksStep L w w'"
  using assms by (auto simp: booksStep_def books_inv_def intro: booksGood_mono)

section \<open>Moves of the books\<close>

lemma keyed_fresh:
  assumes "keyed L n key rows" and "inj (uuidTape L)" and "n \<le> k"
  shows "uuidTape L k \<notin> key ` set rows"
proof
  assume "uuidTape L k \<in> key ` set rows"
  then obtain r where "r \<in> set rows" "uuidTape L k = key r" by auto
  with assms(1) obtain j where "j < n" "uuidTape L k = uuidTape L j" by (auto simp: keyed_def)
  with injD [OF assms(2)] assms(3) show False by fastforce
qed

lemma keyed_append:
  assumes "keyed L n key rows" and "inj (uuidTape L)" and "key r = uuidTape L n" and "n < m"
  shows "keyed L m key (rows @ [r])"
  using assms keyed_fresh [OF assms(1,2), of n] keyed_mono [OF assms(1), of m]
  by (auto simp: keyed_def)

lemma keyed_keys:
  "keyed L n key rows \<longleftrightarrow>
     distinct (map key rows) \<and> (\<forall>x \<in> set (map key rows). \<exists>k<n. x = uuidTape L k)"
  by (auto simp: keyed_def)

lemma keyed_updateWhere:
  assumes "\<And>r. key (f r) = key r"
  shows "keyed L n key (updateWhere P f rows) = keyed L n key rows"
  using assms by (simp only: keyed_keys map_updateWhere)

text \<open>What the gateway said is compared with the amount and the currency of the row only.\<close>

lemma validationOk_row:
  "p_amount p' = p_amount p \<Longrightarrow> p_currency p' = p_currency p \<Longrightarrow>
   validationOk L p' t v = validationOk L p t v"
  by (simp add: validationOk_def split: option.split)

lemma settled_status [simp]:
  "settled L (p\<lparr>p_status := s, p_updatedAt := t\<rparr>) = settled L p"
  by (simp add: settled_def validationOk_row [of "p\<lparr>p_status := s, p_updatedAt := t\<rparr>" p])

lemma good_append_request:
  assumes "booksGood L n ps rs qs" and "inj (uuidTape L)" and "sr_id q = uuidTape L n"
    and "sr_status q = SR_PENDING_PAYMENT" and "n < m"
  shows "booksGood L m ps rs (qs @ [q])"
proof -
  have "keyed L m sr_id (qs @ [q])" "keyed L m p_id ps"
    using assms by (auto simp: booksGood_def intro: keyed_append keyed_mono)
  moreover have "requestOk ps q" using assms(4) by (simp add: requestOk_def)
  ultimately show ?thesis using assms(1) unfolding booksGood_def by simp
qed

lemma good_append_payment:
  assumes "booksGood L n ps rs qs" and "inj (uuidTape L)" and "p_id p = uuidTape L n"
    and "p_status p \<in> {PENDING, FAILED}" and "0 < p_amount p" and "n < m"
  shows "booksGood L m (ps @ [p]) rs qs"
proof -
  have "keyed L m p_id (ps @ [p])" "keyed L m sr_id qs"
    using assms by (auto simp: booksGood_def intro: keyed_append keyed_mono)
  moreover have "paymentOk L rs p" using assms(4,5) by (auto simp: paymentOk_def)
  moreover have "requestOk (ps @ [p]) q" if "requestOk ps q" for q
    using that by (auto simp: requestOk_def)
  moreover have "refundOk (ps @ [p]) r" if "refundOk ps r" for r
    using that by (auto simp: refundOk_def)
  moreover have "p_status p \<noteq> SUCCESS" using assms(4) by auto
  then have "oneOk (ps @ [p])" if "oneOk ps"
    by (intro oneOkI oneOkD [OF that]) auto
  ultimately show ?thesis using assms(1) unfolding booksGood_def by simp
qed

text \<open>Failing a payment that is still PENDING touches no refund and no paid request.\<close>

lemma good_fail:
  assumes "booksGood L n ps rs qs" and "st \<in> {FAILED, PAY_CANCELLED}"
  shows "booksGood L n (updateWhere (\<lambda>p. P p \<and> p_status p = PENDING)
      (\<lambda>p. p\<lparr>p_status := st, p_updatedAt := now\<rparr>) ps) rs qs"
proof -
  define g where "g p = (if P p \<and> p_status p = PENDING then p\<lparr>p_status := st, p_updatedAt := now\<rparr> else p)" for p
  have eq: "updateWhere (\<lambda>p. P p \<and> p_status p = PENDING) (\<lambda>p. p\<lparr>p_status := st, p_updatedAt := now\<rparr>) ps
      = map g ps" by (simp add: updateWhere_def g_def)
  have g: "p_id (g p) = p_id p" "p_amount (g p) = p_amount p"
    "p_serviceRequestId (g p) = p_serviceRequestId p"
    "p_status (g p) = SUCCESS \<longleftrightarrow> p_status p = SUCCESS"
    "p_status (g p) = REFUNDED \<longleftrightarrow> p_status p = REFUNDED"
    "settled L (g p) = settled L p" for p
    using assms(2) by (auto simp: g_def)
  have "keyed L n p_id (map g ps)"
    using assms(1) by (simp add: booksGood_def keyed_keys g comp_def)
  moreover have "\<forall>p \<in> set (map g ps). paymentOk L rs p"
    using assms(1) by (simp add: booksGood_def paymentOk_def g)
  moreover have "\<forall>r \<in> set rs. refundOk (map g ps) r"
    using assms(1) by (simp add: booksGood_def refundOk_def g)
  moreover have "\<forall>q \<in> set qs. requestOk (map g ps) q"
    using assms(1) by (simp add: booksGood_def requestOk_def g)
  moreover have "oneOk (map g ps)"
  proof -
    have one: "oneOk ps" using assms(1) by (simp add: booksGood_def)
    show ?thesis by (rule oneOkI) (auto simp: g intro: oneOkD [OF one])
  qed
  ultimately show ?thesis using assms(1) unfolding eq booksGood_def by blast
qed

lemma keyed_unique:
  "keyed L n key rows \<Longrightarrow> r \<in> set rows \<Longrightarrow> q \<in> set rows \<Longrightarrow> key r = key q \<Longrightarrow> r = q"
  using distinct_key_unique [of key rows r q] by (simp add: keyed_def)

lemma keyed_map:
  "(\<And>r. key (g r) = key r) \<Longrightarrow> keyed L n key (map g rows) = keyed L n key rows"
  by (simp add: keyed_keys comp_def)

lemma markPaid_row [simp]:
  "p_id (markPaid valId v now p) = p_id p" "p_amount (markPaid valId v now p) = p_amount p"
  "p_currency (markPaid valId v now p) = p_currency p" "p_status (markPaid valId v now p) = SUCCESS"
  "p_serviceRequestId (markPaid valId v now p) = p_serviceRequestId p"
  "p_transactionId (markPaid valId v now p) = p_transactionId p"
  "p_userId (markPaid valId v now p) = p_userId p"
  "p_paidAt (markPaid valId v now p) = Some now" "p_valId (markPaid valId v now p) = Some valId"
  "p_gatewayResponse (markPaid valId v now p) = Some v"
  by (simp_all add: markPaid_def)

text \<open>A validated payment is settled and its request is paid.\<close>

lemma good_settle:
  assumes good: "booksGood L n ps rs qs" and p: "p \<in> set ps" "p_status p = PENDING"
    and valid: "validationOk L p (p_transactionId p) (Some v)"
    and free: "\<And>q. q \<in> set ps \<Longrightarrow> p_status q = SUCCESS \<Longrightarrow> p_serviceRequestId q \<noteq> p_serviceRequestId p"
  shows "booksGood L n (updateWhere (pendingRow p) (markPaid valId v now) ps) rs
     (updateWhere (\<lambda>r. sr_id r = p_serviceRequestId p)
        (\<lambda>r. r\<lparr>sr_status := SR_PAID, sr_updatedAt := t\<rparr>) qs)"
proof -
  define g where "g r = (if r = p then markPaid valId v now p else r)" for r :: payment
  define h where "h r = (if sr_id r = p_serviceRequestId p
      then r\<lparr>sr_status := SR_PAID, sr_updatedAt := t\<rparr> else r)" for r :: serviceRequest
  have keys: "keyed L n p_id ps" using good by (simp add: booksGood_def)
  have "pendingRow p r \<longleftrightarrow> r = p" if "r \<in> set ps" for r
    using keyed_unique [OF keys that p(1)] p(2) by (auto simp: pendingRow_def)
  then have eq: "updateWhere (pendingRow p) (markPaid valId v now) ps = map g ps"
    by (auto simp: updateWhere_def g_def)
  have eqs: "updateWhere (\<lambda>r. sr_id r = p_serviceRequestId p)
      (\<lambda>r. r\<lparr>sr_status := SR_PAID, sr_updatedAt := t\<rparr>) qs = map h qs"
    by (simp add: updateWhere_def h_def)
  have g: "p_id (g r) = p_id r" "p_amount (g r) = p_amount r"
    "p_serviceRequestId (g r) = p_serviceRequestId r" "p_transactionId (g r) = p_transactionId r" for r
    by (auto simp: g_def)
  have st: "p_status (g r) = SUCCESS \<longleftrightarrow> r = p \<or> p_status r = SUCCESS"
    "p_status (g r) = REFUNDED \<longleftrightarrow> p_status r = REFUNDED"
    "p_status r \<noteq> PENDING \<Longrightarrow> g r = r" for r
    using p(2) by (auto simp: g_def)
  have "settled L (g p)"
    using valid validationOk_row [of "markPaid valId v now p" p] by (simp add: settled_def g_def)
  then have "\<forall>r \<in> set (map g ps). paymentOk L rs r"
    using good p(2) by (auto simp: booksGood_def paymentOk_def g st)
  moreover have "refundOk (map g ps) r" if "r \<in> set rs" for r
  proof -
    have "refundOk ps r" using good that by (simp add: booksGood_def)
    then obtain q where q: "q \<in> set ps" "p_id q = rf_paymentId r" "rf_amount r = p_amount q"
      "rf_status r = REQUESTED \<and> p_status q = SUCCESS \<and> rf_approvedById r = None \<or>
       rf_status r = PROCESSED \<and> p_status q = REFUNDED \<and> rf_approvedById r \<noteq> None"
      unfolding refundOk_def by blast
    have "p_status q \<noteq> PENDING" using q(4) by auto
    then have "g q = q" by (rule st(3))
    then have "q \<in> set (map g ps)" using imageI [OF q(1), of g] by simp
    then show ?thesis unfolding refundOk_def using q(2-4) by blast
  qed
  moreover have "requestOk (map g ps) (h q)" if "q \<in> set qs" for q
  proof (cases "sr_id q = p_serviceRequestId p")
    case True
    then show ?thesis using p(1) by (auto simp: requestOk_def h_def g st)
  next
    case False
    have "requestOk ps q" using good that by (simp add: booksGood_def)
    with False show ?thesis by (auto simp: requestOk_def h_def g st)
  qed
  moreover have "oneOk (map g ps)"
  proof -
    have one: "oneOk ps" using good by (simp add: booksGood_def)
    show ?thesis
    proof (rule oneOkI)
      fix a b
      assume ab: "a \<in> set (map g ps)" "b \<in> set (map g ps)" "p_status a = SUCCESS" "p_status b = SUCCESS"
        "p_serviceRequestId a = p_serviceRequestId b"
      then obtain x y where xy: "x \<in> set ps" "a = g x" "y \<in> set ps" "b = g y" by auto
      then have "x = y \<or> p_status x = SUCCESS \<and> p_status y = SUCCESS"
        using ab free [of x] free [of y] by (auto simp: g st)
      then show "p_id a = p_id b"
        using oneOkD [OF one, of x y] xy ab by (auto simp: g)
    qed
  qed
  moreover have "sr_id (h q) = sr_id q" for q by (simp add: h_def)
  ultimately show ?thesis
    using good unfolding eq eqs by (simp add: booksGood_def keyed_map g)
qed

lemma good_ask:
  assumes good: "booksGood L n ps rs qs" and p: "p \<in> set ps" "p_status p = SUCCESS"
    and r: "rf_paymentId r = p_id p" "rf_amount r = p_amount p" "rf_status r = REQUESTED"
      "rf_approvedById r = None"
    and new: "p_id p \<notin> rf_paymentId ` set rs"
  shows "booksGood L n ps (rs @ [r]) qs"
proof -
  have "refundOk ps r" using p r by (auto simp: refundOk_def)
  moreover have "paymentOk L (rs @ [r]) q" if "paymentOk L rs q" for q
    using that by (auto simp: paymentOk_def)
  ultimately show ?thesis using good new r(1) by (simp add: booksGood_def)
qed

text \<open>A requested refund is paid out and its request is cancelled.\<close>

lemma good_repay:
  assumes good: "booksGood L n ps rs qs" and r: "r \<in> set rs" "rf_status r = REQUESTED"
    and p: "p \<in> set ps" "p_id p = rf_paymentId r"
  shows "booksGood L n
     (updateWhere (\<lambda>q. p_id q = rf_paymentId r) (\<lambda>q. q\<lparr>p_status := REFUNDED, p_updatedAt := t\<rparr>) ps)
     (updateWhere (\<lambda>q. rf_paymentId q = rf_paymentId r)
        (\<lambda>q. q\<lparr>rf_status := PROCESSED, rf_approvedById := Some who, rf_gatewayRefId := ref,
               rf_processedAt := Some now\<rparr>) rs)
     (updateWhere (\<lambda>q. sr_id q = p_serviceRequestId p)
        (\<lambda>q. q\<lparr>sr_status := SR_CANCELLED, sr_updatedAt := t\<rparr>) qs)"
    and "p_status p = SUCCESS"
proof -
  have keys: "keyed L n p_id ps" using good by (simp add: booksGood_def)
  obtain p' where "p' \<in> set ps" "p_id p' = rf_paymentId r" "p_status p' = SUCCESS"
    "rf_amount r = p_amount p'"
    using good r by (auto simp: booksGood_def refundOk_def)
  then have ps: "p_status p = SUCCESS" "rf_amount r = p_amount p"
    using keyed_unique [OF keys, of p' p] p by auto
  then show "p_status p = SUCCESS" by simp
  define g where "g q = (if p_id q = p_id p then q\<lparr>p_status := REFUNDED, p_updatedAt := t\<rparr> else q)" for q :: payment
  define f where "f q = (if rf_paymentId q = p_id p
      then q\<lparr>rf_status := PROCESSED, rf_approvedById := Some who, rf_gatewayRefId := ref,
             rf_processedAt := Some now\<rparr> else q)" for q :: refund
  define h where "h q = (if sr_id q = p_serviceRequestId p
      then q\<lparr>sr_status := SR_CANCELLED, sr_updatedAt := t\<rparr> else q)" for q :: serviceRequest
  have same: "q = p" if "q \<in> set ps" "p_id q = p_id p" for q
    using keyed_unique [OF keys that(1) p(1) that(2)] .
  have g: "p_id (g q) = p_id q" "p_amount (g q) = p_amount q" "settled L (g q) = settled L q"
    "p_serviceRequestId (g q) = p_serviceRequestId q"
    "p_status (g q) = SUCCESS \<longleftrightarrow> p_id q \<noteq> p_id p \<and> p_status q = SUCCESS"
    "p_status (g q) = REFUNDED \<longleftrightarrow> p_id q = p_id p \<or> p_status q = REFUNDED" for q
    by (auto simp: g_def)
  have f: "rf_paymentId (f q) = rf_paymentId q" "rf_amount (f q) = rf_amount q" for q
    by (auto simp: f_def)
  have "paymentOk L (map f rs) (g q)" if q: "q \<in> set ps" for q
  proof -
    have ok: "paymentOk L rs q" using good q by (simp add: booksGood_def)
    show ?thesis
    proof (cases "p_id q = p_id p")
      case True
      then have "q = p" using same q by blast
      then show ?thesis
        using ok ps p(2) r(1) by (auto simp: paymentOk_def g f f_def [of r] intro!: bexI [of _ r])
    next
      case False
      have "rf_status (f x) = PROCESSED" if "rf_status x = PROCESSED" for x
        using that by (simp add: f_def)
      with ok False show ?thesis by (auto simp: paymentOk_def g f)
    qed
  qed
  moreover have "refundOk (map g ps) (f x)" if x: "x \<in> set rs" for x
  proof (cases "rf_paymentId x = p_id p")
    case True
    have "distinct (map rf_paymentId rs)" using good by (simp add: booksGood_def)
    then have "x = r" using distinct_key_unique [of rf_paymentId rs x r] x r(1) True p(2) by simp
    then show ?thesis
      using True ps(2) by (auto simp: refundOk_def f_def g intro!: bexI [of _ p] p(1))
  next
    case False
    then have "refundOk ps x" "f x = x" using good x by (auto simp: booksGood_def f_def)
    moreover have "g q = q" if "p_id q = rf_paymentId x" for q using that False by (simp add: g_def)
    ultimately show ?thesis unfolding refundOk_def by (metis imageI set_map)
  qed
  moreover have "requestOk (map g ps) (h q)" if q: "q \<in> set qs" for q
  proof (cases "sr_id q = p_serviceRequestId p")
    case True
    then show ?thesis by (simp add: requestOk_def h_def)
  next
    case False
    have ok: "requestOk ps q" using good q by (simp add: booksGood_def)
    have keep: "x \<in> set (map g ps)" if "x \<in> set ps" "p_serviceRequestId x = sr_id q" for x
    proof -
      have "p_id x \<noteq> p_id p" using same [OF that(1)] that(2) False by auto
      then have "g x = x" by (simp add: g_def)
      then show ?thesis using imageI [OF that(1), of g] by simp
    qed
    have "h q = q" using False by (simp add: h_def)
    with ok show ?thesis unfolding requestOk_def by (auto intro: keep simp del: set_map)
  qed
  moreover have "oneOk (map g ps)"
  proof -
    have one: "oneOk ps" using good by (simp add: booksGood_def)
    show ?thesis by (rule oneOkI) (auto simp: g intro: oneOkD [OF one])
  qed
  moreover have "distinct (map rf_paymentId (map f rs))"
    using good by (simp add: booksGood_def comp_def f)
  moreover have "sr_id (h q) = sr_id q" for q by (simp add: h_def)
  then have "keyed L n p_id (map g ps)" "keyed L n sr_id (map h qs)"
    using good by (simp_all add: booksGood_def keyed_map g)
  ultimately show "booksGood L n
     (updateWhere (\<lambda>q. p_id q = rf_paymentId r) (\<lambda>q. q\<lparr>p_status := REFUNDED, p_updatedAt := t\<rparr>) ps)
     (updateWhere (\<lambda>q. rf_paymentId q = rf_paymentId r)
        (\<lambda>q. q\<lparr>rf_status := PROCESSED, rf_approvedById := Some who, rf_gatewayRefId := ref,
               rf_processedAt := Some now\<rparr>) rs)
     (updateWhere (\<lambda>q. sr_id q = p_serviceRequestId p)
        (\<lambda>q. q\<lparr>sr_status := SR_CANCELLED, sr_updatedAt := t\<rparr>) qs)"
    unfolding updateWhere_def p(2) [symmetric] g_def [symmetric] f_def [symmetric] h_def [symmetric]
    by (simp add: booksGood_def)
qed

text \<open>Processing a request that is paid leaves it paid for.\<close>

lemma good_process:
  assumes good: "booksGood L n ps rs qs" and q: "q \<in> set qs" "sr_status q \<in> {SR_PAID, SR_PROCESSING}"
  shows "booksGood L n ps rs (updateWhere (\<lambda>r. sr_id r = sr_id q)
     (\<lambda>r. r\<lparr>sr_status := st, sr_processedById := who, sr_updatedAt := t\<rparr>) qs)"
proof -
  define h where "h r = (if sr_id r = sr_id q
      then r\<lparr>sr_status := st, sr_processedById := who, sr_updatedAt := t\<rparr> else r)" for r :: serviceRequest
  have "requestOk ps q" using good q by (simp add: booksGood_def)
  then obtain p where p: "p \<in> set ps" "p_serviceRequestId p = sr_id q" "p_status p = SUCCESS"
    using q(2) by (auto simp: requestOk_def)
  have "requestOk ps (h x)" if "x \<in> set qs" for x
  proof (cases "sr_id x = sr_id q")
    case True
    then show ?thesis using p by (auto simp: requestOk_def h_def)
  next
    case False
    then show ?thesis using good that by (simp add: booksGood_def h_def)
  qed
  moreover have "sr_id (h x) = sr_id x" for x by (simp add: h_def)
  ultimately have "booksGood L n ps rs (map h qs)"
    using good by (simp add: booksGood_def keyed_map)
  then show ?thesis unfolding updateWhere_def h_def [symmetric] .
qed

section \<open>Every handler is a step of the books\<close>

lemma bk_small:
  "related (booksStep L) (freshId L)" "related (booksStep L) (audit L a b c d e f g)"
  "related (booksStep L) (notify L u t body m)" "related (booksStep L) (incCounter name)"
  "related (booksStep L) (randomToken L)" "related (booksStep L) (nextReferenceNo)"
proof -
  have "booksStep L w (snd (nextReferenceNo w))" for w
    using nextCounter_frame [of "- utc_year (clock w)" w] run_nextCounter(1) [of "- utc_year (clock w)" w]
    by (auto simp: nextReferenceNo_def eval intro!: booksStep_same split: prod.splits)
  then show "related (booksStep L) nextReferenceNo" by (simp add: related_def)
qed (simp_all add: related_def eval booksStep_same incCounter_def)

lemma bk_ro: "related (=) m \<Longrightarrow> related (booksStep L) m"
  by (simp add: related_def bk.refl)

lemma bk_liftE: "related (booksStep L) (liftE r)"
  by (simp add: liftE_def related_def eval bk.refl split: sum.split)

lemma bk_mail: "related (booksStep L) (mailReceipt L G p r t u)"
  unfolding mailReceipt_def dispatchEmail_def orElse_def sendReceiptEmail_def sendMail_def Let_def
  by (intro bk.rel_intros bk_small) (simp_all add: booksStep_same)

lemma bk_createRequest:
  assumes inj: "inj (uuidTape L)"
  shows "related (booksStep L) (createRequest L input a cx)"
proof -
  have "booksStep L w (snd (insertRequest L no input a w))" for no w
    using good_append_request [OF _ inj, of "uuidPos w" "payments w" "refunds w" "serviceRequests w"]
    by (auto simp: insertRequest_def eval uniqueBy_def booksStep_def books_inv_def newRequest_def
        intro: booksGood_mono)
  then have "related (booksStep L) (insertRequest L no input a)" for no by (simp add: related_def)
  then show ?thesis
    unfolding createRequest_def transaction_def by (intro bk.rel_intros bk_small)
qed

lemma bk_addDocument: "related (booksStep L) (addDocument L i label up a)"
  unfolding addDocument_def requestOrThrow_def
  by (intro bk.rel_intros bk_small bk_liftE) (simp_all add: booksStep_same)

lemma findRequest_Some:
  "findRequest i w = Some q \<Longrightarrow> q \<in> set (serviceRequests w) \<and> sr_id q = i \<and> sr_deletedAt q = None"
  by (auto simp: findRequest_def live_defs dest: find_Some_in)

lemma updateStatusGuard_InrE:
  assumes "updateStatusGuard i input w = (Inr q, w')"
  obtains "w' = w" and "findRequest i w = Some q"
    and "us_status input \<in> set (allowedNext (sr_status q))"
  using assms unfolding updateStatusGuard_def requestOrThrow_def
  by (elim run_elims) auto

lemma allowedNext_from: "s \<in> set (allowedNext r) \<Longrightarrow> r = SR_PAID \<or> r = SR_PROCESSING"
  by (cases r) auto

lemma bk_updateSrStatus: "related (booksStep L) (updateSrStatus L i input a cx)"
  unfolding related_def
proof
  fix w
  have ro: "related (=) (updateStatusGuard i input)"
    unfolding updateStatusGuard_def requestOrThrow_def
    by (intro step_preorder.rel_intros) (unfold_locales, auto)
  show "booksStep L w (snd (updateSrStatus L i input a cx w))"
  proof (cases "updateStatusGuard i input w")
    case (Pair r w1)
    then have w1: "w1 = w" using ro by (auto dest: relatedD)
    show ?thesis
    proof (cases r)
      case (Inl e)
      then show ?thesis using Pair w1 by (simp add: updateSrStatus_def eval bk.refl)
    next
      case (Inr q)
      then have q: "findRequest i w = Some q" "us_status input \<in> set (allowedNext (sr_status q))"
        using Pair by (auto elim: updateStatusGuard_InrE)
      have mem: "q \<in> set (serviceRequests w)" "sr_id q = i" using findRequest_Some [OF q(1)] by auto
      have came: "sr_status q \<in> {SR_PAID, SR_PROCESSING}" using allowedNext_from [OF q(2)] by auto
      have found: "find (\<lambda>r. sr_id r = i) (serviceRequests w) \<noteq> None"
        using mem by (auto simp: find_None_all)
      show ?thesis
        using mem(2) found
        by (auto simp: updateSrStatus_def Pair Inr w1 updateStatusCommit_def updateRequest_def eval
            booksStep_def books_inv_def intro!: booksGood_mono [OF good_process [OF _ mem(1) came]])
    qed
  qed
qed

subsection \<open>Opening a payment\<close>

lemma updateWhere_fresh:
  assumes "keyed L n key rows" and "inj (uuidTape L)" and "key r = uuidTape L n"
  shows "updateWhere (\<lambda>q. key q = uuidTape L n) f (rows @ [r]) = rows @ [f r]"
proof -
  have "key q \<noteq> uuidTape L n" if "q \<in> set rows" for q
    using keyed_fresh [OF assms(1,2) order_refl] that by (metis imageI)
  then have "updateWhere (\<lambda>q. key q = uuidTape L n) f rows = rows"
    by (intro updateWhere_none) (simp add: countWhere_0)
  then show ?thesis using assms(3) by (simp add: updateWhere_def)
qed

lemma insertPayment_cases:
  obtains (refused) e w' where "insertPayment L t s u amt w = (Inl e, w')"
      and "w' = w\<lparr>uuidPos := Suc (uuidPos w)\<rparr>"
  | (opened) p where "p = newPayment (uuidTape L (uuidPos w)) (clock w) t s u amt" and "0 < amt"
      and "insertPayment L t s u amt w =
        (Inr p, payments_update (\<lambda>rows. rows @ [p]) (w\<lparr>uuidPos := Suc (uuidPos w)\<rparr>))"
      and "t \<notin> p_transactionId ` set (payments w)"
proof (cases "0 < amt \<and> t \<notin> p_transactionId ` set (payments w)")
  case True
  show ?thesis
    by (rule opened [OF refl]) (use True in \<open>auto simp: insertPayment_def eval uniqueBy_def\<close>)
next
  case False
  then have "\<exists>e. insertPayment L t s u amt w = (Inl e, w\<lparr>uuidPos := Suc (uuidPos w)\<rparr>)"
    by (cases "amt \<le> 0") (auto simp: insertPayment_def eval uniqueBy_def)
  then obtain e where "insertPayment L t s u amt w = (Inl e, w\<lparr>uuidPos := Suc (uuidPos w)\<rparr>)" ..
  then show ?thesis by (rule refused [OF _ refl])
qed

lemma bk_open:
  assumes inj: "inj (uuidTape L)" and K: "\<And>p u. related (booksStep L) (K p u)"
  shows "related (booksStep L)
    (bindM (insertPayment L t s who amt) (\<lambda>payment.
       case url of
         None \<Rightarrow> thenM (updatePayment (p_id payment) (\<lambda>p. p\<lparr>p_status := FAILED\<rparr>)) (throwM e)
       | Some u \<Rightarrow> K payment u))" (is "related _ ?m")
  unfolding related_def
proof
  fix w
  show "booksStep L w (snd (?m w))"
  proof (cases rule: insertPayment_cases [of L t s who amt w])
    case (refused er w')
    then show ?thesis by (simp add: eval booksStep_same)
  next
    case (opened p)
    let ?w1 = "payments_update (\<lambda>rows. rows @ [p]) (w\<lparr>uuidPos := Suc (uuidPos w)\<rparr>)"
    have p: "p_id p = uuidTape L (uuidPos w)" "p_status p = PENDING" "p_amount p = amt"
      using opened(1) by (simp_all add: newPayment_def)
    have good: "booksGood L (Suc (uuidPos w)) (payments w @ [q]) (refunds w) (serviceRequests w)"
      if "books_inv L w" "p_id q = p_id p" "p_status q \<in> {PENDING, FAILED}" "p_amount q = amt" for q
      using that opened(2) p(1)
      by (intro good_append_payment [OF _ inj]) (auto simp: books_inv_def)
    show ?thesis
    proof (cases url)
      case (Some u)
      have "booksStep L w ?w1"
        using good [of p] p by (simp add: booksStep_def books_inv_def paymentsGrow_append)
      moreover have "booksStep L ?w1 (snd (K p u ?w1))" using K by (simp add: related_def)
      ultimately have "booksStep L w (snd (K p u ?w1))" by (rule bk.trans)
      then show ?thesis by (simp add: eval opened(3) Some)
    next
      case None
      have "find (\<lambda>q. p_id q = p_id p) (payments w @ [p]) \<noteq> None" by (auto simp: find_None_all)
      then have run: "payments (snd (?m w)) =
           updateWhere (\<lambda>q. p_id q = p_id p) (\<lambda>q. q\<lparr>p_status := FAILED, p_updatedAt := clock w\<rparr>)
             (payments w @ [p])"
        by (auto simp: eval opened(3) None updatePayment_def)
      have rest: "refunds (snd (?m w)) = refunds w"
        "serviceRequests (snd (?m w)) = serviceRequests w"
        "uuidPos (snd (?m w)) = Suc (uuidPos w)"
        by (auto simp: eval opened(3) None updatePayment_def split: option.split)
      have "updateWhere (\<lambda>q. p_id q = p_id p) (\<lambda>q. q\<lparr>p_status := FAILED, p_updatedAt := clock w\<rparr>)
             (payments w @ [p]) = payments w @ [p\<lparr>p_status := FAILED, p_updatedAt := clock w\<rparr>]"
        if "books_inv L w"
        using that updateWhere_fresh [OF _ inj, of "uuidPos w" p_id "payments w" p] p(1)
        by (simp add: books_inv_def booksGood_def)
      then show ?thesis
        using good [of "p\<lparr>p_status := FAILED, p_updatedAt := clock w\<rparr>"] p
        by (simp add: booksStep_def books_inv_def run rest paymentsGrow_append)
    qed
  qed
qed

lemma bk_initiate:
  assumes inj: "inj (uuidTape L)"
  shows "related (booksStep L) (initiate L G u i cx)"
  unfolding initiate_def assertGatewayConfigured_def transaction_def Let_def
  by (intro bk.rel_intros bk_small bk_open [OF inj])

subsection \<open>Confirming, failing and cancelling a payment\<close>

lemma ro_withRelations: "related (=) (withRelations p)"
  unfolding withRelations_def by (intro step_preorder.rel_intros) (unfold_locales, auto)

text \<open>The transaction of \<open>confirm\<close> either leaves the three tables alone or settles the payment.\<close>

definition sameBooks :: "world \<Rightarrow> world \<Rightarrow> bool" where
  "sameBooks w w' \<longleftrightarrow> payments w' = payments w \<and> refunds w' = refunds w \<and>
     serviceRequests w' = serviceRequests w \<and> uuidPos w \<le> uuidPos w'"

lemma sameBooks_step: "sameBooks w w' \<Longrightarrow> booksStep L w w'"
  by (auto simp: sameBooks_def intro: booksStep_same)

lemma confirmCommit_cases:
  obtains (kept) r w' where "confirmCommit L valId v p w = (r, w')" and "r \<noteq> Inr True"
      and "sameBooks w w'"
  | (paid) w' where "confirmCommit L valId v p w = (Inr True, w')"
      and "countWhere (pendingRow p) (payments w) \<noteq> 0" and "oneSuccess p w = None"
      and "payments w' = updateWhere (pendingRow p) (markPaid valId v (clock w)) (payments w)"
      and "refunds w' = refunds w"
      and "serviceRequests w' = updateWhere (\<lambda>r. sr_id r = p_serviceRequestId p)
             (\<lambda>r. r\<lparr>sr_status := SR_PAID, sr_updatedAt := clock w\<rparr>) (serviceRequests w)"
      and "uuidPos w' = uuidPos w + 2" and "clock w' = clock w"
      and "auditLogs w' = auditLogs w @
         [auditRow L (Some (p_userId p)) ''PAYMENT_SUCCESS'' ''Payment'' (p_id p) None
            (Some (JObj [(''transactionId'', JStr (p_transactionId p)),
                         (''amount'', JStr (decStr L (p_amount p)))])) None w]"
      and "\<exists>n. notifications w' = notifications w @ [n] \<and> n_userId n = p_userId p"
proof (cases "countWhere (pendingRow p) (payments w) = 0")
  case True
  then show ?thesis
    by (intro kept [OF prod.collapse [symmetric]])
      (auto simp: confirmCommit_def eval sameBooks_def updateWhere_none split: option.split)
next
  case False
  show ?thesis
  proof (cases "oneSuccess p w")
    case (Some e)
    then show ?thesis
      by (intro kept [OF prod.collapse [symmetric]]) (auto simp: confirmCommit_def eval sameBooks_def)
  next
    case None
    show ?thesis
    proof (cases "find (\<lambda>r. sr_id r = p_serviceRequestId p) (serviceRequests w)")
      case none: None
      then show ?thesis
        using False None
        by (intro kept [OF prod.collapse [symmetric]])
          (auto simp: confirmCommit_def eval sameBooks_def updateRequest_def)
    next
      case (Some r)
      have run: "confirmCommit L valId v p w = (Inr True, snd (confirmCommit L valId v p w))"
        using False None Some by (simp add: confirmCommit_def eval updateRequest_def)
      show ?thesis
        by (rule paid [OF run False None])
          (use False None Some in \<open>simp_all add: confirmCommit_def eval updateRequest_def
             newNotification_def auditRow_def\<close>)
    qed
  qed
qed

lemma oneSuccess_free:
  assumes "oneSuccess p w = None" and "p \<in> set (payments w)" and "p_status p = PENDING"
    and "q \<in> set (payments w)" and "p_status q = SUCCESS"
  shows "p_serviceRequestId q \<noteq> p_serviceRequestId p"
  using assms by (auto simp: oneSuccess_def pendingRow_def split: if_splits)

lemma markPaid_grows:
  assumes "p \<in> set ps" and "keyed L n p_id ps"
  shows "paymentsGrow ps (updateWhere (pendingRow p) (markPaid valId v now) ps)"
  unfolding updateWhere_def
  by (rule paymentsGrow_map) (auto simp: pendingRow_def payEdge_def statusLe_def)

lemma bk_confirmCommit:
  assumes p: "p \<in> set (payments w)" and valid: "validationOk L p (p_transactionId p) (Some v)"
  shows "booksStep L w (snd (confirmCommit L valId v p w))"
proof (cases rule: confirmCommit_cases [of L valId v p w])
  case (kept r w')
  then show ?thesis by (simp add: sameBooks_step)
next
  case (paid w')
  obtain q where q: "q \<in> set (payments w)" "p_id q = p_id p" "p_status q = PENDING"
    using paid(2) by (auto simp: countWhere_0 pendingRow_def)
  have "books_inv L w' \<and> paymentsGrow (payments w) (payments w')" if inv: "books_inv L w"
  proof -
    have good: "booksGood L (uuidPos w) (payments w) (refunds w) (serviceRequests w)"
      using inv by (simp add: books_inv_def)
    then have keys: "keyed L (uuidPos w) p_id (payments w)" by (simp add: booksGood_def)
    have "q = p" using keyed_unique [OF keys q(1) p q(2)] .
    then have pend: "p_status p = PENDING" using q(3) by simp
    from good_settle [OF good p pend valid oneSuccess_free [OF paid(3) p pend]]
    have "booksGood L (uuidPos w) (payments w') (refunds w') (serviceRequests w')"
      unfolding paid(4-6) by blast
    then have "books_inv L w'" unfolding books_inv_def by (rule booksGood_mono) (simp add: paid(7))
    then show ?thesis unfolding paid(4) using markPaid_grows [OF p keys] by blast
  qed
  then show ?thesis using paid(1,7) by (simp add: booksStep_def)
qed

lemma findByTran_Some:
  "findByTran t w = Some p \<Longrightarrow> p \<in> set (payments w) \<and> p_transactionId p = t"
  by (auto simp: findByTran_def dest: find_Some_in)

lemma bk_confirm: "related (booksStep L) (confirm L G tranId valId)"
  unfolding related_def
proof
  fix w
  show "booksStep L w (snd (confirm L G tranId valId w))"
    unfolding confirm_def
  proof (rule bk.gets_bind_at, rule bk.orThrow_bind_at, rule bk.ro_bind_at [OF ro_withRelations])
    fix p and rel :: "serviceRequest \<times> serviceType \<times> user"
    assume found: "findByTran tranId w = Some p"
    obtain r t u where rel: "rel = (r, t, u)" by (cases rel)
    have p: "p \<in> set (payments w)" "p_transactionId p = tranId" using findByTran_Some [OF found] by auto
    have tail: "related (booksStep L) (if \<not> confirmed then returnM p
       else thenM (incCounter ''citycare_payments_total:success'')
              (thenM (mailReceipt L G p r t u) (returnM p)))" for confirmed
      by (intro bk.rel_intros bk_small bk_mail)
    have bad: "related (booksStep L) (thenM (incCounter ''citycare_payments_total:invalid'')
       (throwM (apiError 400 ''Payment validation failed''
          [det ''VALIDATION_ERROR'' ''Payment validation failed''])))"
      by (intro bk.rel_intros bk_small)
    show "booksStep L w (snd ((case rel of (r, t, u) \<Rightarrow>
       if p_status p = SUCCESS then returnM p
       else thenM (assertGatewayConfigured L)
         (let validation = orNull (gw_validate G valId) in
          if \<not> validationOk L p tranId validation
          then thenM (incCounter ''citycare_payments_total:invalid'')
                 (throwM (apiError 400 ''Payment validation failed''
                    [det ''VALIDATION_ERROR'' ''Payment validation failed'']))
          else bindM (confirmCommit L valId (the validation) p) (\<lambda>confirmed.
            if \<not> confirmed then returnM p
            else thenM (incCounter ''citycare_payments_total:success'')
                   (thenM (mailReceipt L G p r t u) (returnM p))))) w))"
    proof (cases "p_status p = SUCCESS")
      case True
      then show ?thesis by (simp add: rel eval bk.refl)
    next
      case False
      show ?thesis
      proof (cases "validationOk L p tranId (orNull (gw_validate G valId))")
        case ok: True
        then obtain v where v: "orNull (gw_validate G valId) = Some v"
          by (cases "orNull (gw_validate G valId)") (auto simp: validationOk_def)
        have "booksStep L w (snd (confirmCommit L valId v p w))"
          using ok by (intro bk_confirmCommit p(1)) (simp add: p(2) v)
        then show ?thesis
          using False ok unfolding rel prod.case Let_def assertGatewayConfigured_def
          by (simp add: v) (intro bk.throwIf_then_at bk.bind_at bk.rel_at [OF tail])
      next
        case no: False
        then show ?thesis
          using False unfolding rel prod.case Let_def assertGatewayConfigured_def
          by simp (intro bk.throwIf_then_at bk.rel_at [OF bad])
      qed
    qed
  qed
qed

lemma bk_markTerminal:
  assumes "st \<in> {FAILED, PAY_CANCELLED}"
  shows "related (booksStep L) (markTerminal tranId st)"
proof -
  have step: "booksStep L w (payments_update (updateWhere
        (\<lambda>p. p_transactionId p = tranId \<and> p_status p = PENDING)
        (\<lambda>p. p\<lparr>p_status := st, p_updatedAt := now\<rparr>)) w)" for w now
  proof -
    have "paymentsGrow ps (updateWhere (\<lambda>p. p_transactionId p = tranId \<and> p_status p = PENDING)
        (\<lambda>p. p\<lparr>p_status := st, p_updatedAt := now\<rparr>) ps)" for ps
      unfolding updateWhere_def
      by (rule paymentsGrow_map) (auto simp: payEdge_def statusLe_def)
    then show ?thesis
      using good_fail [OF _ assms] by (auto simp: booksStep_def books_inv_def)
  qed
  show ?thesis
    unfolding markTerminal_def by (intro bk.rel_intros bk_small) (rule step)
qed

lemma bk_recordEvent: "related (booksStep L) (recordEvent L source payload ip)"
  unfolding recordEvent_def Let_def by (intro bk.rel_intros bk_small) (simp add: booksStep_same)

lemma bk_callbacks:
  "related (booksStep L) (successCallback L G body query ip)"
  "related (booksStep L) (failCallback L body query ip)"
  "related (booksStep L) (cancelCallback L body query ip)"
  "related (booksStep L) (ipn L G body query ip)"
  unfolding successCallback_def failCallback_def cancelCallback_def ipn_def Let_def
  by (intro bk.rel_intros bk_recordEvent bk_confirm bk_markTerminal; simp)+

subsection \<open>Refunds\<close>

lemma findPayment_Some:
  "findPayment i w = Some p \<Longrightarrow> p \<in> set (payments w) \<and> p_id p = i"
  by (auto simp: findPayment_def dest: find_Some_in)

lemma refundOf_Some:
  "refundOf w p = Some r \<Longrightarrow> r \<in> set (refunds w) \<and> rf_paymentId r = p_id p"
  by (auto simp: refundOf_def dest: find_Some_in)

lemma then_return: "thenM (returnM x) k = k"
  by (simp add: thenM_def bindM_def returnM_def)

lemma bk_requestRefund: "related (booksStep L) (requestRefund L i reason a cx)"
  unfolding related_def
proof
  fix w
  show "booksStep L w (snd (requestRefund L i reason a cx w))"
    unfolding requestRefund_def
  proof (rule bk.gets_bind_at, rule bk.orThrow_bind_at, rule bk.gets_bind_at, rule bk.throwIf_then_at)
    fix p
    assume found: "findPayment i w = Some p" and "\<not> p_status p \<noteq> SUCCESS"
    then have p: "p \<in> set (payments w)" "p_id p = i" "p_status p = SUCCESS"
      using findPayment_Some [OF found] by auto
    have ask: "booksStep L w (snd (insertRefund L i (p_amount p) reason (a_id a) w))"
    proof (cases "i \<in> rf_paymentId ` set (refunds w) \<or> p_amount p \<le> 0")
      case True
      then show ?thesis
        by (auto simp: insertRefund_def eval uniqueBy_def intro!: booksStep_same)
    next
      case False
      then show ?thesis
        using p by (auto simp: insertRefund_def eval uniqueBy_def booksStep_def books_inv_def
            intro!: good_ask [where p = p] intro: booksGood_mono)
    qed
    have tx: "booksStep L w (snd (transaction
       (bindM (insertRefund L i (p_amount p) reason (a_id a)) (\<lambda>refund.
        thenM (audit L (Some (a_id a)) ''PAYMENT_REFUND_REQUESTED'' ''Payment'' i None
           (Some (JObj [(''refundId'', JStr (rf_id refund)), (''reason'', JStr reason)])) (Some cx))
        (returnM (refund, decStr L (rf_amount refund))))) w))" (is "booksStep L w (snd (transaction ?m w))")
    proof -
      have "booksStep L w (snd (?m w))"
        by (rule bk.bind_at, rule ask, intro bk.rel_at bk.rel_intros bk_small)
      then show ?thesis
        by (auto simp: run_transaction split: prod.splits sum.splits intro: bk.undone)
    qed
    show "booksStep L w (snd (thenM (case refundOf w p of None \<Rightarrow> returnM ()
       | Some r \<Rightarrow> throwM (apiError 409 ''A refund has already been requested''
           [det ''CONFLICT'' (''Refund status: '' @ show_refund_status (rf_status r))]))
      (transaction ?m) w))"
    proof (cases "refundOf w p")
      case None
      then show ?thesis using tx by (simp add: then_return)
    next
      case (Some r)
      then show ?thesis by (simp add: thenM_def bindM_def throwM_def bk.refl)
    qed
  qed
qed

lemma approveCommit_cases:
  obtains (kept) e w' where "approveCommit L i a cx p ref w = (Inl e, w')" and "sameBooks w w'"
  | (paid) r w' where "approveCommit L i a cx p ref w = (Inr r, w')"
      and "payments w' = updateWhere (\<lambda>q. p_id q = i)
             (\<lambda>q. q\<lparr>p_status := REFUNDED, p_updatedAt := clock w\<rparr>) (payments w)"
      and "refunds w' = updateWhere (\<lambda>q. rf_paymentId q = i)
        (\<lambda>q. q\<lparr>rf_status := PROCESSED, rf_approvedById := Some (a_id a), rf_gatewayRefId := ref,
               rf_processedAt := Some (clock w)\<rparr>) (refunds w)"
      and "serviceRequests w' = updateWhere (\<lambda>r. sr_id r = p_serviceRequestId p)
             (\<lambda>r. r\<lparr>sr_status := SR_CANCELLED, sr_updatedAt := clock w\<rparr>) (serviceRequests w)"
      and "uuidPos w' = uuidPos w + 2"
proof (cases "find (\<lambda>q. rf_paymentId q = i) (refunds w) = None \<or>
    find (\<lambda>q. p_id q = i) (payments w) = None \<or>
    find (\<lambda>r. sr_id r = p_serviceRequestId p) (serviceRequests w) = None")
  case True
  then have "\<exists>e w'. approveCommit L i a cx p ref w = (Inl e, w') \<and> sameBooks w w'"
    by (auto simp: approveCommit_def eval updateRefund_def updatePayment_def updateRequest_def
        sameBooks_def split: option.splits)
  then show ?thesis using kept by blast
next
  case False
  then have "\<exists>r. fst (approveCommit L i a cx p ref w) = Inr r"
    by (auto simp: approveCommit_def eval updateRefund_def updatePayment_def updateRequest_def)
  then obtain r where run: "approveCommit L i a cx p ref w =
      (Inr r, snd (approveCommit L i a cx p ref w))" by (metis prod.collapse)
  show ?thesis
    by (rule paid [OF run])
      (use False in \<open>auto simp: approveCommit_def eval updateRefund_def updatePayment_def
         updateRequest_def\<close>)
qed

lemma approveGuard_InrE:
  assumes "approveGuard L i w = (Inr pr, w')"
  obtains "w' = w" and "findPayment i w = Some (fst pr)" and "refundOf w (fst pr) = Some (snd pr)"
    and "rf_status (snd pr) = REQUESTED" and "bankTranId L (fst pr) \<noteq> []"
  using assms unfolding approveGuard_def assertGatewayConfigured_def
  by (elim run_elims) (auto split: option.splits)

lemma ro_approveGuard: "related (=) (approveGuard L i)"
  unfolding approveGuard_def assertGatewayConfigured_def
  by (intro step_preorder.rel_intros) (unfold_locales, auto)

lemma bk_approveCommit:
  assumes p: "p \<in> set (payments w)" "p_id p = i" and r: "r \<in> set (refunds w)"
    "rf_paymentId r = i" "rf_status r = REQUESTED"
  shows "booksStep L w (snd (approveCommit L i a cx p ref w))"
proof (cases rule: approveCommit_cases [of L i a cx p ref w])
  case (kept e w')
  then show ?thesis by (simp add: sameBooks_step)
next
  case (paid x w')
  have "books_inv L w' \<and> paymentsGrow (payments w) (payments w')" if inv: "books_inv L w"
  proof -
    have good: "booksGood L (uuidPos w) (payments w) (refunds w) (serviceRequests w)"
      using inv by (simp add: books_inv_def)
    have pid: "p_id p = rf_paymentId r" using p(2) r(2) by simp
    note moved = good_repay [OF good r(1,3) p(1) pid]
    have "booksGood L (uuidPos w) (payments w') (refunds w') (serviceRequests w')"
      unfolding paid(2-4) using moved(1) by (simp add: r(2))
    then have inv': "books_inv L w'" unfolding books_inv_def by (rule booksGood_mono) (simp add: paid(5))
    have keys: "keyed L (uuidPos w) p_id (payments w)" using good by (simp add: booksGood_def)
    have "paymentsGrow (payments w) (payments w')"
      unfolding paid(2) updateWhere_def
    proof (rule paymentsGrow_map)
      fix q
      assume "q \<in> set (payments w)"
      then have "p_id q = i \<Longrightarrow> q = p" using keyed_unique [OF keys _ p(1)] p(2) by simp
      then show "payEdge q (if p_id q = i then q\<lparr>p_status := REFUNDED, p_updatedAt := clock w\<rparr> else q)"
        using moved(2) by (auto simp: payEdge_def statusLe_def)
    qed
    with inv' show ?thesis by blast
  qed
  then show ?thesis using paid(1,5) by (simp add: booksStep_def)
qed

lemma bk_approveRefund: "related (booksStep L) (approveRefund L G i a cx)"
  unfolding related_def
proof
  fix w
  show "booksStep L w (snd (approveRefund L G i a cx w))"
    unfolding approveRefund_def
  proof (rule bk.ro_bind_at [OF ro_approveGuard])
    fix pr
    assume "approveGuard L i w = (Inr pr, w)"
    then obtain "findPayment i w = Some (fst pr)" "refundOf w (fst pr) = Some (snd pr)"
      "rf_status (snd pr) = REQUESTED" by (elim approveGuard_InrE)
    then have tx: "booksStep L w (snd (approveCommit L i a cx (fst pr) ref w))" for ref
      using findPayment_Some refundOf_Some by (intro bk_approveCommit [where r = "snd pr"]) blast+
    show "booksStep L w (snd ((let result = orNull (gw_initiateRefund G (refundAsked L (fst pr) (snd pr)))
       in if refundRefused result
          then throwM (apiError 502 ''Refund could not be processed by the gateway''
                 [det ''GATEWAY_ERROR'' (refusedReason result)])
          else bindM (approveCommit L i a cx (fst pr)
                 (case result of None \<Rightarrow> None | Some r \<Rightarrow> rr_refund_ref_id r)) (\<lambda>refund.
               thenM (incCounter ''citycare_payments_total:refunded'')
                 (returnM (refund, decStr L (rf_amount refund))))) w))"
    proof (cases "refundRefused (orNull (gw_initiateRefund G (refundAsked L (fst pr) (snd pr))))")
      case True
      then show ?thesis by (simp add: eval bk.refl)
    next
      case False
      show ?thesis
        unfolding Let_def if_not_P [OF False]
        by (rule bk.bind_at, rule tx, intro bk.rel_at bk.rel_intros bk_small)
    qed
  qed
qed

section \<open>Runs keep the books\<close>

lemma payment_step_books:
  assumes "inj (uuidTape L)" and "payment_step L w w'"
  shows "booksStep L w w'"
  using assms(2)
  by cases (simp_all add: bk.rel_at bk_createRequest bk_initiate assms(1) bk_updateSrStatus
      bk_addDocument bk_callbacks bk_requestRefund bk_approveRefund booksStep_same)

lemma payment_run_books:
  assumes "inj (uuidTape L)" and "payment_run L w w'"
  shows "booksStep L w w'"
  using assms(2) unfolding payment_run_def
  by (induction rule: rtranclp_induct)
    (auto intro: bk.refl bk.trans payment_step_books [OF assms(1)])

text \<open>Before the first request the books are empty, and empty books are good.\<close>

lemma books_start:
  assumes "payments w = []" and "refunds w = []" and "serviceRequests w = []"
  shows "books_inv L w"
  using assms by (simp add: books_inv_def booksGood_def keyed_def oneOk_def)

lemma run_books:
  assumes "inj (uuidTape L)" and "payments w0 = []" and "refunds w0 = []"
    and "serviceRequests w0 = []" and "payment_run L w0 w"
  shows "books_inv L w"
  using payment_run_books [OF assms(1,5)] books_start [OF assms(2-4)] by (simp add: booksStep_def)

end
