(* ===== verification/PaymentWorld.thy ===== *)
theory PaymentWorld
  imports PaymentInv
begin

text \<open>
  A small world of one payer, one service and one request, and the run that opens and confirms
  a payment in it: what the witnesses of the payment properties stand on.
\<close>

section \<open>A small world\<close>

text \<open>One applicant, one service that costs 500 taka, and one request for it.\<close>

definition payLib :: lib where
  "payLib = \<lparr>
     sha256 = (\<lambda>s. s), otpHash = (\<lambda>s. s), bcryptHash = (\<lambda>_ s. s), bcryptCompare = (\<lambda>p h. h = p),
     uuidTape = (\<lambda>n. replicate n (CHR ''u'')), tokenTape = (\<lambda>n. replicate n (CHR ''t'')),
     otpTape = (\<lambda>n. replicate n (CHR ''1'')), signAccess = (\<lambda>u r s j t. j),
     signRefresh = (\<lambda>u s j t. j), decStr = show_int, numStr = (\<lambda>x. ''n''), toNumber = (\<lambda>_. None),
     stringify = (\<lambda>_. ''json''), ilike = (\<lambda>q s. q = s), parseDate = (\<lambda>_. None),
     smtpConfigured = False, smtpSend = (\<lambda>_ _. None), BACKEND_URL = ''http://api'',
     CLIENT_URL = ''http://web'', SSL_STORE_ID = ''store'', SSL_STORE_PASSWORD = ''pass'',
     DUMMY_HASH = ''dummy''\<rparr>"

lemma payLib_simps [simp]:
  "uuidTape payLib n = replicate n (CHR ''u'')" "tokenTape payLib n = replicate n (CHR ''t'')"
  "decStr payLib = show_int" "numStr payLib x = ''n''" "toNumber payLib j = None"
  "smtpConfigured payLib = False" "BACKEND_URL payLib = ''http://api''"
  "SSL_STORE_ID payLib = ''store''" "SSL_STORE_PASSWORD payLib = ''pass''"
  by (simp_all add: payLib_def)

lemma payLib_inj: "inj (uuidTape payLib)"
proof (rule injI)
  fix m n :: nat
  assume "uuidTape payLib m = uuidTape payLib n"
  then have "length (replicate m (CHR ''u'')) = length (replicate n (CHR ''u''))" by simp
  then show "m = n" by simp
qed

definition payer :: user where
  "payer = \<lparr>u_id = ''cit'', u_name = ''Rahim'', u_email = ''r@x.bd'', u_password = None, u_phone = None,
     u_avatarUrl = None, u_role = CITIZEN, u_status = ACTIVE, u_provider = LOCAL, u_googleId = None,
     u_emailVerifiedAt = None, u_twoFactorEnabled = True, u_isSuperAdmin = False, u_lastLoginAt = None,
     u_lastLoginIp = None, u_wardId = None, u_departmentId = None, u_passwordChangedAt = None,
     u_createdAt = 0, u_updatedAt = 0, u_deletedAt = None\<rparr>"

definition permit :: serviceType where
  "permit = \<lparr>st_id = ''svc'', st_name = ''Permit'', st_fee = 50000, st_isActive = True, st_deletedAt = None\<rparr>"

definition askPermit :: "sr_status \<Rightarrow> serviceRequest" where
  "askPermit s = \<lparr>sr_id = ''sr'', sr_referenceNo = ''SR-1'', sr_citizenId = ''cit'',
     sr_serviceTypeId = ''svc'', sr_details = None, sr_status = s, sr_processedById = None,
     sr_createdAt = 0, sr_updatedAt = 0, sr_deletedAt = None\<rparr>"

definition demoPayment :: "pay_status \<Rightarrow> payment" where
  "demoPayment s = \<lparr>p_id = ''pay'', p_transactionId = ''CC-0-'', p_serviceRequestId = ''sr'',
     p_userId = ''cit'', p_amount = 50000, p_currency = ''BDT'', p_status = s,
     p_gateway = ''SSLCOMMERZ'', p_valId = None, p_gatewayResponse = None, p_paidAt = None,
     p_createdAt = 0, p_updatedAt = 0\<rparr>"

definition payTown :: "serviceRequest list \<Rightarrow> payment list \<Rightarrow> world" where
  "payTown qs ps = empty_world\<lparr>users := [payer], serviceTypes := [permit], serviceRequests := qs,
     payments := ps\<rparr>"

definition goodAnswer :: json where
  "goodAnswer = JObj [(''status'', JStr ''VALID''), (''tran_id'', JStr ''CC-0-''), (''amount'', JNum 500),
     (''currency'', JStr ''BDT''), (''bank_tran_id'', JStr ''B1'')]"

definition demoGateway :: gateway where
  "demoGateway = \<lparr>
     gw_init = (\<lambda>_. Inr \<lparr>ir_failedreason = None, ir_GatewayPageURL = Some ''http://pay''\<rparr>),
     gw_validate = (\<lambda>_. Inr goodAnswer),
     gw_initiateRefund = (\<lambda>_. Inr \<lparr>rr_APIConnect = Some ''DONE'', rr_refund_ref_id = Some ''R1'',
        rr_errorReason = None\<rparr>),
     renderReceipt = (\<lambda>_. Inr ''pdf''), uploadReceipt = (\<lambda>_. Inl (OtherErr ''down''))\<rparr>"

definition walkIn :: actor where
  "walkIn = \<lparr>a_id = ''cit'', a_role = CITIZEN, a_departmentId = None, a_email = ''r@x.bd'', a_name = ''Rahim''\<rparr>"

definition payCtx :: ctx where
  "payCtx = \<lparr>ctx_ip = ''ip'', ctx_ua = ''ua''\<rparr>"

lemma payTown_simps [simp]:
  "payments (payTown qs ps) = ps" "serviceRequests (payTown qs ps) = qs" "refunds (payTown qs ps) = []"
  "users (payTown qs ps) = [payer]" "serviceTypes (payTown qs ps) = [permit]"
  "clock (payTown qs ps) = 0" "uuidPos (payTown qs ps) = 0" "auditLogs (payTown qs ps) = []"
  "notifications (payTown qs ps) = []" "counters (payTown qs ps) = []" "tokPos (payTown qs ps) = 0"
  by (simp_all add: payTown_def empty_world_def)

lemma demo_pay_simps [simp]:
  "p_id (demoPayment s) = ''pay''" "p_transactionId (demoPayment s) = ''CC-0-''"
  "p_serviceRequestId (demoPayment s) = ''sr''" "p_userId (demoPayment s) = ''cit''"
  "p_amount (demoPayment s) = 50000" "p_currency (demoPayment s) = ''BDT''"
  "p_status (demoPayment s) = s" "sr_id (askPermit t) = ''sr''" "sr_status (askPermit t) = t"
  "sr_serviceTypeId (askPermit t) = ''svc''" "sr_citizenId (askPermit t) = ''cit''"
  "sr_deletedAt (askPermit t) = None" "st_id permit = ''svc''" "st_fee permit = 50000"
  "st_isActive permit" "st_deletedAt permit = None" "u_id payer = ''cit''"
  by (simp_all add: demoPayment_def askPermit_def permit_def payer_def)

text \<open>The request for the permit, made from empty tables.\<close>

definition permitInput :: createSrInput where
  "permitInput = \<lparr>cs_serviceTypeId = ''svc'', cs_details = None\<rparr>"

definition asked :: world where
  "asked = snd (createRequest payLib permitInput walkIn payCtx (payTown [] []))"

definition opened :: world where
  "opened = snd (initiate payLib demoGateway ''cit'' [] payCtx asked)"

lemma opened_run: "payment_run payLib (payTown [] []) opened"
  unfolding payment_run_def opened_def asked_def
  by (rule rtranclp.rtrancl_into_rtrancl [OF r_into_rtranclp]) (rule pay_request pay_initiate)+

lemmas pay_eval = eval live_defs createRequest_def nextReferenceNo_def nextCounter_def
  insertRequest_def newRequest_def uniqueBy_def initiate_def assertGatewayConfigured_def
  serviceTypeOf_def insertPayment_def newPayment_def sessionFor_def pageUrl_def orNull_def Let_def
  permitInput_def demoGateway_def payCtx_def walkIn_def

lemma asked_state:
  "serviceRequests asked = [(newRequest [] 0 (referenceNoOf (utc_year 0) 1) permitInput walkIn)]"
  "payments asked = []" "refunds asked = []" "users asked = [payer]" "serviceTypes asked = [permit]"
  "clock asked = 0" "uuidPos asked = 2" "tokPos asked = 0"
  by (simp_all add: asked_def pay_eval)

lemma show_nat_0 [simp]: "show_nat 0 = ''0''"
  by (subst show_nat.simps) (simp add: digits_def)

lemma opened_state:
  "payments opened = [newPayment ''uu'' 0 ''CC-0-'' [] ''cit'' 50000]" "refunds opened = []"
  "serviceRequests opened = serviceRequests asked" "users opened = [payer]"
  "serviceTypes opened = [permit]" "clock opened = 0"
  by (simp_all add: opened_def asked_state pay_eval numeral_2_eq_2 show_int_def)

definition demoCallback :: "(string \<times> json) list" where
  "demoCallback = [(''tran_id'', JStr ''CC-0-''), (''val_id'', JStr ''V1'')]"

definition paidTown :: world where
  "paidTown = snd (successCallback payLib demoGateway demoCallback [] ''ip'' opened)"

lemma paidTown_run: "payment_run payLib (payTown [] []) paidTown"
  using opened_run unfolding payment_run_def paidTown_def
  by (rule rtranclp.rtrancl_into_rtrancl) (rule pay_success)

lemma demo_valid:
  "p_amount p = 50000 \<Longrightarrow> p_currency p = ''BDT'' \<Longrightarrow> validationOk payLib p ''CC-0-'' (Some goodAnswer)"
  by (simp add: validationOk_def goodAnswer_def jget_def jsString_def jsNumber_def taka_def)

lemma run_mailReceipt: "\<exists>w'. mailReceipt L G p r t u w = (Inr (), w') \<and> mailed w w'"
proof -
  have "mailReceipt L G p r t u w = dispatchEmail (sendReceiptEmail L (u_email u) (p_transactionId p)
      (decStr L (p_amount p)) (st_name t) (sr_referenceNo r)
      (case orNull (renderReceipt G (receiptFor L p r t u (clock w))) of None \<Rightarrow> None
       | Some b \<Rightarrow> storeReceipt G b) (orNull (renderReceipt G (receiptFor L p r t u (clock w))))) w"
    by (simp add: mailReceipt_def dispatchEmail_def eval Let_def)
  then show ?thesis unfolding sendReceiptEmail_def by (simp add: dispatch_sendMail)
qed

text \<open>Everything after the commit leaves the rows of the commit alone.\<close>

lemma confirm_recorded:
  assumes "findByTran t w = Some p" and "withRelations p w = (Inr (r, st, u), w)"
    and "p_status p \<noteq> SUCCESS" and "SSL_STORE_ID L \<noteq> []" and "SSL_STORE_PASSWORD L \<noteq> []"
    and "gw_validate G valId = Inr v" and "validationOk L p t (Some v)"
    and "confirmCommit L valId v p w = (Inr True, w1)"
  obtains w' where "confirm L G t valId w = (Inr p, w')"
    and "mailed (snd (incCounter ''citycare_payments_total:success'' w1)) w'"
proof -
  obtain w' where "mailReceipt L G p r st u (snd (incCounter ''citycare_payments_total:success'' w1)) = (Inr (), w')"
    and m: "mailed (snd (incCounter ''citycare_payments_total:success'' w1)) w'"
    using run_mailReceipt by blast
  then have "confirm L G t valId w = (Inr p, w')"
    using assms by (simp add: confirm_def eval Let_def assertGatewayConfigured_def orNull_def incCounter_def)
  then show thesis using m by (rule that)
qed

lemma paidTown_state:
  "payments paidTown = [markPaid ''V1'' goodAnswer 0 (newPayment ''uu'' 0 ''CC-0-'' [] ''cit'' 50000)]"
  "serviceRequests paidTown = [(newRequest [] 0 (referenceNoOf (utc_year 0) 1) permitInput walkIn)
     \<lparr>sr_status := SR_PAID, sr_updatedAt := 0\<rparr>]" (is "_ = [?q]")
  "refunds paidTown = []"
proof -
  let ?p = "newPayment ''uu'' 0 ''CC-0-'' [] ''cit'' 50000"
  define w where "w = snd (recordEvent payLib ''SUCCESS_CALLBACK'' (JObj demoCallback) ''ip'' opened)"
  have w: "payments w = [?p]" "serviceRequests w = serviceRequests asked" "users w = [payer]"
    "serviceTypes w = [permit]" "clock w = 0" "refunds w = []"
    by (simp_all add: w_def recordEvent_def opened_state eval Let_def)
  let ?r = "newRequest [] 0 (referenceNoOf (utc_year 0) 1) permitInput walkIn"
  have rel: "withRelations ?p w = (Inr (?r, permit, payer), w)"
    by (simp add: withRelations_def eval requestOf_def payerOf_def serviceTypeOf_def w asked_state
        newPayment_def newRequest_def permitInput_def)
  have found: "findByTran ''CC-0-'' w = Some ?p" by (simp add: findByTran_def w newPayment_def)
  obtain w1 where commit: "confirmCommit payLib ''V1'' goodAnswer ?p w = (Inr True, w1)"
    and w1: "payments w1 = [markPaid ''V1'' goodAnswer 0 ?p]" "serviceRequests w1 = [?q]"
      "refunds w1 = []"
    by (rule confirmCommit_cases [of payLib "''V1''" goodAnswer ?p w])
      (auto simp: confirmCommit_def eval w oneSuccess_def pendingRow_def newPayment_def updateRequest_def
        asked_state newRequest_def)
  obtain w' where run: "confirm payLib demoGateway ''CC-0-'' ''V1'' w = (Inr ?p, w')"
    and "mailed (snd (incCounter ''citycare_payments_total:success'' w1)) w'"
    by (rule confirm_recorded [OF found rel _ _ _ _ _ commit])
      (auto simp: demo_valid newPayment_def demoGateway_def)
  then have w': "payments w' = payments w1" "serviceRequests w' = serviceRequests w1"
    "refunds w' = refunds w1"
    using mailed_frame(29,27,31) by (simp_all add: incCounter_def eval)
  have "recordEvent payLib ''SUCCESS_CALLBACK'' (spreadOver demoCallback []) ''ip'' opened = (Inr (), w)"
    by (simp add: w_def recordEvent_def spreadOver_def demoCallback_def eval Let_def)
  then have same: "paidTown = w'"
    using run by (simp add: paidTown_def successCallback_def eval Let_def spreadOver_def demoCallback_def
        jget_def textOr_def)
  show "payments paidTown = [markPaid ''V1'' goodAnswer 0 ?p]"
    "serviceRequests paidTown = [?q]" "refunds paidTown = []"
    by (simp_all add: same w' w1)
qed

text \<open>A refund of it that somebody has asked for.\<close>

definition clerk :: actor where
  "clerk = \<lparr>a_id = ''adm'', a_role = ADMIN, a_departmentId = None, a_email = ''a@x.bd'', a_name = ''Admin''\<rparr>"

definition askedBack :: world where
  "askedBack = snd (requestRefund payLib ''uu'' ''paid twice'' clerk payCtx paidTown)"

lemma askedBack_run: "payment_run payLib (payTown [] []) askedBack"
  using paidTown_run unfolding payment_run_def askedBack_def
  by (rule rtranclp.rtrancl_into_rtrancl) (rule pay_ask)

lemma askedBack_state:
  "payments askedBack = payments paidTown"
  "\<exists>r. refunds askedBack = [r] \<and> rf_paymentId r = ''uu'' \<and> rf_status r = REQUESTED"
  by (simp_all add: askedBack_def requestRefund_def eval findPayment_def refundOf_def paidTown_state
      newPayment_def insertRefund_def uniqueBy_def)

end
