(* ===== verification/PaymentProps.thy ===== *)
theory PaymentProps
  imports PaymentWorld
begin

text \<open>
  The properties of payments, refunds and service requests: the invariant of their runs, the
  race for one payment, the effect of a confirmed payment, and two gaps in the handling of
  refunds and late confirmations.
\<close>

section \<open>What every run keeps\<close>

text \<open>C23: In every run of the payment and service-request handlers a payment row keeps its place,
  its id, its transaction id, its amount, its currency, its payer and its request, and its status
  only leaves PENDING, or goes from SUCCESS to REFUNDED.\<close>

theorem payments_move_forward_only:
  assumes "inj (uuidTape L)" and "payments w0 = []" and "refunds w0 = []"
    and "serviceRequests w0 = []" and "payment_run L w0 w" and "payment_run L w w'"
    and "k < length (payments w)"
  shows "k < length (payments w') \<and>
      p_id (payments w' ! k) = p_id (payments w ! k) \<and>
      p_transactionId (payments w' ! k) = p_transactionId (payments w ! k) \<and>
      p_amount (payments w' ! k) = p_amount (payments w ! k) \<and>
      p_currency (payments w' ! k) = p_currency (payments w ! k) \<and>
      p_userId (payments w' ! k) = p_userId (payments w ! k) \<and>
      p_serviceRequestId (payments w' ! k) = p_serviceRequestId (payments w ! k) \<and>
      (p_status (payments w' ! k) = p_status (payments w ! k) \<or>
       p_status (payments w ! k) = PENDING \<or>
       p_status (payments w ! k) = SUCCESS \<and> p_status (payments w' ! k) = REFUNDED)"
proof -
  have "booksStep L w w'" by (rule payment_run_books [OF assms(1,6)])
  then have grow: "paymentsGrow (payments w) (payments w')"
    using run_books [OF assms(1-5)] by (simp add: booksStep_def)
  have "k < length (payments w')" by (rule paymentsGrow_nth(1) [OF grow assms(7)])
  then show ?thesis
    using paymentsGrow_nth(2) [OF grow assms(7)] unfolding payEdge_def statusLe_def by metis
qed

theorem payments_move_forward_only_witness:
  "p_id (payments paidTown ! 0) = p_id (payments opened ! 0) \<and>
   p_status (payments opened ! 0) = PENDING \<and> p_status (payments paidTown ! 0) = SUCCESS"
proof -
  have "payment_run payLib opened paidTown"
    unfolding payment_run_def paidTown_def by (rule r_into_rtranclp) (rule pay_success)
  from payments_move_forward_only [OF payLib_inj _ _ _ opened_run this, of 0]
  have "p_id (payments paidTown ! 0) = p_id (payments opened ! 0)" by (simp add: opened_state)
  then show ?thesis by (simp add: opened_state paidTown_state newPayment_def)
qed



text \<open>C25: A request that a run has brought to PAID, PROCESSING, COMPLETED or REJECTED is paid for by
  exactly one payment in the state SUCCESS.\<close>

theorem work_is_paid_for_once:
  assumes "inj (uuidTape L)" and "payments w0 = []" and "refunds w0 = []"
    and "serviceRequests w0 = []" and "payment_run L w0 w"
    and "q \<in> set (serviceRequests w)" and "sr_status q \<in> {SR_PAID, SR_PROCESSING, SR_COMPLETED, SR_REJECTED}"
  shows "\<exists>!p. p \<in> set (payments w) \<and> p_serviceRequestId p = sr_id q \<and> p_status p = SUCCESS"
proof -
  have good: "booksGood L (uuidPos w) (payments w) (refunds w) (serviceRequests w)"
    using run_books [OF assms(1-5)] by (simp add: books_inv_def)
  then have one: "oneOk (payments w)" and keys: "keyed L (uuidPos w) p_id (payments w)"
    and "requestOk (payments w) q" using assms(6) by (simp_all add: booksGood_def)
  then obtain p where p: "p \<in> set (payments w)" "p_serviceRequestId p = sr_id q" "p_status p = SUCCESS"
    using assms(7) by (auto simp: requestOk_def)
  show ?thesis
  proof (rule ex1I [of _ p])
    fix x
    assume x: "x \<in> set (payments w) \<and> p_serviceRequestId x = sr_id q \<and> p_status x = SUCCESS"
    then have "p_id x = p_id p" by (intro oneOkD [OF one]) (simp_all add: p)
    with x show "x = p" by (intro keyed_unique [OF keys _ p(1)]) auto
  qed (simp add: p)
qed

theorem work_is_paid_for_once_witness:
  "\<exists>!p. p \<in> set (payments paidTown) \<and> p_serviceRequestId p = [] \<and> p_status p = SUCCESS"
  using work_is_paid_for_once [OF payLib_inj _ _ _ paidTown_run, of "serviceRequests paidTown ! 0"]
  by (simp add: paidTown_state(2) newRequest_def)

text \<open>C26: Every refund row of a run belongs to a payment of the same amount, at most one refund to a
  payment; it is REQUESTED, unapproved, while the payment is still SUCCESS, or PROCESSED by an
  approver with the payment REFUNDED. No payment is REFUNDED without such a row.\<close>

theorem refunds_match_payments:
  assumes "inj (uuidTape L)" and "payments w0 = []" and "refunds w0 = []"
    and "serviceRequests w0 = []" and "payment_run L w0 w"
  shows "distinct (map rf_paymentId (refunds w)) \<and>
     (\<forall>r \<in> set (refunds w). \<exists>p \<in> set (payments w). p_id p = rf_paymentId r \<and> rf_amount r = p_amount p \<and>
        (rf_status r = REQUESTED \<and> p_status p = SUCCESS \<and> rf_approvedById r = None \<or>
         rf_status r = PROCESSED \<and> p_status p = REFUNDED \<and> rf_approvedById r \<noteq> None)) \<and>
     (\<forall>p \<in> set (payments w). p_status p = REFUNDED \<longrightarrow>
        (\<exists>r \<in> set (refunds w). rf_paymentId r = p_id p \<and> rf_status r = PROCESSED))"
proof -
  have good: "booksGood L (uuidPos w) (payments w) (refunds w) (serviceRequests w)"
    using run_books [OF assms] by (simp add: books_inv_def)
  have "\<forall>r \<in> set (refunds w). refundOk (payments w) r" "distinct (map rf_paymentId (refunds w))"
    "\<forall>p \<in> set (payments w). paymentOk L (refunds w) p"
    using good by (simp_all add: booksGood_def)
  then show ?thesis unfolding refundOk_def paymentOk_def by blast
qed

theorem refunds_match_payments_witness:
  "\<exists>r p. refunds askedBack = [r] \<and> p \<in> set (payments askedBack) \<and> p_id p = ''uu'' \<and>
     rf_amount r = p_amount p \<and> p_amount p = 50000"
proof -
  obtain r where r: "refunds askedBack = [r]" "rf_paymentId r = ''uu''" using askedBack_state(2) by blast
  have "\<exists>p \<in> set (payments askedBack). p_id p = rf_paymentId r \<and> rf_amount r = p_amount p"
    using refunds_match_payments [OF payLib_inj _ _ _ askedBack_run] r(1) by fastforce
  then show ?thesis using r by (auto simp: askedBack_state paidTown_state newPayment_def)
qed

section \<open>One callback\<close>

lemma confirmCommit_frame:
  "users (snd (confirmCommit L valId v p w)) = users w"
  "serviceTypes (snd (confirmCommit L valId v p w)) = serviceTypes w"
  by (simp_all add: confirmCommit_def eval updateRequest_def split: option.split)

lemma confirmCommit_wins:
  assumes "countWhere (pendingRow p) (payments w) \<noteq> 0" and "oneSuccess p w = None"
    and "requestOf w p = Some r"
  obtains w' where "confirmCommit L valId v p w = (Inr True, w')"
  using assms by (simp add: confirmCommit_def eval updateRequest_def requestOf_def)

lemma confirm_settled:
  assumes "findByTran t w = Some p" and "withRelations p w = (Inr rel, w)" and "p_status p = SUCCESS"
  shows "confirm L G t valId w = (Inr p, w)"
  using assms by (cases rel) (simp add: confirm_def eval)

lemma run_withRelations:
  assumes "requestOf w p = Some r" and "serviceTypeOf w r = Some t" and "payerOf w p = Some u"
  shows "withRelations p w = (Inr (r, t, u), w)"
  using assms by (simp add: withRelations_def eval)



text \<open>The ids a callback brings: the body, with the query laid over it.\<close>

definition sentIds :: "lib \<Rightarrow> (string \<times> json) list \<Rightarrow> (string \<times> json) list \<Rightarrow> string \<times> string" where
  "sentIds L body query =
     (textOr L [] (jget ''tran_id'' (spreadOver body query)),
      textOr L [] (jget ''val_id'' (spreadOver body query)))"

lemma confirm_refused:
  assumes "\<And>p. findByTran t w = Some p \<Longrightarrow> \<not> validationOk L p t (orNull (gw_validate G valId))"
  shows "\<exists>m. snd (confirm L G t valId w) = w\<lparr>metrics := m\<rparr>"
proof (cases "findByTran t w")
  case None
  then show ?thesis by (auto simp: confirm_def eval intro: exI [of _ "metrics w"])
next
  case (Some p)
  obtain res where rel: "withRelations p w = (res, w)"
    using ro_withRelations [of p] by (metis relatedD surj_pair)
  show ?thesis
  proof (cases res)
    case (Inl e)
    then show ?thesis using Some rel by (auto simp: confirm_def eval intro: exI [of _ "metrics w"])
  next
    case (Inr x)
    obtain r s u where x: "x = (r, s, u)" by (cases x)
    have "snd (confirm L G t valId w) =
        (if p_status p = SUCCESS \<or> SSL_STORE_ID L = [] \<or> SSL_STORE_PASSWORD L = [] then w
         else w\<lparr>metrics := (metrics w)(''citycare_payments_total:invalid'' :=
                Suc (metrics w ''citycare_payments_total:invalid''))\<rparr>)"
      using assms [OF Some]
      by (simp add: confirm_def run_bind run_then run_gets run_orThrow Some rel Inr x run_return
          assertGatewayConfigured_def run_throwIf run_throw Let_def run_incCounter)
    then show ?thesis by (auto intro: exI [of _ "metrics w"])
  qed
qed

text \<open>C28: Nobody can pay by forging a callback: whatever body and query arrive at the success URL or
  the IPN endpoint, if the gateway's own answer does not confirm the payment they name, the request
  leaves no trace but one unprocessed, unverified event row and a counter.\<close>

theorem forged_callback_changes_nothing:
  assumes "\<forall>p. findByTran (fst (sentIds L body query)) w = Some p \<longrightarrow>
     \<not> validationOk L p (fst (sentIds L body query)) (orNull (gw_validate G (snd (sentIds L body query))))"
    and "call \<in> {successCallback L G body query ip, ipn L G body query ip}"
  shows "\<exists>e m. snd (call w) = w\<lparr>uuidPos := Suc (uuidPos w), paymentEvents := paymentEvents w @ [e],
     metrics := m\<rparr> \<and> \<not> pe_processed e \<and> \<not> pe_signatureOk e"
proof -
  have rec: "\<exists>e. recordEvent L src payload ip w =
      (Inr (), w\<lparr>uuidPos := Suc (uuidPos w), paymentEvents := paymentEvents w @ [e]\<rparr>) \<and>
      \<not> pe_processed e \<and> \<not> pe_signatureOk e" for src payload
    unfolding recordEvent_def Let_def by (cases w) (simp add: eval)
  have ref: "\<exists>m. snd (confirm L G (fst (sentIds L body query)) (snd (sentIds L body query))
        (w\<lparr>uuidPos := i, paymentEvents := es\<rparr>)) = w\<lparr>uuidPos := i, paymentEvents := es, metrics := m\<rparr>" for i es
    using confirm_refused [of "fst (sentIds L body query)" "w\<lparr>uuidPos := i, paymentEvents := es\<rparr>" L G
        "snd (sentIds L body query)"] assms(1)
    by (auto simp: findByTran_def)
  have tail: "snd (thenM m (returnM x) v) = snd (m v)" for m :: "'c act" and x :: 'd and v
    by (simp add: eval split: prod.split sum.split)
  have "\<exists>src x. call w = thenM (recordEvent L src (spreadOver body query) ip)
      (thenM (confirm L G (fst (sentIds L body query)) (snd (sentIds L body query))) (returnM x)) w"
    using assms(2) by (auto simp: successCallback_def ipn_def sentIds_def Let_def)
  then obtain src x where call: "call w = thenM (recordEvent L src (spreadOver body query) ip)
      (thenM (confirm L G (fst (sentIds L body query)) (snd (sentIds L body query))) (returnM x)) w" by blast
  obtain e where e: "recordEvent L src (spreadOver body query) ip w =
      (Inr (), w\<lparr>uuidPos := Suc (uuidPos w), paymentEvents := paymentEvents w @ [e]\<rparr>)"
    "\<not> pe_processed e" "\<not> pe_signatureOk e" using rec by blast
  have "snd (call w) = snd (confirm L G (fst (sentIds L body query)) (snd (sentIds L body query))
      (w\<lparr>uuidPos := Suc (uuidPos w), paymentEvents := paymentEvents w @ [e]\<rparr>))"
    unfolding call by (subst run_then) (simp only: e(1) prod.case sum.case tail)
  then show ?thesis using ref e by metis
qed

theorem forged_callback_changes_nothing_witness:
  "payments (snd (successCallback payLib (demoGateway\<lparr>gw_validate := \<lambda>_. Inl (OtherErr ''down'')\<rparr>)
     demoCallback [] ''ip'' opened)) = payments opened"
proof -
  let ?G = "demoGateway\<lparr>gw_validate := \<lambda>_. Inl (OtherErr ''down'')\<rparr>"
  have "\<forall>p. findByTran (fst (sentIds payLib demoCallback [])) opened = Some p \<longrightarrow>
     \<not> validationOk payLib p (fst (sentIds payLib demoCallback []))
        (orNull (gw_validate ?G (snd (sentIds payLib demoCallback []))))"
    by (simp add: orNull_def validationOk_def)
  from forged_callback_changes_nothing [OF this, of "successCallback payLib ?G demoCallback [] ''ip''" "''ip''"]
  show ?thesis by auto
qed

section \<open>The race for one payment\<close>

text \<open>One way of closing a pending payment: the transaction of the success callback, or the write of
  the fail and cancel callbacks. A move that changes no row is lost.\<close>

definition closePayment ::
  "lib \<Rightarrow> string \<Rightarrow> json \<Rightarrow> payment \<Rightarrow> pay_status \<Rightarrow> pay_status \<Rightarrow> world \<Rightarrow> world option" where
  "closePayment L valId v p src tgt w =
     (if tgt = SUCCESS
      then (case confirmCommit L valId v p w of (Inr True, w') \<Rightarrow> Some w' | _ \<Rightarrow> None)
      else (let w' = snd (markTerminal (p_transactionId p) tgt w) in
            if payments w' = payments w then None else Some w'))"

text \<open>The row of the payment is there, its ids are nobody else's, and no other payment of its
  request has succeeded.\<close>

definition openFor :: "payment \<Rightarrow> world \<Rightarrow> bool" where
  "openFor p w \<longleftrightarrow> distinct (map p_id (payments w)) \<and> distinct (map p_transactionId (payments w)) \<and>
     (\<exists>q \<in> set (payments w). p_id q = p_id p \<and> p_transactionId q = p_transactionId p) \<and>
     oneSuccess p w = None \<and> requestOf w p \<noteq> None"

definition statusNow :: "payment \<Rightarrow> world \<Rightarrow> pay_status option" where
  "statusNow p w = map_option p_status (findPayment (p_id p) w)"

lemma findPayment_unique:
  "distinct (map p_id (payments w)) \<Longrightarrow> q \<in> set (payments w) \<Longrightarrow> findPayment (p_id q) w = Some q"
  unfolding findPayment_def
  by (cases "find (\<lambda>p. p_id p = p_id q) (payments w)")
    (auto simp: find_None_all dest!: find_Some_in dest: distinct_key_unique)

lemma openFor_row:
  assumes "openFor p w"
  obtains q where "q \<in> set (payments w)" and "p_id q = p_id p" and "p_transactionId q = p_transactionId p"
    and "statusNow p w = Some (p_status q)"
    and "\<And>x. x \<in> set (payments w) \<Longrightarrow> p_id x = p_id p \<longleftrightarrow> x = q"
    and "\<And>x. x \<in> set (payments w) \<Longrightarrow> p_transactionId x = p_transactionId p \<longleftrightarrow> x = q"
proof -
  obtain q where q: "q \<in> set (payments w)" "p_id q = p_id p" "p_transactionId q = p_transactionId p"
    using assms by (auto simp: openFor_def)
  have d: "distinct (map p_id (payments w))" "distinct (map p_transactionId (payments w))"
    using assms by (simp_all add: openFor_def)
  show thesis
  proof (rule that [OF q])
    show "statusNow p w = Some (p_status q)"
      using findPayment_unique [OF d(1) q(1)] q(2) by (simp add: statusNow_def)
    show "p_id x = p_id p \<longleftrightarrow> x = q" if "x \<in> set (payments w)" for x
      using distinct_key_unique [OF d(1) that q(1)] q(2) by auto
    show "p_transactionId x = p_transactionId p \<longleftrightarrow> x = q" if "x \<in> set (payments w)" for x
      using distinct_key_unique [OF d(2) that q(1)] q(3) by auto
  qed
qed

lemma run_markTerminal:
  "payments (snd (markTerminal t st w)) = updateWhere (\<lambda>p. p_transactionId p = t \<and> p_status p = PENDING)
     (\<lambda>p. p\<lparr>p_status := st, p_updatedAt := clock w\<rparr>) (payments w)"
  "serviceRequests (snd (markTerminal t st w)) = serviceRequests w"
  by (simp_all add: markTerminal_def eval)

text \<open>Either move, when it goes through, is the same write of the one row.\<close>

lemma closePayment_row:
  assumes "openFor p w" and "tgt \<in> {SUCCESS, FAILED, PAY_CANCELLED}"
  shows "closePayment L valId v p PENDING tgt w \<noteq> None \<longleftrightarrow> statusNow p w = Some PENDING"
    and "closePayment L valId v p PENDING tgt w = Some t \<Longrightarrow>
      \<exists>f. (\<forall>q. p_status (f q) = tgt \<and> p_id (f q) = p_id q \<and> p_transactionId (f q) = p_transactionId q \<and>
             p_serviceRequestId (f q) = p_serviceRequestId q) \<and>
        payments t = updateWhere (pendingRow p) f (payments w) \<and>
        map sr_id (serviceRequests t) = map sr_id (serviceRequests w)"
proof -
  obtain q where q: "q \<in> set (payments w)" "statusNow p w = Some (p_status q)"
    and uid: "\<And>x. x \<in> set (payments w) \<Longrightarrow> p_id x = p_id p \<longleftrightarrow> x = q"
    and utr: "\<And>x. x \<in> set (payments w) \<Longrightarrow> p_transactionId x = p_transactionId p \<longleftrightarrow> x = q"
    by (rule openFor_row [OF assms(1)]) blast
  have free: "oneSuccess p w = None" and req: "requestOf w p \<noteq> None"
    using assms(1) by (simp_all add: openFor_def)
  have cnt: "countWhere (pendingRow p) (payments w) \<noteq> 0 \<longleftrightarrow> p_status q = PENDING"
    using q uid by (auto simp: countWhere_0 pendingRow_def)
  have eq: "updateWhere (\<lambda>x. p_transactionId x = p_transactionId p \<and> p_status x = PENDING) f (payments w)
      = updateWhere (pendingRow p) f (payments w)" for f
    unfolding updateWhere_def pendingRow_def using uid utr by (intro map_cong) auto
  have ids: "map sr_id (updateWhere P (\<lambda>r. r\<lparr>sr_status := s, sr_updatedAt := c\<rparr>) rows) = map sr_id rows"
    for P s c and rows :: "serviceRequest list" by (simp add: map_updateWhere)
  show "closePayment L valId v p PENDING tgt w \<noteq> None \<longleftrightarrow> statusNow p w = Some PENDING"
  proof (cases "tgt = SUCCESS")
    case True
    show ?thesis
    proof (cases "p_status q = PENDING")
      case pend: True
      then obtain w' where "confirmCommit L valId v p w = (Inr True, w')"
        using confirmCommit_wins [OF _ free] cnt req by blast
      then show ?thesis using True pend q by (simp add: closePayment_def)
    next
      case no: False
      then have "fst (confirmCommit L valId v p w) \<noteq> Inr True"
        by (cases rule: confirmCommit_cases [of L valId v p w]) (use cnt in auto)
      then show ?thesis
        using True no q by (auto simp: closePayment_def split: prod.splits sum.splits bool.splits)
    qed
  next
    case False
    let ?f = "\<lambda>x. x\<lparr>p_status := tgt, p_updatedAt := clock w\<rparr> :: payment"
    have "updateWhere (pendingRow p) ?f (payments w) = payments w \<longleftrightarrow> p_status q \<noteq> PENDING"
    proof
      assume same: "updateWhere (pendingRow p) ?f (payments w) = payments w"
      show "p_status q \<noteq> PENDING"
      proof
        assume "p_status q = PENDING"
        then have "pendingRow p q" using uid [OF q(1)] by (simp add: pendingRow_def)
        have "\<forall>x \<in> set (payments w). (if pendingRow p x then ?f x else x) = x"
          using same by (simp add: updateWhere_def map_eq_conv [of _ _ id, simplified])
        then have "(if pendingRow p q then ?f q else q) = q" using q(1) by (rule bspec)
        then have "?f q = q" using \<open>pendingRow p q\<close> by (simp only: if_True)
        then have "p_status (?f q) = p_status q" by (rule arg_cong)
        then show False using \<open>p_status q = PENDING\<close> assms(2) by auto
      qed
    next
      assume "p_status q \<noteq> PENDING"
      then show "updateWhere (pendingRow p) ?f (payments w) = payments w"
        using cnt by (intro updateWhere_none) simp
    qed
    then show ?thesis using False q by (simp add: closePayment_def run_markTerminal eq Let_def)
  qed
  show "\<exists>f. (\<forall>q. p_status (f q) = tgt \<and> p_id (f q) = p_id q \<and> p_transactionId (f q) = p_transactionId q \<and>
             p_serviceRequestId (f q) = p_serviceRequestId q) \<and>
        payments t = updateWhere (pendingRow p) f (payments w) \<and>
        map sr_id (serviceRequests t) = map sr_id (serviceRequests w)"
    if won: "closePayment L valId v p PENDING tgt w = Some t"
  proof (cases "tgt = SUCCESS")
    case True
    then have "confirmCommit L valId v p w = (Inr True, t)"
      using won by (auto simp: closePayment_def split: prod.splits sum.splits bool.splits)
    then show ?thesis
      using True by (cases rule: confirmCommit_cases [of L valId v p w])
        (auto simp: ids intro!: exI [of _ "markPaid valId v (clock w)"])
  next
    case False
    then have "t = snd (markTerminal (p_transactionId p) tgt w)"
      using won by (auto simp: closePayment_def Let_def split: if_splits)
    then show ?thesis
      by (auto simp: run_markTerminal eq intro!: exI [of _ "\<lambda>x. x\<lparr>p_status := tgt, p_updatedAt := clock w\<rparr>"])
  qed
qed

interpretation settle: optimistic_lock
  "openFor p" "statusNow p" "\<lambda>src tgt. src = PENDING \<and> tgt \<in> {SUCCESS, FAILED, PAY_CANCELLED}"
  "closePayment L valId v p" for L valId v p
proof
  fix w t src tgt
  assume ok: "openFor p w" and mv: "src = PENDING \<and> tgt \<in> {SUCCESS, FAILED, PAY_CANCELLED}"
  note row = closePayment_row [OF ok, of tgt L valId v]
  show "closePayment L valId v p src tgt w = None" if "statusNow p w \<noteq> Some src"
    using row(1) mv that by auto
  show "closePayment L valId v p src tgt w \<noteq> None" if "statusNow p w = Some src"
    using row(1) mv that by auto
  show "statusNow p t = Some tgt \<and> openFor p t" if run: "closePayment L valId v p src tgt w = Some t"
  proof -
    obtain f where f: "p_status (f q) = tgt" "p_id (f q) = p_id q" "p_transactionId (f q) = p_transactionId q"
        "p_serviceRequestId (f q) = p_serviceRequestId q"
      and pays: "payments t = updateWhere (pendingRow p) f (payments w)"
      and reqs: "map sr_id (serviceRequests t) = map sr_id (serviceRequests w)" for q
      using row(2) [of t] mv run by blast
    have pend: "statusNow p w = Some PENDING" using row(1) run mv by auto
    obtain q where q: "q \<in> set (payments w)" "p_id q = p_id p" "p_transactionId q = p_transactionId p"
      "statusNow p w = Some (p_status q)"
      by (rule openFor_row [OF ok]) blast
    have new: "f q \<in> set (payments t)"
      using q pend unfolding pays in_updateWhere by (intro bexI [OF _ q(1)]) (simp add: pendingRow_def)
    have d: "distinct (map p_id (payments t))" "distinct (map p_transactionId (payments t))"
      using ok f by (simp_all add: openFor_def pays map_updateWhere)
    have st: "statusNow p t = Some tgt"
      using findPayment_unique [OF d(1) new] q(2) by (simp add: statusNow_def f)
    have "\<not> pendingRow p x" if "x \<in> set (payments t)" for x
    proof
      assume px: "pendingRow p x"
      then have "x = f q" using distinct_key_unique [OF d(1) that new] q(2) by (simp add: pendingRow_def f)
      then show False using px mv f by (auto simp: pendingRow_def)
    qed
    then have "oneSuccess p t = None" by (simp add: oneSuccess_def)
    moreover have "requestOf t p \<noteq> None"
    proof -
      have "requestOf u p \<noteq> None \<longleftrightarrow> p_serviceRequestId p \<in> set (map sr_id (serviceRequests u))" for u
        by (force simp: requestOf_def find_None_all image_iff simp del: not_None_eq)
      then have "requestOf t p \<noteq> None \<longleftrightarrow> requestOf w p \<noteq> None" by (simp only: reqs)
      then show ?thesis using ok by (simp add: openFor_def)
    qed
    moreover have "\<exists>x \<in> set (payments t). p_id x = p_id p \<and> p_transactionId x = p_transactionId p"
      by (rule bexI [OF _ new]) (simp add: f q)
    ultimately show ?thesis using st d by (simp add: openFor_def)
  qed
qed

text \<open>When success, fail and cancel callbacks race for one pending payment, in whatever order
  their writes reach the database, exactly one of them changes the payment.\<close>

theorem one_callback_closes_a_payment:
  assumes "openFor p w" and "statusNow p w = Some PENDING" and "targets \<noteq> []"
    and "set targets \<subseteq> {SUCCESS, FAILED, PAY_CANCELLED}"
  shows "raceWins (closePayment L valId v p PENDING) targets w = 1"
  using assms by (intro settle.one_winner) auto

theorem one_callback_closes_a_payment_witness:
  "raceWins (closePayment payLib ''V1'' goodAnswer (demoPayment PENDING) PENDING)
     [PAY_CANCELLED, SUCCESS, FAILED] (payTown [askPermit SR_PENDING_PAYMENT] [demoPayment PENDING]) = 1"
  by (rule one_callback_closes_a_payment)
    (simp_all add: openFor_def statusNow_def findPayment_def oneSuccess_def requestOf_def)

section \<open>Opening a session\<close>

lemma newPayment_row [simp]:
  "p_id (newPayment i now t s u amt) = i" "p_transactionId (newPayment i now t s u amt) = t"
  "p_serviceRequestId (newPayment i now t s u amt) = s" "p_userId (newPayment i now t s u amt) = u"
  "p_amount (newPayment i now t s u amt) = amt" "p_status (newPayment i now t s u amt) = PENDING"
  by (simp_all add: newPayment_def)

lemma run_insertPayment:
  assumes "0 < amt" and "t \<notin> p_transactionId ` set (payments w)"
  shows "insertPayment L t i u amt w =
    (Inr (newPayment (uuidTape L (uuidPos w)) (clock w) t i u amt),
     payments_update (\<lambda>rows. rows @ [newPayment (uuidTape L (uuidPos w)) (clock w) t i u amt])
       (w\<lparr>uuidPos := Suc (uuidPos w)\<rparr>))"
  using assms by (auto simp: insertPayment_def eval uniqueBy_def)

text \<open>Opening a payment session never trusts an amount from the client: the row it leaves carries the
  fee of the service, PENDING with a page to pay on, or FAILED with an error when the gateway gave
  no page; and a request that is not PENDING_PAYMENT gets neither row nor session.\<close>

theorem initiate_charges_the_fee:
  assumes "find (\<lambda>r. sr_id r = i \<and> sr_citizenId r = u) (liveServiceRequests w) = Some r"
    and "serviceTypeOf w r = Some t" and "find (\<lambda>x. u_id x = sr_citizenId r) (users w) = Some c"
    and "SSL_STORE_ID L \<noteq> []" and "SSL_STORE_PASSWORD L \<noteq> []" and "inj (uuidTape L)"
    and "keyed L (uuidPos w) p_id (payments w)" and "0 < st_fee t"
    and "''CC-'' @ show_int (clock w) @ ''-'' @ tokenTape L (tokPos w) \<notin> p_transactionId ` set (payments w)"
  shows "case initiate L G u i cx w of
     (Inl e, w') \<Rightarrow>
       (sr_status r \<noteq> SR_PENDING_PAYMENT \<and> w' = w) \<or>
       (sr_status r = SR_PENDING_PAYMENT \<and> pageUrl (orNull (gw_init G (sessionFor L
          (''CC-'' @ show_int (clock w) @ ''-'' @ tokenTape L (tokPos w)) t c))) = None \<and>
        (\<exists>p. payments w' = payments w @ [p] \<and> p_status p = FAILED \<and> p_amount p = st_fee t))
   | (Inr s, w') \<Rightarrow>
       sr_status r = SR_PENDING_PAYMENT \<and>
       (\<exists>p. payments w' = payments w @ [p] \<and> p_status p = PENDING \<and> p_amount p = st_fee t \<and>
          p_userId p = u \<and> p_serviceRequestId p = i \<and> p_id p = ini_paymentId s \<and>
          p_transactionId p = ini_transactionId s) \<and> ini_paymentUrl s \<noteq> []"
proof (cases "sr_status r = SR_PENDING_PAYMENT")
  case False
  then show ?thesis using assms by (simp add: initiate_def assertGatewayConfigured_def eval)
next
  case True
  let ?t = "''CC-'' @ show_int (clock w) @ ''-'' @ tokenTape L (tokPos w)"
  let ?w = "w\<lparr>tokPos := Suc (tokPos w)\<rparr>"
  let ?p = "newPayment (uuidTape L (uuidPos w)) (clock w) ?t i u (st_fee t)"
  let ?url = "pageUrl (orNull (gw_init G (sessionFor L ?t t c)))"
  have ins: "insertPayment L ?t i u (st_fee t) ?w =
      (Inr ?p, payments_update (\<lambda>rows. rows @ [?p]) (?w\<lparr>uuidPos := Suc (uuidPos w)\<rparr>))"
    using run_insertPayment [of "st_fee t" ?t ?w L i u] assms(8,9) by simp
  have upd: "updateWhere (\<lambda>q. p_id q = uuidTape L (uuidPos w)) f (payments w @ [?p]) = payments w @ [f ?p]" for f
    using updateWhere_fresh [OF assms(7,6), of ?p] by simp
  have found: "find (\<lambda>q. p_id q = uuidTape L (uuidPos w)) (payments w @ [?p]) \<noteq> None" by (auto simp: find_None_all)
  have start: "initiate L G u i cx w = (case ?url of
       None \<Rightarrow> thenM (updatePayment (p_id ?p) (\<lambda>p. p\<lparr>p_status := FAILED\<rparr>))
             (throwM (apiError 502 ''Payment gateway error''
                [det ''GATEWAY_ERROR'' (failedReason (orNull (gw_init G (sessionFor L ?t t c))))]))
     | Some url \<Rightarrow> thenM (transaction
             (audit L (Some u) ''PAYMENT_INITIATED'' ''Payment'' (p_id ?p) None
               (Some (JObj [(''transactionId'', JStr ?t),
                            (''amount'', JStr (decStr L (p_amount ?p)))])) (Some cx)))
           (returnM \<lparr>ini_paymentId = p_id ?p, ini_transactionId = ?t, ini_paymentUrl = url\<rparr>))
     (payments_update (\<lambda>rows. rows @ [?p]) (?w\<lparr>uuidPos := Suc (uuidPos w)\<rparr>))"
    using assms(1-5) True ins
    by (cases ?url) (simp_all add: initiate_def assertGatewayConfigured_def run_bind run_then
        run_throwIf run_gets run_orThrow randomToken_def Let_def)
  show ?thesis
  proof (cases ?url)
    case None
    then show ?thesis
      using True found by (auto simp: start updatePayment_def eval upd [simplified])
  next
    case (Some url)
    then have "url \<noteq> []" by (auto simp: pageUrl_def split: option.splits if_splits)
    then show ?thesis using True Some by (simp add: start eval)
  qed
qed

theorem initiate_charges_the_fee_witness:
  "\<exists>s p. fst (initiate payLib demoGateway ''cit'' ''sr'' payCtx (payTown [askPermit SR_PENDING_PAYMENT] []))
       = Inr s \<and>
     payments (snd (initiate payLib demoGateway ''cit'' ''sr'' payCtx
       (payTown [askPermit SR_PENDING_PAYMENT] []))) = [p] \<and> p_amount p = 50000 \<and> ini_paymentId s = p_id p"
proof -
  let ?w = "payTown [askPermit SR_PENDING_PAYMENT] []"
  have "case initiate payLib demoGateway ''cit'' ''sr'' payCtx ?w of
     (Inl e, w') \<Rightarrow> False \<or> (pageUrl (Some \<lparr>ir_failedreason = None, ir_GatewayPageURL = Some ''http://pay''\<rparr>) = None)
   | (Inr s, w') \<Rightarrow> (\<exists>p. payments w' = [p] \<and> p_amount p = 50000 \<and> p_id p = ini_paymentId s)"
    using initiate_charges_the_fee [of "''sr''" "''cit''" ?w "askPermit SR_PENDING_PAYMENT" permit payer
        payLib demoGateway payCtx]
    by (auto simp: live_defs serviceTypeOf_def payLib_inj keyed_def demoGateway_def orNull_def
        split: prod.splits sum.splits)
  then show ?thesis by (auto simp: pageUrl_def split: prod.splits sum.splits)
qed

section \<open>Gaps\<close>

text \<open>A success callback that arrives for a payment already marked FAILED or CANCELLED is answered
  like a successful one, although the gateway has taken the money: the payment keeps its status and
  no audit row, notification or request records it.\<close>

theorem late_success_is_dropped:
  assumes "findByTran t w = Some p" and "withRelations p w = (Inr rel, w)"
    and "p_status p \<in> {FAILED, PAY_CANCELLED}" and "distinct (map p_id (payments w))"
    and "SSL_STORE_ID L \<noteq> []" and "SSL_STORE_PASSWORD L \<noteq> []"
    and "gw_validate G valId = Inr v" and "validationOk L p t (Some v)"
  shows "confirm L G t valId w = (Inr p, w)"
proof -
  have p: "p \<in> set (payments w)" "p_status p \<noteq> PENDING" "p_status p \<noteq> SUCCESS"
    using findByTran_Some [OF assms(1)] assms(3) by auto
  have no: "\<not> pendingRow p q" if "q \<in> set (payments w)" for q
    using distinct_key_unique [OF assms(4) that p(1)] p(2) by (auto simp: pendingRow_def)
  then have "updateWhere (pendingRow p) f (payments w) = payments w" for f
    by (intro updateWhere_none) (simp add: countWhere_0)
  moreover have "payments_update f w = w" if "f (payments w) = payments w" for f
    using that by (cases w) simp
  ultimately have "confirmCommit L valId v p w = (Inr False, w)"
    using no by (simp add: confirmCommit_def eval oneSuccess_def countWhere_0)
  then show ?thesis
    using assms p by (cases rel)
      (simp add: confirm_def run_bind run_then run_gets run_orThrow run_return assertGatewayConfigured_def
        run_throwIf orNull_def)
qed

theorem late_success_is_dropped_witness:
  "confirm payLib demoGateway ''CC-0-'' ''V1'' (payTown [askPermit SR_PENDING_PAYMENT] [demoPayment PAY_CANCELLED])
     = (Inr (demoPayment PAY_CANCELLED),
        payTown [askPermit SR_PENDING_PAYMENT] [demoPayment PAY_CANCELLED])"
proof (rule late_success_is_dropped)
  show "withRelations (demoPayment PAY_CANCELLED)
      (payTown [askPermit SR_PENDING_PAYMENT] [demoPayment PAY_CANCELLED]) =
    (Inr (askPermit SR_PENDING_PAYMENT, permit, payer),
     payTown [askPermit SR_PENDING_PAYMENT] [demoPayment PAY_CANCELLED])"
    by (simp add: withRelations_def eval requestOf_def serviceTypeOf_def payerOf_def)
  show "gw_validate demoGateway ''V1'' = Inr goodAnswer" by (simp add: demoGateway_def)
qed (simp_all add: findByTran_def demo_valid)

text \<open>Nothing locks a refund while it is being approved: two approvals that both found it REQUESTED
  both ask the gateway for the money, and the second transaction succeeds like the first and writes
  its own audit row.\<close>

theorem refund_approved_twice:
  assumes "findPayment i w = Some p" and "refundOf w p = Some r" and "requestOf w p = Some q"
  shows "\<exists>r1 w1 r2 w2. approveCommit L i a cx p g w = (Inr r1, w1) \<and>
     approveCommit L i b cy p h w1 = (Inr r2, w2) \<and>
     rf_approvedById r1 = Some (a_id a) \<and> rf_approvedById r2 = Some (a_id b) \<and>
     map al_action (auditLogs w2) = map al_action (auditLogs w) @ [''PAYMENT_REFUNDED'', ''PAYMENT_REFUNDED'']"
proof -
  have run: "\<exists>r w'. approveCommit L i x cz p k v = (Inr r, w') \<and> rf_approvedById r = Some (a_id x) \<and>
      map al_action (auditLogs w') = map al_action (auditLogs v) @ [''PAYMENT_REFUNDED''] \<and>
      i \<in> rf_paymentId ` set (refunds w') \<and> i \<in> p_id ` set (payments w') \<and>
      p_serviceRequestId p \<in> sr_id ` set (serviceRequests w')"
    if "i \<in> rf_paymentId ` set (refunds v)" "i \<in> p_id ` set (payments v)"
      "p_serviceRequestId p \<in> sr_id ` set (serviceRequests v)" for v x cz k
  proof -
    have key: "k \<in> key ` set rows \<longleftrightarrow> find (\<lambda>r. key r = k) rows \<noteq> None" for key :: "'r \<Rightarrow> string" and k rows
      by (auto simp: find_None_all image_iff simp del: not_None_eq)
    have img: "k \<in> key ` set (updateWhere P f rows) \<longleftrightarrow> k \<in> key ` set rows"
      if "\<And>r. key (f r) = key r" for key :: "'r \<Rightarrow> string" and k P f rows
      using that by (metis list.set_map map_updateWhere)
    show ?thesis
      using that unfolding key
      by (auto simp: approveCommit_def eval updateRefund_def updatePayment_def updateRequest_def
          find_updateWhere_key auditRow_def)
  qed
  have "i \<in> rf_paymentId ` set (refunds w)" "i \<in> p_id ` set (payments w)"
    "p_serviceRequestId p \<in> sr_id ` set (serviceRequests w)"
    using assms findPayment_Some [OF assms(1)] refundOf_Some [OF assms(2)]
    by (auto simp: requestOf_def dest!: find_Some_in intro: rev_image_eqI)
  from run [OF this, of a cx g] obtain r1 w1 where w1: "approveCommit L i a cx p g w = (Inr r1, w1)"
    "rf_approvedById r1 = Some (a_id a)"
    "map al_action (auditLogs w1) = map al_action (auditLogs w) @ [''PAYMENT_REFUNDED'']"
    "i \<in> rf_paymentId ` set (refunds w1)" "i \<in> p_id ` set (payments w1)"
    "p_serviceRequestId p \<in> sr_id ` set (serviceRequests w1)" by blast
  from run [OF w1(4-6), of b cy h] w1(1-3) show ?thesis by auto
qed

theorem refund_approved_twice_witness:
  "\<exists>r1 w1 r2 w2. approveCommit payLib ''uu'' clerk payCtx (payments askedBack ! 0) None askedBack = (Inr r1, w1) \<and>
     approveCommit payLib ''uu'' clerk payCtx (payments askedBack ! 0) None w1 = (Inr r2, w2)"
proof -
  have "findPayment ''uu'' askedBack = Some (payments askedBack ! 0)"
    by (simp add: findPayment_def askedBack_state paidTown_state newPayment_def)
  moreover obtain r where "refundOf askedBack (payments askedBack ! 0) = Some r"
    using askedBack_state(2) by (auto simp: refundOf_def askedBack_state(1) paidTown_state newPayment_def)
  moreover have "serviceRequests askedBack = serviceRequests paidTown"
    by (simp add: askedBack_def requestRefund_def eval findPayment_def refundOf_def paidTown_state
      newPayment_def insertRefund_def uniqueBy_def)
  then have "requestOf askedBack (payments askedBack ! 0) = Some (serviceRequests paidTown ! 0)"
    by (simp add: requestOf_def askedBack_state(1) paidTown_state newPayment_def newRequest_def)
  ultimately show ?thesis using refund_approved_twice by metis
qed

end
