(* ===== verification/Csv.thy ===== *)
theory Csv
  imports Utils "HOL-Library.List_Lexorder" "HOL-Library.Char_ord"
begin

text \<open>
  The CSV exports of \<^verbatim>\<open>payment.service.ts\<close> and \<^verbatim>\<open>admin.service.ts\<close>: how a cell is escaped, the loop
  that pages through the rows 500 at a time, and a standard reader that gets every cell back.
\<close>

section \<open>Cells and lines\<close>

definition csvSpecial :: "char \<Rightarrow> bool" where
  "csvSpecial c \<longleftrightarrow> c = CHR 0x22 \<or> c = CHR '','' \<or> c = CHR 0x0A"

fun doubleQuotes :: "string \<Rightarrow> string" where
  "doubleQuotes [] = []"
| "doubleQuotes (c # s) = (if c = CHR 0x22 then [c, c] else [c]) @ doubleQuotes s"

definition escapeCsv :: "string \<Rightarrow> string" where
  "escapeCsv s = (if list_ex csvSpecial s then CHR 0x22 # doubleQuotes s @ [CHR 0x22] else s)"

definition csvLine :: "string list \<Rightarrow> string" where
  "csvLine cells = join_with '','' (map escapeCsv cells) @ [CHR 0x0A]"

section \<open>The pages\<close>

definition PAGE_SIZE :: nat where
  "PAGE_SIZE = 500"

text \<open>One page: from the cursor row on, without it.\<close>

definition csvPage :: "('r \<Rightarrow> string) \<Rightarrow> 'r list \<Rightarrow> string option \<Rightarrow> 'r list" where
  "csvPage ident rows cursor =
     (let ordered = sort_key ident rows in
      take PAGE_SIZE
        (case cursor of
           None \<Rightarrow> ordered
         | Some c \<Rightarrow> if c = [] then ordered else drop 1 (dropWhile (\<lambda>p. ident p < c) ordered)))"

text \<open>
  The endless loop with its two exits, on a fuel that counts the pages; None when the fuel
  runs out. Distinct ids never need more pages than rows.
\<close>

fun csvPages :: "nat \<Rightarrow> ('r \<Rightarrow> string) \<Rightarrow> 'r list \<Rightarrow> string option \<Rightarrow> 'r list option" where
  "csvPages 0 ident rows cursor = None"
| "csvPages (Suc n) ident rows cursor =
     (let page = csvPage ident rows cursor in
      if page = [] then Some []
      else if length page < PAGE_SIZE then Some page
      else map_option (\<lambda>rest. page @ rest) (csvPages n ident rows (Some (ident (last page)))))"

section \<open>Reading a CSV file back\<close>

text \<open>
  A reader of comma-separated values as RFC 4180 describes them: a cell is plain, or it is quoted
  and a doubled quote stands for one.
\<close>

datatype csvMode = Plain | Quoted | QuoteSeen

fun csvScan :: "csvMode \<Rightarrow> string \<Rightarrow> string list \<Rightarrow> string \<Rightarrow> string list list" where
  "csvScan m cell cells [] = []"
| "csvScan Quoted cell cells (c # s) =
     (if c = CHR 0x22 then csvScan QuoteSeen cell cells s else csvScan Quoted (cell @ [c]) cells s)"
| "csvScan QuoteSeen cell cells (c # s) =
     (if c = CHR 0x22 then csvScan Quoted (cell @ [c]) cells s
      else if c = CHR 0x0A then (cells @ [cell]) # csvScan Plain [] [] s
      else csvScan Plain [] (cells @ [cell]) s)"
| "csvScan Plain cell cells (c # s) =
     (if c = CHR 0x22 then csvScan Quoted cell cells s
      else if c = CHR '','' then csvScan Plain [] (cells @ [cell]) s
      else if c = CHR 0x0A then (cells @ [cell]) # csvScan Plain [] [] s
      else csvScan Plain (cell @ [c]) cells s)"

definition readCsv :: "string \<Rightarrow> string list list" where
  "readCsv s = csvScan Plain [] [] s"

lemma scan_plain:
  "\<not> list_ex csvSpecial x \<Longrightarrow> csvScan Plain f cs (x @ s) = csvScan Plain (f @ x) cs s"
  by (induction x arbitrary: f) (auto simp: csvSpecial_def)

lemma scan_quoted: "csvScan Quoted f cs (doubleQuotes x @ s) = csvScan Quoted (f @ x) cs s"
  by (induction x arbitrary: f) auto

lemma scan_cell:
  "csvScan Plain [] cs (escapeCsv x @ CHR '','' # s) = csvScan Plain [] (cs @ [x]) s"
  "csvScan Plain [] cs (escapeCsv x @ CHR 0x0A # s) = (cs @ [x]) # csvScan Plain [] [] s"
  by (auto simp: escapeCsv_def scan_plain scan_quoted)

lemma scan_line:
  "cells \<noteq> [] \<Longrightarrow> csvScan Plain [] cs (csvLine cells @ s) = (cs @ cells) # csvScan Plain [] [] s"
proof (induction cells arbitrary: cs rule: list_nonempty_induct)
  case (single x)
  then show ?case by (simp add: csvLine_def scan_cell)
next
  case (cons x xs)
  then show ?case by (cases xs) (simp_all add: csvLine_def scan_cell)
qed

lemma csv_reading:
  "\<forall>cells \<in> set lines. cells \<noteq> [] \<Longrightarrow> readCsv (concat (map csvLine lines)) = lines"
  unfolding readCsv_def by (induction lines) (simp_all add: scan_line)

section \<open>The pages of the export\<close>

lemma sorted_ids:
  fixes ident :: "'r \<Rightarrow> string"
  shows "distinct (map ident rows) \<Longrightarrow> sorted_wrt (<) (map ident (sort_key ident rows))"
  by (simp add: strict_sorted_iff distinct_map)

lemma dropWhile_before:
  fixes ident :: "'r \<Rightarrow> string"
  shows "sorted_wrt (<) (map ident (pre @ p # suf)) \<Longrightarrow> dropWhile (\<lambda>q. ident q < ident p) (pre @ p # suf) = p # suf"
  by (induction pre) auto

text \<open>From any prefix of the ordered rows on, the loop collects the rest, a page at a time.\<close>

lemma csvPages_rest:
  fixes ident :: "'r \<Rightarrow> string"
  assumes "distinct (map ident rows)" and "\<forall>p \<in> set rows. ident p \<noteq> []"
  shows "sort_key ident rows = pre @ suf \<Longrightarrow> length suf div PAGE_SIZE < n \<Longrightarrow>
    csvPages n ident rows (if pre = [] then None else Some (ident (last pre))) = Some suf"
proof (induction n arbitrary: pre suf)
  case 0
  then show ?case by simp
next
  case (Suc n)
  have size: "0 < PAGE_SIZE" by (simp add: PAGE_SIZE_def)
  have page: "csvPage ident rows (if pre = [] then None else Some (ident (last pre))) = take PAGE_SIZE suf"
  proof (cases pre rule: rev_cases)
    case Nil
    then show ?thesis using Suc.prems by (simp add: csvPage_def)
  next
    case (snoc ini p)
    have "p \<in> set rows" using Suc.prems(1) snoc by (metis in_set_conv_decomp set_append set_sort UnCI)
    then have "ident p \<noteq> []" using assms(2) by blast
    moreover have "dropWhile (\<lambda>q. ident q < ident p) (sort_key ident rows) = p # suf"
      using dropWhile_before [of ident ini p suf] sorted_ids [OF assms(1)] Suc.prems(1) snoc by simp
    ultimately show ?thesis by (simp add: csvPage_def snoc)
  qed
  show ?case
  proof (cases "length suf < PAGE_SIZE")
    case True
    then show ?thesis by (cases "suf = []") (simp_all add: page Let_def)
  next
    case False
    let ?page = "take PAGE_SIZE suf" and ?rest = "drop PAGE_SIZE suf"
    have nonempty: "?page \<noteq> []" using False size by auto
    have "sort_key ident rows = (pre @ ?page) @ ?rest" using Suc.prems(1) by simp
    moreover have "length ?rest div PAGE_SIZE < n"
      using Suc.prems(2) False size by (simp add: le_div_geq)
    ultimately have "csvPages n ident rows (Some (ident (last ?page))) = Some ?rest"
      using Suc.IH [of "pre @ ?page" ?rest] nonempty by simp
    then show ?thesis using False nonempty by (simp add: page Let_def)
  qed
qed

end
