(* ===== verification/Ledger.thy ===== *)
theory Ledger
  imports Payment Csv
begin

text \<open>
  The staff ledger of \<^verbatim>\<open>payment.service.ts\<close>: one filter shared by the table, the totals and the
  CSV export, the summary with its daily series, and the export in pages of 500 rows.
\<close>

section \<open>The filter\<close>

record ledgerQuery =
  lg_status :: "pay_status option"
  lg_serviceTypeId :: "string option"
  lg_from :: "string option"
  lg_to :: "string option"
  lg_q :: "string option"

text \<open>\<open>String(value ?? 0)\<close>: a sum over no row is null.\<close>

definition money :: "lib \<Rightarrow> paisa option \<Rightarrow> string" where
  "money L value = (case value of None \<Rightarrow> ''0'' | Some v \<Rightarrow> decStr L v)"

definition truthy :: "string option \<Rightarrow> bool" where
  "truthy s = (case s of None \<Rightarrow> False | Some t \<Rightarrow> t \<noteq> [])"

definition ledgerLike :: "lib \<Rightarrow> string \<Rightarrow> world \<Rightarrow> payment \<Rightarrow> bool" where
  "ledgerLike L term w p \<longleftrightarrow>
     ilike L term (p_transactionId p) \<or>
     (case requestOf w p of None \<Rightarrow> False | Some r \<Rightarrow> ilike L term (sr_referenceNo r)) \<or>
     (case payerOf w p of None \<Rightarrow> False
      | Some u \<Rightarrow> ilike L term (u_name u) \<or> ilike L term (u_email u))"

definition ledgerWhere :: "lib \<Rightarrow> ledgerQuery \<Rightarrow> exn + (world \<Rightarrow> payment \<Rightarrow> bool)" where
  "ledgerWhere L query =
     (case dateRange L (lg_from query) (lg_to query) of
        Inl e \<Rightarrow> Inl e
      | Inr created \<Rightarrow> Inr (\<lambda>w p.
          (case lg_status query of None \<Rightarrow> True | Some s \<Rightarrow> p_status p = s) \<and>
          inRange created (p_createdAt p) \<and>
          (truthy (lg_serviceTypeId query) \<longrightarrow>
             (case requestOf w p of None \<Rightarrow> False
              | Some r \<Rightarrow> Some (sr_serviceTypeId r) = lg_serviceTypeId query)) \<and>
          (case map_option js_trim (lg_q query) of
             None \<Rightarrow> True
           | Some t \<Rightarrow> if t = [] then True else ledgerLike L t w p)))"

section \<open>The table\<close>

record ledgerRow =
  lr_payment :: paymentView
  lr_gateway :: string
  lr_user :: "applicantView option"
  lr_request :: "(string \<times> string \<times> (string \<times> string) option) option"
  lr_refund :: "(refund_status \<times> string \<times> instant option) option"

definition ledgerRowOf :: "lib \<Rightarrow> world \<Rightarrow> payment \<Rightarrow> ledgerRow" where
  "ledgerRowOf L w p =
     \<lparr>lr_payment = (publicPayment L p)\<lparr>pv_amount := money L (Some (p_amount p))\<rparr>,
      lr_gateway = p_gateway p,
      lr_user = map_option (\<lambda>u. \<lparr>av_id = u_id u, av_name = u_name u, av_email = u_email u\<rparr>) (payerOf w p),
      lr_request = map_option (\<lambda>r. (sr_id r, sr_referenceNo r,
          map_option (\<lambda>t. (st_id t, st_name t)) (serviceTypeOf w r))) (requestOf w p),
      lr_refund = map_option (\<lambda>r. (rf_status r, money L (Some (rf_amount r)), rf_processedAt r))
          (refundOf w p)\<rparr>"

definition listAllPayments ::
  "lib \<Rightarrow> ledgerQuery \<Rightarrow> int option \<Rightarrow> int option \<Rightarrow> (ledgerRow list \<times> meta) act" where
  "listAllPayments L query page limit =
     (let pagination = getPagination page limit in
      bindM (liftE (ledgerWhere L query)) (\<lambda>whereP.
      getsM (\<lambda>w. let rows = filter (whereP w) (payments w) in
        (map (ledgerRowOf L w) (pageRows pagination (orderRows p_createdAt False rows)),
         buildMeta pagination (length rows)))))"

section \<open>The books\<close>

record total =
  tt_count :: nat
  tt_amount :: string

text \<open>The sum the database answers: null over no row.\<close>

definition sumOf :: "payment list \<Rightarrow> paisa option" where
  "sumOf rows = (if rows = [] then None else Some (sum_list (map p_amount rows)))"

definition statusRows :: "(payment \<Rightarrow> bool) \<Rightarrow> pay_status \<Rightarrow> world \<Rightarrow> payment list" where
  "statusRows whereP status w = filter (\<lambda>p. whereP p \<and> p_status p = status) (payments w)"

definition totalFor :: "lib \<Rightarrow> (payment \<Rightarrow> bool) \<Rightarrow> pay_status \<Rightarrow> world \<Rightarrow> total" where
  "totalFor L whereP status w =
     (let rows = statusRows whereP status w in
      \<lparr>tt_count = length rows, tt_amount = money L (sumOf rows)\<rparr>)"

text \<open>The amount the two sums stand for, which the code subtracts as decimals.\<close>

definition netOf :: "(payment \<Rightarrow> bool) \<Rightarrow> world \<Rightarrow> paisa" where
  "netOf whereP w =
     sum_list (map p_amount (statusRows whereP SUCCESS w)) -
     sum_list (map p_amount (statusRows whereP REFUNDED w))"

text \<open>\<open>Decimal.toFixed(2)\<close> of an amount in paisa.\<close>

definition toFixed2 :: "paisa \<Rightarrow> string" where
  "toFixed2 a = (if a < 0 then ''-'' else []) @ show_int (\<bar>a\<bar> div 100) @ ''.'' @
     padStart 2 (CHR ''0'') (show_int (\<bar>a\<bar> mod 100))"

record typeTotal =
  ty_serviceTypeId :: string
  ty_serviceType :: string
  ty_count :: nat
  ty_amount :: string

text \<open>
  Grouped by request in the database, then folded by service type. The lookup of the requests
  passes the soft-delete filter, so the rows of a deleted request are skipped.
\<close>

definition groupedRequests :: "payment list \<Rightarrow> (string \<times> nat \<times> paisa) list" where
  "groupedRequests rows =
     map (\<lambda>i. let g = filter (\<lambda>p. p_serviceRequestId p = i) rows in
            (i, length g, sum_list (map p_amount g)))
       (remdups (map p_serviceRequestId rows))"

definition typeOf :: "world \<Rightarrow> string \<Rightarrow> serviceType option" where
  "typeOf w i =
     (case find (\<lambda>r. sr_id r = i) (liveServiceRequests w) of
        None \<Rightarrow> None | Some r \<Rightarrow> serviceTypeOf w r)"

fun addToType ::
  "serviceType \<Rightarrow> nat \<Rightarrow> paisa \<Rightarrow> (string \<times> string \<times> nat \<times> paisa) list \<Rightarrow>
   (string \<times> string \<times> nat \<times> paisa) list" where
  "addToType t n a [] = [(st_id t, st_name t, n, a)]"
| "addToType t n a ((i, nm, m, b) # es) =
     (if i = st_id t then (i, nm, m + n, b + a) # es else (i, nm, m, b) # addToType t n a es)"

definition perType :: "world \<Rightarrow> payment list \<Rightarrow> (string \<times> string \<times> nat \<times> paisa) list" where
  "perType w rows =
     foldl (\<lambda>es (i, n, a). case typeOf w i of None \<Rightarrow> es | Some t \<Rightarrow> addToType t n a es)
       [] (groupedRequests rows)"

definition byServiceType :: "world \<Rightarrow> payment list \<Rightarrow> typeTotal list" where
  "byServiceType w rows =
     map (\<lambda>(i, nm, n, a). \<lparr>ty_serviceTypeId = i, ty_serviceType = nm, ty_count = n,
                            ty_amount = toFixed2 a\<rparr>)
       (sort_key (\<lambda>(_, _, _, a). - a) (perType w rows))"

record dayTotal =
  dt_date :: string
  dt_count :: nat
  dt_amount :: string

text \<open>The raw query: settled rows with a paid date in the range, grouped by UTC day.\<close>

definition seriesRows ::
  "ledgerQuery \<Rightarrow> instant \<Rightarrow> instant \<Rightarrow> world \<Rightarrow> (instant \<times> payment) list" where
  "seriesRows query lo hi w =
     concat (map (\<lambda>p. case p_paidAt p of
         None \<Rightarrow> []
       | Some t \<Rightarrow>
           if p_status p = SUCCESS \<and> lo \<le> t \<and> t \<le> hi \<and>
              (case requestOf w p of None \<Rightarrow> False
               | Some r \<Rightarrow> truthy (lg_serviceTypeId query) \<longrightarrow>
                           Some (sr_serviceTypeId r) = lg_serviceTypeId query)
           then [(start_of_day t, p)] else []) (payments w))"

definition dailySeries :: "lib \<Rightarrow> (instant \<times> payment) list \<Rightarrow> dayTotal list" where
  "dailySeries L rows =
     map (\<lambda>d. let g = map snd (filter (\<lambda>r. fst r = d) rows) in
            \<lparr>dt_date = take 10 (iso_string d), dt_count = length g, dt_amount = money L (sumOf g)\<rparr>)
       (sort (remdups (map fst rows)))"

record ledgerSummary =
  ls_collected :: total
  ls_pending :: total
  ls_failed :: total
  ls_cancelled :: total
  ls_refunded :: total
  ls_net :: string
  ls_today :: total
  ls_month :: total
  ls_allTime :: total
  ls_byServiceType :: "typeTotal list"
  ls_daily :: "dayTotal list"

definition paidSince :: "instant \<Rightarrow> payment \<Rightarrow> bool" where
  "paidSince t p = (case p_paidAt p of None \<Rightarrow> False | Some m \<Rightarrow> t \<le> m)"

definition seriesFrom :: "(instant option \<times> instant option) option \<Rightarrow> instant \<Rightarrow> instant" where
  "seriesFrom period now =
     (case period of Some (Some lo, _) \<Rightarrow> lo | _ \<Rightarrow> now - 29 * 86400000)"

definition seriesTo :: "(instant option \<times> instant option) option \<Rightarrow> instant \<Rightarrow> instant" where
  "seriesTo period now = (case period of Some (_, Some hi) \<Rightarrow> hi | _ \<Rightarrow> now)"

definition summary :: "lib \<Rightarrow> ledgerQuery \<Rightarrow> ledgerSummary act" where
  "summary L query =
     bindM (liftE (ledgerWhere L (query\<lparr>lg_status := None\<rparr>))) (\<lambda>whereP.
     bindM (liftE (dateRange L (lg_from query) (lg_to query))) (\<lambda>period.
     getsM (\<lambda>w.
       \<lparr>ls_collected = totalFor L (whereP w) SUCCESS w,
        ls_pending = totalFor L (whereP w) PENDING w,
        ls_failed = totalFor L (whereP w) FAILED w,
        ls_cancelled = totalFor L (whereP w) PAY_CANCELLED w,
        ls_refunded = totalFor L (whereP w) REFUNDED w,
        ls_net = money L (Some (netOf (whereP w) w)),
        ls_today = totalFor L (paidSince (start_of_day (clock w))) SUCCESS w,
        ls_month = totalFor L (paidSince (start_of_month (clock w))) SUCCESS w,
        ls_allTime = totalFor L (\<lambda>_. True) SUCCESS w,
        ls_byServiceType = byServiceType w (statusRows (whereP w) SUCCESS w),
        ls_daily = dailySeries L (seriesRows query (seriesFrom period (clock w))
                     (seriesTo period (clock w)) w)\<rparr>)))"

section \<open>The CSV export\<close>

definition csvHeader :: string where
  "csvHeader = ''transactionId,status,amount,currency,paidAt,createdAt,payer,email,reference,serviceType,refundStatus,refundAmount'' @ [CHR 0x0A]"

definition csvFields :: "lib \<Rightarrow> world \<Rightarrow> payment \<Rightarrow> string list" where
  "csvFields L w p =
     [p_transactionId p, show_pay_status (p_status p), money L (Some (p_amount p)), p_currency p,
      (case p_paidAt p of None \<Rightarrow> [] | Some t \<Rightarrow> iso_string t), iso_string (p_createdAt p),
      (case payerOf w p of None \<Rightarrow> [] | Some u \<Rightarrow> u_name u),
      (case payerOf w p of None \<Rightarrow> [] | Some u \<Rightarrow> u_email u),
      (case requestOf w p of None \<Rightarrow> [] | Some r \<Rightarrow> sr_referenceNo r),
      (case requestOf w p of None \<Rightarrow> []
       | Some r \<Rightarrow> (case serviceTypeOf w r of None \<Rightarrow> [] | Some t \<Rightarrow> st_name t)),
      (case refundOf w p of None \<Rightarrow> [] | Some r \<Rightarrow> show_refund_status (rf_status r)),
      (case refundOf w p of None \<Rightarrow> [] | Some r \<Rightarrow> money L (Some (rf_amount r)))]"

definition streamLedgerCsv :: "lib \<Rightarrow> nat \<Rightarrow> ledgerQuery \<Rightarrow> string option act" where
  "streamLedgerCsv L fuel query =
     bindM (liftE (ledgerWhere L query)) (\<lambda>whereP.
     getsM (\<lambda>w. map_option (\<lambda>rows. csvHeader @ concat (map (\<lambda>p. csvLine (csvFields L w p)) rows))
       (csvPages fuel p_id (filter (whereP w) (payments w)) None)))"

end
