(* ===== verification/LedgerProps.thy ===== *)
theory LedgerProps
  imports Ledger PaymentWorld
begin

text \<open>
  The properties of the ledger: the export is read back cell by cell, it holds every row of the
  filter once, and the net figure of the summary after a refund.
\<close>

section \<open>Reading a CSV file back\<close>



section \<open>The pages of the export\<close>

text \<open>C38: The export of the ledger ends, after at most one page more than 500 rows fill, and a CSV reader
  finds in it the heading and then every payment of the filter exactly once, in the order of their
  ids.\<close>

theorem export_holds_every_row_once:
  assumes "distinct (map p_id (payments w))" and "\<forall>p \<in> set (payments w). p_id p \<noteq> []"
    and "ledgerWhere L query = Inr whereP" and "length (payments w) div 500 < fuel"
  shows "\<exists>text. streamLedgerCsv L fuel query w = (Inr (Some text), w) \<and>
     tl (readCsv text) = map (csvFields L w) (sort_key p_id (filter (whereP w) (payments w))) \<and>
     length (readCsv text) = Suc (length (filter (whereP w) (payments w)))"
proof -
  let ?rows = "filter (whereP w) (payments w)"
  let ?text = "csvHeader @ concat (map (\<lambda>p. csvLine (csvFields L w p)) (sort_key p_id ?rows))"
  have "length ?rows div PAGE_SIZE \<le> length (payments w) div PAGE_SIZE"
    by (intro div_le_mono) simp
  then have "csvPages fuel p_id ?rows None = Some (sort_key p_id ?rows)"
    using csvPages_rest [of p_id ?rows "[]" "sort_key p_id ?rows" fuel] assms
    by (simp add: PAGE_SIZE_def distinct_map_filter)
  then have run: "streamLedgerCsv L fuel query w = (Inr (Some ?text), w)"
    using assms(3) by (simp add: streamLedgerCsv_def liftE_def eval)
  have header: "csvHeader = csvLine (split_on (CHR '','') (butlast csvHeader))"
    by (simp add: csvHeader_def csvLine_def escapeCsv_def csvSpecial_def)
  have "readCsv ?text = split_on (CHR '','') (butlast csvHeader) #
      map (csvFields L w) (sort_key p_id ?rows)"
    using csv_reading [of "split_on (CHR '','') (butlast csvHeader) # map (csvFields L w) (sort_key p_id ?rows)"]
    by (simp add: header [symmetric] comp_def csvFields_def split_on_nonempty)
  with run show ?thesis by simp
qed

theorem export_holds_every_row_once_witness:
  "\<exists>text. streamLedgerCsv payLib 1
       \<lparr>lg_status = None, lg_serviceTypeId = None, lg_from = None, lg_to = None, lg_q = None\<rparr>
       (payTown [] [demoPayment FAILED]) = (Inr (Some text), payTown [] [demoPayment FAILED]) \<and>
     length (readCsv text) = 2"
proof -
  let ?q = "\<lparr>lg_status = None, lg_serviceTypeId = None, lg_from = None, lg_to = None, lg_q = None\<rparr>"
  have "\<exists>P. ledgerWhere payLib ?q = Inr P \<and> P (payTown [] [demoPayment FAILED]) (demoPayment FAILED)"
    by (simp add: ledgerWhere_def dateRange_def dateBound_def inRange_def truthy_def)
  then obtain whereP where "ledgerWhere payLib ?q = Inr whereP"
    and "whereP (payTown [] [demoPayment FAILED]) (demoPayment FAILED)" by blast
  with export_holds_every_row_once [of "payTown [] [demoPayment FAILED]" payLib ?q whereP 1]
  show ?thesis by auto
qed

section \<open>The net figure\<close>

text \<open>The summary asked for without any filter.\<close>

definition noFilter :: ledgerQuery where
  "noFilter = \<lparr>lg_status = None, lg_serviceTypeId = None, lg_from = None, lg_to = None, lg_q = None\<rparr>"

lemma summary_net:
  "\<exists>s. fst (summary L noFilter w) = Inr s \<and> ls_net s = decStr L (netOf (\<lambda>_. True) w)"
  by (simp add: summary_def noFilter_def ledgerWhere_def dateRange_def dateBound_def inRange_def
      truthy_def liftE_def eval money_def)

lemma sum_moved:
  assumes "distinct (map p_id ps)" and "p \<in> set ps" and "p_status p = SUCCESS"
  shows "sum_list (map p_amount (filter (\<lambda>q. p_status q = SUCCESS)
      (updateWhere (\<lambda>q. p_id q = p_id p) (\<lambda>q. q\<lparr>p_status := REFUNDED, p_updatedAt := t\<rparr>) ps))) =
    sum_list (map p_amount (filter (\<lambda>q. p_status q = SUCCESS) ps)) - p_amount p" (is "?s ps")
    and "sum_list (map p_amount (filter (\<lambda>q. p_status q = REFUNDED)
      (updateWhere (\<lambda>q. p_id q = p_id p) (\<lambda>q. q\<lparr>p_status := REFUNDED, p_updatedAt := t\<rparr>) ps))) =
    sum_list (map p_amount (filter (\<lambda>q. p_status q = REFUNDED) ps)) + p_amount p" (is "?r ps")
proof -
  have "?s ps \<and> ?r ps" using assms
  proof (induction ps)
    case Nil
    then show ?case by simp
  next
    case (Cons q ps)
    show ?case
    proof (cases "p_id q = p_id p")
      case True
      then have q: "q = p" using Cons.prems by (auto simp: image_iff)
      then have "countWhere (\<lambda>q. p_id q = p_id p) ps = 0"
        using Cons.prems by (auto simp: countWhere_0 image_iff)
      then show ?thesis using Cons.prems(3) by (simp add: updateWhere_none q)
    next
      case False
      then show ?thesis using Cons by auto
    qed
  qed
  then show "?s ps" "?r ps" by simp_all
qed

text \<open>Approving a refund lowers the net figure of the summary by twice the refund: the payment leaves
  the sum of what was collected and enters the sum of what was refunded, which is subtracted once
  more.\<close>

theorem net_counts_a_refund_twice:
  assumes "distinct (map p_id (payments w))" and "findPayment i w = Some p" and "p_status p = SUCCESS"
    and "approveCommit L i a cx p ref w = (Inr r, w')"
  shows "\<exists>s s' n. fst (summary L noFilter w) = Inr s \<and> ls_net s = decStr L n \<and>
     fst (summary L noFilter w') = Inr s' \<and> ls_net s' = decStr L (n - 2 * p_amount p)"
proof -
  have p: "p \<in> set (payments w)" "p_id p = i" using findPayment_Some [OF assms(2)] by auto
  have rows: "payments w' = updateWhere (\<lambda>q. p_id q = p_id p)
      (\<lambda>q. q\<lparr>p_status := REFUNDED, p_updatedAt := clock w\<rparr>) (payments w)"
    by (cases rule: approveCommit_cases [of L i a cx p ref w]) (use assms(4) p(2) in auto)
  have "netOf (\<lambda>_. True) w' = netOf (\<lambda>_. True) w - 2 * p_amount p"
    by (simp add: netOf_def statusRows_def rows sum_moved [OF assms(1) p(1) assms(3)])
  then show ?thesis using summary_net [of L w] summary_net [of L w'] by metis
qed

theorem net_counts_a_refund_twice_witness:
  "\<exists>w' s s' n. fst (summary payLib noFilter askedBack) = Inr s \<and> ls_net s = show_int n \<and>
     fst (summary payLib noFilter w') = Inr s' \<and> ls_net s' = show_int (n - 100000)"
proof -
  let ?p = "payments askedBack ! 0"
  have p: "findPayment ''uu'' askedBack = Some ?p" "p_status ?p = SUCCESS" "p_amount ?p = 50000"
    by (simp_all add: findPayment_def askedBack_state paidTown_state newPayment_def)
  have req: "serviceRequests askedBack = serviceRequests paidTown"
    by (simp add: askedBack_def requestRefund_def eval findPayment_def refundOf_def paidTown_state
      newPayment_def insertRefund_def uniqueBy_def)
  have "\<exists>r w'. approveCommit payLib ''uu'' clerk payCtx ?p None askedBack = (Inr r, w')"
    using askedBack_state(2)
    by (auto simp: approveCommit_def eval updateRefund_def updatePayment_def updateRequest_def req
        askedBack_state(1) paidTown_state newPayment_def newRequest_def)
  then obtain r w' where "approveCommit payLib ''uu'' clerk payCtx ?p None askedBack = (Inr r, w')" by blast
  from net_counts_a_refund_twice [OF _ p(1,2) this] p(3) show ?thesis
    by (auto simp: askedBack_state(1) paidTown_state)
qed

end
