(* ===== verification/AuthCore.thy ===== *)
theory AuthCore
  imports Utils
begin

text \<open>
  What every authentication flow of \<^verbatim>\<open>modules/auth/auth.service.ts\<close> is made of: the Redis keys
  and limits of \<^verbatim>\<open>auth.constants.ts\<close>, the security log, sessions with their refresh tokens,
  trusted devices, and the middlewares \<^verbatim>\<open>auth.ts\<close> and \<^verbatim>\<open>authorize.ts\<close> that read them.
\<close>

section \<open>Constants\<close>

definition KEYS_pendingSignup :: "string \<Rightarrow> string" where
  "KEYS_pendingSignup email = ''reg:pending:'' @ email"

definition KEYS_otpCooldown :: "string \<Rightarrow> string" where
  "KEYS_otpCooldown email = ''otp:cooldown:'' @ email"

definition KEYS_otpSends :: "string \<Rightarrow> string" where
  "KEYS_otpSends email = ''otp:sends:'' @ email"

definition KEYS_loginFail :: "string \<Rightarrow> string" where
  "KEYS_loginFail email = ''login:fail:'' @ email"

definition KEYS_loginIp :: "string \<Rightarrow> string" where
  "KEYS_loginIp ip = ''login:ip:'' @ ip"

definition KEYS_loginOtp :: "string \<Rightarrow> string" where
  "KEYS_loginOtp challengeId = ''login:otp:'' @ challengeId"

definition KEYS_loginMagic :: "string \<Rightarrow> string" where
  "KEYS_loginMagic tokenHash = ''login:magic:'' @ tokenHash"

definition KEYS_passwordReset :: "string \<Rightarrow> string" where
  "KEYS_passwordReset tokenHash = ''pwd:reset:'' @ tokenHash"

definition KEYS_jwtDeny :: "string \<Rightarrow> string" where
  "KEYS_jwtDeny jti = ''jwt:deny:'' @ jti"

definition KEYS_session :: "string \<Rightarrow> string" where
  "KEYS_session sid = ''sess:'' @ sid"

definition KEYS_loginFailIpAlert :: "string \<Rightarrow> string" where
  "KEYS_loginFailIpAlert ip = ''login:ipalert:'' @ ip"

lemmas KEYS_defs = KEYS_pendingSignup_def KEYS_otpCooldown_def KEYS_otpSends_def KEYS_loginFail_def
  KEYS_loginIp_def KEYS_loginOtp_def KEYS_loginMagic_def KEYS_passwordReset_def KEYS_jwtDeny_def
  KEYS_session_def KEYS_loginFailIpAlert_def

text \<open>No key of one family is a key of another: the families differ before the name they carry.\<close>

lemma KEYS_disjoint [simp]:
  "KEYS_loginOtp a \<noteq> KEYS_loginMagic b" "KEYS_loginMagic b \<noteq> KEYS_loginOtp a"
  "KEYS_loginOtp a \<noteq> KEYS_loginFailIpAlert b" "KEYS_loginFailIpAlert b \<noteq> KEYS_loginOtp a"
  "KEYS_loginMagic a \<noteq> KEYS_loginFailIpAlert b" "KEYS_loginFailIpAlert b \<noteq> KEYS_loginMagic a"
  "KEYS_loginFail a \<noteq> KEYS_loginIp b" "KEYS_loginIp b \<noteq> KEYS_loginFail a"
  "KEYS_loginFail a \<noteq> KEYS_loginFailIpAlert b" "KEYS_loginFailIpAlert b \<noteq> KEYS_loginFail a"
  "KEYS_loginIp a \<noteq> KEYS_loginFailIpAlert b" "KEYS_loginFailIpAlert b \<noteq> KEYS_loginIp a"
  "KEYS_pendingSignup a \<noteq> KEYS_otpCooldown b" "KEYS_otpCooldown b \<noteq> KEYS_pendingSignup a"
  "KEYS_pendingSignup a \<noteq> KEYS_otpSends b" "KEYS_otpSends b \<noteq> KEYS_pendingSignup a"
  "KEYS_otpCooldown a \<noteq> KEYS_otpSends b" "KEYS_otpSends b \<noteq> KEYS_otpCooldown a"
  "KEYS_jwtDeny a \<noteq> KEYS_session b" "KEYS_session b \<noteq> KEYS_jwtDeny a"
  "KEYS_passwordReset a \<noteq> KEYS_session b" "KEYS_session b \<noteq> KEYS_passwordReset a"
  by (simp_all add: KEYS_defs)

lemma KEYS_inj [simp]:
  "KEYS_loginOtp a = KEYS_loginOtp b \<longleftrightarrow> a = b" "KEYS_loginMagic a = KEYS_loginMagic b \<longleftrightarrow> a = b"
  "KEYS_session a = KEYS_session b \<longleftrightarrow> a = b" "KEYS_loginFail a = KEYS_loginFail b \<longleftrightarrow> a = b"
  "KEYS_pendingSignup a = KEYS_pendingSignup b \<longleftrightarrow> a = b" "KEYS_jwtDeny a = KEYS_jwtDeny b \<longleftrightarrow> a = b"
  by (simp_all add: KEYS_defs)

definition TTL_otpCooldown :: real where "TTL_otpCooldown = 60"

definition TTL_otpSends :: int where "TTL_otpSends = 3600"

definition TTL_loginFail :: int where "TTL_loginFail = 900"

definition TTL_loginFailLong :: int where "TTL_loginFailLong = 3600"

definition TTL_loginIp :: int where "TTL_loginIp = 900"

definition TTL_passwordReset :: real where "TTL_passwordReset = 900"

definition TTL_trustedDeviceDays :: int where "TTL_trustedDeviceDays = 30"

definition TTL_refreshDays :: int where "TTL_refreshDays = 7"

definition TTL_superAdminSessionHours :: int where "TTL_superAdminSessionHours = 8"

definition otpSendsPerHour :: nat where "otpSendsPerHour = 5"

definition signupOtpAttempts :: nat where "signupOtpAttempts = 5"

definition loginOtpAttempts :: nat where "loginOtpAttempts = 5"

definition loginOtpResends :: nat where "loginOtpResends = 3"

definition loginFailBeforeLock :: nat where "loginFailBeforeLock = 5"

definition loginFailBeforeLongLock :: nat where "loginFailBeforeLongLock = 10"

definition loginFailPerIp :: nat where "loginFailPerIp = 30"

lemmas LIMITS_defs = otpSendsPerHour_def signupOtpAttempts_def loginOtpAttempts_def
  loginOtpResends_def loginFailBeforeLock_def loginFailBeforeLongLock_def loginFailPerIp_def

lemmas TTL_defs = TTL_otpCooldown_def TTL_otpSends_def TTL_loginFail_def TTL_loginFailLong_def
  TTL_loginIp_def TTL_passwordReset_def TTL_trustedDeviceDays_def TTL_refreshDays_def
  TTL_superAdminSessionHours_def

definition GENERIC_INVALID_CREDENTIALS :: string where
  "GENERIC_INVALID_CREDENTIALS = ''Invalid credentials''"

text \<open>\<open>REVOKE_REASON\<close>.\<close>

datatype revokeReason = LOGOUT | PASSWORD_CHANGED | TOKEN_REUSE | ADMIN_REVOKED | ROLE_CHANGED

fun show_reason :: "revokeReason \<Rightarrow> string" where
  "show_reason LOGOUT = ''LOGOUT''"
| "show_reason PASSWORD_CHANGED = ''PASSWORD_CHANGED''"
| "show_reason TOKEN_REUSE = ''TOKEN_REUSE''"
| "show_reason ADMIN_REVOKED = ''ADMIN''"
| "show_reason ROLE_CHANGED = ''ROLE_CHANGED''"

section \<open>Shared helpers\<close>

record publicUser =
  pu_id :: string
  pu_name :: string
  pu_email :: string
  pu_role :: role
  pu_avatarUrl :: "string option"

definition publicUserOf :: "user \<Rightarrow> publicUser" where
  "publicUserOf u = \<lparr>pu_id = u_id u, pu_name = u_name u, pu_email = u_email u, pu_role = u_role u,
     pu_avatarUrl = u_avatarUrl u\<rparr>"

text \<open>An \<open>ApiError\<close> of the callback passes; anything else becomes a 503.\<close>

definition requireRedis :: "'a act \<Rightarrow> 'a act" where
  "requireRedis m = catchM m (\<lambda>e. throwM (case e of
       ApiErr _ _ _ \<Rightarrow> e
     | _ \<Rightarrow> apiError 503 ''Verification service is temporarily unavailable''
              [det ''SERVICE_UNAVAILABLE'' ''Please try again in a moment'']))"

text \<open>The security event log; a failed login also counts towards the alert of its address.\<close>

definition logSecurity ::
  "lib \<Rightarrow> string option \<Rightarrow> string option \<Rightarrow> sec_event \<Rightarrow> ctx \<Rightarrow> unit act" where
  "logSecurity L userId email type cx =
     bindM (freshId L) (\<lambda>i. bindM (getsM clock) (\<lambda>now.
     thenM (insertRow securityEvents_update
        \<lparr>sv_id = i, sv_userId = userId, sv_email = email, sv_type = type, sv_ip = Some (ctx_ip cx),
         sv_userAgent = Some (ctx_ua cx), sv_meta = None, sv_createdAt = now\<rparr>)
     (whenM (type = EV_LOGIN_FAILED)
        (bindM (orElse (redisIncr (KEYS_loginFailIpAlert (ctx_ip cx))) 0) (\<lambda>count.
         whenM (count = 1) (orElse (redisExpire (KEYS_loginFailIpAlert (ctx_ip cx)) 3600) ()))))))"

text \<open>\<open>prisma.user.update\<close>: the row with that id, deleted or not; \<open>updatedAt\<close> moves.\<close>

definition updateUser :: "string \<Rightarrow> (user \<Rightarrow> user) \<Rightarrow> user act" where
  "updateUser i f =
     bindM (getsM clock) (\<lambda>now.
       updateRow users users_update (\<lambda>u. u_id u = i) (\<lambda>u. (f u)\<lparr>u_updatedAt := now\<rparr>))"

section \<open>Sessions\<close>

definition liveSession :: "string \<Rightarrow> session \<Rightarrow> bool" where
  "liveSession userId s \<longleftrightarrow> se_userId s = userId \<and> se_revokedAt s = None"

definition liveToken :: "string \<Rightarrow> refreshToken \<Rightarrow> bool" where
  "liveToken userId t \<longleftrightarrow> rt_userId t = userId \<and> rt_revokedAt t = None"

definition revokeAllSessions :: "string \<Rightarrow> revokeReason \<Rightarrow> nat act" where
  "revokeAllSessions userId reason =
     bindM (getsM (\<lambda>w. filter (liveSession userId) (sessions w))) (\<lambda>found.
     bindM (getsM clock) (\<lambda>now.
     thenM (transaction
        (thenM (updateMany sessions sessions_update (liveSession userId)
           (\<lambda>s. s\<lparr>se_revokedAt := Some now, se_revokedReason := Some (show_reason reason)\<rparr>))
         (updateMany refreshTokens refreshTokens_update (liveToken userId)
           (\<lambda>t. t\<lparr>rt_revokedAt := Some now\<rparr>))))
     (thenM (invalidate (map (\<lambda>s. KEYS_session (se_id s)) found))
     (returnM (length found)))))"

definition isTrustedDevice :: "lib \<Rightarrow> string \<Rightarrow> string \<Rightarrow> bool act" where
  "isTrustedDevice L userId deviceToken =
     getsM (\<lambda>w. case find (\<lambda>d. td_tokenHash d = sha256 L deviceToken) (trustedDevices w) of
        None \<Rightarrow> False
      | Some row \<Rightarrow> td_userId row = userId \<and> clock w < td_expiresAt row)"

definition createTrustedDevice :: "lib \<Rightarrow> string \<Rightarrow> string \<Rightarrow> string act" where
  "createTrustedDevice L userId ua =
     bindM (randomToken L) (\<lambda>token.
     bindM (freshId L) (\<lambda>i. bindM (getsM clock) (\<lambda>now.
     thenM (guardM (uniqueBy trustedDevices (\<lambda>d. td_tokenHash d = sha256 L token) [''tokenHash'']))
     (thenM (insertRow trustedDevices_update
        \<lparr>td_id = i, td_userId = userId, td_tokenHash = sha256 L token, td_userAgent = Some ua,
         td_expiresAt = now + TTL_trustedDeviceDays * 86400000, td_createdAt = now\<rparr>)
     (returnM token)))))"

definition isNewDevice :: "string \<Rightarrow> ctx \<Rightarrow> bool act" where
  "isNewDevice userId cx =
     getsM (\<lambda>w. countWhere (\<lambda>s. se_userId s = userId \<and> se_userAgent s = Some (ctx_ua cx)) (sessions w) = 0)"

text \<open>A super admin session is short-lived.\<close>

definition sessionLifetime :: "user \<Rightarrow> int" where
  "sessionLifetime u =
     (if u_isSuperAdmin u then TTL_superAdminSessionHours * 3600000 else TTL_refreshDays * 86400000)"

definition newSession :: "string \<Rightarrow> string \<Rightarrow> ctx \<Rightarrow> instant \<Rightarrow> instant \<Rightarrow> session" where
  "newSession i userId cx now expires =
     \<lparr>se_id = i, se_userId = userId, se_ip = Some (ctx_ip cx), se_userAgent = Some (ctx_ua cx),
      se_deviceName = Some (take 80 (ctx_ua cx)), se_lastUsedAt = now, se_expiresAt = expires,
      se_revokedAt = None, se_revokedReason = None, se_createdAt = now\<rparr>"

definition newRefreshToken :: "string \<Rightarrow> string \<Rightarrow> string \<Rightarrow> string \<Rightarrow> instant \<Rightarrow> instant \<Rightarrow> refreshToken" where
  "newRefreshToken i hash userId sid now expires =
     \<lparr>rt_id = i, rt_tokenHash = hash, rt_userId = userId, rt_sessionId = sid, rt_replacedById = None,
      rt_expiresAt = expires, rt_revokedAt = None, rt_createdAt = now\<rparr>"

definition insertRefreshToken ::
  "lib \<Rightarrow> string \<Rightarrow> string \<Rightarrow> string \<Rightarrow> instant \<Rightarrow> refreshToken act" where
  "insertRefreshToken L hash userId sid expires =
     bindM (freshId L) (\<lambda>i. bindM (getsM clock) (\<lambda>now.
     thenM (guardM (uniqueBy refreshTokens (\<lambda>t. rt_tokenHash t = hash) [''tokenHash'']))
     (insertRow refreshTokens_update (newRefreshToken i hash userId sid now expires))))"

text \<open>Each token carries a fresh token id and the second it was signed in.\<close>

definition signAccessToken :: "lib \<Rightarrow> string \<Rightarrow> role \<Rightarrow> string \<Rightarrow> string act" where
  "signAccessToken L sub rl sid =
     bindM (freshId L) (\<lambda>jti. getsM (\<lambda>w. signAccess L sub rl sid jti (clock w)))"

definition signRefreshToken :: "lib \<Rightarrow> string \<Rightarrow> string \<Rightarrow> string act" where
  "signRefreshToken L sub sid =
     bindM (freshId L) (\<lambda>jti. getsM (\<lambda>w. signRefresh L sub sid jti (clock w)))"

record tokens =
  tk_accessToken :: string
  tk_refreshToken :: string
  tk_user :: publicUser

definition createSessionAndTokens :: "lib \<Rightarrow> user \<Rightarrow> ctx \<Rightarrow> tokens act" where
  "createSessionAndTokens L u cx =
     bindM (getsM clock) (\<lambda>now.
     bindM (freshId L) (\<lambda>sid.
     thenM (insertRow sessions_update (newSession sid (u_id u) cx now (now + sessionLifetime u)))
     (bindM (signAccessToken L (u_id u) (u_role u) sid) (\<lambda>accessToken.
      bindM (signRefreshToken L (u_id u) sid) (\<lambda>refreshToken.
      thenM (insertRefreshToken L (sha256 L refreshToken) (u_id u) sid (now + sessionLifetime u))
      (thenM (updateUser (u_id u) (\<lambda>r. r\<lparr>u_lastLoginAt := Some now, u_lastLoginIp := Some (ctx_ip cx)\<rparr>))
      (thenM (logSecurity L (Some (u_id u)) None EV_LOGIN_SUCCESS cx)
      (returnM \<lparr>tk_accessToken = accessToken, tk_refreshToken = refreshToken,
                tk_user = publicUserOf u\<rparr>))))))))"

section \<open>The middlewares\<close>

text \<open>
  \<open>jwt.verify\<close> is a parameter: the payload of a token at an instant, or one of its two errors.
\<close>

record accessPayload =
  ap_sub :: string
  ap_role :: role
  ap_sid :: string
  ap_jti :: string
  ap_iat :: int
  ap_exp :: int

record signedIn =
  si_user :: user
  si_sessionId :: string
  si_jti :: string
  si_exp :: int

definition sessionRow :: "string \<Rightarrow> string option act" where
  "sessionRow sid =
     getsM (\<lambda>w. map_option se_id (find (\<lambda>s. se_id s = sid \<and> se_revokedAt s = None \<and>
        clock w < se_expiresAt s) (sessions w)))"

definition encSession :: "string option \<Rightarrow> json" where
  "encSession s = jopt (\<lambda>i. JObj [(''id'', JStr i)]) s"

definition decSession :: "json \<Rightarrow> string option" where
  "decSession j = (case j of JObj [(_, JStr i)] \<Rightarrow> Some i | _ \<Rightarrow> None)"

definition CACHE_TTL_session :: real where "CACHE_TTL_session = 60"

definition bearer :: "string option \<Rightarrow> string option" where
  "bearer header =
     (case header of None \<Rightarrow> None
      | Some h \<Rightarrow> if starts_with ''Bearer '' h \<and> js_trim (drop 7 h) \<noteq> [] then Some (js_trim (drop 7 h)) else None)"

text \<open>The user behind a payload, read fresh, with the checks 4 and 5.\<close>

definition authUser :: "accessPayload \<Rightarrow> signedIn act" where
  "authUser payload =
     bindM (getsM (\<lambda>w. find (\<lambda>u. u_id u = ap_sub payload) (liveUsers w))) (\<lambda>row.
     bindM (orThrow (apiError 401 ''User no longer exists'' []) row) (\<lambda>u.
     thenM (throwIf (u_status u = BLOCKED)
       (apiError 403 ''Account is blocked'' [det ''ACCOUNT_BLOCKED'' ''Account is blocked'']))
     (thenM (throwIf (case u_passwordChangedAt u of None \<Rightarrow> False | Some t \<Rightarrow> ap_iat payload * 1000 < t)
       (apiError 401 ''Password changed, login again'' []))
     (thenM (throwIf (u_role u \<noteq> ap_role payload) (apiError 401 ''Role changed, login again'' []))
     (returnM \<lparr>si_user = u, si_sessionId = ap_sid payload, si_jti = ap_jti payload,
               si_exp = ap_exp payload\<rparr>)))))"

definition auth ::
  "(string \<Rightarrow> instant \<Rightarrow> exn + accessPayload) \<Rightarrow> string option \<Rightarrow> signedIn act" where
  "auth verify header =
     bindM (orThrow (apiError 401 ''Unauthorized'' [det ''TOKEN_MISSING'' ''Bearer token missing'']) (bearer header))
       (\<lambda>token.
     bindM (getsM clock) (\<lambda>now.
     bindM (liftE (verify token now)) (\<lambda>payload.
     bindM (orElse (redisExists (KEYS_jwtDeny (ap_jti payload))) False) (\<lambda>denied.
     thenM (throwIf denied (apiError 401 ''Token revoked'' [det ''TOKEN_REVOKED'' ''Token revoked'']))
     (bindM (cachedVal encSession decSession (KEYS_session (ap_sid payload)) CACHE_TTL_session
        (sessionRow (ap_sid payload))) (\<lambda>found.
      thenM (throwIf (found = None)
        (apiError 401 ''Session expired'' [det ''TOKEN_EXPIRED'' ''Session expired'']))
      (authUser payload)))))))"

definition optionalAuth ::
  "(string \<Rightarrow> instant \<Rightarrow> exn + accessPayload) \<Rightarrow> string option \<Rightarrow> signedIn option act" where
  "optionalAuth verify header =
     (if header = None \<or> header = Some [] then returnM None
      else bindM (auth verify header) (\<lambda>u. returnM (Some u)))"

definition requireUser :: "user option \<Rightarrow> user act" where
  "requireUser u = orThrow (apiError 401 ''Unauthorized'' [detC ''TOKEN_MISSING'']) u"

definition authorize :: "role list \<Rightarrow> user option \<Rightarrow> unit act" where
  "authorize roles u =
     bindM (requireUser u) (\<lambda>r.
     throwIf (u_role r \<notin> set roles)
       (apiError 403 ''Forbidden: insufficient role''
         [det ''FORBIDDEN_ROLE'' ''Forbidden: insufficient role'']))"

definition superAdminOnly :: "user option \<Rightarrow> unit act" where
  "superAdminOnly u =
     bindM (requireUser u) (\<lambda>r.
     throwIf (u_role r \<noteq> ADMIN \<or> \<not> u_isSuperAdmin r)
       (apiError 403 ''Forbidden: super admin only''
         [det ''SUPER_ADMIN_ONLY'' ''Forbidden: super admin only'']))"

end
