(* ===== verification/Auth.thy ===== *)
theory Auth
  imports AuthCore
begin

text \<open>
  The flows of \<^verbatim>\<open>modules/auth/auth.service.ts\<close>: signing up behind an emailed code, logging in with a
  password and then a code or an emailed link, rotating refresh tokens, ending sessions, the
  two-factor switch, the passwords, and signing in through Google.
\<close>

section \<open>What a flow parks in Redis\<close>

text \<open>
  \<open>JSON.parse\<close> of a value of its own key family. Every key of the families holds the one type
  the flows write there; anything else would not parse into it, and the \<open>SyntaxError\<close> has no \<open>body\<close>,
  so the error handler answers it like any unexpected error.
\<close>

definition asPending :: "rval \<Rightarrow> pendingSignup act" where
  "asPending v = (case v of RPending p \<Rightarrow> returnM p | _ \<Rightarrow> throwM (OtherErr ''SyntaxError''))"

definition asChallenge :: "rval \<Rightarrow> loginChallenge act" where
  "asChallenge v = (case v of RChallenge c \<Rightarrow> returnM c | _ \<Rightarrow> throwM (OtherErr ''SyntaxError''))"

definition asText :: "rval \<Rightarrow> string act" where
  "asText v = (case v of RText s \<Rightarrow> returnM s | _ \<Rightarrow> throwM (OtherErr ''SyntaxError''))"

text \<open>\<open>Number(await redis.get(key).catch(() \<Rightarrow> 0))\<close>.\<close>

definition redisNumber :: "string \<Rightarrow> nat act" where
  "redisNumber k =
     bindM (orElse (redisGet k) None) (\<lambda>v. returnM (case v of None \<Rightarrow> 0 | Some x \<Rightarrow> rnum x))"

definition normalEmail :: "string \<Rightarrow> string" where
  "normalEmail raw = js_lower (js_trim raw)"

text \<open>\<open>Math.round(ttl / 60)\<close>.\<close>

definition minutesOf :: "real \<Rightarrow> int" where
  "minutesOf ttl = js_round (ttl / 60)"

section \<open>Signup\<close>

record signupInput =
  su_name :: string
  su_email :: string
  su_password :: "string option"
  su_phone :: "string option"
  su_provider :: "auth_provider option"
  su_googleId :: "string option"
  su_avatarUrl :: "string option"

text \<open>The two limits before a code is mailed: a minute between codes, five codes an hour.\<close>

definition otpGate :: "string \<Rightarrow> unit act" where
  "otpGate email =
     bindM (redisExists (KEYS_otpCooldown email)) (\<lambda>cooling.
     thenM (throwIf cooling (apiError 429 ''Please wait 60 seconds before requesting another OTP''
        [det ''OTP_COOLDOWN'' ''Please wait 60 seconds'']))
     (bindM (redisIncr (KEYS_otpSends email)) (\<lambda>sends.
      thenM (whenM (sends = 1) (redisExpire (KEYS_otpSends email) TTL_otpSends))
      (throwIf (otpSendsPerHour < sends) (apiError 429 ''Too many OTP requests, try again in an hour''
        [det ''RATE_LIMITED'' ''Too many OTP requests''])))))"

text \<open>The code is stored, the cooldown starts and the code is mailed.\<close>

definition parkSignup :: "lib \<Rightarrow> string \<Rightarrow> pendingSignup \<Rightarrow> string \<Rightarrow> real \<Rightarrow> unit act" where
  "parkSignup L email pending otp ttl =
     thenM (redisSetEx (KEYS_pendingSignup email) (RPending pending) ttl)
     (thenM (redisSetEx (KEYS_otpCooldown email) (RText ''1'') TTL_otpCooldown)
     (thenM (sendOtpEmail L email otp (minutesOf ttl))
     (incCounter ''citycare_otp_total:signup:sent'')))"

definition startSignup :: "lib \<Rightarrow> signupInput \<Rightarrow> (string \<times> real) act" where
  "startSignup L input =
     (let email = normalEmail (su_email input) in
      bindM (getsM (\<lambda>w. find (\<lambda>u. u_email u = email) (liveUsers w))) (\<lambda>existing.
      thenM (throwIf (existing \<noteq> None)
        (apiError 409 ''Email already registered'' [det ''EMAIL_EXISTS'' ''Email already registered'']))
      (requireRedis
        (thenM (otpGate email)
        (bindM (getSetting L ''SIGNUP_OTP_TTL_SEC'') (\<lambda>ttl.
         bindM (randomOtp L) (\<lambda>otp.
         bindM (case su_password input of
                  None \<Rightarrow> returnM None
                | Some pw \<Rightarrow> if pw = [] then returnM None
                             else bindM (bcrypt_hash L pw) (\<lambda>h. returnM (Some h))) (\<lambda>hash.
         thenM (parkSignup L email
            \<lparr>ps_name = su_name input, ps_email = email,
             ps_provider = (case su_provider input of None \<Rightarrow> LOCAL | Some p \<Rightarrow> p),
             ps_passwordHash = hash, ps_googleId = su_googleId input,
             ps_avatarUrl = su_avatarUrl input, ps_phone = su_phone input,
             ps_otpHash = otpHash L otp, ps_attempts = 0\<rparr> otp ttl)
         (returnM (email, ttl))))))))))"

definition newUser :: "string \<Rightarrow> instant \<Rightarrow> string \<Rightarrow> pendingSignup \<Rightarrow> user" where
  "newUser i now email p =
     \<lparr>u_id = i, u_name = ps_name p, u_email = email, u_password = ps_passwordHash p,
      u_phone = ps_phone p, u_avatarUrl = ps_avatarUrl p, u_role = CITIZEN, u_status = ACTIVE,
      u_provider = ps_provider p, u_googleId = ps_googleId p, u_emailVerifiedAt = Some now,
      u_twoFactorEnabled = True, u_isSuperAdmin = False, u_lastLoginAt = None, u_lastLoginIp = None,
      u_wardId = None, u_departmentId = None, u_passwordChangedAt = None, u_createdAt = now,
      u_updatedAt = now, u_deletedAt = None\<rparr>"

text \<open>The partial unique index \<open>user_email_active_uq\<close> and the unique Google id.\<close>

definition googleTaken :: "string option \<Rightarrow> user \<Rightarrow> bool" where
  "googleTaken g u \<longleftrightarrow> g \<noteq> None \<and> u_googleId u = g"

definition insertUser :: "lib \<Rightarrow> string \<Rightarrow> pendingSignup \<Rightarrow> user act" where
  "insertUser L email p =
     bindM (freshId L) (\<lambda>i. bindM (getsM clock) (\<lambda>now.
     thenM (guardM (uniqueBy liveUsers (\<lambda>u. u_email u = email) [''email'']))
     (thenM (guardM (uniqueBy users (googleTaken (ps_googleId p)) [''googleId'']))
     (insertRow users_update (newUser i now email p)))))"

definition verifyOtp :: "lib \<Rightarrow> string \<Rightarrow> string \<Rightarrow> ctx \<Rightarrow> tokens act" where
  "verifyOtp L emailRaw otp cx =
     (let email = normalEmail emailRaw; key = KEYS_pendingSignup email in
      bindM (requireRedis (redisGet key)) (\<lambda>raw'.
      bindM (orThrow (apiError 400 ''OTP expired or signup not started''
         [det ''OTP_EXPIRED'' ''OTP expired or signup not started'']) raw') (\<lambda>raw.
      bindM (asPending raw) (\<lambda>pending.
      if signupOtpAttempts \<le> ps_attempts pending
      then thenM (redisDel [key])
             (throwM (apiError 429 ''Too many wrong attempts, please register again''
                [det ''RATE_LIMITED'' ''Too many wrong attempts'']))
      else if \<not> safeEqual (otpHash L otp) (ps_otpHash pending)
      then thenM (redisSetKeepTtl key (RPending (pending\<lparr>ps_attempts := ps_attempts pending + 1\<rparr>)))
           (thenM (incCounter ''citycare_otp_total:signup:failed'')
           (let m = ''Invalid OTP, '' @ show_int (int signupOtpAttempts - int (ps_attempts pending + 1)) @ '' attempts left''
            in throwM (apiError 400 m [det ''OTP_INVALID'' m])))
      else
        bindM (transaction
          (bindM (insertUser L email pending) (\<lambda>created.
           thenM (audit L (Some (u_id created)) ''USER_REGISTERED'' ''User'' (u_id created) None None (Some cx))
           (returnM created)))) (\<lambda>u.
        thenM (orElse (redisDel [key, KEYS_otpCooldown email, KEYS_otpSends email]) 0)
        (createSessionAndTokens L u cx))))))"

definition resendOtp :: "lib \<Rightarrow> string \<Rightarrow> (string \<times> real) act" where
  "resendOtp L emailRaw =
     (let email = normalEmail emailRaw; key = KEYS_pendingSignup email in
      bindM (getSetting L ''SIGNUP_OTP_TTL_SEC'') (\<lambda>ttl.
      requireRedis
        (bindM (redisGet key) (\<lambda>raw'.
         case raw' of
           None \<Rightarrow> returnM (email, ttl)
         | Some raw \<Rightarrow>
             thenM (otpGate email)
             (bindM (asPending raw) (\<lambda>pending.
              bindM (randomOtp L) (\<lambda>otp.
              thenM (parkSignup L email (pending\<lparr>ps_otpHash := otpHash L otp, ps_attempts := 0\<rparr>) otp ttl)
              (returnM (email, ttl)))))))))"

section \<open>Login\<close>

datatype loginAnswer =
    LoggedIn tokens
  | SecondFactor string string real

definition newChallenge :: "lib \<Rightarrow> string \<Rightarrow> string \<Rightarrow> ctx \<Rightarrow> loginChallenge" where
  "newChallenge L userId otp cx =
     \<lparr>lc_userId = userId, lc_otpHash = otpHash L otp, lc_attempts = 0, lc_resends = 0,
      lc_ipHash = sha256 L (ctx_ip cx), lc_uaHash = sha256 L (ctx_ua cx), lc_magicHash = None\<rparr>"

definition dropMagic :: "loginChallenge \<Rightarrow> unit act" where
  "dropMagic c =
     (case lc_magicHash c of
        None \<Rightarrow> returnM ()
      | Some h \<Rightarrow> whenM (h \<noteq> []) (thenM (orElse (redisDel [KEYS_loginMagic h]) 0) (returnM ())))"

text \<open>The new link and the challenge that remembers it.\<close>

definition issueMagicLink ::
  "lib \<Rightarrow> loginChallenge \<Rightarrow> string \<Rightarrow> real \<Rightarrow> (string \<times> loginChallenge) act" where
  "issueMagicLink L c challengeId ttl =
     thenM (dropMagic c)
     (bindM (randomToken L) (\<lambda>token.
      thenM (requireRedis (redisSetEx (KEYS_loginMagic (sha256 L token)) (RText challengeId) ttl))
      (returnM (BACKEND_URL L @ ''/api/v1/auth/login/magic?token='' @ token,
                c\<lparr>lc_magicHash := Some (sha256 L token)\<rparr>))))"

definition endChallenge :: "string \<Rightarrow> loginChallenge \<Rightarrow> nat act" where
  "endChallenge challengeId c = thenM (dropMagic c) (redisDel [KEYS_loginOtp challengeId])"

definition accountLocked :: "string \<Rightarrow> exn" where
  "accountLocked period =
     apiError 423 (''Account temporarily locked, try again in '' @ period)
       [det ''ACCOUNT_LOCKED'' ''Account temporarily locked'']"

text \<open>What is refused before the password is looked at.\<close>

definition loginGate :: "string \<Rightarrow> ctx \<Rightarrow> unit act" where
  "loginGate email cx =
     bindM (redisNumber (KEYS_loginIp (ctx_ip cx))) (\<lambda>ipFails.
     thenM (throwIf (loginFailPerIp \<le> ipFails)
        (apiError 429 ''Too many failed logins from this network''
          [det ''RATE_LIMITED'' ''Too many failed logins'']))
     (bindM (redisNumber (KEYS_loginFail email)) (\<lambda>fails.
      thenM (throwIf (loginFailBeforeLongLock \<le> fails) (accountLocked ''an hour''))
      (throwIf (loginFailBeforeLock \<le> fails) (accountLocked ''15 minutes'')))))"

text \<open>A failed attempt: both counters and the log; the answer is always the same.\<close>

definition loginFailed :: "lib \<Rightarrow> string \<Rightarrow> user option \<Rightarrow> ctx \<Rightarrow> 'a act" where
  "loginFailed L email u cx =
     bindM (orElse (redisIncr (KEYS_loginFail email)) 0) (\<lambda>n.
     thenM (whenM (n = 1) (orElse (redisExpire (KEYS_loginFail email) TTL_loginFail) ()))
     (thenM (whenM (n = loginFailBeforeLock)
        (orElse (redisExpire (KEYS_loginFail email) TTL_loginFailLong) ()))
     (bindM (orElse (redisIncr (KEYS_loginIp (ctx_ip cx))) 0) (\<lambda>ipCount.
      thenM (whenM (ipCount = 1) (orElse (redisExpire (KEYS_loginIp (ctx_ip cx)) TTL_loginIp) ()))
      (thenM (logSecurity L (map_option u_id u) (Some email)
         (if loginFailBeforeLock \<le> n then EV_ACCOUNT_LOCKED else EV_LOGIN_FAILED) cx)
      (throwM (apiError 401 GENERIC_INVALID_CREDENTIALS
         [det ''INVALID_CREDENTIALS'' GENERIC_INVALID_CREDENTIALS])))))))"

definition passwordOk :: "lib \<Rightarrow> string \<Rightarrow> user option \<Rightarrow> bool" where
  "passwordOk L password u =
     bcryptCompare L password (case u of None \<Rightarrow> DUMMY_HASH L
       | Some r \<Rightarrow> (case u_password r of None \<Rightarrow> DUMMY_HASH L | Some h \<Rightarrow> h))"

definition challengeMail :: "lib \<Rightarrow> user \<Rightarrow> ctx \<Rightarrow> loginAnswer act" where
  "challengeMail L u cx =
     bindM (getSetting L ''LOGIN_OTP_TTL_SEC'') (\<lambda>ttl.
     bindM (randomToken L) (\<lambda>challengeId.
     bindM (randomOtp L) (\<lambda>otp.
     bindM (issueMagicLink L (newChallenge L (u_id u) otp cx) challengeId ttl) (\<lambda>lc.
     thenM (requireRedis (redisSetEx (KEYS_loginOtp challengeId) (RChallenge (snd lc)) ttl))
     (thenM (sendLoginOtpEmail L (u_email u) otp (minutesOf ttl) (Some (fst lc)))
     (thenM (logSecurity L (Some (u_id u)) None EV_OTP_SENT cx)
     (thenM (incCounter ''citycare_otp_total:login:sent'')
     (returnM (SecondFactor challengeId (maskEmail (u_email u)) ttl)))))))))"

definition login ::
  "lib \<Rightarrow> string \<Rightarrow> string \<Rightarrow> string option \<Rightarrow> ctx \<Rightarrow> loginAnswer act" where
  "login L emailRaw password deviceToken cx =
     (let email = normalEmail emailRaw in
      thenM (loginGate email cx)
      (bindM (getsM (\<lambda>w. find (\<lambda>u. u_email u = email) (liveUsers w))) (\<lambda>found.
       case found of
         None \<Rightarrow> loginFailed L email None cx
       | Some u \<Rightarrow>
           if \<not> passwordOk L password (Some u) then loginFailed L email (Some u) cx
           else
             thenM (throwIf (u_status u = BLOCKED)
               (apiError 403 ''Account is blocked'' [det ''ACCOUNT_BLOCKED'' ''Account is blocked'']))
             (thenM (orElse (redisDel [KEYS_loginFail email]) 0)
             (bindM (case deviceToken of
                       None \<Rightarrow> returnM False
                     | Some d \<Rightarrow> if u_role u = CITIZEN \<and> d \<noteq> [] then isTrustedDevice L (u_id u) d
                                 else returnM False) (\<lambda>trusted.
              if \<not> u_twoFactorEnabled u \<or> trusted
              then bindM (createSessionAndTokens L u cx) (\<lambda>t. returnM (LoggedIn t))
              else challengeMail L u cx))))))"

definition challengeExpired :: exn where
  "challengeExpired = apiError 400 ''Challenge expired, please login again''
     [det ''OTP_EXPIRED'' ''Challenge expired'']"

definition userGone :: exn where
  "userGone = apiError 401 ''User no longer exists'' []"

definition liveUser :: "string \<Rightarrow> user act" where
  "liveUser i = bindM (getsM (\<lambda>w. find (\<lambda>u. u_id u = i) (liveUsers w))) (orThrow userGone)"

definition alertNewDevice :: "lib \<Rightarrow> user \<Rightarrow> ctx \<Rightarrow> bool \<Rightarrow> unit act" where
  "alertNewDevice L u cx newDevice =
     whenM newDevice (thenM (logSecurity L (Some (u_id u)) None EV_NEW_DEVICE cx)
       (sendNewLoginAlert L (u_email u) cx))"

text \<open>A wrong code counts; the last one ends the challenge.\<close>

definition wrongCode :: "lib \<Rightarrow> string \<Rightarrow> loginChallenge \<Rightarrow> ctx \<Rightarrow> unit act" where
  "wrongCode L challengeId c cx =
     (let c' = c\<lparr>lc_attempts := lc_attempts c + 1\<rparr> in
      thenM (if loginOtpAttempts \<le> lc_attempts c' then thenM (endChallenge challengeId c') (returnM ())
             else redisSetKeepTtl (KEYS_loginOtp challengeId) (RChallenge c'))
      (thenM (logSecurity L (Some (lc_userId c)) None EV_OTP_FAILED cx)
      (incCounter ''citycare_otp_total:login:failed'')))"

definition invalidOtp :: exn where
  "invalidOtp = apiError 400 ''Invalid OTP'' [det ''OTP_INVALID'' ''Invalid OTP'']"

text \<open>The session of the user the spent challenge was for.\<close>

definition otpSession ::
  "lib \<Rightarrow> string \<Rightarrow> bool \<Rightarrow> ctx \<Rightarrow> (tokens \<times> string option) act" where
  "otpSession L userId trustDevice cx =
     bindM (liveUser userId) (\<lambda>u.
     bindM (isNewDevice (u_id u) cx) (\<lambda>newDevice.
     bindM (createSessionAndTokens L u cx) (\<lambda>t.
     bindM (if trustDevice \<and> u_role u = CITIZEN
            then bindM (createTrustedDevice L (u_id u) (ctx_ua cx)) (\<lambda>d. returnM (Some d))
            else returnM None) (\<lambda>deviceToken.
     thenM (alertNewDevice L u cx newDevice) (returnM (t, deviceToken))))))"

definition verifyLoginOtp ::
  "lib \<Rightarrow> string \<Rightarrow> string \<Rightarrow> bool \<Rightarrow> ctx \<Rightarrow> (tokens \<times> string option) act" where
  "verifyLoginOtp L challengeId otp trustDevice cx =
     bindM (requireRedis (redisGet (KEYS_loginOtp challengeId))) (\<lambda>raw'.
     bindM (orThrow challengeExpired raw') (\<lambda>raw.
     bindM (asChallenge raw) (\<lambda>c.
     if lc_uaHash c \<noteq> sha256 L (ctx_ua cx)
     then thenM (redisDel [KEYS_loginOtp challengeId])
            (throwM (apiError 401 ''Device mismatch, please login again''
               [det ''INVALID_CREDENTIALS'' ''Device mismatch'']))
     else if \<not> safeEqual (otpHash L otp) (lc_otpHash c) then thenM (wrongCode L challengeId c cx) (throwM invalidOtp)
     else
       bindM (endChallenge challengeId c) (\<lambda>gone.
       thenM (throwIf (gone = 0) (apiError 400 ''OTP already used'' [det ''OTP_EXPIRED'' ''OTP already used'']))
       (otpSession L (lc_userId c) trustDevice cx)))))"

definition invalidLink :: exn where
  "invalidLink = apiError 400 ''This sign-in link is invalid, used or expired''
     [det ''OTP_EXPIRED'' ''Request a new login code'']"

definition magicSession :: "lib \<Rightarrow> string \<Rightarrow> ctx \<Rightarrow> tokens act" where
  "magicSession L userId cx =
     bindM (liveUser userId) (\<lambda>u.
     bindM (isNewDevice (u_id u) cx) (\<lambda>newDevice.
     bindM (createSessionAndTokens L u cx) (\<lambda>t.
     thenM (incCounter ''citycare_otp_total:login:magic'')
     (thenM (alertNewDevice L u cx newDevice) (returnM t)))))"

definition completeMagicLogin :: "lib \<Rightarrow> string \<Rightarrow> ctx \<Rightarrow> tokens act" where
  "completeMagicLogin L token cx =
     (let magicKey = KEYS_loginMagic (sha256 L token) in
      bindM (requireRedis (redisGet magicKey)) (\<lambda>ptr'.
      bindM (orThrow invalidLink ptr') (\<lambda>ptr.
      bindM (asText ptr) (\<lambda>challengeId.
      thenM (throwIf (challengeId = []) invalidLink)
      (bindM (requireRedis (redisGet (KEYS_loginOtp challengeId))) (\<lambda>raw'.
       bindM (orThrow invalidLink raw') (\<lambda>raw.
       bindM (redisDel [magicKey]) (\<lambda>gone.
       thenM (throwIf (gone = 0) invalidLink)
       (bindM (asChallenge raw) (\<lambda>c.
        thenM (endChallenge challengeId c)
        (magicSession L (lc_userId c) cx)))))))))))"

definition resendLoginOtp :: "lib \<Rightarrow> string \<Rightarrow> ctx \<Rightarrow> (string \<times> real) act" where
  "resendLoginOtp L challengeId cx =
     (let key = KEYS_loginOtp challengeId; cooldownKey = key @ '':cooldown'' in
      bindM (requireRedis (redisGet key)) (\<lambda>raw'.
      bindM (orThrow challengeExpired raw') (\<lambda>raw.
      bindM (asChallenge raw) (\<lambda>c.
      thenM (throwIf (loginOtpResends \<le> lc_resends c)
        (apiError 429 ''Too many resend requests, please login again''
          [det ''RATE_LIMITED'' ''Too many resend requests'']))
      (bindM (redisExists cooldownKey) (\<lambda>cooling.
       thenM (throwIf cooling (apiError 429 ''Please wait 60 seconds before requesting another OTP''
          [det ''OTP_COOLDOWN'' ''Please wait 60 seconds'']))
       (bindM (liveUser (lc_userId c)) (\<lambda>u.
        bindM (getSetting L ''LOGIN_OTP_TTL_SEC'') (\<lambda>ttl.
        bindM (randomOtp L) (\<lambda>otp.
        bindM (issueMagicLink L (c\<lparr>lc_otpHash := otpHash L otp, lc_attempts := 0,
              lc_resends := lc_resends c + 1\<rparr>) challengeId ttl) (\<lambda>lc.
        thenM (redisSetEx key (RChallenge (snd lc)) ttl)
        (thenM (redisSetEx cooldownKey (RText ''1'') TTL_otpCooldown)
        (thenM (sendLoginOtpEmail L (u_email u) otp (minutesOf ttl) (Some (fst lc)))
        (thenM (logSecurity L (Some (lc_userId c)) None EV_OTP_SENT cx)
        (returnM (challengeId, ttl))))))))))))))))"

end
