(* ===== verification/AuthAccount.thy ===== *)
theory AuthAccount
  imports Auth
begin

text \<open>
  The rest of \<^verbatim>\<open>modules/auth/auth.service.ts\<close>: rotating a refresh token, ending sessions, the
  two-factor switch, forgotten and changed passwords, and Google profiles.
\<close>

section \<open>Tokens and sessions\<close>

definition sessionOf :: "world \<Rightarrow> refreshToken \<Rightarrow> session option" where
  "sessionOf w t = find (\<lambda>s. se_id s = rt_sessionId t) (sessions w)"

text \<open>The rotation: the next token is stored, the presented one is revoked, the session is used.\<close>

definition rotate :: "lib \<Rightarrow> string \<Rightarrow> user \<Rightarrow> refreshToken \<Rightarrow> session \<Rightarrow> unit act" where
  "rotate L token u row s =
     transaction
       (bindM (getsM clock) (\<lambda>now.
        bindM (insertRefreshToken L (sha256 L token) (u_id u) (rt_sessionId row) (se_expiresAt s)) (\<lambda>nxt.
        thenM (updateRow refreshTokens refreshTokens_update (\<lambda>t. rt_id t = rt_id row)
          (\<lambda>t. t\<lparr>rt_revokedAt := Some now, rt_replacedById := Some (rt_id nxt)\<rparr>))
        (thenM (updateRow sessions sessions_update (\<lambda>q. se_id q = rt_sessionId row)
          (\<lambda>q. q\<lparr>se_lastUsedAt := now\<rparr>))
        (returnM ())))))"

definition refresh :: "lib \<Rightarrow> string \<Rightarrow> ctx \<Rightarrow> tokens act" where
  "refresh L token cx =
     bindM (getsM (\<lambda>w. find (\<lambda>t. rt_tokenHash t = sha256 L token) (refreshTokens w))) (\<lambda>row'.
     bindM (orThrow (apiError 401 ''Invalid refresh token''
        [det ''TOKEN_INVALID'' ''Invalid refresh token'']) row') (\<lambda>row.
     if rt_revokedAt row \<noteq> None
     then thenM (revokeAllSessions (rt_userId row) TOKEN_REUSE)
          (thenM (logSecurity L (Some (rt_userId row)) None EV_TOKEN_REUSE cx)
          (throwM (apiError 401 ''Refresh token reuse detected, all sessions revoked''
             [det ''TOKEN_REVOKED'' ''Refresh token reuse detected''])))
     else
       bindM (getsM (\<lambda>w. sessionOf w row)) (\<lambda>s'.
       bindM (orThrow (OtherErr ''session'') s') (\<lambda>s.
       bindM (getsM clock) (\<lambda>now.
       thenM (throwIf (rt_expiresAt row < now \<or> se_revokedAt s \<noteq> None \<or> se_expiresAt s < now)
         (apiError 401 ''Refresh token expired'' [det ''TOKEN_EXPIRED'' ''Refresh token expired'']))
       (bindM (liveUser (rt_userId row)) (\<lambda>u.
        thenM (throwIf (u_status u = BLOCKED)
          (apiError 403 ''Account is blocked'' [detC ''ACCOUNT_BLOCKED'']))
        (bindM (signAccessToken L (u_id u) (u_role u) (rt_sessionId row)) (\<lambda>accessToken.
         bindM (signRefreshToken L (u_id u) (rt_sessionId row)) (\<lambda>refreshToken.
         thenM (rotate L refreshToken u row s)
         (returnM \<lparr>tk_accessToken = accessToken, tk_refreshToken = refreshToken,
                   tk_user = publicUserOf u\<rparr>)))))))))))"

text \<open>\<open>accessToken\<close> is the id and the expiry of the token the request carried.\<close>

definition logout :: "string \<Rightarrow> string \<Rightarrow> (string \<times> int) option \<Rightarrow> unit act" where
  "logout userId sessionId accessToken =
     bindM (getsM clock) (\<lambda>now.
     thenM (updateMany sessions sessions_update
        (\<lambda>s. se_id s = sessionId \<and> se_userId s = userId \<and> se_revokedAt s = None)
        (\<lambda>s. s\<lparr>se_revokedAt := Some now, se_revokedReason := Some (show_reason LOGOUT)\<rparr>))
     (thenM (updateMany refreshTokens refreshTokens_update
        (\<lambda>t. rt_sessionId t = sessionId \<and> rt_revokedAt t = None) (\<lambda>t. t\<lparr>rt_revokedAt := Some now\<rparr>))
     (orElse
        (thenM (case accessToken of
                  None \<Rightarrow> returnM ()
                | Some (jti, expAt) \<Rightarrow>
                    redisSetEx (KEYS_jwtDeny jti) (RText ''1'') (of_int (remainingTtl expAt now)))
        (thenM (redisDel [KEYS_session sessionId]) (returnM ()))) ())))"

definition logoutByToken ::
  "lib \<Rightarrow> (string \<Rightarrow> instant \<Rightarrow> exn + accessPayload) \<Rightarrow> string option \<Rightarrow> string option \<Rightarrow> unit act" where
  "logoutByToken L verify refreshToken accessToken =
     (case refreshToken of
        None \<Rightarrow> returnM ()
      | Some token \<Rightarrow>
          if token = [] then returnM ()
          else
            bindM (getsM (\<lambda>w. find (\<lambda>t. rt_tokenHash t = sha256 L token) (refreshTokens w))) (\<lambda>row'.
            case row' of
              None \<Rightarrow> returnM ()
            | Some row \<Rightarrow>
                bindM (getsM clock) (\<lambda>now.
                let claims = (case accessToken of
                       None \<Rightarrow> None
                     | Some a \<Rightarrow> if a = [] then None else
                         (case verify a now of Inl _ \<Rightarrow> None | Inr p \<Rightarrow> Some (ap_jti p, ap_exp p)))
                in logout (rt_userId row) (rt_sessionId row) claims)))"

definition logoutAll :: "string \<Rightarrow> nat act" where
  "logoutAll userId = revokeAllSessions userId LOGOUT"

record sessionView =
  sw_id :: string
  sw_ip :: "string option"
  sw_userAgent :: "string option"
  sw_deviceName :: "string option"
  sw_lastUsedAt :: instant
  sw_createdAt :: instant
  sw_expiresAt :: instant
  sw_current :: bool

definition sessionViewOf :: "string option \<Rightarrow> session \<Rightarrow> sessionView" where
  "sessionViewOf current s =
     \<lparr>sw_id = se_id s, sw_ip = se_ip s, sw_userAgent = se_userAgent s,
      sw_deviceName = se_deviceName s, sw_lastUsedAt = se_lastUsedAt s,
      sw_createdAt = se_createdAt s, sw_expiresAt = se_expiresAt s,
      sw_current = (Some (se_id s) = current)\<rparr>"

definition listSessions :: "string \<Rightarrow> string option \<Rightarrow> sessionView list act" where
  "listSessions userId current =
     getsM (\<lambda>w. map (sessionViewOf current)
       (orderRows se_lastUsedAt False
         (filter (\<lambda>s. liveSession userId s \<and> clock w < se_expiresAt s) (sessions w))))"

definition revokeSession :: "string \<Rightarrow> string \<Rightarrow> unit act" where
  "revokeSession userId sessionId =
     bindM (getsM (\<lambda>w. find (\<lambda>s. se_id s = sessionId \<and> se_userId s = userId) (sessions w))) (\<lambda>found.
     thenM (throwIf (found = None)
        (apiError 404 ''Session not found'' [det ''NOT_FOUND'' ''Session not found'']))
     (bindM (getsM clock) (\<lambda>now.
      thenM (transaction
        (thenM (updateRow sessions sessions_update (\<lambda>s. se_id s = sessionId)
           (\<lambda>s. s\<lparr>se_revokedAt := Some now, se_revokedReason := Some (show_reason LOGOUT)\<rparr>))
         (updateMany refreshTokens refreshTokens_update
           (\<lambda>t. rt_sessionId t = sessionId \<and> rt_revokedAt t = None) (\<lambda>t. t\<lparr>rt_revokedAt := Some now\<rparr>))))
      (invalidate [KEYS_session sessionId]))))"

section \<open>Two factors and passwords\<close>

record toggleInput =
  tg_enabled :: bool
  tg_password :: string
  tg_challengeId :: "string option"
  tg_otp :: "string option"

datatype toggleAnswer =
    OtpRequired string real
  | TwoFactorSet bool

definition userNotFound :: exn where
  "userNotFound = apiError 404 ''User not found'' [detC ''NOT_FOUND'']"

definition findUserOr404 :: "string \<Rightarrow> user act" where
  "findUserOr404 i = bindM (getsM (\<lambda>w. find (\<lambda>u. u_id u = i) (liveUsers w))) (orThrow userNotFound)"

definition bothGiven :: "toggleInput \<Rightarrow> (string \<times> string) option" where
  "bothGiven input =
     (case (tg_challengeId input, tg_otp input) of
        (Some c, Some otp) \<Rightarrow> if c = [] \<or> otp = [] then None else Some (c, otp)
      | _ \<Rightarrow> None)"

definition toggleIssue :: "lib \<Rightarrow> user \<Rightarrow> ctx \<Rightarrow> toggleAnswer act" where
  "toggleIssue L u cx =
     bindM (getSetting L ''LOGIN_OTP_TTL_SEC'') (\<lambda>ttl.
     bindM (randomToken L) (\<lambda>challengeId.
     bindM (randomOtp L) (\<lambda>otp.
     thenM (requireRedis (redisSetEx (KEYS_loginOtp challengeId)
        (RChallenge (newChallenge L (u_id u) otp cx)) ttl))
     (thenM (sendLoginOtpEmail L (u_email u) otp (minutesOf ttl) None)
     (returnM (OtpRequired challengeId ttl))))))"

definition toggleApply :: "lib \<Rightarrow> user \<Rightarrow> bool \<Rightarrow> string \<Rightarrow> string \<Rightarrow> ctx \<Rightarrow> toggleAnswer act" where
  "toggleApply L u enabled challengeId otp cx =
     (let key = KEYS_loginOtp challengeId in
      bindM (requireRedis (redisGet key)) (\<lambda>raw'.
      bindM (orThrow (apiError 400 ''Challenge expired, please try again'' [detC ''OTP_EXPIRED'']) raw') (\<lambda>raw.
      bindM (asChallenge raw) (\<lambda>c.
      if lc_userId c \<noteq> u_id u \<or> \<not> safeEqual (otpHash L otp) (lc_otpHash c)
      then thenM (logSecurity L (Some (u_id u)) None EV_OTP_FAILED cx)
             (throwM invalidOtp)
      else
        thenM (redisDel [key])
        (thenM (transaction
          (thenM (updateUser (u_id u) (\<lambda>r. r\<lparr>u_twoFactorEnabled := enabled\<rparr>))
           (audit L (Some (u_id u)) ''TWO_FA_TOGGLED'' ''User'' (u_id u)
              (Some (JObj [(''twoFactorEnabled'', JBool (u_twoFactorEnabled u))]))
              (Some (JObj [(''twoFactorEnabled'', JBool enabled)])) (Some cx))))
        (thenM (logSecurity L (Some (u_id u)) None EV_TWO_FA_TOGGLED cx)
        (returnM (TwoFactorSet enabled))))))))"

definition toggle2fa :: "lib \<Rightarrow> string \<Rightarrow> toggleInput \<Rightarrow> ctx \<Rightarrow> toggleAnswer act" where
  "toggle2fa L userId input cx =
     bindM (findUserOr404 userId) (\<lambda>u.
     thenM (throwIf (u_role u \<noteq> CITIZEN)
        (apiError 403 ''Officers and admins must keep two-factor authentication on''
          [det ''FORBIDDEN_ROLE'' ''Two-factor is mandatory for this role'']))
     (thenM (throwIf (\<not> passwordOk L (tg_password input) (Some u))
        (apiError 401 GENERIC_INVALID_CREDENTIALS [detC ''INVALID_CREDENTIALS'']))
     (case bothGiven input of
        None \<Rightarrow> toggleIssue L u cx
      | Some (challengeId, otp) \<Rightarrow> toggleApply L u (tg_enabled input) challengeId otp cx)))"

text \<open>Both answers are the same whether the account exists or not.\<close>

definition forgotPassword :: "lib \<Rightarrow> string \<Rightarrow> string act" where
  "forgotPassword L emailRaw =
     (let email = normalEmail emailRaw; generic = ''If that email exists, a reset link has been sent'' in
      bindM (getsM (\<lambda>w. find (\<lambda>u. u_email u = email) (liveUsers w))) (\<lambda>found.
      case found of
        None \<Rightarrow> returnM generic
      | Some u \<Rightarrow>
          bindM (randomToken L) (\<lambda>token.
          thenM (orElse (redisSetEx (KEYS_passwordReset (sha256 L token)) (RText (u_id u)) TTL_passwordReset) ())
          (thenM (sendPasswordResetEmail L (u_email u) token)
          (returnM generic)))))"

text \<open>The write both ways of changing a password share.\<close>

definition setPassword :: "lib \<Rightarrow> string \<Rightarrow> string \<Rightarrow> ctx \<Rightarrow> unit act" where
  "setPassword L userId password cx =
     transaction
       (bindM (bcrypt_hash L password) (\<lambda>h.
        bindM (getsM clock) (\<lambda>now.
        thenM (updateUser userId (\<lambda>r. r\<lparr>u_password := Some h, u_passwordChangedAt := Some now\<rparr>))
        (audit L (Some userId) ''PASSWORD_CHANGED'' ''User'' userId None None (Some cx)))))"

definition resetPassword :: "lib \<Rightarrow> string \<Rightarrow> string \<Rightarrow> ctx \<Rightarrow> string act" where
  "resetPassword L token password cx =
     (let key = KEYS_passwordReset (sha256 L token) in
      bindM (requireRedis (redisGet key)) (\<lambda>raw'.
      bindM (orThrow (apiError 400 ''Reset link is invalid or has expired''
         [det ''OTP_EXPIRED'' ''Reset link is invalid or has expired'']) raw') (\<lambda>raw.
      bindM (asText raw) (\<lambda>userId.
      bindM (findUserOr404 userId) (\<lambda>u.
      thenM (setPassword L (u_id u) password cx)
      (thenM (orElse (redisDel [key]) 0)
      (thenM (revokeAllSessions (u_id u) PASSWORD_CHANGED)
      (thenM (logSecurity L (Some (u_id u)) None EV_PASSWORD_CHANGED cx)
      (returnM ''Password updated, please login again'')))))))))"

definition changePassword :: "lib \<Rightarrow> string \<Rightarrow> string \<Rightarrow> string \<Rightarrow> ctx \<Rightarrow> string act" where
  "changePassword L userId currentPassword newPassword cx =
     bindM (findUserOr404 userId) (\<lambda>u.
     thenM (throwIf (\<not> passwordOk L currentPassword (Some u))
        (apiError 401 ''Current password is incorrect'' [detC ''INVALID_CREDENTIALS'']))
     (thenM (setPassword L (u_id u) newPassword cx)
     (thenM (revokeAllSessions (u_id u) PASSWORD_CHANGED)
     (thenM (logSecurity L (Some (u_id u)) None EV_PASSWORD_CHANGED cx)
     (returnM ''Password changed, please login again'')))))"

section \<open>Google\<close>

record googleProfile =
  gp_googleId :: string
  gp_email :: string
  gp_emailVerified :: bool
  gp_name :: string
  gp_avatarUrl :: "string option"

datatype googleAnswer =
    VerifyEmail string real
  | GoogleOtp string string real
  | GoogleIn tokens

definition googleBlocked :: exn where
  "googleBlocked = apiError 403 ''Account is blocked'' [detC ''ACCOUNT_BLOCKED'']"

text \<open>The first time through Google the accounts are linked.\<close>

definition linkGoogle :: "user \<Rightarrow> googleProfile \<Rightarrow> unit act" where
  "linkGoogle u profile =
     whenM (u_googleId u = None \<or> u_googleId u = Some [])
       (thenM (guardM (uniqueBy users (\<lambda>r. u_id r \<noteq> u_id u \<and> u_googleId r = Some (gp_googleId profile))
                 [''googleId'']))
        (bindM (getsM clock) (\<lambda>now.
         thenM (updateUser (u_id u) (\<lambda>r. r\<lparr>u_googleId := Some (gp_googleId profile),
            u_emailVerifiedAt := (case u_emailVerifiedAt u of None \<Rightarrow> Some now | Some t \<Rightarrow> Some t)\<rparr>))
         (returnM ()))))"

definition handleGoogleProfile :: "lib \<Rightarrow> googleProfile \<Rightarrow> ctx \<Rightarrow> googleAnswer act" where
  "handleGoogleProfile L profile cx =
     thenM (throwIf (\<not> gp_emailVerified profile)
       (apiError 403 ''Google account email is not verified''
         [det ''FORBIDDEN_ROLE'' ''Email not verified with Google'']))
     (bindM (getsM (\<lambda>w. find (\<lambda>u. u_googleId u = Some (gp_googleId profile) \<or> u_email u = gp_email profile)
                         (liveUsers w))) (\<lambda>existing.
      case existing of
        None \<Rightarrow>
          bindM (startSignup L \<lparr>su_name = gp_name profile, su_email = gp_email profile, su_password = None,
             su_phone = None, su_provider = Some GOOGLE, su_googleId = Some (gp_googleId profile),
             su_avatarUrl = gp_avatarUrl profile\<rparr>) (\<lambda>p. returnM (VerifyEmail (fst p) (snd p)))
      | Some u \<Rightarrow>
          thenM (throwIf (u_status u = BLOCKED) googleBlocked)
          (thenM (linkGoogle u profile)
          (if \<not> u_twoFactorEnabled u
           then bindM (createSessionAndTokens L u cx) (\<lambda>t. returnM (GoogleIn t))
           else
             bindM (getSetting L ''LOGIN_OTP_TTL_SEC'') (\<lambda>ttl.
             bindM (randomToken L) (\<lambda>challengeId.
             bindM (randomOtp L) (\<lambda>otp.
             thenM (requireRedis (redisSetEx (KEYS_loginOtp challengeId)
                (RChallenge (newChallenge L (u_id u) otp cx)) ttl))
             (thenM (sendLoginOtpEmail L (u_email u) otp (minutesOf ttl) None)
             (thenM (logSecurity L (Some (u_id u)) None EV_OTP_SENT cx)
             (returnM (GoogleOtp challengeId (maskEmail (u_email u)) ttl)))))))))))"

text \<open>
  \<open>ticket\<close> is the payload Google's library answers for an id token, None when it refuses it or
  the payload has no subject or no address.
\<close>

record googlePayload =
  go_sub :: string
  go_email :: string
  go_email_verified :: "bool option"
  go_name :: "string option"
  go_picture :: "string option"

definition googleProfileOf :: "googlePayload \<Rightarrow> googleProfile" where
  "googleProfileOf p =
     \<lparr>gp_googleId = go_sub p, gp_email = js_lower (go_email p),
      gp_emailVerified = (go_email_verified p \<noteq> Some False),
      gp_name = (case go_name p of Some n \<Rightarrow> n | None \<Rightarrow> hd (split_on (CHR ''@'') (go_email p))),
      gp_avatarUrl = go_picture p\<rparr>"

definition googleToken :: "lib \<Rightarrow> bool \<Rightarrow> googlePayload option \<Rightarrow> ctx \<Rightarrow> googleAnswer act" where
  "googleToken L configured ticket cx =
     thenM (throwIf (\<not> configured)
       (apiError 503 ''Google login is not configured'' [detC ''SERVICE_UNAVAILABLE'']))
     (bindM (orThrow (apiError 401 ''Invalid Google token'' [det ''TOKEN_INVALID'' ''Invalid Google token''])
        (case ticket of None \<Rightarrow> None
         | Some p \<Rightarrow> if go_sub p = [] \<or> go_email p = [] then None else Some p)) (\<lambda>p.
      handleGoogleProfile L (googleProfileOf p) cx))"

end
