(* ===== verification/AuthFacts.thy ===== *)
theory AuthFacts
  imports AuthAccount
begin

text \<open>
  What the authentication properties share: the laws of the key-value store, what ending a
  challenge removes, which steps leave Redis alone, and the cases of a successful flow.
\<close>

section \<open>The store\<close>

text \<open>
  A store of values that may have run out: what a lookup sees after a write and after a
  deletion.
\<close>

locale kv_store =
  fixes look :: "'s \<Rightarrow> string \<Rightarrow> 'v option"
    and alive :: "'v \<Rightarrow> 's \<Rightarrow> bool"
    and put :: "string \<Rightarrow> 'v \<Rightarrow> 's \<Rightarrow> 's"
    and del :: "string list \<Rightarrow> 's \<Rightarrow> 's"
  assumes look_put: "look (put k v s) j = (if j = k then (if alive v s then Some v else None) else look s j)"
    and look_del: "look (del ks s) j = (if j \<in> set ks then None else look s j)"
begin

lemma spent: "k \<in> set ks \<Longrightarrow> look (del ks s) k = None"
  by (simp add: look_del)

lemma gone_stays: "look s k = None \<Longrightarrow> look (del ks s) k = None"
  by (simp add: look_del)

lemma del_keeps: "k \<notin> set ks \<Longrightarrow> look (del ks s) k = look s k"
  by (simp add: look_del)

lemma put_keeps: "j \<noteq> k \<Longrightarrow> look (put k v s) j = look s j"
  by (simp add: look_put)

lemma put_new: "alive v s \<Longrightarrow> look (put k v s) k = Some v"
  by (simp add: look_put)

end

definition forget :: "string list \<Rightarrow> world \<Rightarrow> world" where
  "forget ks w = w\<lparr>redis := (\<lambda>k. if k \<in> set ks then None else redis w k)\<rparr>"

definition notExpired :: "rval \<times> instant option \<Rightarrow> world \<Rightarrow> bool" where
  "notExpired v w \<longleftrightarrow> (case snd v of None \<Rightarrow> True | Some t \<Rightarrow> clock w < t)"

interpretation kv: kv_store redisLive notExpired "\<lambda>k v. redisPut k (fst v) (snd v)" forget
proof
  fix k j :: string and v and w :: world and ks
  show "redisLive (redisPut k (fst v) (snd v) w) j =
      (if j = k then (if notExpired v w then Some v else None) else redisLive w j)"
    by (cases v; cases "snd v") (auto simp: redisLive_def redisPut_def notExpired_def split: option.split)
  show "redisLive (forget ks w) j = (if j \<in> set ks then None else redisLive w j)"
    by (auto simp: redisLive_def forget_def split: option.split)
qed

lemma forget_forget: "forget ks (forget js w) = forget (js @ ks) w"
  by (cases w) (auto simp: forget_def fun_eq_iff)

lemma forget_Nil [simp]: "forget [] w = w"
  by (cases w) (simp add: forget_def)

lemma forget_rest [simp]:
  "clock (forget ks w) = clock w" "redisUp (forget ks w) = redisUp w" "users (forget ks w) = users w"
  "sessions (forget ks w) = sessions w" "refreshTokens (forget ks w) = refreshTokens w"
  "trustedDevices (forget ks w) = trustedDevices w"
  by (simp_all add: forget_def)

lemma run_redisGet: "redisUp w \<Longrightarrow> redisGet k w = (Inr (map_option fst (redisLive w k)), w)"
  by (simp add: redisGet_def eval)

lemma redis_down: "\<not> redisUp w \<Longrightarrow> redisCmd f w = (Inl RedisErr, w)"
  by (simp add: redisCmd_def)

lemma run_redisDel:
  "redisUp w \<Longrightarrow> redisDel ks w =
     (Inr (length (filter (\<lambda>k. redisLive w k \<noteq> None) (remdups ks))), forget ks w)"
  by (simp add: redisDel_def eval forget_def)

lemma requireRedis_InrE:
  assumes "requireRedis m w = (Inr x, w')"
  obtains "m w = (Inr x, w')"
  using assms by (auto simp: requireRedis_def eval split: prod.splits sum.splits)

lemma run_requireRedis:
  "requireRedis m w = (case m w of
     (Inl e, w') \<Rightarrow> (Inl (case e of ApiErr _ _ _ \<Rightarrow> e
        | _ \<Rightarrow> apiError 503 ''Verification service is temporarily unavailable''
             [det ''SERVICE_UNAVAILABLE'' ''Please try again in a moment'']), w')
   | (Inr x, w') \<Rightarrow> (Inr x, w'))"
  by (simp add: requireRedis_def eval split: prod.split sum.split)

lemma redisGet_InrE:
  assumes "redisGet k w = (Inr v, w')"
  obtains "redisUp w" and "w' = w" and "v = map_option fst (redisLive w k)"
  using assms by (auto simp: redisGet_def redisCmd_def split: if_splits)

section \<open>Steps that leave Redis alone\<close>

definition sameRedis :: "world \<Rightarrow> world \<Rightarrow> bool" where
  "sameRedis w w' \<longleftrightarrow> redis w' = redis w \<and> redisUp w' = redisUp w \<and> clock w' = clock w"

interpretation rd: step_preorder sameRedis undoTx
  by unfold_locales (auto simp: sameRedis_def)

lemma sameRedis_live: "sameRedis w w' \<Longrightarrow> redisLive w' k = redisLive w k"
  by (auto simp: sameRedis_def redisLive_def split: option.split)

lemma rd_small:
  "related sameRedis (freshId L)" "related sameRedis (randomToken L)" "related sameRedis (randomOtp L)"
  "related sameRedis (audit L a b c d e f g)" "related sameRedis (incCounter name)"
  by (simp_all add: related_def eval sameRedis_def incCounter_def)

lemma rd_mail: "related sameRedis (sendMail L to t b)"
  unfolding related_def
proof
  fix w
  obtain w' where "sendMail L to t b w = (Inr (), w')" "mailed w w'" using run_sendMail by blast
  then show "sameRedis w (snd (sendMail L to t b w))"
    using mailed_frame(1,4,5) by (simp add: sameRedis_def)
qed

lemma rd_log: "ty \<noteq> EV_LOGIN_FAILED \<Longrightarrow> related sameRedis (logSecurity L a b ty cx)"
  unfolding logSecurity_def by (intro rd.rel_intros rd_small) (simp_all add: sameRedis_def)

lemma rd_session: "related sameRedis (createSessionAndTokens L u cx)"
  unfolding createSessionAndTokens_def signAccessToken_def signRefreshToken_def insertRefreshToken_def
    updateUser_def
  by (intro rd.rel_intros rd_small rd_log) (simp_all add: sameRedis_def)

lemma rd_device: "related sameRedis (createTrustedDevice L i ua)"
  unfolding createTrustedDevice_def by (intro rd.rel_intros rd_small) (simp_all add: sameRedis_def)

lemma rd_alert: "related sameRedis (alertNewDevice L u cx b)"
  unfolding alertNewDevice_def sendNewLoginAlert_def by (intro rd.rel_intros rd_log rd_mail) simp

lemma rd_liveUser: "related sameRedis (liveUser i)" "related sameRedis (isNewDevice i cx)"
  unfolding liveUser_def isNewDevice_def by (intro rd.rel_intros)+

lemma rd_otpSession: "related sameRedis (otpSession L i trust cx)" "related sameRedis (magicSession L i cx)"
  unfolding otpSession_def magicSession_def
  by (intro rd.rel_intros rd_small rd_liveUser rd_session rd_device rd_alert)+

section \<open>Ending a challenge\<close>

definition magicKeys :: "loginChallenge \<Rightarrow> string list" where
  "magicKeys c = (case lc_magicHash c of None \<Rightarrow> []
     | Some h \<Rightarrow> if h = [] then [] else [KEYS_loginMagic h])"

lemma run_dropMagic: "redisUp w \<Longrightarrow> dropMagic c w = (Inr (), forget (magicKeys c) w)"
  by (simp add: dropMagic_def magicKeys_def eval run_redisDel split: option.split)

lemma magicKeys_other: "KEYS_loginOtp i \<notin> set (magicKeys c)"
  by (simp add: magicKeys_def split: option.split)

lemma run_endChallenge:
  assumes "redisUp w"
  shows "endChallenge i c w =
     (Inr (if redisLive w (KEYS_loginOtp i) = None then 0 else 1),
      forget (magicKeys c @ [KEYS_loginOtp i]) w)"
  using assms magicKeys_other [of i c]
  by (simp add: endChallenge_def eval run_dropMagic run_redisDel forget_forget kv.look_del)

text \<open>A challenge and its link are both dead.\<close>

definition challengeDead :: "string \<Rightarrow> loginChallenge \<Rightarrow> world \<Rightarrow> bool" where
  "challengeDead i c w \<longleftrightarrow> redisLive w (KEYS_loginOtp i) = None \<and>
     (\<forall>k \<in> set (magicKeys c). redisLive w k = None)"

lemma forgotten_dead: "challengeDead i c (forget (magicKeys c @ [KEYS_loginOtp i]) w)"
  by (simp add: challengeDead_def kv.look_del)

lemma dead_same: "sameRedis w w' \<Longrightarrow> challengeDead i c w' = challengeDead i c w"
  by (simp add: challengeDead_def sameRedis_live)

section \<open>The cases of a login\<close>

lemma asChallenge_InrE:
  assumes "asChallenge v w = (Inr c, w')"
  obtains "v = RChallenge c" and "w' = w"
  using assms by (cases v) (auto simp: asChallenge_def eval)

lemma asText_InrE:
  assumes "asText v w = (Inr s, w')"
  obtains "v = RText s" and "w' = w"
  using assms by (cases v) (auto simp: asText_def eval)

lemma redisDel_InrE:
  assumes "redisDel ks w = (Inr n, w')"
  obtains "redisUp w" and "w' = forget ks w"
    and "n = length (filter (\<lambda>k. redisLive w k \<noteq> None) (remdups ks))"
proof (cases "redisUp w")
  case True
  then show ?thesis using assms that by (simp add: run_redisDel)
next
  case False
  then show ?thesis using assms by (simp add: redisDel_def redis_down)
qed

lemma live_value:
  "map_option fst (redisLive w k) = Some v \<Longrightarrow> \<exists>e. redisLive w k = Some (v, e)"
  by auto

lemma verifyLoginOtp_InrE:
  assumes "verifyLoginOtp L i otp trust cx w = (Inr r, w')"
  obtains c e where "redisUp w" and "redisLive w (KEYS_loginOtp i) = Some (RChallenge c, e)"
    and "lc_uaHash c = sha256 L (ctx_ua cx)" and "otpHash L otp = lc_otpHash c"
    and "sameRedis (forget (magicKeys c @ [KEYS_loginOtp i]) w) w'"
proof -
  from assms obtain c where up: "redisUp w"
    and raw: "map_option fst (redisLive w (KEYS_loginOtp i)) = Some (RChallenge c)"
    and go: "(if lc_uaHash c \<noteq> sha256 L (ctx_ua cx)
        then thenM (redisDel [KEYS_loginOtp i])
            (throwM (apiError 401 ''Device mismatch, please login again''
               [det ''INVALID_CREDENTIALS'' ''Device mismatch'']))
        else if \<not> safeEqual (otpHash L otp) (lc_otpHash c) then thenM (wrongCode L i c cx) (throwM invalidOtp)
        else
          bindM (endChallenge i c) (\<lambda>gone.
          thenM (throwIf (gone = 0) (apiError 400 ''OTP already used'' [det ''OTP_EXPIRED'' ''OTP already used'']))
          (otpSession L (lc_userId c) trust cx))) w = (Inr r, w')"
    unfolding verifyLoginOtp_def
    by (elim bindM_InrE requireRedis_InrE redisGet_InrE orThrow_InrE asChallenge_InrE) simp
  obtain e where live: "redisLive w (KEYS_loginOtp i) = Some (RChallenge c, e)"
    using live_value [OF raw] by blast
  have ua: "lc_uaHash c = sha256 L (ctx_ua cx)"
    using go by (auto simp: eval split: if_splits prod.splits sum.splits)
  have code: "otpHash L otp = lc_otpHash c"
    using go ua by (auto simp: run_then run_throw split: if_splits prod.splits sum.splits)
  have "otpSession L (lc_userId c) trust cx (forget (magicKeys c @ [KEYS_loginOtp i]) w) = (Inr r, w')"
    using go ua code by (simp add: run_bind run_endChallenge [OF up] live run_then run_throwIf)
  then have "sameRedis (forget (magicKeys c @ [KEYS_loginOtp i]) w) w'"
    by (rule relatedD [OF rd_otpSession(1)])
  with up live ua code show thesis by (rule that)
qed

lemma completeMagicLogin_InrE:
  assumes "completeMagicLogin L token cx w = (Inr r, w')"
  obtains i c e x where "redisUp w" and "redisLive w (KEYS_loginMagic (sha256 L token)) = Some (RText i, x)"
    and "redisLive w (KEYS_loginOtp i) = Some (RChallenge c, e)"
    and "sameRedis (forget (KEYS_loginMagic (sha256 L token) # magicKeys c @ [KEYS_loginOtp i]) w) w'"
proof -
  let ?k = "KEYS_loginMagic (sha256 L token)"
  note runs = completeMagicLogin_def Let_def run_bind run_requireRedis run_redisGet run_orThrow run_then
    run_throwIf asText_def asChallenge_def run_return run_throw
  have up: "redisUp w"
  proof (rule ccontr)
    assume "\<not> redisUp w"
    then show False using assms by (simp add: runs redisGet_def redis_down)
  qed
  obtain v x where v: "redisLive w ?k = Some (v, x)"
    using assms up by (cases "redisLive w ?k") (auto simp: runs)
  obtain i where i: "v = RText i" using assms up v by (cases v) (simp_all add: runs)
  have ne: "i \<noteq> []" using assms up v i by (cases "i = []") (simp_all add: runs)
  obtain u e where u: "redisLive w (KEYS_loginOtp i) = Some (u, e)"
    using assms up v i ne by (cases "redisLive w (KEYS_loginOtp i)") (auto simp: runs)
  obtain c where c: "u = RChallenge c"
    using assms up v i ne u by (cases u) (simp_all add: runs run_redisDel)
  have live: "redisLive w ?k = Some (RText i, x)" "redisLive w (KEYS_loginOtp i) = Some (RChallenge c, e)"
    using v i u c by simp_all
  have go: "thenM (endChallenge i c) (magicSession L (lc_userId c) cx) (forget [?k] w) = (Inr r, w')"
    using assms up live ne by (simp add: runs run_redisDel)
  have up': "redisUp (forget [?k] w)" using up by simp
  have "magicSession L (lc_userId c) cx (forget (?k # magicKeys c @ [KEYS_loginOtp i]) w) = (Inr r, w')"
    using go by (simp add: run_then run_endChallenge [OF up'] forget_forget)
  then have "sameRedis (forget (?k # magicKeys c @ [KEYS_loginOtp i]) w) w'"
    by (rule relatedD [OF rd_otpSession(2)])
  with up live show thesis by (rule that)
qed

section \<open>Ending every session\<close>

definition allRevoked :: "string \<Rightarrow> world \<Rightarrow> bool" where
  "allRevoked i w \<longleftrightarrow> (\<forall>s \<in> set (sessions w). se_userId s = i \<longrightarrow> se_revokedAt s \<noteq> None) \<and>
     (\<forall>t \<in> set (refreshTokens w). rt_userId t = i \<longrightarrow> rt_revokedAt t \<noteq> None)"

lemma updateWhere_all:
  "(\<And>r. r \<in> set rows \<Longrightarrow> Q (if P r then f r else r)) \<Longrightarrow> \<forall>r \<in> set (updateWhere P f rows). Q r"
  by (induction rows) auto

lemma find_first: "find P xs = Some x \<Longrightarrow> find P (xs @ ys) = Some x"
  by (induction xs) (auto split: if_splits)

lemma run_invalidate:
  "invalidate ks w = (Inr (), if redisUp w then forget ks w else w)"
proof (cases "redisUp w")
  case True
  then show ?thesis by (simp add: invalidate_def run_when run_orElse run_then run_redisDel run_return)
next
  case False
  then show ?thesis
    by (simp add: invalidate_def run_when run_orElse run_then redisDel_def redis_down)
qed

lemma run_revokeAllSessions:
  obtains n w' where "revokeAllSessions i reason w = (Inr n, w')" and "allRevoked i w'"
    and "redisUp w' = redisUp w"
    and "\<And>s. redisUp w \<Longrightarrow> s \<in> set (sessions w) \<Longrightarrow> liveSession i s \<Longrightarrow> redisLive w' (KEYS_session (se_id s)) = None"
proof -
  let ?n = "length (filter (liveSession i) (sessions w))"
  let ?w = "snd (revokeAllSessions i reason w)"
  have run: "revokeAllSessions i reason w = (Inr ?n, ?w)"
    by (simp add: revokeAllSessions_def eval run_invalidate)
  have rows: "sessions ?w = updateWhere (liveSession i)
        (\<lambda>s. s\<lparr>se_revokedAt := Some (clock w), se_revokedReason := Some (show_reason reason)\<rparr>) (sessions w)"
      "refreshTokens ?w = updateWhere (liveToken i) (\<lambda>t. t\<lparr>rt_revokedAt := Some (clock w)\<rparr>) (refreshTokens w)"
    by (simp_all add: revokeAllSessions_def eval run_invalidate)
  have "allRevoked i ?w"
    unfolding allRevoked_def rows
    by (intro conjI updateWhere_all) (simp_all add: liveSession_def liveToken_def)
  moreover have "redisUp ?w = redisUp w" by (simp add: revokeAllSessions_def eval run_invalidate)
  moreover have "redisLive ?w (KEYS_session (se_id s)) = None"
    if "redisUp w" "s \<in> set (sessions w)" "liveSession i s" for s
    using that by (simp add: revokeAllSessions_def eval run_invalidate kv.look_del)
  ultimately show thesis by (rule that [OF run])
qed

section \<open>A request that gets past auth\<close>

text \<open>A cached read touches its own key at most.\<close>

lemma cachedVal_frame:
  assumes "\<And>v. snd (fn v) = v"
  shows "\<exists>r. snd (cachedVal enc dec key ttl fn w) = w\<lparr>redis := r\<rparr> \<and> (\<forall>k. k \<noteq> key \<longrightarrow> r k = redis w k)"
proof -
  have none: "\<exists>r. w = w\<lparr>redis := r\<rparr> \<and> (\<forall>k. k \<noteq> key \<longrightarrow> r k = redis w k)"
    by (rule exI [of _ "redis w"]) simp
  obtain x where fn: "fn w = (x, w)" using assms by (metis prod.collapse)
  show ?thesis
    by (cases x) (simp_all add: cachedVal_def redisGet_def redisSetEx_def eval redisPut_def redisCmd_def orElse_def fn
        split: option.split rval.split, use none in auto)
qed

lemma auth_InrE:
  assumes "auth verify header w = (Inr s, w')"
  obtains p r where "bearer header \<noteq> None" and "authUser p (w\<lparr>redis := r\<rparr>) = (Inr s, w')"
    and "\<forall>k. k \<noteq> KEYS_session (ap_sid p) \<longrightarrow> r k = redis w k"
proof -
  obtain token now v1 p v2 denied v3 x v where parts: "bearer header = Some token"
    "liftE (verify token now) w = (Inr p, v1)" "orElse (redisExists (KEYS_jwtDeny (ap_jti p))) False v1 = (Inr denied, v2)"
    "cachedVal encSession decSession (KEYS_session (ap_sid p)) CACHE_TTL_session (sessionRow (ap_sid p)) v2 = (Inr x, v)"
    "authUser p v = (Inr s, w')"
    using assms unfolding auth_def
    by (elim bindM_InrE thenM_InrE getsM_InrE orThrow_InrE throwIf_InrE) metis
  have "v1 = w" using parts(2) by (auto simp: eval split: sum.splits)
  moreover have "v2 = v1" using parts(3)
    by (auto simp: orElse_def redisExists_def redisCmd_def eval split: if_splits)
  ultimately obtain r where "v = w\<lparr>redis := r\<rparr>" "\<forall>k. k \<noteq> KEYS_session (ap_sid p) \<longrightarrow> r k = redis w k"
    using cachedVal_frame [of "sessionRow (ap_sid p)" encSession decSession "KEYS_session (ap_sid p)" CACHE_TTL_session w] parts(4)
    by (auto simp: sessionRow_def eval)
  with parts show thesis using that by simp
qed

end
