(* ===== verification/AuthWorld.thy ===== *)
theory AuthWorld
  imports AuthFacts
begin

text \<open>
  A concrete instance of the parameters, a citizen with a pending two-factor challenge and an
  administrator, on which the witnesses of the authentication, access and administration
  properties run the definitions.
\<close>

section \<open>A small world\<close>

definition authLib :: lib where
  "authLib = \<lparr>
     sha256 = (\<lambda>s. ''h'' @ s), otpHash = (\<lambda>s. ''o'' @ s), bcryptHash = (\<lambda>_ s. s),
     bcryptCompare = (\<lambda>p h. h = p),
     uuidTape = (\<lambda>n. replicate n (CHR ''u'')), tokenTape = (\<lambda>n. replicate n (CHR ''t'')),
     otpTape = (\<lambda>n. ''123456''), signAccess = (\<lambda>u r s j t. j), signRefresh = (\<lambda>u s j t. j),
     decStr = show_int, numStr = (\<lambda>x. ''n''), toNumber = (\<lambda>_. None),
     stringify = (\<lambda>_. ''json''), ilike = (\<lambda>q s. q = s), parseDate = (\<lambda>_. None),
     smtpConfigured = False, smtpSend = (\<lambda>_ _. None), BACKEND_URL = ''http://api'',
     CLIENT_URL = ''http://web'', SSL_STORE_ID = [], SSL_STORE_PASSWORD = [],
     DUMMY_HASH = ''dummy''\<rparr>"

lemma authLib_simps [simp]:
  "sha256 authLib s = ''h'' @ s" "otpHash authLib s = ''o'' @ s" "bcryptCompare authLib p h = (h = p)"
  "bcryptHash authLib n p = p" "uuidTape authLib n = replicate n (CHR ''u'')"
  "tokenTape authLib n = replicate n (CHR ''t'')" "otpTape authLib n = ''123456''"
  "signAccess authLib u r s j t = j" "signRefresh authLib u s j t = j" "smtpConfigured authLib = False"
  "DUMMY_HASH authLib = ''dummy''" "BACKEND_URL authLib = ''http://api''"
  by (simp_all add: authLib_def)

definition rahim :: "bool \<Rightarrow> user" where
  "rahim twoFactor = \<lparr>u_id = ''cit'', u_name = ''Rahim'', u_email = ''r@x.bd'', u_password = Some ''pw'',
     u_phone = None, u_avatarUrl = None, u_role = CITIZEN, u_status = ACTIVE, u_provider = LOCAL,
     u_googleId = None, u_emailVerifiedAt = Some 0, u_twoFactorEnabled = twoFactor, u_isSuperAdmin = False,
     u_lastLoginAt = None, u_lastLoginIp = None, u_wardId = None, u_departmentId = None,
     u_passwordChangedAt = None, u_createdAt = 0, u_updatedAt = 0, u_deletedAt = None\<rparr>"

definition browser :: ctx where
  "browser = \<lparr>ctx_ip = ''ip'', ctx_ua = ''ua''\<rparr>"

definition demoChallenge :: loginChallenge where
  "demoChallenge = \<lparr>lc_userId = ''cit'', lc_otpHash = ''o123456'', lc_attempts = 0, lc_resends = 0,
     lc_ipHash = ''hip'', lc_uaHash = ''hua'', lc_magicHash = Some ''hm''\<rparr>"

text \<open>Rahim, with a pending challenge and its emailed link.\<close>

definition atDoor :: "bool \<Rightarrow> world" where
  "atDoor twoFactor = empty_world\<lparr>users := [rahim twoFactor], redisUp := True,
     redis := [KEYS_loginOtp ''ch'' \<mapsto> (RChallenge demoChallenge, Some 300000),
               KEYS_loginMagic ''hm'' \<mapsto> (RText ''ch'', Some 300000)]\<rparr>"

lemma atDoor_simps [simp]:
  "users (atDoor b) = [rahim b]" "redisUp (atDoor b)" "clock (atDoor b) = 0" "uuidPos (atDoor b) = 0"
  "tokPos (atDoor b) = 0" "sessions (atDoor b) = []" "refreshTokens (atDoor b) = []"
  "trustedDevices (atDoor b) = []" "securityEvents (atDoor b) = []" "emailLogs (atDoor b) = []"
  "redisLive (atDoor b) (KEYS_loginOtp ''ch'') = Some (RChallenge demoChallenge, Some 300000)"
  "redisLive (atDoor b) (KEYS_loginMagic ''hm'') = Some (RText ''ch'', Some 300000)"
  by (simp_all add: atDoor_def empty_world_def redisLive_def)

lemma rahim_simps [simp]:
  "u_id (rahim b) = ''cit''" "u_deletedAt (rahim b) = None" "u_role (rahim b) = CITIZEN"
  "u_email (rahim b) = ''r@x.bd''" "u_status (rahim b) = ACTIVE" "u_password (rahim b) = Some ''pw''"
  "u_twoFactorEnabled (rahim b) = b" "u_isSuperAdmin (rahim b) = False"
  by (simp_all add: rahim_def)

lemma authLib_inj: "inj (uuidTape authLib)"
proof (rule injI)
  fix m n :: nat
  assume "uuidTape authLib m = uuidTape authLib n"
  then have "length (replicate m (CHR ''u'')) = length (replicate n (CHR ''u''))" by simp
  then show "m = n" by simp
qed

text \<open>Karima runs the console.\<close>

definition karima :: "bool \<Rightarrow> user" where
  "karima super = (rahim False)\<lparr>u_id := ''adm'', u_name := ''Karima'', u_email := ''k@x.bd'', u_role := ADMIN,
     u_isSuperAdmin := super\<rparr>"

lemma karima_simps [simp]:
  "u_id (karima b) = ''adm''" "u_deletedAt (karima b) = None" "u_role (karima b) = ADMIN"
  "u_email (karima b) = ''k@x.bd''" "u_status (karima b) = ACTIVE" "u_isSuperAdmin (karima b) = b"
  by (simp_all add: karima_def)

end
