(* ===== verification/AuthProps.thy ===== *)
theory AuthProps
  imports AuthWorld
begin

text \<open>
  The properties of authentication: what it takes to get a session, how often a challenge and a
  refresh token can be used, what ends a session, and two limits that do not limit.
\<close>

section \<open>One challenge, one login\<close>


lemma door_opens:
  "\<exists>r w'. verifyLoginOtp authLib ''ch'' ''123456'' False browser (atDoor True) = (Inr r, w') \<and>
     length (sessions w') = 1"
proof -
  let ?w = "forget (magicKeys demoChallenge @ [KEYS_loginOtp ''ch'']) (atDoor True)"
  have "\<exists>r w'. otpSession authLib ''cit'' False browser ?w = (Inr r, w') \<and> length (sessions w') = 1"
    by (simp add: otpSession_def liveUser_def isNewDevice_def createSessionAndTokens_def signAccessToken_def
        signRefreshToken_def insertRefreshToken_def updateUser_def logSecurity_def alertNewDevice_def
        sendNewLoginAlert_def sendMail_def queuedMail_def eval live_defs uniqueBy_def forget_def)
  moreover have "verifyLoginOtp authLib ''ch'' ''123456'' False browser (atDoor True)
      = otpSession authLib ''cit'' False browser ?w"
    by (simp add: verifyLoginOtp_def run_bind run_requireRedis run_redisGet run_orThrow asChallenge_def
        run_return demoChallenge_def browser_def run_endChallenge run_then run_throwIf)
  ultimately show ?thesis by simp
qed


section \<open>Wrong codes\<close>

text \<open>Guessing one code after another at a challenge.\<close>

fun guesses :: "lib \<Rightarrow> string \<Rightarrow> ctx \<Rightarrow> string list \<Rightarrow> world \<Rightarrow> world" where
  "guesses L i cx [] w = w"
| "guesses L i cx (otp # otps) w = guesses L i cx otps (snd (verifyLoginOtp L i otp False cx w))"

lemma magicKeys_attempts [simp]: "magicKeys (c\<lparr>lc_attempts := n\<rparr>) = magicKeys c"
  by (simp add: magicKeys_def)

lemma wrong_guess:
  fixes trust :: bool
  assumes up: "redisUp w" and live: "redisLive w (KEYS_loginOtp i) = Some (RChallenge c, e)"
    and ua: "lc_uaHash c = sha256 L (ctx_ua cx)" and code: "otpHash L otp \<noteq> lc_otpHash c"
  defines "w' \<equiv> snd (verifyLoginOtp L i otp trust cx w)"
  shows "redisUp w'"
    and "loginOtpAttempts \<le> lc_attempts c + 1 \<Longrightarrow> challengeDead i c w'"
    and "lc_attempts c + 1 < loginOtpAttempts \<Longrightarrow>
      redisLive w' (KEYS_loginOtp i) = Some (RChallenge (c\<lparr>lc_attempts := lc_attempts c + 1\<rparr>), e)"
proof -
  let ?c = "c\<lparr>lc_attempts := lc_attempts c + 1\<rparr>"
  define base where "base = (if loginOtpAttempts \<le> lc_attempts c + 1
     then forget (magicKeys c @ [KEYS_loginOtp i]) w else redisPut (KEYS_loginOtp i) (RChallenge ?c) e w)"
  have tail: "related sameRedis (thenM (logSecurity L (Some (lc_userId c)) None EV_OTP_FAILED cx)
      (incCounter ''citycare_otp_total:login:failed''))"
    by (intro rd.rel_intros rd_small rd_log) simp
  have "w' = snd (wrongCode L i c cx w)"
    using up live ua code
    by (simp add: w'_def verifyLoginOtp_def run_bind run_requireRedis run_redisGet
        run_orThrow asChallenge_def run_return run_then run_throw split: prod.split sum.split)
  also have "\<dots> = snd (thenM (logSecurity L (Some (lc_userId c)) None EV_OTP_FAILED cx)
      (incCounter ''citycare_otp_total:login:failed'') base)"
    using up live
    by (simp add: wrongCode_def Let_def run_then [of "if _ then _ else _"] run_then [of "endChallenge _ _"]
        run_endChallenge run_return base_def redisSetKeepTtl_def run_redisCmd)
  finally have same: "sameRedis base w'" using tail by (simp add: related_def)
  have "redisUp base" using up by (simp add: base_def redisPut_def)
  with same show "redisUp w'" by (simp add: sameRedis_def)
  show "challengeDead i c w'" if "loginOtpAttempts \<le> lc_attempts c + 1"
    using that by (simp add: dead_same [OF same] base_def forgotten_dead)
  have "notExpired (RChallenge ?c, e) w"
    using live by (auto simp: notExpired_def redisLive_def split: option.splits if_splits)
  then show "redisLive w' (KEYS_loginOtp i) = Some (RChallenge ?c, e)" if "lc_attempts c + 1 < loginOtpAttempts"
    using that kv.look_put [of "KEYS_loginOtp i" "(RChallenge ?c, e)" w "KEYS_loginOtp i"]
    by (simp add: sameRedis_live [OF same] base_def)
qed

lemma dead_guess:
  assumes "redisUp w" and "challengeDead i c w"
  shows "challengeDead i c (guesses L i cx otps w)"
  using assms
proof (induction otps arbitrary: w)
  case (Cons otp otps)
  then have "snd (verifyLoginOtp L i otp False cx w) = w"
    by (simp add: verifyLoginOtp_def challengeDead_def run_bind run_requireRedis run_redisGet run_orThrow)
  with Cons show ?case by simp
qed simp

text \<open>C7: Five wrong codes end a login challenge: after any sequence of at least as many wrong guesses
  as it has attempts left, neither the code nor the emailed link can be used any more.\<close>

theorem wrong_codes_end_the_challenge:
  assumes "redisUp w" and "redisLive w (KEYS_loginOtp i) = Some (RChallenge c, e)"
    and "lc_uaHash c = sha256 L (ctx_ua cx)" and "\<forall>otp \<in> set otps. otpHash L otp \<noteq> lc_otpHash c"
    and "otps \<noteq> []" and "5 \<le> lc_attempts c + length otps"
  shows "challengeDead i c (guesses L i cx otps w)"
  using assms
proof (induction otps arbitrary: w c)
  case (Cons otp otps)
  have wrong: "otpHash L otp \<noteq> lc_otpHash c" using Cons.prems(4) by simp
  note step = wrong_guess [OF Cons.prems(1-3) wrong, where trust = False]
  show ?case
  proof (cases "loginOtpAttempts \<le> lc_attempts c + 1")
    case True
    then show ?thesis using dead_guess [OF step(1) step(2) [OF True]] by simp
  next
    case False
    let ?c = "c\<lparr>lc_attempts := lc_attempts c + 1\<rparr>"
    have "otps \<noteq> []" using False Cons.prems(6) by (auto simp: loginOtpAttempts_def)
    then have "challengeDead i ?c (guesses L i cx otps (snd (verifyLoginOtp L i otp False cx w)))"
      using False Cons.prems step by (intro Cons.IH) (auto simp: loginOtpAttempts_def)
    then show ?thesis by (simp add: challengeDead_def)
  qed
qed simp

theorem wrong_codes_end_the_challenge_witness:
  "challengeDead ''ch'' demoChallenge
     (guesses authLib ''ch'' browser [''000001'', ''000002'', ''000003'', ''000004'', ''000005''] (atDoor True))"
  by (rule wrong_codes_end_the_challenge) (simp_all add: demoChallenge_def browser_def)

section \<open>Passwords\<close>

lemma setPassword_frame:
  assumes "setPassword L i pw cx w = (Inr x, w')"
  shows "sessions w' = sessions w" and "redisUp w' = redisUp w"
  using assms by (auto simp: setPassword_def updateUser_def eval split: option.splits)

lemma log_frame:
  assumes "ty \<noteq> EV_LOGIN_FAILED"
  obtains v where "logSecurity L a b ty cx w = (Inr (), v)" and "sessions v = sessions w"
    and "refreshTokens v = refreshTokens w" and "sameRedis w v" and "users v = users w"
  using assms by (simp add: logSecurity_def eval sameRedis_def)

text \<open>What follows the new password in both flows.\<close>

lemma after_password:
  assumes "thenM (revokeAllSessions i PASSWORD_CHANGED)
      (thenM (logSecurity L (Some i) None EV_PASSWORD_CHANGED cx) (returnM msg)) w = (Inr m, w')"
  shows "allRevoked i w'"
    and "\<And>s. redisUp w \<Longrightarrow> s \<in> set (sessions w) \<Longrightarrow> liveSession i s \<Longrightarrow> redisLive w' (KEYS_session (se_id s)) = None"
proof -
  obtain n w1 where rev: "revokeAllSessions i PASSWORD_CHANGED w = (Inr n, w1)" "allRevoked i w1"
    and dead: "\<And>s. redisUp w \<Longrightarrow> s \<in> set (sessions w) \<Longrightarrow> liveSession i s \<Longrightarrow> redisLive w1 (KEYS_session (se_id s)) = None"
    by (rule run_revokeAllSessions [of i PASSWORD_CHANGED w]) blast
  obtain v where "logSecurity L (Some i) None EV_PASSWORD_CHANGED cx w1 = (Inr (), v)"
    "sessions v = sessions w1" "refreshTokens v = refreshTokens w1" and same: "sameRedis w1 v"
    by (rule log_frame [of EV_PASSWORD_CHANGED]) simp_all
  then have "w' = v" "sessions w' = sessions w1" "refreshTokens w' = refreshTokens w1"
    using assms rev(1) by (auto simp: run_then run_return)
  then show "allRevoked i w'"
    "\<And>s. redisUp w \<Longrightarrow> s \<in> set (sessions w) \<Longrightarrow> liveSession i s \<Longrightarrow> redisLive w' (KEYS_session (se_id s)) = None"
    using rev(2) dead by (simp_all add: allRevoked_def sameRedis_live [OF same])
qed

text \<open>C9: A changed password, by the old one or by an emailed reset link, leaves its owner no live session
  and no refresh token that can still be exchanged, and while Redis is up none of the ended sessions
  stays in the cache the request guard reads.\<close>

theorem password_change_ends_sessions:
  assumes "changePassword L i old new cx w = (Inr m, w') \<or>
      resetPassword L token new cx w = (Inr m, w') \<and>
      redisLive w (KEYS_passwordReset (sha256 L token)) = Some (RText i, e)"
  shows "allRevoked i w' \<and> (redisUp w \<longrightarrow> (\<forall>s \<in> set (sessions w). liveSession i s \<longrightarrow>
     redisLive w' (KEYS_session (se_id s)) = None))"
proof -
  have found: "u_id u = i" if "findUserOr404 i v = (Inr u, v')" for u v v'
    using that by (auto simp: findUserOr404_def eval split: option.splits dest: find_Some_in)
  have end_all: ?thesis
    if "thenM (revokeAllSessions i PASSWORD_CHANGED)
        (thenM (logSecurity L (Some i) None EV_PASSWORD_CHANGED cx) (returnM msg)) v = (Inr m, w')"
      and "sessions v = sessions w" and "redisUp v = redisUp w" for msg v
    using after_password [OF that(1)] that(2,3) by simp
  from assms show ?thesis
  proof
    assume "changePassword L i old new cx w = (Inr m, w')"
    then obtain u x w1 where u: "findUserOr404 i w = (Inr u, w)" and "setPassword L (u_id u) new cx w = (Inr x, w1)"
      and "thenM (revokeAllSessions (u_id u) PASSWORD_CHANGED)
        (thenM (logSecurity L (Some (u_id u)) None EV_PASSWORD_CHANGED cx)
          (returnM ''Password changed, please login again'')) w1 = (Inr m, w')"
      by (auto simp: changePassword_def findUserOr404_def eval split: option.splits if_splits prod.splits sum.splits)
    then show ?thesis using found [OF u] setPassword_frame end_all by metis
  next
    assume "resetPassword L token new cx w = (Inr m, w') \<and>
      redisLive w (KEYS_passwordReset (sha256 L token)) = Some (RText i, e)"
    then have run: "resetPassword L token new cx w = (Inr m, w')"
      and live: "redisLive w (KEYS_passwordReset (sha256 L token)) = Some (RText i, e)" by auto
    have up: "redisUp w"
      using run by (cases "redisUp w")
        (simp_all add: resetPassword_def Let_def run_bind run_requireRedis redisGet_def redis_down)
    obtain u where u: "findUserOr404 i w = (Inr u, w)"
      using run live up by (cases "find (\<lambda>u. u_id u = i) (liveUsers w)")
        (simp_all add: resetPassword_def Let_def run_bind run_requireRedis run_redisGet run_orThrow asText_def
          run_return findUserOr404_def run_gets)
    obtain x w1 where pw: "setPassword L (u_id u) new cx w = (Inr x, w1)"
      using run live up u by (cases "setPassword L (u_id u) new cx w"; cases "fst (setPassword L (u_id u) new cx w)")
        (auto simp: resetPassword_def Let_def run_bind run_requireRedis run_redisGet run_orThrow asText_def
          run_return run_then)
    have up1: "redisUp w1" using setPassword_frame(2) [OF pw] up by simp
    have "thenM (revokeAllSessions i PASSWORD_CHANGED)
        (thenM (logSecurity L (Some i) None EV_PASSWORD_CHANGED cx)
          (returnM ''Password updated, please login again''))
        (forget [KEYS_passwordReset (sha256 L token)] w1) = (Inr m, w')"
      using run live up u pw up1 found [OF u]
      by (simp add: resetPassword_def Let_def run_bind run_requireRedis run_redisGet run_orThrow asText_def
          run_return run_then [of "setPassword _ _ _ _"] run_then [of "orElse _ _"] run_orElse run_redisDel)
    then show ?thesis by (rule end_all) (simp_all add: setPassword_frame [OF pw])
  qed
qed

text \<open>A world where Rahim is logged in once.\<close>

definition atHome :: world where
  "atHome = (atDoor True)\<lparr>sessions := [newSession ''sid'' ''cit'' browser 0 600000],
     refreshTokens := [newRefreshToken ''rid'' ''hrefresh'' ''cit'' ''sid'' 0 600000]\<rparr>"

lemma atHome_simps [simp]:
  "users atHome = [rahim True]" "redisUp atHome" "clock atHome = 0" "uuidPos atHome = 0" "tokPos atHome = 0"
  "sessions atHome = [newSession ''sid'' ''cit'' browser 0 600000]" "emailLogs atHome = []"
  "refreshTokens atHome = [newRefreshToken ''rid'' ''hrefresh'' ''cit'' ''sid'' 0 600000]"
  by (simp_all add: atHome_def)

theorem password_change_ends_sessions_witness:
  "\<exists>m w'. changePassword authLib ''cit'' ''pw'' ''new'' browser atHome = (Inr m, w') \<and> allRevoked ''cit'' w' \<and>
     redisLive w' (KEYS_session ''sid'') = None"
proof -
  have "\<exists>m w'. changePassword authLib ''cit'' ''pw'' ''new'' browser atHome = (Inr m, w')"
    by (simp add: changePassword_def findUserOr404_def setPassword_def updateUser_def revokeAllSessions_def
        logSecurity_def passwordOk_def eval run_invalidate live_defs)
  then obtain m w' where run: "changePassword authLib ''cit'' ''pw'' ''new'' browser atHome = (Inr m, w')" by blast
  from password_change_ends_sessions [OF disjI1 [OF this]] have "allRevoked ''cit'' w'"
    "redisLive w' (KEYS_session ''sid'') = None"
    by (simp_all add: liveSession_def newSession_def)
  with run show ?thesis by blast
qed

section \<open>Refresh tokens\<close>

lemma liveUser_InrE:
  assumes "liveUser i w = (Inr u, w')"
  obtains "w' = w" and "u \<in> set (users w)" and "u_id u = i" and "u_deletedAt u = None"
  using assms by (auto simp: liveUser_def eval live_defs split: option.splits dest!: find_Some_in)

lemma insertRefreshToken_InrE:
  assumes "insertRefreshToken L h u s x w = (Inr nxt, w')"
  obtains "\<forall>t \<in> set (refreshTokens w). rt_tokenHash t \<noteq> h"
    and "nxt = newRefreshToken (uuidTape L (uuidPos w)) h u s (clock w) x"
    and "refreshTokens w' = refreshTokens w @ [nxt]" and "sessions w' = sessions w" and "clock w' = clock w"
    and "users w' = users w"
  using assms by (auto simp: insertRefreshToken_def eval uniqueBy_def split: if_splits)

lemma rotate_InrE:
  assumes "rotate L token u row s w = (Inr x, w')"
  obtains nxt where "nxt = newRefreshToken (uuidTape L (uuidPos w)) (sha256 L token) (u_id u) (rt_sessionId row) (clock w) (se_expiresAt s)"
    and "refreshTokens w' = updateWhere (\<lambda>t. rt_id t = rt_id row)
       (\<lambda>t. t\<lparr>rt_revokedAt := Some (clock w), rt_replacedById := Some (rt_id nxt)\<rparr>) (refreshTokens w @ [nxt])"
  using assms unfolding rotate_def
  by (elim transaction_InrE bindM_InrE thenM_InrE getsM_InrE updateRow_InrE returnM_InrE insertRefreshToken_InrE)
    auto



section \<open>Getting in\<close>

lemma loginGate_InrE:
  assumes "loginGate email cx w = (Inr x, w')"
  obtains "w' = w" and "\<not> (\<exists>n e. redisUp w \<and> redisLive w (KEYS_loginFail email) = Some (RNum n, e) \<and> 5 \<le> n)"
proof (cases "redisUp w")
  case True
  show ?thesis
    using assms by (intro that)
      (auto simp: loginGate_def redisNumber_def run_bind run_then run_orElse run_redisGet [OF True] run_return
        run_throwIf LIMITS_defs rnum_def split: option.splits if_splits rval.splits)
next
  case False
  then show ?thesis
    using assms by (intro that)
      (auto simp: loginGate_def redisNumber_def run_bind run_then run_orElse redisGet_def redis_down run_return
        run_throwIf LIMITS_defs split: if_splits)
qed

lemma loginFailed_throws: "fst (loginFailed L email u cx w) \<noteq> Inr r"
proof -
  have "fst (thenM m (throwM e) v) \<noteq> Inr r" for m :: "unit act" and e v
    by (simp add: run_then run_throw split: prod.split sum.split)
  moreover have "fst (thenM m k v) \<noteq> Inr r" if "\<And>v. fst (k v) \<noteq> Inr r" for m :: "unit act" and k v
    using that by (simp add: run_then split: prod.split sum.split)
  moreover have "fst (bindM m f v) \<noteq> Inr r" if "\<And>x v. fst (f x v) \<noteq> Inr r" for m :: "nat act" and f v
    using that by (simp add: run_bind split: prod.split sum.split)
  ultimately show ?thesis unfolding loginFailed_def by presburger
qed



section \<open>Getting out\<close>

lemma remainingTtl_covers:
  assumes "t < expAt * 1000"
  shows "t < now + remainingTtl expAt now * 1000"
proof -
  have "now div 1000 * 1000 \<le> now" by simp
  moreover have "expAt - now div 1000 \<le> remainingTtl expAt now" by (simp add: remainingTtl_def)
  ultimately show ?thesis using assms by linarith
qed

lemma logout_denies:
  assumes "redisUp w"
  shows "redis (snd (logout i sid (Some (jti, expAt)) w)) (KEYS_jwtDeny jti) =
      Some (RText ''1'', Some (clock w + remainingTtl expAt (clock w) * 1000))"
    and "redisUp (snd (logout i sid (Some (jti, expAt)) w))"
proof -
  have pos: "isPosInt (of_int (remainingTtl expAt n))" for n
    by (simp add: isPosInt_def remainingTtl_def)
  have "snd (logout i sid (Some (jti, expAt)) w) = forget [KEYS_session sid]
      (redisPut (KEYS_jwtDeny jti) (RText ''1'') (Some (clock w + remainingTtl expAt (clock w) * 1000)) v)"
    if "v = snd (thenM (updateMany sessions sessions_update
        (\<lambda>s. se_id s = sid \<and> se_userId s = i \<and> se_revokedAt s = None)
        (\<lambda>s. s\<lparr>se_revokedAt := Some (clock w), se_revokedReason := Some (show_reason LOGOUT)\<rparr>))
      (updateMany refreshTokens refreshTokens_update
        (\<lambda>t. rt_sessionId t = sid \<and> rt_revokedAt t = None) (\<lambda>t. t\<lparr>rt_revokedAt := Some (clock w)\<rparr>)) w)" for v
    using assms pos by (simp add: that logout_def run_bind run_gets run_then run_updateMany run_orElse
        redisSetEx_def run_throwIf run_redisCmd run_redisDel redisPut_def run_return)
  then show "redis (snd (logout i sid (Some (jti, expAt)) w)) (KEYS_jwtDeny jti) =
      Some (RText ''1'', Some (clock w + remainingTtl expAt (clock w) * 1000))"
    and "redisUp (snd (logout i sid (Some (jti, expAt)) w))"
    using assms by (simp_all add: forget_def redisPut_def run_then run_updateMany)
qed


definition demoVerify :: "string \<Rightarrow> instant \<Rightarrow> exn + accessPayload" where
  "demoVerify token t = (if token = ''tok'' \<and> t < 900000
     then Inr \<lparr>ap_sub = ''cit'', ap_role = CITIZEN, ap_sid = ''sid'', ap_jti = ''j1'', ap_iat = 0, ap_exp = 900\<rparr>
     else Inl JwtExpired)"


section \<open>Two limits that do not limit\<close>

fun toggleGuesses :: "lib \<Rightarrow> string \<Rightarrow> toggleInput \<Rightarrow> ctx \<Rightarrow> string list \<Rightarrow> world \<Rightarrow> world" where
  "toggleGuesses L i input cx [] w = w"
| "toggleGuesses L i input cx (otp # otps) w =
     toggleGuesses L i input cx otps (snd (toggle2fa L i (input\<lparr>tg_otp := Some otp\<rparr>) cx w))"

text \<open>Wrong codes at the two-factor switch are free: after any number of them the challenge is as it
  was, with no attempt counted, so the six digits can be tried one after another for as long as it
  lives.\<close>

theorem toggle_guesses_are_free:
  assumes "redisUp w" and "find (\<lambda>u. u_id u = i) (liveUsers w) = Some u" and "u_role u = CITIZEN"
    and "passwordOk L (tg_password input) (Some u)" and "tg_challengeId input = Some ch" and "ch \<noteq> []"
    and "redisLive w (KEYS_loginOtp ch) = Some (RChallenge c, e)" and "lc_userId c = i"
    and "\<forall>otp \<in> set otps. otp \<noteq> [] \<and> otpHash L otp \<noteq> lc_otpHash c"
  shows "redisLive (toggleGuesses L i input cx otps w) (KEYS_loginOtp ch) = Some (RChallenge c, e)"
  using assms(1,2,7,9)
proof (induction otps arbitrary: w)
  case (Cons otp otps)
  obtain v where log: "logSecurity L (Some i) None EV_OTP_FAILED cx w = (Inr (), v)"
    and v: "sameRedis w v" "users v = users w"
    by (rule log_frame [of EV_OTP_FAILED]) simp_all
  have "u_id u = i" using find_Some_in [OF Cons.prems(2)] by simp
  then have "snd (toggle2fa L i (input\<lparr>tg_otp := Some otp\<rparr>) cx w) = v"
    using Cons.prems assms(3-6,8) log
    by (simp add: toggle2fa_def findUserOr404_def run_bind run_gets run_orThrow run_then run_throwIf
        bothGiven_def toggleApply_def Let_def run_requireRedis run_redisGet asChallenge_def run_return run_throw)
  moreover have "redisUp v" "redisLive v (KEYS_loginOtp ch) = Some (RChallenge c, e)"
    "find (\<lambda>u. u_id u = i) (liveUsers v) = Some u"
    using v Cons.prems by (simp_all add: sameRedis_live [OF v(1)] live_defs) (simp add: sameRedis_def)
  ultimately show ?case using Cons by simp
qed simp

theorem toggle_guesses_are_free_witness:
  "redisLive (toggleGuesses authLib ''cit''
       \<lparr>tg_enabled = False, tg_password = ''pw'', tg_challengeId = Some ''ch'', tg_otp = None\<rparr> browser
       [''000001'', ''000002'', ''000003'', ''000004'', ''000005'', ''000006''] (atDoor True))
     (KEYS_loginOtp ''ch'') = Some (RChallenge demoChallenge, Some 300000)"
proof (rule toggle_guesses_are_free [where u = "rahim True"])
  show "find (\<lambda>u. u_id u = ''cit'') (liveUsers (atDoor True)) = Some (rahim True)"
    by (simp add: live_defs)
qed (simp_all add: passwordOk_def demoChallenge_def)

end
