(* ===== verification/AuthProbe.thy ===== *)
theory AuthProbe
  imports AuthWorld
begin

text \<open>
  What a stranger can learn from the login form and the forgotten-password form: two runs of the same
  attempts side by side, in two cities that need not have the same accounts.
\<close>

section \<open>Two runs side by side\<close>

text \<open>
  From states in \<open>R\<close> the two operations throw the same or answer related values, and end in states
  in \<open>R\<close>.
\<close>

definition twin :: "(world \<Rightarrow> world \<Rightarrow> bool) \<Rightarrow> ('a \<Rightarrow> 'b \<Rightarrow> bool) \<Rightarrow> 'a act \<Rightarrow> 'b act \<Rightarrow> bool" where
  "twin R S m n \<longleftrightarrow> (\<forall>w v. R w v \<longrightarrow> rel_sum (=) S (fst (m w)) (fst (n v)) \<and> R (snd (m w)) (snd (n v)))"

lemma twin_return: "S x y \<Longrightarrow> twin R S (returnM x) (returnM y)"
  by (simp add: twin_def eval)

lemma twin_throw: "twin R S (throwM e) (throwM e)"
  by (simp add: twin_def eval)

lemma twin_throwIf: "twin R (=) (throwIf b e) (throwIf b e)"
  by (simp add: throwIf_def twin_return twin_throw)

lemma twin_bind:
  assumes "twin R S m n" and "\<And>x y. S x y \<Longrightarrow> twin R T (f x) (g y)"
  shows "twin R T (bindM m f) (bindM n g)"
proof -
  have "rel_sum (=) T (fst (bindM m f w)) (fst (bindM n g v)) \<and> R (snd (bindM m f w)) (snd (bindM n g v))"
    if "R w v" for w v
  proof -
    obtain a w' b v' where ab: "m w = (a, w')" "n v = (b, v')" by (metis prod.collapse)
    with assms(1) that have rel: "rel_sum (=) S a b" and r: "R w' v'" by (fastforce simp: twin_def)+
    from rel show ?thesis
    proof (cases rule: rel_sum.cases)
      case (2 x y)
      then show ?thesis using assms(2) [of x y] r ab by (simp add: eval twin_def)
    qed (use ab r in \<open>simp add: eval\<close>)
  qed
  then show ?thesis by (simp add: twin_def)
qed

lemma twin_bind_eq: "twin R (=) m n \<Longrightarrow> (\<And>x. twin R T (f x) (g x)) \<Longrightarrow> twin R T (bindM m f) (bindM n g)"
  by (erule twin_bind) simp

lemma twin_then: "twin R S m n \<Longrightarrow> twin R T k l \<Longrightarrow> twin R T (thenM m k) (thenM n l)"
  unfolding thenM_def by (rule twin_bind)

lemma twin_then_eq: "twin R (=) m n \<Longrightarrow> twin R T k l \<Longrightarrow> twin R T (thenM m k) (thenM n l)"
  by (rule twin_then)

lemma twin_catch:
  assumes "twin R S m n" and "\<And>e. twin R S (h e) (k e)"
  shows "twin R S (catchM m h) (catchM n k)"
proof -
  have "rel_sum (=) S (fst (catchM m h w)) (fst (catchM n k v)) \<and> R (snd (catchM m h w)) (snd (catchM n k v))"
    if "R w v" for w v
  proof -
    obtain a w' b v' where ab: "m w = (a, w')" "n v = (b, v')" by (metis prod.collapse)
    with assms(1) that have rel: "rel_sum (=) S a b" and r: "R w' v'" by (fastforce simp: twin_def)+
    from rel show ?thesis
    proof (cases rule: rel_sum.cases)
      case (1 e e')
      then show ?thesis using assms(2) [of e] r ab by (simp add: eval twin_def)
    qed (use ab r in \<open>simp add: eval\<close>)
  qed
  then show ?thesis by (simp add: twin_def)
qed

lemma twin_orElse: "twin R S m n \<Longrightarrow> S x y \<Longrightarrow> twin R S (orElse m x) (orElse n y)"
  unfolding orElse_def by (intro twin_catch twin_return)

lemma twin_when: "twin R (=) m n \<Longrightarrow> twin R (=) (whenM b m) (whenM b n)"
  by (simp add: whenM_def twin_return)

lemmas twin_intros = twin_throw twin_throwIf twin_bind_eq twin_then_eq twin_orElse twin_when

section \<open>What the gate of the login looks at\<close>

definition gateKeys :: "string set" where
  "gateKeys = range KEYS_loginIp \<union> range KEYS_loginFail \<union> range KEYS_loginFailIpAlert"

text \<open>Two cities with accounts \<open>us\<close> and \<open>vs\<close> and the same counters of failed logins.\<close>

definition sameGate :: "user list \<Rightarrow> user list \<Rightarrow> world \<Rightarrow> world \<Rightarrow> bool" where
  "sameGate us vs w v \<longleftrightarrow> users w = us \<and> users v = vs \<and> redisUp w = redisUp v \<and> clock w = clock v \<and>
     (\<forall>k \<in> gateKeys. redis w k = redis v k)"

lemma gate_live: "sameGate us vs w v \<Longrightarrow> k \<in> gateKeys \<Longrightarrow> redisLive w k = redisLive v k"
  by (cases "redis v k") (auto simp: sameGate_def redisLive_def split: option.split)

lemma gate_keys: "KEYS_loginIp ip \<in> gateKeys" "KEYS_loginFail e \<in> gateKeys" "KEYS_loginFailIpAlert ip \<in> gateKeys"
  "KEYS_passwordReset h \<notin> gateKeys"
  by (auto simp: gateKeys_def KEYS_defs)

lemma gate_clock: "sameGate us vs w v \<Longrightarrow> clock w = clock v"
  by (simp add: sameGate_def)

lemma gate_put: "sameGate us vs w v \<Longrightarrow> sameGate us vs (redisPut k x e w) (redisPut k x e v)"
  by (simp add: sameGate_def redisPut_def)

lemma twin_cmd:
  assumes "\<And>w v. sameGate us vs w v \<Longrightarrow> fst (f w) = fst (f v) \<and> sameGate us vs (snd (f w)) (snd (f v))"
  shows "twin (sameGate us vs) (=) (redisCmd f) (redisCmd f)"
proof -
  have up: "redisUp w = redisUp v" if "sameGate us vs w v" for w v using that by (simp add: sameGate_def)
  show ?thesis
    using assms by (auto simp: twin_def redisCmd_def sum.rel_eq dest: up split: prod.split) fastforce+
qed

lemma twin_redis:
  assumes "k \<in> gateKeys"
  shows "twin (sameGate us vs) (=) (redisGet k) (redisGet k)" "twin (sameGate us vs) (=) (redisIncr k) (redisIncr k)"
    "twin (sameGate us vs) (=) (redisExpire k s) (redisExpire k s)"
  unfolding redisGet_def redisIncr_def redisExpire_def
  by (rule twin_cmd; simp add: gate_live [OF _ assms] gate_clock gate_put split: option.split)+

text \<open>An operation that never throws and leaves alone what the gate looks at.\<close>

definition offGate :: "world \<Rightarrow> world \<Rightarrow> bool" where
  "offGate w w' \<longleftrightarrow> users w' = users w \<and> redisUp w' = redisUp w \<and> clock w' = clock w \<and>
     (\<forall>k \<in> gateKeys. redis w' k = redis w k)"

interpretation og: step_preorder offGate undoTx
  by unfold_locales (auto simp: offGate_def)

lemma twin_any:
  assumes "related offGate m" "related offGate n" and "\<And>w. \<exists>x. fst (m w) = Inr x" "\<And>w. \<exists>x. fst (n w) = Inr x"
  shows "twin (sameGate us vs) (\<lambda>_ _. True) m n"
  using assms unfolding twin_def sameGate_def related_def offGate_def by (metis rel_sum_simps(4))

lemma twin_number: "k \<in> gateKeys \<Longrightarrow> twin (sameGate us vs) (=) (redisNumber k) (redisNumber k)"
  unfolding redisNumber_def by (intro twin_intros twin_redis twin_return) simp_all

lemma twin_gate: "twin (sameGate us vs) (=) (loginGate e cx) (loginGate e cx)"
  unfolding loginGate_def by (intro twin_intros twin_number gate_keys)

lemma twin_log:
  "twin (sameGate us vs) (=) (logSecurity L i e ty cx) (logSecurity L j e ty cx)"
proof -
  have ids: "twin (sameGate us vs) (\<lambda>_ _. True) (freshId L) (freshId L)" for us vs
    by (rule twin_any) (simp_all add: eval related_def offGate_def)
  have now: "twin (sameGate us vs) (\<lambda>_ _. True) (getsM clock) (getsM clock)" for us vs
    by (rule twin_any) (simp_all add: eval related_def offGate_def)
  have row: "twin (sameGate us vs) (\<lambda>_ _. True) (insertRow securityEvents_update r) (insertRow securityEvents_update q)"
    for us vs r q by (rule twin_any) (simp_all add: eval related_def offGate_def)
  show ?thesis
    unfolding logSecurity_def
    by (rule twin_bind [OF ids], rule twin_bind [OF now], rule twin_then [OF row])
      (intro twin_intros twin_redis gate_keys; simp)
qed

lemma twin_failed: "twin (sameGate us vs) S (loginFailed L e x cx) (loginFailed L e y cx)"
  unfolding loginFailed_def by (intro twin_intros twin_redis twin_log gate_keys) simp_all

lemma og_mail: "related offGate (sendMail L to t b)"
  unfolding related_def
proof
  fix w
  obtain w' where "sendMail L to t b w = (Inr (), w')" "mailed w w'" using run_sendMail by blast
  then show "offGate w (snd (sendMail L to t b w))" by (simp add: offGate_def mailed_frame)
qed

lemma og_reset: "related offGate (redisSetEx (KEYS_passwordReset h) x ttl)"
  using gate_keys(4) [of h]
  by (auto simp: related_def offGate_def redisSetEx_def redisCmd_def redisPut_def eval)

lemma og_forgot: "related offGate (forgotPassword L e)"
  unfolding forgotPassword_def sendPasswordResetEmail_def orElse_def Let_def
  by (intro og.rel_intros og_mail og_reset) (simp add: related_def offGate_def eval)

lemma then_ok: "\<exists>x. fst (m w) = Inr x \<Longrightarrow> (\<And>v. fst (k v) = r) \<Longrightarrow> fst (thenM m k w) = r"
  by (auto simp: eval split: prod.split sum.split)

lemma fst_forgot: "fst (forgotPassword L e w) = Inr ''If that email exists, a reset link has been sent''"
proof (cases "find (\<lambda>u. u_email u = normalEmail e) (liveUsers w)")
  case (Some u)
  have "\<exists>x. fst (sendPasswordResetEmail L to t v) = Inr x" for to t v
    using run_sendMail unfolding sendPasswordResetEmail_def by (metis fst_conv)
  then have sent: "fst (thenM (sendPasswordResetEmail L to t) (returnM g) v) = Inr g" for to t v and g :: string
    by (rule then_ok) (simp add: eval)
  have "\<exists>x. fst (orElse m y v) = Inr x" for m :: "unit act" and y v
    by (simp add: orElse_def eval split: prod.split sum.split)
  then have "fst (thenM (orElse m ()) (thenM (sendPasswordResetEmail L to t) (returnM g)) v) = Inr g"
    for m to t v and g :: string by (rule then_ok) (rule sent)
  with Some show ?thesis
    unfolding forgotPassword_def Let_def by (simp add: run_bind run_gets randomToken_def)
qed (simp add: forgotPassword_def Let_def eval)

section \<open>The property\<close>

datatype probe =
    TryLogin string string "string option" ctx
  | AskReset string
  | Rest nat

fun probeStep :: "lib \<Rightarrow> probe \<Rightarrow> (loginAnswer + string) act" where
  "probeStep L (TryLogin e pw d cx) = bindM (login L e pw d cx) (\<lambda>a. returnM (Inl a))"
| "probeStep L (AskReset e) = bindM (forgotPassword L e) (\<lambda>a. returnM (Inr a))"
| "probeStep L (Rest ms) = (\<lambda>w. (Inr (Inr []), w\<lparr>clock := clock w + int ms\<rparr>))"

fun answers :: "lib \<Rightarrow> probe list \<Rightarrow> world \<Rightarrow> (exn + loginAnswer + string) list" where
  "answers L [] w = []"
| "answers L (p # ps) w = fst (probeStep L p w) # answers L ps (snd (probeStep L p w))"

text \<open>No attempt has the right password of a live account.\<close>

fun wrongGuess :: "lib \<Rightarrow> user list \<Rightarrow> probe \<Rightarrow> bool" where
  "wrongGuess L us (TryLogin e pw d cx) =
     list_all (\<lambda>u. u_deletedAt u = None \<and> u_email u = normalEmail e \<longrightarrow> \<not> passwordOk L pw (Some u)) us"
| "wrongGuess L us _ = True"

lemma twin_gets: "(\<And>w v. R w v \<Longrightarrow> S (f w) (g v)) \<Longrightarrow> twin R S (getsM f) (getsM g)"
  by (simp add: twin_def eval)

lemma twin_refused:
  assumes "\<forall>u. x = Some u \<or> y = Some u \<longrightarrow> \<not> passwordOk L pw (Some u)"
  shows "twin (sameGate us vs) S
    (case x of None \<Rightarrow> loginFailed L e None cx
     | Some u \<Rightarrow> if \<not> passwordOk L pw (Some u) then loginFailed L e (Some u) cx else k u)
    (case y of None \<Rightarrow> loginFailed L e None cx
     | Some u \<Rightarrow> if \<not> passwordOk L pw (Some u) then loginFailed L e (Some u) cx else k u)"
  using assms by (cases x; cases y) (simp_all add: twin_failed)

lemma twin_login:
  assumes "wrongGuess L us (TryLogin e pw d cx)" and "wrongGuess L vs (TryLogin e pw d cx)"
  shows "twin (sameGate us vs) (=) (login L e pw d cx) (login L e pw d cx)"
proof -
  let ?e = "normalEmail e" and ?S = "\<lambda>x y :: user option. (\<forall>u. x = Some u \<or> y = Some u \<longrightarrow> \<not> passwordOk L pw (Some u))"
  have found: "\<not> passwordOk L pw (Some u)"
    if "find (\<lambda>u. u_email u = ?e) (liveUsers w) = Some u" "wrongGuess L (users w) (TryLogin e pw d cx)" for w u
    using that find_Some_in [OF that(1)] by (auto simp: live_defs list_all_iff)
  have look: "twin (sameGate us vs) ?S (getsM (\<lambda>w. find (\<lambda>u. u_email u = ?e) (liveUsers w)))
      (getsM (\<lambda>w. find (\<lambda>u. u_email u = ?e) (liveUsers w)))"
    using assms by (intro twin_gets) (auto simp: sameGate_def dest!: found)
  show ?thesis
    unfolding login_def Let_def by (rule twin_then_eq [OF twin_gate], rule twin_bind [OF look], rule twin_refused)
qed

lemma twin_probe:
  assumes "wrongGuess L us p" and "wrongGuess L vs p"
  shows "twin (sameGate us vs) (=) (probeStep L p) (probeStep L p)"
proof (cases p)
  case (TryLogin e pw d cx)
  with assms show ?thesis
    by (auto intro!: twin_bind_eq [OF twin_login] twin_return simp del: wrongGuess.simps)
next
  case (AskReset e)
  have "twin (sameGate us vs) (\<lambda>_ _. True) (forgotPassword L e) (forgotPassword L e)"
    by (rule twin_any) (simp_all add: og_forgot fst_forgot)
  then have "twin (sameGate us vs) (=) (forgotPassword L e) (forgotPassword L e)"
    by (simp add: twin_def fst_forgot)
  with AskReset show ?thesis by (auto intro!: twin_bind_eq twin_return)
next
  case (Rest ms)
  then show ?thesis by (simp add: twin_def sameGate_def)
qed

lemma answers_same:
  assumes "sameGate us vs w v" and "\<forall>p \<in> set ps. wrongGuess L us p \<and> wrongGuess L vs p"
  shows "answers L ps w = answers L ps v"
  using assms
proof (induction ps arbitrary: w v)
  case (Cons p ps)
  then have "twin (sameGate us vs) (=) (probeStep L p) (probeStep L p)" by (intro twin_probe) simp_all
  with Cons show ?case by (simp add: twin_def sum.rel_eq)
qed simp



end
