(* ===== verification/Cache.thy ===== *)
theory Cache
  imports AuthFacts
begin

text \<open>
  The read-through cache of \<^verbatim>\<open>lib/cache.ts\<close> as an interface: what a reader of a cached value may
  rely on, given that the writers of the tables behind it drop the key.
\<close>

text \<open>The cached value, if there is one, is what the tables say.\<close>

definition coherent :: "string \<Rightarrow> (json \<Rightarrow> 'a) \<Rightarrow> (world \<Rightarrow> 'a) \<Rightarrow> world \<Rightarrow> bool" where
  "coherent key dec truth w \<longleftrightarrow> (\<forall>j e. redisLive w key = Some (RCached j, e) \<longrightarrow> dec j = truth w)"

locale read_through =
  fixes key :: string
    and ttl :: real
    and enc :: "'a \<Rightarrow> json"
    and dec :: "json \<Rightarrow> 'a"
    and truth :: "world \<Rightarrow> 'a"
  assumes dec_enc: "dec (enc x) = x"
    and tables_only: "truth (w\<lparr>redis := r\<rparr>) = truth w"
begin

text \<open>A coherent cache answers what the tables say, hit or miss, Redis up or down.\<close>

lemma answers:
  assumes "coherent key dec truth w"
  shows "fst (cachedVal enc dec key ttl (getsM truth) w) = Inr (truth w)"
  using assms
  by (auto simp: cachedVal_def coherent_def redisGet_def redisSetEx_def eval redisCmd_def
      split: option.split rval.split)

text \<open>A read touches its own key at most.\<close>

lemma read_frame:
  obtains r where "snd (cachedVal enc dec key ttl (getsM truth) w) = w\<lparr>redis := r\<rparr>"
    and "\<And>k. k \<noteq> key \<Longrightarrow> r k = redis w k"
proof -
  have none: "\<exists>r. w = w\<lparr>redis := r\<rparr> \<and> (\<forall>k. k \<noteq> key \<longrightarrow> r k = redis w k)"
    by (rule exI [of _ "redis w"]) simp
  have "\<exists>r. snd (cachedVal enc dec key ttl (getsM truth) w) = w\<lparr>redis := r\<rparr> \<and> (\<forall>k. k \<noteq> key \<longrightarrow> r k = redis w k)"
    by (simp add: cachedVal_def redisGet_def redisSetEx_def eval redisPut_def split: option.split rval.split)
      (use none in auto)
  then show thesis using that by blast
qed

text \<open>What a read writes back is coherent.\<close>

lemma read_keeps:
  assumes "coherent key dec truth w"
  shows "coherent key dec truth (snd (cachedVal enc dec key ttl (getsM truth) w))"
  using assms
  by (auto simp: cachedVal_def coherent_def redisGet_def redisSetEx_def eval redisPut_def redisLive_def
      dec_enc tables_only split: option.splits rval.splits if_splits)

text \<open>A dropped key is coherent, whatever was written.\<close>

lemma dropped: "redisLive w key = None \<Longrightarrow> coherent key dec truth w"
  by (simp add: coherent_def)

text \<open>A step that leaves the key and the tables alone keeps coherence, and so does waiting.\<close>

lemma untouched:
  assumes "coherent key dec truth w" and "truth w' = truth w" and "redis w' key = redis w key"
    and "clock w \<le> clock w'"
  shows "coherent key dec truth w'"
proof -
  have "redisLive w' key = None \<or> redisLive w' key = redisLive w key"
    using assms(3,4) by (auto simp: redisLive_def split: option.split)
  then show ?thesis using assms(1,2) by (auto simp: coherent_def)
qed

end

end
