(* ===== verification/Rbac.thy ===== *)
theory Rbac
  imports AuthCore "HOL-Library.List_Lexorder" "HOL-Library.Char_ord"
begin

text \<open>
  The access roles: what a user may do (\<^verbatim>\<open>lib/permissions.ts\<close>), the guard that asks it
  (\<^verbatim>\<open>requirePermission\<close> of \<^verbatim>\<open>middlewares/authorize.ts\<close>) and the screen that changes it
  (\<^verbatim>\<open>modules/rbac/rbac.service.ts\<close>).
\<close>

section \<open>What a user may do\<close>

definition permKey :: "string \<Rightarrow> string" where
  "permKey userId = ''perm:'' @ userId"

definition PERMISSION_TTL :: real where
  "PERMISSION_TTL = 60"

text \<open>The permissions joined to a role, in the order of the join rows.\<close>

definition rolePermissions :: "world \<Rightarrow> string \<Rightarrow> permission list" where
  "rolePermissions w roleId =
     concat (map (\<lambda>rp. case find (\<lambda>p. pm_id p = arp_permissionId rp) (permissions w) of
                         None \<Rightarrow> [] | Some p \<Rightarrow> [p])
       (filter (\<lambda>rp. arp_roleId rp = roleId) (accessRolePermissions w)))"

definition roleCodes :: "world \<Rightarrow> string \<Rightarrow> string list" where
  "roleCodes w roleId = map pm_code (rolePermissions w roleId)"

definition rolesOf :: "string \<Rightarrow> world \<Rightarrow> string list" where
  "rolesOf userId w = map uar_roleId (filter (\<lambda>a. uar_userId a = userId) (userAccessRoles w))"

text \<open>The role that mirrors an account type, for users without an assignment.\<close>

definition fallbackRole :: "role \<Rightarrow> world \<Rightarrow> accessRole option" where
  "fallbackRole rl w = find (\<lambda>r. ar_mirrors r = Some rl) (accessRoles w)"

definition storedCodes :: "string \<Rightarrow> role \<Rightarrow> world \<Rightarrow> string list" where
  "storedCodes userId rl w =
     (if rolesOf userId w \<noteq> [] then concat (map (roleCodes w) (rolesOf userId w))
      else (case fallbackRole rl w of None \<Rightarrow> [] | Some r \<Rightarrow> roleCodes w (ar_id r)))"

definition encCodes :: "string list \<Rightarrow> json" where
  "encCodes codes = JArr (map JStr codes)"

definition decCodes :: "json \<Rightarrow> string list" where
  "decCodes j =
     (case j of JArr js \<Rightarrow> concat (map (\<lambda>x. case x of JStr s \<Rightarrow> [s] | _ \<Rightarrow> []) js) | _ \<Rightarrow> [])"

text \<open>The code answers a \<open>Set\<close>; the model answers its elements in insertion order.\<close>

definition getUserPermissions :: "string \<Rightarrow> role \<Rightarrow> string list act" where
  "getUserPermissions userId rl =
     bindM (cachedVal encCodes decCodes (permKey userId) PERMISSION_TTL (getsM (storedCodes userId rl)))
       (\<lambda>codes. returnM (remdups codes))"

definition invalidateUserPermissions :: "string \<Rightarrow> unit act" where
  "invalidateUserPermissions userId = invalidate [permKey userId]"

text \<open>\<open>KEYS perm:*\<close> and one \<open>DEL\<close>; a failed sweep is not an error.\<close>

definition invalidateAllPermissions :: "unit act" where
  "invalidateAllPermissions =
     orElse (redisCmd (\<lambda>w. ((), w\<lparr>redis := (\<lambda>k. if starts_with ''perm:'' k then None else redis w k)\<rparr>))) ()"

definition requirePermission :: "string list \<Rightarrow> user option \<Rightarrow> unit act" where
  "requirePermission codes u =
     bindM (requireUser u) (\<lambda>r.
     if u_isSuperAdmin r then returnM ()
     else
       bindM (getUserPermissions (u_id r) (u_role r)) (\<lambda>granted.
       throwIf (\<not> list_ex (\<lambda>c. c \<in> set granted) codes)
         (apiError 403 ''Forbidden: missing permission''
           [det ''FORBIDDEN_PERMISSION'' (''Requires one of: '' @ join_with '', '' codes)])))"

section \<open>Permissions\<close>

record createPermissionInput =
  cp_code :: string
  cp_name :: string
  cp_description :: "string option"
  cp_category :: string

record updatePermissionInput =
  xp_name :: "string option"
  xp_description :: "string option"
  xp_category :: "string option"

record permissionView =
  pvw_id :: string
  pvw_code :: string
  pvw_name :: string
  pvw_description :: "string option"
  pvw_category :: string
  pvw_isSystem :: bool
  pvw_roles :: nat

definition permissionViewOf :: "world \<Rightarrow> permission \<Rightarrow> permissionView" where
  "permissionViewOf w p =
     \<lparr>pvw_id = pm_id p, pvw_code = pm_code p, pvw_name = pm_name p,
      pvw_description = pm_description p, pvw_category = pm_category p,
      pvw_isSystem = pm_isSystem p,
      pvw_roles = countWhere (\<lambda>rp. arp_permissionId rp = pm_id p) (accessRolePermissions w)\<rparr>"

definition permissionMatches :: "lib \<Rightarrow> string option \<Rightarrow> string option \<Rightarrow> permission \<Rightarrow> bool" where
  "permissionMatches L category search p \<longleftrightarrow>
     (case category of None \<Rightarrow> True | Some c \<Rightarrow> pm_category p = c) \<and>
     (case search of
        None \<Rightarrow> True
      | Some s \<Rightarrow> s = [] \<or> ilike L s (pm_code p) \<or> ilike L s (pm_name p))"

definition listPermissions :: "lib \<Rightarrow> string option \<Rightarrow> string option \<Rightarrow> permissionView list act" where
  "listPermissions L category search =
     getsM (\<lambda>w. map (permissionViewOf w)
       (sort_key pm_category (sort_key pm_name
          (filter (permissionMatches L category search) (permissions w)))))"

text \<open>A row as \<open>JSON.stringify\<close> writes it into the audit log.\<close>

definition permissionJson :: "permission \<Rightarrow> json" where
  "permissionJson p = JObj
     [(''id'', JStr (pm_id p)), (''code'', JStr (pm_code p)), (''name'', JStr (pm_name p)),
      (''description'', jopt JStr (pm_description p)), (''category'', JStr (pm_category p)),
      (''isSystem'', JBool (pm_isSystem p)), (''createdAt'', JStr (iso_string (pm_createdAt p))),
      (''updatedAt'', JStr (iso_string (pm_updatedAt p)))]"

definition newPermission :: "string \<Rightarrow> instant \<Rightarrow> createPermissionInput \<Rightarrow> permission" where
  "newPermission i now input =
     \<lparr>pm_id = i, pm_code = cp_code input, pm_name = cp_name input,
      pm_description = cp_description input, pm_category = cp_category input,
      pm_isSystem = False, pm_createdAt = now, pm_updatedAt = now\<rparr>"

definition insertPermission :: "lib \<Rightarrow> createPermissionInput \<Rightarrow> permission act" where
  "insertPermission L input =
     bindM (freshId L) (\<lambda>i. bindM (getsM clock) (\<lambda>now.
     thenM (guardM (uniqueBy permissions (\<lambda>p. pm_code p = cp_code input) [''code'']))
     (insertRow permissions_update (newPermission i now input))))"

definition createPermission :: "lib \<Rightarrow> createPermissionInput \<Rightarrow> string \<Rightarrow> ctx \<Rightarrow> permission act" where
  "createPermission L input actorId cx =
     bindM (getsM (\<lambda>w. find (\<lambda>p. pm_code p = cp_code input) (permissions w))) (\<lambda>clash.
     thenM (throwIf (clash \<noteq> None)
       (apiError 409 ''That permission code already exists''
         [det ''PERMISSION_CODE_TAKEN'' (cp_code input @ '' is already in use'')]))
     (transaction
       (bindM (insertPermission L input) (\<lambda>created.
        thenM (audit L (Some actorId) ''PERMISSION_CREATED'' ''Permission'' (pm_id created) None
          (Some (permissionJson created)) (Some cx))
        (returnM created)))))"

definition noPermission :: exn where
  "noPermission = apiError 404 ''Permission not found'' []"

text \<open>A property that is absent leaves its column as it is.\<close>

definition patchPermission :: "updatePermissionInput \<Rightarrow> instant \<Rightarrow> permission \<Rightarrow> permission" where
  "patchPermission input now p =
     p\<lparr>pm_name := (case xp_name input of None \<Rightarrow> pm_name p | Some v \<Rightarrow> v),
       pm_description := (case xp_description input of None \<Rightarrow> pm_description p | Some v \<Rightarrow> Some v),
       pm_category := (case xp_category input of None \<Rightarrow> pm_category p | Some v \<Rightarrow> v),
       pm_updatedAt := now\<rparr>"

definition updatePermission ::
  "lib \<Rightarrow> string \<Rightarrow> updatePermissionInput \<Rightarrow> string \<Rightarrow> ctx \<Rightarrow> permission act" where
  "updatePermission L i input actorId cx =
     bindM (getsM (\<lambda>w. find (\<lambda>p. pm_id p = i) (permissions w))) (\<lambda>before'.
     bindM (orThrow noPermission before') (\<lambda>before.
     transaction
       (bindM (getsM clock) (\<lambda>now.
        bindM (updateRow permissions permissions_update (\<lambda>p. pm_id p = i) (patchPermission input now)) (\<lambda>updated.
        thenM (audit L (Some actorId) ''PERMISSION_UPDATED'' ''Permission'' i
          (Some (permissionJson before)) (Some (permissionJson updated)) (Some cx))
        (returnM updated))))))"

text \<open>\<open>permission.delete\<close>: the foreign key of the join rows cascades.\<close>

definition removePermission :: "string \<Rightarrow> unit act" where
  "removePermission i =
     bindM (getsM (\<lambda>w. find (\<lambda>p. pm_id p = i) (permissions w))) (\<lambda>found.
     thenM (throwIf (found = None) (PrismaKnown ''P2025'' []))
     (thenM (deleteMany accessRolePermissions accessRolePermissions_update (\<lambda>rp. arp_permissionId rp = i))
     (thenM (deleteMany permissions permissions_update (\<lambda>p. pm_id p = i)) (returnM ()))))"

definition deletePermission :: "lib \<Rightarrow> string \<Rightarrow> string \<Rightarrow> ctx \<Rightarrow> string act" where
  "deletePermission L i actorId cx =
     bindM (getsM (\<lambda>w. find (\<lambda>p. pm_id p = i) (permissions w))) (\<lambda>before'.
     bindM (orThrow noPermission before') (\<lambda>before.
     thenM (throwIf (pm_isSystem before)
       (apiError 409 ''Built-in permissions cannot be deleted''
         [det ''PERMISSION_IS_SYSTEM'' ''This permission is referenced by a route guard. Take it off the roles instead.'']))
     (thenM (transaction
        (thenM (removePermission i)
         (audit L (Some actorId) ''PERMISSION_DELETED'' ''Permission'' i
            (Some (permissionJson before)) None (Some cx))))
     (thenM invalidateAllPermissions
     (returnM ''Permission deleted'')))))"

section \<open>Roles\<close>

record createRoleInput =
  rc_name :: string
  rc_description :: "string option"
  rc_permissionIds :: "string list"

record updateRoleInput =
  ru_name :: "string option"
  ru_description :: "string option"
  ru_permissionIds :: "string list option"

record roleView =
  rw_role :: accessRole
  rw_permissions :: "(string \<times> string \<times> string) list"
  rw_users :: nat

text \<open>\<open>ROLE_SELECT\<close> and \<open>shapeRole\<close>: the columns of the role, its permissions, its holders.\<close>

definition shapeRole :: "world \<Rightarrow> accessRole \<Rightarrow> roleView" where
  "shapeRole w r =
     \<lparr>rw_role = r,
      rw_permissions = map (\<lambda>p. (pm_id p, pm_code p, pm_name p)) (rolePermissions w (ar_id r)),
      rw_users = countWhere (\<lambda>a. uar_roleId a = ar_id r) (userAccessRoles w)\<rparr>"

definition listRoles :: "roleView list act" where
  "listRoles =
     getsM (\<lambda>w. map (shapeRole w)
       (sort_key (\<lambda>r. if ar_isSystem r then 0 else (1::nat)) (sort_key ar_name (accessRoles w))))"

definition assertPermissionsExist :: "string list \<Rightarrow> unit act" where
  "assertPermissionsExist ids =
     (if ids = [] then returnM ()
      else
        bindM (getsM (\<lambda>w. countWhere (\<lambda>p. pm_id p \<in> set ids) (permissions w))) (\<lambda>found.
        throwIf (found \<noteq> length (remdups ids))
          (apiError 400 ''Unknown permission''
            [det ''PERMISSION_NOT_FOUND'' ''One or more permissions do not exist''])))"

text \<open>
  The join rows of a role. The primary key refuses a second row for the same pair unless
  duplicates are skipped, the foreign key refuses an unknown permission.
\<close>

definition linkPermissions :: "bool \<Rightarrow> string \<Rightarrow> string list \<Rightarrow> unit act" where
  "linkPermissions skipDuplicates roleId ids =
     thenM (guardM (\<lambda>w.
        if \<exists>i \<in> set ids. \<forall>p \<in> set (permissions w). pm_id p \<noteq> i then Some (PrismaKnown ''P2003'' [])
        else if \<not> skipDuplicates \<and> \<not> distinct ids
        then Some (PrismaKnown ''P2002'' [''roleId'', ''permissionId'']) else None))
     (thenM (insertMany accessRolePermissions_update
        (map (\<lambda>i. \<lparr>arp_roleId = roleId, arp_permissionId = i\<rparr>) (remdups ids))) (returnM ()))"

definition newRole :: "string \<Rightarrow> instant \<Rightarrow> createRoleInput \<Rightarrow> accessRole" where
  "newRole i now input =
     \<lparr>ar_id = i, ar_name = rc_name input, ar_description = rc_description input,
      ar_isSystem = False, ar_mirrors = None, ar_createdAt = now, ar_updatedAt = now\<rparr>"

definition insertRole :: "lib \<Rightarrow> createRoleInput \<Rightarrow> accessRole act" where
  "insertRole L input =
     bindM (freshId L) (\<lambda>i. bindM (getsM clock) (\<lambda>now.
     thenM (guardM (uniqueBy accessRoles (\<lambda>r. ar_name r = rc_name input) [''name'']))
     (bindM (insertRow accessRoles_update (newRole i now input)) (\<lambda>created.
      thenM (linkPermissions False i (rc_permissionIds input)) (returnM created)))))"

definition createRole :: "lib \<Rightarrow> createRoleInput \<Rightarrow> string \<Rightarrow> ctx \<Rightarrow> roleView act" where
  "createRole L input actorId cx =
     bindM (getsM (\<lambda>w. find (\<lambda>r. ar_name r = rc_name input) (accessRoles w))) (\<lambda>clash.
     thenM (throwIf (clash \<noteq> None)
       (apiError 409 ''That role name already exists''
         [det ''ROLE_NAME_TAKEN'' (rc_name input @ '' is already in use'')]))
     (thenM (assertPermissionsExist (rc_permissionIds input))
     (transaction
       (bindM (insertRole L input) (\<lambda>created.
        bindM (getsM (\<lambda>w. shapeRole w created)) (\<lambda>view.
        thenM (audit L (Some actorId) ''ACCESS_ROLE_CREATED'' ''AccessRole'' (ar_id created) None
          (Some (JObj [(''name'', JStr (ar_name created)),
                       (''permissions'', JNum (real (length (rc_permissionIds input))))])) (Some cx))
        (returnM view)))))))"

definition noRole :: exn where
  "noRole = apiError 404 ''Role not found'' []"

definition findRole :: "string \<Rightarrow> world \<Rightarrow> accessRole option" where
  "findRole i w = find (\<lambda>r. ar_id r = i) (accessRoles w)"

definition patchRole :: "updateRoleInput \<Rightarrow> instant \<Rightarrow> accessRole \<Rightarrow> accessRole" where
  "patchRole input now r =
     r\<lparr>ar_name := (case ru_name input of None \<Rightarrow> ar_name r | Some v \<Rightarrow> v),
       ar_description := (case ru_description input of None \<Rightarrow> ar_description r | Some v \<Rightarrow> Some v),
       ar_updatedAt := now\<rparr>"

definition roleJson :: "roleView \<Rightarrow> json" where
  "roleJson v = JObj [(''name'', JStr (ar_name (rw_role v))),
     (''permissions'', JArr (map (\<lambda>(_, code, _). JStr code) (rw_permissions v)))]"

text \<open>The payload is the whole set of permissions: the old rows go and the new ones land.\<close>

definition replacePermissions :: "string \<Rightarrow> string list option \<Rightarrow> unit act" where
  "replacePermissions i ids' =
     (case ids' of
        None \<Rightarrow> returnM ()
      | Some ids \<Rightarrow>
          thenM (deleteMany accessRolePermissions accessRolePermissions_update (\<lambda>rp. arp_roleId rp = i))
            (linkPermissions True i ids))"

definition updateRoleRow :: "string \<Rightarrow> updateRoleInput \<Rightarrow> accessRole act" where
  "updateRoleRow i input =
     bindM (getsM clock) (\<lambda>now.
     thenM (guardM (\<lambda>w. case ru_name input of
         None \<Rightarrow> None
       | Some n \<Rightarrow> uniqueBy accessRoles (\<lambda>r. ar_id r \<noteq> i \<and> ar_name r = n) [''name''] w))
     (updateRow accessRoles accessRoles_update (\<lambda>r. ar_id r = i) (patchRole input now)))"

definition updateAccessRole ::
  "lib \<Rightarrow> string \<Rightarrow> updateRoleInput \<Rightarrow> string \<Rightarrow> ctx \<Rightarrow> roleView act" where
  "updateAccessRole L i input actorId cx =
     bindM (getsM (\<lambda>w. map_option (shapeRole w) (findRole i w))) (\<lambda>before'.
     bindM (orThrow noRole before') (\<lambda>before.
     thenM (throwIf (ar_isSystem (rw_role before) \<and>
         (case ru_name input of None \<Rightarrow> False | Some n \<Rightarrow> n \<noteq> [] \<and> n \<noteq> ar_name (rw_role before)))
       (apiError 409 ''Built-in roles cannot be renamed''
         [det ''ROLE_IS_SYSTEM'' ''This role is the fallback for an account type.'']))
     (thenM (case ru_permissionIds input of None \<Rightarrow> returnM () | Some ids \<Rightarrow> assertPermissionsExist ids)
     (bindM (transaction
        (thenM (replacePermissions i (ru_permissionIds input))
         (bindM (updateRoleRow i input) (\<lambda>row.
          bindM (getsM (\<lambda>w. shapeRole w row)) (\<lambda>updated.
          thenM (audit L (Some actorId) ''ACCESS_ROLE_UPDATED'' ''AccessRole'' i
            (Some (roleJson before)) (Some (roleJson updated)) (Some cx))
          (returnM updated)))))) (\<lambda>updated.
      thenM invalidateAllPermissions (returnM updated))))))"

text \<open>\<open>accessRole.delete\<close>: both kinds of join rows cascade.\<close>

definition removeRole :: "string \<Rightarrow> unit act" where
  "removeRole i =
     bindM (getsM (findRole i)) (\<lambda>found.
     thenM (throwIf (found = None) (PrismaKnown ''P2025'' []))
     (thenM (deleteMany accessRolePermissions accessRolePermissions_update (\<lambda>rp. arp_roleId rp = i))
     (thenM (deleteMany userAccessRoles userAccessRoles_update (\<lambda>a. uar_roleId a = i))
     (thenM (deleteMany accessRoles accessRoles_update (\<lambda>r. ar_id r = i)) (returnM ())))))"

definition deleteRole :: "lib \<Rightarrow> string \<Rightarrow> string \<Rightarrow> ctx \<Rightarrow> string act" where
  "deleteRole L i actorId cx =
     bindM (getsM (\<lambda>w. map_option (shapeRole w) (findRole i w))) (\<lambda>before'.
     bindM (orThrow noRole before') (\<lambda>before.
     thenM (throwIf (ar_isSystem (rw_role before))
       (apiError 409 ''Built-in roles cannot be deleted''
         [det ''ROLE_IS_SYSTEM'' ''Staff with no explicit role fall back to this one.'']))
     (thenM (throwIf (0 < rw_users before)
       (apiError 409 ''That role is still assigned''
         [det ''ROLE_IN_USE'' (show_nat (rw_users before) @ '' user(s) hold this role. Take it off them first.'')]))
     (thenM (transaction
        (thenM (removeRole i)
         (audit L (Some actorId) ''ACCESS_ROLE_DELETED'' ''AccessRole'' i
            (Some (JObj [(''id'', JStr i), (''name'', JStr (ar_name (rw_role before))),
                         (''isSystem'', JBool (ar_isSystem (rw_role before))),
                         (''_count'', JObj [(''users'', JNum (real (rw_users before)))])]))
            None (Some cx))))
     (thenM invalidateAllPermissions
     (returnM ''Role deleted''))))))"

section \<open>Assignment\<close>

record userRoles =
  us_id :: string
  us_name :: string
  us_email :: string
  us_role :: role
  us_isSuperAdmin :: bool
  us_accessRoles :: "(string \<times> instant) list"
  us_roleIds :: "string list"
  us_usingFallback :: bool

definition userRolesOf :: "world \<Rightarrow> user \<Rightarrow> userRoles" where
  "userRolesOf w u =
     \<lparr>us_id = u_id u, us_name = u_name u, us_email = u_email u, us_role = u_role u,
      us_isSuperAdmin = u_isSuperAdmin u,
      us_accessRoles = map (\<lambda>a. (uar_roleId a, uar_assignedAt a))
        (filter (\<lambda>a. uar_userId a = u_id u) (userAccessRoles w)),
      us_roleIds = rolesOf (u_id u) w,
      us_usingFallback = (rolesOf (u_id u) w = [])\<rparr>"

definition noUser :: exn where
  "noUser = apiError 404 ''User not found'' []"

definition getUserRoles :: "string \<Rightarrow> userRoles act" where
  "getUserRoles userId =
     bindM (getsM (\<lambda>w. map_option (userRolesOf w) (find (\<lambda>u. u_id u = userId) (liveUsers w))))
       (orThrow noUser)"

definition assertRolesExist :: "string list \<Rightarrow> unit act" where
  "assertRolesExist roleIds =
     whenM (roleIds \<noteq> [])
       (bindM (getsM (\<lambda>w. countWhere (\<lambda>r. ar_id r \<in> set roleIds) (accessRoles w))) (\<lambda>found.
        throwIf (found \<noteq> length (remdups roleIds))
          (apiError 400 ''Unknown role'' [det ''ROLE_NOT_FOUND'' ''One or more roles do not exist''])))"

definition linkRoles :: "string \<Rightarrow> string list \<Rightarrow> unit act" where
  "linkRoles userId roleIds =
     whenM (roleIds \<noteq> [])
       (thenM (guardM (\<lambda>w.
          if \<exists>i \<in> set roleIds. \<forall>r \<in> set (accessRoles w). ar_id r \<noteq> i then Some (PrismaKnown ''P2003'' [])
          else None))
        (bindM (getsM clock) (\<lambda>now.
         thenM (insertMany userAccessRoles_update
           (map (\<lambda>i. \<lparr>uar_userId = userId, uar_roleId = i, uar_assignedAt = now\<rparr>) (remdups roleIds)))
         (returnM ()))))"

definition assignUserRoles ::
  "lib \<Rightarrow> string \<Rightarrow> string list \<Rightarrow> string \<Rightarrow> ctx \<Rightarrow> userRoles act" where
  "assignUserRoles L userId roleIds actorId cx =
     bindM (getsM (\<lambda>w. find (\<lambda>u. u_id u = userId) (liveUsers w))) (\<lambda>found.
     thenM (throwIf (found = None) noUser)
     (bindM (getsM (rolesOf userId)) (\<lambda>held.
      thenM (assertRolesExist roleIds)
      (thenM (transaction
        (thenM (deleteMany userAccessRoles userAccessRoles_update (\<lambda>a. uar_userId a = userId))
        (thenM (linkRoles userId roleIds)
         (audit L (Some actorId) ''USER_ACCESS_ROLES_ASSIGNED'' ''User'' userId
           (Some (JObj [(''roleIds'', JArr (map JStr held))]))
           (Some (JObj [(''roleIds'', JArr (map JStr roleIds))])) (Some cx)))))
      (thenM (invalidateUserPermissions userId)
      (getUserRoles userId))))))"

record permissionAnswer =
  pa_codes :: "string list"
  pa_isSuperAdmin :: bool

definition myPermissions :: "string \<Rightarrow> role \<Rightarrow> bool \<Rightarrow> permissionAnswer act" where
  "myPermissions userId rl isSuperAdmin =
     (if isSuperAdmin
      then getsM (\<lambda>w. \<lparr>pa_codes = map pm_code (permissions w), pa_isSuperAdmin = True\<rparr>)
      else bindM (getUserPermissions userId rl) (\<lambda>codes.
        returnM \<lparr>pa_codes = codes, pa_isSuperAdmin = False\<rparr>))"

end
