(* ===== verification/Permissions.thy ===== *)
theory Permissions
  imports Rbac
begin

text \<open>
  The permission catalogue of \<^verbatim>\<open>config/permissions.ts\<close>, section by section, the three system
  roles, and what \<^verbatim>\<open>prisma/seed.ts\<close> writes of them.
\<close>

section \<open>The catalogue\<close>

record permissionDefinition =
  pd_code :: string
  pd_name :: string
  pd_description :: string
  pd_category :: string
  pd_defaultRoles :: "role list"
  pd_superAdminOnly :: bool

definition permDef ::
  "string \<Rightarrow> string \<Rightarrow> string \<Rightarrow> string \<Rightarrow> role list \<Rightarrow> bool \<Rightarrow> permissionDefinition" where
  "permDef code name description category roles superOnly =
     \<lparr>pd_code = code, pd_name = name, pd_description = description, pd_category = category,
      pd_defaultRoles = roles, pd_superAdminOnly = superOnly\<rparr>"

definition complaintPermissions :: "permissionDefinition list" where
  "complaintPermissions = [
     permDef ''complaints__view_all'' ''View all complaints''
       (''See the full complaint queue, not just one citizen'' @ [CHR 0x27] @ ''s own reports.'')
       ''Complaints'' [ADMIN, OFFICER] False,
     permDef ''complaints__assign'' ''Assign complaints''
       ''Route a complaint to a department and an officer.''
       ''Complaints'' [ADMIN] False,
     permDef ''complaints__update_status'' ''Move a complaint through its states''
       ''Start work, resolve, reject or close a complaint.''
       ''Complaints'' [ADMIN, OFFICER] False,
     permDef ''complaints__comment_internal'' ''Post internal notes''
       ''Comment on a complaint in a note the citizen never sees.''
       ''Complaints'' [ADMIN, OFFICER] False,
     permDef ''complaints__delete'' ''Delete complaints''
       ''Soft-delete a complaint. Rarely correct; prefer rejecting it.''
       ''Complaints'' [ADMIN] False]"

definition servicePermissions :: "permissionDefinition list" where
  "servicePermissions = [
     permDef ''service_requests__view_all'' ''View all service requests''
       (''See every citizen'' @ [CHR 0x27] @ ''s applications, not just your own.'')
       ''Service requests'' [ADMIN, OFFICER] False,
     permDef ''service_requests__process'' ''Process service requests''
       ''Approve, reject or complete an application.''
       ''Service requests'' [ADMIN, OFFICER] False]"

definition paymentPermissions :: "permissionDefinition list" where
  "paymentPermissions = [
     permDef ''payments__view_all'' ''View all payments''
       ''See every transaction and its gateway history.''
       ''Payments'' [ADMIN] False,
     permDef ''payments__refund_request'' ''Request a refund''
       ''Raise a refund against a settled payment.''
       ''Payments'' [ADMIN] False,
     permDef ''payments__refund_approve'' ''Approve a refund''
       ''Release money back to a citizen. Separate from requesting one on purpose.''
       ''Payments'' [] True]"

definition peoplePermissions :: "permissionDefinition list" where
  "peoplePermissions = [
     permDef ''users__view'' ''View users''
       ''Browse citizen and staff accounts.''
       ''People'' [ADMIN] False,
     permDef ''users__create_officer'' ''Create officers''
       ''Add an officer account and attach it to a department.''
       ''People'' [ADMIN] False,
     permDef ''users__change_role'' ''Change account type''
       ''Move an account between citizen, officer and admin.''
       ''People'' [ADMIN] False,
     permDef ''users__change_status'' ''Block and unblock accounts''
       ''Stop an account signing in without deleting it.''
       ''People'' [ADMIN] False,
     permDef ''users__force_logout'' ''Force sign-out''
       ''Revoke every live session for an account.''
       ''People'' [ADMIN] False,
     permDef ''users__create_admin'' ''Create admins''
       ''Add another administrator.''
       ''People'' [] True,
     permDef ''users__remove_admin'' ''Remove admins''
       ''Strip administrator access from an account.''
       ''People'' [] True]"

definition taxonomyPermissions :: "permissionDefinition list" where
  "taxonomyPermissions = [
     permDef ''taxonomy__manage_departments'' ''Manage departments''
       ''Create, rename and retire departments.''
       ''Taxonomy'' [ADMIN] False,
     permDef ''taxonomy__manage_categories'' ''Manage categories''
       ''Create complaint categories and set their SLA hours.''
       ''Taxonomy'' [ADMIN] False,
     permDef ''taxonomy__manage_wards'' ''Manage wards''
       ''Create and edit wards.''
       ''Taxonomy'' [ADMIN] False,
     permDef ''taxonomy__manage_zones'' ''Manage zones''
       ''Create and edit zones.''
       ''Taxonomy'' [ADMIN] False,
     permDef ''taxonomy__manage_service_types'' ''Manage service types''
       ''Create civic services and set their fees.''
       ''Taxonomy'' [ADMIN] False]"

definition contactPermissions :: "permissionDefinition list" where
  "contactPermissions = [
     permDef ''contact__manage_messages'' ''Read contact messages''
       ''Open the public contact form inbox and mark messages handled.''
       ''Contact'' [ADMIN] False]"

definition oversightPermissions :: "permissionDefinition list" where
  "oversightPermissions = [
     permDef ''oversight__view_dashboard'' ''View the overview''
       ''See city-wide counts and charts on the console overview.''
       ''Oversight'' [ADMIN] False,
     permDef ''oversight__view_reports'' ''View reports''
       ''Open the SLA report and export complaint CSVs.''
       ''Oversight'' [ADMIN] False,
     permDef ''oversight__view_audit_logs'' ''View the audit log''
       ''Read the record of who changed what.''
       ''Oversight'' [ADMIN] False,
     permDef ''oversight__view_security_events'' ''View security events''
       ''Read sign-in failures, lockouts and token reuse.''
       ''Oversight'' [ADMIN] False,
     permDef ''oversight__manage_settings'' ''Change system settings''
       ''Edit the reopen limit, SLA factors and other global knobs.''
       ''Oversight'' [] True]"

definition accessPermissions :: "permissionDefinition list" where
  "accessPermissions = [
     permDef ''access_control__manage_users'' ''Assign roles to users''
       ''Give and take away access roles on the Access screen.''
       ''Access control'' [] True,
     permDef ''access_control__manage_roles'' ''Manage roles''
       ''Create roles and choose which permissions they carry.''
       ''Access control'' [] True,
     permDef ''access_control__manage_permissions'' ''Manage permissions''
       ''Create and edit the permissions roles are built from.''
       ''Access control'' [] True]"

definition PERMISSION_CATALOGUE :: "permissionDefinition list" where
  "PERMISSION_CATALOGUE = complaintPermissions @ servicePermissions @ paymentPermissions @ peoplePermissions @ taxonomyPermissions @ contactPermissions @ oversightPermissions @ accessPermissions"

text \<open>The type \<open>PermissionCode\<close>: the codes a route guard may name.\<close>

definition PERMISSIONS :: "string list" where
  "PERMISSIONS = map pd_code PERMISSION_CATALOGUE"

record systemRole =
  sy_role :: role
  sy_name :: string
  sy_description :: string

definition SYSTEM_ROLES :: "systemRole list" where
  "SYSTEM_ROLES = [
     \<lparr>sy_role = CITIZEN, sy_name = ''Citizen'',
      sy_description = ''The default for every public account. Holds no console permissions.''\<rparr>,
     \<lparr>sy_role = OFFICER, sy_name = ''Officer'',
      sy_description = ''Works the queue for one department: assignment, status changes, internal notes.''\<rparr>,
     \<lparr>sy_role = ADMIN, sy_name = ''Administrator'',
      sy_description = ''Runs the city-wide console: routing, taxonomy, people and reports.''\<rparr>]"

section \<open>Seeding\<close>

text \<open>An \<open>upsert\<close> by code; name and blurb are corrected, \<open>isSystem\<close> is re-asserted.\<close>

definition seededPermission :: "string \<Rightarrow> instant \<Rightarrow> permissionDefinition \<Rightarrow> permission" where
  "seededPermission i now d =
     \<lparr>pm_id = i, pm_code = pd_code d, pm_name = pd_name d, pm_description = Some (pd_description d),
      pm_category = pd_category d, pm_isSystem = True, pm_createdAt = now, pm_updatedAt = now\<rparr>"

definition correctPermission :: "permissionDefinition \<Rightarrow> instant \<Rightarrow> permission \<Rightarrow> permission" where
  "correctPermission d now p =
     p\<lparr>pm_name := pd_name d, pm_description := Some (pd_description d), pm_category := pd_category d,
       pm_isSystem := True, pm_updatedAt := now\<rparr>"

definition upsertPermission :: "lib \<Rightarrow> permissionDefinition \<Rightarrow> unit act" where
  "upsertPermission L d =
     bindM (getsM clock) (\<lambda>now.
     bindM (getsM (\<lambda>w. find (\<lambda>p. pm_code p = pd_code d) (permissions w))) (\<lambda>found.
     case found of
       Some _ \<Rightarrow> thenM (updateRow permissions permissions_update (\<lambda>p. pm_code p = pd_code d)
           (correctPermission d now)) (returnM ())
     | None \<Rightarrow> bindM (freshId L) (\<lambda>i.
         thenM (insertRow permissions_update (seededPermission i now d)) (returnM ()))))"

definition seededRole :: "string \<Rightarrow> instant \<Rightarrow> systemRole \<Rightarrow> accessRole" where
  "seededRole i now s =
     \<lparr>ar_id = i, ar_name = sy_name s, ar_description = Some (sy_description s), ar_isSystem = True,
      ar_mirrors = Some (sy_role s), ar_createdAt = now, ar_updatedAt = now\<rparr>"

definition upsertRole :: "lib \<Rightarrow> systemRole \<Rightarrow> accessRole act" where
  "upsertRole L s =
     bindM (getsM clock) (\<lambda>now.
     bindM (getsM (fallbackRole (sy_role s))) (\<lambda>found.
     case found of
       Some _ \<Rightarrow> updateRow accessRoles accessRoles_update (\<lambda>r. ar_mirrors r = Some (sy_role s))
           (\<lambda>r. r\<lparr>ar_description := Some (sy_description s), ar_isSystem := True, ar_updatedAt := now\<rparr>)
     | None \<Rightarrow> bindM (freshId L) (\<lambda>i.
         thenM (guardM (uniqueBy accessRoles (\<lambda>r. ar_name r = sy_name s) [''name'']))
         (insertRow accessRoles_update (seededRole i now s)))))"

text \<open>The ids behind the codes whose defaults name the account type.\<close>

definition wantedIds :: "role \<Rightarrow> permission list \<Rightarrow> string list" where
  "wantedIds rl stored =
     concat (map (\<lambda>d. case find (\<lambda>p. pm_code p = pd_code d) stored of
                        None \<Rightarrow> [] | Some p \<Rightarrow> if pm_id p = [] then [] else [pm_id p])
       (filter (\<lambda>d. rl \<in> set (pd_defaultRoles d)) PERMISSION_CATALOGUE))"

text \<open>\<open>createMany\<close> with \<open>skipDuplicates\<close>: only the pairs that are not there yet are added.\<close>

definition addPermissions :: "string \<Rightarrow> string list \<Rightarrow> unit act" where
  "addPermissions roleId ids =
     modifyM (\<lambda>w. w\<lparr>accessRolePermissions := accessRolePermissions w @
       filter (\<lambda>rp. rp \<notin> set (accessRolePermissions w))
         (map (\<lambda>i. \<lparr>arp_roleId = roleId, arp_permissionId = i\<rparr>) (remdups ids))\<rparr>)"

definition seedRole :: "lib \<Rightarrow> permission list \<Rightarrow> systemRole \<Rightarrow> unit act" where
  "seedRole L stored s =
     bindM (upsertRole L s) (\<lambda>r. addPermissions (ar_id r) (wantedIds (sy_role s) stored))"

definition seedAccess :: "lib \<Rightarrow> unit act" where
  "seedAccess L =
     thenM (loopM (\<lambda>d _. upsertPermission L d) PERMISSION_CATALOGUE ())
     (bindM (getsM permissions) (\<lambda>stored.
      loopM (\<lambda>s _. seedRole L stored s) SYSTEM_ROLES ()))"

end
