(* ===== verification/RbacFacts.thy ===== *)
theory RbacFacts
  imports Cache Permissions
begin

text \<open>
  What each operation of the access screen does to the four access tables, and the invariants
  the access properties rest on.
\<close>

section \<open>The operations, run\<close>

text \<open>A step that leaves the access tables, the users, Redis and the clock alone.\<close>

definition quiet :: "world \<Rightarrow> world \<Rightarrow> bool" where
  "quiet w w' \<longleftrightarrow> permissions w' = permissions w \<and> accessRoles w' = accessRoles w \<and>
     accessRolePermissions w' = accessRolePermissions w \<and> userAccessRoles w' = userAccessRoles w \<and>
     users w' = users w \<and> redis w' = redis w \<and> redisUp w' = redisUp w \<and> clock w' = clock w \<and>
     uuidPos w \<le> uuidPos w'"

lemma quiet_refl [simp]: "quiet w w"
  by (simp add: quiet_def)

lemma run_removePermission:
  "removePermission i w =
     (if find (\<lambda>p. pm_id p = i) (permissions w) = None then (Inl (PrismaKnown ''P2025'' []), w)
      else (Inr (), w\<lparr>accessRolePermissions := deleteWhere (\<lambda>rp. arp_permissionId rp = i) (accessRolePermissions w),
                      permissions := deleteWhere (\<lambda>p. pm_id p = i) (permissions w)\<rparr>))"
  by (simp add: removePermission_def eval)

lemma run_removeRole:
  "removeRole i w =
     (if findRole i w = None then (Inl (PrismaKnown ''P2025'' []), w)
      else (Inr (), w\<lparr>accessRolePermissions := deleteWhere (\<lambda>rp. arp_roleId rp = i) (accessRolePermissions w),
                      userAccessRoles := deleteWhere (\<lambda>a. uar_roleId a = i) (userAccessRoles w),
                      accessRoles := deleteWhere (\<lambda>r. ar_id r = i) (accessRoles w)\<rparr>))"
  by (simp add: removeRole_def eval)

definition newLinks :: "string \<Rightarrow> string list \<Rightarrow> accessRolePermission list" where
  "newLinks i ids = map (\<lambda>p. \<lparr>arp_roleId = i, arp_permissionId = p\<rparr>) (remdups ids)"

lemma run_linkPermissions:
  "linkPermissions sk i ids w =
     (if \<exists>p \<in> set ids. \<forall>q \<in> set (permissions w). pm_id q \<noteq> p then (Inl (PrismaKnown ''P2003'' []), w)
      else if \<not> sk \<and> \<not> distinct ids then (Inl (PrismaKnown ''P2002'' [''roleId'', ''permissionId'']), w)
      else (Inr (), w\<lparr>accessRolePermissions := accessRolePermissions w @ newLinks i ids\<rparr>))"
  by (simp add: linkPermissions_def eval newLinks_def)

definition sweep ::
  "(string \<Rightarrow> (rval \<times> instant option) option) \<Rightarrow> string \<Rightarrow> (rval \<times> instant option) option" where
  "sweep rd = (\<lambda>k. if starts_with ''perm:'' k then None else rd k)"

lemma run_invalidateAll:
  "invalidateAllPermissions w = (Inr (), if redisUp w then w\<lparr>redis := sweep (redis w)\<rparr> else w)"
  by (simp add: invalidateAllPermissions_def eval sweep_def)

lemma run_invalidateUser:
  "invalidateUserPermissions i w = (Inr (), if redisUp w then forget [permKey i] w else w)"
  by (simp add: invalidateUserPermissions_def invalidate_def eval redisDel_def forget_def)

definition unknownPermissions :: "string list \<Rightarrow> world \<Rightarrow> bool" where
  "unknownPermissions ids w \<longleftrightarrow>
     ids \<noteq> [] \<and> countWhere (\<lambda>p. pm_id p \<in> set ids) (permissions w) \<noteq> length (remdups ids)"

lemma run_assertPermissionsExist:
  "assertPermissionsExist ids w =
     (if unknownPermissions ids w
      then (Inl (apiError 400 ''Unknown permission''
              [det ''PERMISSION_NOT_FOUND'' ''One or more permissions do not exist'']), w)
      else (Inr (), w))"
  by (simp add: assertPermissionsExist_def eval unknownPermissions_def)

definition unknownRoles :: "string list \<Rightarrow> world \<Rightarrow> bool" where
  "unknownRoles ids w \<longleftrightarrow>
     ids \<noteq> [] \<and> countWhere (\<lambda>r. ar_id r \<in> set ids) (accessRoles w) \<noteq> length (remdups ids)"

lemma run_assertRolesExist:
  "assertRolesExist ids w =
     (if unknownRoles ids w
      then (Inl (apiError 400 ''Unknown role'' [det ''ROLE_NOT_FOUND'' ''One or more roles do not exist'']), w)
      else (Inr (), w))"
  by (simp add: assertRolesExist_def eval unknownRoles_def)

text \<open>A step that leaves the four tables and Redis as given, and has drawn an id.\<close>

definition becomes ::
  "world \<Rightarrow> world \<Rightarrow> permission list \<Rightarrow> accessRole list \<Rightarrow> accessRolePermission list \<Rightarrow>
   userAccessRole list \<Rightarrow> (string \<Rightarrow> (rval \<times> instant option) option) \<Rightarrow> bool" where
  "becomes w w' ps rs rps uas rd \<longleftrightarrow>
     permissions w' = ps \<and> accessRoles w' = rs \<and> accessRolePermissions w' = rps \<and>
     userAccessRoles w' = uas \<and> redis w' = rd \<and> users w' = users w \<and> redisUp w' = redisUp w \<and>
     clock w' = clock w \<and> uuidPos w < uuidPos w'"

lemma createPermission_effect:
  assumes "snd (createPermission L input a cx w) = w'"
  shows "quiet w w' \<or>
    (\<forall>p \<in> set (permissions w). pm_code p \<noteq> cp_code input) \<and>
    becomes w w' (permissions w @ [newPermission (uuidTape L (uuidPos w)) (clock w) input])
      (accessRoles w) (accessRolePermissions w) (userAccessRoles w) (redis w)"
  unfolding assms [symmetric]
  by (cases "find (\<lambda>p. pm_code p = cp_code input) (permissions w)")
    (auto simp: createPermission_def insertPermission_def eval uniqueBy_def find_None_all quiet_def becomes_def)

lemma updatePermission_effect:
  assumes "snd (updatePermission L i input a cx w) = w'"
  shows "quiet w w' \<or>
    becomes w w' (updateWhere (\<lambda>p. pm_id p = i) (patchPermission input (clock w)) (permissions w))
      (accessRoles w) (accessRolePermissions w) (userAccessRoles w) (redis w)"
  unfolding assms [symmetric]
  by (cases "find (\<lambda>p. pm_id p = i) (permissions w)")
    (auto simp: updatePermission_def eval becomes_def)

definition swept :: "world \<Rightarrow> string \<Rightarrow> (rval \<times> instant option) option" where
  "swept w = (if redisUp w then sweep (redis w) else redis w)"

lemma deletePermission_effect:
  assumes "snd (deletePermission L i a cx w) = w'"
  shows "quiet w w' \<or>
    (\<exists>p. find (\<lambda>p. pm_id p = i) (permissions w) = Some p \<and> \<not> pm_isSystem p) \<and>
    becomes w w' (deleteWhere (\<lambda>p. pm_id p = i) (permissions w)) (accessRoles w)
      (deleteWhere (\<lambda>rp. arp_permissionId rp = i) (accessRolePermissions w)) (userAccessRoles w) (swept w)"
  unfolding assms [symmetric]
  by (cases "find (\<lambda>p. pm_id p = i) (permissions w)")
    (auto simp: deletePermission_def eval run_removePermission run_invalidateAll becomes_def swept_def)

lemma createRole_effect:
  assumes "snd (createRole L input a cx w) = w'"
  shows "quiet w w' \<or>
    (\<forall>r \<in> set (accessRoles w). ar_name r \<noteq> rc_name input) \<and>
    (\<forall>p \<in> set (rc_permissionIds input). \<exists>q \<in> set (permissions w). pm_id q = p) \<and>
    becomes w w' (permissions w) (accessRoles w @ [newRole (uuidTape L (uuidPos w)) (clock w) input])
      (accessRolePermissions w @ newLinks (uuidTape L (uuidPos w)) (rc_permissionIds input))
      (userAccessRoles w) (redis w)"
proof (cases "find (\<lambda>r. ar_name r = rc_name input) (accessRoles w) = None \<and>
    \<not> unknownPermissions (rc_permissionIds input) w")
  case True
  then have "\<forall>r \<in> set (accessRoles w). ar_name r \<noteq> rc_name input" by (simp add: find_None_all)
  with True show ?thesis unfolding assms [symmetric]
    by (simp add: createRole_def insertRole_def eval uniqueBy_def quiet_def becomes_def run_linkPermissions
        run_assertPermissionsExist)
next
  case False
  then have "snd (createRole L input a cx w) = w"
    by (auto simp: createRole_def eval run_assertPermissionsExist)
  then show ?thesis by (simp add: assms)
qed

definition replaced :: "string \<Rightarrow> string list option \<Rightarrow> accessRolePermission list \<Rightarrow> accessRolePermission list" where
  "replaced i ids rps =
     (case ids of None \<Rightarrow> rps | Some l \<Rightarrow> deleteWhere (\<lambda>rp. arp_roleId rp = i) rps @ newLinks i l)"

definition knownPermissions :: "string list option \<Rightarrow> world \<Rightarrow> bool" where
  "knownPermissions ids w \<longleftrightarrow>
     (case ids of None \<Rightarrow> True | Some l \<Rightarrow> \<forall>p \<in> set l. \<exists>q \<in> set (permissions w). pm_id q = p)"

lemma run_replacePermissions:
  "replacePermissions i ids w =
     (if knownPermissions ids w
      then (Inr (), w\<lparr>accessRolePermissions := replaced i ids (accessRolePermissions w)\<rparr>)
      else (Inl (PrismaKnown ''P2003'' []),
            w\<lparr>accessRolePermissions := deleteWhere (\<lambda>rp. arp_roleId rp = i) (accessRolePermissions w)\<rparr>))"
  by (cases ids) (auto simp: replacePermissions_def eval run_linkPermissions knownPermissions_def replaced_def)

definition freeName :: "string \<Rightarrow> string option \<Rightarrow> world \<Rightarrow> bool" where
  "freeName i nm w \<longleftrightarrow>
     (case nm of None \<Rightarrow> True | Some n \<Rightarrow> \<forall>r \<in> set (accessRoles w). ar_id r = i \<or> ar_name r \<noteq> n)"

lemma run_updateRoleRow:
  assumes "findRole i w = Some r"
  shows "updateRoleRow i input w =
     (if freeName i (ru_name input) w
      then (Inr (patchRole input (clock w) r),
            accessRoles_update (updateWhere (\<lambda>r. ar_id r = i) (patchRole input (clock w))) w)
      else (Inl (PrismaKnown ''P2002'' [''name'']), w))"
  using assms
  by (cases "ru_name input") (auto simp: updateRoleRow_def eval freeName_def uniqueBy_def findRole_def)

definition renamesBuiltin :: "updateRoleInput \<Rightarrow> accessRole \<Rightarrow> bool" where
  "renamesBuiltin input r \<longleftrightarrow> ar_isSystem r \<and>
     (case ru_name input of None \<Rightarrow> False | Some n \<Rightarrow> n \<noteq> [] \<and> n \<noteq> ar_name r)"

lemma findRole_arp [simp]:
  "findRole i (w\<lparr>accessRolePermissions := x\<rparr>) = findRole i w"
  "freeName i nm (w\<lparr>accessRolePermissions := x\<rparr>) = freeName i nm w"
  by (simp_all add: findRole_def freeName_def split: option.split)

lemma updateAccessRole_effect:
  assumes "snd (updateAccessRole L i input a cx w) = w'"
  shows "quiet w w' \<or>
    (\<exists>r. findRole i w = Some r \<and> \<not> renamesBuiltin input r) \<and>
    knownPermissions (ru_permissionIds input) w \<and> freeName i (ru_name input) w \<and>
    becomes w w' (permissions w) (updateWhere (\<lambda>r. ar_id r = i) (patchRole input (clock w)) (accessRoles w))
      (replaced i (ru_permissionIds input) (accessRolePermissions w)) (userAccessRoles w) (swept w)"
proof -
  let ?asks = "case ru_permissionIds input of None \<Rightarrow> returnM () | Some ids \<Rightarrow> assertPermissionsExist ids"
  have asks: "\<exists>r. ?asks w = (r, w)"
    by (cases "ru_permissionIds input") (simp_all add: eval run_assertPermissionsExist)
  show ?thesis
  proof (cases "\<exists>r. findRole i w = Some r \<and> \<not> renamesBuiltin input r \<and> ?asks w = (Inr (), w) \<and>
      knownPermissions (ru_permissionIds input) w \<and> freeName i (ru_name input) w")
    case True
    then obtain r where r: "findRole i w = Some r" "\<not> renamesBuiltin input r" "?asks w = (Inr (), w)"
      "knownPermissions (ru_permissionIds input) w" "freeName i (ru_name input) w" by blast
    then show ?thesis unfolding assms [symmetric]
      by (simp add: updateAccessRole_def eval shapeRole_def renamesBuiltin_def [symmetric]
          run_replacePermissions run_updateRoleRow [where r = r] run_invalidateAll becomes_def swept_def)
  next
    case False
    obtain q where q: "?asks w = (q, w)" using asks by blast
    have "quiet w (snd (updateAccessRole L i input a cx w))"
    proof (cases "\<exists>r. findRole i w = Some r \<and> \<not> renamesBuiltin input r \<and> q = Inr ()")
      case True
      then obtain r where r: "findRole i w = Some r" "\<not> renamesBuiltin input r" "q = Inr ()" by blast
      with False q have no: "\<not> knownPermissions (ru_permissionIds input) w \<or> \<not> freeName i (ru_name input) w" by blast
      show ?thesis using no r q
        by (auto simp: updateAccessRole_def eval shapeRole_def renamesBuiltin_def [symmetric]
            run_replacePermissions run_updateRoleRow [where r = r] quiet_def)
    next
      case False
      then show ?thesis
        by (cases "findRole i w"; cases q)
          (auto simp: updateAccessRole_def eval shapeRole_def renamesBuiltin_def [symmetric] q)
    qed
    then show ?thesis by (simp add: assms)
  qed
qed

lemma deleteRole_effect:
  assumes "snd (deleteRole L i a cx w) = w'"
  shows "quiet w w' \<or>
    (\<exists>r. findRole i w = Some r \<and> \<not> ar_isSystem r) \<and> (\<forall>u \<in> set (userAccessRoles w). uar_roleId u \<noteq> i) \<and>
    becomes w w' (permissions w) (deleteWhere (\<lambda>r. ar_id r = i) (accessRoles w))
      (deleteWhere (\<lambda>rp. arp_roleId rp = i) (accessRolePermissions w))
      (deleteWhere (\<lambda>a. uar_roleId a = i) (userAccessRoles w)) (swept w)"
proof (cases "findRole i w")
  case (Some r)
  then have i: "ar_id r = i" unfolding findRole_def by (auto dest: find_Some_in)
  show ?thesis
  proof (cases "\<not> ar_isSystem r \<and> countWhere (\<lambda>a. uar_roleId a = i) (userAccessRoles w) = 0")
    case True
    then have "\<forall>u \<in> set (userAccessRoles w). uar_roleId u \<noteq> i" by (simp add: countWhere_0)
    with True Some i show ?thesis unfolding assms [symmetric]
      by (simp add: deleteRole_def eval run_removeRole run_invalidateAll becomes_def swept_def shapeRole_def)
  next
    case False
    with Some i have "snd (deleteRole L i a cx w) = w"
      by (auto simp: deleteRole_def eval shapeRole_def)
    then show ?thesis by (simp add: assms)
  qed
next
  case None
  then have "snd (deleteRole L i a cx w) = w" by (simp add: deleteRole_def eval)
  then show ?thesis by (simp add: assms)
qed

definition newRows :: "string \<Rightarrow> instant \<Rightarrow> string list \<Rightarrow> userAccessRole list" where
  "newRows u now ids = map (\<lambda>i. \<lparr>uar_userId = u, uar_roleId = i, uar_assignedAt = now\<rparr>) (remdups ids)"

definition missingRole :: "string list \<Rightarrow> accessRole list \<Rightarrow> bool" where
  "missingRole ids rs \<longleftrightarrow> (\<exists>i \<in> set ids. \<forall>r \<in> set rs. ar_id r \<noteq> i)"

lemma run_linkRoles:
  "linkRoles u ids w =
     (if missingRole ids (accessRoles w) then (Inl (PrismaKnown ''P2003'' []), w)
      else (Inr (), w\<lparr>userAccessRoles := userAccessRoles w @ newRows u (clock w) ids\<rparr>))"
  by (cases "ids = []") (simp_all add: linkRoles_def eval newRows_def missingRole_def)

lemma run_getUserRoles: "\<exists>r. getUserRoles u w = (r, w)"
  by (simp add: getUserRoles_def eval split: option.split)

lemma assignUserRoles_effect:
  assumes "snd (assignUserRoles L u ids a cx w) = w'"
  shows "quiet w w' \<or>
    (\<forall>i \<in> set ids. \<exists>r \<in> set (accessRoles w). ar_id r = i) \<and>
    becomes w w' (permissions w) (accessRoles w) (accessRolePermissions w)
      (deleteWhere (\<lambda>a. uar_userId a = u) (userAccessRoles w) @ newRows u (clock w) ids)
      (if redisUp w then (redis w)(permKey u := None) else redis w)"
proof (cases "find (\<lambda>r. u_id r = u) (liveUsers w) \<noteq> None \<and> \<not> unknownRoles ids w")
  case True
  have one: "forget [k] v = v\<lparr>redis := (redis v)(k := None)\<rparr>" for k v
    by (simp add: forget_def fun_upd_def)
  have read: "snd (getUserRoles u v) = v" for v using run_getUserRoles [of u v] by auto
  from True obtain x where x: "find (\<lambda>r. u_id r = u) (liveUsers w) = Some x" "\<not> unknownRoles ids w" by blast
  show ?thesis
  proof (cases "missingRole ids (accessRoles w)")
    case True
    with x have "quiet w (snd (assignUserRoles L u ids a cx w))"
      by (simp add: assignUserRoles_def eval run_assertRolesExist run_linkRoles quiet_def)
    then show ?thesis by (simp add: assms)
  next
    case False
    with x show ?thesis
      by (simp add: assms [symmetric] assignUserRoles_def eval run_assertRolesExist run_linkRoles
          run_invalidateUser read one becomes_def) (simp add: missingRole_def)
  qed
next
  case False
  then have "snd (assignUserRoles L u ids a cx w) = w"
    by (auto simp: assignUserRoles_def eval run_assertRolesExist)
  then show ?thesis by (simp add: assms)
qed

end
