(* ===== verification/RbacInv.thy ===== *)
theory RbacInv
  imports RbacFacts
begin

text \<open>
  The access screen as a machine: its operations as data, the well-formedness of the four access
  tables, the survival of the built-in rows, and the coherence of the cached permissions.
\<close>

section \<open>The machine\<close>

datatype accessOp =
    NewPermission createPermissionInput
  | EditPermission string updatePermissionInput
  | DropPermission string
  | NewRole createRoleInput
  | EditRole string updateRoleInput
  | DropRole string
  | AssignRoles string "string list"
  | AskPermissions string
  | TimePasses nat

text \<open>A question is asked with the account type \<open>auth\<close> has just read from the user's row.\<close>

fun doAccess :: "lib \<Rightarrow> string \<Rightarrow> ctx \<Rightarrow> accessOp \<Rightarrow> world \<Rightarrow> world" where
  "doAccess L a cx (NewPermission input) w = snd (createPermission L input a cx w)"
| "doAccess L a cx (EditPermission i input) w = snd (updatePermission L i input a cx w)"
| "doAccess L a cx (DropPermission i) w = snd (deletePermission L i a cx w)"
| "doAccess L a cx (NewRole input) w = snd (createRole L input a cx w)"
| "doAccess L a cx (EditRole i input) w = snd (updateAccessRole L i input a cx w)"
| "doAccess L a cx (DropRole i) w = snd (deleteRole L i a cx w)"
| "doAccess L a cx (AssignRoles u ids) w = snd (assignUserRoles L u ids a cx w)"
| "doAccess L a cx (AskPermissions u) w =
     (case find (\<lambda>x. u_id x = u) (liveUsers w) of
        None \<Rightarrow> w | Some x \<Rightarrow> snd (getUserPermissions u (u_role x) w))"
| "doAccess L a cx (TimePasses n) w = w\<lparr>clock := clock w + int n\<rparr>"

definition accessRun :: "lib \<Rightarrow> string \<Rightarrow> ctx \<Rightarrow> accessOp list \<Rightarrow> world \<Rightarrow> world" where
  "accessRun L a cx ops w = fold (doAccess L a cx) ops w"

text \<open>The schema of the route lets no empty role name through.\<close>

fun validOp :: "accessOp \<Rightarrow> bool" where
  "validOp (EditRole i input) = (ru_name input \<noteq> Some [])"
| "validOp op = True"

section \<open>Well-formed tables\<close>

definition accessGood :: "lib \<Rightarrow> world \<Rightarrow> bool" where
  "accessGood L w \<longleftrightarrow>
     distinct (map pm_id (permissions w)) \<and> distinct (map pm_code (permissions w)) \<and>
     distinct (map ar_id (accessRoles w)) \<and> distinct (map ar_name (accessRoles w)) \<and>
     distinct (accessRolePermissions w) \<and>
     (\<forall>rp \<in> set (accessRolePermissions w). arp_roleId rp \<in> ar_id ` set (accessRoles w) \<and>
        arp_permissionId rp \<in> pm_id ` set (permissions w)) \<and>
     distinct (map (\<lambda>a. (uar_userId a, uar_roleId a)) (userAccessRoles w)) \<and>
     (\<forall>a \<in> set (userAccessRoles w). uar_roleId a \<in> ar_id ` set (accessRoles w)) \<and>
     pm_id ` set (permissions w) \<subseteq> drawnIds L w \<and> ar_id ` set (accessRoles w) \<subseteq> drawnIds L w"

lemma accessGood_quiet: "quiet w w' \<Longrightarrow> accessGood L w \<Longrightarrow> accessGood L w'"
  using drawn_mono [of w w' L] unfolding quiet_def accessGood_def by auto

lemma patchPermission_key [simp]:
  "pm_id (patchPermission i now p) = pm_id p" "pm_code (patchPermission i now p) = pm_code p"
  "pm_isSystem (patchPermission i now p) = pm_isSystem p"
  by (simp_all add: patchPermission_def)

lemma patchRole_key [simp]:
  "ar_id (patchRole i now r) = ar_id r" "ar_isSystem (patchRole i now r) = ar_isSystem r"
  "ar_mirrors (patchRole i now r) = ar_mirrors r"
  by (simp_all add: patchRole_def)

lemma ids_deleteWhere [simp]: "g ` set (deleteWhere (\<lambda>x. g x = i) rows) = g ` set rows - {i}"
  by auto

lemma distinct_deleteWhere: "distinct (map g rows) \<Longrightarrow> distinct (map g (deleteWhere P rows))"
  by (simp add: deleteWhere_def distinct_map_filter)

lemma distinct_deleteWhere_id: "distinct rows \<Longrightarrow> distinct (deleteWhere P rows)"
  by (simp add: deleteWhere_def)

lemma newLinks_simps [simp]:
  "distinct (newLinks i ids)"
  "rp \<in> set (newLinks i ids) \<longleftrightarrow> arp_roleId rp = i \<and> arp_permissionId rp \<in> set ids"
  by (auto simp: newLinks_def distinct_map inj_on_def image_iff intro!: bexI [of _ "arp_permissionId rp"])

lemma newRows_simps [simp]:
  "distinct (map (\<lambda>a. (uar_userId a, uar_roleId a)) (newRows u now ids))"
  "map uar_roleId (newRows u now ids) = remdups ids"
  "a \<in> set (newRows u now ids) \<Longrightarrow> uar_userId a = u \<and> uar_roleId a \<in> set ids"
  by (auto simp: newRows_def distinct_map inj_on_def comp_def)

text \<open>Renaming one row to a name no other row has keeps the names distinct.\<close>

lemma distinct_rename:
  assumes "distinct (map ar_id rows)" and "distinct (map ar_name rows)"
    and "\<And>r. r \<in> set rows \<Longrightarrow> ar_id r \<noteq> i \<Longrightarrow> ar_name r \<noteq> n"
    and "\<And>r. ar_name (f r) = n"
  shows "distinct (map ar_name (updateWhere (\<lambda>r. ar_id r = i) f rows))"
  using assms
proof (induction rows)
  case (Cons r rows)
  have "ar_name (if ar_id r = i then f r else r) \<notin> ar_name ` set (updateWhere (\<lambda>r. ar_id r = i) f rows)"
  proof
    assume "ar_name (if ar_id r = i then f r else r) \<in> ar_name ` set (updateWhere (\<lambda>r. ar_id r = i) f rows)"
    then obtain q where q: "q \<in> set rows" "ar_name (if ar_id r = i then f r else r) = ar_name (if ar_id q = i then f q else q)"
      by (auto simp: in_updateWhere)
    have "ar_id q \<noteq> ar_id r" "ar_name q \<noteq> ar_name r" using Cons.prems(1,2) q(1) by (auto simp: image_iff)
    with q Cons.prems(3) [of q] Cons.prems(3) [of r] assms(4) show False
      by (auto split: if_splits)
  qed
  with Cons show ?case by simp
qed simp

lemma good_createPermission:
  assumes "inj (uuidTape L)" and "accessGood L w"
  shows "accessGood L (snd (createPermission L input a cx w))"
  using createPermission_effect [OF refl, of w L input a cx]
proof (elim disjE conjE)
  assume b: "becomes w (snd (createPermission L input a cx w))
      (permissions w @ [newPermission (uuidTape L (uuidPos w)) (clock w) input])
      (accessRoles w) (accessRolePermissions w) (userAccessRoles w) (redis w)"
    and code: "\<forall>p \<in> set (permissions w). pm_code p \<noteq> cp_code input"
  have "uuidPos w < uuidPos (snd (createPermission L input a cx w))" using b by (simp add: becomes_def)
  note new = drawn_new [OF assms(1), of w] drawn_new(2) [OF assms(1) this] drawn_mono [OF less_imp_le [OF this], of L]
  show ?thesis using b code assms(2) new
    by (auto simp: accessGood_def becomes_def newPermission_def)
qed (rule accessGood_quiet [OF _ assms(2)])

lemma good_updatePermission:
  assumes "accessGood L w"
  shows "accessGood L (snd (updatePermission L i input a cx w))"
  using updatePermission_effect [OF refl, of w L i input a cx]
proof (elim disjE)
  assume b: "becomes w (snd (updatePermission L i input a cx w))
      (updateWhere (\<lambda>p. pm_id p = i) (patchPermission input (clock w)) (permissions w))
      (accessRoles w) (accessRolePermissions w) (userAccessRoles w) (redis w)"
  have "map pm_id (updateWhere (\<lambda>p. pm_id p = i) (patchPermission input (clock w)) (permissions w)) = map pm_id (permissions w)"
    "map pm_code (updateWhere (\<lambda>p. pm_id p = i) (patchPermission input (clock w)) (permissions w)) = map pm_code (permissions w)"
    by (simp_all add: map_updateWhere)
  note maps = this this(1) [THEN arg_cong [where f = set], simplified]
  have "drawnIds L w \<subseteq> drawnIds L (snd (updatePermission L i input a cx w))"
    using b by (intro drawn_mono) (simp add: becomes_def)
  then show ?thesis using b assms
    by (simp add: accessGood_def becomes_def maps) blast
qed (rule accessGood_quiet [OF _ assms])

lemma good_deletePermission:
  assumes "accessGood L w"
  shows "accessGood L (snd (deletePermission L i a cx w))"
  using deletePermission_effect [OF refl, of w L i a cx]
proof (elim disjE conjE)
  assume b: "becomes w (snd (deletePermission L i a cx w)) (deleteWhere (\<lambda>p. pm_id p = i) (permissions w))
      (accessRoles w) (deleteWhere (\<lambda>rp. arp_permissionId rp = i) (accessRolePermissions w))
      (userAccessRoles w) (swept w)"
  have "drawnIds L w \<subseteq> drawnIds L (snd (deletePermission L i a cx w))"
    using b by (intro drawn_mono) (simp add: becomes_def)
  then show ?thesis using b assms
    by (auto simp: accessGood_def becomes_def distinct_deleteWhere distinct_deleteWhere_id)
qed (rule accessGood_quiet [OF _ assms])

lemma good_createRole:
  assumes "inj (uuidTape L)" and "accessGood L w"
  shows "accessGood L (snd (createRole L input a cx w))"
  using createRole_effect [OF refl, of w L input a cx]
proof (elim disjE conjE)
  let ?w = "snd (createRole L input a cx w)"
  assume b: "becomes w ?w (permissions w) (accessRoles w @ [newRole (uuidTape L (uuidPos w)) (clock w) input])
      (accessRolePermissions w @ newLinks (uuidTape L (uuidPos w)) (rc_permissionIds input))
      (userAccessRoles w) (redis w)"
    and code: "\<forall>r \<in> set (accessRoles w). ar_name r \<noteq> rc_name input"
    and known: "\<forall>p \<in> set (rc_permissionIds input). \<exists>q \<in> set (permissions w). pm_id q = p"
  have pos: "uuidPos w < uuidPos ?w" using b by (simp add: becomes_def)
  note new = drawn_new [OF assms(1), of w] drawn_new(2) [OF assms(1) pos] drawn_mono [OF less_imp_le [OF pos], of L]
  have "arp_roleId rp \<in> drawnIds L w" if "rp \<in> set (accessRolePermissions w)" for rp
    using assms(2) that unfolding accessGood_def by (meson subsetD)
  with new(1) have "arp_roleId rp \<noteq> uuidTape L (uuidPos w)" if "rp \<in> set (accessRolePermissions w)" for rp
    using that by metis
  then have "set (accessRolePermissions w) \<inter> set (newLinks (uuidTape L (uuidPos w)) (rc_permissionIds input)) = {}"
    by auto
  moreover have "set (rc_permissionIds input) \<subseteq> pm_id ` set (permissions w)" using known by fastforce
  ultimately show ?thesis using b code assms(2) new
    by (auto simp: accessGood_def becomes_def newRole_def)
qed (rule accessGood_quiet [OF _ assms(2)])

lemma good_replaced:
  assumes "accessGood L w" and "knownPermissions ids w" and "findRole i w = Some r"
  shows "distinct (replaced i ids (accessRolePermissions w))"
    and "\<And>rp. rp \<in> set (replaced i ids (accessRolePermissions w)) \<Longrightarrow>
      arp_roleId rp \<in> ar_id ` set (accessRoles w) \<and> arp_permissionId rp \<in> pm_id ` set (permissions w)"
proof -
  have "i \<in> ar_id ` set (accessRoles w)" using assms(3) unfolding findRole_def by (auto dest!: find_Some_in)
  moreover have "p \<in> pm_id ` set (permissions w)" if "ids = Some l" "p \<in> set l" for l p
    using assms(2) that by (fastforce simp: knownPermissions_def)
  ultimately show "\<And>rp. rp \<in> set (replaced i ids (accessRolePermissions w)) \<Longrightarrow>
      arp_roleId rp \<in> ar_id ` set (accessRoles w) \<and> arp_permissionId rp \<in> pm_id ` set (permissions w)"
    using assms(1) by (auto simp: replaced_def accessGood_def split: option.splits)
  show "distinct (replaced i ids (accessRolePermissions w))"
    using assms(1) by (auto simp: replaced_def accessGood_def distinct_deleteWhere_id split: option.split)
qed

lemma good_updateAccessRole:
  assumes "accessGood L w"
  shows "accessGood L (snd (updateAccessRole L i input a cx w))"
  using updateAccessRole_effect [OF refl, of w L i input a cx]
proof (elim disjE conjE exE)
  let ?w = "snd (updateAccessRole L i input a cx w)"
    and ?rs = "updateWhere (\<lambda>r. ar_id r = i) (patchRole input (clock w)) (accessRoles w)"
  fix r
  assume b: "becomes w ?w (permissions w) ?rs (replaced i (ru_permissionIds input) (accessRolePermissions w))
      (userAccessRoles w) (swept w)"
    and r: "findRole i w = Some r" and known: "knownPermissions (ru_permissionIds input) w"
    and free: "freeName i (ru_name input) w"
  have ids: "map ar_id ?rs = map ar_id (accessRoles w)" by (simp add: map_updateWhere)
  then have idset: "ar_id ` set ?rs = ar_id ` set (accessRoles w)" by (metis list.set_map)
  have names: "distinct (map ar_name ?rs)"
  proof (cases "ru_name input")
    case None
    then show ?thesis using assms by (simp add: map_updateWhere patchRole_def accessGood_def)
  next
    case (Some n)
    then show ?thesis using assms free
      by (intro distinct_rename) (auto simp: accessGood_def freeName_def patchRole_def)
  qed
  have "drawnIds L w \<subseteq> drawnIds L ?w" using b by (intro drawn_mono) (simp add: becomes_def)
  then show ?thesis
    using b assms names good_replaced [OF assms known r]
    unfolding accessGood_def becomes_def by (simp add: ids idset) blast
qed (rule accessGood_quiet [OF _ assms])

lemma good_deleteRole:
  assumes "accessGood L w"
  shows "accessGood L (snd (deleteRole L i a cx w))"
  using deleteRole_effect [OF refl, of w L i a cx]
proof (elim disjE conjE)
  assume b: "becomes w (snd (deleteRole L i a cx w)) (permissions w) (deleteWhere (\<lambda>r. ar_id r = i) (accessRoles w))
      (deleteWhere (\<lambda>rp. arp_roleId rp = i) (accessRolePermissions w))
      (deleteWhere (\<lambda>a. uar_roleId a = i) (userAccessRoles w)) (swept w)"
  have "drawnIds L w \<subseteq> drawnIds L (snd (deleteRole L i a cx w))"
    using b by (intro drawn_mono) (simp add: becomes_def)
  then show ?thesis using b assms
    by (auto simp: accessGood_def becomes_def distinct_deleteWhere distinct_deleteWhere_id)
qed (rule accessGood_quiet [OF _ assms])

lemma good_assignUserRoles:
  assumes "accessGood L w"
  shows "accessGood L (snd (assignUserRoles L u ids a cx w))"
  using assignUserRoles_effect [OF refl, of w L u ids a cx]
proof (elim disjE conjE)
  let ?w = "snd (assignUserRoles L u ids a cx w)"
    and ?old = "deleteWhere (\<lambda>a. uar_userId a = u) (userAccessRoles w)"
  assume b: "becomes w ?w (permissions w) (accessRoles w) (accessRolePermissions w)
      (?old @ newRows u (clock w) ids) (if redisUp w then (redis w)(permKey u := None) else redis w)"
    and known: "\<forall>i \<in> set ids. \<exists>r \<in> set (accessRoles w). ar_id r = i"
  have mono: "drawnIds L w \<subseteq> drawnIds L ?w" using b by (intro drawn_mono) (simp add: becomes_def)
  have "distinct (map (\<lambda>a. (uar_userId a, uar_roleId a)) (?old @ newRows u (clock w) ids))"
    using assms by (auto simp: accessGood_def distinct_deleteWhere dest: newRows_simps(3))
  moreover have "uar_roleId x \<in> ar_id ` set (accessRoles w)" if "x \<in> set (newRows u (clock w) ids)" for x
    using newRows_simps(3) [OF that] known by (metis imageI)
  then have "\<forall>a \<in> set (?old @ newRows u (clock w) ids). uar_roleId a \<in> ar_id ` set (accessRoles w)"
    using assms by (auto simp: accessGood_def)
  ultimately show ?thesis using b assms mono
    unfolding accessGood_def becomes_def by (simp del: set_append map_append) (meson subset_trans)
qed (rule accessGood_quiet [OF _ assms])

section \<open>The built-in rows\<close>

definition builtinsKept :: "world \<Rightarrow> world \<Rightarrow> bool" where
  "builtinsKept w w' \<longleftrightarrow>
     (\<forall>p \<in> set (permissions w). pm_isSystem p \<longrightarrow>
        (\<exists>q \<in> set (permissions w'). pm_id q = pm_id p \<and> pm_code q = pm_code p \<and> pm_isSystem q)) \<and>
     (\<forall>r \<in> set (accessRoles w). ar_isSystem r \<longrightarrow>
        (\<exists>q \<in> set (accessRoles w'). ar_id q = ar_id r \<and> ar_name q = ar_name r \<and>
           ar_mirrors q = ar_mirrors r \<and> ar_isSystem q))"

lemma builtins_refl: "builtinsKept w w"
  by (auto simp: builtinsKept_def)

lemma builtins_trans: "builtinsKept u v \<Longrightarrow> builtinsKept v w \<Longrightarrow> builtinsKept u w"
  unfolding builtinsKept_def by metis

lemma builtins_more:
  "set (permissions w) \<subseteq> set (permissions w') \<Longrightarrow> set (accessRoles w) \<subseteq> set (accessRoles w') \<Longrightarrow>
   builtinsKept w w'"
  unfolding builtinsKept_def by blast

lemma builtins_quiet: "quiet w w' \<Longrightarrow> builtinsKept w w'"
  by (auto simp: quiet_def intro: builtins_more)

text \<open>A row found by its id is the only one with that id.\<close>

lemma found_only:
  assumes "distinct (map key rows)" and "find (\<lambda>r. key r = i) rows = Some r" and "q \<in> set rows" and "key q = i"
  shows "q = r"
  using assms find_Some_in [OF assms(2)] by (metis distinct_key_unique)

lemma builtins_updatePermission: "builtinsKept w (snd (updatePermission L i input a cx w))"
  using updatePermission_effect [OF refl, of w L i input a cx]
proof (elim disjE)
  let ?f = "patchPermission input (clock w)"
  assume b: "becomes w (snd (updatePermission L i input a cx w)) (updateWhere (\<lambda>p. pm_id p = i) ?f (permissions w))
      (accessRoles w) (accessRolePermissions w) (userAccessRoles w) (redis w)"
  have "\<exists>q \<in> set (updateWhere (\<lambda>p. pm_id p = i) ?f (permissions w)).
      pm_id q = pm_id p \<and> pm_code q = pm_code p \<and> pm_isSystem q" if "p \<in> set (permissions w)" "pm_isSystem p" for p
    using that by (intro bexI [of _ "if pm_id p = i then ?f p else p"]) (auto simp: in_updateWhere)
  then show ?thesis using b by (auto simp: builtinsKept_def becomes_def)
qed (rule builtins_quiet)

lemma builtins_deletePermission:
  assumes "accessGood L w"
  shows "builtinsKept w (snd (deletePermission L i a cx w))"
  using deletePermission_effect [OF refl, of w L i a cx]
proof (elim disjE conjE exE)
  fix p
  assume p: "find (\<lambda>p. pm_id p = i) (permissions w) = Some p" "\<not> pm_isSystem p"
    and b: "becomes w (snd (deletePermission L i a cx w)) (deleteWhere (\<lambda>p. pm_id p = i) (permissions w))
      (accessRoles w) (deleteWhere (\<lambda>rp. arp_permissionId rp = i) (accessRolePermissions w))
      (userAccessRoles w) (swept w)"
  have "pm_id q \<noteq> i" if "q \<in> set (permissions w)" "pm_isSystem q" for q
    using that p assms found_only [of pm_id "permissions w" i p q] by (auto simp: accessGood_def)
  then show ?thesis using b by (auto simp: builtinsKept_def becomes_def)
qed (rule builtins_quiet)

lemma builtins_updateAccessRole:
  assumes "accessGood L w" and "ru_name input \<noteq> Some []"
  shows "builtinsKept w (snd (updateAccessRole L i input a cx w))"
  using updateAccessRole_effect [OF refl, of w L i input a cx]
proof (elim disjE conjE exE)
  let ?w = "snd (updateAccessRole L i input a cx w)"
  fix r
  assume r: "findRole i w = Some r" "\<not> renamesBuiltin input r"
    and b: "becomes w ?w (permissions w) (updateWhere (\<lambda>r. ar_id r = i) (patchRole input (clock w)) (accessRoles w))
      (replaced i (ru_permissionIds input) (accessRolePermissions w)) (userAccessRoles w) (swept w)"
  have "\<exists>q' \<in> set (accessRoles ?w). ar_id q' = ar_id q \<and> ar_name q' = ar_name q \<and>
      ar_mirrors q' = ar_mirrors q \<and> ar_isSystem q'"
    if q: "q \<in> set (accessRoles w)" "ar_isSystem q" for q
  proof (rule bexI)
    show "(if ar_id q = i then patchRole input (clock w) q else q) \<in> set (accessRoles ?w)"
      using b q(1) by (auto simp: becomes_def in_updateWhere)
    have "ar_name (patchRole input (clock w) q) = ar_name q" if "ar_id q = i"
      using r q assms that found_only [of ar_id "accessRoles w" i r q]
      by (auto simp: accessGood_def findRole_def renamesBuiltin_def patchRole_def split: option.splits)
    then show "ar_id (if ar_id q = i then patchRole input (clock w) q else q) = ar_id q \<and>
        ar_name (if ar_id q = i then patchRole input (clock w) q else q) = ar_name q \<and>
        ar_mirrors (if ar_id q = i then patchRole input (clock w) q else q) = ar_mirrors q \<and>
        ar_isSystem (if ar_id q = i then patchRole input (clock w) q else q)"
      using q(2) by simp
  qed
  then show ?thesis using b by (auto simp: builtinsKept_def becomes_def)
qed (rule builtins_quiet)

lemma builtins_deleteRole:
  assumes "accessGood L w"
  shows "builtinsKept w (snd (deleteRole L i a cx w))"
  using deleteRole_effect [OF refl, of w L i a cx]
proof (elim disjE conjE exE)
  fix r
  assume r: "findRole i w = Some r" "\<not> ar_isSystem r"
    and b: "becomes w (snd (deleteRole L i a cx w)) (permissions w) (deleteWhere (\<lambda>r. ar_id r = i) (accessRoles w))
      (deleteWhere (\<lambda>rp. arp_roleId rp = i) (accessRolePermissions w))
      (deleteWhere (\<lambda>a. uar_roleId a = i) (userAccessRoles w)) (swept w)"
  have "ar_id q \<noteq> i" if "q \<in> set (accessRoles w)" "ar_isSystem q" for q
    using that r assms found_only [of ar_id "accessRoles w" i r q] by (auto simp: accessGood_def findRole_def)
  then show ?thesis using b by (auto simp: builtinsKept_def becomes_def)
qed (rule builtins_quiet)

section \<open>The cached permissions\<close>

lemma decCodes_encCodes [simp]: "decCodes (encCodes codes) = codes"
  by (induction codes) (auto simp: encCodes_def decCodes_def)

lemma storedCodes_cong:
  assumes "permissions w' = permissions w" and "accessRoles w' = accessRoles w"
    and "accessRolePermissions w' = accessRolePermissions w" and "userAccessRoles w' = userAccessRoles w"
  shows "storedCodes u rl w' = storedCodes u rl w"
  using assms by (simp add: storedCodes_def rolesOf_def roleCodes_def rolePermissions_def fallbackRole_def
      cong: map_cong option.case_cong)

interpretation perm: read_through "permKey u" PERMISSION_TTL encCodes decCodes "storedCodes u rl" for u rl
  by unfold_locales (auto intro: storedCodes_cong)

text \<open>For every live user the cached set, if there is one, is what the tables grant.\<close>

definition cacheGood :: "world \<Rightarrow> bool" where
  "cacheGood w \<longleftrightarrow>
     (\<forall>u x. find (\<lambda>x. u_id x = u) (liveUsers w) = Some x \<longrightarrow>
        coherent (permKey u) decCodes (storedCodes u (u_role x)) w)"

lemma cacheGood_quiet:
  assumes "quiet w w'" and "cacheGood w"
  shows "cacheGood w'"
proof -
  have "liveUsers w' = liveUsers w" "\<And>u rl. storedCodes u rl w' = storedCodes u rl w"
    using assms(1) by (auto simp: quiet_def live_defs intro: storedCodes_cong)
  then show ?thesis
    using assms unfolding cacheGood_def quiet_def by (metis perm.untouched order_refl)
qed

lemma cacheGood_same:
  assumes "cacheGood w" and "users w' = users w" and "redis w' = redis w" and "clock w \<le> clock w'"
    and "\<And>u rl. storedCodes u rl w' = storedCodes u rl w"
  shows "cacheGood w'"
proof -
  have "liveUsers w' = liveUsers w" using assms(2) by (simp add: live_defs)
  then show ?thesis using assms unfolding cacheGood_def by (metis perm.untouched)
qed

lemma starts_permKey [simp]: "starts_with ''perm:'' (permKey u)"
  by (simp add: permKey_def starts_with_def)

lemma permKey_eq [simp]: "permKey u = permKey v \<longleftrightarrow> u = v"
  by (simp add: permKey_def)

lemma cacheGood_swept:
  assumes "redis w' = sweep r"
  shows "cacheGood w'"
proof -
  have "redisLive w' (permKey u) = None" for u
    using assms by (simp add: redisLive_def sweep_def)
  then show ?thesis by (auto simp: cacheGood_def intro: perm.dropped)
qed

text \<open>The permissions a role carries do not change when rows nobody points at are added.\<close>

lemma rolePermissions_append:
  assumes "\<forall>rp \<in> set (accessRolePermissions w). arp_permissionId rp \<in> pm_id ` set (permissions w)"
    and "permissions w' = permissions w @ ps" and "accessRolePermissions w' = accessRolePermissions w @ rps"
    and "\<forall>rp \<in> set rps. arp_roleId rp \<noteq> i"
  shows "rolePermissions w' i = rolePermissions w i"
proof -
  have none: "filter (\<lambda>rp. arp_roleId rp = i) rps = []" using assms(4) by (simp add: filter_empty_conv)
  have app: "find P (xs @ ys) = (case find P xs of None \<Rightarrow> find P ys | Some x \<Rightarrow> Some x)" for P and xs ys :: "permission list"
    by (induction xs) auto
  have "find (\<lambda>p. pm_id p = arp_permissionId rp) (permissions w @ ps) = find (\<lambda>p. pm_id p = arp_permissionId rp) (permissions w)"
    if "rp \<in> set (accessRolePermissions w)" for rp
  proof -
    have "find (\<lambda>p. pm_id p = arp_permissionId rp) (permissions w) \<noteq> None"
      unfolding find_None_all using assms(1) that by fastforce
    then show ?thesis by (auto simp: app)
  qed
  then have "map (\<lambda>rp. case find (\<lambda>p. pm_id p = arp_permissionId rp) (permissions w @ ps) of None \<Rightarrow> [] | Some p \<Rightarrow> [p])
      (filter (\<lambda>rp. arp_roleId rp = i) (accessRolePermissions w)) =
    map (\<lambda>rp. case find (\<lambda>p. pm_id p = arp_permissionId rp) (permissions w) of None \<Rightarrow> [] | Some p \<Rightarrow> [p])
      (filter (\<lambda>rp. arp_roleId rp = i) (accessRolePermissions w))"
    by (intro map_cong) auto
  then show ?thesis
    unfolding rolePermissions_def assms(2,3) filter_append none append_Nil2 by (rule arg_cong)
qed

lemma storedCodes_append:
  assumes good: "accessGood L w" and "permissions w' = permissions w @ ps"
    and "accessRoles w' = accessRoles w @ rs" and "accessRolePermissions w' = accessRolePermissions w @ rps"
    and "userAccessRoles w' = userAccessRoles w" and "\<forall>r \<in> set rs. ar_mirrors r = None"
    and new: "\<forall>rp \<in> set rps. arp_roleId rp \<notin> ar_id ` set (accessRoles w)"
  shows "storedCodes u rl w' = storedCodes u rl w"
proof -
  have codes: "roleCodes w' i = roleCodes w i" if "i \<in> ar_id ` set (accessRoles w)" for i
    unfolding roleCodes_def using good new that assms(2,4)
    by (intro arg_cong [where f = "map pm_code"] rolePermissions_append) (auto simp: accessGood_def)
  have held: "rolesOf u w' = rolesOf u w" "set (rolesOf u w) \<subseteq> ar_id ` set (accessRoles w)"
    using good assms(5) by (auto simp: rolesOf_def accessGood_def)
  have app: "find P (xs @ ys) = (case find P xs of None \<Rightarrow> find P ys | Some x \<Rightarrow> Some x)" for P and xs ys :: "accessRole list"
    by (induction xs) auto
  have "find (\<lambda>r. ar_mirrors r = Some rl) rs = None" using assms(6) by (auto simp: find_None_all)
  then have mirror: "fallbackRole rl w' = fallbackRole rl w"
    by (simp add: fallbackRole_def assms(3) app split: option.split)
  have "ar_id r \<in> ar_id ` set (accessRoles w)" if "fallbackRole rl w = Some r" for r
    using that unfolding fallbackRole_def by (auto dest: find_Some_in)
  then show ?thesis
    using held codes unfolding storedCodes_def mirror held(1)
    by (auto split: option.split intro!: arg_cong [where f = concat] map_cong)
qed

lemma cache_createPermission:
  assumes "accessGood L w" and "cacheGood w"
  shows "cacheGood (snd (createPermission L input a cx w))"
  using createPermission_effect [OF refl, of w L input a cx]
proof (elim disjE conjE)
  assume "becomes w (snd (createPermission L input a cx w))
      (permissions w @ [newPermission (uuidTape L (uuidPos w)) (clock w) input])
      (accessRoles w) (accessRolePermissions w) (userAccessRoles w) (redis w)"
  then show ?thesis
    by (intro cacheGood_same [OF assms(2)] storedCodes_append [OF assms(1), where rs = "[]" and rps = "[]"])
      (simp_all add: becomes_def)
qed (rule cacheGood_quiet [OF _ assms(2)])

lemma cache_updatePermission:
  assumes "cacheGood w"
  shows "cacheGood (snd (updatePermission L i input a cx w))"
  using updatePermission_effect [OF refl, of w L i input a cx]
proof (elim disjE)
  let ?w = "snd (updatePermission L i input a cx w)" and ?f = "patchPermission input (clock w)"
  assume b: "becomes w ?w (updateWhere (\<lambda>p. pm_id p = i) ?f (permissions w))
      (accessRoles w) (accessRolePermissions w) (userAccessRoles w) (redis w)"
  have "map pm_code (case find (\<lambda>p. pm_id p = k) (updateWhere (\<lambda>p. pm_id p = i) ?f (permissions w)) of
        None \<Rightarrow> [] | Some p \<Rightarrow> [p]) =
      map pm_code (case find (\<lambda>p. pm_id p = k) (permissions w) of None \<Rightarrow> [] | Some p \<Rightarrow> [p])" for k
    by (subst find_updateWhere_key) (auto split: option.split)
  then have "roleCodes ?w k = roleCodes w k" for k
    using b by (simp add: roleCodes_def rolePermissions_def becomes_def map_concat comp_def)
  then have "storedCodes u rl ?w = storedCodes u rl w" for u rl
    using b by (simp add: storedCodes_def rolesOf_def fallbackRole_def becomes_def cong: map_cong option.case_cong)
  then show ?thesis
    using b by (intro cacheGood_same [OF assms]) (simp_all add: becomes_def)
qed (rule cacheGood_quiet [OF _ assms])

lemma cache_deletePermission:
  assumes "cacheGood w" and "redisUp w"
  shows "cacheGood (snd (deletePermission L i a cx w))"
  using deletePermission_effect [OF refl, of w L i a cx] assms
  by (auto simp: becomes_def swept_def intro: cacheGood_quiet cacheGood_swept)

lemma cache_createRole:
  assumes "inj (uuidTape L)" and "accessGood L w" and "cacheGood w"
  shows "cacheGood (snd (createRole L input a cx w))"
  using createRole_effect [OF refl, of w L input a cx]
proof (elim disjE conjE)
  let ?i = "uuidTape L (uuidPos w)"
  assume b: "becomes w (snd (createRole L input a cx w)) (permissions w)
      (accessRoles w @ [newRole ?i (clock w) input])
      (accessRolePermissions w @ newLinks ?i (rc_permissionIds input)) (userAccessRoles w) (redis w)"
  have "?i \<notin> ar_id ` set (accessRoles w)"
    using assms(2) drawn_new(1) [OF assms(1), of w] unfolding accessGood_def by (meson subsetD)
  then have "\<forall>r \<in> set (accessRoles w). ar_id r \<noteq> ?i" by (metis imageI)
  then show ?thesis using b
    by (intro cacheGood_same [OF assms(3)] storedCodes_append [OF assms(2), where ps = "[]"])
      (auto simp: becomes_def newRole_def)
qed (rule cacheGood_quiet [OF _ assms(3)])

lemma cache_updateAccessRole:
  assumes "cacheGood w" and "redisUp w"
  shows "cacheGood (snd (updateAccessRole L i input a cx w))"
  using updateAccessRole_effect [OF refl, of w L i input a cx] assms
  by (elim disjE conjE) (auto simp: becomes_def swept_def intro: cacheGood_quiet cacheGood_swept)

lemma cache_deleteRole:
  assumes "cacheGood w" and "redisUp w"
  shows "cacheGood (snd (deleteRole L i a cx w))"
  using deleteRole_effect [OF refl, of w L i a cx] assms
  by (elim disjE conjE) (auto simp: becomes_def swept_def intro: cacheGood_quiet cacheGood_swept)

lemma cache_assignUserRoles:
  assumes "cacheGood w" and "redisUp w"
  shows "cacheGood (snd (assignUserRoles L v ids a cx w))"
  using assignUserRoles_effect [OF refl, of w L v ids a cx]
proof (elim disjE conjE)
  let ?w = "snd (assignUserRoles L v ids a cx w)"
  assume b: "becomes w ?w (permissions w) (accessRoles w) (accessRolePermissions w)
      (deleteWhere (\<lambda>a. uar_userId a = v) (userAccessRoles w) @ newRows v (clock w) ids)
      (if redisUp w then (redis w)(permKey v := None) else redis w)"
  have rows: "filter (\<lambda>a. uar_userId a = u) (deleteWhere (\<lambda>a. uar_userId a = v) (userAccessRoles w) @ newRows v (clock w) ids) =
      filter (\<lambda>a. uar_userId a = u) (userAccessRoles w)" if "u \<noteq> v" for u
  proof -
    have "filter (\<lambda>a. uar_userId a = u) (newRows v (clock w) ids) = []"
      using that by (auto simp: filter_empty_conv dest: newRows_simps(3))
    moreover have "filter (\<lambda>a. uar_userId a = u) (deleteWhere (\<lambda>a. uar_userId a = v) (userAccessRoles w)) =
        filter (\<lambda>a. uar_userId a = u) (userAccessRoles w)"
      using that by (auto simp: deleteWhere_def intro: filter_cong)
    ultimately show ?thesis by simp
  qed
  have same: "storedCodes u rl ?w = storedCodes u rl w" if "u \<noteq> v" for u rl
    using b rows [OF that]
    by (simp add: storedCodes_def rolesOf_def roleCodes_def rolePermissions_def fallbackRole_def becomes_def
        cong: map_cong option.case_cong)
  have "redisLive ?w (permKey v) = None" using b assms(2) by (simp add: becomes_def redisLive_def)
  then have "coherent (permKey v) decCodes (storedCodes v rl) ?w" for rl by (rule perm.dropped)
  moreover have "coherent (permKey u) decCodes (storedCodes u rl) ?w"
    if "u \<noteq> v" "coherent (permKey u) decCodes (storedCodes u rl) w" for u rl
    using b that same by (intro perm.untouched [OF that(2)]) (auto simp: becomes_def)
  moreover have "liveUsers ?w = liveUsers w" using b by (simp add: becomes_def live_defs)
  ultimately show ?thesis using assms(1) unfolding cacheGood_def by metis
qed (rule cacheGood_quiet [OF _ assms(1)])

text \<open>Asking writes back what was asked for, and nothing else.\<close>

lemma getUserPermissions_run:
  obtains r where "snd (getUserPermissions u rl w) = w\<lparr>redis := r\<rparr>" and "\<And>k. k \<noteq> permKey u \<Longrightarrow> r k = redis w k"
    and "snd (cachedVal encCodes decCodes (permKey u) PERMISSION_TTL (getsM (storedCodes u rl)) w) = w\<lparr>redis := r\<rparr>"
proof -
  obtain r where "snd (cachedVal encCodes decCodes (permKey u) PERMISSION_TTL (getsM (storedCodes u rl)) w) = w\<lparr>redis := r\<rparr>"
    "\<And>k. k \<noteq> permKey u \<Longrightarrow> r k = redis w k" by (rule perm.read_frame [of u rl w]) blast
  moreover have "snd (getUserPermissions u rl w) =
      snd (cachedVal encCodes decCodes (permKey u) PERMISSION_TTL (getsM (storedCodes u rl)) w)"
    by (simp add: getUserPermissions_def eval split: prod.split sum.split)
  ultimately show thesis using that by simp
qed

lemma cache_ask:
  assumes "cacheGood w" and "find (\<lambda>x. u_id x = v) (liveUsers w) = Some x"
  shows "cacheGood (snd (getUserPermissions v (u_role x) w))"
proof -
  obtain r where r: "snd (getUserPermissions v (u_role x) w) = w\<lparr>redis := r\<rparr>" "\<And>k. k \<noteq> permKey v \<Longrightarrow> r k = redis w k"
    "snd (cachedVal encCodes decCodes (permKey v) PERMISSION_TTL (getsM (storedCodes v (u_role x))) w) = w\<lparr>redis := r\<rparr>"
    by (rule getUserPermissions_run [of v "u_role x" w]) blast
  have "coherent (permKey v) decCodes (storedCodes v (u_role x)) (w\<lparr>redis := r\<rparr>)"
    using assms perm.read_keeps [of v "u_role x" w] unfolding r(3) by (auto simp: cacheGood_def)
  moreover have "coherent (permKey u) decCodes (storedCodes u rl) (w\<lparr>redis := r\<rparr>)"
    if "u \<noteq> v" "coherent (permKey u) decCodes (storedCodes u rl) w" for u rl
    using that r(2) by (intro perm.untouched [OF that(2)]) (auto intro: storedCodes_cong)
  moreover have "liveUsers (w\<lparr>redis := r\<rparr>) = liveUsers w" by (simp add: live_defs)
  ultimately show ?thesis unfolding r(1) cacheGood_def using assms(1,2)
    by (metis cacheGood_def option.inject)
qed

section \<open>All of it, step by step\<close>

text \<open>The unique column \<open>mirrors\<close>.\<close>

definition mirrorList :: "accessRole list \<Rightarrow> role option list" where
  "mirrorList rs = filter (\<lambda>m. m \<noteq> None) (map ar_mirrors rs)"

lemma mirrorList_delete: "distinct (mirrorList rs) \<Longrightarrow> distinct (mirrorList (deleteWhere P rs))"
proof -
  assume d: "distinct (mirrorList rs)"
  have m: "mirrorList xs = map ar_mirrors (filter (\<lambda>r. ar_mirrors r \<noteq> None) xs)" for xs
    by (induction xs) (auto simp: mirrorList_def)
  have "filter (\<lambda>r. ar_mirrors r \<noteq> None) (deleteWhere P rs) =
      filter (\<lambda>r. \<not> P r) (filter (\<lambda>r. ar_mirrors r \<noteq> None) rs)"
    unfolding deleteWhere_def filter_filter by (rule filter_cong) auto
  then show ?thesis using d by (simp add: m distinct_map_filter del: filter_filter)
qed

definition mirrorsStep :: "world \<Rightarrow> world \<Rightarrow> bool" where
  "mirrorsStep w w' \<longleftrightarrow> (distinct (mirrorList (accessRoles w)) \<longrightarrow> distinct (mirrorList (accessRoles w')))"

lemma mirrors_access:
  "mirrorsStep w (snd (createPermission L pin a cx w))" "mirrorsStep w (snd (updatePermission L i pup a cx w))"
  "mirrorsStep w (snd (deletePermission L i a cx w))" "mirrorsStep w (snd (createRole L rin a cx w))"
  "mirrorsStep w (snd (updateAccessRole L i rup a cx w))" "mirrorsStep w (snd (deleteRole L i a cx w))"
  "mirrorsStep w (snd (assignUserRoles L i ids a cx w))"
proof -
  show "mirrorsStep w (snd (createPermission L pin a cx w))"
    using createPermission_effect [OF refl, of w L pin a cx] by (auto simp: mirrorsStep_def quiet_def becomes_def)
  show "mirrorsStep w (snd (updatePermission L i pup a cx w))"
    using updatePermission_effect [OF refl, of w L i pup a cx] by (auto simp: mirrorsStep_def quiet_def becomes_def)
  show "mirrorsStep w (snd (deletePermission L i a cx w))"
    using deletePermission_effect [OF refl, of w L i a cx] by (auto simp: mirrorsStep_def quiet_def becomes_def)
  show "mirrorsStep w (snd (createRole L rin a cx w))"
    using createRole_effect [OF refl, of w L rin a cx]
    by (auto simp: mirrorsStep_def quiet_def becomes_def mirrorList_def newRole_def)
  show "mirrorsStep w (snd (updateAccessRole L i rup a cx w))"
    using updateAccessRole_effect [OF refl, of w L i rup a cx]
    by (elim disjE conjE) (auto simp: mirrorsStep_def quiet_def becomes_def mirrorList_def map_updateWhere)
  show "mirrorsStep w (snd (deleteRole L i a cx w))"
    using deleteRole_effect [OF refl, of w L i a cx]
    by (elim disjE conjE) (auto simp: mirrorsStep_def quiet_def becomes_def mirrorList_delete)
  show "mirrorsStep w (snd (assignUserRoles L i ids a cx w))"
    using assignUserRoles_effect [OF refl, of w L i ids a cx]
    by (elim disjE conjE) (auto simp: mirrorsStep_def quiet_def becomes_def)
qed

definition stillUp :: "world \<Rightarrow> world \<Rightarrow> bool" where
  "stillUp w w' \<longleftrightarrow> redisUp w' = redisUp w \<and> users w' = users w"

lemma up_access:
  "stillUp w (snd (createPermission L pin a cx w))" "stillUp w (snd (updatePermission L i pup a cx w))"
  "stillUp w (snd (deletePermission L i a cx w))" "stillUp w (snd (createRole L rin a cx w))"
  "stillUp w (snd (updateAccessRole L i rup a cx w))" "stillUp w (snd (deleteRole L i a cx w))"
  "stillUp w (snd (assignUserRoles L i ids a cx w))"
  using createPermission_effect [OF refl, of w L pin a cx] updatePermission_effect [OF refl, of w L i pup a cx]
    deletePermission_effect [OF refl, of w L i a cx] createRole_effect [OF refl, of w L rin a cx]
    updateAccessRole_effect [OF refl, of w L i rup a cx] deleteRole_effect [OF refl, of w L i a cx]
    assignUserRoles_effect [OF refl, of w L i ids a cx]
  unfolding stillUp_def quiet_def becomes_def by metis+

text \<open>Everything an access world keeps, whatever is asked of it.\<close>

definition accessInv :: "lib \<Rightarrow> world \<Rightarrow> bool" where
  "accessInv L w \<longleftrightarrow> accessGood L w \<and> distinct (mirrorList (accessRoles w)) \<and> redisUp w \<and> cacheGood w"

lemma access_step:
  assumes "inj (uuidTape L)" and "validOp op" and "accessInv L w"
  shows "accessInv L (doAccess L a cx op w) \<and> builtinsKept w (doAccess L a cx op w)"
proof (cases op)
  case (NewPermission input)
  have "builtinsKept w (snd (createPermission L input a cx w))"
    using createPermission_effect [OF refl, of w L input a cx]
    by (auto simp: becomes_def intro: builtins_more builtins_quiet)
  then show ?thesis
    using assms mirrors_access(1) up_access(1) NewPermission
    by (auto simp: accessInv_def mirrorsStep_def stillUp_def good_createPermission cache_createPermission)
next
  case (EditPermission i input)
  then show ?thesis
    using assms mirrors_access(2) up_access(2)
    by (auto simp: accessInv_def mirrorsStep_def stillUp_def good_updatePermission cache_updatePermission
        builtins_updatePermission)
next
  case (DropPermission i)
  then show ?thesis
    using assms mirrors_access(3) up_access(3)
    by (auto simp: accessInv_def mirrorsStep_def stillUp_def good_deletePermission cache_deletePermission
        intro: builtins_deletePermission)
next
  case (NewRole input)
  have "builtinsKept w (snd (createRole L input a cx w))"
    using createRole_effect [OF refl, of w L input a cx]
    by (auto simp: becomes_def intro: builtins_more builtins_quiet)
  then show ?thesis
    using assms mirrors_access(4) up_access(4) NewRole
    by (auto simp: accessInv_def mirrorsStep_def stillUp_def good_createRole intro: cache_createRole)
next
  case (EditRole i input)
  then show ?thesis
    using assms mirrors_access(5) up_access(5)
    by (auto simp: accessInv_def mirrorsStep_def stillUp_def good_updateAccessRole cache_updateAccessRole
        intro: builtins_updateAccessRole)
next
  case (DropRole i)
  then show ?thesis
    using assms mirrors_access(6) up_access(6)
    by (auto simp: accessInv_def mirrorsStep_def stillUp_def good_deleteRole cache_deleteRole
        intro: builtins_deleteRole)
next
  case (AssignRoles u ids)
  have "builtinsKept w (snd (assignUserRoles L u ids a cx w))"
    using assignUserRoles_effect [OF refl, of w L u ids a cx]
    by (auto simp: becomes_def intro: builtins_more builtins_quiet)
  then show ?thesis
    using assms mirrors_access(7) up_access(7) AssignRoles
    by (auto simp: accessInv_def mirrorsStep_def stillUp_def good_assignUserRoles cache_assignUserRoles)
next
  case (AskPermissions u)
  show ?thesis
  proof (cases "find (\<lambda>x. u_id x = u) (liveUsers w)")
    case None
    then show ?thesis using AskPermissions assms(3) by (simp add: builtins_refl)
  next
    case (Some x)
    obtain r where r: "snd (getUserPermissions u (u_role x) w) = w\<lparr>redis := r\<rparr>"
      by (rule getUserPermissions_run [of u "u_role x" w]) blast
    have "cacheGood (w\<lparr>redis := r\<rparr>)" using cache_ask [OF _ Some] assms(3) by (simp add: accessInv_def r)
    then show ?thesis
      using AskPermissions Some assms(3) by (auto simp: r accessInv_def accessGood_def drawnIds_def intro: builtins_more)
  qed
next
  case (TimePasses n)
  have "cacheGood (w\<lparr>clock := clock w + int n\<rparr>)"
  proof (rule cacheGood_same)
    show "cacheGood w" using assms(3) by (simp add: accessInv_def)
    show "storedCodes u rl (w\<lparr>clock := clock w + int n\<rparr>) = storedCodes u rl w" for u rl
      by (rule storedCodes_cong) simp_all
  qed simp_all
  then show ?thesis
    using TimePasses assms(3) by (auto simp: accessInv_def accessGood_def drawnIds_def intro: builtins_more)
qed

lemma access_run:
  assumes "inj (uuidTape L)" and "\<forall>op \<in> set ops. validOp op" and "accessInv L w"
  shows "accessInv L (accessRun L a cx ops w) \<and> builtinsKept w (accessRun L a cx ops w)"
  using assms(2,3)
proof (induction ops arbitrary: w)
  case (Cons op ops)
  have step: "accessInv L (doAccess L a cx op w) \<and> builtinsKept w (doAccess L a cx op w)"
    using Cons.prems by (intro access_step [OF assms(1)]) simp_all
  with Cons show ?case by (auto simp: accessRun_def intro: builtins_trans)
qed (simp add: accessRun_def builtins_refl)

end
