(* ===== verification/SeedProps.thy ===== *)
theory SeedProps
  imports RbacProps
begin

text \<open>
  What seeding an empty database grants: the rows the two loops of \<open>seedAccess\<close> write, and the
  permissions every account type has from them.
\<close>

section \<open>The rows of a fresh seed\<close>

fun seedRows :: "lib \<Rightarrow> nat \<Rightarrow> instant \<Rightarrow> permissionDefinition list \<Rightarrow> permission list" where
  "seedRows L n now [] = []"
| "seedRows L n now (d # ds) = seededPermission (uuidTape L n) now d # seedRows L (Suc n) now ds"

lemma seeded_simps [simp]:
  "pm_id (seededPermission i now d) = i" "pm_code (seededPermission i now d) = pd_code d"
  by (simp_all add: seededPermission_def)

lemma seedRows_codes [simp]: "map pm_code (seedRows L n now ds) = map pd_code ds"
  by (induction ds arbitrary: n) simp_all

lemma seedRows_ids [simp]: "map pm_id (seedRows L n now ds) = map (uuidTape L) [n..<n + length ds]"
  by (induction ds arbitrary: n) (simp_all add: upt_conv_Cons del: upt_Suc)

lemma fresh_permissions:
  assumes "distinct (map pd_code ds)" and "\<forall>d \<in> set ds. \<forall>p \<in> set (permissions w). pm_code p \<noteq> pd_code d"
  shows "loopM (\<lambda>d _. upsertPermission L d) ds () w =
    (Inr (), w\<lparr>uuidPos := uuidPos w + length ds,
       permissions := permissions w @ seedRows L (uuidPos w) (clock w) ds\<rparr>)"
  using assms
proof (induction ds arbitrary: w)
  case (Cons d ds)
  have "find (\<lambda>p. pm_code p = pd_code d) (permissions w) = None"
    using Cons.prems(2) by (auto simp: find_None_iff)
  then have step: "upsertPermission L d w = (Inr (), w\<lparr>uuidPos := Suc (uuidPos w),
      permissions := permissions w @ [seededPermission (uuidTape L (uuidPos w)) (clock w) d]\<rparr>)"
    by (simp add: upsertPermission_def eval freshId_def)
  let ?v = "w\<lparr>uuidPos := Suc (uuidPos w),
      permissions := permissions w @ [seededPermission (uuidTape L (uuidPos w)) (clock w) d]\<rparr>"
  have "\<forall>e \<in> set ds. \<forall>p \<in> set (permissions ?v). pm_code p \<noteq> pd_code e" using Cons.prems by auto
  with Cons.IH [of ?v] Cons.prems show ?case by (simp add: step eval)
qed (simp add: eval)

lemma seeded_find:
  assumes "distinct (map pd_code ds)" and "map pm_code rows = map pd_code ds" and "d \<in> set ds"
  obtains p where "find (\<lambda>p. pm_code p = pd_code d) rows = Some p" "p \<in> set rows" "pm_code p = pd_code d"
proof (cases "find (\<lambda>p. pm_code p = pd_code d) rows")
  case None
  then have "pd_code d \<notin> set (map pm_code rows)" by (auto simp: find_None_iff)
  with assms show ?thesis by simp
next
  case (Some p)
  from find_Some_in [OF this] Some show ?thesis by (intro that) auto
qed

section \<open>What a role carries\<close>

definition defaultsOf :: "role \<Rightarrow> permissionDefinition list" where
  "defaultsOf rl = filter (\<lambda>d. rl \<in> set (pd_defaultRoles d)) PERMISSION_CATALOGUE"

lemma catalogue_distinct: "distinct (map pd_code PERMISSION_CATALOGUE)"
  by code_simp

lemma super_only_ungranted:
  assumes "d \<in> set PERMISSION_CATALOGUE" and "pd_superAdminOnly d"
  shows "pd_code d \<notin> set (map pd_code (defaultsOf rl))"
proof -
  have "list_all (\<lambda>d. pd_superAdminOnly d \<longrightarrow> pd_defaultRoles d = []) PERMISSION_CATALOGUE" by code_simp
  then have none: "pd_defaultRoles d = []" using assms by (simp add: list_all_iff)
  have "e = d" if "e \<in> set (defaultsOf rl)" "pd_code e = pd_code d" for e
    using that assms(1) catalogue_distinct by (auto simp: defaultsOf_def distinct_map dest: inj_onD)
  with none show ?thesis by (auto simp: defaultsOf_def)
qed

text \<open>A table of permissions that holds the catalogue, each row under an id of its own.\<close>

definition holdsCatalogue :: "permission list \<Rightarrow> bool" where
  "holdsCatalogue rows \<longleftrightarrow> map pm_code rows = map pd_code PERMISSION_CATALOGUE \<and>
     distinct (map pm_id rows) \<and> (\<forall>p \<in> set rows. pm_id p \<noteq> [])"

definition rowFor :: "permission list \<Rightarrow> permissionDefinition \<Rightarrow> permission" where
  "rowFor rows d = the (find (\<lambda>p. pm_code p = pd_code d) rows)"

lemma rowFor:
  assumes "holdsCatalogue rows" and "d \<in> set PERMISSION_CATALOGUE"
  shows "find (\<lambda>p. pm_code p = pd_code d) rows = Some (rowFor rows d)" "rowFor rows d \<in> set rows"
    "pm_code (rowFor rows d) = pd_code d" "pm_id (rowFor rows d) \<noteq> []"
proof -
  obtain p where "find (\<lambda>p. pm_code p = pd_code d) rows = Some p" "p \<in> set rows" "pm_code p = pd_code d"
    using assms by (auto simp: holdsCatalogue_def intro: seeded_find [OF catalogue_distinct])
  with assms(1) show "find (\<lambda>p. pm_code p = pd_code d) rows = Some (rowFor rows d)" "rowFor rows d \<in> set rows"
    "pm_code (rowFor rows d) = pd_code d" "pm_id (rowFor rows d) \<noteq> []"
    by (auto simp: rowFor_def holdsCatalogue_def)
qed

lemma wanted:
  assumes "holdsCatalogue rows"
  shows "wantedIds rl rows = map (\<lambda>d. pm_id (rowFor rows d)) (defaultsOf rl)"
proof -
  have "concat (map (\<lambda>d. case find (\<lambda>p. pm_code p = pd_code d) rows of None \<Rightarrow> [] | Some p \<Rightarrow>
      if pm_id p = [] then [] else [pm_id p]) ds) = map (\<lambda>d. pm_id (rowFor rows d)) ds"
    if "set ds \<subseteq> set PERMISSION_CATALOGUE" for ds
    using that by (induction ds) (simp_all add: rowFor [OF assms])
  then show ?thesis by (auto simp: wantedIds_def defaultsOf_def)
qed

lemma wanted_distinct:
  assumes "holdsCatalogue rows"
  shows "distinct (wantedIds rl rows)"
proof -
  have "inj_on (\<lambda>d. pm_id (rowFor rows d)) (set (defaultsOf rl))"
  proof (rule inj_onI)
    fix d e assume de: "d \<in> set (defaultsOf rl)" "e \<in> set (defaultsOf rl)" "pm_id (rowFor rows d) = pm_id (rowFor rows e)"
    then have m: "d \<in> set PERMISSION_CATALOGUE" "e \<in> set PERMISSION_CATALOGUE" by (simp_all add: defaultsOf_def)
    have "rowFor rows d = rowFor rows e"
      using assms de(3) rowFor(2) [OF assms m(1)] rowFor(2) [OF assms m(2)]
      by (auto simp: holdsCatalogue_def distinct_map dest: inj_onD)
    then have "pd_code d = pd_code e" using rowFor(3) [OF assms m(1)] rowFor(3) [OF assms m(2)] by simp
    then show "d = e" using catalogue_distinct m by (auto simp: distinct_map dest: inj_onD)
  qed
  moreover have "distinct (defaultsOf rl)"
    using catalogue_distinct by (simp add: defaultsOf_def distinct_map)
  ultimately show ?thesis by (simp add: wanted [OF assms] distinct_map)
qed

lemma seeded_codes:
  assumes "holdsCatalogue (permissions w)"
    and "filter (\<lambda>rp. arp_roleId rp = i) (accessRolePermissions w) =
      map (\<lambda>k. \<lparr>arp_roleId = i, arp_permissionId = k\<rparr>) (wantedIds rl (permissions w))"
  shows "roleCodes w i = map pd_code (defaultsOf rl)"
proof -
  have "map pm_code (concat (map (\<lambda>rp. case find (\<lambda>p. pm_id p = arp_permissionId rp) (permissions w) of
        None \<Rightarrow> [] | Some p \<Rightarrow> [p])
      (map (\<lambda>k. \<lparr>arp_roleId = i, arp_permissionId = k\<rparr>) (map (\<lambda>d. pm_id (rowFor (permissions w) d)) ds)))) =
      map pd_code ds" if "set ds \<subseteq> set PERMISSION_CATALOGUE" for ds
    using that
  proof (induction ds)
    case (Cons d ds)
    then have d: "d \<in> set PERMISSION_CATALOGUE" by simp
    have "find (\<lambda>p. pm_id p = pm_id (rowFor (permissions w) d)) (permissions w) = Some (rowFor (permissions w) d)"
      using find_key_iff [of pm_id] assms(1) rowFor(2) [OF assms(1) d] by (auto simp: holdsCatalogue_def)
    with Cons show ?case by (simp add: rowFor(3) [OF assms(1) d])
  qed simp
  from this [of "defaultsOf rl"] show ?thesis
    by (simp add: roleCodes_def rolePermissions_def assms(2) wanted [OF assms(1)] defaultsOf_def)
qed

section \<open>The property\<close>

definition linksFor :: "string \<Rightarrow> role \<Rightarrow> permission list \<Rightarrow> accessRolePermission list" where
  "linksFor i rl rows = map (\<lambda>k. \<lparr>arp_roleId = i, arp_permissionId = k\<rparr>) (wantedIds rl rows)"

lemma filter_links [simp]:
  "filter (\<lambda>rp. arp_roleId rp = i) (linksFor j rl rows) = (if i = j then linksFor j rl rows else [])"
  by (auto simp: linksFor_def filter_map o_def)

lemma fresh_links: "i \<noteq> j \<Longrightarrow> filter (\<lambda>rp. rp \<notin> set (linksFor j rj rows)) (linksFor i ri rows) = linksFor i ri rows"
  unfolding linksFor_def by (rule filter_True) auto

lemma fresh_links2:
  assumes "i \<noteq> j" "i \<noteq> k"
  shows "filter (\<lambda>rp. rp \<notin> set (linksFor j rj rows) \<and> rp \<notin> set (linksFor k rk rows)) (linksFor i ri rows) =
    linksFor i ri rows"
  using assms unfolding linksFor_def by (intro filter_True) auto

lemma linksFor_fold:
  assumes "holdsCatalogue rows"
  shows "map (\<lambda>k. \<lparr>arp_roleId = i, arp_permissionId = k\<rparr>) (remdups (wantedIds rl rows)) = linksFor i rl rows"
  using wanted_distinct [OF assms] by (simp add: linksFor_def distinct_remdups_id)

definition seededTables :: "lib \<Rightarrow> world \<Rightarrow> world" where
  "seededTables L w =
     (let n = uuidPos w; m = n + length PERMISSION_CATALOGUE; rows = seedRows L n (clock w) PERMISSION_CATALOGUE;
          i = uuidTape L m; j = uuidTape L (Suc m); k = uuidTape L (Suc (Suc m)) in
      w\<lparr>uuidPos := Suc (Suc (Suc m)), permissions := rows,
        accessRoles := [seededRole i (clock w) (SYSTEM_ROLES ! 0), seededRole j (clock w) (SYSTEM_ROLES ! 1),
          seededRole k (clock w) (SYSTEM_ROLES ! 2)],
        accessRolePermissions := linksFor i CITIZEN rows @ linksFor j OFFICER rows @ linksFor k ADMIN rows\<rparr>)"

lemma seed_holds:
  assumes "inj (uuidTape L)" and "\<forall>n. k \<le> n \<longrightarrow> uuidTape L n \<noteq> []"
  shows "holdsCatalogue (seedRows L k now PERMISSION_CATALOGUE)"
proof -
  have "pm_id p \<noteq> []" if "p \<in> set (seedRows L k now PERMISSION_CATALOGUE)" for p
  proof -
    have "pm_id p \<in> pm_id ` set (seedRows L k now PERMISSION_CATALOGUE)" using that by (rule imageI)
    also have "\<dots> = set (map (uuidTape L) [k..<k + length PERMISSION_CATALOGUE])"
      by (metis seedRows_ids set_map)
    finally show ?thesis using assms(2) by auto
  qed
  then show ?thesis using assms(1) by (auto simp: holdsCatalogue_def distinct_map intro: inj_on_subset)
qed

lemma run_seedAccess:
  assumes "inj (uuidTape L)" and "\<forall>n. uuidPos w \<le> n \<longrightarrow> uuidTape L n \<noteq> []"
    and "permissions w = []" "accessRoles w = []" "accessRolePermissions w = []"
  shows "seedAccess L w = (Inr (), seededTables L w)"
proof -
  note perms = fresh_permissions [OF catalogue_distinct, of w L]
  note h = seed_holds [OF assms(1,2)]
  note ne = inj_eq [OF assms(1)]
  show ?thesis
    using assms(3-5)
    by (simp add: seedAccess_def eval perms SYSTEM_ROLES_def seedRole_def upsertRole_def fallbackRole_def
        addPermissions_def freshId_def guardM_def uniqueBy_def seededRole_def linksFor_fold [OF h]
        fresh_links fresh_links2 ne seededTables_def Let_def)
qed

lemma seeded_role_codes:
  assumes "inj (uuidTape L)" and "\<forall>n. uuidPos w \<le> n \<longrightarrow> uuidTape L n \<noteq> []" and "userAccessRoles w = []"
  shows "storedCodes u rl (seededTables L w) = map pd_code (defaultsOf rl)"
proof -
  have "holdsCatalogue (permissions (seededTables L w))"
    using seed_holds [OF assms(1,2)] by (simp add: seededTables_def Let_def)
  note codes = seeded_codes [OF this, folded linksFor_def]
  have "rolesOf u (seededTables L w) = []"
    using assms(3) by (simp add: rolesOf_def seededTables_def Let_def)
  moreover obtain r where "fallbackRole rl (seededTables L w) = Some r"
    "filter (\<lambda>rp. arp_roleId rp = ar_id r) (accessRolePermissions (seededTables L w)) =
       linksFor (ar_id r) rl (permissions (seededTables L w))"
    by (cases rl) (simp_all add: fallbackRole_def seededTables_def Let_def seededRole_def SYSTEM_ROLES_def
        inj_eq [OF assms(1)] numeral_2_eq_2)
  ultimately show ?thesis by (simp add: storedCodes_def codes)
qed

text \<open>C18: A freshly seeded database grants what the catalogue declares, no more and no less: seeding empty
  access tables succeeds, and until somebody is given a role, what a user may do is the list of the
  catalogue's permissions whose defaults name the user's account type, in the catalogue's order. What the
  catalogue marks as for super admins only is granted to nobody.\<close>

theorem seeded_access_is_the_catalogue:
  assumes "inj (uuidTape L)" and "\<forall>n. uuidPos w \<le> n \<longrightarrow> uuidTape L n \<noteq> []"
    and "permissions w = []" "accessRoles w = []" "accessRolePermissions w = []" "userAccessRoles w = []"
  shows "\<exists>w'. seedAccess L w = (Inr (), w') \<and>
    (\<forall>u rl. storedCodes u rl w' =
      map pd_code (filter (\<lambda>d. rl \<in> set (pd_defaultRoles d)) PERMISSION_CATALOGUE) \<and>
      (\<forall>d \<in> set PERMISSION_CATALOGUE. pd_superAdminOnly d \<longrightarrow> pd_code d \<notin> set (storedCodes u rl w')))"
  using run_seedAccess [OF assms(1-5)] seeded_role_codes [OF assms(1,2,6)] super_only_ungranted
  by (simp add: defaultsOf_def)

theorem seeded_access_is_the_catalogue_witness:
  "\<exists>w'. seedAccess authLib (empty_world\<lparr>uuidPos := 1\<rparr>) = (Inr (), w') \<and>
     ''complaints__update_status'' \<in> set (storedCodes ''o'' OFFICER w') \<and> storedCodes ''c'' CITIZEN w' = [] \<and>
     ''access_control__manage_roles'' \<notin> set (storedCodes ''a'' ADMIN w')"
proof -
  obtain w' where w': "seedAccess authLib (empty_world\<lparr>uuidPos := 1\<rparr>) = (Inr (), w')"
    "\<And>u rl. storedCodes u rl w' =
       map pd_code (filter (\<lambda>d. rl \<in> set (pd_defaultRoles d)) PERMISSION_CATALOGUE)"
    using seeded_access_is_the_catalogue [OF authLib_inj, of "empty_world\<lparr>uuidPos := 1\<rparr>"]
    by (auto simp: empty_world_def)
  have "list_all (\<lambda>(rl, c, b). (c \<in> set (map pd_code (filter (\<lambda>d. rl \<in> set (pd_defaultRoles d)) PERMISSION_CATALOGUE))) = b)
    [(OFFICER, ''complaints__update_status'', True), (ADMIN, ''access_control__manage_roles'', False)]"
    "filter (\<lambda>d. CITIZEN \<in> set (pd_defaultRoles d)) PERMISSION_CATALOGUE = []"
    by code_simp+
  then show ?thesis using w' by simp
qed

end
