(* ===== verification/Routes.thy ===== *)
theory Routes
  imports Rbac
begin

text \<open>
  Who may call what: the routers of \<^verbatim>\<open>modules/*/*.route.ts\<close> as the code declares them, the list
  \<^verbatim>\<open>routes/index.ts\<close> mounts,
        and what the middlewares of a route decide about a request. How express
  matches a path with a pattern is a parameter; that it walks the layers of a router in their order and
  ends at the first route that matches is what the declarations rely on.
\<close>

section \<open>Declarations\<close>

datatype verb = GET | POST | PATCH | PUT | DELETE

text \<open>
  The middlewares a route names: \<open>auth\<close>, \<open>authorize(...)\<close>,
        \<open>superAdminOnly\<close>, \<open>requirePermission(...)\<close>, a
  limiter, \<open>validateRequest\<close> with its schema, \<open>idempotency\<close>,
        \<open>requireGoogle\<close>, and any other, such as the
  upload and the passport middlewares.
\<close>

datatype guard =
    SignedIn
  | Authorize "role list"
  | SuperAdminOnly
  | RequirePermission "string list"
  | Limiter string
  | Validate string
  | Idempotency string
  | RequireGoogle
  | Other string

datatype layer =
    Use "guard list"
  | Route verb string "guard list" string

section \<open>The routers\<close>

definition authRoutes :: "layer list" where
  "authRoutes = [
     Route POST ''/register'' [Limiter ''auth'', Validate ''register''] ''auth.register'',
     Route POST ''/verify-otp'' [Validate ''verifyOtp''] ''auth.verifyOtp'',
     Route POST ''/resend-otp'' [Limiter ''auth'', Validate ''resendOtp''] ''auth.resendOtp'',
     Route POST ''/login'' [Limiter ''auth'', Validate ''login''] ''auth.login'',
     Route POST ''/login/verify-otp'' [Validate ''verifyLoginOtp''] ''auth.verifyLoginOtp'',
     Route POST ''/login/resend-otp''
       [Limiter ''auth'', Validate ''resendLoginOtp''] ''auth.resendLoginOtp'',
     Route GET ''/login/magic'' [Limiter ''auth'', Validate ''magicLogin''] ''auth.magicLogin'',
     Route POST ''/refresh-token'' [Validate ''refresh''] ''auth.refreshToken'',
     Route POST ''/logout'' [SignedIn] ''auth.logout'',
     Route POST ''/logout/beacon'' [Other ''express.text''] ''auth.logoutBeacon'',
     Route POST ''/logout-all'' [SignedIn] ''auth.logoutAll'',
     Route GET ''/sessions'' [SignedIn] ''auth.listSessions'',
     Route DELETE ''/sessions/:id'' [SignedIn, Validate ''sessionId''] ''auth.revokeSession'',
     Route PATCH ''/2fa'' [SignedIn, Authorize [CITIZEN], Validate ''toggle2fa''] ''auth.toggle2fa'',
     Route POST ''/forgot-password'' [Limiter ''auth'',
        Validate ''forgotPassword''] ''auth.forgotPassword'',
     Route POST ''/reset-password'' [Limiter ''auth'', Validate ''resetPassword''] ''auth.resetPassword'',
     Route PATCH ''/change-password'' [SignedIn, Validate ''changePassword''] ''auth.changePassword'',
     Route GET ''/google'' [RequireGoogle, Other ''passport.authenticate''] ''auth.google'',
     Route GET ''/google/callback'' [RequireGoogle,
        Other ''passport.authenticate''] ''auth.googleCallback'',
     Route POST ''/google/token'' [Limiter ''auth'', Validate ''googleToken''] ''auth.googleToken'']"

definition userRoutes :: "layer list" where
  "userRoutes = [
     Use [SignedIn],
     Route GET ''/me'' [] ''user.getMe'',
     Route PATCH ''/me'' [Validate ''updateMe''] ''user.updateMe'',
     Route PATCH ''/me/avatar'' [Other ''uploadImage'', Other ''verifyImage''] ''user.updateAvatar'',
     Route GET ''/me/export'' [] ''user.exportData'',
     Route DELETE ''/me'' [] ''user.deleteMe'']"

definition departmentRoutes :: "layer list" where
  "departmentRoutes = [
     Route GET ''/'' [] ''department.list'',
     Use [SignedIn, Authorize [ADMIN], Limiter ''admin'',
        RequirePermission [''taxonomy__manage_departments'']],
     Route POST ''/'' [Validate ''createDepartment''] ''department.create'',
     Route PATCH ''/:id'' [Validate ''updateDepartment''] ''department.update'',
     Route DELETE ''/:id'' [Validate ''departmentId''] ''department.remove'']"

definition categoryRoutes :: "layer list" where
  "categoryRoutes = [
     Route GET ''/'' [] ''category.list'',
     Use [SignedIn, Authorize [ADMIN], Limiter ''admin'',
        RequirePermission [''taxonomy__manage_categories'']],
     Route POST ''/'' [Validate ''createCategory''] ''category.create'',
     Route PATCH ''/:id'' [Validate ''updateCategory''] ''category.update'',
     Route DELETE ''/:id'' [Validate ''categoryId''] ''category.remove'']"

definition wardRoutes :: "layer list" where
  "wardRoutes = [
     Route GET ''/'' [] ''ward.list'',
     Use [SignedIn, Authorize [ADMIN], Limiter ''admin'', RequirePermission [''taxonomy__manage_wards'']],
     Route POST ''/'' [Validate ''createWard''] ''ward.create'',
     Route PATCH ''/:id'' [Validate ''updateWard''] ''ward.update'']"

definition zoneRoutes :: "layer list" where
  "zoneRoutes = [
     Route GET ''/'' [] ''zone.list'',
     Route POST ''/''
       [SignedIn, Authorize [ADMIN], Limiter ''admin'', RequirePermission [''taxonomy__manage_zones''],
        Validate ''createZone''] ''zone.create'']"

definition serviceTypeRoutes :: "layer list" where
  "serviceTypeRoutes = [
     Route GET ''/'' [] ''serviceType.list'',
     Use [SignedIn, Authorize [ADMIN], Limiter ''admin'',
        RequirePermission [''taxonomy__manage_service_types'']],
     Route POST ''/'' [Validate ''createServiceType''] ''serviceType.create'',
     Route PATCH ''/:id'' [Validate ''updateServiceType''] ''serviceType.update'']"

definition complaintRoutes :: "layer list" where
  "complaintRoutes = [
     Route GET ''/track/:trackingId'' [Validate ''trackingId''] ''complaint.track'',
     Route GET ''/nearby'' [Validate ''nearby''] ''complaint.nearby'',
     Use [SignedIn],
     Route POST ''/''
       [Authorize [CITIZEN], Validate ''createComplaint'',
        Idempotency ''POST /complaints''] ''complaint.create'',
     Route GET ''/''
       [Authorize [ADMIN, OFFICER], RequirePermission [''complaints__view_all''],
        Validate ''listComplaints''] ''complaint.list'',
     Route GET ''/my'' [Authorize [CITIZEN], Validate ''listComplaints''] ''complaint.listMine'',
     Route GET ''/my-assigned''
       [Authorize [OFFICER], Validate ''listComplaints''] ''complaint.listAssigned'',
     Route GET ''/search'' [Validate ''search''] ''complaint.search'',
     Route GET ''/:id'' [Validate ''complaintId''] ''complaint.getById'',
     Route PATCH ''/:id'' [Authorize [CITIZEN], Validate ''updateComplaint''] ''complaint.update'',
     Route DELETE ''/:id''
       [Authorize [ADMIN], RequirePermission [''complaints__delete''],
        Validate ''complaintId''] ''complaint.remove'',
     Route PATCH ''/:id/status'' [Validate ''changeStatus''] ''complaint.changeStatus'',
     Route POST ''/:id/assign''
       [Authorize [ADMIN], RequirePermission [''complaints__assign''],
        Validate ''assign''] ''complaint.assign'',
     Route POST ''/:id/cancel'' [Authorize [CITIZEN], Validate ''note''] ''complaint.cancel'',
     Route POST ''/:id/reopen'' [Authorize [CITIZEN], Validate ''note''] ''complaint.reopen'',
     Route GET ''/:id/history'' [Validate ''complaintId''] ''complaint.history'',
     Route POST ''/:id/attachments''
       [Other ''uploadImage'', Other ''verifyImage'', Validate ''attachment''] ''complaint.addAttachment'',
     Route POST ''/:id/comments'' [Validate ''comment''] ''complaint.addComment'',
     Route GET ''/:id/comments'' [Validate ''complaintId''] ''complaint.listComments'',
     Route POST ''/:id/upvote'' [Authorize [CITIZEN], Validate ''complaintId''] ''complaint.upvote'',
     Route POST ''/:id/feedback'' [Authorize [CITIZEN], Validate ''feedback''] ''complaint.feedback'']"

definition serviceRequestRoutes :: "layer list" where
  "serviceRequestRoutes = [
     Use [SignedIn],
     Route POST ''/'' [Authorize [CITIZEN], Validate ''createServiceRequest''] ''serviceRequest.create'',
     Route GET ''/my'' [Authorize [CITIZEN], Validate ''listServiceRequests''] ''serviceRequest.listMine'',
     Route GET ''/''
       [Authorize [ADMIN, OFFICER], RequirePermission [''service_requests__view_all''],
        Validate ''listServiceRequests''] ''serviceRequest.list'',
     Route GET ''/:id'' [Validate ''serviceRequestId''] ''serviceRequest.getById'',
     Route PATCH ''/:id/status''
       [Authorize [ADMIN, OFFICER], RequirePermission [''service_requests__process''],
        Validate ''updateServiceRequestStatus''] ''serviceRequest.updateStatus'',
     Route POST ''/:id/documents''
       [Authorize [CITIZEN], Other ''uploadDocument'', Other ''verifyDocument'',
        Validate ''uploadDocument''] ''serviceRequest.addDocument'',
     Route GET ''/:id/documents/:docId'' [Validate ''documentId''] ''serviceRequest.getDocument'']"

definition paymentRoutes :: "layer list" where
  "paymentRoutes = [
     Route POST ''/success'' [Limiter ''callback''] ''payment.success'',
     Route POST ''/fail'' [Limiter ''callback''] ''payment.fail'',
     Route POST ''/cancel'' [Limiter ''callback''] ''payment.cancel'',
     Route POST ''/ipn'' [Limiter ''callback''] ''payment.ipn'',
     Route GET ''/success'' [Limiter ''callback''] ''payment.success'',
     Route GET ''/fail'' [Limiter ''callback''] ''payment.fail'',
     Route GET ''/cancel'' [Limiter ''callback''] ''payment.cancel'',
     Use [SignedIn],
     Route POST ''/initiate''
       [Authorize [CITIZEN], Limiter ''payment'', Validate ''initiatePayment'',
        Idempotency ''POST /payments/initiate''] ''payment.initiate'',
     Route GET ''/my'' [Authorize [CITIZEN], Validate ''listPayments''] ''payment.listMine'',
     Route GET ''/admin/summary''
       [Authorize [ADMIN], RequirePermission [''payments__view_all''],
        Validate ''ledgerSummary''] ''payment.summary'',
     Route GET ''/admin/ledger.csv''
       [Authorize [ADMIN], RequirePermission [''payments__view_all''],
        Validate ''ledgerCsv''] ''payment.ledgerCsv'',
     Route GET ''/admin''
       [Authorize [ADMIN], RequirePermission [''payments__view_all''],
        Validate ''ledger''] ''payment.listAll'',
     Route GET ''/:id'' [Validate ''paymentId''] ''payment.getById'',
     Route GET ''/:id/receipt'' [Validate ''paymentId''] ''payment.receipt'',
     Route POST ''/:id/refund''
       [Authorize [ADMIN], RequirePermission [''payments__refund_request''],
        Validate ''refundRequest''] ''payment.requestRefund'',
     Route PATCH ''/:id/refund/approve''
       [Authorize [ADMIN], SuperAdminOnly, RequirePermission [''payments__refund_approve''],
        Validate ''paymentId''] ''payment.approveRefund'']"

definition notificationRoutes :: "layer list" where
  "notificationRoutes = [
     Use [SignedIn],
     Route GET ''/'' [Validate ''listNotifications''] ''notification.list'',
     Route PATCH ''/read-all'' [] ''notification.markAllRead'',
     Route PATCH ''/:id/read'' [Validate ''notificationId''] ''notification.markRead'']"

definition contactRoutes :: "layer list" where
  "contactRoutes = [
     Route POST ''/'' [Limiter ''contact'', Validate ''createContactMessage''] ''contact.create'',
     Use [SignedIn, Authorize [ADMIN], Limiter ''admin''],
     Route GET ''/''
       [RequirePermission [''contact__manage_messages''],
        Validate ''listContactMessages''] ''contact.list'',
     Route GET ''/:id''
       [RequirePermission [''contact__manage_messages''],
        Validate ''contactMessageId''] ''contact.getById'',
     Route PATCH ''/:id''
       [RequirePermission [''contact__manage_messages''],
        Validate ''updateContactMessage''] ''contact.update'']"

definition adminRoutes :: "layer list" where
  "adminRoutes = [
     Use [SignedIn, Authorize [ADMIN], Limiter ''admin''],
     Route GET ''/users'' [RequirePermission [''users__view''], Validate ''listUsers''] ''admin.listUsers'',
     Route POST ''/officers''
       [RequirePermission [''users__create_officer''], Validate ''createOfficer''] ''admin.createOfficer'',
     Route PATCH ''/users/:id/role''
       [RequirePermission [''users__change_role''], Validate ''updateRole''] ''admin.updateRole'',
     Route PATCH ''/users/:id/status''
       [RequirePermission [''users__change_status''], Validate ''updateStatus''] ''admin.updateStatus'',
     Route DELETE ''/users/:id/sessions''
       [RequirePermission [''users__force_logout''], Validate ''userId''] ''admin.forceLogout'',
     Route POST ''/admins''
       [SuperAdminOnly, RequirePermission [''users__create_admin''],
        Validate ''createAdmin''] ''admin.createAdmin'',
     Route DELETE ''/admins/:id''
       [SuperAdminOnly, RequirePermission [''users__remove_admin''],
        Validate ''userId''] ''admin.removeAdmin'',
     Route PATCH ''/restore/:entity/:id'' [SuperAdminOnly, Validate ''restore''] ''admin.restore'',
     Route GET ''/security-events''
       [SuperAdminOnly, RequirePermission [''oversight__view_security_events''],
        Validate ''securityEvents''] ''admin.securityEvents'',
     Route PATCH ''/settings/:key''
       [SuperAdminOnly, RequirePermission [''oversight__manage_settings''],
        Validate ''settingKey''] ''admin.updateSetting'',
     Route GET ''/dashboard-stats''
       [RequirePermission [''oversight__view_dashboard'']] ''admin.dashboardStats'',
     Route GET ''/audit-logs''
       [RequirePermission [''oversight__view_audit_logs''], Validate ''auditLogs''] ''admin.auditLogs'',
     Route GET ''/reports/sla'' [RequirePermission [''oversight__view_reports'']] ''admin.slaReport'',
     Route GET ''/reports/complaints.csv''
       [RequirePermission [''oversight__view_reports''], Validate ''csvReport''] ''admin.complaintsCsv'',
     Route GET ''/settings'' [] ''admin.listSettings'']"

definition rbacRoutes :: "layer list" where
  "rbacRoutes = [
     Route GET ''/me/permissions'' [SignedIn] ''rbac.myPermissions'',
     Use [SignedIn, Authorize [ADMIN], Limiter ''admin''],
     Route GET ''/permissions''
       [RequirePermission [''access_control__manage_permissions'', ''access_control__manage_roles''],
        Validate ''listPermissions''] ''rbac.listPermissions'',
     Route POST ''/permissions''
       [RequirePermission [''access_control__manage_permissions''],
        Validate ''createPermission''] ''rbac.createPermission'',
     Route PATCH ''/permissions/:id''
       [RequirePermission [''access_control__manage_permissions''],
        Validate ''updatePermission''] ''rbac.updatePermission'',
     Route DELETE ''/permissions/:id''
       [RequirePermission [''access_control__manage_permissions''],
        Validate ''id''] ''rbac.deletePermission'',
     Route GET ''/roles''
       [RequirePermission [''access_control__manage_roles'',
        ''access_control__manage_users'']] ''rbac.listRoles'',
     Route POST ''/roles''
       [RequirePermission [''access_control__manage_roles''], Validate ''createRole''] ''rbac.createRole'',
     Route PATCH ''/roles/:id''
       [RequirePermission [''access_control__manage_roles''], Validate ''updateRole''] ''rbac.updateRole'',
     Route DELETE ''/roles/:id''
       [RequirePermission [''access_control__manage_roles''], Validate ''id''] ''rbac.deleteRole'',
     Route GET ''/users/:id/roles''
       [RequirePermission [''access_control__manage_users''], Validate ''id''] ''rbac.getUserRoles'',
     Route PUT ''/users/:id/roles''
       [RequirePermission [''access_control__manage_users''],
        Validate ''assignUserRoles''] ''rbac.assignUserRoles'']"

definition officerRoutes :: "layer list" where
  "officerRoutes = [
     Route GET ''/stats'' [SignedIn, Authorize [OFFICER]] ''admin.officerStats'']"

definition modules :: "(string \<times> layer list) list" where
  "modules = [
     (''/auth'', authRoutes),
     (''/users'', userRoutes),
     (''/departments'', departmentRoutes),
     (''/categories'', categoryRoutes),
     (''/wards'', wardRoutes),
     (''/zones'', zoneRoutes),
     (''/service-types'', serviceTypeRoutes),
     (''/complaints'', complaintRoutes),
     (''/service-requests'', serviceRequestRoutes),
     (''/payments'', paymentRoutes),
     (''/notifications'', notificationRoutes),
     (''/contact'', contactRoutes),
     (''/admin'', adminRoutes),
     (''/access'', rbacRoutes),
     (''/officer'', officerRoutes)]"

section \<open>A request\<close>

text \<open>The middlewares on the way of a request, and the handler it ends at, if any.\<close>

fun walk :: "(string \<Rightarrow> string \<Rightarrow> bool) \<Rightarrow> verb \<Rightarrow> string \<Rightarrow> layer list \<Rightarrow> guard list \<times> string option" where
  "walk fits v path [] = ([], None)"
| "walk fits v path (Use gs # ls) = (case walk fits v path ls of (rest, h) \<Rightarrow> (gs @ rest, h))"
| "walk fits v path (Route u p gs h # ls) =
     (if u = v \<and> fits p path then (gs, Some h) else walk fits v path ls)"

text \<open>What a request brings along, and what the middlewares do that this theory does not look into.\<close>

record gate =
  gt_verify :: "string \<Rightarrow> instant \<Rightarrow> exn + accessPayload"
  gt_header :: "string option"
  gt_google :: bool
  gt_other :: "guard \<Rightarrow> unit act"

fun passGuard :: "gate \<Rightarrow> guard \<Rightarrow> user option \<Rightarrow> user option act" where
  "passGuard G SignedIn u = bindM (auth (gt_verify G) (gt_header G)) (\<lambda>s. returnM (Some (si_user s)))"
| "passGuard G (Authorize roles) u = thenM (authorize roles u) (returnM u)"
| "passGuard G SuperAdminOnly u = thenM (superAdminOnly u) (returnM u)"
| "passGuard G (RequirePermission codes) u = thenM (requirePermission codes u) (returnM u)"
| "passGuard G RequireGoogle u =
     thenM (throwIf (\<not> gt_google G) (apiError 503 ''Google login is not configured''
       [det ''SERVICE_UNAVAILABLE'' ''GOOGLE_CLIENT_ID and GOOGLE_CLIENT_SECRET are not set''])) (returnM u)"
| "passGuard G g u = thenM (gt_other G g) (returnM u)"

fun passAll :: "gate \<Rightarrow> guard list \<Rightarrow> user option \<Rightarrow> user option act" where
  "passAll G [] u = returnM u"
| "passAll G (g # gs) u = bindM (passGuard G g u) (passAll G gs)"

text \<open>The user, if one has signed in, and the handler that is about to run.\<close>

definition enter ::
  "gate \<Rightarrow> (string \<Rightarrow> string \<Rightarrow> bool) \<Rightarrow> verb \<Rightarrow> string \<Rightarrow> layer list \<Rightarrow> (user option \<times> string option) act" where
  "enter G fits v path ls =
     (case walk fits v path ls of (gs, h) \<Rightarrow> bindM (passAll G gs None) (\<lambda>u. returnM (u, h)))"

end
