(* ===== verification/RouteProps.thy ===== *)
theory RouteProps
  imports Routes RbacProps
begin

text \<open>
  The properties of the routers: who gets as far as a handler. What the express walk can reach is a list
  computed from the declarations; the rest is what the middlewares on the way decide.
\<close>

section \<open>What a router can reach\<close>

fun chains :: "guard list \<Rightarrow> layer list \<Rightarrow> (guard list \<times> string) list" where
  "chains pre [] = []"
| "chains pre (Use gs # ls) = chains (pre @ gs) ls"
| "chains pre (Route v p gs h # ls) = (pre @ gs, h) # chains pre ls"

lemma walk_chain: "walk fits v path ls = (gs, Some h) \<Longrightarrow> (pre @ gs, h) \<in> set (chains pre ls)"
proof (induction ls arbitrary: pre gs)
  case (Cons l ls)
  show ?case
  proof (cases l)
    case (Use us)
    obtain rest k where r: "walk fits v path ls = (rest, k)" by (cases "walk fits v path ls")
    with Cons.prems Use have "gs = us @ rest" "k = Some h" by simp_all
    with Cons.IH [of rest "pre @ us"] Use r show ?thesis by simp
  next
    case (Route u p us k)
    with Cons show ?thesis by (auto split: if_splits)
  qed
qed simp

definition reachable :: "(guard list \<times> string) list" where
  "reachable = concat (map (\<lambda>m. chains [] (snd m)) modules)"

lemma walk_reachable:
  assumes "m \<in> set modules" and "walk fits v path (snd m) = (gs, Some h)"
  shows "(gs, h) \<in> set reachable"
  using walk_chain [OF assms(2), of "[]"] assms(1) by (auto simp: reachable_def)

text \<open>Middlewares that neither set nor ask the user.\<close>

fun anonymous :: "guard \<Rightarrow> bool" where
  "anonymous SignedIn = False"
| "anonymous (Authorize rs) = False"
| "anonymous SuperAdminOnly = False"
| "anonymous (RequirePermission cs) = False"
| "anonymous g = True"

text \<open>The permissions a chain asks for are in the catalogue, and come behind a sign-in for staff only.\<close>

fun asks :: "guard \<Rightarrow> string list option" where
  "asks (RequirePermission cs) = Some cs"
| "asks g = None"

definition staffFirst :: "guard list \<Rightarrow> bool" where
  "staffFirst gs \<longleftrightarrow>
     list_all (\<lambda>g. case asks g of None \<Rightarrow> True | Some cs \<Rightarrow> list_all (\<lambda>c. c \<in> set PERMISSIONS) cs) gs \<and>
     (list_ex (\<lambda>g. asks g \<noteq> None) gs \<longrightarrow>
       list_all anonymous (takeWhile (\<lambda>g. g \<noteq> SignedIn) gs) \<and>
       SignedIn \<in> set gs \<and> SignedIn \<notin> set (tl (dropWhile (\<lambda>g. g \<noteq> SignedIn) gs)) \<and>
       list_ex (\<lambda>g. g = Authorize [ADMIN] \<or> g = Authorize [ADMIN, OFFICER]) gs)"

lemma reachable_staffFirst: "list_all (\<lambda>c. staffFirst (fst c)) reachable"
  by code_simp

definition publicHandlers :: "string list" where
  "publicHandlers =
    [''auth.register'', ''auth.verifyOtp'', ''auth.resendOtp'', ''auth.login'', ''auth.verifyLoginOtp'',
     ''auth.resendLoginOtp'', ''auth.magicLogin'', ''auth.refreshToken'', ''auth.logoutBeacon'',
     ''auth.forgotPassword'', ''auth.resetPassword'', ''auth.google'', ''auth.googleCallback'',
     ''auth.googleToken'', ''department.list'', ''category.list'', ''ward.list'', ''zone.list'',
     ''serviceType.list'', ''complaint.track'', ''complaint.nearby'', ''payment.success'', ''payment.fail'',
     ''payment.cancel'', ''payment.ipn'', ''contact.create'']"

lemma reachable_public:
  "list_all (\<lambda>c. SignedIn \<in> set (fst c) \<or> snd c \<in> set publicHandlers \<and> list_all anonymous (fst c)) reachable"
  by code_simp

section \<open>What the middlewares decide\<close>

lemma passAll_append: "passAll G (as @ bs) u = bindM (passAll G as u) (passAll G bs)"
  by (induction as arbitrary: u) (simp_all add: fun_eq_iff eval split: prod.split sum.split)

text \<open>Nothing a guard reads to decide changes on the way.\<close>

definition sameAccess :: "world \<Rightarrow> world \<Rightarrow> bool" where
  "sameAccess w w' \<longleftrightarrow> users w' = users w \<and> permissions w' = permissions w \<and> accessRoles w' = accessRoles w \<and>
     accessRolePermissions w' = accessRolePermissions w \<and> userAccessRoles w' = userAccessRoles w \<and>
     redisUp w' = redisUp w \<and> clock w' = clock w \<and> uuidPos w \<le> uuidPos w' \<and>
     (\<forall>u. redis w' (permKey u) = redis w (permKey u))"

lemma sameAccess_trans: "sameAccess u v \<Longrightarrow> sameAccess v w \<Longrightarrow> sameAccess u w"
  by (simp add: sameAccess_def)

definition sameTables :: "world \<Rightarrow> world \<Rightarrow> bool" where
  "sameTables w w' \<longleftrightarrow> users w' = users w \<and> permissions w' = permissions w \<and> accessRoles w' = accessRoles w \<and>
     accessRolePermissions w' = accessRolePermissions w \<and> userAccessRoles w' = userAccessRoles w"

lemma sameTables_grants: "sameTables w w' \<Longrightarrow> grants w' = grants w \<and> liveUsers w' = liveUsers w"
  by (simp add: sameTables_def grants_def holdsRole_def fun_eq_iff live_defs)

lemma inv_same:
  assumes "accessInv L w" and "sameAccess w w'"
  shows "accessInv L w' \<and> sameTables w w'"
proof -
  have tables: "sameTables w w'" using assms(2) by (simp add: sameAccess_def sameTables_def)
  have codes: "storedCodes u rl w' = storedCodes u rl w" for u rl
    using assms(2) by (intro storedCodes_cong) (simp_all add: sameAccess_def)
  have "cacheGood w'"
    using assms sameTables_grants [OF tables] codes unfolding accessInv_def cacheGood_def sameAccess_def
    by (metis order_refl perm.untouched)
  moreover have "accessGood L w'"
    using assms drawn_mono [of w w' L] by (auto simp: accessInv_def accessGood_def sameAccess_def)
  ultimately show ?thesis using assms tables by (simp add: accessInv_def sameAccess_def)
qed

text \<open>The signed-in user is a live row of the table.\<close>

definition known :: "world \<Rightarrow> user option \<Rightarrow> bool" where
  "known w u \<longleftrightarrow> (\<forall>x. u = Some x \<longrightarrow> find (\<lambda>y. u_id y = u_id x) (liveUsers w) = Some x)"

text \<open>What a guard has established when it lets the request pass.\<close>

fun vouched :: "world \<Rightarrow> user option \<Rightarrow> guard \<Rightarrow> bool" where
  "vouched w u (Authorize rs) = (\<exists>x. u = Some x \<and> u_role x \<in> set rs)"
| "vouched w u SuperAdminOnly = (\<exists>x. u = Some x \<and> u_role x = ADMIN \<and> u_isSuperAdmin x)"
| "vouched w u (RequirePermission cs) =
     (\<exists>x. u = Some x \<and> (u_isSuperAdmin x \<or> (\<exists>c \<in> set cs. grants w x c)))"
| "vouched w u g = True"

lemma permission_passed:
  assumes "requirePermission cs u w = (Inr (), w')" and "accessInv L w" and "known w u"
  shows "vouched w u (RequirePermission cs) \<and> accessInv L w' \<and> sameTables w w'"
proof -
  obtain x where u: "u = Some x" using assms(1) by (cases u) (simp_all add: requirePermission_def requireUser_def eval)
  with assms(3) have x: "find (\<lambda>y. u_id y = u_id x) (liveUsers w) = Some x" by (simp add: known_def)
  show ?thesis
  proof (cases "u_isSuperAdmin x")
    case True
    then show ?thesis using assms(1,2) u by (simp add: requirePermission_def requireUser_def eval sameTables_def)
  next
    case False
    obtain v where v: "getUserPermissions (u_id x) (u_role x) w = (Inr (remdups (storedCodes (u_id x) (u_role x) w)), v)"
      using asked [OF assms(2) x] by (metis prod.collapse)
    then have "v = w'" and "\<exists>c \<in> set cs. c \<in> set (storedCodes (u_id x) (u_role x) w)"
      using assms(1) u False by (auto simp: requirePermission_def requireUser_def eval list_ex_iff split: if_splits)
    moreover obtain r where "snd (getUserPermissions (u_id x) (u_role x) w) = w\<lparr>redis := r\<rparr>"
      by (rule getUserPermissions_run [of "u_id x" "u_role x" w]) blast
    moreover have "cacheGood (snd (getUserPermissions (u_id x) (u_role x) w))"
      using assms(2) x by (intro cache_ask) (simp_all add: accessInv_def)
    ultimately show ?thesis
      using u v assms(2) stored_iff [OF assms(2), of _ x]
      by (auto simp: accessInv_def accessGood_def drawnIds_def sameTables_def)
  qed
qed

lemma same_tables_trans:
  assumes "sameTables u v" and "sameTables v w"
  shows "sameTables u w"
  using assms by (simp add: sameTables_def)

lemma known_same: "sameTables w v \<Longrightarrow> known v u = known w u"
  by (simp add: known_def sameTables_grants)

lemma vouched_same: "sameTables w v \<Longrightarrow> vouched v u g = vouched w u g"
  by (cases g) (simp_all add: sameTables_grants)

lemma guard_passed:
  assumes "passGuard G g u w = (Inr u', w')" and "g \<noteq> SignedIn" and "accessInv L w" and "known w u"
    and "\<forall>g. related sameAccess (gt_other G g)"
  shows "u' = u \<and> vouched w u g \<and> accessInv L w' \<and> sameTables w w'"
proof -
  have other: "accessInv L w' \<and> sameTables w w'" if "gt_other G g' w = (x, w')" for g' x
    using relatedD [of sameAccess "gt_other G g'" w x w'] assms(5) that by (intro inv_same [OF assms(3)]) blast
  have same: "sameTables w w" by (simp add: sameTables_def)
  show ?thesis
  proof (cases g)
    case (RequirePermission cs)
    then have "u' = u" "requirePermission cs u w = (Inr (), w')"
      using assms(1) by (auto simp: eval split: prod.splits sum.splits)
    then show ?thesis using RequirePermission permission_passed [OF _ assms(3,4)] by simp
  next
    case (Authorize rs)
    then show ?thesis using assms(1,3) same
      by (cases u) (auto simp: authorize_def requireUser_def eval split: if_splits)
  next
    case SuperAdminOnly
    then show ?thesis using assms(1,3) same
      by (cases u) (auto simp: superAdminOnly_def requireUser_def eval split: if_splits)
  next
    case RequireGoogle
    then show ?thesis using assms(1,3) same by (auto simp: eval split: if_splits)
  qed (use assms(1,2) in \<open>auto simp: eval dest: other split: prod.splits sum.splits\<close>)
qed

lemma all_passed:
  assumes "passAll G gs u w = (Inr u', w')" and "SignedIn \<notin> set gs" and "accessInv L w" and "known w u"
    and "\<forall>g. related sameAccess (gt_other G g)"
  shows "u' = u \<and> (\<forall>g \<in> set gs. vouched w u g) \<and> accessInv L w' \<and> sameTables w w'"
  using assms(1-4)
proof (induction gs arbitrary: w)
  case (Cons g gs)
  from Cons.prems(1) obtain u1 v where g: "passGuard G g u w = (Inr u1, v)" and r: "passAll G gs u1 v = (Inr u', w')"
    by (auto elim: bindM_InrE)
  have one: "u1 = u \<and> vouched w u g \<and> accessInv L v \<and> sameTables w v"
    using Cons.prems by (intro guard_passed [OF g _ _ _ assms(5)]) auto
  have kv: "known v u" using Cons.prems(4) one sameTables_grants [of w v] by (simp add: known_def)
  have "u' = u \<and> (\<forall>g \<in> set gs. vouched v u g) \<and> accessInv L w' \<and> sameTables v w'"
    using Cons.IH [of v] Cons.prems(2) one kv r by simp
  with one show ?case using vouched_same [of w v] same_tables_trans [of w v w'] by auto
qed (simp add: eval sameTables_def)

lemma signed_in:
  assumes "auth verify header w = (Inr s, w')" and "accessInv L w"
  shows "accessInv L w' \<and> sameTables w w' \<and> known w (Some (si_user s)) \<and> bearer header \<noteq> None"
proof -
  obtain p r where a: "bearer header \<noteq> None" "authUser p (w\<lparr>redis := r\<rparr>) = (Inr s, w')"
    "\<forall>k. k \<noteq> KEYS_session (ap_sid p) \<longrightarrow> r k = redis w k" using auth_InrE [OF assms(1)] by blast
  have "permKey u \<noteq> KEYS_session i" for u i by (simp add: permKey_def KEYS_session_def)
  then have same: "sameAccess w (w\<lparr>redis := r\<rparr>)" using a(3) by (simp add: sameAccess_def)
  have live: "liveUsers (w\<lparr>redis := r\<rparr>) = liveUsers w" by (simp add: live_defs)
  have "w' = w\<lparr>redis := r\<rparr>" and "find (\<lambda>u. u_id u = ap_sub p) (liveUsers w) = Some (si_user s)"
    using a(2) live unfolding authUser_def
    by (cases "find (\<lambda>u. u_id u = ap_sub p) (liveUsers w)"; auto simp: eval split: if_splits)+
  moreover from this(2) have "u_id (si_user s) = ap_sub p" by (auto dest: find_Some_in)
  ultimately show ?thesis using inv_same [OF assms(2) same] a(1) by (simp add: known_def)
qed

section \<open>The properties\<close>

lemma enter_InrE:
  assumes "enter G fits v path ls w = (Inr (u, h), w')"
  obtains gs where "walk fits v path ls = (gs, h)" and "passAll G gs None w = (Inr u, w')"
  using assms by (cases "walk fits v path ls") (auto simp: enter_def eval split: prod.splits sum.splits)

lemma sign_in_split:
  assumes "SignedIn \<in> set gs"
  obtains pre post where "gs = pre @ SignedIn # post" and "takeWhile (\<lambda>g. g \<noteq> SignedIn) gs = pre"
    and "tl (dropWhile (\<lambda>g. g \<noteq> SignedIn) gs) = post"
proof -
  obtain pre post where gs: "gs = pre @ SignedIn # post" "SignedIn \<notin> set pre"
    using split_list_first [OF assms] by blast
  then have "takeWhile (\<lambda>g. g \<noteq> SignedIn) gs = pre" "tl (dropWhile (\<lambda>g. g \<noteq> SignedIn) gs) = post"
    by (induction pre arbitrary: gs) auto
  with gs(1) show thesis by (rule that)
qed

text \<open>A chain with one sign-in: the user is known, and every guard behind the sign-in vouches for it.\<close>

lemma signed_chain:
  assumes "passAll G (pre @ SignedIn # post) None w = (Inr u, w')" and "\<forall>g \<in> set pre. anonymous g"
    and "SignedIn \<notin> set post" and "accessInv L w" and "\<forall>g. related sameAccess (gt_other G g)"
  shows "\<exists>x. u = Some x \<and> known w u \<and> (\<forall>g \<in> set post. vouched w u g)"
proof -
  obtain u1 w1 s w2 where one: "passAll G pre None w = (Inr u1, w1)"
    and a: "auth (gt_verify G) (gt_header G) w1 = (Inr s, w2)"
    and post: "passAll G post (Some (si_user s)) w2 = (Inr u, w')"
    using assms(1) by (auto simp: passAll_append elim!: bindM_InrE returnM_InrE)
  have "SignedIn \<notin> set pre" using assms(2) by force
  then have inv: "accessInv L w1" "sameTables w w1"
    using all_passed [OF one _ assms(4) _ assms(5)] by (simp_all add: known_def)
  note two = signed_in [OF a inv(1)]
  then have "u = Some (si_user s)" "\<forall>g \<in> set post. vouched w2 u g"
    using all_passed [OF post assms(3) _ _ assms(5), of L] known_same [of w1 w2] by auto
  moreover have tables: "sameTables w w2" using two same_tables_trans [OF inv(2)] by blast
  moreover have "known w (Some (si_user s))" using two known_same [OF inv(2)] by simp
  ultimately show ?thesis using vouched_same [OF tables] by simp
qed

lemma no_token:
  assumes "passAll G gs u w = (Inr u', w')" and "bearer (gt_header G) = None"
  shows "SignedIn \<notin> set gs"
  using assms(1)
proof (induction gs arbitrary: u w)
  case (Cons g gs)
  have "fst (passGuard G SignedIn u w) \<noteq> Inr x" for x
    using assms(2) by (simp add: auth_def eval)
  with Cons show ?case by (auto elim!: bindM_InrE simp del: passGuard.simps) (metis fst_conv)
qed simp

lemma anonymous_chain: "passAll G gs u w = (Inr u', w') \<Longrightarrow> list_all anonymous gs \<Longrightarrow> u' = u"
proof (induction gs arbitrary: w)
  case (Cons g gs)
  then obtain u1 v where g: "passGuard G g u w = (Inr u1, v)" and r: "passAll G gs u1 v = (Inr u', w')"
    by (auto elim: bindM_InrE)
  have "u1 = u" using g Cons.prems(2) by (cases g) (auto simp: eval split: if_splits prod.splits sum.splits)
  with Cons r show ?case by simp
qed (simp add: eval)

text \<open>Karima's session on the console, where the role of the admins may assign complaints.\<close>

definition signedConsole :: world where
  "signedConsole = console\<lparr>sessions := [\<lparr>se_id = ''s'', se_userId = ''adm'', se_ip = None, se_userAgent = None,
     se_deviceName = None, se_lastUsedAt = 0, se_expiresAt = 1000, se_revokedAt = None, se_revokedReason = None,
     se_createdAt = 0\<rparr>]\<rparr>"

definition karimasRequest :: gate where
  "karimasRequest = \<lparr>gt_verify = (\<lambda>_ _. Inr \<lparr>ap_sub = ''adm'', ap_role = ADMIN, ap_sid = ''s'', ap_jti = ''j'',
     ap_iat = 0, ap_exp = 1000\<rparr>), gt_header = Some ''Bearer t'', gt_google = True, gt_other = (\<lambda>_. returnM ())\<rparr>"

lemma assign_walk: "walk (=) POST ''/:id/assign'' complaintRoutes =
    ([SignedIn, Authorize [ADMIN], RequirePermission [''complaints__assign''], Validate ''assign''], Some ''complaint.assign'')"
  by code_simp

lemma signedConsole_inv: "accessInv authLib signedConsole"
  using inv_same [OF console_inv, of signedConsole] by (simp add: sameAccess_def signedConsole_def)

lemma karima_signs_in: "\<exists>r s. auth (gt_verify karimasRequest) (gt_header karimasRequest) signedConsole =
    (Inr s, signedConsole\<lparr>redis := r\<rparr>) \<and> si_user s = karima False \<and> r (permKey ''adm'') = None"
proof -
  have "bearer (Some ''Bearer t'') = Some ''t''" by code_simp
  moreover have "permKey ''adm'' \<noteq> KEYS_session ''s''" by (simp add: permKey_def KEYS_session_def)
  ultimately show ?thesis
    by (simp add: karimasRequest_def auth_def authUser_def eval redisExists_def redisCmd_def orElse_def
        cachedVal_def sessionRow_def redisGet_def redisSetEx_def redisPut_def redisLive_def isPosInt_def
        CACHE_TTL_session_def signedConsole_def console_def empty_world_def live_defs karima_def rahim_def)
qed

lemma karima_enters: "\<exists>w'. enter karimasRequest (=) POST ''/:id/assign'' complaintRoutes signedConsole =
    (Inr (Some (karima False), Some ''complaint.assign''), w')"
proof -
  obtain r s where a: "auth (gt_verify karimasRequest) (gt_header karimasRequest) signedConsole =
      (Inr s, signedConsole\<lparr>redis := r\<rparr>)" "si_user s = karima False" "r (permKey ''adm'') = None"
    using karima_signs_in by blast
  let ?v = "signedConsole\<lparr>redis := r\<rparr>"
  have "storedCodes ''adm'' ADMIN ?v = [''complaints__assign'']"
    by (simp add: storedCodes_def rolesOf_def fallbackRole_def roleCodes_def rolePermissions_def signedConsole_def
        console_def empty_world_def auditor_def mayAssign_def)
  moreover have "redisLive ?v (permKey ''adm'') = None" using a(3) by (simp add: redisLive_def)
  ultimately have "fst (getUserPermissions ''adm'' ADMIN ?v) = Inr [''complaints__assign'']"
    using coherent_codes [OF perm.dropped] by fastforce
  then obtain v where g: "getUserPermissions ''adm'' ADMIN ?v = (Inr [''complaints__assign''], v)"
    by (metis prod.collapse)
  show ?thesis
    unfolding enter_def assign_walk
    using a by (simp add: eval authorize_def requireUser_def requirePermission_def g) (simp add: karimasRequest_def eval)
qed



text \<open>Without a bearer token nobody gets further than the public handlers: signing up and logging in, the
  lists of the master data, tracking and the map, the callbacks of the gateway and the contact form. On
  any other method and path the request ends before a handler, whatever else it carries.\<close>

theorem only_public_handlers_without_a_token:
  assumes "m \<in> set modules" and "bearer (gt_header G) = None"
    and "enter G fits v path (snd m) w = (Inr (u, Some h), w')"
  shows "h \<in> set publicHandlers \<and> u = None"
proof -
  obtain gs where gs: "walk fits v path (snd m) = (gs, Some h)" and pass: "passAll G gs None w = (Inr u, w')"
    using assms(3) by (rule enter_InrE)
  have "SignedIn \<notin> set gs" using no_token [OF pass assms(2)] .
  moreover have "SignedIn \<in> set gs \<or> h \<in> set publicHandlers \<and> list_all anonymous gs"
    using reachable_public walk_reachable [OF assms(1) gs] by (fastforce simp: list_all_iff)
  ultimately show ?thesis using anonymous_chain [OF pass] by simp
qed

theorem only_public_handlers_without_a_token_witness:
  "\<exists>w'. enter (karimasRequest\<lparr>gt_header := None\<rparr>) (=) GET ''/nearby'' complaintRoutes console =
     (Inr (None, Some ''complaint.nearby''), w') \<and> ''complaint.nearby'' \<in> set publicHandlers"
proof -
  have "walk (=) GET ''/nearby'' complaintRoutes = ([Validate ''nearby''], Some ''complaint.nearby'')" by code_simp
  then have "enter (karimasRequest\<lparr>gt_header := None\<rparr>) (=) GET ''/nearby'' (snd (''/complaints'', complaintRoutes)) console =
      (Inr (None, Some ''complaint.nearby''), console)"
    by (simp add: enter_def eval karimasRequest_def)
  with only_public_handlers_without_a_token [OF _ _ this] show ?thesis by (simp add: modules_def bearer_def)
qed

end
