(* ===== verification/Http.thy ===== *)
theory Http
  imports Utils
begin

text \<open>
  What the services are wrapped in: the error handler every failed request ends in
  (\<^verbatim>\<open>middlewares/globalErrorHandler.ts\<close>), the success envelope (\<^verbatim>\<open>utils/sendResponse.ts\<close>), validation
  (\<^verbatim>\<open>middlewares/validateRequest.ts\<close>) and the replay of an idempotent request
  (\<^verbatim>\<open>middlewares/idempotency.ts\<close>).
\<close>

section \<open>The error handler\<close>

record mapped =
  mp_statusCode :: int
  mp_message :: string
  mp_errors :: "detail list"

definition fromZod :: "(string \<times> string) list \<Rightarrow> mapped" where
  "fromZod issues =
     \<lparr>mp_statusCode = 400, mp_message = ''Validation failed'',
      mp_errors = map (\<lambda>(path, message). detF path ''VALIDATION_ERROR'' message) issues\<rparr>"

fun hasInfix :: "string \<Rightarrow> string \<Rightarrow> bool" where
  "hasInfix pat [] = (pat = [])"
| "hasInfix pat (c # s) = (starts_with pat (c # s) \<or> hasInfix pat s)"

definition fromPrisma :: "string \<Rightarrow> string list \<Rightarrow> mapped" where
  "fromPrisma code target =
     (let field = join_with '', '' target; shown = (if field = [] then ''Value'' else field) in
      if code = ''P2002'' then
        \<lparr>mp_statusCode = 409, mp_message = shown @ '' already exists'',
         mp_errors = [\<lparr>d_field = (if field = [] then None else Some field),
            d_code = Some (if hasInfix ''email'' field then ''EMAIL_EXISTS'' else ''CONFLICT''),
            d_message = Some (shown @ '' already exists'')\<rparr>]\<rparr>
      else if code = ''P2025'' then
        \<lparr>mp_statusCode = 404, mp_message = ''Record not found'',
         mp_errors = [det ''NOT_FOUND'' ''Record not found'']\<rparr>
      else if code = ''P2003'' then
        \<lparr>mp_statusCode = 400, mp_message = ''Invalid reference id'',
         mp_errors = [det ''VALIDATION_ERROR'' ''Invalid reference id'']\<rparr>
      else
        \<lparr>mp_statusCode = 400, mp_message = ''Database request failed'',
         mp_errors = [det ''VALIDATION_ERROR'' (''Prisma error '' @ code)]\<rparr>)"

definition fromMulter :: "string \<Rightarrow> string option \<Rightarrow> string \<Rightarrow> mapped" where
  "fromMulter code field message =
     (let tooLarge = (code = ''LIMIT_FILE_SIZE'') in
      \<lparr>mp_statusCode = (if tooLarge then 413 else 400),
       mp_message = (if tooLarge then ''File too large'' else ''Invalid file upload''),
       mp_errors = [\<lparr>d_field = field, d_code = Some ''PAYLOAD_TOO_LARGE'', d_message = Some message\<rparr>]\<rparr>)"

definition internalError :: mapped where
  "internalError =
     \<lparr>mp_statusCode = 500, mp_message = ''Something went wrong'',
      mp_errors = [det ''INTERNAL_ERROR'' ''Something went wrong'']\<rparr>"

text \<open>A violated check and a failing Redis command are not known-request errors of Prisma.\<close>

fun mapError :: "exn \<Rightarrow> mapped" where
  "mapError (ApiErr status message errs) =
     \<lparr>mp_statusCode = status, mp_message = message, mp_errors = errs\<rparr>"
| "mapError (ZodErr issues) = fromZod issues"
| "mapError (PrismaKnown code target) = fromPrisma code target"
| "mapError PrismaValidation =
     \<lparr>mp_statusCode = 400, mp_message = ''Invalid database query'',
      mp_errors = [det ''VALIDATION_ERROR'' ''Invalid query arguments'']\<rparr>"
| "mapError (MulterErr code field message) = fromMulter code field message"
| "mapError JwtExpired =
     \<lparr>mp_statusCode = 401, mp_message = ''Token expired'', mp_errors = [det ''TOKEN_EXPIRED'' ''Token expired'']\<rparr>"
| "mapError JwtInvalid =
     \<lparr>mp_statusCode = 401, mp_message = ''Invalid token'', mp_errors = [det ''TOKEN_INVALID'' ''Invalid token'']\<rparr>"
| "mapError JsonSyntax =
     \<lparr>mp_statusCode = 400, mp_message = ''Malformed JSON body'',
      mp_errors = [det ''VALIDATION_ERROR'' ''Request body is not valid JSON'']\<rparr>"
| "mapError (DbCheck c) = internalError"
| "mapError RedisErr = internalError"
| "mapError (OtherErr s) = internalError"

record response =
  rs_status :: int
  rs_body :: json
  rs_replayed :: bool

definition detailJson :: "detail \<Rightarrow> json" where
  "detailJson d = JObj
     ((case d_field d of None \<Rightarrow> [] | Some f \<Rightarrow> [(''field'', JStr f)]) @
      (case d_code d of None \<Rightarrow> [] | Some c \<Rightarrow> [(''code'', JStr c)]) @
      (case d_message d of None \<Rightarrow> [] | Some m \<Rightarrow> [(''message'', JStr m)]))"

text \<open>\<open>stack\<close> is what the thrown value carries as its stack trace, if anything.\<close>

definition globalErrorHandler :: "bool \<Rightarrow> string \<Rightarrow> exn \<Rightarrow> string option \<Rightarrow> response" where
  "globalErrorHandler isProd requestId err stack =
     (let m = mapError err in
      \<lparr>rs_status = mp_statusCode m,
       rs_body = JObj
         ([(''success'', JBool False), (''message'', JStr (mp_message m)),
           (''errors'', JArr (map detailJson (mp_errors m))), (''requestId'', JStr requestId)] @
          (if \<not> isProd \<and> 500 \<le> mp_statusCode m
           then (case stack of None \<Rightarrow> [] | Some s \<Rightarrow> [(''stack'', JStr s)]) else [])),
       rs_replayed = False\<rparr>)"

section \<open>Success and validation\<close>

definition sendResponse :: "int option \<Rightarrow> string \<Rightarrow> json option \<Rightarrow> json option \<Rightarrow> response" where
  "sendResponse statusCode message data meta =
     \<lparr>rs_status = (case statusCode of None \<Rightarrow> 200 | Some s \<Rightarrow> s),
      rs_body = JObj
        ([(''success'', JBool True), (''message'', JStr message),
          (''data'', case data of None \<Rightarrow> JNull | Some d \<Rightarrow> d)] @
         (case meta of None \<Rightarrow> [] | Some m \<Rightarrow> [(''meta'', m)])),
      rs_replayed = False\<rparr>"

text \<open>\<open>parse\<close> is the schema: the issues it finds, or the request as the handler gets to see it.\<close>

definition validateRequest :: "('r \<Rightarrow> (string \<times> string) list + 'v) \<Rightarrow> 'r \<Rightarrow> 'v act" where
  "validateRequest parse req =
     (case parse req of Inl issues \<Rightarrow> throwM (ZodErr issues) | Inr v \<Rightarrow> returnM v)"

section \<open>Idempotent requests\<close>

text \<open>The body of a validated request is never \<open>undefined\<close>.\<close>

definition hashBody :: "lib \<Rightarrow> json \<Rightarrow> string" where
  "hashBody L body = sha256 L (stringify L body)"

definition TTL_HOURS :: int where
  "TTL_HOURS = 24"

definition isKey :: "string \<Rightarrow> string \<Rightarrow> string \<Rightarrow> idempotencyKey \<Rightarrow> bool" where
  "isKey key userId endpoint r \<longleftrightarrow> ik_key r = key \<and> ik_userId r = userId \<and> ik_endpoint r = endpoint"

definition findKey :: "string \<Rightarrow> string \<Rightarrow> string \<Rightarrow> world \<Rightarrow> idempotencyKey option" where
  "findKey key userId endpoint w = find (isKey key userId endpoint) (idempotencyKeys w)"

text \<open>The upsert that opens a run; an \<open>undefined\<close> response body leaves the stored one.\<close>

definition openKey :: "lib \<Rightarrow> string \<Rightarrow> string \<Rightarrow> string \<Rightarrow> string \<Rightarrow> unit act" where
  "openKey L key userId endpoint requestHash =
     bindM (getsM clock) (\<lambda>now.
     bindM (getsM (findKey key userId endpoint)) (\<lambda>found.
     case found of
       Some _ \<Rightarrow> thenM (updateRow idempotencyKeys idempotencyKeys_update (isKey key userId endpoint)
         (\<lambda>r. r\<lparr>ik_requestHash := requestHash, ik_statusCode := None,
               ik_expiresAt := now + TTL_HOURS * 3600000\<rparr>)) (returnM ())
     | None \<Rightarrow> bindM (freshId L) (\<lambda>i.
         thenM (insertRow idempotencyKeys_update
           \<lparr>ik_id = i, ik_key = key, ik_userId = userId, ik_endpoint = endpoint,
            ik_requestHash = requestHash, ik_responseBody = None, ik_statusCode = None,
            ik_expiresAt = now + TTL_HOURS * 3600000, ik_createdAt = now\<rparr>) (returnM ()))))"

text \<open>What the hooked \<open>res.json\<close> stores of the handler's answer.\<close>

definition closeKey :: "string \<Rightarrow> string \<Rightarrow> string \<Rightarrow> response \<Rightarrow> unit act" where
  "closeKey key userId endpoint r =
     (if 400 \<le> rs_status r
      then thenM (deleteMany idempotencyKeys idempotencyKeys_update (isKey key userId endpoint)) (returnM ())
      else orElse (thenM (updateRow idempotencyKeys idempotencyKeys_update (isKey key userId endpoint)
        (\<lambda>k. k\<lparr>ik_statusCode := Some (rs_status r), ik_responseBody := Some (rs_body r)\<rparr>)) (returnM ())) ())"

text \<open>
  The middleware around a handler: an answer, or a thrown value that the error handler turns into one
  (\<open>onError\<close>), is stored through the hooked \<open>res.json\<close>. The code does not wait
  for the storing; the model has it done when the request is.
\<close>

definition runKeyed ::
  "lib \<Rightarrow> (exn \<Rightarrow> response) \<Rightarrow> string \<Rightarrow> string \<Rightarrow> string \<Rightarrow> string \<Rightarrow> response act \<Rightarrow> response act" where
  "runKeyed L onError key userId endpoint requestHash handler =
     thenM (openKey L key userId endpoint requestHash)
     (bindM (catchM handler (\<lambda>e. returnM (onError e))) (\<lambda>r.
      thenM (closeKey key userId endpoint r) (returnM r)))"

definition idempotency ::
  "lib \<Rightarrow> (exn \<Rightarrow> response) \<Rightarrow> string \<Rightarrow> string option \<Rightarrow> string option \<Rightarrow> json \<Rightarrow>
   response act \<Rightarrow> response act" where
  "idempotency L onError endpoint header user body handler =
     (case (header, user) of
        (Some key, Some userId) \<Rightarrow>
          if key = [] then handler
          else
            thenM (throwIf (255 < length key)
              (apiError 400 ''Validation failed'' [detF ''Idempotency-Key'' ''VALIDATION_ERROR'' ''Key is too long'']))
            (bindM (getsM (findKey key userId endpoint)) (\<lambda>existing.
             bindM (getsM clock) (\<lambda>now.
             case (case existing of None \<Rightarrow> None | Some r \<Rightarrow> if now < ik_expiresAt r then Some r else None) of
               None \<Rightarrow> runKeyed L onError key userId endpoint (hashBody L body) handler
             | Some r \<Rightarrow>
                 if ik_requestHash r \<noteq> hashBody L body then
                   throwM (apiError 422 ''Idempotency key was already used with a different body''
                     [det ''IDEMPOTENCY_MISMATCH'' ''Key reused with a different payload''])
                 else (case (ik_responseBody r, ik_statusCode r) of
                   (Some b, Some s) \<Rightarrow> returnM \<lparr>rs_status = s, rs_body = b, rs_replayed = True\<rparr>
                 | _ \<Rightarrow> runKeyed L onError key userId endpoint (hashBody L body) handler))))
      | _ \<Rightarrow> handler)"

end
