(* ===== verification/Handlers.thy ===== *)
theory Handlers
  imports Http AuthCore
begin

text \<open>
  What the handlers of all controllers share: the request as the middlewares left it, the ways a handler
  answers, and the two translations of the caller (\<^verbatim>\<open>toActor\<close>, \<^verbatim>\<open>toCtx\<close>). How a service's result is written as
  JSON is a parameter of each handler, except where the controller itself builds the object.
\<close>

record call =
  cl_user :: "user option"
  cl_sessionId :: "string option"
  cl_token :: "(string \<times> int) option"
  cl_ctx :: ctx

text \<open>An answer: the JSON envelope, a redirect, a status without a body, or a file with its headers.\<close>

datatype httpReply =
    Envelope response
  | RedirectTo string
  | EmptyStatus int
  | FileReply "(string \<times> string) list" string

definition envelopeOf :: "response act \<Rightarrow> httpReply act" where
  "envelopeOf m = bindM m (\<lambda>r. returnM (Envelope r))"

definition asUser :: "call \<Rightarrow> (user \<Rightarrow> 'a act) \<Rightarrow> 'a act" where
  "asUser c k = bindM (requireUser (cl_user c)) k"

definition toActor :: "user \<Rightarrow> actor" where
  "toActor u = \<lparr>a_id = u_id u, a_role = u_role u, a_departmentId = u_departmentId u, a_email = u_email u,
     a_name = u_name u\<rparr>"

definition toAdminActor :: "user \<Rightarrow> adminActor" where
  "toAdminActor u = \<lparr>a_id = u_id u, a_role = u_role u, a_departmentId = u_departmentId u, a_email = u_email u,
     a_name = u_name u, a_isSuperAdmin = u_isSuperAdmin u\<rparr>"

text \<open>\<open>req.ip\<close> and the user agent header, cut to 512 characters.\<close>

definition toCtx :: "string option \<Rightarrow> string option \<Rightarrow> ctx" where
  "toCtx ip userAgent =
     \<lparr>ctx_ip = (case ip of None \<Rightarrow> ''unknown'' | Some i \<Rightarrow> i),
      ctx_ua = take 512 (case userAgent of None \<Rightarrow> ''unknown'' | Some a \<Rightarrow> a)\<rparr>"

definition metaJson :: "meta \<Rightarrow> json" where
  "metaJson m = JObj [(''page'', JNum (of_int (mt_page m))), (''limit'', JNum (of_int (mt_limit m))),
     (''total'', JNum (of_int (mt_total m))), (''totalPages'', JNum (of_int (mt_totalPages m)))]"

text \<open>One service call, one response.\<close>

definition sendData :: "int option \<Rightarrow> string \<Rightarrow> ('a \<Rightarrow> json) \<Rightarrow> 'a act \<Rightarrow> response act" where
  "sendData status message enc m =
     bindM m (\<lambda>d. returnM (sendResponse status message (Some (enc d)) None))"

definition sendPage :: "string \<Rightarrow> ('a \<Rightarrow> json) \<Rightarrow> ('a list \<times> meta) act \<Rightarrow> response act" where
  "sendPage message enc m =
     bindM m (\<lambda>(items, meta). returnM (sendResponse None message (Some (JArr (map enc items))) (Some (metaJson meta))))"

text \<open>The message the service answered, and no data.\<close>

definition sendMessage :: "string act \<Rightarrow> response act" where
  "sendMessage m = bindM m (\<lambda>message. returnM (sendResponse None message None None))"

definition sendDone :: "string \<Rightarrow> 'a act \<Rightarrow> response act" where
  "sendDone message m = thenM m (returnM (sendResponse None message None None))"

lemma handler_related:
  assumes "related R (m :: 'a act)" and "step_preorder R undo"
  shows "related R (sendData status message enc m)"
  unfolding sendData_def using assms
  by (intro step_preorder.bind_rel [OF assms(2)] step_preorder.return_rel [OF assms(2)])

text \<open>Without a user a handler that asks for one is refused and changes nothing.\<close>

lemma asUser_none:
  "cl_user c = None \<Longrightarrow> asUser c k w = (Inl (apiError 401 ''Unauthorized'' [detC ''TOKEN_MISSING'']), w)"
  by (simp add: asUser_def requireUser_def eval)

end
