(* ===== verification/Middlewares.thy ===== *)
theory Middlewares
  imports Http
begin

text \<open>
  The small middlewares: the request id (\<^verbatim>\<open>middlewares/requestId.ts\<close>), the 404 answer
  (\<^verbatim>\<open>middlewares/notFound.ts\<close>), the wrapper of the handlers (\<^verbatim>\<open>utils/catchAsync.ts\<close>) and the checks of
  uploaded files (\<^verbatim>\<open>middlewares/upload.ts\<close>). What multer stores and what \<^verbatim>\<open>file-type\<close> detects are parameters.
\<close>

section \<open>Request ids\<close>

definition wordChars :: string where
  "wordChars = ''ABCDEFGHIJKLMNOPQRSTUVWXYZabcdefghijklmnopqrstuvwxyz0123456789_''"

text \<open>The pattern \<^verbatim>\<open>/^[\w.:-]{1,128}$/\<close>.\<close>

definition SAFE_ID :: "string \<Rightarrow> bool" where
  "SAFE_ID s \<longleftrightarrow> s \<noteq> [] \<and> length s \<le> 128 \<and> list_all (\<lambda>c. c \<in> set (wordChars @ ''.:-'')) s"

text \<open>A header that came several times is an array; the first value counts.\<close>

definition mintRequestId :: "lib \<Rightarrow> string list \<Rightarrow> string act" where
  "mintRequestId L incoming =
     (case incoming of
        candidate # _ \<Rightarrow> if SAFE_ID candidate then returnM candidate else freshId L
      | [] \<Rightarrow> freshId L)"

section \<open>Unknown routes\<close>

definition notFoundAnswer :: "string \<Rightarrow> string \<Rightarrow> string \<Rightarrow> response" where
  "notFoundAnswer method originalUrl requestId =
     \<lparr>rs_status = 404,
      rs_body = JObj [(''success'', JBool False),
        (''message'', JStr (''Route '' @ method @ '' '' @ originalUrl @ '' not found'')),
        (''errors'', JArr [JObj [(''code'', JStr ''ROUTE_NOT_FOUND''), (''message'', JStr ''Route not found'')]]),
        (''requestId'', JStr requestId)],
      rs_replayed = False\<rparr>"

section \<open>Handlers\<close>

text \<open>\<open>next\<close> hands what the handler threw to the error handler, which answers.\<close>

definition catchAsync :: "(exn \<Rightarrow> 'a) \<Rightarrow> 'a act \<Rightarrow> 'a act" where
  "catchAsync onError handler = catchM handler (\<lambda>e. returnM (onError e))"

section \<open>Uploads\<close>

record upload =
  fl_fieldname :: string
  fl_mimetype :: string
  fl_buffer :: string

definition MAX_FILE_SIZE :: nat where
  "MAX_FILE_SIZE = 4 * 1024 * 1024"

definition IMAGE_MIME :: "string list" where
  "IMAGE_MIME = [''image/jpeg'', ''image/png'', ''image/webp'']"

definition DOCUMENT_MIME :: "string list" where
  "DOCUMENT_MIME = [''image/jpeg'', ''image/png'', ''image/webp'', ''application/pdf'']"

text \<open>The \<open>fileFilter\<close> given to multer: the error it hands on, if any.\<close>

definition fileFilter :: "string list \<Rightarrow> upload \<Rightarrow> exn option" where
  "fileFilter allowed f =
     (if fl_mimetype f \<in> set allowed then None
      else Some (apiError 400 ''Unsupported file type''
        [detF (fl_fieldname f) ''VALIDATION_ERROR'' (''Allowed: '' @ join_with '', '' allowed)]))"

text \<open>\<open>req.file\<close>, and the shapes \<open>req.files\<close> can have.\<close>

datatype uploads =
    NoFiles
  | OneFile upload
  | FileArray "upload list"
  | FileFields "(string \<times> upload list) list"

fun filesOf :: "uploads \<Rightarrow> upload list" where
  "filesOf NoFiles = []"
| "filesOf (OneFile f) = [f]"
| "filesOf (FileArray fs) = fs"
| "filesOf (FileFields m) = concat (map snd m)"

text \<open>\<open>detect\<close> is \<open>fileTypeFromBuffer\<close>.\<close>

fun verifyFiles :: "(string \<Rightarrow> string option) \<Rightarrow> string list \<Rightarrow> upload list \<Rightarrow> unit act" where
  "verifyFiles detect allowed [] = returnM ()"
| "verifyFiles detect allowed (f # fs) =
     (case detect (fl_buffer f) of
        Some mime \<Rightarrow>
          if mime \<in> set allowed then verifyFiles detect allowed fs
          else throwM (apiError 400 ''File content does not match its extension''
            [detF (fl_fieldname f) ''VALIDATION_ERROR'' (''Detected type: '' @ mime)])
      | None \<Rightarrow> throwM (apiError 400 ''File content does not match its extension''
            [detF (fl_fieldname f) ''VALIDATION_ERROR'' ''Detected type: unknown'']))"

definition verifyFileType :: "(string \<Rightarrow> string option) \<Rightarrow> string list \<Rightarrow> uploads \<Rightarrow> unit act" where
  "verifyFileType detect allowed u = verifyFiles detect allowed (filesOf u)"

definition requireFile :: "string \<Rightarrow> uploads \<Rightarrow> unit act" where
  "requireFile field u =
     throwIf (case u of OneFile f \<Rightarrow> False | _ \<Rightarrow> True)
       (apiError 400 ''Validation failed'' [detF field ''VALIDATION_ERROR'' (field @ '' file is required'')])"

section \<open>What they do\<close>

text \<open>A request carries an id that is safe to log, whatever the client sent, if the ids drawn are.\<close>

lemma requestId_safe:
  assumes "\<forall>n. SAFE_ID (uuidTape L n)"
  shows "\<exists>i w'. mintRequestId L incoming w = (Inr i, w') \<and> SAFE_ID i \<and> uuidPos w \<le> uuidPos w' \<and>
    w' = w\<lparr>uuidPos := uuidPos w'\<rparr>"
proof (cases "incoming \<noteq> [] \<and> SAFE_ID (hd incoming)")
  case True
  then have "mintRequestId L incoming w = (Inr (hd incoming), w)"
    by (cases incoming) (simp_all add: mintRequestId_def eval)
  with True show ?thesis by simp
next
  case False
  then have "mintRequestId L incoming w = (Inr (uuidTape L (uuidPos w)), w\<lparr>uuidPos := Suc (uuidPos w)\<rparr>)"
    by (cases incoming) (simp_all add: mintRequestId_def eval)
  with assms show ?thesis by simp
qed

text \<open>The check looks at the bytes only: what the client declares makes no difference.\<close>

lemma verifyFiles_pass:
  "verifyFiles detect allowed fs w = (Inr (), w') \<longleftrightarrow>
     w' = w \<and> (\<forall>f \<in> set fs. \<exists>m \<in> set allowed. detect (fl_buffer f) = Some m)"
  by (induction fs) (auto simp: eval split: option.split)

lemma catchAsync_answers: "\<exists>r w'. catchAsync onError handler w = (Inr r, w')"
  by (auto simp: catchAsync_def eval split: prod.split sum.split)

end
