(* ===== verification/RateLimiter.thy ===== *)
theory RateLimiter
  imports Http
begin

text \<open>
  The rate limiters (\<^verbatim>\<open>middlewares/rateLimiter.ts\<close>): the store that counts in Redis and falls back to the
  memory of the instance, and the six limiters with their budgets. The two stores it chooses between,
  \<^verbatim>\<open>RedisStore\<close> and \<^verbatim>\<open>MemoryStore\<close>, are libraries and come as parameters, with what their
  documentation says of their counting as hypotheses of the theorems.
\<close>

section \<open>The stores underneath\<close>

record hits =
  totalHits :: nat
  resetTime :: "instant option"

record ('r, 'm) stores =
  shInit :: "('r, unit) svc"
  shIncrement :: "string \<Rightarrow> ('r, hits) svc"
  shDecrement :: "string \<Rightarrow> ('r, unit) svc"
  shResetKey :: "string \<Rightarrow> ('r, unit) svc"
  shGet :: "string \<Rightarrow> ('r, hits option) svc"
  loIncrement :: "string \<Rightarrow> 'm \<Rightarrow> hits \<times> 'm"
  loDecrement :: "string \<Rightarrow> 'm \<Rightarrow> 'm"
  loResetKey :: "string \<Rightarrow> 'm \<Rightarrow> 'm"
  loGet :: "string \<Rightarrow> 'm \<Rightarrow> hits option"

section \<open>\<open>ResilientStore\<close>\<close>

datatype logLine = FellBack | BackOnRedis

text \<open>
  The fields of one instance's store: whether \<open>shared\<close> is set, whether \<open>init\<close> has run, the outage flag, the
  memory store and the lines logged so far. Redis itself, \<open>redisSide\<close>, is the same for every instance.
\<close>

record 'm limiter =
  rlShared :: bool
  rlOptions :: bool
  rlWarned :: bool
  rlLocal :: 'm
  rlLog :: "logLine list"

type_synonym ('r, 'm, 'a) rl = "('r \<times> 'm limiter, 'a) svc"

definition fresh :: "'m \<Rightarrow> 'm limiter" where
  "fresh m = \<lparr>rlShared = False, rlOptions = False, rlWarned = False, rlLocal = m, rlLog = []\<rparr>"

definition initStore :: "('r, 'm, unit) rl" where
  "initStore = modifyM (\<lambda>(r, s). (r, s\<lparr>rlOptions := True\<rparr>))"

definition onRedis :: "('r, 'a) svc \<Rightarrow> ('r, 'm, 'a) rl" where
  "onRedis m = (\<lambda>(r, s). case m r of (x, r') \<Rightarrow> (x, (r', s)))"

definition onLocal :: "('m \<Rightarrow> 'a \<times> 'm) \<Rightarrow> ('r, 'm, 'a) rl" where
  "onLocal f = (\<lambda>(r, s). case f (rlLocal s) of (x, m) \<Rightarrow> (Inr x, (r, s\<lparr>rlLocal := m\<rparr>)))"

definition storeConnect :: "('r, 'm) stores \<Rightarrow> ('r, 'm, unit) rl" where
  "storeConnect S =
     bindM (getsM (\<lambda>(r, s). rlShared s)) (\<lambda>connected.
     if connected then returnM ()
     else
       bindM (getsM (\<lambda>(r, s). rlOptions s)) (\<lambda>options.
       thenM (throwIf (\<not> options) (OtherErr ''rate limiter store used before init''))
       (thenM (onRedis (shInit S))
       (modifyM (\<lambda>(r, s). (r, s\<lparr>rlShared := True, rlWarned := False,
          rlLog := (if rlWarned s then rlLog s @ [BackOnRedis] else rlLog s)\<rparr>))))))"

definition degrade :: "('r, 'm, unit) rl" where
  "degrade = modifyM (\<lambda>(r, s).
     (r, if rlWarned s then s\<lparr>rlShared := False\<rparr>
         else s\<lparr>rlShared := False, rlWarned := True, rlLog := rlLog s @ [FellBack]\<rparr>))"

definition increment :: "('r, 'm) stores \<Rightarrow> string \<Rightarrow> ('r, 'm, hits) rl" where
  "increment S key =
     catchM (thenM (storeConnect S) (onRedis (shIncrement S key)))
       (\<lambda>_. thenM degrade (onLocal (loIncrement S key)))"

text \<open>\<open>attempt m\<close> is \<open>try\<close> around a use of \<open>shared\<close>: what it answers, or nothing without it or when it fails.\<close>

definition attempt :: "('r, 'a) svc \<Rightarrow> ('r, 'm, 'a option) rl" where
  "attempt m =
     bindM (getsM (\<lambda>(r, s). rlShared s)) (\<lambda>connected.
     if connected
     then catchM (bindM (onRedis m) (\<lambda>x. returnM (Some x))) (\<lambda>_. thenM degrade (returnM None))
     else returnM None)"

definition decrement :: "('r, 'm) stores \<Rightarrow> string \<Rightarrow> ('r, 'm, unit) rl" where
  "decrement S key =
     bindM (attempt (shDecrement S key)) (\<lambda>done.
     if done \<noteq> None then returnM () else onLocal (\<lambda>m. ((), loDecrement S key m)))"

definition resetKey :: "('r, 'm) stores \<Rightarrow> string \<Rightarrow> ('r, 'm, unit) rl" where
  "resetKey S key =
     thenM (attempt (shResetKey S key)) (onLocal (\<lambda>m. ((), loResetKey S key m)))"

definition getHits :: "('r, 'm) stores \<Rightarrow> string \<Rightarrow> ('r, 'm, hits option) rl" where
  "getHits S key =
     bindM (attempt (shGet S key)) (\<lambda>found.
     case found of Some answer \<Rightarrow> returnM answer | None \<Rightarrow> onLocal (\<lambda>m. (loGet S key m, m)))"

section \<open>The limiters\<close>

definition useRedis :: "bool \<Rightarrow> string \<Rightarrow> string \<Rightarrow> bool" where
  "useRedis isTest redisUrl redisHost \<longleftrightarrow> \<not> isTest \<and> (redisUrl \<noteq> [] \<or> redisHost \<noteq> [])"

record budget =
  bg_name :: string
  bg_windowMs :: int
  bg_limit :: int
  bg_code :: string
  bg_message :: string
  bg_skipSuccessful :: bool

definition budgetOf :: "string \<Rightarrow> int \<Rightarrow> int \<Rightarrow> string \<Rightarrow> budget" where
  "budgetOf name windowMs most message =
     \<lparr>bg_name = name, bg_windowMs = windowMs, bg_limit = most, bg_code = ''RATE_LIMITED'',
      bg_message = message, bg_skipSuccessful = False\<rparr>"

text \<open>Each limiter counts under its own prefix.\<close>

definition limiterPrefix :: "budget \<Rightarrow> string" where
  "limiterPrefix b = ''rl:'' @ bg_name b @ '':''"

definition globalLimiter :: "int \<Rightarrow> budget" where
  "globalLimiter most = budgetOf ''global'' (15 * 60000) most ''Too many requests, please slow down''"

definition authLimiter :: "int \<Rightarrow> budget" where
  "authLimiter most = (budgetOf ''auth'' (15 * 60000) most
     ''Too many attempts, try again in 15 minutes'')\<lparr>bg_skipSuccessful := True\<rparr>"

definition paymentLimiter :: budget where
  "paymentLimiter = budgetOf ''payment'' (60 * 60000) 10 ''Too many payment attempts, try again later''"

definition callbackLimiter :: budget where
  "callbackLimiter = budgetOf ''callback'' 60000 20 ''Too many callback requests''"

definition adminLimiter :: budget where
  "adminLimiter = budgetOf ''admin'' 60000 30 ''Too many admin requests''"

definition contactLimiter :: budget where
  "contactLimiter = budgetOf ''contact'' (60 * 60000) 5
     ''That is a lot of messages. Try again in an hour.''"

definition limitHandler :: "string \<Rightarrow> string \<Rightarrow> string \<Rightarrow> response" where
  "limitHandler code message requestId =
     \<lparr>rs_status = 429,
      rs_body = JObj [(''success'', JBool False), (''message'', JStr message),
        (''errors'', JArr [JObj [(''code'', JStr code), (''message'', JStr message)]]),
        (''requestId'', JStr requestId)],
      rs_replayed = False\<rparr>"

section \<open>Running the store\<close>

lemma run_onRedis [eval]: "onRedis m (r, s) = (case m r of (x, r') \<Rightarrow> (x, (r', s)))"
  by (simp add: onRedis_def)

lemma run_onLocal [eval]:
  "onLocal f (r, s) = (case f (rlLocal s) of (x, m) \<Rightarrow> (Inr x, (r, s\<lparr>rlLocal := m\<rparr>)))"
  by (simp add: onLocal_def)

lemma run_degrade [eval]:
  "degrade (r, s) = (Inr (), (r, if rlWarned s then s\<lparr>rlShared := False\<rparr>
     else s\<lparr>rlShared := False, rlWarned := True, rlLog := rlLog s @ [FellBack]\<rparr>))"
  by (simp add: degrade_def eval)

lemma run_storeConnect:
  "storeConnect S (r, s) =
     (if rlShared s then (Inr (), (r, s))
      else if \<not> rlOptions s then (Inl (OtherErr ''rate limiter store used before init''), (r, s))
      else case shInit S r of
        (Inl e, r') \<Rightarrow> (Inl e, (r', s))
      | (Inr _, r') \<Rightarrow> (Inr (), (r', s\<lparr>rlShared := True, rlWarned := False,
          rlLog := (if rlWarned s then rlLog s @ [BackOnRedis] else rlLog s)\<rparr>)))"
  by (auto simp: storeConnect_def eval split: prod.split sum.split)

section \<open>Traffic\<close>

text \<open>
  What the libraries promise: each hit adds one to the count of its key and the answer is the new
  count. A failing Redis may or may not have counted. \<open>cnt\<close> and \<open>mcnt\<close> read the two stores within a window.
\<close>

definition countsShared :: "('r, 'm) stores \<Rightarrow> ('r \<Rightarrow> string \<Rightarrow> nat) \<Rightarrow> bool" where
  "countsShared S cnt \<longleftrightarrow>
     (\<forall>r j k. cnt r k \<le> cnt (snd (shInit S r)) k \<and> cnt r k \<le> cnt (snd (shIncrement S j r)) k) \<and>
     (\<forall>r j h r'. shIncrement S j r = (Inr h, r') \<longrightarrow> totalHits h = Suc (cnt r j) \<and> cnt r' j = Suc (cnt r j))"

definition countsLocal :: "('r, 'm) stores \<Rightarrow> ('m \<Rightarrow> string \<Rightarrow> nat) \<Rightarrow> bool" where
  "countsLocal S mcnt \<longleftrightarrow>
     (\<forall>m j k. mcnt m k \<le> mcnt (snd (loIncrement S j m)) k) \<and>
     (\<forall>m j. totalHits (fst (loIncrement S j m)) = Suc (mcnt m j) \<and>
        mcnt (snd (loIncrement S j m)) j = Suc (mcnt m j))"

text \<open>An increment answers, and exactly one of the two stores has given the count it answers with.\<close>

definition sharedHit where
  "sharedHit S cnt key h r s r' s' \<longleftrightarrow> rlLocal s' = rlLocal s \<and>
     (\<exists>r1. (\<forall>k. cnt r k \<le> cnt r1 k) \<and> shIncrement S key r1 = (Inr h, r'))"

definition localHit where
  "localHit S cnt key h r s r' s' \<longleftrightarrow>
     loIncrement S key (rlLocal s) = (h, rlLocal s') \<and> (\<forall>k. cnt r k \<le> cnt r' k)"

definition redisAnswers :: "('r, 'm) stores \<Rightarrow> bool" where
  "redisAnswers S \<longleftrightarrow> (\<forall>r k e. fst (shInit S r) \<noteq> Inl e \<and> fst (shIncrement S k r) \<noteq> Inl e)"

lemma increment_one_store:
  assumes "countsShared S cnt" and "rlOptions s"
  shows "\<exists>h r' s'. increment S key (r, s) = (Inr h, (r', s')) \<and> rlOptions s' \<and>
    (sharedHit S cnt key h r s r' s' \<or> localHit S cnt key h r s r' s' \<and> \<not> redisAnswers S)"
proof -
  obtain a r1 where i: "shInit S r = (a, r1)" by fastforce
  obtain b r2 where g: "shIncrement S key r = (b, r2)" by fastforce
  obtain c r3 where g1: "shIncrement S key r1 = (c, r3)" by fastforce
  obtain h m where lo: "loIncrement S key (rlLocal s) = (h, m)" by fastforce
  have mono: "cnt r k \<le> cnt r1 k" "cnt r k \<le> cnt r2 k" "cnt r1 k \<le> cnt r3 k" for k
    using assms(1) i g g1 unfolding countsShared_def by (metis snd_conv)+
  then have mono3: "cnt r k \<le> cnt r3 k" for k by (meson le_trans)
  have via: "\<exists>ra. (\<forall>k. cnt r k \<le> cnt ra k) \<and> shIncrement S key ra = (Inr x, r3)" if "c = Inr x" for x
    using that mono(1) g1 by blast
  have via': "\<exists>ra. (\<forall>k. cnt r k \<le> cnt ra k) \<and> shIncrement S key ra = (Inr x, r2)" if "b = Inr x" for x
    using that g by blast
  have down: "a \<noteq> Inl e" "b \<noteq> Inl e" "c \<noteq> Inl e" if "redisAnswers S" for e
    using that i g g1 unfolding redisAnswers_def by (metis fst_conv)+
  show ?thesis
    using assms(2) i g g1 lo mono(1,2) mono3 via via' down
    by (cases "rlShared s"; cases a; cases b; cases c)
      (auto simp: increment_def sharedHit_def localHit_def eval run_storeConnect)
qed

text \<open>
  Requests of any addresses, arriving at any of the instances of the server. \<open>lets h\<close> is the library's
  verdict on a count; a limiter whose store fails answers with the error.
\<close>

datatype passage = Through | Limited | Broke exn

fun hitStep ::
  "('r, 'm) stores \<Rightarrow> (hits \<Rightarrow> bool) \<Rightarrow> nat \<times> string \<Rightarrow> 'r \<times> (nat \<Rightarrow> 'm limiter) \<Rightarrow>
   passage \<times> 'r \<times> (nat \<Rightarrow> 'm limiter)" where
  "hitStep S lets (i, key) (r, f) =
     (case increment S key (r, f i) of
        (Inr h, (r', s')) \<Rightarrow> (if lets h then Through else Limited, (r', f(i := s')))
      | (Inl e, (r', s')) \<Rightarrow> (Broke e, (r', f(i := s'))))"

fun hitRun ::
  "('r, 'm) stores \<Rightarrow> (hits \<Rightarrow> bool) \<Rightarrow> (nat \<times> string) list \<Rightarrow> 'r \<times> (nat \<Rightarrow> 'm limiter) \<Rightarrow>
   (string \<times> passage) list" where
  "hitRun S lets [] st = []"
| "hitRun S lets (x # xs) st = (case hitStep S lets x st of (a, st') \<Rightarrow> (snd x, a) # hitRun S lets xs st')"

definition letThrough :: "string \<Rightarrow> (string \<times> passage) list \<Rightarrow> nat" where
  "letThrough key answers = length (filter (\<lambda>(k, a). k = key \<and> a = Through) answers)"

text \<open>What is left of the budget of a key, in Redis and in the memory of \<open>n\<close> instances.\<close>

definition sharedLeft :: "('r \<Rightarrow> string \<Rightarrow> nat) \<Rightarrow> nat \<Rightarrow> string \<Rightarrow> 'r \<Rightarrow> nat" where
  "sharedLeft cnt most key r = most - cnt r key"

definition localLeft :: "('m \<Rightarrow> string \<Rightarrow> nat) \<Rightarrow> nat \<Rightarrow> nat \<Rightarrow> string \<Rightarrow> (nat \<Rightarrow> 'm limiter) \<Rightarrow> nat" where
  "localLeft mcnt most n key f = (\<Sum>i<n. most - mcnt (rlLocal (f i)) key)"

lemma localLeft_upd:
  assumes "i < n" and "(most - mcnt (rlLocal s) key) + d \<le> most - mcnt (rlLocal (f i)) key"
  shows "localLeft mcnt most n key (f(i := s)) + d \<le> localLeft mcnt most n key f"
proof -
  have i: "i \<in> {..<n}" using assms(1) by simp
  have "(\<Sum>j\<in>{..<n} - {i}. most - mcnt (rlLocal ((f(i := s)) j)) key) =
      (\<Sum>j\<in>{..<n} - {i}. most - mcnt (rlLocal (f j)) key)" by (rule sum.cong) auto
  then show ?thesis
    using assms(2) unfolding localLeft_def by (simp add: sum.remove [OF _ i])
qed

definition spent :: "string \<Rightarrow> string \<times> passage \<Rightarrow> nat" where
  "spent key x = (if x = (key, Through) then 1 else 0)"

lemma hit_spends:
  assumes "countsShared S cnt" "countsLocal S mcnt" and "\<forall>h. lets h \<longrightarrow> totalHits h \<le> most"
    and "rlOptions (f i)" "i < n" and "hitStep S lets (i, k) (r, f) = (a, (r', f'))"
  shows "(\<forall>e. a \<noteq> Broke e) \<and> (\<exists>s'. f' = f(i := s') \<and> rlOptions s') \<and>
    sharedLeft cnt most key r' + localLeft mcnt most n key f' + spent key (k, a) \<le>
      sharedLeft cnt most key r + localLeft mcnt most n key f \<and>
    (redisAnswers S \<longrightarrow> sharedLeft cnt most key r' + spent key (k, a) \<le> sharedLeft cnt most key r)"
proof -
  obtain h s' where run: "increment S k (r, f i) = (Inr h, (r', s'))" and opt: "rlOptions s'"
      and f': "f' = f(i := s')" and a: "a = (if lets h then Through else Limited)"
      and which: "sharedHit S cnt k h r (f i) r' s' \<or> localHit S cnt k h r (f i) r' s' \<and> \<not> redisAnswers S"
    using increment_one_store [OF assms(1,4), of k r] assms(6) by auto
  have d: "spent key (k, a) = (if k = key \<and> lets h then 1 else 0)" by (simp add: spent_def a)
  from which have "sharedLeft cnt most key r' + localLeft mcnt most n key f' + spent key (k, a) \<le>
      sharedLeft cnt most key r + localLeft mcnt most n key f \<and>
    (redisAnswers S \<longrightarrow> sharedLeft cnt most key r' + spent key (k, a) \<le> sharedLeft cnt most key r)"
  proof
    assume "sharedHit S cnt k h r (f i) r' s'"
    then obtain r1 where sh: "\<forall>j. cnt r j \<le> cnt r1 j" "shIncrement S k r1 = (Inr h, r')" "rlLocal s' = rlLocal (f i)"
      by (auto simp: sharedHit_def)
    have c: "cnt r1 key \<le> cnt r' key" "totalHits h = Suc (cnt r1 k)" "cnt r' k = Suc (cnt r1 k)"
      using assms(1) sh(2) unfolding countsShared_def by (metis snd_conv)+
    have "sharedLeft cnt most key r' + spent key (k, a) \<le> sharedLeft cnt most key r"
      using c sh(1) [rule_format, of key] assms(3) [rule_format, of h] by (auto simp: sharedLeft_def d)
    moreover have "localLeft mcnt most n key f' + 0 \<le> localLeft mcnt most n key f"
      unfolding f' by (rule localLeft_upd [OF assms(5)]) (simp add: sh(3))
    ultimately show ?thesis by simp
  next
    assume down: "localHit S cnt k h r (f i) r' s' \<and> \<not> redisAnswers S"
    then have lh: "localHit S cnt k h r (f i) r' s'" ..
    then have m: "mcnt (rlLocal (f i)) key \<le> mcnt (rlLocal s') key"
        "totalHits h = Suc (mcnt (rlLocal (f i)) k)" "mcnt (rlLocal s') k = Suc (mcnt (rlLocal (f i)) k)"
      using assms(2) unfolding countsLocal_def localHit_def by (metis fst_conv snd_conv)+
    have "localLeft mcnt most n key f' + spent key (k, a) \<le> localLeft mcnt most n key f"
      unfolding f' using m assms(3) [rule_format, of h] by (intro localLeft_upd [OF assms(5)]) (auto simp: d)
    moreover have "sharedLeft cnt most key r' \<le> sharedLeft cnt most key r"
      using lh by (simp add: localHit_def sharedLeft_def diff_le_mono2)
    ultimately show ?thesis using down by simp
  qed
  then show ?thesis using opt f' a by auto
qed

lemma run_spends:
  assumes "countsShared S cnt" "countsLocal S mcnt" and "\<forall>h. lets h \<longrightarrow> totalHits h \<le> most"
    and "\<forall>i<n. rlOptions (f i)" and "\<forall>x \<in> set xs. fst x < n"
  shows "(\<forall>k e. (k, Broke e) \<notin> set (hitRun S lets xs (r, f))) \<and>
    letThrough key (hitRun S lets xs (r, f)) \<le> sharedLeft cnt most key r + localLeft mcnt most n key f \<and>
    (redisAnswers S \<longrightarrow> letThrough key (hitRun S lets xs (r, f)) \<le> sharedLeft cnt most key r)"
  using assms(4,5)
proof (induction xs arbitrary: r f)
  case Nil
  then show ?case by (simp add: letThrough_def)
next
  case (Cons x xs)
  obtain i k where x: "x = (i, k)" by (cases x)
  obtain a r' f' where st: "hitStep S lets (i, k) (r, f) = (a, (r', f'))" by (metis surj_pair)
  have i: "i < n" "rlOptions (f i)" using Cons.prems x by auto
  note hit = hit_spends [OF assms(1-3) i(2,1) st, of key]
  then have "\<forall>j<n. rlOptions (f' j)" using Cons.prems(1) by auto
  note rest = Cons.IH [OF this, of r'] Cons.prems(2)
  have "letThrough key (hitRun S lets (x # xs) (r, f)) = spent key (k, a) + letThrough key (hitRun S lets xs (r', f'))"
    by (simp add: x st letThrough_def spent_def del: hitStep.simps)
  with hit rest show ?case by (auto simp: x st simp del: hitStep.simps)
qed

text \<open>C30: However Redis comes and goes, the limiters answer every request, and of one address they let through
  at most the budget of the window once for Redis and once for each instance of the server; while
  Redis answers, at most the budget, however many instances there are. (The
  decrements of \<open>skipSuccessfulRequests\<close> apart: only failed attempts count there.)\<close>

theorem limits_hold_through_outages:
  assumes "countsShared S cnt" "countsLocal S mcnt" and "\<forall>h. lets h \<longrightarrow> totalHits h \<le> most"
    and "\<forall>i<n. rlOptions (f i)" and "\<forall>x \<in> set xs. fst x < n"
  shows "letThrough key (hitRun S lets xs (r, f)) \<le> most * (n + 1) \<and>
    (redisAnswers S \<longrightarrow> letThrough key (hitRun S lets xs (r, f)) \<le> most) \<and>
    (\<forall>k e. (k, Broke e) \<notin> set (hitRun S lets xs (r, f)))"
proof -
  have "localLeft mcnt most n key f \<le> (\<Sum>i<n. most)" unfolding localLeft_def by (rule sum_mono) simp
  then have "localLeft mcnt most n key f \<le> most * n" by (simp add: mult.commute)
  moreover have "sharedLeft cnt most key r \<le> most" by (simp add: sharedLeft_def)
  ultimately show ?thesis using run_spends [OF assms, of r key] by auto
qed

text \<open>Two instances, a budget of one, and a Redis that fails after its first hit.\<close>

definition failsAfterOne :: "(string \<Rightarrow> nat, string \<Rightarrow> nat) stores" where
  "failsAfterOne = \<lparr>
     shInit = returnM (),
     shIncrement = (\<lambda>k r. if r k = 0 then (Inr \<lparr>totalHits = 1, resetTime = None\<rparr>, r(k := 1)) else (Inl RedisErr, r)),
     shDecrement = (\<lambda>k. throwM RedisErr), shResetKey = (\<lambda>k. throwM RedisErr), shGet = (\<lambda>k. throwM RedisErr),
     loIncrement = (\<lambda>k m. (\<lparr>totalHits = Suc (m k), resetTime = None\<rparr>, m(k := Suc (m k)))),
     loDecrement = (\<lambda>k m. m(k := m k - 1)), loResetKey = (\<lambda>k m. m(k := 0)), loGet = (\<lambda>k m. None)\<rparr>"

definition twoInstances :: "nat \<Rightarrow> (string \<Rightarrow> nat) limiter" where
  "twoInstances i = (fresh (\<lambda>_. 0))\<lparr>rlOptions := True\<rparr>"

definition sixHits :: "(nat \<times> string) list" where
  "sixHits = [(0, ''ip''), (1, ''ip''), (1, ''ip''), (0, ''ip''), (0, ''ip''), (1, ''ip'')]"

lemma sixHits_run:
  "hitRun failsAfterOne (\<lambda>h. totalHits h \<le> 1) sixHits (\<lambda>_. 0, twoInstances) =
   map (Pair ''ip'') [Through, Through, Limited, Through, Limited, Limited]"
  by (simp add: sixHits_def failsAfterOne_def twoInstances_def fresh_def increment_def eval run_storeConnect)

lemma limits_hold_through_outages_witness:
  "letThrough ''ip'' (map (Pair ''ip'') [Through, Through, Limited, Through, Limited, Limited]) = 3 \<and>
   letThrough ''ip'' (map (Pair ''ip'') [Through, Through, Limited, Through, Limited, Limited]) \<le> 1 * (2 + 1)"
proof -
  have "letThrough ''ip'' (hitRun failsAfterOne (\<lambda>h. totalHits h \<le> 1) sixHits (\<lambda>_. 0, twoInstances)) \<le> 1 * (2 + 1)"
  proof (rule limits_hold_through_outages [THEN conjunct1])
    show "countsShared failsAfterOne (\<lambda>r. r)"
      by (auto simp: countsShared_def failsAfterOne_def eval)
    show "countsLocal failsAfterOne (\<lambda>m. m)"
      by (auto simp: countsLocal_def failsAfterOne_def)
  qed (simp_all add: twoInstances_def sixHits_def)
  then show ?thesis unfolding sixHits_run by (simp add: letThrough_def)
qed

section \<open>Handing a hit back\<close>

text \<open>
  After an outage \<open>decrement\<close> goes to Redis also for a hit the memory store took: the hit stays counted
  where it was, and one that was never counted in Redis is taken off there.
\<close>

lemma hand_back_misses:
  assumes "rlShared s" and "shDecrement S key r = (Inr (), r')"
  shows "decrement S key (r, s) = (Inr (), (r', s))"
  using assms by (simp add: decrement_def attempt_def eval)

text \<open>The log: one warning an outage, one line when it is over, whatever is called in between.\<close>

fun alternates :: "logLine list \<Rightarrow> bool" where
  "alternates [] = True"
| "alternates [x] = True"
| "alternates (x # y # ls) = (x \<noteq> y \<and> alternates (y # ls))"

definition logInv :: "'r \<times> 'm limiter \<Rightarrow> bool" where
  "logInv = (\<lambda>(r, s). alternates (rlLog s) \<and> (rlLog s \<noteq> [] \<longrightarrow> hd (rlLog s) = FellBack) \<and>
     (rlWarned s \<longleftrightarrow> rlLog s \<noteq> [] \<and> last (rlLog s) = FellBack))"

lemma alternates_snoc: "alternates (ls @ [x]) \<longleftrightarrow> alternates ls \<and> (ls \<noteq> [] \<longrightarrow> last ls \<noteq> x)"
  by (induction ls rule: alternates.induct) auto

interpretation lg: step_preorder "keeps (logInv :: 'r \<times> 'm limiter \<Rightarrow> bool)" "\<lambda>s t. s"
  by unfold_locales (auto simp: keeps_def)

lemma logLine_other: "x \<noteq> FellBack \<longleftrightarrow> x = BackOnRedis"
  by (cases x) simp_all

lemma lg_small:
  "related (keeps logInv) (onRedis m)" "related (keeps logInv) (onLocal f)" "related (keeps logInv) degrade"
  "related (keeps logInv) (storeConnect S)"
proof -
  show "related (keeps logInv) (onRedis m)" "related (keeps logInv) (onLocal f)"
    by (auto simp: related_def keeps_def logInv_def eval split: prod.split)
  show "related (keeps logInv) degrade"
    by (auto simp: related_def keeps_def logInv_def eval alternates_snoc logLine_other hd_append)
  show "related (keeps logInv) (storeConnect S)"
    by (auto simp: related_def keeps_def logInv_def run_storeConnect alternates_snoc hd_append
        split: prod.split sum.split)
qed

lemma one_warning_an_outage:
  "related (keeps logInv) (increment S key)" "related (keeps logInv) (decrement S key)"
  "related (keeps logInv) (resetKey S key)" "related (keeps logInv) (getHits S key)"
  unfolding increment_def decrement_def resetKey_def getHits_def attempt_def
  by (intro lg.rel_intros lg_small)+

end
