(* ===== verification/App.thy ===== *)
theory App
  imports Handlers Middlewares RateLimiter Routes SlaChecker
begin

text \<open>
  The application (\<^verbatim>\<open>app.ts\<close>): its own endpoints, the routers under \<^verbatim>\<open>/api/v1\<close>, and what a request goes
  through from its id to its answer. How express matches paths and mounts is a parameter, and so are
  the handlers of the routers (by the names theory Routes gives them). The pages of \<^verbatim>\<open>mountSwagger\<close> are left out.
\<close>

section \<open>Health\<close>

definition healthAnswer :: "json \<Rightarrow> response" where
  "healthAnswer uptime = sendResponse None ''OK'' (Some (JObj [(''uptime'', uptime)])) None"

text \<open>\<open>db\<close> and \<open>ready\<close> are what \<open>pingDb\<close> and \<open>redisReady\<close> say. The refusal carries no request id.\<close>

definition readyAnswer :: "bool \<Rightarrow> bool \<Rightarrow> response" where
  "readyAnswer db ready =
     (if \<not> db then
        \<lparr>rs_status = 503,
         rs_body = JObj [(''success'', JBool False), (''message'', JStr ''Service unavailable''),
           (''errors'', JArr [JObj [(''code'', JStr ''SERVICE_UNAVAILABLE''),
              (''message'', JStr ''Database is not reachable'')]])],
         rs_replayed = False\<rparr>
      else sendResponse None ''Ready'' (Some (JObj [(''db'', JBool db), (''redis'', JBool ready)])) None)"

definition rootAnswer :: "lib \<Rightarrow> response" where
  "rootAnswer L = sendResponse None ''CityCare API''
     (Some (JObj [(''version'', JStr ''1.0.0''), (''docs'', JStr (BACKEND_URL L @ ''/api/v1/docs'')),
        (''health'', JStr ''/health'')])) None"

section \<open>Scheduled jobs over HTTP\<close>

datatype job = Sla | Purge

fun show_job :: "job \<Rightarrow> string" where
  "show_job Sla = ''sla''"
| "show_job Purge = ''purge''"

text \<open>The header with a leading \<open>Bearer\<close> taken off.\<close>

definition provided :: "string option \<Rightarrow> string" where
  "provided header =
     (case header of None \<Rightarrow> [] | Some h \<Rightarrow> if starts_with ''Bearer '' h then drop 7 h else h)"

definition jobCount :: "nat \<Rightarrow> json" where
  "jobCount n = JNum (of_nat n)"

definition slaJson :: "nat \<times> nat \<Rightarrow> json" where
  "slaJson r = JObj [(''escalated'', jobCount (fst r)), (''autoClosed'', jobCount (snd r))]"

definition purgeJson :: "purgeResult \<Rightarrow> json" where
  "purgeJson r = JObj [(''securityEvents'', jobCount (pr_securityEvents r)),
     (''idempotencyKeys'', jobCount (pr_idempotencyKeys r)), (''emailLogs'', jobCount (pr_emailLogs r)),
     (''anonymised'', jobCount (pr_anonymised r))]"

definition jobData :: "lib \<Rightarrow> job \<Rightarrow> json act" where
  "jobData L j =
     (case j of
        Sla \<Rightarrow> bindM (runSlaCheck L) (\<lambda>r. returnM (slaJson r))
      | Purge \<Rightarrow> bindM (runPurge L) (\<lambda>r. returnM (purgeJson r)))"

definition runJob :: "lib \<Rightarrow> string \<Rightarrow> job \<Rightarrow> string option \<Rightarrow> response act" where
  "runJob L CRON_SECRET j header =
     thenM (throwIf (CRON_SECRET = [] \<or> \<not> safeEqual (provided header) CRON_SECRET)
       (apiError 401 ''Unauthorized'' [det ''UNAUTHORIZED'' ''Invalid cron secret'']))
     (bindM (jobData L j) (\<lambda>d. returnM (sendResponse None (show_job j @ '' job finished'') (Some d) None)))"

section \<open>The way of a request\<close>

definition appHead :: "layer list" where
  "appHead = [
     Route GET ''/health'' [] ''app.health'',
     Route GET ''/ready'' [] ''app.ready'',
     Route GET ''/metrics'' [SignedIn, Authorize [ADMIN]] ''app.metrics'']"

definition appTail :: "layer list" where
  "appTail = [
     Route GET ''/'' [] ''app.root'',
     Route GET ''/internal/jobs/sla'' [] ''app.sla'',
     Route GET ''/internal/jobs/purge'' [] ''app.purge'',
     Route POST ''/internal/jobs/sla'' [] ''app.sla'',
     Route POST ''/internal/jobs/purge'' [] ''app.purge'']"

text \<open>\<open>ex_under m p\<close> is the rest of the path \<open>p\<close> below the mount \<open>m\<close>.\<close>

record express =
  ex_fits :: "string \<Rightarrow> string \<Rightarrow> bool"
  ex_under :: "string \<Rightarrow> string \<Rightarrow> string option"

text \<open>A request that falls out of one router goes on to the next.\<close>

fun walkModules ::
  "express \<Rightarrow> verb \<Rightarrow> string \<Rightarrow> (string \<times> layer list) list \<Rightarrow> guard list \<times> string option" where
  "walkModules X v path [] = ([], None)"
| "walkModules X v path (m # ms) =
     (case ex_under X (fst m) path of
        None \<Rightarrow> walkModules X v path ms
      | Some rest \<Rightarrow>
          (case walk (ex_fits X) v rest (snd m) of
             (gs, Some h) \<Rightarrow> (gs, Some h)
           | (gs, None) \<Rightarrow> (case walkModules X v path ms of (gs', h) \<Rightarrow> (gs @ gs', h))))"

definition apiWalk :: "express \<Rightarrow> verb \<Rightarrow> string \<Rightarrow> guard list \<times> string option" where
  "apiWalk X v path =
     (case ex_under X ''/api/v1'' path of
        None \<Rightarrow> ([], None)
      | Some rest \<Rightarrow> (case walkModules X v rest modules of (gs, h) \<Rightarrow> (Limiter ''global'' # gs, h)))"

definition appWalk :: "express \<Rightarrow> verb \<Rightarrow> string \<Rightarrow> guard list \<times> string option" where
  "appWalk X v path =
     (case walk (ex_fits X) v path appHead of
        (gs, Some h) \<Rightarrow> (gs, Some h)
      | (_, None) \<Rightarrow>
          (case apiWalk X v path of
             (gs, Some h) \<Rightarrow> (gs, Some h)
           | (gs, None) \<Rightarrow> (case walk (ex_fits X) v path appTail of (gs', h) \<Rightarrow> (gs @ gs', h))))"

record request =
  rq_verb :: verb
  rq_path :: string
  rq_url :: string
  rq_idHeader :: "string list"
  rq_gate :: gate

fun show_verb :: "verb \<Rightarrow> string" where
  "show_verb GET = ''GET''"
| "show_verb POST = ''POST''"
| "show_verb PATCH = ''PATCH''"
| "show_verb PUT = ''PUT''"
| "show_verb DELETE = ''DELETE''"

text \<open>What the process is started with, and the handlers of the routers.\<close>

record server =
  sv_prod :: bool
  sv_stack :: "exn \<Rightarrow> string option"
  sv_cron :: string
  sv_uptime :: json
  sv_pingDb :: bool
  sv_metrics :: "world \<Rightarrow> json"
  sv_handlers :: "string \<Rightarrow> request \<Rightarrow> user option \<Rightarrow> httpReply act"

definition appHandler :: "lib \<Rightarrow> server \<Rightarrow> string \<Rightarrow> request \<Rightarrow> user option \<Rightarrow> httpReply act" where
  "appHandler L V name rq u =
     (if name = ''app.health'' then returnM (Envelope (healthAnswer (sv_uptime V)))
      else if name = ''app.ready'' then getsM (\<lambda>w. Envelope (readyAnswer (sv_pingDb V) (redisUp w)))
      else if name = ''app.metrics'' then
        getsM (\<lambda>w. Envelope \<lparr>rs_status = 200, rs_body = sv_metrics V w, rs_replayed = False\<rparr>)
      else if name = ''app.root'' then returnM (Envelope (rootAnswer L))
      else if name = ''app.sla'' then envelopeOf (runJob L (sv_cron V) Sla (gt_header (rq_gate rq)))
      else if name = ''app.purge'' then envelopeOf (runJob L (sv_cron V) Purge (gt_header (rq_gate rq)))
      else sv_handlers V name rq u)"

text \<open>A refusing limiter answers itself; the answer is that of the error handler for the same details.\<close>

lemma limiter_answer:
  "limitHandler code message i = globalErrorHandler inProd i (apiError 429 message [det code message]) stack"
  by (simp add: limitHandler_def globalErrorHandler_def apiError_def det_def detailJson_def)

definition answerWith :: "lib \<Rightarrow> server \<Rightarrow> request \<Rightarrow> string \<Rightarrow> guard list \<times> string option \<Rightarrow> httpReply act" where
  "answerWith L V rq i way =
     bindM (passAll (rq_gate rq) (fst way) None) (\<lambda>u.
       case snd way of
         None \<Rightarrow> returnM (Envelope (notFoundAnswer (show_verb (rq_verb rq)) (rq_url rq) i))
       | Some name \<Rightarrow> appHandler L V name rq u)"

definition serveRequest :: "lib \<Rightarrow> express \<Rightarrow> server \<Rightarrow> request \<Rightarrow> httpReply act" where
  "serveRequest L X V rq =
     bindM (mintRequestId L (rq_idHeader rq)) (\<lambda>i.
       catchAsync (\<lambda>e. Envelope (globalErrorHandler (sv_prod V) i e (sv_stack V e)))
         (answerWith L V rq i (appWalk X (rq_verb rq) (rq_path rq))))"

section \<open>What holds of every answer\<close>

text \<open>The error envelope: the id of the request is in it, and in production nothing else than the four fields.\<close>

definition envelope :: "bool \<Rightarrow> string \<Rightarrow> response \<Rightarrow> bool" where
  "envelope inProd i r \<longleftrightarrow> (\<exists>m errs more. rs_body r = JObj
     ([(''success'', JBool False), (''message'', JStr m), (''errors'', JArr errs), (''requestId'', JStr i)] @ more) \<and>
     (inProd \<longrightarrow> more = []))"

lemma error_envelope: "envelope inProd i (globalErrorHandler inProd i e stack)"
  by (auto simp: envelope_def globalErrorHandler_def Let_def)

lemma notFound_envelope: "envelope inProd i (notFoundAnswer m u i)"
  by (auto simp: envelope_def notFoundAnswer_def)

text \<open>Errors nobody meant to show are told apart by nothing in the answer.\<close>

definition unexpected :: "exn \<Rightarrow> bool" where
  "unexpected e \<longleftrightarrow> (\<exists>s. e = OtherErr s \<or> e = DbCheck s) \<or> e = RedisErr"

lemma unexpected_same:
  "unexpected e \<Longrightarrow> unexpected e' \<Longrightarrow> globalErrorHandler True i e s = globalErrorHandler True i e' s'"
  by (auto simp: unexpected_def globalErrorHandler_def)

lemma serve_answers:
  assumes "\<forall>n. SAFE_ID (uuidTape L n)"
  obtains i w1 r w' where "serveRequest L X V rq w = (Inr r, w')" and "SAFE_ID i"
    and "w1 = w\<lparr>uuidPos := uuidPos w1\<rparr>" and "uuidPos w \<le> uuidPos w1"
    and "(case answerWith L V rq i (appWalk X (rq_verb rq) (rq_path rq)) w1 of
            (Inl e, w2) \<Rightarrow> w2 = w' \<and> r = Envelope (globalErrorHandler (sv_prod V) i e (sv_stack V e))
          | (Inr r0, w2) \<Rightarrow> w2 = w' \<and> r = r0)"
proof -
  obtain i w1 where i: "mintRequestId L (rq_idHeader rq) w = (Inr i, w1)" "SAFE_ID i" "uuidPos w \<le> uuidPos w1"
    "w1 = w\<lparr>uuidPos := uuidPos w1\<rparr>" using requestId_safe [OF assms] by blast
  obtain a w2 where a: "answerWith L V rq i (appWalk X (rq_verb rq) (rq_path rq)) w1 = (a, w2)" by fastforce
  show thesis
  proof (cases a)
    case (Inl e)
    with i a show ?thesis by (intro that [of "Envelope (globalErrorHandler (sv_prod V) i e (sv_stack V e))" w2 i w1])
      (simp_all add: serveRequest_def catchAsync_def eval)
  next
    case (Inr r0)
    with i a show ?thesis by (intro that [of r0 w2 i w1]) (simp_all add: serveRequest_def catchAsync_def eval)
  qed
qed

end
