(* ===== verification/AuthController.thy ===== *)
theory AuthController
  imports Handlers AuthAccount
begin

text \<open>
  The handlers of \<^verbatim>\<open>modules/auth/auth.controller.ts\<close>, and the profile that \<^verbatim>\<open>config/passport.ts\<close> makes of what
  Google sends. The bodies are the validated ones.
\<close>

section \<open>What the answers hold\<close>

definition jtext :: "string option \<Rightarrow> json" where
  "jtext s = jopt JStr s"

definition publicUserJson :: "publicUser \<Rightarrow> json" where
  "publicUserJson u = JObj [(''id'', JStr (pu_id u)), (''name'', JStr (pu_name u)),
     (''email'', JStr (pu_email u)), (''role'', JStr (show_role (pu_role u))),
     (''avatarUrl'', jtext (pu_avatarUrl u))]"

definition tokenFields :: "tokens \<Rightarrow> (string \<times> json) list" where
  "tokenFields t = [(''accessToken'', JStr (tk_accessToken t)), (''refreshToken'', JStr (tk_refreshToken t)),
     (''user'', publicUserJson (tk_user t))]"

definition tokensJson :: "tokens \<Rightarrow> json" where
  "tokensJson t = JObj (tokenFields t)"

definition pendingJson :: "string \<times> real \<Rightarrow> json" where
  "pendingJson p = JObj [(''email'', JStr (fst p)), (''expiresInSec'', JNum (snd p))]"

definition challengeJson :: "string \<times> real \<Rightarrow> json" where
  "challengeJson p = JObj [(''challengeId'', JStr (fst p)), (''expiresInSec'', JNum (snd p))]"

fun loginJson :: "loginAnswer \<Rightarrow> json" where
  "loginJson (LoggedIn t) = JObj ((''twoFactorRequired'', JBool False) # tokenFields t)"
| "loginJson (SecondFactor challengeId email ttl) = JObj [(''twoFactorRequired'', JBool True),
     (''challengeId'', JStr challengeId), (''email'', JStr email), (''expiresInSec'', JNum ttl)]"

definition verifiedJson :: "tokens \<times> string option \<Rightarrow> json" where
  "verifiedJson r = JObj (tokenFields (fst r) @
     (case snd r of None \<Rightarrow> [] | Some d \<Rightarrow> [(''deviceToken'', JStr d)]))"

fun googleJson :: "googleAnswer \<Rightarrow> json" where
  "googleJson (VerifyEmail email ttl) = JObj [(''newUser'', JBool True), (''email'', JStr email), (''expiresInSec'', JNum ttl)]"
| "googleJson (GoogleOtp challengeId email ttl) = JObj [(''newUser'', JBool False), (''twoFactorRequired'', JBool True),
     (''challengeId'', JStr challengeId), (''email'', JStr email), (''expiresInSec'', JNum ttl)]"
| "googleJson (GoogleIn t) = JObj ([(''newUser'', JBool False), (''twoFactorRequired'', JBool False)] @ tokenFields t)"

section \<open>Signing up and in\<close>

definition registerHandler :: "lib \<Rightarrow> signupInput \<Rightarrow> response act" where
  "registerHandler L body = sendData (Some 202) ''Verification code sent to your email'' pendingJson (startSignup L body)"

definition verifyOtpHandler :: "lib \<Rightarrow> string \<Rightarrow> string \<Rightarrow> call \<Rightarrow> response act" where
  "verifyOtpHandler L email otp c =
     sendData (Some 201) ''Account created successfully'' tokensJson (verifyOtp L email otp (cl_ctx c))"

definition resendOtpHandler :: "lib \<Rightarrow> string \<Rightarrow> response act" where
  "resendOtpHandler L email = sendData (Some 202) ''Verification code sent'' pendingJson (resendOtp L email)"

text \<open>The device token of the body, or else of the cookie.\<close>

definition loginHandler ::
  "lib \<Rightarrow> string \<Rightarrow> string \<Rightarrow> string option \<Rightarrow> string option \<Rightarrow> call \<Rightarrow> response act" where
  "loginHandler L email password bodyToken cookieToken c =
     bindM (login L email password (case bodyToken of None \<Rightarrow> cookieToken | Some t \<Rightarrow> Some t) (cl_ctx c)) (\<lambda>r.
     returnM (case r of
        SecondFactor _ _ _ \<Rightarrow> sendResponse (Some 202) ''Two-factor verification required'' (Some (loginJson r)) None
      | LoggedIn _ \<Rightarrow> sendResponse None ''Logged in successfully'' (Some (loginJson r)) None))"

definition verifyLoginOtpHandler :: "lib \<Rightarrow> string \<Rightarrow> string \<Rightarrow> bool \<Rightarrow> call \<Rightarrow> response act" where
  "verifyLoginOtpHandler L challengeId otp trustDevice c =
     sendData None ''Logged in successfully'' verifiedJson (verifyLoginOtp L challengeId otp trustDevice (cl_ctx c))"

definition resendLoginOtpHandler :: "lib \<Rightarrow> string \<Rightarrow> call \<Rightarrow> response act" where
  "resendLoginOtpHandler L challengeId c =
     sendData (Some 202) ''Verification code sent'' challengeJson (resendLoginOtp L challengeId (cl_ctx c))"

definition magicLoginHandler :: "lib \<Rightarrow> string \<Rightarrow> call \<Rightarrow> response act" where
  "magicLoginHandler L token c =
     sendData None ''Logged in successfully'' tokensJson (completeMagicLogin L token (cl_ctx c))"

section \<open>Tokens and sessions\<close>

definition refreshTokenHandler :: "lib \<Rightarrow> string option \<Rightarrow> string option \<Rightarrow> call \<Rightarrow> response act" where
  "refreshTokenHandler L bodyToken cookieToken c =
     (let token = (case bodyToken of None \<Rightarrow> cookieToken | Some t \<Rightarrow> Some t) in
      if token = None \<or> token = Some []
      then throwM (apiError 401 ''Refresh token is required'' [det ''TOKEN_MISSING'' ''Refresh token is required''])
      else sendData None ''Token refreshed'' tokensJson (refresh L (the token) (cl_ctx c)))"

definition logoutHandler :: "call \<Rightarrow> response act" where
  "logoutHandler c =
     asUser c (\<lambda>u.
       case (cl_sessionId c, cl_token c) of
         (Some sid, Some token) \<Rightarrow>
           if sid = [] then throwM (apiError 401 ''Unauthorized'' [])
           else sendDone ''Logged out successfully'' (logout (u_id u) sid (Some token))
       | _ \<Rightarrow> throwM (apiError 401 ''Unauthorized'' []))"

text \<open>
  The beacon of a leaving page: the body may be text, which is parsed here (\<open>parse\<close> is \<open>JSON.parse\<close>; text
  that is no JSON counts as nothing), and whatever is in it, the answer is an empty 204.
\<close>

datatype beaconBody = RawText string | Parsed json

definition safeJson :: "(string \<Rightarrow> json option) \<Rightarrow> string \<Rightarrow> json" where
  "safeJson parse text' = (case parse text' of None \<Rightarrow> JNull | Some j \<Rightarrow> j)"

definition stringField :: "string \<Rightarrow> json \<Rightarrow> string option" where
  "stringField f j =
     (case j of JObj fs \<Rightarrow> (case map_of fs f of Some (JStr s) \<Rightarrow> Some s | _ \<Rightarrow> None) | _ \<Rightarrow> None)"

definition beaconJson :: "(string \<Rightarrow> json option) \<Rightarrow> beaconBody \<Rightarrow> json" where
  "beaconJson parse body = (case body of RawText s \<Rightarrow> safeJson parse s | Parsed j \<Rightarrow> j)"

definition logoutBeaconHandler ::
  "lib \<Rightarrow> (string \<Rightarrow> instant \<Rightarrow> exn + accessPayload) \<Rightarrow> (string \<Rightarrow> json option) \<Rightarrow> beaconBody \<Rightarrow> httpReply act" where
  "logoutBeaconHandler L verify parse body =
     (let b = beaconJson parse body in
      thenM (logoutByToken L verify (stringField ''refreshToken'' b) (stringField ''accessToken'' b))
      (returnM (EmptyStatus 204)))"

definition logoutAllHandler :: "call \<Rightarrow> response act" where
  "logoutAllHandler c =
     asUser c (\<lambda>u. sendData None ''All sessions revoked''
       (\<lambda>n. JObj [(''revoked'', JNum (of_nat n))]) (logoutAll (u_id u)))"

definition sessionViewJson :: "(instant \<Rightarrow> json) \<Rightarrow> sessionView \<Rightarrow> json" where
  "sessionViewJson date s = JObj [(''id'', JStr (sw_id s)), (''ip'', jtext (sw_ip s)),
     (''userAgent'', jtext (sw_userAgent s)), (''deviceName'', jtext (sw_deviceName s)),
     (''lastUsedAt'', date (sw_lastUsedAt s)), (''createdAt'', date (sw_createdAt s)),
     (''expiresAt'', date (sw_expiresAt s)), (''current'', JBool (sw_current s))]"

definition listSessionsHandler :: "(instant \<Rightarrow> json) \<Rightarrow> call \<Rightarrow> response act" where
  "listSessionsHandler date c =
     asUser c (\<lambda>u. sendData None ''Sessions retrieved'' (\<lambda>ss. JArr (map (sessionViewJson date) ss))
       (listSessions (u_id u) (cl_sessionId c)))"

definition revokeSessionHandler :: "string \<Rightarrow> call \<Rightarrow> response act" where
  "revokeSessionHandler i c = asUser c (\<lambda>u. sendDone ''Session revoked'' (revokeSession (u_id u) i))"

section \<open>The account\<close>

fun toggleJson :: "toggleAnswer \<Rightarrow> json" where
  "toggleJson (OtpRequired challengeId ttl) = JObj [(''otpRequired'', JBool True),
     (''challengeId'', JStr challengeId), (''expiresInSec'', JNum ttl)]"
| "toggleJson (TwoFactorSet b) = JObj [(''otpRequired'', JBool False), (''twoFactorEnabled'', JBool b)]"

definition toggle2faHandler :: "lib \<Rightarrow> toggleInput \<Rightarrow> call \<Rightarrow> response act" where
  "toggle2faHandler L body c =
     asUser c (\<lambda>u. bindM (toggle2fa L (u_id u) body (cl_ctx c)) (\<lambda>r.
       returnM (case r of
          OtpRequired _ _ \<Rightarrow> sendResponse (Some 202) ''Verification code sent, confirm to apply the change'' (Some (toggleJson r)) None
        | TwoFactorSet _ \<Rightarrow> sendResponse (Some 200) ''Two-factor setting updated'' (Some (toggleJson r)) None)))"

definition forgotPasswordHandler :: "lib \<Rightarrow> string \<Rightarrow> response act" where
  "forgotPasswordHandler L email = sendMessage (forgotPassword L email)"

definition resetPasswordHandler :: "lib \<Rightarrow> string \<Rightarrow> string \<Rightarrow> call \<Rightarrow> response act" where
  "resetPasswordHandler L token password c = sendMessage (resetPassword L token password (cl_ctx c))"

definition changePasswordHandler :: "lib \<Rightarrow> string \<Rightarrow> string \<Rightarrow> call \<Rightarrow> response act" where
  "changePasswordHandler L currentPassword newPassword c =
     asUser c (\<lambda>u. sendMessage (changePassword L (u_id u) currentPassword newPassword (cl_ctx c)))"

section \<open>Google\<close>

text \<open>
  The profile as \<^verbatim>\<open>passport-google-oauth20\<close> hands it over; the flag of an email may be missing.
\<close>

record passportProfile =
  pp_id :: string
  pp_displayName :: string
  pp_givenName :: "string option"
  pp_emails :: "(string \<times> bool option) list"
  pp_photos :: "string list"

definition toGoogleProfile :: "passportProfile \<Rightarrow> googleProfile" where
  "toGoogleProfile p =
     (let primary = (case pp_emails p of [] \<Rightarrow> None | e # _ \<Rightarrow> Some e) in
      \<lparr>gp_googleId = pp_id p,
       gp_email = js_lower (js_trim (case primary of None \<Rightarrow> [] | Some e \<Rightarrow> fst e)),
       gp_emailVerified = ((case primary of None \<Rightarrow> None | Some e \<Rightarrow> snd e) \<noteq> Some False),
       gp_name = (if pp_displayName p \<noteq> [] then pp_displayName p
                  else (case pp_givenName p of Some g \<Rightarrow> if g \<noteq> [] then g else ''CityCare user''
                        | None \<Rightarrow> ''CityCare user'')),
       gp_avatarUrl = (case pp_photos p of [] \<Rightarrow> None | v # _ \<Rightarrow> Some v)\<rparr>)"

text \<open>\<open>URLSearchParams.toString()\<close>: the serialiser for \<^verbatim>\<open>application/x-www-form-urlencoded\<close>, on bytes.\<close>

definition formHex :: "nat \<Rightarrow> char" where
  "formHex n = ''0123456789ABCDEF'' ! (n mod 16)"

definition formPlain :: "char \<Rightarrow> bool" where
  "formPlain c \<longleftrightarrow>
     c \<in> set ''ABCDEFGHIJKLMNOPQRSTUVWXYZabcdefghijklmnopqrstuvwxyz0123456789*-._''"

definition formByte :: "char \<Rightarrow> string" where
  "formByte c =
     (if formPlain c then [c] else if c = CHR '' '' then ''+''
      else [CHR ''%'', formHex (of_char c div 16), formHex (of_char c mod 16)])"

definition formEncode :: "string \<Rightarrow> string" where
  "formEncode s = concat (map formByte s)"

definition searchParams :: "(string \<times> string) list \<Rightarrow> string" where
  "searchParams ps = join_with ''&'' (map (\<lambda>(k, v). formEncode k @ ''='' @ formEncode v) ps)"

fun googleParams :: "googleAnswer \<Rightarrow> (string \<times> string) list" where
  "googleParams (VerifyEmail email ttl) = [(''status'', ''verify-email''), (''email'', email)]"
| "googleParams (GoogleOtp challengeId email ttl) = [(''status'', ''otp-required''), (''challengeId'', challengeId)]"
| "googleParams (GoogleIn t) = [(''status'', ''success''), (''accessToken'', tk_accessToken t),
     (''refreshToken'', tk_refreshToken t)]"

definition googleCallbackHandler :: "lib \<Rightarrow> googleProfile \<Rightarrow> call \<Rightarrow> httpReply act" where
  "googleCallbackHandler L profile c =
     bindM (handleGoogleProfile L profile (cl_ctx c)) (\<lambda>r.
     returnM (RedirectTo (hd (split_on (CHR '','') (CLIENT_URL L)) @ ''/auth/callback?'' @
       searchParams (googleParams r))))"

definition googleTokenHandler :: "lib \<Rightarrow> bool \<Rightarrow> googlePayload option \<Rightarrow> call \<Rightarrow> response act" where
  "googleTokenHandler L configured ticket c =
     bindM (googleToken L configured ticket (cl_ctx c)) (\<lambda>r.
     let pending = (case r of GoogleIn _ \<Rightarrow> False | _ \<Rightarrow> True) in
     returnM (sendResponse (Some (if pending then 202 else 200))
       (if pending then ''Verification required'' else ''Logged in successfully'') (Some (googleJson r)) None))"

end
