(* ===== verification/ComplaintController.thy ===== *)
theory ComplaintController
  imports Handlers Middlewares Complaint ComplaintReads
begin

text \<open>
  The handlers of \<^verbatim>\<open>modules/complaint/complaint.controller.ts\<close>. The id of the path and the body are the
  validated ones; \<open>enc\<close> writes the result of the service as JSON; \<open>store\<close> is the upload to Cloudinary.
\<close>

definition complaintCreate :: "lib \<Rightarrow> (complaint \<times> nearbyHint option \<Rightarrow> json) \<Rightarrow> createInput \<Rightarrow> call \<Rightarrow> response act" where
  "complaintCreate L enc body c =
     asUser c (\<lambda>u. sendData (Some 201) ''Complaint submitted successfully'' enc (create L body (toActor u) (cl_ctx c)))"

definition complaintList :: "lib \<Rightarrow> (listItem \<Rightarrow> json) \<Rightarrow> listQuery \<Rightarrow> call \<Rightarrow> response act" where
  "complaintList L enc query c =
     asUser c (\<lambda>u. sendPage ''Complaints retrieved'' enc (ComplaintReads.listAll L query (toActor u)))"

definition complaintListMine :: "lib \<Rightarrow> (listItem \<Rightarrow> json) \<Rightarrow> listQuery \<Rightarrow> call \<Rightarrow> response act" where
  "complaintListMine L enc query c =
     asUser c (\<lambda>u. sendPage ''Complaints retrieved'' enc (listMine L query (toActor u)))"

definition complaintListAssigned :: "lib \<Rightarrow> (listItem \<Rightarrow> json) \<Rightarrow> listQuery \<Rightarrow> call \<Rightarrow> response act" where
  "complaintListAssigned L enc query c =
     asUser c (\<lambda>u. sendPage ''Assigned complaints retrieved'' enc (listAssigned L query (toActor u)))"

definition complaintSearch :: "lib \<Rightarrow> (listItem \<Rightarrow> json) \<Rightarrow> string \<Rightarrow> listQuery \<Rightarrow> call \<Rightarrow> response act" where
  "complaintSearch L enc q query c =
     asUser c (\<lambda>u. sendPage ''Search results'' enc (search L q query (toActor u)))"

definition complaintNearby :: "((listItem \<times> int) list \<Rightarrow> json) \<Rightarrow> nearbyQuery \<Rightarrow> response act" where
  "complaintNearby enc query = sendData None ''Nearby complaints retrieved'' enc (nearby query)"

definition complaintTrack :: "(trackView \<Rightarrow> json) \<Rightarrow> string \<Rightarrow> response act" where
  "complaintTrack enc trackingId = sendData None ''Complaint status retrieved'' enc (track trackingId)"

definition complaintGetById :: "(detailView \<Rightarrow> json) \<Rightarrow> string \<Rightarrow> call \<Rightarrow> response act" where
  "complaintGetById enc i c = asUser c (\<lambda>u. sendData None ''Complaint retrieved'' enc (getById i (toActor u)))"

definition complaintUpdate :: "lib \<Rightarrow> (complaint \<Rightarrow> json) \<Rightarrow> string \<Rightarrow> updateInput \<Rightarrow> call \<Rightarrow> response act" where
  "complaintUpdate L enc i body c =
     asUser c (\<lambda>u. sendData None ''Complaint updated'' enc (update L i body (toActor u) (cl_ctx c)))"

definition complaintRemove :: "lib \<Rightarrow> string \<Rightarrow> call \<Rightarrow> response act" where
  "complaintRemove L i c = asUser c (\<lambda>u. sendMessage (softDelete L i (toActor u) (cl_ctx c)))"

definition complaintChangeStatus ::
  "lib \<Rightarrow> (listItem option \<Rightarrow> json) \<Rightarrow> string \<Rightarrow> complaint_status \<Rightarrow> string option \<Rightarrow> call \<Rightarrow> response act" where
  "complaintChangeStatus L enc i status note' c =
     asUser c (\<lambda>u. sendData None (''Status changed to '' @ show_status status) enc
       (changeStatus L i status note' (toActor u) (cl_ctx c)))"

definition complaintAssign ::
  "lib \<Rightarrow> (listItem option \<Rightarrow> json) \<Rightarrow> string \<Rightarrow> assignInput \<Rightarrow> call \<Rightarrow> response act" where
  "complaintAssign L enc i body c =
     asUser c (\<lambda>u. sendData None ''Complaint assigned'' enc (assign L i body (toActor u) (cl_ctx c)))"

definition complaintCancel ::
  "lib \<Rightarrow> (listItem option \<Rightarrow> json) \<Rightarrow> string \<Rightarrow> string option \<Rightarrow> call \<Rightarrow> response act" where
  "complaintCancel L enc i note' c =
     asUser c (\<lambda>u. sendData None ''Complaint cancelled'' enc (cancel L i note' (toActor u) (cl_ctx c)))"

definition complaintReopen ::
  "lib \<Rightarrow> (listItem option \<Rightarrow> json) \<Rightarrow> string \<Rightarrow> string option \<Rightarrow> call \<Rightarrow> response act" where
  "complaintReopen L enc i note' c =
     asUser c (\<lambda>u. sendData None ''Complaint reopened'' enc (reopen L i note' (toActor u) (cl_ctx c)))"

definition complaintHistory :: "(history list \<Rightarrow> json) \<Rightarrow> string \<Rightarrow> call \<Rightarrow> response act" where
  "complaintHistory enc i c = asUser c (\<lambda>u. sendData None ''History retrieved'' enc (ComplaintReads.history i (toActor u)))"

definition complaintAddAttachment ::
  "lib \<Rightarrow> (upload \<Rightarrow> exn + string \<times> string) \<Rightarrow> (attachment \<Rightarrow> json) \<Rightarrow> string \<Rightarrow> uploads \<Rightarrow>
   attachment_kind option \<Rightarrow> call \<Rightarrow> response act" where
  "complaintAddAttachment L store enc i up kind c =
     (case up of
        OneFile f \<Rightarrow> asUser c (\<lambda>u. sendData (Some 201) ''Attachment uploaded'' enc (addAttachment L i (store f) kind (toActor u)))
      | _ \<Rightarrow> throwM (apiError 400 ''Validation failed'' [detF ''file'' ''VALIDATION_ERROR'' ''A file is required'']))"

definition complaintAddComment ::
  "lib \<Rightarrow> (comment \<Rightarrow> json) \<Rightarrow> string \<Rightarrow> string \<Rightarrow> bool \<Rightarrow> call \<Rightarrow> response act" where
  "complaintAddComment L enc i body internal c =
     asUser c (\<lambda>u. sendData (Some 201) ''Comment added'' enc (addComment L i body internal (toActor u)))"

definition complaintListComments :: "(comment list \<Rightarrow> json) \<Rightarrow> string \<Rightarrow> call \<Rightarrow> response act" where
  "complaintListComments enc i c =
     asUser c (\<lambda>u. sendData None ''Comments retrieved'' enc (listComments i (toActor u)))"

definition complaintUpvote :: "lib \<Rightarrow> (upvoteResult \<Rightarrow> json) \<Rightarrow> string \<Rightarrow> call \<Rightarrow> response act" where
  "complaintUpvote L enc i c = asUser c (\<lambda>u. sendData (Some 201) ''Upvoted'' enc (upvote L i (toActor u)))"

definition complaintFeedback :: "lib \<Rightarrow> (feedback \<Rightarrow> json) \<Rightarrow> string \<Rightarrow> feedbackInput \<Rightarrow> call \<Rightarrow> response act" where
  "complaintFeedback L enc i body c =
     asUser c (\<lambda>u. sendData (Some 201) ''Thanks for your feedback'' enc (feedback L i body (toActor u) (cl_ctx c)))"

definition complaintOfficerStats :: "(officerStats \<Rightarrow> json) \<Rightarrow> call \<Rightarrow> response act" where
  "complaintOfficerStats enc c =
     asUser c (\<lambda>u. sendData None ''Officer stats retrieved'' enc (listOfficerStats (u_id u)))"

end
