(* ===== verification/PaymentController.thy ===== *)
theory PaymentController
  imports Handlers Ledger
begin

text \<open>
  The handlers of \<^verbatim>\<open>modules/payment/payment.controller.ts\<close> beside the four callbacks of theory Payment, and
  the answers those callbacks become. Files are answered with the headers the handler sets.
\<close>

section \<open>Callbacks\<close>

definition paymentSuccess ::
  "lib \<Rightarrow> gateway \<Rightarrow> (string \<times> json) list \<Rightarrow> (string \<times> json) list \<Rightarrow> call \<Rightarrow> httpReply act" where
  "paymentSuccess L G body query c =
     bindM (successCallback L G body query (ctx_ip (cl_ctx c))) (\<lambda>url. returnM (RedirectTo url))"

definition paymentFail ::
  "lib \<Rightarrow> (string \<times> json) list \<Rightarrow> (string \<times> json) list \<Rightarrow> call \<Rightarrow> httpReply act" where
  "paymentFail L body query c =
     bindM (failCallback L body query (ctx_ip (cl_ctx c))) (\<lambda>url. returnM (RedirectTo url))"

definition paymentCancel ::
  "lib \<Rightarrow> (string \<times> json) list \<Rightarrow> (string \<times> json) list \<Rightarrow> call \<Rightarrow> httpReply act" where
  "paymentCancel L body query c =
     bindM (cancelCallback L body query (ctx_ip (cl_ctx c))) (\<lambda>url. returnM (RedirectTo url))"

definition paymentIpn ::
  "lib \<Rightarrow> gateway \<Rightarrow> (string \<times> json) list \<Rightarrow> (string \<times> json) list \<Rightarrow> call \<Rightarrow> response act" where
  "paymentIpn L G body query c =
     sendData None ''IPN processed'' (\<lambda>tranId. JObj [(''transactionId'', JStr tranId)])
       (ipn L G body query (ctx_ip (cl_ctx c)))"

section \<open>The payer and the staff\<close>

definition paymentInitiate :: "lib \<Rightarrow> gateway \<Rightarrow> string \<Rightarrow> call \<Rightarrow> response act" where
  "paymentInitiate L G serviceRequestId c =
     asUser c (\<lambda>u. sendData (Some 201) ''Payment session created''
       (\<lambda>r. JObj [(''paymentId'', JStr (ini_paymentId r)), (''transactionId'', JStr (ini_transactionId r)),
          (''paymentUrl'', JStr (ini_paymentUrl r))])
       (initiate L G (u_id u) serviceRequestId (cl_ctx c)))"

definition paymentListMine ::
  "lib \<Rightarrow> (paymentView \<times> paymentRequestView option \<Rightarrow> json) \<Rightarrow> int option \<Rightarrow> int option \<Rightarrow> call \<Rightarrow> response act" where
  "paymentListMine L enc page limit c =
     asUser c (\<lambda>u. sendPage ''Payments retrieved'' enc (listMyPayments L (u_id u) page limit))"

definition paymentGetById :: "lib \<Rightarrow> (paymentDetail \<Rightarrow> json) \<Rightarrow> string \<Rightarrow> call \<Rightarrow> response act" where
  "paymentGetById L enc i c = asUser c (\<lambda>u. sendData None ''Payment retrieved'' enc (getPayment L i (toActor u)))"

definition pdfHeaders :: "string \<Rightarrow> string \<Rightarrow> (string \<times> string) list" where
  "pdfHeaders pdf filename =
     [(''Content-Type'', ''application/pdf''),
      (''Content-Disposition'', ''attachment; filename=\"'' @ filename @ ''\"''),
      (''Content-Length'', show_nat (length pdf)),
      (''Cache-Control'', ''private, no-store'')]"

definition paymentReceipt :: "lib \<Rightarrow> gateway \<Rightarrow> string \<Rightarrow> call \<Rightarrow> httpReply act" where
  "paymentReceipt L G i c =
     asUser c (\<lambda>u. bindM (getReceipt L G i (toActor u)) (\<lambda>(pdf, filename).
       returnM (FileReply (pdfHeaders pdf filename) pdf)))"

definition paymentRequestRefund ::
  "lib \<Rightarrow> (refund \<times> string \<Rightarrow> json) \<Rightarrow> string \<Rightarrow> string \<Rightarrow> call \<Rightarrow> response act" where
  "paymentRequestRefund L enc i reason c =
     asUser c (\<lambda>u. sendData (Some 201) ''Refund requested'' enc (requestRefund L i reason (toActor u) (cl_ctx c)))"

definition paymentApproveRefund :: "lib \<Rightarrow> gateway \<Rightarrow> (refund \<times> string \<Rightarrow> json) \<Rightarrow> string \<Rightarrow> call \<Rightarrow> response act" where
  "paymentApproveRefund L G enc i c =
     asUser c (\<lambda>u. sendData None ''Refund processed'' enc (approveRefund L G i (toActor u) (cl_ctx c)))"

definition paymentListAll ::
  "lib \<Rightarrow> (ledgerRow \<Rightarrow> json) \<Rightarrow> ledgerQuery \<Rightarrow> int option \<Rightarrow> int option \<Rightarrow> response act" where
  "paymentListAll L enc query page limit = sendPage ''Payments retrieved'' enc (listAllPayments L query page limit)"

definition paymentSummary :: "lib \<Rightarrow> (ledgerSummary \<Rightarrow> json) \<Rightarrow> ledgerQuery \<Rightarrow> response act" where
  "paymentSummary L enc query = sendData None ''Payment summary retrieved'' enc (summary L query)"

definition csvHeaders :: "string \<Rightarrow> (string \<times> string) list" where
  "csvHeaders filename =
     [(''Content-Type'', ''text/csv; charset=utf-8''),
      (''Content-Disposition'', ''attachment; filename=\"'' @ filename @ ''\"'')]"

text \<open>The export reads at most one page more than there are payments, so the fuel is never used up.\<close>

definition paymentLedgerCsv :: "lib \<Rightarrow> ledgerQuery \<Rightarrow> httpReply act" where
  "paymentLedgerCsv L query =
     bindM (getsM clock) (\<lambda>now.
     bindM (getsM (\<lambda>w. Suc (length (payments w)))) (\<lambda>fuel.
     bindM (streamLedgerCsv L fuel query) (\<lambda>csv.
     bindM (orThrow (OtherErr ''fuel'') csv) (\<lambda>body.
     returnM (FileReply (csvHeaders (''citycare-payments-'' @ take 10 (iso_string now) @ ''.csv'') @
       [(''Cache-Control'', ''private, no-store'')]) body)))))"

end
