(* ===== verification/MasterData.thy ===== *)
theory MasterData
  imports Cache "HOL-Library.List_Lexorder" "HOL-Library.Char_ord"
begin

text \<open>
  The lists the public pages are built from: categories, departments, wards, zones and service types
  (\<^verbatim>\<open>modules/*/*.service.ts\<close>), each behind a cache key of \<^verbatim>\<open>lib/cache.ts\<close>. A list is modelled as the
  JSON value that is answered and cached.
\<close>

section \<open>Cache keys\<close>

definition CACHE_KEYS_categories :: string where "CACHE_KEYS_categories = ''categories:all''"

definition CACHE_KEYS_departments :: string where "CACHE_KEYS_departments = ''departments:all''"

definition CACHE_KEYS_wards :: string where "CACHE_KEYS_wards = ''wards:all''"

definition CACHE_KEYS_zones :: string where "CACHE_KEYS_zones = ''zones:all''"

definition CACHE_KEYS_serviceTypes :: string where "CACHE_KEYS_serviceTypes = ''servicetypes:all''"

definition CACHE_KEYS_adminStats :: string where "CACHE_KEYS_adminStats = ''admin:stats''"

lemmas CACHE_KEYS_defs = CACHE_KEYS_categories_def CACHE_KEYS_departments_def CACHE_KEYS_wards_def
  CACHE_KEYS_zones_def CACHE_KEYS_serviceTypes_def CACHE_KEYS_adminStats_def

definition CACHE_TTL_masterData :: real where "CACHE_TTL_masterData = 3600"

definition CACHE_TTL_stats :: real where "CACHE_TTL_stats = 60"

definition invalidateMasterData :: "unit act" where
  "invalidateMasterData = invalidate [CACHE_KEYS_categories, CACHE_KEYS_departments, CACHE_KEYS_wards,
     CACHE_KEYS_zones, CACHE_KEYS_serviceTypes]"

text \<open>A list of plain objects, cached as it is answered.\<close>

definition cachedJson :: "string \<Rightarrow> real \<Rightarrow> (world \<Rightarrow> json) \<Rightarrow> json act" where
  "cachedJson k ttl f = cachedVal (\<lambda>j. j) (\<lambda>j. j) k ttl (getsM f)"

text \<open>A property that is absent leaves the column as it is.\<close>

definition given :: "'a option \<Rightarrow> 'a \<Rightarrow> 'a" where
  "given v old = (case v of None \<Rightarrow> old | Some x \<Rightarrow> x)"

definition givenOpt :: "'a option \<Rightarrow> 'a option \<Rightarrow> 'a option" where
  "givenOpt v old = (case v of None \<Rightarrow> old | Some x \<Rightarrow> Some x)"

lemma given_simps [simp]: "given None x = x" "given (Some y) x = y"
  "givenOpt None o1 = o1" "givenOpt (Some y) o1 = Some y"
  by (simp_all add: given_def givenOpt_def)

text \<open>A unique column of an updated row: no other row has the new value.\<close>

definition takenBy :: "('r \<Rightarrow> string) \<Rightarrow> ('r \<Rightarrow> 'c) \<Rightarrow> string \<Rightarrow> 'c option \<Rightarrow> 'r \<Rightarrow> bool" where
  "takenBy ident col i v r \<longleftrightarrow> ident r \<noteq> i \<and> v = Some (col r)"

definition notFound :: "string \<Rightarrow> exn" where
  "notFound message = apiError 404 message [detC ''NOT_FOUND'']"

definition badReference :: "string \<Rightarrow> string \<Rightarrow> exn" where
  "badReference field message =
     apiError 400 ''Invalid reference id'' [detF field ''VALIDATION_ERROR'' message]"

section \<open>Departments\<close>

record createDepartmentInput =
  cd_name :: string
  cd_email :: "string option"
  cd_phone :: "string option"
  cd_address :: "string option"

record updateDepartmentInput =
  xd_name :: "string option"
  xd_email :: "string option"
  xd_phone :: "string option"
  xd_address :: "string option"

text \<open>The two counts go through the relations, which the soft-delete filter does not touch.\<close>

definition departmentItem :: "world \<Rightarrow> department \<Rightarrow> json" where
  "departmentItem w d = JObj
     [(''id'', JStr (dp_id d)), (''name'', JStr (dp_name d)), (''email'', jopt JStr (dp_email d)),
      (''phone'', jopt JStr (dp_phone d)), (''address'', jopt JStr (dp_address d)),
      (''_count'', JObj
        [(''categories'', JNum (real (countWhere (\<lambda>c. cat_departmentId c = dp_id d) (categories w)))),
         (''officers'', JNum (real (countWhere (\<lambda>u. u_departmentId u = Some (dp_id d)) (users w))))])]"

definition departmentsJson :: "world \<Rightarrow> json" where
  "departmentsJson w = JArr (map (departmentItem w) (sort_key dp_name (liveDepartments w)))"

definition listDepartments :: "json act" where
  "listDepartments = cachedJson CACHE_KEYS_departments CACHE_TTL_masterData departmentsJson"

definition departmentJson :: "department \<Rightarrow> json" where
  "departmentJson d = JObj
     [(''id'', JStr (dp_id d)), (''name'', JStr (dp_name d)), (''email'', jopt JStr (dp_email d)),
      (''phone'', jopt JStr (dp_phone d)), (''address'', jopt JStr (dp_address d)),
      (''deletedAt'', jopt (\<lambda>t. JStr (iso_string t)) (dp_deletedAt d)),
      (''createdAt'', JStr (iso_string (dp_createdAt d)))]"

definition departmentFields :: "department \<Rightarrow> json" where
  "departmentFields d = JObj
     [(''name'', JStr (dp_name d)), (''email'', jopt JStr (dp_email d)),
      (''phone'', jopt JStr (dp_phone d)), (''address'', jopt JStr (dp_address d))]"

definition newDepartment :: "string \<Rightarrow> instant \<Rightarrow> createDepartmentInput \<Rightarrow> department" where
  "newDepartment i now input =
     \<lparr>dp_id = i, dp_name = cd_name input, dp_email = cd_email input, dp_phone = cd_phone input,
      dp_address = cd_address input, dp_deletedAt = None, dp_createdAt = now\<rparr>"

definition createDepartment :: "lib \<Rightarrow> createDepartmentInput \<Rightarrow> string \<Rightarrow> ctx \<Rightarrow> department act" where
  "createDepartment L input actorId cx =
     bindM (transaction
       (bindM (freshId L) (\<lambda>i. bindM (getsM clock) (\<lambda>now.
        thenM (guardM (uniqueBy departments (\<lambda>d. dp_name d = cd_name input) [''name'']))
        (bindM (insertRow departments_update (newDepartment i now input)) (\<lambda>created.
         thenM (audit L (Some actorId) ''DEPARTMENT_CREATED'' ''Department'' (dp_id created) None
           (Some (departmentJson created)) (Some cx))
         (returnM created))))))) (\<lambda>department.
     thenM (invalidate [CACHE_KEYS_departments]) (returnM department))"

definition patchDepartment :: "updateDepartmentInput \<Rightarrow> department \<Rightarrow> department" where
  "patchDepartment input d =
     d\<lparr>dp_name := given (xd_name input) (dp_name d), dp_email := givenOpt (xd_email input) (dp_email d),
       dp_phone := givenOpt (xd_phone input) (dp_phone d),
       dp_address := givenOpt (xd_address input) (dp_address d)\<rparr>"

definition findDepartment :: "string \<Rightarrow> world \<Rightarrow> department option" where
  "findDepartment i w = find (\<lambda>d. dp_id d = i) (liveDepartments w)"

definition updateDepartment ::
  "lib \<Rightarrow> string \<Rightarrow> updateDepartmentInput \<Rightarrow> string \<Rightarrow> ctx \<Rightarrow> department act" where
  "updateDepartment L i input actorId cx =
     bindM (getsM (findDepartment i)) (\<lambda>found.
     bindM (orThrow (notFound ''Department not found'') found) (\<lambda>before.
     bindM (transaction
       (thenM (guardM (uniqueBy departments (takenBy dp_id dp_name i (xd_name input)) [''name'']))
        (bindM (updateRow departments departments_update (\<lambda>d. dp_id d = i) (patchDepartment input)) (\<lambda>updated.
         thenM (audit L (Some actorId) ''DEPARTMENT_UPDATED'' ''Department'' i
           (Some (departmentFields before)) (Some (departmentFields updated)) (Some cx))
         (returnM updated))))) (\<lambda>department.
     thenM (invalidate [CACHE_KEYS_departments]) (returnM department))))"

definition deleteDepartment :: "lib \<Rightarrow> string \<Rightarrow> string \<Rightarrow> ctx \<Rightarrow> string act" where
  "deleteDepartment L i actorId cx =
     bindM (getsM (findDepartment i)) (\<lambda>found.
     bindM (orThrow (notFound ''Department not found'') found) (\<lambda>department.
     bindM (getsM (\<lambda>w. countWhere (\<lambda>c. cat_departmentId c = i) (liveCategories w))) (\<lambda>held.
     thenM (throwIf (0 < held)
       (apiError 409 ''Move or remove its categories first''
         [det ''CONFLICT'' (show_nat held @ '' categories still belong to this department'')]))
     (bindM (getsM clock) (\<lambda>now.
      thenM (transaction
        (thenM (updateRow departments departments_update (\<lambda>d. dp_id d = i) (\<lambda>d. d\<lparr>dp_deletedAt := Some now\<rparr>))
         (audit L (Some actorId) ''DEPARTMENT_DELETED'' ''Department'' i
           (Some (JObj [(''name'', JStr (dp_name department))])) None (Some cx))))
      (thenM (invalidate [CACHE_KEYS_departments])
      (returnM ''Department deleted'')))))))"

section \<open>Categories\<close>

record createCategoryInput =
  cc_name :: string
  cc_departmentId :: string
  cc_slaHours :: int
  cc_defaultPriority :: priority

record updateCategoryInput =
  xc_name :: "string option"
  xc_departmentId :: "string option"
  xc_slaHours :: "int option"
  xc_defaultPriority :: "priority option"

text \<open>The department of a category, deleted or not.\<close>

definition categoryItem :: "world \<Rightarrow> category \<Rightarrow> json" where
  "categoryItem w c = JObj
     [(''id'', JStr (cat_id c)), (''name'', JStr (cat_name c)),
      (''slaHours'', JNum (of_int (cat_slaHours c))),
      (''defaultPriority'', JStr (show_priority (cat_defaultPriority c))),
      (''department'', jopt (\<lambda>d. JObj [(''id'', JStr (dp_id d)), (''name'', JStr (dp_name d))])
         (find (\<lambda>d. dp_id d = cat_departmentId c) (departments w)))]"

definition categoriesJson :: "world \<Rightarrow> json" where
  "categoriesJson w = JArr (map (categoryItem w) (sort_key cat_name (liveCategories w)))"

definition listCategories :: "json act" where
  "listCategories = cachedJson CACHE_KEYS_categories CACHE_TTL_masterData categoriesJson"

definition assertDepartment :: "string \<Rightarrow> unit act" where
  "assertDepartment departmentId =
     bindM (getsM (findDepartment departmentId)) (\<lambda>department.
     throwIf (department = None) (badReference ''departmentId'' ''Department does not exist''))"

definition categoryJson :: "category \<Rightarrow> json" where
  "categoryJson c = JObj
     [(''id'', JStr (cat_id c)), (''name'', JStr (cat_name c)),
      (''departmentId'', JStr (cat_departmentId c)), (''slaHours'', JNum (of_int (cat_slaHours c))),
      (''defaultPriority'', JStr (show_priority (cat_defaultPriority c))),
      (''deletedAt'', jopt (\<lambda>t. JStr (iso_string t)) (cat_deletedAt c))]"

definition categoryFields :: "category \<Rightarrow> json" where
  "categoryFields c = JObj
     [(''name'', JStr (cat_name c)), (''slaHours'', JNum (of_int (cat_slaHours c))),
      (''defaultPriority'', JStr (show_priority (cat_defaultPriority c))),
      (''departmentId'', JStr (cat_departmentId c))]"

definition newCategory :: "string \<Rightarrow> createCategoryInput \<Rightarrow> category" where
  "newCategory i input =
     \<lparr>cat_id = i, cat_name = cc_name input, cat_departmentId = cc_departmentId input,
      cat_slaHours = cc_slaHours input, cat_defaultPriority = cc_defaultPriority input,
      cat_deletedAt = None\<rparr>"

definition createCategory :: "lib \<Rightarrow> createCategoryInput \<Rightarrow> string \<Rightarrow> ctx \<Rightarrow> category act" where
  "createCategory L input actorId cx =
     thenM (assertDepartment (cc_departmentId input))
     (bindM (transaction
       (bindM (freshId L) (\<lambda>i.
        thenM (guardM (uniqueBy categories (\<lambda>c. cat_name c = cc_name input) [''name'']))
        (bindM (insertRow categories_update (newCategory i input)) (\<lambda>created.
         thenM (audit L (Some actorId) ''CATEGORY_CREATED'' ''Category'' (cat_id created) None
           (Some (categoryJson created)) (Some cx))
         (returnM created)))))) (\<lambda>category.
     thenM (invalidate [CACHE_KEYS_categories]) (returnM category)))"

definition patchCategory :: "updateCategoryInput \<Rightarrow> category \<Rightarrow> category" where
  "patchCategory input c =
     c\<lparr>cat_name := given (xc_name input) (cat_name c),
       cat_departmentId := given (xc_departmentId input) (cat_departmentId c),
       cat_slaHours := given (xc_slaHours input) (cat_slaHours c),
       cat_defaultPriority := given (xc_defaultPriority input) (cat_defaultPriority c)\<rparr>"

definition findCategory :: "string \<Rightarrow> world \<Rightarrow> category option" where
  "findCategory i w = find (\<lambda>c. cat_id c = i) (liveCategories w)"

text \<open>\<open>if (input.departmentId)\<close>: an empty id would pass the check and meet the foreign key.\<close>

definition updateCategory ::
  "lib \<Rightarrow> string \<Rightarrow> updateCategoryInput \<Rightarrow> string \<Rightarrow> ctx \<Rightarrow> category act" where
  "updateCategory L i input actorId cx =
     bindM (getsM (findCategory i)) (\<lambda>found.
     bindM (orThrow (notFound ''Category not found'') found) (\<lambda>before.
     thenM (case xc_departmentId input of None \<Rightarrow> returnM ()
            | Some d \<Rightarrow> whenM (d \<noteq> []) (assertDepartment d))
     (bindM (transaction
       (thenM (guardM (uniqueBy categories (takenBy cat_id cat_name i (xc_name input)) [''name'']))
        (thenM (guardM (\<lambda>w. case xc_departmentId input of None \<Rightarrow> None
            | Some d \<Rightarrow> if d \<in> dp_id ` set (departments w) then None else Some (PrismaKnown ''P2003'' [])))
        (bindM (updateRow categories categories_update (\<lambda>c. cat_id c = i) (patchCategory input)) (\<lambda>updated.
         thenM (audit L (Some actorId) ''CATEGORY_UPDATED'' ''Category'' i
           (Some (categoryFields before)) (Some (categoryFields updated)) (Some cx))
         (returnM updated)))))) (\<lambda>category.
     thenM (invalidate [CACHE_KEYS_categories]) (returnM category)))))"

definition deleteCategory :: "lib \<Rightarrow> string \<Rightarrow> string \<Rightarrow> ctx \<Rightarrow> string act" where
  "deleteCategory L i actorId cx =
     bindM (getsM (findCategory i)) (\<lambda>found.
     bindM (orThrow (notFound ''Category not found'') found) (\<lambda>category.
     bindM (getsM (\<lambda>w. countWhere (\<lambda>c. c_categoryId c = i \<and>
        c_status c \<in> {SUBMITTED, UNDER_REVIEW, ASSIGNED, IN_PROGRESS, REOPENED}) (liveComplaints w))) (\<lambda>stillOpen.
     thenM (throwIf (0 < stillOpen)
       (apiError 409 ''Category still has open complaints''
         [det ''CONFLICT'' (show_nat stillOpen @ '' complaints are still open in this category'')]))
     (bindM (getsM clock) (\<lambda>now.
      thenM (transaction
        (thenM (updateRow categories categories_update (\<lambda>c. cat_id c = i) (\<lambda>c. c\<lparr>cat_deletedAt := Some now\<rparr>))
         (audit L (Some actorId) ''CATEGORY_DELETED'' ''Category'' i
           (Some (JObj [(''name'', JStr (cat_name category))])) None (Some cx))))
      (thenM (invalidate [CACHE_KEYS_categories])
      (returnM ''Category deleted'')))))))"

section \<open>Zones and wards\<close>

definition zonesJson :: "world \<Rightarrow> json" where
  "zonesJson w = JArr (map (\<lambda>z. JObj
     [(''id'', JStr (z_id z)), (''name'', JStr (z_name z)),
      (''wards'', JArr (map (\<lambda>d. JObj [(''id'', JStr (w_id d)), (''number'', JNum (of_int (w_number d))),
          (''name'', JStr (w_name d))])
        (sort_key w_number (filter (\<lambda>d. w_zoneId d = Some (z_id z)) (wards w)))))])
     (sort_key z_name (zones w)))"

definition listZones :: "json act" where
  "listZones = cachedJson CACHE_KEYS_zones CACHE_TTL_masterData zonesJson"

definition zoneJson :: "zone \<Rightarrow> json" where
  "zoneJson z = JObj [(''id'', JStr (z_id z)), (''name'', JStr (z_name z))]"

definition createZone :: "lib \<Rightarrow> string \<Rightarrow> string \<Rightarrow> ctx \<Rightarrow> zone act" where
  "createZone L name actorId cx =
     bindM (transaction
       (bindM (freshId L) (\<lambda>i.
        thenM (guardM (uniqueBy zones (\<lambda>z. z_name z = name) [''name'']))
        (bindM (insertRow zones_update \<lparr>z_id = i, z_name = name\<rparr>) (\<lambda>created.
         thenM (audit L (Some actorId) ''ZONE_CREATED'' ''Zone'' (z_id created) None
           (Some (zoneJson created)) (Some cx))
         (returnM created)))))) (\<lambda>zone.
     thenM (invalidate [CACHE_KEYS_zones]) (returnM zone))"

record createWardInput =
  cw_number :: int
  cw_name :: string
  cw_zoneId :: "string option"

record updateWardInput =
  xw_number :: "int option"
  xw_name :: "string option"
  xw_zoneId :: "string option"

definition wardItem :: "world \<Rightarrow> ward \<Rightarrow> json" where
  "wardItem w d = JObj
     [(''id'', JStr (w_id d)), (''number'', JNum (of_int (w_number d))), (''name'', JStr (w_name d)),
      (''zone'', jopt zoneJson (case w_zoneId d of None \<Rightarrow> None | Some i \<Rightarrow> find (\<lambda>z. z_id z = i) (zones w)))]"

definition wardsJson :: "world \<Rightarrow> json" where
  "wardsJson w = JArr (map (wardItem w) (sort_key w_number (wards w)))"

definition listWards :: "json act" where
  "listWards = cachedJson CACHE_KEYS_wards CACHE_TTL_masterData wardsJson"

definition zoneMissing :: "string option \<Rightarrow> world \<Rightarrow> bool" where
  "zoneMissing zoneId w \<longleftrightarrow>
     (case zoneId of None \<Rightarrow> False | Some i \<Rightarrow> find (\<lambda>z. z_id z = i) (zones w) = None)"

definition assertZone :: "string option \<Rightarrow> unit act" where
  "assertZone zoneId =
     (if zoneId = None \<or> zoneId = Some [] then returnM ()
      else bindM (getsM (zoneMissing zoneId)) (\<lambda>missing.
        throwIf missing (badReference ''zoneId'' ''Zone does not exist'')))"

text \<open>The foreign key of a written ward.\<close>

definition zoneKey :: "string option \<Rightarrow> world \<Rightarrow> exn option" where
  "zoneKey zoneId w = (if zoneMissing zoneId w then Some (PrismaKnown ''P2003'' []) else None)"

definition wardJson :: "ward \<Rightarrow> json" where
  "wardJson d = JObj
     [(''id'', JStr (w_id d)), (''number'', JNum (of_int (w_number d))), (''name'', JStr (w_name d)),
      (''zoneId'', jopt JStr (w_zoneId d))]"

definition wardFields :: "ward \<Rightarrow> json" where
  "wardFields d = JObj
     [(''number'', JNum (of_int (w_number d))), (''name'', JStr (w_name d)), (''zoneId'', jopt JStr (w_zoneId d))]"

definition createWard :: "lib \<Rightarrow> createWardInput \<Rightarrow> string \<Rightarrow> ctx \<Rightarrow> ward act" where
  "createWard L input actorId cx =
     thenM (assertZone (cw_zoneId input))
     (bindM (transaction
       (bindM (freshId L) (\<lambda>i.
        thenM (guardM (uniqueBy wards (\<lambda>d. w_number d = cw_number input) [''number'']))
        (thenM (guardM (zoneKey (cw_zoneId input)))
        (bindM (insertRow wards_update
            \<lparr>w_id = i, w_number = cw_number input, w_name = cw_name input, w_zoneId = cw_zoneId input\<rparr>) (\<lambda>created.
         thenM (audit L (Some actorId) ''WARD_CREATED'' ''Ward'' (w_id created) None
           (Some (wardJson created)) (Some cx))
         (returnM created))))))) (\<lambda>ward.
     thenM (invalidate [CACHE_KEYS_wards]) (returnM ward)))"

definition patchWard :: "updateWardInput \<Rightarrow> ward \<Rightarrow> ward" where
  "patchWard input d =
     d\<lparr>w_number := given (xw_number input) (w_number d), w_name := given (xw_name input) (w_name d),
       w_zoneId := givenOpt (xw_zoneId input) (w_zoneId d)\<rparr>"

definition updateWard :: "lib \<Rightarrow> string \<Rightarrow> updateWardInput \<Rightarrow> string \<Rightarrow> ctx \<Rightarrow> ward act" where
  "updateWard L i input actorId cx =
     bindM (getsM (\<lambda>w. find (\<lambda>d. w_id d = i) (wards w))) (\<lambda>found.
     bindM (orThrow (notFound ''Ward not found'') found) (\<lambda>before.
     thenM (assertZone (xw_zoneId input))
     (bindM (transaction
       (thenM (guardM (uniqueBy wards (takenBy w_id w_number i (xw_number input)) [''number'']))
        (thenM (guardM (zoneKey (xw_zoneId input)))
        (bindM (updateRow wards wards_update (\<lambda>d. w_id d = i) (patchWard input)) (\<lambda>updated.
         thenM (audit L (Some actorId) ''WARD_UPDATED'' ''Ward'' i
           (Some (wardFields before)) (Some (wardFields updated)) (Some cx))
         (returnM updated)))))) (\<lambda>ward.
     thenM (invalidate [CACHE_KEYS_wards]) (returnM ward)))))"

section \<open>Service types\<close>

text \<open>The fee arrives as text of at most two decimals; the model takes it in hundredths.\<close>

record createServiceTypeInput =
  ct_new_name :: string
  ct_new_fee :: paisa
  ct_new_isActive :: bool

record updateServiceTypeInput =
  xs_name :: "string option"
  xs_fee :: "paisa option"
  xs_isActive :: "bool option"

definition serviceTypePublic :: "lib \<Rightarrow> serviceType \<Rightarrow> json" where
  "serviceTypePublic L t = JObj
     [(''id'', JStr (st_id t)), (''name'', JStr (st_name t)), (''fee'', JStr (decStr L (st_fee t))),
      (''isActive'', JBool (st_isActive t))]"

definition serviceTypesJson :: "lib \<Rightarrow> world \<Rightarrow> json" where
  "serviceTypesJson L w =
     JArr (map (serviceTypePublic L) (sort_key st_name (filter st_isActive (liveServiceTypes w))))"

definition listServiceTypes :: "lib \<Rightarrow> json act" where
  "listServiceTypes L = cachedJson CACHE_KEYS_serviceTypes CACHE_TTL_masterData (serviceTypesJson L)"

definition serviceTypeFields :: "lib \<Rightarrow> serviceType \<Rightarrow> json" where
  "serviceTypeFields L t = JObj
     [(''name'', JStr (st_name t)), (''fee'', JStr (decStr L (st_fee t))), (''isActive'', JBool (st_isActive t))]"

definition createServiceType :: "lib \<Rightarrow> createServiceTypeInput \<Rightarrow> string \<Rightarrow> ctx \<Rightarrow> json act" where
  "createServiceType L input actorId cx =
     bindM (transaction
       (bindM (freshId L) (\<lambda>i.
        thenM (guardM (uniqueBy serviceTypes (\<lambda>t. st_name t = ct_new_name input) [''name'']))
        (bindM (insertRow serviceTypes_update
            \<lparr>st_id = i, st_name = ct_new_name input, st_fee = ct_new_fee input,
             st_isActive = ct_new_isActive input, st_deletedAt = None\<rparr>) (\<lambda>created.
         thenM (audit L (Some actorId) ''SERVICE_TYPE_CREATED'' ''ServiceType'' (st_id created) None
           (Some (JObj [(''name'', JStr (st_name created)), (''fee'', JStr (decStr L (st_fee created)))])) (Some cx))
         (returnM created)))))) (\<lambda>t.
     thenM (invalidate [CACHE_KEYS_serviceTypes]) (returnM (serviceTypePublic L t)))"

definition patchServiceType :: "updateServiceTypeInput \<Rightarrow> serviceType \<Rightarrow> serviceType" where
  "patchServiceType input t =
     t\<lparr>st_name := given (xs_name input) (st_name t), st_fee := given (xs_fee input) (st_fee t),
       st_isActive := given (xs_isActive input) (st_isActive t)\<rparr>"

definition updateServiceType ::
  "lib \<Rightarrow> string \<Rightarrow> updateServiceTypeInput \<Rightarrow> string \<Rightarrow> ctx \<Rightarrow> json act" where
  "updateServiceType L i input actorId cx =
     bindM (getsM (\<lambda>w. find (\<lambda>t. st_id t = i) (liveServiceTypes w))) (\<lambda>found.
     bindM (orThrow (notFound ''Service type not found'') found) (\<lambda>before.
     bindM (transaction
       (thenM (guardM (uniqueBy serviceTypes (takenBy st_id st_name i (xs_name input)) [''name'']))
        (bindM (updateRow serviceTypes serviceTypes_update (\<lambda>t. st_id t = i) (patchServiceType input)) (\<lambda>updated.
         thenM (audit L (Some actorId) ''SERVICE_TYPE_UPDATED'' ''ServiceType'' i
           (Some (serviceTypeFields L before)) (Some (serviceTypeFields L updated)) (Some cx))
         (returnM updated))))) (\<lambda>t.
     thenM (invalidate [CACHE_KEYS_serviceTypes]) (returnM (serviceTypePublic L t)))))"

end
