(* ===== verification/Admin.thy ===== *)
theory Admin
  imports MasterData
begin

text \<open>
  The administration of accounts and settings (\<^verbatim>\<open>modules/admin/admin.service.ts\<close>): the rules who may
  touch whom, officers and admins, roles, blocking, removal and restoring, the runtime settings.
\<close>

section \<open>Accounts as the console sees them\<close>

record userView =
  uv_id :: string
  uv_name :: string
  uv_email :: string
  uv_phone :: "string option"
  uv_role :: role
  uv_status :: user_status
  uv_isSuperAdmin :: bool
  uv_twoFactorEnabled :: bool
  uv_provider :: auth_provider
  uv_lastLoginAt :: "instant option"
  uv_createdAt :: instant
  uv_department :: "(string \<times> string) option"
  uv_ward :: "(string \<times> int \<times> string) option"

definition departmentOf :: "world \<Rightarrow> user \<Rightarrow> (string \<times> string) option" where
  "departmentOf w u = map_option (\<lambda>d. (dp_id d, dp_name d))
     (find (\<lambda>d. Some (dp_id d) = u_departmentId u) (departments w))"

definition wardOf :: "world \<Rightarrow> user \<Rightarrow> (string \<times> int \<times> string) option" where
  "wardOf w u = map_option (\<lambda>d. (w_id d, w_number d, w_name d))
     (find (\<lambda>d. Some (w_id d) = u_wardId u) (wards w))"

text \<open>\<open>USER_SELECT\<close>.\<close>

definition userViewOf :: "world \<Rightarrow> user \<Rightarrow> userView" where
  "userViewOf w u =
     \<lparr>uv_id = u_id u, uv_name = u_name u, uv_email = u_email u, uv_phone = u_phone u,
      uv_role = u_role u, uv_status = u_status u, uv_isSuperAdmin = u_isSuperAdmin u,
      uv_twoFactorEnabled = u_twoFactorEnabled u, uv_provider = u_provider u,
      uv_lastLoginAt = u_lastLoginAt u, uv_createdAt = u_createdAt u,
      uv_department = departmentOf w u, uv_ward = wardOf w u\<rparr>"

section \<open>Who may touch whom\<close>

definition assertMayManage :: "user \<Rightarrow> adminActor \<Rightarrow> unit act" where
  "assertMayManage target a =
     thenM (throwIf (u_id target = a_id a)
       (apiError 403 ''You cannot change your own role or status''
         [det ''FORBIDDEN_ROLE'' ''You cannot change your own role or status'']))
     (throwIf (u_role target = ADMIN \<and> \<not> a_isSuperAdmin a)
       (apiError 403 ''Only a super admin can act on another admin''
         [det ''SUPER_ADMIN_ONLY'' ''Only a super admin can act on another admin'']))"

definition activeSuper :: "user \<Rightarrow> bool" where
  "activeSuper u \<longleftrightarrow> u_isSuperAdmin u \<and> u_status u = ACTIVE \<and> u_deletedAt u = None"

definition assertNotLastSuperAdmin :: "string \<Rightarrow> unit act" where
  "assertNotLastSuperAdmin userId =
     bindM (getsM (\<lambda>w. countWhere (\<lambda>u. activeSuper u \<and> u_id u \<noteq> userId) (users w))) (\<lambda>remaining.
     throwIf (remaining = 0)
       (apiError 409 ''At least one active super admin must remain''
         [det ''LAST_SUPER_ADMIN'' ''At least one active super admin must remain'']))"

section \<open>Listing\<close>

record listUsersQuery =
  qu_page :: "int option"
  qu_limit :: "int option"
  qu_role :: "role option"
  qu_status :: "user_status option"
  qu_q :: "string option"
  qu_sortBy :: "string option"
  qu_sortOrder :: "string option"

definition userMatches :: "lib \<Rightarrow> listUsersQuery \<Rightarrow> user \<Rightarrow> bool" where
  "userMatches L query u \<longleftrightarrow>
     (case qu_role query of None \<Rightarrow> True | Some r \<Rightarrow> u_role u = r) \<and>
     (case qu_status query of None \<Rightarrow> True | Some s \<Rightarrow> u_status u = s) \<and>
     (case qu_q query of None \<Rightarrow> True | Some q \<Rightarrow> q = [] \<or> ilike L q (u_name u) \<or> ilike L q (u_email u))"

fun role_rank :: "role \<Rightarrow> nat" where
  "role_rank CITIZEN = 0"
| "role_rank OFFICER = 1"
| "role_rank ADMIN = 2"

fun user_status_rank :: "user_status \<Rightarrow> nat" where
  "user_status_rank ACTIVE = 0"
| "user_status_rank BLOCKED = 1"

text \<open>\<open>ORDER BY\<close> one column, either way, stable on the scan order.\<close>

definition sortedBy :: "('r \<Rightarrow> 'k::linorder) \<Rightarrow> bool \<Rightarrow> 'r list \<Rightarrow> 'r list" where
  "sortedBy key asc rows = (if asc then sort_key key rows else rev (sort_key key (rev rows)))"

definition orderUsers :: "string \<Rightarrow> bool \<Rightarrow> user list \<Rightarrow> user list" where
  "orderUsers field asc rows =
     (if field = ''name'' then sortedBy u_name asc rows
      else if field = ''email'' then sortedBy u_email asc rows
      else if field = ''role'' then sortedBy (\<lambda>u. role_rank (u_role u)) asc rows
      else if field = ''status'' then sortedBy (\<lambda>u. user_status_rank (u_status u)) asc rows
      else sortedBy u_createdAt asc rows)"

definition listUsers :: "lib \<Rightarrow> listUsersQuery \<Rightarrow> (userView list \<times> meta) act" where
  "listUsers L query =
     (let pagination = getPagination (qu_page query) (qu_limit query) in
      bindM (liftE (buildOrderBy SortUser (qu_sortBy query) (qu_sortOrder query))) (\<lambda>orderBy.
      getsM (\<lambda>w. let rows = filter (userMatches L query) (liveUsers w) in
        (map (userViewOf w) (pageRows pagination (orderUsers (fst orderBy) (snd orderBy) rows)),
         buildMeta pagination (length rows)))))"

section \<open>Officers\<close>

record createOfficerInput =
  co_name :: string
  co_email :: string
  co_phone :: "string option"
  co_departmentId :: string
  co_wardId :: "string option"

definition emailTaken :: exn where
  "emailTaken = apiError 409 ''Email already registered'' [det ''EMAIL_EXISTS'' ''Email already registered'']"

definition assertFreeEmail :: "string \<Rightarrow> unit act" where
  "assertFreeEmail email =
     bindM (getsM (\<lambda>w. find (\<lambda>u. u_email u = email) (liveUsers w))) (\<lambda>exists.
     throwIf (exists \<noteq> None) emailTaken)"

text \<open>
  The partial unique index on the address, and the foreign keys of a new account. \<open>isSuperAdmin\<close>
  keeps its default, so the check on it holds.
\<close>

definition insertAccount :: "user \<Rightarrow> user act" where
  "insertAccount u =
     thenM (guardM (uniqueBy liveUsers (\<lambda>r. u_email r = u_email u) [''email'']))
     (thenM (guardM (\<lambda>w.
        if (case u_departmentId u of None \<Rightarrow> False | Some d \<Rightarrow> d \<notin> dp_id ` set (departments w)) \<or>
           (case u_wardId u of None \<Rightarrow> False | Some d \<Rightarrow> d \<notin> w_id ` set (wards w))
        then Some (PrismaKnown ''P2003'' []) else None))
     (insertRow users_update u))"

definition newAccount :: "string \<Rightarrow> instant \<Rightarrow> string \<Rightarrow> string \<Rightarrow> string \<Rightarrow> role \<Rightarrow> user" where
  "newAccount i now name email pwHash rl =
     \<lparr>u_id = i, u_name = name, u_email = email, u_password = Some pwHash, u_phone = None,
      u_avatarUrl = None, u_role = rl, u_status = ACTIVE, u_provider = LOCAL, u_googleId = None,
      u_emailVerifiedAt = Some now, u_twoFactorEnabled = True, u_isSuperAdmin = False,
      u_lastLoginAt = None, u_lastLoginIp = None, u_wardId = None, u_departmentId = None,
      u_passwordChangedAt = None, u_createdAt = now, u_updatedAt = now, u_deletedAt = None\<rparr>"

definition newOfficer :: "string \<Rightarrow> instant \<Rightarrow> string \<Rightarrow> createOfficerInput \<Rightarrow> user" where
  "newOfficer i now pwHash input =
     (newAccount i now (co_name input) (co_email input) pwHash OFFICER)
       \<lparr>u_phone := co_phone input, u_departmentId := Some (co_departmentId input), u_wardId := co_wardId input\<rparr>"

definition officerCommit :: "lib \<Rightarrow> createOfficerInput \<Rightarrow> string \<Rightarrow> actor \<Rightarrow> ctx \<Rightarrow> userView act" where
  "officerCommit L input tempPassword a cx =
     transaction
       (bindM (bcrypt_hash L tempPassword) (\<lambda>pwHash.
        bindM (freshId L) (\<lambda>i. bindM (getsM clock) (\<lambda>now.
        bindM (insertAccount (newOfficer i now pwHash input)) (\<lambda>row.
        bindM (getsM (\<lambda>w. userViewOf w row)) (\<lambda>created.
        thenM (audit L (Some (a_id a)) ''OFFICER_CREATED'' ''User'' (uv_id created) None
          (Some (JObj [(''email'', JStr (uv_email created)), (''departmentId'', JStr (co_departmentId input))]))
          (Some cx))
        (returnM created)))))))"

definition createOfficer :: "lib \<Rightarrow> createOfficerInput \<Rightarrow> actor \<Rightarrow> ctx \<Rightarrow> userView act" where
  "createOfficer L input a cx =
     thenM (assertFreeEmail (co_email input))
     (bindM (getsM (findDepartment (co_departmentId input))) (\<lambda>department.
      thenM (throwIf (department = None) (badReference ''departmentId'' ''Department does not exist''))
      (bindM (randomToken L) (\<lambda>random.
       bindM (officerCommit L input (random @ ''Aa1!'') a cx) (\<lambda>officer.
       thenM (dispatchEmail (sendOfficerInviteEmail L (uv_email officer) (uv_name officer) (random @ ''Aa1!'')))
       (returnM officer))))))"

section \<open>Roles and status\<close>

definition findUser :: "string \<Rightarrow> world \<Rightarrow> user option" where
  "findUser i w = find (\<lambda>u. u_id u = i) (liveUsers w)"

definition userMissing :: exn where
  "userMissing = notFound ''User not found''"

text \<open>\<open>user.update\<close> with the check \<open>user_superadmin_ck\<close> of the database.\<close>

definition superWithoutAdmin :: "string \<Rightarrow> (user \<Rightarrow> user) \<Rightarrow> user \<Rightarrow> bool" where
  "superWithoutAdmin i f u \<longleftrightarrow> u_id u = i \<and> u_isSuperAdmin (f u) \<and> u_role (f u) \<noteq> ADMIN"

definition saveUser :: "string \<Rightarrow> (user \<Rightarrow> user) \<Rightarrow> user act" where
  "saveUser i f =
     thenM (guardM (\<lambda>w. if list_ex (superWithoutAdmin i f) (users w)
        then Some (DbCheck ''user_superadmin_ck'') else None))
     (updateUser i f)"

definition roleCommit :: "lib \<Rightarrow> string \<Rightarrow> role \<Rightarrow> user \<Rightarrow> adminActor \<Rightarrow> ctx \<Rightarrow> userView act" where
  "roleCommit L targetId rl target a cx =
     transaction
       (thenM (whenM (u_isSuperAdmin target \<and> rl \<noteq> ADMIN) (assertNotLastSuperAdmin targetId))
        (bindM (saveUser targetId (\<lambda>u. u\<lparr>u_role := rl\<rparr>)) (\<lambda>saved.
         bindM (getsM (\<lambda>w. userViewOf w saved)) (\<lambda>row.
         thenM (audit L (Some (a_id a)) ''USER_ROLE_UPDATED'' ''User'' targetId
           (Some (JObj [(''role'', JStr (show_role (u_role target)))]))
           (Some (JObj [(''role'', JStr (show_role rl))])) (Some cx))
         (returnM row)))))"

definition updateRole :: "lib \<Rightarrow> string \<Rightarrow> role \<Rightarrow> adminActor \<Rightarrow> ctx \<Rightarrow> userView act" where
  "updateRole L targetId rl a cx =
     bindM (getsM (findUser targetId)) (\<lambda>found.
     bindM (orThrow userMissing found) (\<lambda>target.
     thenM (assertMayManage target a)
     (thenM (throwIf (rl = ADMIN \<and> \<not> a_isSuperAdmin a)
       (apiError 403 ''Only a super admin can grant the ADMIN role''
         [det ''SUPER_ADMIN_ONLY'' ''Only a super admin can grant the ADMIN role'']))
     (bindM (roleCommit L targetId rl target a cx) (\<lambda>updated.
      thenM (thenM (revokeAllSessions targetId ROLE_CHANGED) (returnM ()))
      (thenM (logSecurity L (Some targetId) None EV_ROLE_CHANGED cx)
      (returnM updated)))))))"

definition statusCommit ::
  "lib \<Rightarrow> string \<Rightarrow> user_status \<Rightarrow> string option \<Rightarrow> user \<Rightarrow> adminActor \<Rightarrow> ctx \<Rightarrow> userView act" where
  "statusCommit L targetId status reason target a cx =
     transaction
       (thenM (whenM (u_isSuperAdmin target \<and> status = BLOCKED) (assertNotLastSuperAdmin targetId))
        (bindM (saveUser targetId (\<lambda>u. u\<lparr>u_status := status\<rparr>)) (\<lambda>saved.
         bindM (getsM (\<lambda>w. userViewOf w saved)) (\<lambda>row.
         thenM (audit L (Some (a_id a)) ''USER_STATUS_UPDATED'' ''User'' targetId
           (Some (JObj [(''status'', JStr (show_user_status (u_status target)))]))
           (Some (JObj ((''status'', JStr (show_user_status status)) #
              (case reason of None \<Rightarrow> [] | Some r \<Rightarrow> [(''reason'', JStr r)])))) (Some cx))
         (returnM row)))))"

definition updateStatus ::
  "lib \<Rightarrow> string \<Rightarrow> user_status \<Rightarrow> string option \<Rightarrow> adminActor \<Rightarrow> ctx \<Rightarrow> userView act" where
  "updateStatus L targetId status reason a cx =
     bindM (getsM (findUser targetId)) (\<lambda>found.
     bindM (orThrow userMissing found) (\<lambda>target.
     thenM (assertMayManage target a)
     (bindM (statusCommit L targetId status reason target a cx) (\<lambda>updated.
      thenM (whenM (status = BLOCKED) (thenM (revokeAllSessions targetId ADMIN_REVOKED) (returnM ())))
      (returnM updated)))))"

definition forceLogout :: "lib \<Rightarrow> string \<Rightarrow> adminActor \<Rightarrow> ctx \<Rightarrow> nat act" where
  "forceLogout L targetId a cx =
     bindM (getsM (findUser targetId)) (\<lambda>found.
     bindM (orThrow userMissing found) (\<lambda>target.
     thenM (assertMayManage target a)
     (bindM (revokeAllSessions targetId ADMIN_REVOKED) (\<lambda>revoked.
      thenM (transaction (audit L (Some (a_id a)) ''USER_SESSIONS_REVOKED'' ''User'' targetId None
        (Some (JObj [(''revoked'', JNum (real revoked))])) (Some cx)))
      (thenM (logSecurity L (Some targetId) None EV_SESSION_REVOKED cx)
      (returnM revoked))))))"

section \<open>Super admin only\<close>

record createAdminInput =
  ca_name :: string
  ca_email :: string
  ca_password :: string

definition createAdmin :: "lib \<Rightarrow> createAdminInput \<Rightarrow> actor \<Rightarrow> ctx \<Rightarrow> userView act" where
  "createAdmin L input a cx =
     thenM (assertFreeEmail (ca_email input))
     (transaction
       (bindM (bcrypt_hash L (ca_password input)) (\<lambda>pwHash.
        bindM (freshId L) (\<lambda>i. bindM (getsM clock) (\<lambda>now.
        bindM (insertAccount (newAccount i now (ca_name input) (ca_email input) pwHash ADMIN)) (\<lambda>row.
        bindM (getsM (\<lambda>w. userViewOf w row)) (\<lambda>created.
        thenM (audit L (Some (a_id a)) ''ADMIN_CREATED'' ''User'' (uv_id created) None
          (Some (JObj [(''email'', JStr (uv_email created))])) (Some cx))
        (returnM created))))))))"

definition removeCommit :: "lib \<Rightarrow> string \<Rightarrow> user \<Rightarrow> actor \<Rightarrow> ctx \<Rightarrow> unit act" where
  "removeCommit L targetId target a cx =
     transaction
       (thenM (whenM (u_isSuperAdmin target) (assertNotLastSuperAdmin targetId))
        (bindM (getsM clock) (\<lambda>now.
         thenM (saveUser targetId (\<lambda>u. u\<lparr>u_deletedAt := Some now\<rparr>))
         (audit L (Some (a_id a)) ''ADMIN_REMOVED'' ''User'' targetId
           (Some (JObj [(''email'', JStr (u_email target)), (''isSuperAdmin'', JBool (u_isSuperAdmin target))]))
           None (Some cx)))))"

definition removeAdmin :: "lib \<Rightarrow> string \<Rightarrow> actor \<Rightarrow> ctx \<Rightarrow> string act" where
  "removeAdmin L targetId a cx =
     thenM (throwIf (targetId = a_id a)
       (apiError 403 ''You cannot remove your own admin account''
         [det ''FORBIDDEN_ROLE'' ''You cannot remove your own admin account'']))
     (bindM (getsM (\<lambda>w. find (\<lambda>u. u_id u = targetId \<and> u_role u = ADMIN) (liveUsers w))) (\<lambda>found.
      bindM (orThrow (notFound ''Admin not found'') found) (\<lambda>target.
      thenM (removeCommit L targetId target a cx)
      (thenM (thenM (revokeAllSessions targetId ADMIN_REVOKED) (returnM ()))
      (returnM ''Admin removed'')))))"

section \<open>Restoring\<close>

datatype restorable = RestoreComplaint | RestoreUser | RestoreCategory | RestoreDepartment

fun restorableName :: "restorable \<Rightarrow> string" where
  "restorableName RestoreComplaint = ''complaint''"
| "restorableName RestoreUser = ''user''"
| "restorableName RestoreCategory = ''category''"
| "restorableName RestoreDepartment = ''department''"

text \<open>A restored account takes its address back, which the partial index may refuse.\<close>

definition addressBack :: "string \<Rightarrow> world \<Rightarrow> bool" where
  "addressBack i w \<longleftrightarrow>
     list_ex (\<lambda>u. u_id u = i \<and> u_deletedAt u \<noteq> None \<and>
       list_ex (\<lambda>r. u_email r = u_email u) (liveUsers w)) (users w)"

definition restoreRows :: "restorable \<Rightarrow> string \<Rightarrow> nat act" where
  "restoreRows entity i =
     bindM (getsM clock) (\<lambda>now.
     case entity of
       RestoreComplaint \<Rightarrow> updateMany complaints complaints_update
         (\<lambda>c. c_id c = i \<and> c_deletedAt c \<noteq> None) (\<lambda>c. c\<lparr>c_deletedAt := None, c_updatedAt := now\<rparr>)
     | RestoreUser \<Rightarrow>
         thenM (guardM (\<lambda>w. if addressBack i w then Some (PrismaKnown ''P2002'' [''email'']) else None))
         (updateMany users users_update (\<lambda>u. u_id u = i \<and> u_deletedAt u \<noteq> None)
           (\<lambda>u. u\<lparr>u_deletedAt := None, u_updatedAt := now\<rparr>))
     | RestoreCategory \<Rightarrow> updateMany categories categories_update
         (\<lambda>c. cat_id c = i \<and> cat_deletedAt c \<noteq> None) (\<lambda>c. c\<lparr>cat_deletedAt := None\<rparr>)
     | RestoreDepartment \<Rightarrow> updateMany departments departments_update
         (\<lambda>d. dp_id d = i \<and> dp_deletedAt d \<noteq> None) (\<lambda>d. d\<lparr>dp_deletedAt := None\<rparr>))"

definition restore :: "lib \<Rightarrow> restorable \<Rightarrow> string \<Rightarrow> actor \<Rightarrow> ctx \<Rightarrow> nat act" where
  "restore L entity i a cx =
     bindM (transaction
       (bindM (restoreRows entity i) (\<lambda>count.
        thenM (throwIf (count = 0)
          (apiError 404 ''No deleted record with that id''
            [det ''NOT_FOUND'' ''No deleted record with that id'']))
        (thenM (audit L (Some (a_id a)) ''ENTITY_RESTORED'' (restorableName entity) i None
          (Some (JObj [(''restored'', JBool True)])) (Some cx))
        (returnM count))))) (\<lambda>restored.
     thenM invalidateMasterData (returnM restored))"

section \<open>Settings\<close>

record settingView =
  sg_key :: string
  sg_value :: json
  sg_default :: real
  sg_updatedAt :: "instant option"

text \<open>\<open>??\<close> takes a stored null for no value.\<close>

definition storedOr :: "string \<Rightarrow> setting option \<Rightarrow> json" where
  "storedOr key row =
     (case row of None \<Rightarrow> JNum (SETTING_DEFAULTS key)
      | Some r \<Rightarrow> if ss_value r = JNull then JNum (SETTING_DEFAULTS key) else ss_value r)"

definition findSetting :: "string \<Rightarrow> world \<Rightarrow> setting option" where
  "findSetting key w = find (\<lambda>r. ss_key r = key) (settings w)"

definition listSettings :: "settingView list act" where
  "listSettings =
     getsM (\<lambda>w. map (\<lambda>key. \<lparr>sg_key = key, sg_value = storedOr key (findSetting key w),
        sg_default = SETTING_DEFAULTS key, sg_updatedAt = map_option ss_updatedAt (findSetting key w)\<rparr>)
       settingKeys)"

definition upsertSetting :: "string \<Rightarrow> real \<Rightarrow> string \<Rightarrow> setting act" where
  "upsertSetting key newValue actorId =
     bindM (getsM clock) (\<lambda>now.
     bindM (getsM (findSetting key)) (\<lambda>found.
     case found of
       Some _ \<Rightarrow> updateRow settings settings_update (\<lambda>r. ss_key r = key)
         (\<lambda>r. r\<lparr>ss_value := JNum newValue, ss_updatedById := Some actorId, ss_updatedAt := now\<rparr>)
     | None \<Rightarrow> insertRow settings_update
         \<lparr>ss_key = key, ss_value = JNum newValue, ss_updatedById = Some actorId, ss_updatedAt = now\<rparr>))"

definition updateSetting :: "lib \<Rightarrow> string \<Rightarrow> real \<Rightarrow> actor \<Rightarrow> ctx \<Rightarrow> setting act" where
  "updateSetting L key newValue a cx =
     bindM (getsM (findSetting key)) (\<lambda>before.
     bindM (transaction
       (bindM (upsertSetting key newValue (a_id a)) (\<lambda>row.
        thenM (audit L (Some (a_id a)) ''SETTING_UPDATED'' ''SystemSetting'' key
          (Some (JObj [(''value'', storedOr key before)]))
          (Some (JObj [(''value'', JNum newValue)])) (Some cx))
        (returnM row)))) (\<lambda>setting.
     thenM (clearSettingCache (Some key))
     (thenM (invalidate [CACHE_KEYS_adminStats])
     (returnM setting))))"

end
