(* ===== verification/Reports.thy ===== *)
theory Reports
  imports Admin Ledger ComplaintReads
begin

text \<open>
  The dashboard and the reports of \<^verbatim>\<open>modules/admin/admin.service.ts\<close>: the cached figures, the audit
  trail, the security events, the SLA report and the CSV export of the complaints.
\<close>

section \<open>The dashboard\<close>

text \<open>\<open>groupBy\<close> reads the table itself, deleted rows included; the groups come in scan order.\<close>

definition groupCount :: "('r \<Rightarrow> 'k) \<Rightarrow> 'r list \<Rightarrow> ('k \<times> nat) list" where
  "groupCount key rows = map (\<lambda>k. (k, countWhere (\<lambda>r. key r = k) rows)) (remdups (map key rows))"

definition topGroups :: "nat \<Rightarrow> ('k \<times> nat) list \<Rightarrow> ('k \<times> nat) list" where
  "topGroups n groups = take n (sort_key (\<lambda>g. - int (snd g)) groups)"

definition nameIn :: "(string \<times> string) list \<Rightarrow> string \<Rightarrow> string" where
  "nameIn names i = (case map_of names i of None \<Rightarrow> i | Some s \<Rightarrow> s)"

definition wardNames :: "world \<Rightarrow> (string \<times> string) list" where
  "wardNames w = map (\<lambda>d. (w_id d, show_int (w_number d) @ '' '' @ [CHR 0xE2, CHR 0x80, CHR 0x94] @ '' '' @ w_name d)) (wards w)"

definition categoryNames :: "world \<Rightarrow> (string \<times> string) list" where
  "categoryNames w = map (\<lambda>c. (cat_id c, cat_name c)) (liveCategories w)"

text \<open>\<open>Number(x.toFixed(k))\<close>, ties away from zero, on a real.\<close>

definition toFixedNum :: "nat \<Rightarrow> real \<Rightarrow> real" where
  "toFixedNum k x =
     (let r = (\<lambda>y. of_int \<lfloor>y * 10 ^ k + 1 / 2\<rfloor> / 10 ^ k) in if x < 0 then - r (- x) else r x)"

definition avgOf :: "real list \<Rightarrow> real option" where
  "avgOf xs = (if xs = [] then None else Some (sum_list xs / real (length xs)))"

text \<open>\<open>x ? Number(x.toFixed(2)) : null\<close>: zero is falsy.\<close>

definition avgOrNull :: "real option \<Rightarrow> json" where
  "avgOrNull x = (case x of None \<Rightarrow> JNull | Some a \<Rightarrow> if a = 0 then JNull else JNum (toFixedNum 2 a))"

definition resolutionHours :: "complaint \<Rightarrow> real option" where
  "resolutionHours c = map_option (\<lambda>t. of_int (t - c_createdAt c) / 3600000) (c_resolvedAt c)"

definition resolvedSince :: "instant \<Rightarrow> complaint \<Rightarrow> bool" where
  "resolvedSince t c = (case c_resolvedAt c of None \<Rightarrow> False | Some r \<Rightarrow> t \<le> r)"

definition avgResolution :: "instant \<Rightarrow> world \<Rightarrow> real option" where
  "avgResolution since w =
     avgOf (map (the \<circ> resolutionHours) (filter (resolvedSince since) (liveComplaints w)))"

definition paymentTotals :: "lib \<Rightarrow> instant \<Rightarrow> world \<Rightarrow> json" where
  "paymentTotals L since w =
     (let rows = statusRows (paidSince since) SUCCESS w in
      JObj [(''count'', JNum (real (length rows))), (''amount'', JStr (money L (sumOf rows)))])"

record dashboardTotals =
  ds_complaints :: nat
  ds_open :: nat
  ds_escalated :: nat
  ds_users :: nat

definition totalsOf :: "world \<Rightarrow> dashboardTotals" where
  "totalsOf w =
     \<lparr>ds_complaints = sum_list (map snd (groupCount c_status (complaints w))),
      ds_open = countWhere (\<lambda>c. isOpen (c_status c)) (liveComplaints w),
      ds_escalated = countWhere c_isEscalated (liveComplaints w),
      ds_users = length (liveUsers w)\<rparr>"

definition dashboardJson :: "lib \<Rightarrow> world \<Rightarrow> json" where
  "dashboardJson L w =
     (let all = complaints w; t = totalsOf w; now = clock w; num = (\<lambda>n. JNum (real n)) in
      JObj
       [(''totals'', JObj [(''complaints'', num (ds_complaints t)), (''open'', num (ds_open t)),
           (''escalated'', num (ds_escalated t)), (''users'', num (ds_users t))]),
        (''byStatus'', JArr (map (\<lambda>(s, n). JObj [(''status'', JStr (show_status s)), (''count'', num n)])
           (groupCount c_status all))),
        (''byPriority'', JArr (map (\<lambda>(p, n). JObj [(''priority'', JStr (show_priority p)), (''count'', num n)])
           (groupCount c_priority all))),
        (''byWard'', JArr (map (\<lambda>(i, n). JObj [(''wardId'', JStr i),
           (''ward'', JStr (nameIn (wardNames w) i)), (''count'', num n)]) (groupCount c_wardId all))),
        (''topCategories'', JArr (map (\<lambda>(i, n). JObj [(''categoryId'', JStr i),
           (''category'', JStr (nameIn (categoryNames w) i)), (''count'', num n)])
           (topGroups 5 (groupCount c_categoryId all)))),
        (''avgResolutionHours'', avgOrNull (avgResolution (now - 30 * 86400000) w)),
        (''payments'', JObj [(''today'', paymentTotals L (start_of_day now) w),
           (''month'', paymentTotals L (start_of_month now) w)])])"

definition dashboardStats :: "lib \<Rightarrow> json act" where
  "dashboardStats L = cachedJson CACHE_KEYS_adminStats CACHE_TTL_stats (dashboardJson L)"

section \<open>The trails\<close>

record auditQuery =
  aq_page :: "int option"
  aq_limit :: "int option"
  aq_actorId :: "string option"
  aq_action :: "string option"
  aq_entityType :: "string option"
  aq_from :: "string option"
  aq_to :: "string option"
  aq_sortBy :: "string option"
  aq_sortOrder :: "string option"

record auditItem =
  ai_row :: auditLog
  ai_actor :: "(string \<times> string \<times> string \<times> role) option"

definition auditItemOf :: "world \<Rightarrow> auditLog \<Rightarrow> auditItem" where
  "auditItemOf w l =
     \<lparr>ai_row = l, ai_actor = map_option (\<lambda>u. (u_id u, u_name u, u_email u, u_role u))
        (find (\<lambda>u. Some (u_id u) = al_actorId l) (users w))\<rparr>"

definition auditMatches :: "auditQuery \<Rightarrow> adminActor \<Rightarrow> (instant option \<times> instant option) option \<Rightarrow> auditLog \<Rightarrow> bool" where
  "auditMatches query a created l \<longleftrightarrow>
     (\<not> a_isSuperAdmin a \<longrightarrow> al_actorId l = Some (a_id a)) \<and>
     (a_isSuperAdmin a \<longrightarrow> optMatch (aq_actorId query) (\<lambda>x. al_actorId l = Some x)) \<and>
     optMatch (aq_action query) (\<lambda>x. al_action l = x) \<and>
     optMatch (aq_entityType query) (\<lambda>x. al_entityType l = x) \<and>
     inRange created (al_createdAt l)"

definition auditLogsPage :: "lib \<Rightarrow> auditQuery \<Rightarrow> adminActor \<Rightarrow> (auditItem list \<times> meta) act" where
  "auditLogsPage L query a =
     (let pagination = getPagination (aq_page query) (aq_limit query) in
      bindM (liftE (dateRange L (aq_from query) (aq_to query))) (\<lambda>created.
      bindM (liftE (buildOrderBy SortAuditLog (aq_sortBy query) (aq_sortOrder query))) (\<lambda>orderBy.
      getsM (\<lambda>w. let rows = filter (auditMatches query a created) (auditLogs w) in
        (map (auditItemOf w) (pageRows pagination
           (if fst orderBy = ''action'' then sortedBy al_action (snd orderBy) rows
            else sortedBy al_createdAt (snd orderBy) rows)),
         buildMeta pagination (length rows))))))"

record securityQuery =
  yq_page :: "int option"
  yq_limit :: "int option"
  yq_type :: "sec_event option"
  yq_ip :: "string option"
  yq_from :: "string option"
  yq_to :: "string option"

definition securityMatches :: "securityQuery \<Rightarrow> (instant option \<times> instant option) option \<Rightarrow> securityEvent \<Rightarrow> bool" where
  "securityMatches query created e \<longleftrightarrow>
     (case yq_type query of None \<Rightarrow> True | Some t \<Rightarrow> sv_type e = t) \<and>
     optMatch (yq_ip query) (\<lambda>x. sv_ip e = Some x) \<and> inRange created (sv_createdAt e)"

definition securityEventsPage :: "lib \<Rightarrow> securityQuery \<Rightarrow> (securityEvent list \<times> meta) act" where
  "securityEventsPage L query =
     (let pagination = getPagination (yq_page query) (yq_limit query) in
      bindM (liftE (dateRange L (yq_from query) (yq_to query))) (\<lambda>created.
      getsM (\<lambda>w. let rows = filter (securityMatches query created) (securityEvents w) in
        (pageRows pagination (orderRows sv_createdAt False rows), buildMeta pagination (length rows)))))"

section \<open>The SLA report\<close>

record slaRow =
  sl_department :: string
  sl_total :: nat
  sl_breached :: nat
  sl_breachPercent :: real
  sl_avgResolutionHours :: json
  sl_avgRating :: json

text \<open>The rows the joins of the raw query give for one department.\<close>

definition slaJoin :: "world \<Rightarrow> department \<Rightarrow> (complaint \<times> feedback option) list" where
  "slaJoin w d =
     concat (map (\<lambda>k. concat (map (\<lambda>c.
        case filter (\<lambda>f. fb_complaintId f = c_id c) (feedbacks w) of
          [] \<Rightarrow> [(c, None)] | fs \<Rightarrow> map (\<lambda>f. (c, Some f)) fs)
        (filter (\<lambda>c. c_categoryId c = cat_id k) (liveComplaints w))))
       (filter (\<lambda>k. cat_departmentId k = dp_id d) (categories w)))"

definition ratingColumn :: "(complaint \<times> feedback option) list \<Rightarrow> real list" where
  "ratingColumn rows = concat (map (\<lambda>r. case snd r of None \<Rightarrow> [] | Some f \<Rightarrow> [of_int (fb_rating f)]) rows)"

definition hourColumn :: "(complaint \<times> feedback option) list \<Rightarrow> real list" where
  "hourColumn rows = concat (map (\<lambda>r. case resolutionHours (fst r) of None \<Rightarrow> [] | Some h \<Rightarrow> [h]) rows)"

definition slaRowOf :: "world \<Rightarrow> department \<Rightarrow> slaRow" where
  "slaRowOf w d =
     (let rows = slaJoin w d; total = length rows; breached = countWhere (\<lambda>r. c_isEscalated (fst r)) rows in
      \<lparr>sl_department = dp_name d, sl_total = total, sl_breached = breached,
       sl_breachPercent = (if total = 0 then 0 else toFixedNum 1 (real breached / real total * 100)),
       sl_avgResolutionHours = avgOrNull (avgOf (hourColumn rows)),
       sl_avgRating = avgOrNull (avgOf (ratingColumn rows))\<rparr>)"

text \<open>Department names are unique, so the groups are the departments.\<close>

definition slaReport :: "slaRow list act" where
  "slaReport = getsM (\<lambda>w. map (slaRowOf w) (sort_key dp_name (liveDepartments w)))"

section \<open>The export\<close>

record csvReportQuery =
  cq_status :: "string option"
  cq_wardId :: "string option"
  cq_categoryId :: "string option"
  cq_from :: "string option"
  cq_to :: "string option"

definition csvReportWhere :: "lib \<Rightarrow> csvReportQuery \<Rightarrow> exn + (complaint \<Rightarrow> bool)" where
  "csvReportWhere L query =
     (case statusFilter (csvList (cq_status query)) of
        Inl e \<Rightarrow> Inl e
      | Inr okStatus \<Rightarrow>
          (case dateRange L (cq_from query) (cq_to query) of
             Inl e \<Rightarrow> Inl e
           | Inr created \<Rightarrow> Inr (\<lambda>c.
               okStatus (c_status c) \<and>
               optMatch (cq_wardId query) (\<lambda>x. c_wardId c = x) \<and>
               optMatch (cq_categoryId query) (\<lambda>x. c_categoryId c = x) \<and>
               inRange created (c_createdAt c))))"

definition complaintsHeader :: string where
  "complaintsHeader =
     ''trackingId,title,status,priority,category,ward,createdAt,slaDueAt,resolvedAt,escalated'' @ [CHR 0x0A]"

definition complaintFields :: "world \<Rightarrow> complaint \<Rightarrow> string list" where
  "complaintFields w c =
     [c_trackingId c, c_title c, show_status (c_status c), show_priority (c_priority c),
      (case find (\<lambda>k. cat_id k = c_categoryId c) (categories w) of None \<Rightarrow> [] | Some k \<Rightarrow> cat_name k),
      (case find (\<lambda>d. w_id d = c_wardId c) (wards w) of None \<Rightarrow> []
       | Some d \<Rightarrow> show_int (w_number d) @ '' - '' @ w_name d),
      iso_string (c_createdAt c), iso_string (c_slaDueAt c),
      (case c_resolvedAt c of None \<Rightarrow> [] | Some t \<Rightarrow> iso_string t), show_bool (c_isEscalated c)]"

text \<open>The heading is already written when a bad filter fails the first query; the model answers the error.\<close>

definition streamComplaintsCsv :: "lib \<Rightarrow> nat \<Rightarrow> csvReportQuery \<Rightarrow> string option act" where
  "streamComplaintsCsv L fuel query =
     bindM (liftE (csvReportWhere L query)) (\<lambda>whereC.
     getsM (\<lambda>w. map_option (\<lambda>rows. complaintsHeader @ concat (map (\<lambda>c. csvLine (complaintFields w c)) rows))
       (csvPages fuel c_id (filter whereC (liveComplaints w)) None)))"

end
