(* ===== verification/Desk.thy ===== *)
theory Desk
  imports MasterData
begin

text \<open>
  The contact desk (\<^verbatim>\<open>modules/contact/contact.service.ts\<close>) and the notification inbox
  (\<^verbatim>\<open>modules/notification/notification.service.ts\<close>).
\<close>

section \<open>Contact messages\<close>

record createContactInput =
  cm_new_name :: string
  cm_new_email :: string
  cm_new_phone :: "string option"
  cm_new_subject :: string
  cm_new_message :: string

definition newContactMessage :: "string \<Rightarrow> instant \<Rightarrow> createContactInput \<Rightarrow> ctx \<Rightarrow> contactMessage" where
  "newContactMessage i now input cx =
     \<lparr>ct_id = i, ct_name = cm_new_name input, ct_email = cm_new_email input,
      ct_phone = (if cm_new_phone input = Some [] then None else cm_new_phone input),
      ct_subject = cm_new_subject input, ct_message = cm_new_message input, ct_status = CM_NEW,
      ct_handledById = None, ct_handledAt = None, ct_note = None, ct_ip = Some (ctx_ip cx),
      ct_userAgent = Some (ctx_ua cx), ct_createdAt = now, ct_updatedAt = now\<rparr>"

text \<open>The acknowledgement carries no id.\<close>

definition createContact :: "lib \<Rightarrow> createContactInput \<Rightarrow> ctx \<Rightarrow> string act" where
  "createContact L input cx =
     bindM (freshId L) (\<lambda>i. bindM (getsM clock) (\<lambda>now.
     thenM (insertRow contactMessages_update (newContactMessage i now input cx))
     (returnM (''Thanks '' @ [CHR 0xE2, CHR 0x80, CHR 0x94] @ '' your message is with the right desk.''))))"

record messageView =
  mv_id :: string
  mv_name :: string
  mv_email :: string
  mv_phone :: "string option"
  mv_subject :: string
  mv_message :: string
  mv_status :: contact_status
  mv_note :: "string option"
  mv_handledAt :: "instant option"
  mv_handledBy :: "(string \<times> string) option"
  mv_createdAt :: instant

text \<open>\<open>MESSAGE_SELECT\<close>.\<close>

definition messageViewOf :: "world \<Rightarrow> contactMessage \<Rightarrow> messageView" where
  "messageViewOf w m =
     \<lparr>mv_id = ct_id m, mv_name = ct_name m, mv_email = ct_email m, mv_phone = ct_phone m,
      mv_subject = ct_subject m, mv_message = ct_message m, mv_status = ct_status m, mv_note = ct_note m,
      mv_handledAt = ct_handledAt m,
      mv_handledBy = map_option (\<lambda>u. (u_id u, u_name u)) (find (\<lambda>u. Some (u_id u) = ct_handledById m) (users w)),
      mv_createdAt = ct_createdAt m\<rparr>"

definition messageMatches :: "lib \<Rightarrow> contact_status option \<Rightarrow> string option \<Rightarrow> contactMessage \<Rightarrow> bool" where
  "messageMatches L status q m \<longleftrightarrow>
     (case status of None \<Rightarrow> True | Some s \<Rightarrow> ct_status m = s) \<and>
     (case q of None \<Rightarrow> True
      | Some t \<Rightarrow> t = [] \<or> ilike L t (ct_name m) \<or> ilike L t (ct_email m) \<or> ilike L t (ct_subject m))"

record contactPage =
  cp_items :: "messageView list"
  cp_meta :: meta
  cp_newCount :: nat

definition listContact ::
  "lib \<Rightarrow> int option \<Rightarrow> int option \<Rightarrow> contact_status option \<Rightarrow> string option \<Rightarrow> contactPage act" where
  "listContact L page limit status q =
     (let pagination = getPagination page limit in
      getsM (\<lambda>w. let rows = filter (messageMatches L status q) (contactMessages w) in
        \<lparr>cp_items = map (messageViewOf w) (pageRows pagination (orderRows ct_createdAt False rows)),
         cp_meta = buildMeta pagination (length rows),
         cp_newCount = countWhere (\<lambda>m. ct_status m = CM_NEW) (contactMessages w)\<rparr>))"

definition findMessage :: "string \<Rightarrow> world \<Rightarrow> contactMessage option" where
  "findMessage i w = find (\<lambda>m. ct_id m = i) (contactMessages w)"

definition getContact :: "string \<Rightarrow> messageView act" where
  "getContact i =
     bindM (getsM (\<lambda>w. map_option (messageViewOf w) (findMessage i w))) (orThrow (notFound ''Message not found''))"

record updateContactInput =
  uc_status :: "contact_status option"
  uc_note :: "string option"

text \<open>Leaving NEW stamps the handler, going back to NEW releases the message.\<close>

definition patchMessage :: "updateContactInput \<Rightarrow> string \<Rightarrow> instant \<Rightarrow> contactMessage \<Rightarrow> contactMessage" where
  "patchMessage input actorId now m =
     m\<lparr>ct_status := given (uc_status input) (ct_status m),
       ct_note := (case uc_note input of None \<Rightarrow> ct_note m | Some n \<Rightarrow> if n = [] then None else Some n),
       ct_handledById := (case uc_status input of None \<Rightarrow> ct_handledById m
          | Some s \<Rightarrow> if s = CM_NEW then None else Some actorId),
       ct_handledAt := (case uc_status input of None \<Rightarrow> ct_handledAt m
          | Some s \<Rightarrow> if s = CM_NEW then None else Some now),
       ct_updatedAt := now\<rparr>"

fun show_contact_status :: "contact_status \<Rightarrow> string" where
  "show_contact_status CM_NEW = ''NEW''"
| "show_contact_status CM_IN_PROGRESS = ''IN_PROGRESS''"
| "show_contact_status CM_RESOLVED = ''RESOLVED''"
| "show_contact_status CM_SPAM = ''SPAM''"

definition messageFields :: "contactMessage \<Rightarrow> json" where
  "messageFields m = JObj
     [(''status'', JStr (show_contact_status (ct_status m))), (''note'', jopt JStr (ct_note m))]"

definition updateContact ::
  "lib \<Rightarrow> string \<Rightarrow> updateContactInput \<Rightarrow> string \<Rightarrow> ctx \<Rightarrow> messageView act" where
  "updateContact L i input actorId cx =
     bindM (getsM (findMessage i)) (\<lambda>found.
     bindM (orThrow (notFound ''Message not found'') found) (\<lambda>before.
     transaction
       (bindM (getsM clock) (\<lambda>now.
        bindM (updateRow contactMessages contactMessages_update (\<lambda>m. ct_id m = i)
          (patchMessage input actorId now)) (\<lambda>row.
        bindM (getsM (\<lambda>w. messageViewOf w row)) (\<lambda>updated.
        thenM (audit L (Some actorId) ''CONTACT_MESSAGE_UPDATED'' ''ContactMessage'' i
          (Some (messageFields before)) (Some (messageFields row)) (Some cx))
        (returnM updated)))))))"

section \<open>The notification inbox\<close>

record inboxPage =
  ib_items :: "notification list"
  ib_meta :: meta
  ib_unreadCount :: nat

definition unreadOf :: "string \<Rightarrow> world \<Rightarrow> nat" where
  "unreadOf userId w = countWhere (\<lambda>n. n_userId n = userId \<and> \<not> n_isRead n) (notifications w)"

text \<open>Unread first, then newest first.\<close>

definition inboxOrder :: "notification list \<Rightarrow> notification list" where
  "inboxOrder rows = sort_key (\<lambda>n. if n_isRead n then 1 else (0::nat)) (orderRows n_createdAt False rows)"

definition listNotifications :: "string \<Rightarrow> int option \<Rightarrow> int option \<Rightarrow> bool option \<Rightarrow> inboxPage act" where
  "listNotifications userId page limit unread =
     (let pagination = getPagination page limit in
      getsM (\<lambda>w. let rows = filter (\<lambda>n. n_userId n = userId \<and> (unread = Some True \<longrightarrow> \<not> n_isRead n)) (notifications w) in
        \<lparr>ib_items = pageRows pagination (inboxOrder rows), ib_meta = buildMeta pagination (length rows),
         ib_unreadCount = unreadOf userId w\<rparr>))"

definition markRead :: "string \<Rightarrow> string \<Rightarrow> (string \<times> bool) act" where
  "markRead userId i =
     bindM (updateMany notifications notifications_update (\<lambda>n. n_id n = i \<and> n_userId n = userId)
       (\<lambda>n. n\<lparr>n_isRead := True\<rparr>)) (\<lambda>count.
     thenM (throwIf (count = 0)
       (apiError 404 ''Notification not found'' [det ''NOT_FOUND'' ''Notification not found'']))
     (returnM (i, True)))"

definition markAllRead :: "string \<Rightarrow> nat act" where
  "markAllRead userId =
     updateMany notifications notifications_update (\<lambda>n. n_userId n = userId \<and> \<not> n_isRead n)
       (\<lambda>n. n\<lparr>n_isRead := True\<rparr>)"

end
