(* ===== verification/StaffController.thy ===== *)
theory StaffController
  imports Handlers PaymentController Reports Rbac Desk ComplaintReads
begin

text \<open>
  The handlers of \<^verbatim>\<open>modules/admin\<close>, \<^verbatim>\<open>modules/rbac\<close> and \<^verbatim>\<open>modules/contact\<close> (their \<^verbatim>\<open>*.controller.ts\<close>).
\<close>

section \<open>The console\<close>

definition adminListUsers :: "lib \<Rightarrow> (userView \<Rightarrow> json) \<Rightarrow> listUsersQuery \<Rightarrow> response act" where
  "adminListUsers L enc query = sendPage ''Users retrieved'' enc (listUsers L query)"

definition adminCreateOfficer :: "lib \<Rightarrow> (userView \<Rightarrow> json) \<Rightarrow> createOfficerInput \<Rightarrow> call \<Rightarrow> response act" where
  "adminCreateOfficer L enc body c =
     asUser c (\<lambda>u. sendData (Some 201) ''Officer created'' enc (createOfficer L body (toActor u) (cl_ctx c)))"

definition adminUpdateRole :: "lib \<Rightarrow> (userView \<Rightarrow> json) \<Rightarrow> string \<Rightarrow> role \<Rightarrow> call \<Rightarrow> response act" where
  "adminUpdateRole L enc i rl c =
     asUser c (\<lambda>u. sendData None ''Role updated'' enc (updateRole L i rl (toAdminActor u) (cl_ctx c)))"

definition adminUpdateStatus ::
  "lib \<Rightarrow> (userView \<Rightarrow> json) \<Rightarrow> string \<Rightarrow> user_status \<Rightarrow> string option \<Rightarrow> call \<Rightarrow> response act" where
  "adminUpdateStatus L enc i status reason c =
     asUser c (\<lambda>u. sendData None ''Status updated'' enc (updateStatus L i status reason (toAdminActor u) (cl_ctx c)))"

definition adminForceLogout :: "lib \<Rightarrow> string \<Rightarrow> call \<Rightarrow> response act" where
  "adminForceLogout L i c =
     asUser c (\<lambda>u. sendData None ''Sessions revoked'' (\<lambda>n. JObj [(''revoked'', JNum (of_nat n))])
       (forceLogout L i (toAdminActor u) (cl_ctx c)))"

definition adminCreateAdmin :: "lib \<Rightarrow> (userView \<Rightarrow> json) \<Rightarrow> createAdminInput \<Rightarrow> call \<Rightarrow> response act" where
  "adminCreateAdmin L enc body c =
     asUser c (\<lambda>u. sendData (Some 201) ''Admin created'' enc (createAdmin L body (toActor u) (cl_ctx c)))"

definition adminRemoveAdmin :: "lib \<Rightarrow> string \<Rightarrow> call \<Rightarrow> response act" where
  "adminRemoveAdmin L i c = asUser c (\<lambda>u. sendMessage (removeAdmin L i (toActor u) (cl_ctx c)))"

definition adminRestore :: "lib \<Rightarrow> (restorable \<Rightarrow> json) \<Rightarrow> restorable \<Rightarrow> string \<Rightarrow> call \<Rightarrow> response act" where
  "adminRestore L entityName entity i c =
     asUser c (\<lambda>u. sendData None ''Record restored''
       (\<lambda>n. JObj [(''entity'', entityName entity), (''id'', JStr i), (''restored'', JNum (of_nat n))])
       (restore L entity i (toActor u) (cl_ctx c)))"

definition adminDashboardStats :: "lib \<Rightarrow> response act" where
  "adminDashboardStats L = sendData None ''Dashboard stats retrieved'' (\<lambda>j. j) (dashboardStats L)"

definition adminAuditLogs :: "lib \<Rightarrow> (auditItem \<Rightarrow> json) \<Rightarrow> auditQuery \<Rightarrow> call \<Rightarrow> response act" where
  "adminAuditLogs L enc query c =
     asUser c (\<lambda>u. sendPage ''Audit logs retrieved'' enc (auditLogsPage L query (toAdminActor u)))"

definition adminSecurityEvents :: "lib \<Rightarrow> (securityEvent \<Rightarrow> json) \<Rightarrow> securityQuery \<Rightarrow> response act" where
  "adminSecurityEvents L enc query = sendPage ''Security events retrieved'' enc (securityEventsPage L query)"

definition adminSlaReport :: "(slaRow \<Rightarrow> json) \<Rightarrow> response act" where
  "adminSlaReport enc = sendData None ''SLA report retrieved'' (\<lambda>rows. JArr (map enc rows)) slaReport"

definition adminComplaintsCsv :: "lib \<Rightarrow> csvReportQuery \<Rightarrow> httpReply act" where
  "adminComplaintsCsv L query =
     bindM (getsM (\<lambda>w. Suc (length (complaints w)))) (\<lambda>fuel.
     bindM (streamComplaintsCsv L fuel query) (\<lambda>csv.
     bindM (orThrow (OtherErr ''fuel'') csv) (\<lambda>body.
     returnM (FileReply (csvHeaders ''complaints.csv'') body))))"

definition adminListSettings :: "(settingView \<Rightarrow> json) \<Rightarrow> response act" where
  "adminListSettings enc = sendData None ''Settings retrieved'' (\<lambda>rows. JArr (map enc rows)) listSettings"

definition adminUpdateSetting :: "lib \<Rightarrow> (setting \<Rightarrow> json) \<Rightarrow> string \<Rightarrow> real \<Rightarrow> call \<Rightarrow> response act" where
  "adminUpdateSetting L enc key newValue c =
     asUser c (\<lambda>u. sendData None ''Setting updated'' enc (updateSetting L key newValue (toActor u) (cl_ctx c)))"

definition adminOfficerStats :: "(officerStats \<Rightarrow> json) \<Rightarrow> call \<Rightarrow> response act" where
  "adminOfficerStats enc c =
     asUser c (\<lambda>u. sendData None ''Officer stats retrieved'' enc (listOfficerStats (u_id u)))"

section \<open>Access control\<close>

definition rbacListPermissions ::
  "lib \<Rightarrow> (permissionView \<Rightarrow> json) \<Rightarrow> string option \<Rightarrow> string option \<Rightarrow> response act" where
  "rbacListPermissions L enc category search' =
     sendData None ''Permissions retrieved'' (\<lambda>rows. JArr (map enc rows)) (listPermissions L category search')"

definition rbacCreatePermission ::
  "lib \<Rightarrow> (permission \<Rightarrow> json) \<Rightarrow> createPermissionInput \<Rightarrow> call \<Rightarrow> response act" where
  "rbacCreatePermission L enc body c =
     asUser c (\<lambda>u. sendData (Some 201) ''Permission created'' enc (createPermission L body (u_id u) (cl_ctx c)))"

definition rbacUpdatePermission ::
  "lib \<Rightarrow> (permission \<Rightarrow> json) \<Rightarrow> string \<Rightarrow> updatePermissionInput \<Rightarrow> call \<Rightarrow> response act" where
  "rbacUpdatePermission L enc i body c =
     asUser c (\<lambda>u. sendData None ''Permission updated'' enc (updatePermission L i body (u_id u) (cl_ctx c)))"

definition rbacDeletePermission :: "lib \<Rightarrow> string \<Rightarrow> call \<Rightarrow> response act" where
  "rbacDeletePermission L i c = asUser c (\<lambda>u. sendMessage (deletePermission L i (u_id u) (cl_ctx c)))"

definition rbacListRoles :: "(roleView \<Rightarrow> json) \<Rightarrow> response act" where
  "rbacListRoles enc = sendData None ''Roles retrieved'' (\<lambda>rows. JArr (map enc rows)) listRoles"

definition rbacCreateRole :: "lib \<Rightarrow> (roleView \<Rightarrow> json) \<Rightarrow> createRoleInput \<Rightarrow> call \<Rightarrow> response act" where
  "rbacCreateRole L enc body c =
     asUser c (\<lambda>u. sendData (Some 201) ''Role created'' enc (createRole L body (u_id u) (cl_ctx c)))"

definition rbacUpdateRole :: "lib \<Rightarrow> (roleView \<Rightarrow> json) \<Rightarrow> string \<Rightarrow> updateRoleInput \<Rightarrow> call \<Rightarrow> response act" where
  "rbacUpdateRole L enc i body c =
     asUser c (\<lambda>u. sendData None ''Role updated'' enc (updateAccessRole L i body (u_id u) (cl_ctx c)))"

definition rbacDeleteRole :: "lib \<Rightarrow> string \<Rightarrow> call \<Rightarrow> response act" where
  "rbacDeleteRole L i c = asUser c (\<lambda>u. sendMessage (deleteRole L i (u_id u) (cl_ctx c)))"

definition rbacGetUserRoles :: "(userRoles \<Rightarrow> json) \<Rightarrow> string \<Rightarrow> response act" where
  "rbacGetUserRoles enc i = sendData None ''User roles retrieved'' enc (getUserRoles i)"

definition rbacAssignUserRoles ::
  "lib \<Rightarrow> (userRoles \<Rightarrow> json) \<Rightarrow> string \<Rightarrow> string list \<Rightarrow> call \<Rightarrow> response act" where
  "rbacAssignUserRoles L enc i roleIds c =
     asUser c (\<lambda>u. sendData None ''Roles assigned'' enc (assignUserRoles L i roleIds (u_id u) (cl_ctx c)))"

definition rbacMyPermissions :: "(permissionAnswer \<Rightarrow> json) \<Rightarrow> call \<Rightarrow> response act" where
  "rbacMyPermissions enc c =
     asUser c (\<lambda>u. sendData None ''Permissions retrieved'' enc (myPermissions (u_id u) (u_role u) (u_isSuperAdmin u)))"

section \<open>The contact desk\<close>

definition contactCreate :: "lib \<Rightarrow> createContactInput \<Rightarrow> call \<Rightarrow> response act" where
  "contactCreate L body c =
     sendData (Some 201) ''Message received'' (\<lambda>m. JObj [(''message'', JStr m)]) (createContact L body (cl_ctx c))"

definition withCount :: "string \<Rightarrow> nat \<Rightarrow> meta \<Rightarrow> json" where
  "withCount name n m =
     (case metaJson m of JObj fs \<Rightarrow> JObj (fs @ [(name, JNum (of_nat n))]) | j \<Rightarrow> j)"

definition contactList ::
  "lib \<Rightarrow> (messageView \<Rightarrow> json) \<Rightarrow> int option \<Rightarrow> int option \<Rightarrow> contact_status option \<Rightarrow> string option \<Rightarrow> response act" where
  "contactList L enc page limit status q =
     bindM (listContact L page limit status q) (\<lambda>r.
     returnM (sendResponse None ''Messages retrieved''
       (Some (JObj [(''items'', JArr (map enc (cp_items r)))]))
       (Some (withCount ''newCount'' (cp_newCount r) (cp_meta r)))))"

definition contactGetById :: "(messageView \<Rightarrow> json) \<Rightarrow> string \<Rightarrow> response act" where
  "contactGetById enc i = sendData None ''Message retrieved'' enc (getContact i)"

definition contactUpdate :: "lib \<Rightarrow> (messageView \<Rightarrow> json) \<Rightarrow> string \<Rightarrow> updateContactInput \<Rightarrow> call \<Rightarrow> response act" where
  "contactUpdate L enc i body c =
     asUser c (\<lambda>u. sendData None ''Message updated'' enc (updateContact L i body (u_id u) (cl_ctx c)))"

end
