(* ===== verification/Profile.thy ===== *)
theory Profile
  imports Admin
begin

text \<open>
  A user's own account (\<^verbatim>\<open>modules/user/user.service.ts\<close>): the profile and its changes, the export of
  everything held about the person, and the deletion of the account.
\<close>

record profile = userView +
  pf_avatarUrl :: "string option"
  pf_emailVerifiedAt :: "instant option"

text \<open>\<open>PROFILE_SELECT\<close>: no password hash among the columns.\<close>

definition profileOf :: "world \<Rightarrow> user \<Rightarrow> profile" where
  "profileOf w u = userView.extend (userViewOf w u)
     (profile.fields (u_avatarUrl u) (u_emailVerifiedAt u))"

definition getMe :: "string \<Rightarrow> profile act" where
  "getMe userId =
     bindM (getsM (\<lambda>w. map_option (profileOf w) (findUser userId w))) (orThrow userMissing)"

record updateMeInput =
  um_name :: "string option"
  um_phone :: "string option"
  um_wardId :: "string option"

definition patchMe :: "updateMeInput \<Rightarrow> user \<Rightarrow> user" where
  "patchMe input u =
     u\<lparr>u_name := given (um_name input) (u_name u), u_phone := givenOpt (um_phone input) (u_phone u),
       u_wardId := givenOpt (um_wardId input) (u_wardId u)\<rparr>"

definition updateMe :: "string \<Rightarrow> updateMeInput \<Rightarrow> profile act" where
  "updateMe userId input =
     thenM (case um_wardId input of None \<Rightarrow> returnM ()
            | Some i \<Rightarrow> whenM (i \<noteq> [])
                (bindM (getsM (\<lambda>w. find (\<lambda>d. w_id d = i) (wards w))) (\<lambda>ward.
                 throwIf (ward = None) (badReference ''wardId'' ''Ward does not exist''))))
     (bindM (saveUser userId (patchMe input)) (\<lambda>saved.
      getsM (\<lambda>w. profileOf w saved)))"

text \<open>The answer of the upload service is a parameter: its error, or the address of the picture.\<close>

definition updateAvatar :: "string \<Rightarrow> exn + string \<Rightarrow> profile act" where
  "updateAvatar userId upload =
     bindM (liftE upload) (\<lambda>url.
     bindM (saveUser userId (\<lambda>u. u\<lparr>u_avatarUrl := Some url\<rparr>)) (\<lambda>saved.
     getsM (\<lambda>w. profileOf w saved)))"

section \<open>The export\<close>

definition jtime :: "instant \<Rightarrow> json" where
  "jtime t = JStr (iso_string t)"

definition complaintExport :: "world \<Rightarrow> complaint \<Rightarrow> json" where
  "complaintExport w c = JObj
     [(''trackingId'', JStr (c_trackingId c)), (''title'', JStr (c_title c)),
      (''description'', JStr (c_description c)), (''status'', JStr (show_status (c_status c))),
      (''priority'', JStr (show_priority (c_priority c))), (''address'', JStr (c_address c)),
      (''createdAt'', jtime (c_createdAt c)), (''resolvedAt'', jopt jtime (c_resolvedAt c)),
      (''category'', jopt (\<lambda>k. JObj [(''name'', JStr (cat_name k))])
         (find (\<lambda>k. cat_id k = c_categoryId c) (categories w))),
      (''ward'', jopt (\<lambda>d. JObj [(''number'', JNum (of_int (w_number d))), (''name'', JStr (w_name d))])
         (find (\<lambda>d. w_id d = c_wardId c) (wards w)))]"

definition requestExport :: "lib \<Rightarrow> world \<Rightarrow> serviceRequest \<Rightarrow> json" where
  "requestExport L w r = JObj
     [(''referenceNo'', JStr (sr_referenceNo r)), (''status'', JStr (show_sr_status (sr_status r))),
      (''details'', jopt (\<lambda>j. j) (sr_details r)), (''createdAt'', jtime (sr_createdAt r)),
      (''serviceType'', jopt (\<lambda>t. JObj [(''name'', JStr (st_name t)), (''fee'', JStr (decStr L (st_fee t)))])
         (find (\<lambda>t. st_id t = sr_serviceTypeId r) (serviceTypes w)))]"

definition paymentExport :: "lib \<Rightarrow> payment \<Rightarrow> json" where
  "paymentExport L p = JObj
     [(''transactionId'', JStr (p_transactionId p)), (''amount'', JStr (decStr L (p_amount p))),
      (''currency'', JStr (p_currency p)), (''status'', JStr (show_pay_status (p_status p))),
      (''paidAt'', jopt jtime (p_paidAt p)), (''createdAt'', jtime (p_createdAt p))]"

definition notificationExport :: "notification \<Rightarrow> json" where
  "notificationExport n = JObj
     [(''title'', JStr (n_title n)), (''body'', JStr (n_body n)), (''isRead'', JBool (n_isRead n)),
      (''createdAt'', jtime (n_createdAt n))]"

definition sessionExport :: "session \<Rightarrow> json" where
  "sessionExport s = JObj
     [(''ip'', jopt JStr (se_ip s)), (''userAgent'', jopt JStr (se_userAgent s)),
      (''createdAt'', jtime (se_createdAt s)), (''lastUsedAt'', jtime (se_lastUsedAt s))]"

definition feedbackExport :: "feedback \<Rightarrow> json" where
  "feedbackExport f = JObj
     [(''rating'', JNum (of_int (fb_rating f))), (''comment'', jopt JStr (fb_comment f)),
      (''createdAt'', jtime (fb_createdAt f))]"

text \<open>Feedback is reached through the complaint, deleted or not.\<close>

definition ownComplaint :: "string \<Rightarrow> world \<Rightarrow> string \<Rightarrow> bool" where
  "ownComplaint userId w i =
     (case find (\<lambda>c. c_id c = i) (complaints w) of None \<Rightarrow> False | Some c \<Rightarrow> c_citizenId c = userId)"

record exportDocument =
  ex_exportedAt :: instant
  ex_profile :: profile
  ex_complaints :: "json list"
  ex_serviceRequests :: "json list"
  ex_payments :: "json list"
  ex_feedback :: "json list"
  ex_notifications :: "json list"
  ex_sessions :: "json list"

definition exportOf :: "lib \<Rightarrow> world \<Rightarrow> user \<Rightarrow> exportDocument" where
  "exportOf L w u =
     (let userId = u_id u in
      \<lparr>ex_exportedAt = clock w, ex_profile = profileOf w u,
       ex_complaints = map (complaintExport w) (filter (\<lambda>c. c_citizenId c = userId) (liveComplaints w)),
       ex_serviceRequests = map (requestExport L w) (filter (\<lambda>r. sr_citizenId r = userId) (liveServiceRequests w)),
       ex_payments = map (paymentExport L) (filter (\<lambda>p. p_userId p = userId) (payments w)),
       ex_feedback = map feedbackExport (filter (\<lambda>f. ownComplaint userId w (fb_complaintId f)) (feedbacks w)),
       ex_notifications = map notificationExport (filter (\<lambda>n. n_userId n = userId) (notifications w)),
       ex_sessions = map sessionExport (filter (\<lambda>s. se_userId s = userId) (sessions w))\<rparr>)"

definition exportData :: "lib \<Rightarrow> string \<Rightarrow> exportDocument act" where
  "exportData L userId =
     bindM (getsM (\<lambda>w. map_option (exportOf L w) (findUser userId w))) (orThrow userMissing)"

section \<open>Leaving\<close>

definition leaveCommit :: "lib \<Rightarrow> string \<Rightarrow> ctx \<Rightarrow> unit act" where
  "leaveCommit L userId cx =
     bindM (getsM clock) (\<lambda>now.
     transaction
       (thenM (saveUser userId (\<lambda>r. r\<lparr>u_deletedAt := Some now\<rparr>))
        (audit L (Some userId) ''USER_DELETED'' ''User'' userId None None (Some cx))))"

definition deleteMe :: "lib \<Rightarrow> string \<Rightarrow> ctx \<Rightarrow> string act" where
  "deleteMe L userId cx =
     bindM (getsM (findUser userId)) (\<lambda>found.
     bindM (orThrow userMissing found) (\<lambda>u.
     thenM (whenM (u_isSuperAdmin u)
       (bindM (getsM (\<lambda>w. countWhere (\<lambda>r. u_isSuperAdmin r \<and> u_status r = ACTIVE \<and> u_id r \<noteq> userId) (liveUsers w)))
         (\<lambda>others. throwIf (others = 0)
           (apiError 409 ''The last super admin cannot delete their own account''
             [det ''LAST_SUPER_ADMIN'' ''At least one super admin must remain'']))))
     (thenM (leaveCommit L userId cx)
     (thenM (thenM (revokeAllSessions userId ADMIN_REVOKED) (returnM ()))
     (returnM ''Account deleted'')))))"

end
