(* ===== verification/CitizenController.thy ===== *)
theory CitizenController
  imports Handlers StaffController Middlewares Profile ServiceRequest MasterData
begin

text \<open>
  The handlers of \<^verbatim>\<open>modules/user\<close>, \<^verbatim>\<open>modules/serviceRequest\<close>, \<^verbatim>\<open>modules/notification\<close> and of the master data
  (\<^verbatim>\<open>department\<close>, \<^verbatim>\<open>category\<close>, \<^verbatim>\<open>ward\<close>, \<^verbatim>\<open>zone\<close>, \<^verbatim>\<open>serviceType\<close>). \<open>store\<close> is the upload to Cloudinary.
\<close>

section \<open>The own account\<close>

definition userGetMe :: "(profile \<Rightarrow> json) \<Rightarrow> call \<Rightarrow> response act" where
  "userGetMe enc c = asUser c (\<lambda>u. sendData None ''Profile retrieved'' enc (getMe (u_id u)))"

definition userUpdateMe :: "(profile \<Rightarrow> json) \<Rightarrow> updateMeInput \<Rightarrow> call \<Rightarrow> response act" where
  "userUpdateMe enc body c = asUser c (\<lambda>u. sendData None ''Profile updated'' enc (updateMe (u_id u) body))"

definition userUpdateAvatar ::
  "(upload \<Rightarrow> exn + string) \<Rightarrow> (profile \<Rightarrow> json) \<Rightarrow> uploads \<Rightarrow> call \<Rightarrow> response act" where
  "userUpdateAvatar store enc up c =
     (case up of
        OneFile f \<Rightarrow> asUser c (\<lambda>u. sendData None ''Avatar updated'' enc (updateAvatar (u_id u) (store f)))
      | _ \<Rightarrow> throwM (apiError 400 ''Validation failed'' [detF ''avatar'' ''VALIDATION_ERROR'' ''Avatar file is required'']))"

text \<open>The export is the envelope with a file name for the browser.\<close>

definition userExportData :: "lib \<Rightarrow> (exportDocument \<Rightarrow> json) \<Rightarrow> call \<Rightarrow> ((string \<times> string) list \<times> response) act" where
  "userExportData L enc c =
     asUser c (\<lambda>u. bindM (exportData L (u_id u)) (\<lambda>d.
       returnM ([(''Content-Disposition'', ''attachment; filename=\"citycare-export.json\"'')],
         sendResponse None ''Data export ready'' (Some (enc d)) None)))"

definition userDeleteMe :: "lib \<Rightarrow> call \<Rightarrow> response act" where
  "userDeleteMe L c = asUser c (\<lambda>u. sendMessage (deleteMe L (u_id u) (cl_ctx c)))"

section \<open>Service requests\<close>

definition serviceRequestCreate :: "lib \<Rightarrow> (srItem \<Rightarrow> json) \<Rightarrow> createSrInput \<Rightarrow> call \<Rightarrow> response act" where
  "serviceRequestCreate L enc body c =
     asUser c (\<lambda>u. sendData (Some 201) ''Service request submitted'' enc (createRequest L body (toActor u) (cl_ctx c)))"

definition serviceRequestListMine :: "lib \<Rightarrow> (srItem \<Rightarrow> json) \<Rightarrow> srQuery \<Rightarrow> call \<Rightarrow> response act" where
  "serviceRequestListMine L enc query c =
     asUser c (\<lambda>u. sendPage ''Service requests retrieved'' enc (listMyRequests L query (toActor u)))"

definition serviceRequestList :: "lib \<Rightarrow> (srItem \<Rightarrow> json) \<Rightarrow> srQuery \<Rightarrow> response act" where
  "serviceRequestList L enc query = sendPage ''Service requests retrieved'' enc (listRequests L query)"

definition serviceRequestGetById :: "lib \<Rightarrow> (srDetail \<Rightarrow> json) \<Rightarrow> string \<Rightarrow> call \<Rightarrow> response act" where
  "serviceRequestGetById L enc i c =
     asUser c (\<lambda>u. sendData None ''Service request retrieved'' enc (getRequest L i (toActor u)))"

definition serviceRequestUpdateStatus ::
  "lib \<Rightarrow> (srItem \<Rightarrow> json) \<Rightarrow> string \<Rightarrow> updateSrInput \<Rightarrow> call \<Rightarrow> response act" where
  "serviceRequestUpdateStatus L enc i body c =
     asUser c (\<lambda>u. sendData None ''Service request updated'' enc (updateSrStatus L i body (toActor u) (cl_ctx c)))"

definition serviceRequestAddDocument ::
  "lib \<Rightarrow> (upload \<Rightarrow> exn + string \<times> string) \<Rightarrow> (docView \<Rightarrow> json) \<Rightarrow> string \<Rightarrow> string \<Rightarrow> uploads \<Rightarrow> call \<Rightarrow>
   response act" where
  "serviceRequestAddDocument L store enc i label up c =
     (case up of
        OneFile f \<Rightarrow> asUser c (\<lambda>u. sendData (Some 201) ''Document uploaded'' enc (addDocument L i label (store f) (toActor u)))
      | _ \<Rightarrow> throwM (apiError 400 ''Validation failed'' [detF ''document'' ''VALIDATION_ERROR'' ''A document file is required'']))"

definition serviceRequestGetDocument ::
  "(string \<Rightarrow> int \<Rightarrow> string) \<Rightarrow> string \<Rightarrow> string \<Rightarrow> call \<Rightarrow> response act" where
  "serviceRequestGetDocument sign i docId c =
     asUser c (\<lambda>u. sendData None ''Signed document link generated''
       (\<lambda>d. JObj [(''url'', JStr (dl_url d)), (''expiresInSec'', JNum (of_int (dl_expiresInSec d))),
          (''label'', JStr (dl_label d))])
       (getDocumentUrl sign i docId (toActor u)))"

section \<open>The inbox\<close>

definition notificationList ::
  "lib \<Rightarrow> (notification \<Rightarrow> json) \<Rightarrow> int option \<Rightarrow> int option \<Rightarrow> bool option \<Rightarrow> call \<Rightarrow> response act" where
  "notificationList L enc page limit unread c =
     asUser c (\<lambda>u. bindM (listNotifications (u_id u) page limit unread) (\<lambda>r.
       returnM (sendResponse None ''Notifications retrieved'' (Some (JArr (map enc (ib_items r))))
         (Some (withCount ''unreadCount'' (ib_unreadCount r) (ib_meta r))))))"

definition notificationMarkRead :: "string \<Rightarrow> call \<Rightarrow> response act" where
  "notificationMarkRead i c =
     asUser c (\<lambda>u. sendData None ''Notification marked as read''
       (\<lambda>r. JObj [(''id'', JStr (fst r)), (''isRead'', JBool (snd r))]) (markRead (u_id u) i))"

definition notificationMarkAllRead :: "call \<Rightarrow> response act" where
  "notificationMarkAllRead c =
     asUser c (\<lambda>u. sendData None ''All notifications marked as read''
       (\<lambda>n. JObj [(''updated'', JNum (of_nat n))]) (markAllRead (u_id u)))"

section \<open>Master data\<close>

definition departmentList :: "response act" where
  "departmentList = sendData None ''Departments retrieved'' (\<lambda>j. j) listDepartments"

definition departmentCreate :: "lib \<Rightarrow> (department \<Rightarrow> json) \<Rightarrow> createDepartmentInput \<Rightarrow> call \<Rightarrow> response act" where
  "departmentCreate L enc body c =
     asUser c (\<lambda>u. sendData (Some 201) ''Department created'' enc (createDepartment L body (u_id u) (cl_ctx c)))"

definition departmentUpdate ::
  "lib \<Rightarrow> (department \<Rightarrow> json) \<Rightarrow> string \<Rightarrow> updateDepartmentInput \<Rightarrow> call \<Rightarrow> response act" where
  "departmentUpdate L enc i body c =
     asUser c (\<lambda>u. sendData None ''Department updated'' enc (updateDepartment L i body (u_id u) (cl_ctx c)))"

definition departmentRemove :: "lib \<Rightarrow> string \<Rightarrow> call \<Rightarrow> response act" where
  "departmentRemove L i c = asUser c (\<lambda>u. sendMessage (deleteDepartment L i (u_id u) (cl_ctx c)))"

definition categoryList :: "response act" where
  "categoryList = sendData None ''Categories retrieved'' (\<lambda>j. j) listCategories"

definition categoryCreate :: "lib \<Rightarrow> (category \<Rightarrow> json) \<Rightarrow> createCategoryInput \<Rightarrow> call \<Rightarrow> response act" where
  "categoryCreate L enc body c =
     asUser c (\<lambda>u. sendData (Some 201) ''Category created'' enc (createCategory L body (u_id u) (cl_ctx c)))"

definition categoryUpdate ::
  "lib \<Rightarrow> (category \<Rightarrow> json) \<Rightarrow> string \<Rightarrow> updateCategoryInput \<Rightarrow> call \<Rightarrow> response act" where
  "categoryUpdate L enc i body c =
     asUser c (\<lambda>u. sendData None ''Category updated'' enc (updateCategory L i body (u_id u) (cl_ctx c)))"

definition categoryRemove :: "lib \<Rightarrow> string \<Rightarrow> call \<Rightarrow> response act" where
  "categoryRemove L i c = asUser c (\<lambda>u. sendMessage (deleteCategory L i (u_id u) (cl_ctx c)))"

definition wardList :: "response act" where
  "wardList = sendData None ''Wards retrieved'' (\<lambda>j. j) listWards"

definition wardCreate :: "lib \<Rightarrow> (ward \<Rightarrow> json) \<Rightarrow> createWardInput \<Rightarrow> call \<Rightarrow> response act" where
  "wardCreate L enc body c =
     asUser c (\<lambda>u. sendData (Some 201) ''Ward created'' enc (createWard L body (u_id u) (cl_ctx c)))"

definition wardUpdate :: "lib \<Rightarrow> (ward \<Rightarrow> json) \<Rightarrow> string \<Rightarrow> updateWardInput \<Rightarrow> call \<Rightarrow> response act" where
  "wardUpdate L enc i body c =
     asUser c (\<lambda>u. sendData None ''Ward updated'' enc (updateWard L i body (u_id u) (cl_ctx c)))"

definition zoneList :: "response act" where
  "zoneList = sendData None ''Zones retrieved'' (\<lambda>j. j) listZones"

definition zoneCreate :: "lib \<Rightarrow> (zone \<Rightarrow> json) \<Rightarrow> string \<Rightarrow> call \<Rightarrow> response act" where
  "zoneCreate L enc name c =
     asUser c (\<lambda>u. sendData (Some 201) ''Zone created'' enc (createZone L name (u_id u) (cl_ctx c)))"

definition serviceTypeList :: "lib \<Rightarrow> response act" where
  "serviceTypeList L = sendData None ''Service types retrieved'' (\<lambda>j. j) (listServiceTypes L)"

definition serviceTypeCreate :: "lib \<Rightarrow> createServiceTypeInput \<Rightarrow> call \<Rightarrow> response act" where
  "serviceTypeCreate L body c =
     asUser c (\<lambda>u. sendData (Some 201) ''Service type created'' (\<lambda>j. j) (createServiceType L body (u_id u) (cl_ctx c)))"

definition serviceTypeUpdate :: "lib \<Rightarrow> string \<Rightarrow> updateServiceTypeInput \<Rightarrow> call \<Rightarrow> response act" where
  "serviceTypeUpdate L i body c =
     asUser c (\<lambda>u. sendData None ''Service type updated'' (\<lambda>j. j) (updateServiceType L i body (u_id u) (cl_ctx c)))"

end
