(* ===== verification/OauthState.thy ===== *)
theory OauthState
  imports AuthWorld
begin

text \<open>
  The \<^verbatim>\<open>state\<close> of a Google sign-in (\<^verbatim>\<open>lib/oauthState.ts\<close>): written to Redis before the redirect, deleted on
  the way back, gone after ten minutes. Passport calls \<open>store\<close> and \<open>verify\<close>; its callback \<open>done\<close> is the
  answer of the operation here.
\<close>

section \<open>The store\<close>

definition oauthKey :: "string \<Rightarrow> string" where
  "oauthKey state = ''oauth:state:'' @ state"

definition oauthTTL :: real where
  "oauthTTL = 600"

text \<open>\<open>errText\<close> is the message of a thrown value.\<close>

definition unavailable :: "(exn \<Rightarrow> string) \<Rightarrow> exn \<Rightarrow> exn" where
  "unavailable errText err =
     apiError 503 ''Google login is temporarily unavailable'' [det ''SERVICE_UNAVAILABLE'' (errText err)]"

definition storeState :: "(exn \<Rightarrow> string) \<Rightarrow> lib \<Rightarrow> string act" where
  "storeState errText L =
     bindM (randomToken L) (\<lambda>state.
     catchM (thenM (redisSetEx (oauthKey state) (RText ''1'') oauthTTL) (returnM state))
       (\<lambda>err. throwM (unavailable errText err)))"

datatype verdict = Accepted | Refused string

definition verifyState :: "(exn \<Rightarrow> string) \<Rightarrow> string \<Rightarrow> verdict act" where
  "verifyState errText state =
     (if state = [] then returnM (Refused ''Unable to verify authorization request state.'')
      else catchM
        (bindM (redisDel [oauthKey state]) (\<lambda>removed.
           returnM (if removed = 1 then Accepted else Refused ''Invalid authorization request state.'')))
        (\<lambda>err. throwM (unavailable errText err)))"

section \<open>What the two calls do\<close>

lemma oauthKey_inj [simp]: "oauthKey a = oauthKey b \<longleftrightarrow> a = b"
  by (simp add: oauthKey_def)

lemma run_storeState:
  "storeState errText L w =
     (let s = tokenTape L (tokPos w); w' = w\<lparr>tokPos := Suc (tokPos w)\<rparr> in
      if redisUp w then (Inr s, redisPut (oauthKey s) (RText ''1'') (Some (clock w + 600000)) w')
      else (Inl (unavailable errText RedisErr), w'))"
  by (simp add: storeState_def eval redisSetEx_def redisCmd_def isPosInt_def oauthTTL_def Let_def)

lemma verify_empty:
  "verifyState errText [] w = (Inr (Refused ''Unable to verify authorization request state.''), w)"
  by (simp add: verifyState_def eval)

lemma run_verifyState:
  assumes "state \<noteq> []"
  shows "verifyState errText state w =
     (if redisUp w then
        (Inr (if redisLive w (oauthKey state) = None then Refused ''Invalid authorization request state.'' else Accepted),
         forget [oauthKey state] w)
      else (Inl (unavailable errText RedisErr), w))"
proof (cases "redisUp w")
  case True
  then show ?thesis using assms by (simp add: verifyState_def eval run_redisDel)
next
  case False
  then show ?thesis using assms by (simp add: verifyState_def eval redisDel_def)
qed

section \<open>Sign-ins in any order\<close>

text \<open>
  \<open>Elsewhere\<close> is whatever else happens: other requests, waiting, Redis going down, coming back or losing
  keys. It may not write these keys, turn the clock back or hand a drawn token back.
\<close>

datatype oauthOp = Issue | Check string | Elsewhere "world \<Rightarrow> world"

datatype oauthEvent = Issued string | CameBack string

definition harmless :: "(world \<Rightarrow> world) \<Rightarrow> bool" where
  "harmless f \<longleftrightarrow> (\<forall>w. clock w \<le> clock (f w) \<and> tokPos w \<le> tokPos (f w) \<and>
     (\<forall>s. redis (f w) (oauthKey s) \<in> {None, redis w (oauthKey s)}))"

fun oauthStep :: "(exn \<Rightarrow> string) \<Rightarrow> lib \<Rightarrow> oauthOp \<Rightarrow> (instant \<times> oauthEvent) list \<times> world \<Rightarrow>
    (instant \<times> oauthEvent) list \<times> world" where
  "oauthStep errText L Issue (evs, w) =
     (case storeState errText L w of
        (Inr s, w') \<Rightarrow> ((clock w, Issued s) # evs, w')
      | (Inl _, w') \<Rightarrow> (evs, w'))"
| "oauthStep errText L (Check s) (evs, w) =
     (case verifyState errText s w of
        (Inr Accepted, w') \<Rightarrow> ((clock w, CameBack s) # evs, w')
      | (_, w') \<Rightarrow> (evs, w'))"
| "oauthStep errText L (Elsewhere f) (evs, w) = (evs, f w)"

text \<open>The events of a run, the latest first.\<close>

definition oauthRun :: "(exn \<Rightarrow> string) \<Rightarrow> lib \<Rightarrow> oauthOp list \<Rightarrow> world \<Rightarrow> (instant \<times> oauthEvent) list" where
  "oauthRun errText L ops w = fst (fold (oauthStep errText L) ops ([], w))"

text \<open>What a evs must look like for the claim.\<close>

fun logOk :: "(instant \<times> oauthEvent) list \<Rightarrow> bool" where
  "logOk [] = True"
| "logOk ((t, Issued s) # evs) = logOk evs"
| "logOk ((t, CameBack s) # evs) =
     (logOk evs \<and> (\<exists>t0. (t0, Issued s) \<in> set evs \<and> t < t0 + 600000) \<and> (\<forall>t0. (t0, CameBack s) \<notin> set evs))"

lemma logOk_signed:
  assumes "logOk (later @ (t, CameBack s) # earlier)"
  shows "(\<exists>t0. (t0, Issued s) \<in> set earlier \<and> t < t0 + 600000) \<and>
    (\<forall>t0. (t0, CameBack s) \<notin> set later \<union> set earlier)"
  using assms by (induction later rule: logOk.induct) auto

text \<open>
  The invariant: what is stored was issued, not yet used, and expires ten minutes after it was issued;
  every state of the evs has been drawn.
\<close>

definition oauthInv :: "lib \<Rightarrow> (instant \<times> oauthEvent) list \<times> world \<Rightarrow> bool" where
  "oauthInv L = (\<lambda>(evs, w). logOk evs \<and>
     (\<forall>s v. redis w (oauthKey s) = Some v \<longrightarrow>
        (\<exists>t0. (t0, Issued s) \<in> set evs \<and> snd v = Some (t0 + 600000)) \<and> (\<forall>t. (t, CameBack s) \<notin> set evs)) \<and>
     (\<forall>t s. (t, Issued s) \<in> set evs \<or> (t, CameBack s) \<in> set evs \<longrightarrow> s \<in> tokenTape L ` {..<tokPos w}))"

lemma oauthInv_stored:
  assumes "oauthInv L (evs, w)" and "redis w (oauthKey s) = Some v"
  obtains t0 where "(t0, Issued s) \<in> set evs" and "snd v = Some (t0 + 600000)"
    and "\<forall>t. (t, CameBack s) \<notin> set evs"
  using assms unfolding oauthInv_def by blast

lemma oauthInv_issue:
  assumes "inj (tokenTape L)" and "oauthInv L (evs, w)"
  shows "oauthInv L (oauthStep errText L Issue (evs, w))"
proof -
  let ?s = "tokenTape L (tokPos w)"
  have fresh: "?s \<notin> tokenTape L ` {..<tokPos w}" using assms(1) by (auto simp: inj_eq)
  have mono: "tokenTape L ` {..<tokPos w} \<subseteq> tokenTape L ` {..<Suc (tokPos w)}" by auto
  have unused: "(t, CameBack ?s) \<notin> set evs" for t using assms(2) fresh by (auto simp: oauthInv_def)
  show ?thesis
    using assms(2) unused mono unfolding oauthInv_def
    by (auto simp: run_storeState Let_def redisPut_def lessThan_Suc)
qed

lemma harmless_forget: "harmless (forget ks)"
  by (simp add: harmless_def forget_def)

lemma oauthInv_elsewhere:
  assumes "harmless f" and "oauthInv L (evs, w)"
  shows "oauthInv L (evs, f w)"
proof -
  have red: "redis (f w) (oauthKey s) = Some v \<Longrightarrow> redis w (oauthKey s) = Some v" for s v
  proof -
    have "redis (f w) (oauthKey s) = None \<or> redis (f w) (oauthKey s) = redis w (oauthKey s)"
      using assms(1) by (simp add: harmless_def)
    then show "redis (f w) (oauthKey s) = Some v \<Longrightarrow> redis w (oauthKey s) = Some v" by auto
  qed
  have "tokPos w \<le> tokPos (f w)" using assms(1) by (simp add: harmless_def)
  then have mono: "tokenTape L ` {..<tokPos w} \<subseteq> tokenTape L ` {..<tokPos (f w)}" by auto
  show ?thesis using assms(2) red mono unfolding oauthInv_def by blast
qed

lemma oauthInv_check:
  assumes "oauthInv L (evs, w)"
  shows "oauthInv L (oauthStep errText L (Check s) (evs, w))"
proof (cases "s \<noteq> [] \<and> redisUp w \<and> redisLive w (oauthKey s) \<noteq> None")
  case True
  then obtain v where v: "redis w (oauthKey s) = Some v" "snd v \<noteq> None \<longrightarrow> clock w < the (snd v)"
    by (auto simp: redisLive_def split: option.splits if_splits)
  obtain t0 where t0: "(t0, Issued s) \<in> set evs" "snd v = Some (t0 + 600000)" "\<forall>t. (t, CameBack s) \<notin> set evs"
    by (rule oauthInv_stored [OF assms v(1)])
  moreover have "clock w < t0 + 600000" using v(2) t0(2) by simp
  ultimately show ?thesis
    using assms True by (auto simp: oauthInv_def run_verifyState forget_def image_iff)
next
  case False
  then consider "oauthStep errText L (Check s) (evs, w) = (evs, w)"
    | "oauthStep errText L (Check s) (evs, w) = (evs, forget [oauthKey s] w)"
    by (cases "s = []"; cases "redisUp w") (simp_all add: run_verifyState verify_empty)
  then show ?thesis
    using assms oauthInv_elsewhere [of "forget [oauthKey s]"] by cases (simp_all add: harmless_forget)
qed

lemma oauthInv_run:
  assumes "inj (tokenTape L)" and "\<forall>f. Elsewhere f \<in> set ops \<longrightarrow> harmless f" and "oauthInv L st"
  shows "oauthInv L (fold (oauthStep errText L) ops st)"
  using assms(2,3)
proof (induction ops arbitrary: st)
  case (Cons op ops)
  obtain evs w where st: "st = (evs, w)" by (cases st)
  have "oauthInv L (oauthStep errText L op st)"
    using Cons.prems oauthInv_issue [OF assms(1)] oauthInv_check oauthInv_elsewhere
    by (cases op) (auto simp: st)
  with Cons show ?case by simp
qed simp

text \<open>C12: A Google sign-in is finished only with a state this server issued, within ten minutes of issuing it,
  and with each state once: in a run of redirects and returns in any order, with anything else in
  between that does not write the keys of the states, whoever presents which state. When Redis is
  down nobody gets through.\<close>

theorem oauth_state_is_single_use:
  assumes "inj (tokenTape L)" and "\<forall>s. redis w (oauthKey s) = None"
    and "\<forall>f. Elsewhere f \<in> set ops \<longrightarrow> harmless f"
    and "oauthRun errText L ops w = later @ (t, CameBack s) # earlier"
  shows "(\<exists>t0. (t0, Issued s) \<in> set earlier \<and> t < t0 + 600000) \<and>
    (\<forall>t0. (t0, CameBack s) \<notin> set later \<union> set earlier) \<and>
    (\<forall>v. \<not> redisUp v \<longrightarrow> fst (verifyState errText s v) \<noteq> Inr Accepted)"
proof -
  have "oauthInv L ([], w)" using assms(2) by (simp add: oauthInv_def)
  then have "logOk (oauthRun errText L ops w)"
    using oauthInv_run [OF assms(1,3), of "([], w)" errText] by (simp add: oauthInv_def oauthRun_def split: prod.splits)
  then show ?thesis
    unfolding assms(4) using logOk_signed [of later t s earlier]
    by (auto simp: verifyState_def eval redisDel_def redis_down)
qed

text \<open>A state is issued, presented twice, and presented again by somebody who made it up.\<close>

lemma authLib_tokens: "inj (tokenTape authLib)"
proof (rule injI)
  fix m n :: nat
  assume "tokenTape authLib m = tokenTape authLib n"
  then have "length (replicate m (CHR ''t'')) = length (replicate n (CHR ''t''))" by simp
  then show "m = n" by simp
qed

definition googleOps :: "oauthOp list" where
  "googleOps = [Issue, Issue, Elsewhere (\<lambda>w. w\<lparr>clock := clock w + 1000\<rparr>), Check ''t'', Check ''t'', Check ''x'']"

lemma googleOps_run:
  "oauthRun (\<lambda>_. ''down'') authLib googleOps (atDoor False) = [(1000, CameBack ''t''), (0, Issued ''t''), (0, Issued [])]"
  by (simp add: oauthRun_def googleOps_def run_storeState run_verifyState Let_def redisPut_def redisLive_def
      forget_def oauthKey_def atDoor_def empty_world_def KEYS_defs)

lemma oauth_state_is_single_use_witness:
  "oauthRun (\<lambda>_. ''down'') authLib googleOps (atDoor False) = [(1000, CameBack ''t''), (0, Issued ''t''), (0, Issued [])] \<and>
   (\<exists>t0. (t0, Issued ''t'') \<in> set [(0, Issued ''t''), (0, Issued [])] \<and> 1000 < t0 + (600000 :: int)) \<and>
   (\<forall>t0. (t0 :: int, CameBack ''t'') \<notin> set [] \<union> set [(0, Issued ''t''), (0, Issued [])]) \<and>
   fst (verifyState (\<lambda>_. ''down'') ''t'' ((atDoor False)\<lparr>redisUp := False\<rparr>)) \<noteq> Inr Accepted"
proof -
  have "(\<exists>t0. (t0, Issued ''t'') \<in> set [(0, Issued ''t''), (0, Issued [])] \<and> 1000 < t0 + (600000 :: int)) \<and>
     (\<forall>t0. (t0 :: int, CameBack ''t'') \<notin> set [] \<union> set [(0, Issued ''t''), (0, Issued [])]) \<and>
     (\<forall>v. \<not> redisUp v \<longrightarrow> fst (verifyState (\<lambda>_. ''down'') ''t'' v) \<noteq> Inr Accepted)"
  proof (rule oauth_state_is_single_use [of authLib "atDoor False" googleOps "\<lambda>_. ''down''" "[]" 1000 "''t''"
      "[(0, Issued ''t''), (0, Issued [])]"])
    show "inj (tokenTape authLib)" by (rule authLib_tokens)
    show "\<forall>s. redis (atDoor False) (oauthKey s) = None"
      by (simp add: atDoor_def oauthKey_def KEYS_defs)
    show "\<forall>f. Elsewhere f \<in> set googleOps \<longrightarrow> harmless f"
      by (simp add: googleOps_def harmless_def)
    show "oauthRun (\<lambda>_. ''down'') authLib googleOps (atDoor False) = [] @ (1000, CameBack ''t'') # [(0, Issued ''t''), (0, Issued [])]"
      by (simp add: googleOps_run)
  qed
  then show ?thesis by (simp add: googleOps_run)
qed

end
