(* ===== verification/PublicApi.thy ===== *)
theory PublicApi
  imports AuthController ComplaintController PaymentController CitizenController OauthState
begin

text \<open>
  Everything a caller without a token can ask for, as the handlers of the controllers, and the frame of
  it: which rows none of these handlers writes.
\<close>

section \<open>The public handlers\<close>

datatype publicOp =
    Register signupInput
  | VerifyOtp string string
  | ResendOtp string
  | Login string string "string option" "string option"
  | VerifyLoginOtp string string bool
  | ResendLoginOtp string
  | MagicLogin string
  | RefreshToken "string option" "string option"
  | LogoutBeacon "string \<Rightarrow> instant \<Rightarrow> exn + accessPayload" "string \<Rightarrow> json option" beaconBody
  | ForgotPassword string
  | ResetPassword string string
  | GoogleStart "exn \<Rightarrow> string" "string \<Rightarrow> string"
  | GoogleCallback googleProfile
  | GoogleToken bool "googlePayload option"
  | Departments
  | Categories
  | Wards
  | Zones
  | ServiceTypes
  | Track "trackView \<Rightarrow> json" string
  | Nearby "(listItem \<times> int) list \<Rightarrow> json" nearbyQuery
  | PaymentSuccess "(string \<times> json) list" "(string \<times> json) list"
  | PaymentFail "(string \<times> json) list" "(string \<times> json) list"
  | PaymentCancel "(string \<times> json) list" "(string \<times> json) list"
  | PaymentIpn "(string \<times> json) list" "(string \<times> json) list"
  | Contact createContactInput

fun publicName :: "publicOp \<Rightarrow> string" where
  "publicName (Register _) = ''auth.register''"
| "publicName (VerifyOtp _ _) = ''auth.verifyOtp''"
| "publicName (ResendOtp _) = ''auth.resendOtp''"
| "publicName (Login _ _ _ _) = ''auth.login''"
| "publicName (VerifyLoginOtp _ _ _) = ''auth.verifyLoginOtp''"
| "publicName (ResendLoginOtp _) = ''auth.resendLoginOtp''"
| "publicName (MagicLogin _) = ''auth.magicLogin''"
| "publicName (RefreshToken _ _) = ''auth.refreshToken''"
| "publicName (LogoutBeacon _ _ _) = ''auth.logoutBeacon''"
| "publicName (ForgotPassword _) = ''auth.forgotPassword''"
| "publicName (ResetPassword _ _) = ''auth.resetPassword''"
| "publicName (GoogleStart _ _) = ''auth.google''"
| "publicName (GoogleCallback _) = ''auth.googleCallback''"
| "publicName (GoogleToken _ _) = ''auth.googleToken''"
| "publicName Departments = ''department.list''"
| "publicName Categories = ''category.list''"
| "publicName Wards = ''ward.list''"
| "publicName Zones = ''zone.list''"
| "publicName ServiceTypes = ''serviceType.list''"
| "publicName (Track _ _) = ''complaint.track''"
| "publicName (Nearby _ _) = ''complaint.nearby''"
| "publicName (PaymentSuccess _ _) = ''payment.success''"
| "publicName (PaymentFail _ _) = ''payment.fail''"
| "publicName (PaymentCancel _ _) = ''payment.cancel''"
| "publicName (PaymentIpn _ _) = ''payment.ipn''"
| "publicName (Contact _) = ''contact.create''"

text \<open>
  Starting at Google, passport stores a state and redirects to \<open>url state\<close>; the callback is the handler
  behind passport, which has looked the state up (\<open>verifyState\<close>).
\<close>

fun runPublic :: "lib \<Rightarrow> gateway \<Rightarrow> publicOp \<Rightarrow> call \<Rightarrow> httpReply act" where
  "runPublic L G (Register body) c = envelopeOf (registerHandler L body)"
| "runPublic L G (VerifyOtp email otp) c = envelopeOf (verifyOtpHandler L email otp c)"
| "runPublic L G (ResendOtp email) c = envelopeOf (resendOtpHandler L email)"
| "runPublic L G (Login email password b k) c = envelopeOf (loginHandler L email password b k c)"
| "runPublic L G (VerifyLoginOtp i otp trust) c = envelopeOf (verifyLoginOtpHandler L i otp trust c)"
| "runPublic L G (ResendLoginOtp i) c = envelopeOf (resendLoginOtpHandler L i c)"
| "runPublic L G (MagicLogin token) c = envelopeOf (magicLoginHandler L token c)"
| "runPublic L G (RefreshToken b k) c = envelopeOf (refreshTokenHandler L b k c)"
| "runPublic L G (LogoutBeacon verify parse body) c = logoutBeaconHandler L verify parse body"
| "runPublic L G (ForgotPassword email) c = envelopeOf (forgotPasswordHandler L email)"
| "runPublic L G (ResetPassword token password) c = envelopeOf (resetPasswordHandler L token password c)"
| "runPublic L G (GoogleStart errText url) c = bindM (storeState errText L) (\<lambda>s. returnM (RedirectTo (url s)))"
| "runPublic L G (GoogleCallback profile) c = googleCallbackHandler L profile c"
| "runPublic L G (GoogleToken configured ticket) c = envelopeOf (googleTokenHandler L configured ticket c)"
| "runPublic L G Departments c = envelopeOf departmentList"
| "runPublic L G Categories c = envelopeOf categoryList"
| "runPublic L G Wards c = envelopeOf wardList"
| "runPublic L G Zones c = envelopeOf zoneList"
| "runPublic L G ServiceTypes c = envelopeOf (serviceTypeList L)"
| "runPublic L G (Track enc trackingId) c = envelopeOf (complaintTrack enc trackingId)"
| "runPublic L G (Nearby enc query) c = envelopeOf (complaintNearby enc query)"
| "runPublic L G (PaymentSuccess body query) c = paymentSuccess L G body query c"
| "runPublic L G (PaymentFail body query) c = paymentFail L body query c"
| "runPublic L G (PaymentCancel body query) c = paymentCancel L body query c"
| "runPublic L G (PaymentIpn body query) c = envelopeOf (paymentIpn L G body query c)"
| "runPublic L G (Contact body) c = envelopeOf (contactCreate L body c)"

section \<open>What stays\<close>

text \<open>Who somebody is and may do.\<close>

definition standing :: "user \<Rightarrow> string \<times> string \<times> role \<times> user_status \<times> bool \<times> string option \<times> instant option" where
  "standing u = (u_id u, u_email u, u_role u, u_status u, u_isSuperAdmin u, u_departmentId u, u_deletedAt u)"

text \<open>No account changes its standing; new ones are citizens.\<close>

definition standingKept :: "world \<Rightarrow> world \<Rightarrow> bool" where
  "standingKept w w' \<longleftrightarrow> (\<exists>new. map standing (users w') = map standing (users w) @ map standing new \<and>
     (\<forall>u \<in> set new. u_role u = CITIZEN \<and> \<not> u_isSuperAdmin u))"

text \<open>A service request may turn out paid; nothing else about it changes.\<close>

definition paidOnly :: "serviceRequest \<Rightarrow> serviceRequest \<Rightarrow> bool" where
  "paidOnly r r' \<longleftrightarrow> r' = r \<or> (\<exists>t. r' = r\<lparr>sr_status := SR_PAID, sr_updatedAt := t\<rparr>)"

text \<open>The complaints with everything attached to them, the master data, the settings and the access tables.\<close>

definition cityData where
  "cityData w = ((complaints w, histories w, assignments w, escalations w, attachments w, comments w, upvotes w, feedbacks w),
     (zones w, wards w, departments w, categories w, serviceTypes w, counters w, documents w, refunds w),
     (settings w, permissions w, accessRoles w, accessRolePermissions w, userAccessRoles w, clock w))"

definition cityKept :: "world \<Rightarrow> world \<Rightarrow> bool" where
  "cityKept w w' \<longleftrightarrow> cityData w' = cityData w \<and> standingKept w w' \<and>
     list_all2 paidOnly (serviceRequests w) (serviceRequests w')"

lemma standingKept_refl: "standingKept w w"
  unfolding standingKept_def by (rule exI [of _ "[]"]) simp

lemma standingKept_trans: "standingKept u v \<Longrightarrow> standingKept v w \<Longrightarrow> standingKept u w"
  unfolding standingKept_def by (elim exE conjE) (rule_tac x = "new @ newa" in exI, auto)

lemma paidOnly_refl: "list_all2 paidOnly rs rs"
  by (simp add: list_all2_refl paidOnly_def)

lemma paidOnly_trans: "paidOnly a b \<Longrightarrow> paidOnly b c \<Longrightarrow> paidOnly a c"
  by (auto simp: paidOnly_def)

interpretation ck: step_preorder cityKept undoTx
proof
  show "cityKept s s" for s by (simp add: cityKept_def standingKept_refl paidOnly_refl)
  show "cityKept s t \<Longrightarrow> cityKept t u \<Longrightarrow> cityKept s u" for s t u
    unfolding cityKept_def using standingKept_trans list_all2_trans [of paidOnly paidOnly paidOnly] paidOnly_trans
    by metis
  show "cityKept s t \<Longrightarrow> cityKept s (undoTx s t)" for s t
    by (simp add: cityKept_def cityData_def standingKept_def paidOnly_refl)
qed

text \<open>Writes to the other tables and to what is not in the database.\<close>

lemma ck_other:
  "cityKept w (w\<lparr>uuidPos := n\<rparr>)" "cityKept w (w\<lparr>tokPos := n\<rparr>)" "cityKept w (w\<lparr>otpPos := n\<rparr>)"
  "cityKept w (w\<lparr>redis := r\<rparr>)" "cityKept w (w\<lparr>settingCache := sc\<rparr>)"
  "cityKept w (metrics_update f1 w)" "cityKept w (mailbox_update f2 w)" "cityKept w (sessions_update f3 w)"
  "cityKept w (refreshTokens_update f4 w)" "cityKept w (trustedDevices_update f5 w)"
  "cityKept w (securityEvents_update f6 w)" "cityKept w (payments_update f7 w)"
  "cityKept w (paymentEvents_update f8 w)" "cityKept w (notifications_update f9 w)"
  "cityKept w (emailLogs_update f10 w)" "cityKept w (auditLogs_update f11 w)"
  "cityKept w (contactMessages_update f12 w)" "cityKept w (idempotencyKeys_update f13 w)"
  by (simp_all add: cityKept_def cityData_def standingKept_def paidOnly_refl)

lemma ck_user_update:
  assumes "\<And>u. standing (f u) = standing u"
  shows "cityKept w (users_update (updateWhere P f) w)"
proof -
  have "map standing (updateWhere P f us) = map standing us" for us
    using assms by (induction us) (auto simp: updateWhere_def)
  then show ?thesis by (simp add: cityKept_def cityData_def standingKept_def paidOnly_refl)
qed

lemma ck_user_insert:
  assumes "u_role u = CITIZEN" and "\<not> u_isSuperAdmin u"
  shows "cityKept w (users_update (\<lambda>rows. rows @ [u]) w)"
  using assms unfolding cityKept_def cityData_def standingKept_def
  by (auto simp: paidOnly_refl intro!: exI [of _ "[u]"])

lemma ck_request_paid:
  "cityKept w (serviceRequests_update (updateWhere P (\<lambda>r. (r\<lparr>sr_status := SR_PAID\<rparr>)\<lparr>sr_updatedAt := t\<rparr>)) w)"
proof -
  have "list_all2 paidOnly rs (updateWhere P (\<lambda>r. (r\<lparr>sr_status := SR_PAID\<rparr>)\<lparr>sr_updatedAt := t\<rparr>) rs)" for rs
    by (induction rs) (auto simp: updateWhere_def paidOnly_def)
  then show ?thesis by (simp add: cityKept_def cityData_def standingKept_def)
qed

lemma ck_draws:
  "related cityKept (freshId L)" "related cityKept (randomToken L)" "related cityKept (randomOtp L)"
  "related cityKept (bcrypt_hash L pw)"
  by (simp_all add: related_def eval ck_other)

lemma ck_redisCmd:
  assumes "\<And>w. \<exists>r. snd (f w) = w\<lparr>redis := r\<rparr>"
  shows "related cityKept (redisCmd f)"
  unfolding related_def
proof
  fix w
  obtain r where "snd (f w) = w\<lparr>redis := r\<rparr>" using assms by blast
  then show "cityKept w (snd (redisCmd f w))"
    by (cases "f w") (simp add: eval ck_other ck.refl)
qed

lemma same_redis: "\<exists>r. w = w\<lparr>redis := r\<rparr>"
  by (rule exI [of _ "redis w"]) simp

lemma ck_redis:
  "related cityKept (redisGet k)" "related cityKept (redisExists k)" "related cityKept (redisSetEx k v ttl)"
  "related cityKept (redisSetKeepTtl k v)" "related cityKept (redisDel ks)" "related cityKept (redisIncr k)"
  "related cityKept (redisExpire k n)"
  unfolding redisGet_def redisExists_def redisSetEx_def redisSetKeepTtl_def redisDel_def redisIncr_def redisExpire_def
  by (intro ck.rel_intros ck_redisCmd; auto simp: redisPut_def same_redis split: option.split)+

end
