(* ===== verification/PublicFrame.thy ===== *)
theory PublicFrame
  imports PublicApi
begin

text \<open>
  The frame of the public handlers: none of them writes the complaints, the master data, the settings or
  the access tables, none changes who an existing account is, and the accounts they make are citizens.
\<close>

section \<open>No public handler touches the city's data\<close>

lemma ck_getSetting: "related cityKept (getSetting L k)"
proof -
  have "cityKept w (snd (getSetting L k w))" for w
    by (rule getSetting_cases [of L k w]) (simp add: ck_other)
  then show ?thesis by (simp add: related_def)
qed

lemma ck_liftE: "related cityKept (liftE x)"
  by (cases x) (simp_all add: liftE_def ck.return_rel ck.throw_rel)

lemma ck_orElse: "related cityKept m \<Longrightarrow> related cityKept (orElse m x)"
  unfolding orElse_def by (intro ck.rel_intros)

lemma ck_requireRedis: "related cityKept m \<Longrightarrow> related cityKept (requireRedis m)"
  unfolding requireRedis_def by (intro ck.rel_intros)

lemma ck_transaction: "related cityKept m \<Longrightarrow> related cityKept (transaction m)"
  unfolding transaction_def by (rule ck.rollback_rel)

lemma ck_as: "related cityKept (asPending v)" "related cityKept (asChallenge v)" "related cityKept (asText v)"
  by (cases v; simp add: asPending_def asChallenge_def asText_def ck.return_rel ck.throw_rel)+

lemma ck_invalidate: "related cityKept (invalidate ks)"
  unfolding invalidate_def by (intro ck.rel_intros ck_orElse ck_redis)

lemma ck_small:
  "related cityKept (audit L a b c d e f g)" "related cityKept (notify L u nt title body)"
  "related cityKept (incCounter cn)" "related cityKept (sendMail L to subject html)"
  unfolding audit_def notify_def incCounter_def sendMail_def
  by (intro ck.rel_intros ck_draws ck_other)+

lemma ck_cached: "related cityKept fn \<Longrightarrow> related cityKept (cachedVal enc dec k ttl fn)"
  unfolding cachedVal_def by (intro ck.rel_intros ck_orElse ck_redis; (auto split: rval.split intro!: ck.rel_intros ck_orElse ck_redis)?)

lemmas ck_base = ck.rel_intros ck_draws ck_redis ck_getSetting ck_liftE ck_orElse ck_requireRedis ck_transaction
  ck_as ck_invalidate ck_small ck_cached

lemma ck_log: "related cityKept (logSecurity L a b ty cx)"
  unfolding logSecurity_def by (intro ck_base ck_other)

lemma ck_updateUser: "(\<And>u. standing (f u) = standing u) \<Longrightarrow> related cityKept (updateUser i f)"
  unfolding updateUser_def by (intro ck_base ck_user_update) (simp add: standing_def)

lemma ck_session: "related cityKept (createSessionAndTokens L u cx)"
  unfolding createSessionAndTokens_def signAccessToken_def signRefreshToken_def insertRefreshToken_def
  by (intro ck_base ck_log ck_updateUser ck_other) (simp add: standing_def)

lemma ck_revoke: "related cityKept (revokeAllSessions i reason)"
  unfolding revokeAllSessions_def by (intro ck_base ck_other)

lemma ck_signup:
  "related cityKept (otpGate email)" "related cityKept (parkSignup L email p otp ttl)"
  "related cityKept (startSignup L input)" "related cityKept (resendOtp L email)"
proof -
  show gate: "related cityKept (otpGate email)" for email
    unfolding otpGate_def by (intro ck_base)
  show park: "related cityKept (parkSignup L email p otp ttl)" for email p otp ttl
    unfolding parkSignup_def sendOtpEmail_def by (intro ck_base)
  show "related cityKept (startSignup L input)"
    unfolding startSignup_def Let_def by (intro ck_base gate park)
  show "related cityKept (resendOtp L email)"
    unfolding resendOtp_def Let_def by (intro ck_base gate park)
qed

lemma ck_verifyOtp: "related cityKept (verifyOtp L email otp cx)"
proof -
  have "related cityKept (insertUser L e p)" for e p
    unfolding insertUser_def by (intro ck_base ck_user_insert) (simp_all add: newUser_def)
  then show ?thesis unfolding verifyOtp_def Let_def by (intro ck_base ck_session)
qed

lemma ck_magic: "related cityKept (dropMagic c)" "related cityKept (issueMagicLink L c i ttl)"
  "related cityKept (endChallenge i c)"
proof -
  show drop: "related cityKept (dropMagic c)" for c
    unfolding dropMagic_def by (intro ck_base)
  show "related cityKept (issueMagicLink L c i ttl)" "related cityKept (endChallenge i c)"
    unfolding issueMagicLink_def endChallenge_def by (intro ck_base drop)+
qed

lemma ck_login: "related cityKept (login L email password deviceToken cx)"
proof -
  have failed: "related cityKept (loginFailed L e u cx)" for e u
    unfolding loginFailed_def by (intro ck_base ck_log)
  have gate: "related cityKept (loginGate e cx)" for e
    unfolding loginGate_def redisNumber_def by (intro ck_base)
  have mail: "related cityKept (challengeMail L u cx)" for u
    unfolding challengeMail_def sendLoginOtpEmail_def by (intro ck_base ck_magic ck_log)
  have device: "related cityKept (isTrustedDevice L i d)" for i d
    unfolding isTrustedDevice_def by (intro ck_base)
  show ?thesis unfolding login_def Let_def by (intro ck_base gate failed mail device ck_session)
qed

lemma ck_challenge:
  "related cityKept (verifyLoginOtp L i otp trust cx)" "related cityKept (completeMagicLogin L token cx)"
  "related cityKept (resendLoginOtp L i cx)"
proof -
  have wrong: "related cityKept (wrongCode L i c cx)" for i c
    unfolding wrongCode_def Let_def by (intro ck_base ck_magic ck_log)
  have alert: "related cityKept (alertNewDevice L u cx b)" for u b
    unfolding alertNewDevice_def sendNewLoginAlert_def by (intro ck_base ck_log)
  have device: "related cityKept (createTrustedDevice L i ua)" for i ua
    unfolding createTrustedDevice_def by (intro ck_base ck_other)
  have live: "related cityKept (liveUser i)" "related cityKept (isNewDevice i cx)" for i
    unfolding liveUser_def isNewDevice_def by (intro ck_base)+
  have otps: "related cityKept (otpSession L i trust cx)" "related cityKept (magicSession L i cx)" for i
    unfolding otpSession_def magicSession_def by (intro ck_base live ck_session device alert)+
  show "related cityKept (verifyLoginOtp L i otp trust cx)" "related cityKept (completeMagicLogin L token cx)"
    unfolding verifyLoginOtp_def completeMagicLogin_def Let_def by (intro ck_base wrong ck_magic otps)+
  show "related cityKept (resendLoginOtp L i cx)"
    unfolding resendLoginOtp_def Let_def sendLoginOtpEmail_def by (intro ck_base live ck_magic ck_log)
qed

lemma ck_refresh: "related cityKept (refresh L token cx)"
  unfolding refresh_def rotate_def insertRefreshToken_def liveUser_def signAccessToken_def signRefreshToken_def
  by (intro ck_base ck_revoke ck_log ck_other)

lemma ck_logoutByToken: "related cityKept (logoutByToken L verify r a)"
proof -
  have "related cityKept (logout i sid t)" for i sid t
    unfolding logout_def by (intro ck_base ck_other)
  then show ?thesis unfolding logoutByToken_def Let_def by (intro ck_base)
qed

lemma ck_password: "related cityKept (forgotPassword L email)" "related cityKept (resetPassword L token password cx)"
proof -
  have set: "related cityKept (setPassword L i password cx)" for i
    unfolding setPassword_def by (intro ck_base ck_updateUser) (simp add: standing_def)
  show "related cityKept (forgotPassword L email)" "related cityKept (resetPassword L token password cx)"
    unfolding forgotPassword_def resetPassword_def Let_def sendPasswordResetEmail_def findUserOr404_def
    by (intro ck_base ck_revoke ck_log set)+
qed

lemma ck_google: "related cityKept (handleGoogleProfile L profile cx)" "related cityKept (googleToken L conf ticket cx)"
proof -
  have link: "related cityKept (linkGoogle u profile)" for u profile
    unfolding linkGoogle_def by (intro ck_base ck_updateUser) (simp add: standing_def)
  show handle: "related cityKept (handleGoogleProfile L profile cx)" for profile
    unfolding handleGoogleProfile_def sendLoginOtpEmail_def by (intro ck_base ck_signup link ck_session ck_log)
  show "related cityKept (googleToken L conf ticket cx)"
    unfolding googleToken_def by (intro ck_base handle)
qed

lemma ck_payment: "related cityKept (recordEvent L s p ip)" "related cityKept (confirm L G tranId valId)"
  "related cityKept (markTerminal tranId st)"
proof -
  show "related cityKept (recordEvent L s p ip)"
    unfolding recordEvent_def Let_def by (intro ck_base ck_other)
  have paid: "related cityKept (updateRequest i (\<lambda>r. r\<lparr>sr_status := SR_PAID\<rparr>))" for i
    unfolding updateRequest_def by (intro ck_base ck_request_paid)
  have commit: "related cityKept (confirmCommit L valId v payment)" for v payment
    unfolding confirmCommit_def by (intro ck_base ck_other paid)
  have mail: "related cityKept (mailReceipt L G p r t u)" for p r t u
    unfolding mailReceipt_def dispatchEmail_def sendReceiptEmail_def Let_def by (intro ck_base)
  have rel: "related cityKept (withRelations p)" for p
    unfolding withRelations_def by (intro ck_base)
  show "related cityKept (confirm L G tranId valId)"
    unfolding confirm_def assertGatewayConfigured_def Let_def by (intro ck_base rel commit mail)
  show "related cityKept (markTerminal tranId st)"
    unfolding markTerminal_def by (intro ck_base ck_other)
qed

lemma ck_lists:
  "related cityKept listDepartments" "related cityKept listCategories" "related cityKept listWards"
  "related cityKept listZones" "related cityKept (listServiceTypes L)"
  "related cityKept (track trackingId)" "related cityKept (nearby query)"
  unfolding listDepartments_def listCategories_def listWards_def listZones_def listServiceTypes_def cachedJson_def
    track_def nearby_def
  by (intro ck_base)+

lemma ck_contact: "related cityKept (createContact L body cx)"
  unfolding createContact_def by (intro ck_base ck_other)

lemma ck_state: "related cityKept (storeState errText L)" "related cityKept (verifyState errText s)"
  unfolding storeState_def verifyState_def by (intro ck_base)+

lemmas ck_services = ck_signup ck_verifyOtp ck_login ck_challenge ck_refresh ck_logoutByToken ck_password ck_google
  ck_payment ck_lists ck_contact ck_state

text \<open>The handlers add an answer to what the services do.\<close>

lemmas public_handlers = envelopeOf_def sendData_def sendMessage_def registerHandler_def verifyOtpHandler_def
  resendOtpHandler_def loginHandler_def verifyLoginOtpHandler_def resendLoginOtpHandler_def magicLoginHandler_def
  refreshTokenHandler_def logoutBeaconHandler_def forgotPasswordHandler_def resetPasswordHandler_def
  googleCallbackHandler_def googleTokenHandler_def departmentList_def categoryList_def wardList_def zoneList_def
  serviceTypeList_def complaintTrack_def complaintNearby_def paymentSuccess_def paymentFail_def paymentCancel_def
  paymentIpn_def successCallback_def failCallback_def cancelCallback_def ipn_def contactCreate_def Let_def

lemma ck_public: "related cityKept (runPublic L G op c)"
  by (cases op; simp only: runPublic.simps public_handlers; intro ck_base ck_services)

end
