(* ===== verification/AppProps.thy ===== *)
theory AppProps
  imports App RouteProps PublicFrame PaymentWorld
begin

text \<open>
  The property of the whole application: what a caller without credentials can get out of it.
\<close>

section \<open>The way a request takes\<close>

lemma walkModules_handler:
  "walkModules X v path ms = (gs, Some h) \<Longrightarrow>
     \<exists>m rest gs'. m \<in> set ms \<and> walk (ex_fits X) v rest (snd m) = (gs', Some h) \<and> set gs' \<subseteq> set gs"
proof (induction ms arbitrary: gs)
  case (Cons m ms)
  show ?case
  proof (cases "ex_under X (fst m) path")
    case None
    then show ?thesis using Cons by fastforce
  next
    case (Some rest)
    obtain us k where us: "walk (ex_fits X) v rest (snd m) = (us, k)" by fastforce
    show ?thesis
    proof (cases k)
      case None
      then obtain gs' where "walkModules X v path ms = (gs', Some h)" "gs = us @ gs'"
        using Cons.prems Some us by (auto split: prod.splits)
      then show ?thesis using Cons.IH [of gs'] by fastforce
    next
      case (Some j)
      then have "walk (ex_fits X) v rest (snd m) = (gs, Some h)"
        using Cons.prems \<open>ex_under X (fst m) path = Some rest\<close> us by simp
      then show ?thesis by (intro exI [of _ m] exI [of _ rest] exI [of _ gs]) simp
    qed
  qed
qed simp

definition openHandlers :: "string list" where
  "openHandlers = publicHandlers @ [''app.health'', ''app.ready'', ''app.root'']"

lemma appHead_walk: "walk fits v path appHead = (gs, Some h) \<Longrightarrow>
    h \<in> {''app.health'', ''app.ready''} \<or> h = ''app.metrics'' \<and> SignedIn \<in> set gs"
  by (auto simp: appHead_def split: if_splits)

lemma appTail_walk: "walk fits v path appTail = (gs, Some h) \<Longrightarrow> h \<in> {''app.root'', ''app.sla'', ''app.purge''}"
  by (auto simp: appTail_def split: if_splits)

lemma appWalk_handler:
  assumes "appWalk X v path = (gs, Some h)" and "SignedIn \<notin> set gs"
  shows "h \<in> set openHandlers \<or> h \<in> {''app.sla'', ''app.purge''}"
proof -
  obtain hs k where hd: "walk (ex_fits X) v path appHead = (hs, k)" by fastforce
  obtain as j where ap: "apiWalk X v path = (as, j)" by fastforce
  obtain ts l where tl: "walk (ex_fits X) v path appTail = (ts, l)" by fastforce
  consider (headed) "k = Some h" "gs = hs" | (api) "k = None" "j = Some h" "gs = as"
    | (tailed) "k = None" "j = None" "l = Some h"
    using assms(1) by (cases k; cases j) (auto simp: appWalk_def hd ap tl)
  then show ?thesis
  proof cases
    case headed
    then show ?thesis using appHead_walk [of "ex_fits X" v path gs h] hd assms(2) by (auto simp: openHandlers_def)
  next
    case api
    obtain rest gs1 where "walkModules X v rest modules = (gs1, Some h)" and gs: "gs = Limiter ''global'' # gs1"
      using api(2,3) ap by (auto simp: apiWalk_def split: option.splits prod.splits)
    then obtain m rest' gs' where "m \<in> set modules" "walk (ex_fits X) v rest' (snd m) = (gs', Some h)" "set gs' \<subseteq> set gs1"
      using walkModules_handler [of X v rest modules gs1 h] by blast
    then have "(gs', h) \<in> set reachable" "SignedIn \<notin> set gs'"
      using walk_reachable assms(2) gs by (blast, auto)
    then show ?thesis using reachable_public by (fastforce simp: list_all_iff openHandlers_def)
  next
    case tailed
    then show ?thesis using appTail_walk [of "ex_fits X" v path ts h] tl by (auto simp: openHandlers_def)
  qed
qed

section \<open>What runs before a sign-in\<close>

text \<open>
  The limiters, the schemas and the body parser of the beacon; and passport, on the way to the two handlers of
  the Google sign-in only.
\<close>

definition plain :: "guard \<Rightarrow> bool" where
  "plain g \<longleftrightarrow> (case g of Limiter n \<Rightarrow> True | Validate n \<Rightarrow> True | RequireGoogle \<Rightarrow> True
     | Other n \<Rightarrow> n = ''express.text'' | _ \<Rightarrow> False)"

definition passport :: guard where
  "passport = Other ''passport.authenticate''"

definition unsigned :: "guard list \<Rightarrow> guard list" where
  "unsigned gs = takeWhile (\<lambda>g. g \<noteq> SignedIn) gs"

definition openWay :: "guard list \<Rightarrow> string option \<Rightarrow> bool" where
  "openWay gs h \<longleftrightarrow> list_all (\<lambda>g. plain g \<or> g = passport) (unsigned gs) \<and>
     (case h of Some n \<Rightarrow> n \<in> set publicHandlers \<or> passport \<notin> set (unsigned gs)
      | None \<Rightarrow> passport \<notin> set (unsigned gs))"

lemma unsigned_append: "unsigned (as @ bs) = (if SignedIn \<in> set as then unsigned as else as @ unsigned bs)"
  by (auto simp: unsigned_def takeWhile_append)

lemma unsigned_all: "SignedIn \<notin> set gs \<Longrightarrow> unsigned gs = gs"
  by (auto simp: unsigned_def)

lemma openWay_append: "openWay as None \<Longrightarrow> openWay bs h \<Longrightarrow> openWay (as @ bs) h"
  by (auto simp: openWay_def unsigned_append unsigned_all split: option.splits)

lemma openWay_nil: "openWay [] h"
  by (simp add: openWay_def unsigned_def split: option.split)

lemma reachable_open: "list_all (\<lambda>c. openWay (fst c) (Some (snd c))) reachable"
  by code_simp

text \<open>A request that falls out of a router has met only what the router uses for all its routes.\<close>

fun usesOf :: "layer list \<Rightarrow> guard list list" where
  "usesOf [] = []"
| "usesOf (Use gs # ls) = gs # usesOf ls"
| "usesOf (Route u p gs h # ls) = usesOf ls"

lemma walk_None: "walk fits v path ls = (gs, None) \<Longrightarrow> list_all (\<lambda>us. openWay us None) (usesOf ls) \<Longrightarrow> openWay gs None"
proof (induction ls arbitrary: gs)
  case (Cons l ls)
  then show ?case by (cases l) (auto intro: openWay_append split: prod.splits if_splits)
qed (simp add: openWay_nil)

lemma modules_uses: "list_all (\<lambda>m. list_all (\<lambda>us. openWay us None) (usesOf (snd m))) modules"
  by code_simp

lemma walk_open:
  assumes "m \<in> set modules" and "walk fits v path (snd m) = (gs, h)"
  shows "openWay gs h"
proof (cases h)
  case None
  then show ?thesis using assms modules_uses walk_None by (auto simp: list_all_iff)
next
  case (Some n)
  then show ?thesis using assms reachable_open walk_reachable by (fastforce simp: list_all_iff)
qed

lemma walkModules_open: "walkModules X v path ms = (gs, h) \<Longrightarrow> set ms \<subseteq> set modules \<Longrightarrow> openWay gs h"
proof (induction ms arbitrary: gs)
  case (Cons m ms)
  then have m: "m \<in> set modules" by simp
  show ?case
  proof (cases "ex_under X (fst m) path")
    case None
    then show ?thesis using Cons by simp
  next
    case (Some rest)
    obtain us k where us: "walk (ex_fits X) v rest (snd m) = (us, k)" by fastforce
    then have "openWay us k" using walk_open [OF m] by blast
    then show ?thesis using Cons Some us
      by (cases k) (auto intro: openWay_append split: prod.splits)
  qed
qed (simp add: openWay_nil)

lemma appWalk_open:
  assumes "appWalk X v path = (gs, h)"
  shows "openWay gs h"
proof -
  have head: "openWay as k" if "walk (ex_fits X) v path appHead = (as, k)" for as k
    using that by (auto simp: appHead_def openWay_def unsigned_def split: if_splits)
  have tail: "openWay as k" if "walk (ex_fits X) v path appTail = (as, k)" for as k
    using that by (auto simp: appTail_def openWay_nil split: if_splits)
  have api: "openWay as k" if "apiWalk X v path = (as, k)" for as k
  proof -
    have "openWay [Limiter ''global''] None" by code_simp
    with that openWay_append [of "[Limiter ''global'']"] walkModules_open [of X v _ modules] show ?thesis
      by (fastforce simp: apiWalk_def openWay_nil split: option.splits prod.splits)
  qed
  show ?thesis using assms head tail api openWay_append by (auto simp: appWalk_def split: prod.splits option.splits)
qed

section \<open>Without credentials\<close>

text \<open>Up to the sign-in, and no further, when there is no token to read.\<close>

lemma no_token_effect:
  assumes "bearer (gt_header G) = None" and "\<forall>g. plain g \<longrightarrow> related (=) (gt_other G g)"
    and "related cityKept (gt_other G passport)" and "list_all (\<lambda>g. plain g \<or> g = passport) (unsigned gs)"
  shows "cityKept w (snd (passAll G gs None w)) \<and> (passport \<notin> set (unsigned gs) \<longrightarrow> snd (passAll G gs None w) = w) \<and>
    (\<forall>u w'. passAll G gs None w = (Inr u, w') \<longrightarrow> u = None)"
  using assms(4)
proof (induction gs arbitrary: w)
  case (Cons g gs)
  have still: "snd (gt_other G k w) = w" if "plain k" for k using assms(2) that by (simp add: related_def)
  consider (sign) "g = SignedIn" | (pass) "g = passport" | (other) "plain g"
    using Cons.prems by (cases "g = SignedIn") (auto simp: unsigned_def)
  then show ?case
  proof cases
    case sign
    then show ?thesis using assms(1) by (simp add: eval auth_def ck.refl)
  next
    case pass
    obtain a w1 where a: "gt_other G passport w = (a, w1)" by fastforce
    then have "cityKept w w1" using assms(3) by (metis relatedD)
    then show ?thesis using pass a Cons.IH [of w1] Cons.prems ck.trans
      by (cases a) (auto simp: eval unsigned_def passport_def)
  next
    case other
    then have "snd (passGuard G g None w) = w \<and> (\<forall>u w'. passGuard G g None w = (Inr u, w') \<longrightarrow> u = None)"
      using still [OF other] by (cases g) (auto simp: plain_def eval split: prod.splits sum.splits)
    moreover have "unsigned (g # gs) = g # unsigned gs"
      using other by (auto simp: plain_def unsigned_def)
    ultimately show ?thesis using Cons
      by (cases "passGuard G g None w"; cases "fst (passGuard G g None w)")
        (auto simp: bindM_def ck.refl simp del: passGuard.simps)
  qed
qed (simp add: eval ck.refl)

lemma job_refused:
  assumes "CRON_SECRET = [] \<or> provided header \<noteq> CRON_SECRET"
  shows "runJob L CRON_SECRET j header w =
    (Inl (apiError 401 ''Unauthorized'' [det ''UNAUTHORIZED'' ''Invalid cron secret'']), w)"
  using assms by (simp add: runJob_def eval safeEqual_def)

text \<open>A handler to which the way leads without a sign-in, at the state in which it starts.\<close>

lemma open_handler_frame:
  assumes "n \<in> set openHandlers"
    and "\<forall>n \<in> set publicHandlers. \<forall>u. \<exists>op c. publicName op = n \<and> sv_handlers V n rq u = runPublic L G op c"
  shows "cityKept w (snd (appHandler L V n rq u w))"
proof (cases "n \<in> set publicHandlers")
  case True
  then obtain op c where "sv_handlers V n rq u = runPublic L G op c" using assms(2) by blast
  moreover have "appHandler L V n rq u = sv_handlers V n rq u"
    using True by (auto simp: publicHandlers_def appHandler_def)
  ultimately show ?thesis using ck_public by (simp add: related_def)
next
  case False
  then show ?thesis using assms(1) by (auto simp: openHandlers_def appHandler_def eval ck.refl)
qed

lemma job_names: "n \<in> set publicHandlers \<Longrightarrow> n \<noteq> ''app.sla'' \<and> n \<noteq> ''app.purge''"
  by (auto simp: publicHandlers_def)


text \<open>The scheduler's endpoint on a server without a secret.\<close>

definition hexLib :: lib where
  "hexLib = authLib\<lparr>uuidTape := (\<lambda>_. ''0b2e'')\<rparr>"

definition somebody :: call where
  "somebody = \<lparr>cl_user = None, cl_sessionId = None, cl_token = None, cl_ctx = \<lparr>ctx_ip = ''::1'', ctx_ua = ''curl''\<rparr>\<rparr>"

definition anEmail :: string where
  "anEmail = ''a@b.c''"

definition googleSays :: googleProfile where
  "googleSays = \<lparr>gp_googleId = ''g'', gp_email = anEmail, gp_emailVerified = True, gp_name = ''A'', gp_avatarUrl = None\<rparr>"

text \<open>One request for each public endpoint.\<close>

definition oneOfEach :: "publicOp list" where
  "oneOfEach = [
     Register \<lparr>su_name = ''A'', su_email = anEmail, su_password = Some ''pw'', su_phone = None, su_provider = None,
       su_googleId = None, su_avatarUrl = None\<rparr>,
     VerifyOtp anEmail ''000000'', ResendOtp anEmail, Login anEmail ''pw'' None None, VerifyLoginOtp ''c'' ''000000'' False,
     ResendLoginOtp ''c'', MagicLogin ''m'', RefreshToken (Some ''r'') None,
     LogoutBeacon (\<lambda>_ _. Inl JwtInvalid) (\<lambda>_. None) (RawText ''x''), ForgotPassword anEmail, ResetPassword ''t'' ''pw'',
     GoogleStart (\<lambda>_. ''down'') (\<lambda>s. s), GoogleCallback googleSays, GoogleToken False None,
     Departments, Categories, Wards, Zones, ServiceTypes, Track (\<lambda>_. JNull) ''CC-1'',
     Nearby (\<lambda>_. JNull) \<lparr>nq_lat = 23, nq_lng = 90, nq_radiusKm = 1, nq_limit = None\<rparr>,
     PaymentSuccess [] [], PaymentFail [] [], PaymentCancel [] [], PaymentIpn [] [],
     Contact \<lparr>cm_new_name = ''A'', cm_new_email = anEmail, cm_new_phone = None, cm_new_subject = ''Hi'', cm_new_message = ''Hi''\<rparr>]"

definition requestFor :: "string \<Rightarrow> publicOp" where
  "requestFor n = the (find (\<lambda>op. publicName op = n) oneOfEach)"

lemma requestFor_name: "n \<in> set publicHandlers \<Longrightarrow> publicName (requestFor n) = n"
proof -
  have "map publicName oneOfEach = publicHandlers" by (simp add: oneOfEach_def publicHandlers_def)
  moreover assume "n \<in> set publicHandlers"
  ultimately have "n \<in> publicName ` set oneOfEach" by (metis set_map)
  then have "find (\<lambda>op. publicName op = n) oneOfEach \<noteq> None" by (auto simp: find_None_iff)
  then obtain op where op: "find (\<lambda>op. publicName op = n) oneOfEach = Some op" by blast
  then show ?thesis using find_Some_in [OF op] by (simp add: requestFor_def)
qed

definition plainServer :: server where
  "plainServer = \<lparr>sv_prod = True, sv_stack = (\<lambda>_. None), sv_cron = [], sv_uptime = JNull, sv_pingDb = True,
     sv_metrics = (\<lambda>_. JNull), sv_handlers = (\<lambda>n _ _. runPublic hexLib demoGateway (requestFor n) somebody)\<rparr>"

definition jobRequest :: request where
  "jobRequest = \<lparr>rq_verb = GET, rq_path = ''/internal/jobs/sla'', rq_url = ''/internal/jobs/sla'', rq_idHeader = [],
     rq_gate = karimasRequest\<lparr>gt_header := Some ''Basic x''\<rparr>\<rparr>"

definition plainExpress :: express where
  "plainExpress = \<lparr>ex_fits = (=), ex_under = (\<lambda>_ _. None)\<rparr>"


end
