(* ===== verification/AuthEdge.thy ===== *)
theory AuthEdge
  imports AuthController AuthWorld
begin

text \<open>
  Properties of the authentication endpoints as the client sees them: the redirect after a Google sign-in
  and the sign-out of a leaving page.
\<close>

section \<open>Reading a query string\<close>

text \<open>The parser of \<^verbatim>\<open>application/x-www-form-urlencoded\<close>, which the client applies to the redirect.\<close>

definition hexVal :: "char \<Rightarrow> nat" where
  "hexVal h = length (takeWhile (\<lambda>x. x \<noteq> h) ''0123456789ABCDEF'')"

fun formDecode :: "string \<Rightarrow> string" where
  "formDecode [] = []"
| "formDecode (c # s) =
     (if c = CHR ''+'' then CHR '' '' # formDecode s
      else if c = CHR ''%'' then
        (case s of a # b # t \<Rightarrow> char_of (16 * hexVal a + hexVal b) # formDecode t | _ \<Rightarrow> c # s)
      else c # formDecode s)"

definition readPair :: "string \<Rightarrow> string \<times> string" where
  "readPair s = (formDecode (takeWhile (\<lambda>c. c \<noteq> CHR ''='') s), formDecode (tl (dropWhile (\<lambda>c. c \<noteq> CHR ''='') s)))"

definition readParams :: "string \<Rightarrow> (string \<times> string) list" where
  "readParams s = map readPair (split_on (CHR ''&'') s)"

lemma hexVal_formHex: "hexVal (formHex n) = n mod 16"
proof -
  have "\<forall>k \<in> {..<16}. hexVal (''0123456789ABCDEF'' ! k) = k" by code_simp
  then show ?thesis by (simp add: formHex_def)
qed

lemma decode_byte: "formDecode (formByte c @ s) = c # formDecode s"
proof -
  let ?n = "of_char c :: nat"
  have "?n div 16 < 16" using nat_of_char_less_256 [of c] by (simp add: less_mult_imp_div_less)
  then have "16 * (?n div 16 mod 16) + ?n mod 16 mod 16 = ?n" by simp
  then have code: "char_of (16 * hexVal (formHex (?n div 16)) + hexVal (formHex (?n mod 16))) = c"
    unfolding hexVal_formHex by (metis char_of_char)
  have plain: "c \<noteq> CHR ''+''" "c \<noteq> CHR ''%''" if "formPlain c" using that by (auto simp: formPlain_def)
  show ?thesis using code plain by (auto simp: formByte_def)
qed

lemma decode_encode: "formDecode (formEncode s) = s"
  by (induction s) (simp_all add: formEncode_def decode_byte)

definition paramChar :: "char \<Rightarrow> bool" where
  "paramChar c \<longleftrightarrow> formPlain c \<or> c = CHR ''+'' \<or> c = CHR ''%''"

lemma formHex_plain: "formPlain (formHex n)"
proof -
  have "\<forall>k \<in> {..<16}. formPlain (''0123456789ABCDEF'' ! k)" by code_simp
  then show ?thesis by (simp add: formHex_def)
qed

lemma encode_chars: "c \<in> set (formEncode s) \<Longrightarrow> paramChar c"
  by (auto simp: formEncode_def formByte_def paramChar_def formHex_plain split: if_splits)

lemma paramChar_apart: "\<not> paramChar (CHR ''&'')" "\<not> paramChar (CHR ''='')" "\<not> paramChar (CHR ''#'')"
  by (simp_all add: paramChar_def formPlain_def)

lemma split_part: "c \<notin> set p \<Longrightarrow> split_on c (p @ c # s) = p # split_on c s"
  by (induction p) auto

lemma split_one: "c \<notin> set p \<Longrightarrow> split_on c p = [p]"
  by (induction p) auto

lemma split_join: "ps \<noteq> [] \<Longrightarrow> \<forall>p \<in> set ps. c \<notin> set p \<Longrightarrow> split_on c (join_with [c] ps) = ps"
proof (induction "[c]" ps rule: join_with.induct)
  case (3 s t ts)
  then show ?case by (simp add: split_part)
qed (simp_all add: split_one)

lemma readPair_written: "readPair (formEncode k @ ''='' @ formEncode v) = (k, v)"
proof -
  have "CHR ''='' \<notin> set (formEncode k)" using encode_chars paramChar_apart(2) by blast
  then have "takeWhile (\<lambda>c. c \<noteq> CHR ''='') (formEncode k @ ''='' @ formEncode v) = formEncode k"
    "dropWhile (\<lambda>c. c \<noteq> CHR ''='') (formEncode k @ ''='' @ formEncode v) = ''='' @ formEncode v"
    by (auto simp: takeWhile_append dropWhile_append)
  then show ?thesis by (simp add: readPair_def decode_encode)
qed

lemma readParams_written: "ps \<noteq> [] \<Longrightarrow> readParams (searchParams ps) = ps"
proof -
  assume "ps \<noteq> []"
  have "CHR ''&'' \<notin> set (formEncode k @ ''='' @ formEncode v)" for k v
    using encode_chars paramChar_apart(1) by auto
  then have "split_on (CHR ''&'') (searchParams ps) = map (\<lambda>(k, v). formEncode k @ ''='' @ formEncode v) ps"
    unfolding searchParams_def using \<open>ps \<noteq> []\<close> by (intro split_join) auto
  moreover have "map (readPair \<circ> (\<lambda>(k, v). formEncode k @ ''='' @ formEncode v)) ps = ps"
    using readPair_written by (intro map_idI) (auto simp del: append.simps)
  ultimately show ?thesis by (simp add: readParams_def del: append.simps)
qed

lemma join_chars: "c \<in> set (join_with [d] ps) \<Longrightarrow> c = d \<or> (\<exists>p \<in> set ps. c \<in> set p)"
  by (induction "[d]" ps rule: join_with.induct) auto

lemma searchParams_chars: "c \<in> set (searchParams ps) \<Longrightarrow> paramChar c \<or> c = CHR ''&'' \<or> c = CHR ''=''"
  unfolding searchParams_def by (drule join_chars) (auto dest: encode_chars)

text \<open>The client reads from the redirect after a Google sign-in exactly what the server meant to say: one
  status, and with it the email, the challenge or the two tokens, whatever characters are in them. An
  email address with an ampersand or an equals sign adds no parameter, nothing but the query of the one
  page is written, and the fragment stays empty.\<close>

theorem google_redirect_reads_back:
  assumes "handleGoogleProfile L profile (cl_ctx c) w = (Inr r, w')"
  shows "\<exists>q. googleCallbackHandler L profile c w =
      (Inr (RedirectTo (hd (split_on (CHR '','') (CLIENT_URL L)) @ ''/auth/callback?'' @ q)), w') \<and>
    readParams q = googleParams r \<and> CHR ''#'' \<notin> set q"
proof (intro exI conjI)
  show "googleCallbackHandler L profile c w = (Inr (RedirectTo (hd (split_on (CHR '','') (CLIENT_URL L)) @
      ''/auth/callback?'' @ searchParams (googleParams r))), w')"
    using assms by (simp add: googleCallbackHandler_def eval)
  show "readParams (searchParams (googleParams r)) = googleParams r"
    by (rule readParams_written) (cases r; simp)
  show "CHR ''#'' \<notin> set (searchParams (googleParams r))"
    using searchParams_chars paramChar_apart(3) by fastforce
qed

text \<open>A stranger whose address has separators in it.\<close>

definition oddProfile :: googleProfile where
  "oddProfile = \<lparr>gp_googleId = ''g1'', gp_email = ''a&b=c@x.bd'', gp_emailVerified = True, gp_name = ''A'',
     gp_avatarUrl = None\<rparr>"

definition atBrowser :: call where
  "atBrowser = \<lparr>cl_user = None, cl_sessionId = None, cl_token = None, cl_ctx = browser\<rparr>"

lemma odd_signup: "fst (handleGoogleProfile authLib oddProfile browser (empty_world\<lparr>redisUp := True\<rparr>)) =
    Inr (VerifyEmail ''a&b=c@x.bd'' 600)"
  by code_simp

lemma google_redirect_reads_back_witness:
  "\<exists>q r w'. googleCallbackHandler authLib oddProfile atBrowser (empty_world\<lparr>redisUp := True\<rparr>) =
      (Inr (RedirectTo (hd (split_on (CHR '','') (CLIENT_URL authLib)) @ ''/auth/callback?'' @ q)), w') \<and>
    readParams q = [(''status'', ''verify-email''), (''email'', ''a&b=c@x.bd'')] \<and> CHR ''#'' \<notin> set q"
proof -
  obtain w' where "handleGoogleProfile authLib oddProfile (cl_ctx atBrowser) (empty_world\<lparr>redisUp := True\<rparr>) =
      (Inr (VerifyEmail ''a&b=c@x.bd'' 600), w')"
    using odd_signup by (cases "handleGoogleProfile authLib oddProfile browser (empty_world\<lparr>redisUp := True\<rparr>)")
      (simp add: atBrowser_def)
  from google_redirect_reads_back [OF this] show ?thesis by auto
qed

section \<open>The beacon of a leaving page\<close>

text \<open>The row of the refresh token in a beacon, if the server knows it.\<close>

definition beaconRow :: "lib \<Rightarrow> json \<Rightarrow> world \<Rightarrow> refreshToken option" where
  "beaconRow L b w =
     (case stringField ''refreshToken'' b of None \<Rightarrow> None
      | Some t \<Rightarrow> if t = [] then None else find (\<lambda>r. rt_tokenHash r = sha256 L t) (refreshTokens w))"

text \<open>What a sign-out leaves: one session ended, with its refresh tokens, and nothing else but Redis.\<close>

definition sessionEnded :: "string \<Rightarrow> string \<Rightarrow> world \<Rightarrow> world \<Rightarrow> bool" where
  "sessionEnded userId sid w w' \<longleftrightarrow> w'\<lparr>redis := redis w\<rparr> = w\<lparr>
     sessions := updateWhere (\<lambda>s. se_id s = sid \<and> se_userId s = userId \<and> se_revokedAt s = None)
       (\<lambda>s. s\<lparr>se_revokedAt := Some (clock w), se_revokedReason := Some (show_reason LOGOUT)\<rparr>) (sessions w),
     refreshTokens := updateWhere (\<lambda>t. rt_sessionId t = sid \<and> rt_revokedAt t = None)
       (\<lambda>t. t\<lparr>rt_revokedAt := Some (clock w)\<rparr>) (refreshTokens w)\<rparr>"

definition onlyRedis :: "world \<Rightarrow> world \<Rightarrow> bool" where
  "onlyRedis w w' \<longleftrightarrow> w'\<lparr>redis := redis w\<rparr> = w"

interpretation orr: step_preorder onlyRedis undoTx
proof
  show "onlyRedis s s" for s by (simp add: onlyRedis_def)
  show "onlyRedis s t \<Longrightarrow> onlyRedis t u \<Longrightarrow> onlyRedis s u" for s t u
    unfolding onlyRedis_def by (cases s; cases t; cases u) auto
  show "onlyRedis s t \<Longrightarrow> onlyRedis s (undoTx s t)" for s t
    unfolding onlyRedis_def undoTx_def by (cases s; cases t) auto
qed

lemma orr_redis: "related onlyRedis (redisSetEx k v ttl)" "related onlyRedis (redisDel ks)"
  by (auto simp: related_def onlyRedis_def redisSetEx_def redisDel_def eval redisPut_def)

lemma logout_ends: "\<exists>w'. logout userId sid token w = (Inr (), w') \<and> sessionEnded userId sid w w'"
proof -
  let ?m = "thenM (case token of None \<Rightarrow> returnM () | Some (jti, expAt) \<Rightarrow>
      redisSetEx (KEYS_jwtDeny jti) (RText ''1'') (of_int (remainingTtl expAt (clock w))))
    (thenM (redisDel [KEYS_session sid]) (returnM ()))"
  have only: "related onlyRedis (orElse ?m ())"
    unfolding orElse_def by (cases token) (auto intro!: orr.rel_intros orr_redis split: prod.split)
  have ok: "fst (orElse ?m () v) = Inr ()" for v
    by (simp add: eval split: prod.split sum.split)
  let ?v = "refreshTokens_update (updateWhere (\<lambda>t. rt_sessionId t = sid \<and> rt_revokedAt t = None)
       (\<lambda>t. t\<lparr>rt_revokedAt := Some (clock w)\<rparr>))
     (sessions_update (updateWhere (\<lambda>s. se_id s = sid \<and> se_userId s = userId \<and> se_revokedAt s = None)
       (\<lambda>s. s\<lparr>se_revokedAt := Some (clock w), se_revokedReason := Some (show_reason LOGOUT)\<rparr>)) w)"
  obtain w' where w': "orElse ?m () ?v = (Inr (), w')" using ok [of ?v] by (cases "orElse ?m () ?v") simp
  have "logout userId sid token w = orElse ?m () ?v"
    by (simp add: logout_def run_bind run_gets run_then run_updateMany)
  moreover have "sessionEnded userId sid w w'"
    using relatedD [OF only w'] unfolding sessionEnded_def onlyRedis_def by (cases w) simp
  ultimately show ?thesis using w' by simp
qed

text \<open>The sign-out of a leaving page answers an empty 204 to every body, known token or not, text that is no
  JSON included, so it tells nobody which tokens exist. A token the server does not know changes
  nothing; one it knows ends its own session with all the refresh tokens of it, and no other session
  and no other token.\<close>

theorem beacon_tells_nothing:
  "\<exists>w'. logoutBeaconHandler L verify parse body w = (Inr (EmptyStatus 204), w') \<and>
    (case beaconRow L (beaconJson parse body) w of
       None \<Rightarrow> w' = w
     | Some row \<Rightarrow> sessionEnded (rt_userId row) (rt_sessionId row) w w')"
proof -
  let ?b = "beaconJson parse body"
  show ?thesis
  proof (cases "beaconRow L ?b w")
    case None
    then show ?thesis
      by (auto simp: logoutBeaconHandler_def logoutByToken_def beaconRow_def eval Let_def split: option.splits if_splits)
  next
    case (Some row)
    then obtain t where t: "stringField ''refreshToken'' ?b = Some t" "t \<noteq> []"
        "find (\<lambda>r. rt_tokenHash r = sha256 L t) (refreshTokens w) = Some row"
      by (auto simp: beaconRow_def split: option.splits if_splits)
    obtain w' where "logoutByToken L verify (Some t) (stringField ''accessToken'' ?b) w = (Inr (), w')"
        "sessionEnded (rt_userId row) (rt_sessionId row) w w'"
      using t logout_ends by (fastforce simp: logoutByToken_def eval Let_def)
    then show ?thesis using Some t by (simp add: logoutBeaconHandler_def eval)
  qed
qed

end
