(* ===== verification/Zod.thy ===== *)
theory Zod
  imports Http
begin

text \<open>
  Schemas as data. The validators of the repository are written with zod, a library: what a schema does
  with a value is a parameter \<open>parse\<close> of the theorems, and \<^verbatim>\<open>zodLaws\<close> is what the documentation of zod says of a value
  that passes. The formats \<^verbatim>\<open>email\<close> and \<^verbatim>\<open>uuid\<close> are the library's regular expressions, a parameter too.
\<close>

section \<open>The schemas zod can build\<close>

datatype strStep =
    StrTrim
  | StrLower
  | StrMin nat
  | StrMax nat
  | StrLength nat
  | StrRegex "string \<Rightarrow> bool"
  | StrFormat string

datatype numCheck = NumInt | NumMin real | NumMax real

text \<open>A missing key is \<open>None\<close>. \<open>ZObject True\<close> is \<open>z.object(...).strict()\<close>, \<open>ZNumber True\<close> is \<open>z.coerce.number()\<close>.\<close>

datatype schema =
    ZString "strStep list"
  | ZNumber bool "numCheck list"
  | ZBoolean
  | ZEnum "string list"
  | ZLiteral string
  | ZArray schema nat
  | ZRecord
  | ZOptional schema
  | ZDefault schema json
  | ZOr schema schema
  | ZTransform schema "json option \<Rightarrow> json option"
  | ZRefine schema "json \<Rightarrow> bool"
  | ZObject bool "(string \<times> schema) list"

section \<open>What passing means\<close>

text \<open>The steps of a string, in order; a check that fails anywhere fails the string.\<close>

fun strRun :: "(string \<Rightarrow> string \<Rightarrow> bool) \<Rightarrow> strStep list \<Rightarrow> string \<Rightarrow> string option" where
  "strRun fmt [] s = Some s"
| "strRun fmt (StrTrim # cs) s = strRun fmt cs (js_trim s)"
| "strRun fmt (StrLower # cs) s = strRun fmt cs (js_lower s)"
| "strRun fmt (StrMin n # cs) s = (if n \<le> length s then strRun fmt cs s else None)"
| "strRun fmt (StrMax n # cs) s = (if length s \<le> n then strRun fmt cs s else None)"
| "strRun fmt (StrLength n # cs) s = (if length s = n then strRun fmt cs s else None)"
| "strRun fmt (StrRegex p # cs) s = (if p s then strRun fmt cs s else None)"
| "strRun fmt (StrFormat f # cs) s = (if fmt f s then strRun fmt cs s else None)"

fun numOk :: "numCheck \<Rightarrow> real \<Rightarrow> bool" where
  "numOk NumInt x \<longleftrightarrow> x = of_int \<lfloor>x\<rfloor>"
| "numOk (NumMin a) x \<longleftrightarrow> a \<le> x"
| "numOk (NumMax a) x \<longleftrightarrow> x \<le> a"

text \<open>
  The value and what comes out of it. Coercion is \<open>Number(v)\<close>, of which only the result is used here.
\<close>

fun accepts :: "(string \<Rightarrow> string \<Rightarrow> bool) \<Rightarrow> schema \<Rightarrow> json option \<Rightarrow> json option \<Rightarrow> bool"
  and acceptsFields :: "(string \<Rightarrow> string \<Rightarrow> bool) \<Rightarrow> (string \<times> schema) list \<Rightarrow>
     (string \<times> json) list \<Rightarrow> (string \<times> json) list \<Rightarrow> bool" where
  "accepts fmt (ZString cs) v r \<longleftrightarrow>
     (\<exists>s t. v = Some (JStr s) \<and> strRun fmt cs s = Some t \<and> r = Some (JStr t))"
| "accepts fmt (ZNumber coerced cs) v r \<longleftrightarrow>
     (\<exists>x. r = Some (JNum x) \<and> (\<not> coerced \<longrightarrow> v = r) \<and> (\<forall>c \<in> set cs. numOk c x))"
| "accepts fmt ZBoolean v r \<longleftrightarrow> (\<exists>b. v = Some (JBool b)) \<and> r = v"
| "accepts fmt (ZEnum xs) v r \<longleftrightarrow> (\<exists>x \<in> set xs. v = Some (JStr x)) \<and> r = v"
| "accepts fmt (ZLiteral x) v r \<longleftrightarrow> v = Some (JStr x) \<and> r = v"
| "accepts fmt (ZArray s n) v r \<longleftrightarrow>
     (\<exists>xs ys. v = Some (JArr xs) \<and> r = Some (JArr ys) \<and> length xs \<le> n \<and> length ys = length xs \<and>
        (\<forall>i < length xs. accepts fmt s (Some (xs ! i)) (Some (ys ! i))))"
| "accepts fmt ZRecord v r \<longleftrightarrow> (\<exists>fs. v = Some (JObj fs)) \<and> r = v"
| "accepts fmt (ZOptional s) v r \<longleftrightarrow> v = None \<and> r = None \<or> accepts fmt s v r"
| "accepts fmt (ZDefault s d) v r \<longleftrightarrow> v = None \<and> r = Some d \<or> accepts fmt s v r"
| "accepts fmt (ZOr s t) v r \<longleftrightarrow> accepts fmt s v r \<or> accepts fmt t v r"
| "accepts fmt (ZTransform s f) v r \<longleftrightarrow> (\<exists>r0. accepts fmt s v r0 \<and> r = f r0)"
| "accepts fmt (ZRefine s p) v r \<longleftrightarrow> accepts fmt s v r \<and> (\<forall>j. r = Some j \<longrightarrow> p j)"
| "accepts fmt (ZObject strict fs) v r \<longleftrightarrow>
     (\<exists>ins outs. v = Some (JObj ins) \<and> r = Some (JObj outs) \<and>
        (strict \<longrightarrow> fst ` set ins \<subseteq> fst ` set fs) \<and> fst ` set outs \<subseteq> fst ` set fs \<and>
        acceptsFields fmt fs ins outs)"
| "acceptsFields fmt [] ins outs \<longleftrightarrow> True"
| "acceptsFields fmt ((k, s) # fs) ins outs \<longleftrightarrow>
     accepts fmt s (map_of ins k) (map_of outs k) \<and> acceptsFields fmt fs ins outs"

text \<open>The parameter: a schema applied to a value, with the issues it finds or what it passes on.\<close>

type_synonym zod = "schema \<Rightarrow> json option \<Rightarrow> (string \<times> string) list + json option"

definition zodLaws :: "(string \<Rightarrow> string \<Rightarrow> bool) \<Rightarrow> zod \<Rightarrow> bool" where
  "zodLaws fmt parse \<longleftrightarrow> (\<forall>s v r. parse s v = Inr r \<longrightarrow> accepts fmt s v r)"

lemma acceptsFields_get:
  "acceptsFields fmt fs ins outs \<Longrightarrow> (k, s) \<in> set fs \<Longrightarrow> accepts fmt s (map_of ins k) (map_of outs k)"
  by (induction fs) auto

text \<open>What a schema lets through of a string is bounded, for each kind of step.\<close>

lemma strRun_append: "strRun fmt (as @ bs) s = Option.bind (strRun fmt as s) (strRun fmt bs)"
  by (induction fmt as s rule: strRun.induct) simp_all

section \<open>The request\<close>

text \<open>
  \<^verbatim>\<open>middlewares/validateRequest.ts\<close>: body, query and parameters are parsed in one pass. A parsed body replaces the
  body; a schema without a body leaves it as it came.
\<close>

record rawRequest =
  vr_body :: "json option"
  vr_query :: json
  vr_params :: json

definition requestJson :: "rawRequest \<Rightarrow> json" where
  "requestJson rq = JObj
     ((case vr_body rq of None \<Rightarrow> [] | Some b \<Rightarrow> [(''body'', b)]) @ [(''query'', vr_query rq), (''params'', vr_params rq)])"

definition partOf :: "string \<Rightarrow> json option \<Rightarrow> json option" where
  "partOf k j = (case j of Some (JObj fs) \<Rightarrow> map_of fs k | _ \<Rightarrow> None)"

text \<open>\<open>validatedQuery\<close> and \<open>validatedParams\<close> answer \<open>{}\<close> for a part the schema does not mention.\<close>

definition validatedRequest :: "rawRequest \<Rightarrow> json option \<Rightarrow> rawRequest" where
  "validatedRequest rq parsed =
     \<lparr>vr_body = (case partOf ''body'' parsed of None \<Rightarrow> vr_body rq | Some b \<Rightarrow> Some b),
      vr_query = (case partOf ''query'' parsed of None \<Rightarrow> JObj [] | Some q \<Rightarrow> q),
      vr_params = (case partOf ''params'' parsed of None \<Rightarrow> JObj [] | Some p \<Rightarrow> p)\<rparr>"

definition checkWith :: "zod \<Rightarrow> schema \<Rightarrow> rawRequest \<Rightarrow> rawRequest act" where
  "checkWith parse s rq =
     validateRequest (\<lambda>rq. case parse s (Some (requestJson rq)) of
        Inl issues \<Rightarrow> Inl issues | Inr parsed \<Rightarrow> Inr (validatedRequest rq parsed)) rq"

section \<open>A zod to evaluate with\<close>

text \<open>An instance of the laws; its coercion takes numbers and decimal numerals.\<close>

definition coerceNum :: "bool \<Rightarrow> json option \<Rightarrow> real option" where
  "coerceNum coerced v =
     (case v of Some (JNum x) \<Rightarrow> Some x
      | Some (JStr s) \<Rightarrow> if coerced \<and> s \<noteq> [] \<and> list_all (\<lambda>c. c \<in> set digits) s then Some (of_nat (read_nat s)) else None
      | _ \<Rightarrow> None)"

fun zrun :: "(string \<Rightarrow> string \<Rightarrow> bool) \<Rightarrow> schema \<Rightarrow> json option \<Rightarrow> json option option"
  and zfields :: "(string \<Rightarrow> string \<Rightarrow> bool) \<Rightarrow> (string \<times> schema) list \<Rightarrow>
     (string \<times> json) list \<Rightarrow> (string \<times> json) list option" where
  "zrun fmt (ZString cs) v =
     (case v of Some (JStr s) \<Rightarrow> (case strRun fmt cs s of None \<Rightarrow> None | Some t \<Rightarrow> Some (Some (JStr t))) | _ \<Rightarrow> None)"
| "zrun fmt (ZNumber coerced cs) v =
     (case coerceNum coerced v of None \<Rightarrow> None
      | Some x \<Rightarrow> if list_all (\<lambda>c. numOk c x) cs then Some (Some (JNum x)) else None)"
| "zrun fmt ZBoolean v = (case v of Some (JBool b) \<Rightarrow> Some v | _ \<Rightarrow> None)"
| "zrun fmt (ZEnum xs) v = (case v of Some (JStr x) \<Rightarrow> if x \<in> set xs then Some v else None | _ \<Rightarrow> None)"
| "zrun fmt (ZLiteral y) v = (if v = Some (JStr y) then Some v else None)"
| "zrun fmt (ZArray s n) v =
     (case v of Some (JArr xs) \<Rightarrow>
        (let ys = map (\<lambda>x. Option.bind (zrun fmt s (Some x)) (\<lambda>r. r)) xs in
         if length xs \<le> n \<and> list_all (\<lambda>y. y \<noteq> None) ys then Some (Some (JArr (map the ys))) else None)
      | _ \<Rightarrow> None)"
| "zrun fmt ZRecord v = (case v of Some (JObj fs) \<Rightarrow> Some v | _ \<Rightarrow> None)"
| "zrun fmt (ZOptional s) v = (if v = None then Some None else zrun fmt s v)"
| "zrun fmt (ZDefault s d) v = (if v = None then Some (Some d) else zrun fmt s v)"
| "zrun fmt (ZOr s t) v = (case zrun fmt s v of None \<Rightarrow> zrun fmt t v | Some r \<Rightarrow> Some r)"
| "zrun fmt (ZTransform s f) v = map_option f (zrun fmt s v)"
| "zrun fmt (ZRefine s p) v =
     (case zrun fmt s v of None \<Rightarrow> None
      | Some r \<Rightarrow> if (case r of None \<Rightarrow> True | Some j \<Rightarrow> p j) then Some r else None)"
| "zrun fmt (ZObject strict fs) v =
     (case v of Some (JObj ins) \<Rightarrow>
        if (strict \<longrightarrow> list_all (\<lambda>(k, j). k \<in> set (map fst fs)) ins) \<and> distinct (map fst fs)
        then map_option (\<lambda>outs. Some (JObj outs)) (zfields fmt fs ins) else None
      | _ \<Rightarrow> None)"
| "zfields fmt [] ins = Some []"
| "zfields fmt ((k, s) # fs) ins =
     (case zrun fmt s (map_of ins k) of None \<Rightarrow> None
      | Some r \<Rightarrow> map_option (\<lambda>outs. (case r of None \<Rightarrow> outs | Some j \<Rightarrow> (k, j) # outs)) (zfields fmt fs ins))"

definition plainZod :: "(string \<Rightarrow> string \<Rightarrow> bool) \<Rightarrow> zod" where
  "plainZod fmt s v = (case zrun fmt s v of None \<Rightarrow> Inl [(''request'', ''Invalid input'')] | Some r \<Rightarrow> Inr r)"

lemma zfields_ConsE:
  assumes "zfields fmt ((k, s) # fs) ins = Some outs"
  obtains r outs' where "zrun fmt s (map_of ins k) = Some r" and "zfields fmt fs ins = Some outs'"
    and "outs = (case r of None \<Rightarrow> outs' | Some j \<Rightarrow> (k, j) # outs')"
  using assms by (auto split: option.splits)

lemma zfields_keys: "zfields fmt fs ins = Some outs \<Longrightarrow> fst ` set outs \<subseteq> fst ` set fs"
proof (induction fs arbitrary: outs)
  case (Cons f fs)
  obtain k s where f: "f = (k, s)" by fastforce
  obtain r outs' where "zfields fmt fs ins = Some outs'" "outs = (case r of None \<Rightarrow> outs' | Some j \<Rightarrow> (k, j) # outs')"
    using Cons.prems unfolding f by (rule zfields_ConsE)
  with Cons.IH [of outs'] f show ?case by (cases r) auto
qed simp

lemma acceptsFields_cong:
  "(\<And>k. k \<in> fst ` set fs \<Longrightarrow> map_of outs k = map_of outs' k) \<Longrightarrow>
     acceptsFields fmt fs ins outs = acceptsFields fmt fs ins outs'"
  by (induction fs) auto

lemma zrun_string: "zrun fmt (ZString cs) v = Some r \<Longrightarrow> accepts fmt (ZString cs) v r"
  by (auto split: option.splits json.splits)

lemma zrun_number: "zrun fmt (ZNumber coerced cs) v = Some r \<Longrightarrow> accepts fmt (ZNumber coerced cs) v r"
  by (auto simp: coerceNum_def list_all_iff split: option.splits json.splits if_splits)

lemma zrun_array:
  assumes "\<And>x r. zrun fmt s (Some x) = Some r \<Longrightarrow> accepts fmt s (Some x) r" and "zrun fmt (ZArray s n) v = Some r"
  shows "accepts fmt (ZArray s n) v r"
proof -
  obtain xs where v: "v = Some (JArr xs)"
    using assms(2) by (auto split: option.splits json.splits)
  define ys where "ys = map (\<lambda>x. Option.bind (zrun fmt s (Some x)) (\<lambda>r. r)) xs"
  have r: "r = Some (JArr (map the ys))" "length xs \<le> n" "\<forall>y \<in> set ys. y \<noteq> None"
    using assms(2) by (auto simp: v ys_def list_all_iff Let_def split: if_splits)
  have "accepts fmt s (Some (xs ! i)) (Some (the (ys ! i)))" if i: "i < length xs" for i
  proof -
    have "ys ! i \<noteq> None" using r(3) i by (simp add: ys_def)
    then obtain y where y: "ys ! i = Some y" by blast
    then have "zrun fmt s (Some (xs ! i)) = Some (Some y)" using i by (auto simp: ys_def Option.bind_eq_Some_conv)
    with assms(1) y show ?thesis by auto
  qed
  then show ?thesis using r v by (simp add: ys_def)
qed

lemma zrun_object:
  assumes "\<And>ins outs. zfields fmt fs ins = Some outs \<Longrightarrow> distinct (map fst fs) \<Longrightarrow> acceptsFields fmt fs ins outs"
    and "zrun fmt (ZObject strict fs) v = Some r"
  shows "accepts fmt (ZObject strict fs) v r"
proof -
  obtain ins where v: "v = Some (JObj ins)"
    using assms(2) by (auto split: option.splits json.splits)
  then obtain outs where o: "zfields fmt fs ins = Some outs" "r = Some (JObj outs)" "distinct (map fst fs)"
      "strict \<longrightarrow> list_all (\<lambda>(k, j). k \<in> set (map fst fs)) ins"
    using assms(2) by (auto split: if_splits)
  moreover have "strict \<longrightarrow> fst ` set ins \<subseteq> fst ` set fs" using o(4) by (fastforce simp: list_all_iff)
  ultimately show ?thesis using assms(1) [OF o(1,3)] zfields_keys [OF o(1)] v by simp
qed

lemma zfields_Cons:
  assumes "\<And>r. zrun fmt s (map_of ins k) = Some r \<Longrightarrow> accepts fmt s (map_of ins k) r"
    and "\<And>outs. zfields fmt fs ins = Some outs \<Longrightarrow> distinct (map fst fs) \<Longrightarrow> acceptsFields fmt fs ins outs"
    and "zfields fmt ((k, s) # fs) ins = Some outs" and "distinct (map fst ((k, s) # fs))"
  shows "acceptsFields fmt ((k, s) # fs) ins outs"
proof -
  obtain r outs' where r: "zrun fmt s (map_of ins k) = Some r" and o: "zfields fmt fs ins = Some outs'"
    and outs: "outs = (case r of None \<Rightarrow> outs' | Some j \<Rightarrow> (k, j) # outs')"
    using assms(3) by (rule zfields_ConsE)
  have k: "k \<notin> fst ` set outs'" using zfields_keys [OF o] assms(4) by auto
  have "map_of outs k = r" using outs k by (cases r) (auto simp: map_of_eq_None_iff)
  moreover have "acceptsFields fmt fs ins outs = acceptsFields fmt fs ins outs'"
    by (rule acceptsFields_cong) (use outs assms(4) in \<open>auto split: option.splits\<close>)
  ultimately show ?thesis using assms(1) [OF r] assms(2) [OF o] assms(4) by simp
qed

lemma zfields_accepts:
  assumes "\<forall>(k, s) \<in> set fs. \<forall>v r. zrun fmt s v = Some r \<longrightarrow> accepts fmt s v r"
  shows "zfields fmt fs ins = Some outs \<Longrightarrow> distinct (map fst fs) \<Longrightarrow> acceptsFields fmt fs ins outs"
  using assms
proof (induction fs arbitrary: outs)
  case (Cons f fs)
  obtain k s where f: "f = (k, s)" by fastforce
  show ?case unfolding f
    by (rule zfields_Cons) (use Cons f in auto)
qed simp

lemma zrun_accepts: "zrun fmt s v = Some r \<Longrightarrow> accepts fmt s v r"
proof (induction s arbitrary: v r)
  case (ZString cs)
  then show ?case by (rule zrun_string)
next
  case (ZNumber coerced cs)
  then show ?case by (rule zrun_number)
next
  case (ZArray s n)
  then show ?case by (rule zrun_array)
next
  case (ZObject strict fs)
  have "\<forall>(k, s) \<in> set fs. \<forall>v r. zrun fmt s v = Some r \<longrightarrow> accepts fmt s v r"
    using ZObject.IH by fastforce
  then show ?case using ZObject.prems by (intro zrun_object zfields_accepts)
next
  case (ZDefault s d)
  then show ?case by (cases "v = None") auto
next
  case (ZOptional s)
  then show ?case by (cases "v = None") auto
qed (auto split: option.splits json.splits if_splits)

lemma plainZod_laws: "zodLaws fmt (plainZod fmt)"
  by (auto simp: zodLaws_def plainZod_def intro: zrun_accepts split: option.splits)

end
