(* ===== verification/Schemas.thy ===== *)
theory Schemas
  imports Zod
begin

text \<open>
  The schemas of \<^verbatim>\<open>modules/*/*.validation.ts\<close>, one definition each, and the regular expressions in them as
  predicates on strings. \<open>san\<close> is \<^verbatim>\<open>sanitize-html\<close> with nothing allowed, a library.
\<close>

section \<open>Pieces\<close>

definition isDigit :: "char \<Rightarrow> bool" where
  "isDigit c \<longleftrightarrow> c \<in> set ''0123456789''"

definition isLower :: "char \<Rightarrow> bool" where
  "isLower c \<longleftrightarrow> c \<in> set ''abcdefghijklmnopqrstuvwxyz''"

definition isUpper :: "char \<Rightarrow> bool" where
  "isUpper c \<longleftrightarrow> c \<in> set ''ABCDEFGHIJKLMNOPQRSTUVWXYZ''"

text \<open>The constructors of the files: a parsed part of the request, an optional and a required text, an id.\<close>

definition bodyOnly :: "schema \<Rightarrow> schema" where
  "bodyOnly b = ZObject False [(''body'', b)]"

definition queryOnly :: "schema \<Rightarrow> schema" where
  "queryOnly q = ZObject False [(''query'', q)]"

definition paramsOnly :: "(string \<times> schema) list \<Rightarrow> schema" where
  "paramsOnly ps = ZObject False [(''params'', ZObject False ps)]"

definition uuid :: schema where
  "uuid = ZString [StrFormat ''uuid'']"

definition withId :: "schema \<Rightarrow> schema" where
  "withId b = ZObject False [(''params'', ZObject False [(''id'', uuid)]), (''body'', b)]"

definition trimmed :: "nat \<Rightarrow> nat \<Rightarrow> schema" where
  "trimmed least most = ZString [StrTrim, StrMin least, StrMax most]"

definition upTo :: "nat \<Rightarrow> schema" where
  "upTo most = ZString [StrTrim, StrMax most]"

definition pageField :: schema where
  "pageField = ZOptional (ZNumber True [NumInt, NumMin 1])"

definition strict :: "(string \<times> schema) list \<Rightarrow> schema" where
  "strict fs = ZObject True fs"

definition anyText :: schema where
  "anyText = ZOptional (ZString [])"

definition sortOrderField :: schema where
  "sortOrderField = ZOptional (ZEnum [''asc'', ''desc''])"

text \<open>The refinement of the update schemas: at least one key.\<close>

definition someKey :: "json \<Rightarrow> bool" where
  "someKey j = (case j of JObj fs \<Rightarrow> fs \<noteq> [] | _ \<Rightarrow> False)"

definition patchOf :: "(string \<times> schema) list \<Rightarrow> schema" where
  "patchOf fs = ZRefine (strict fs) someKey"

text \<open>\<open>clean\<close>: no tags, then no space at the ends.\<close>

definition clean :: "(string \<Rightarrow> string) \<Rightarrow> string \<Rightarrow> string" where
  "clean san s = js_trim (san s)"

definition cleanString :: "(string \<Rightarrow> string) \<Rightarrow> json option \<Rightarrow> json option" where
  "cleanString san r = (case r of Some (JStr s) \<Rightarrow> Some (JStr (clean san s)) | _ \<Rightarrow> r)"

definition safeText :: "(string \<Rightarrow> string) \<Rightarrow> nat \<Rightarrow> nat \<Rightarrow> schema" where
  "safeText san least most = ZTransform (trimmed least most) (cleanString san)"

text \<open>What a refinement reads of the parsed object.\<close>

definition textAt :: "string \<Rightarrow> json \<Rightarrow> string option" where
  "textAt k j = (case j of JObj fs \<Rightarrow> (case map_of fs k of Some (JStr s) \<Rightarrow> Some s | _ \<Rightarrow> None) | _ \<Rightarrow> None)"

definition truthyAt :: "string \<Rightarrow> json \<Rightarrow> bool" where
  "truthyAt k j = (case j of JObj fs \<Rightarrow>
     (case map_of fs k of Some (JStr s) \<Rightarrow> s \<noteq> [] | Some (JBool b) \<Rightarrow> b | _ \<Rightarrow> False) | _ \<Rightarrow> False)"

section \<open>Authentication\<close>

text \<open>\<^verbatim>\<open>^[^@\\s]+@[^@\\s]+\\.[^@\\s]+$\<close>.\<close>

definition emailShape :: "string \<Rightarrow> bool" where
  "emailShape s \<longleftrightarrow>
     (case split_on (CHR ''@'') s of
        [a, d] \<Rightarrow> a \<noteq> [] \<and> \<not> list_ex is_space a \<and> \<not> list_ex is_space d \<and> CHR ''.'' \<in> set (butlast (tl d))
      | _ \<Rightarrow> False)"

definition authEmail :: schema where
  "authEmail = ZString [StrTrim, StrLower, StrMin 5, StrMax 254, StrRegex emailShape]"

definition notAlnum :: "char \<Rightarrow> bool" where
  "notAlnum c \<longleftrightarrow> \<not> isLower c \<and> \<not> isUpper c \<and> \<not> isDigit c"

definition password :: schema where
  "password = ZString [StrMin 10, StrMax 128, StrRegex (list_ex isLower), StrRegex (list_ex isUpper),
     StrRegex (list_ex isDigit), StrRegex (list_ex notAlnum)]"

text \<open>\<^verbatim>\<open>^\\d{n}$\<close> and \<^verbatim>\<open>^[a-f0-9]{64}$\<close>.\<close>

definition nDigits :: "nat \<Rightarrow> string \<Rightarrow> bool" where
  "nDigits n s \<longleftrightarrow> length s = n \<and> list_all isDigit s"

definition hex64 :: "string \<Rightarrow> bool" where
  "hex64 s \<longleftrightarrow> length s = 64 \<and> list_all (\<lambda>c. isDigit c \<or> c \<in> set ''abcdef'') s"

definition otpCode :: schema where
  "otpCode = ZString [StrTrim, StrRegex (nDigits 6)]"

text \<open>\<open>a.includes(b)\<close> and \<open>s.split(/\s+/)\<close>.\<close>

fun js_includes :: "string \<Rightarrow> string \<Rightarrow> bool" where
  "js_includes [] p \<longleftrightarrow> p = []"
| "js_includes (c # s) p \<longleftrightarrow> starts_with p (c # s) \<or> js_includes s p"

fun split_spaces :: "string \<Rightarrow> string list" where
  "split_spaces [] = [[]]"
| "split_spaces (c # s) =
     (if is_space c then [] # (if s \<noteq> [] \<and> is_space (hd s) then tl (split_spaces s) else split_spaces s)
      else (case split_spaces s of [] \<Rightarrow> [[c]] | p # ps \<Rightarrow> (c # p) # ps))"

definition containsIdentity :: "string \<Rightarrow> string option \<Rightarrow> string \<Rightarrow> bool" where
  "containsIdentity pwd name mail \<longleftrightarrow>
     (let lower = js_lower pwd; local = js_lower (hd (split_on (CHR ''@'') mail)) in
      3 \<le> length local \<and> js_includes lower local \<or>
      (case name of None \<Rightarrow> False
       | Some n \<Rightarrow> n \<noteq> [] \<and> list_ex (\<lambda>part. 3 \<le> length part \<and> js_includes lower part) (split_spaces (js_lower n))))"

definition registerSchema :: schema where
  "registerSchema = bodyOnly (ZRefine
     (strict [(''name'', trimmed 2 80), (''email'', authEmail), (''password'', password), (''phone'', ZOptional (upTo 20))])
     (\<lambda>v. \<not> containsIdentity (the (textAt ''password'' v)) (textAt ''name'' v) (the (textAt ''email'' v))))"

definition verifyOtpSchema :: schema where
  "verifyOtpSchema = bodyOnly (strict [(''email'', authEmail), (''otp'', otpCode)])"

definition resendOtpSchema :: schema where
  "resendOtpSchema = bodyOnly (strict [(''email'', authEmail)])"

definition loginSchema :: schema where
  "loginSchema = bodyOnly (strict [(''email'', authEmail), (''password'', ZString [StrMin 1, StrMax 128]),
     (''deviceToken'', ZOptional (ZString [StrMax 256]))])"

definition challengeField :: schema where
  "challengeField = ZString [StrTrim, StrLength 64]"

definition verifyLoginOtpSchema :: schema where
  "verifyLoginOtpSchema = bodyOnly (strict [(''challengeId'', challengeField), (''otp'', otpCode),
     (''trustDevice'', ZDefault (ZOptional ZBoolean) (JBool False))])"

definition resendLoginOtpSchema :: schema where
  "resendLoginOtpSchema = bodyOnly (strict [(''challengeId'', challengeField)])"

definition magicLoginSchema :: schema where
  "magicLoginSchema = queryOnly (strict [(''token'', ZString [StrTrim, StrRegex hex64])])"

definition refreshSchema :: schema where
  "refreshSchema = bodyOnly (strict [(''refreshToken'', ZOptional (ZString [StrMin 20]))])"

definition sessionIdSchema :: schema where
  "sessionIdSchema = paramsOnly [(''id'', uuid)]"

definition toggle2faSchema :: schema where
  "toggle2faSchema = bodyOnly (strict [(''enabled'', ZBoolean), (''password'', ZString [StrMin 1, StrMax 128]),
     (''challengeId'', ZOptional challengeField), (''otp'', ZOptional otpCode)])"

definition forgotPasswordSchema :: schema where
  "forgotPasswordSchema = bodyOnly (strict [(''email'', authEmail)])"

definition resetPasswordSchema :: schema where
  "resetPasswordSchema = bodyOnly (strict [(''token'', ZString [StrTrim, StrMin 20, StrMax 256]), (''password'', password)])"

definition changePasswordSchema :: schema where
  "changePasswordSchema = bodyOnly (ZRefine
     (strict [(''currentPassword'', ZString [StrMin 1, StrMax 128]), (''newPassword'', password)])
     (\<lambda>v. textAt ''currentPassword'' v \<noteq> textAt ''newPassword'' v))"

definition googleTokenSchema :: schema where
  "googleTokenSchema = bodyOnly (strict [(''idToken'', ZString [StrMin 20])])"

section \<open>Complaints\<close>

definition statusSchema :: schema where
  "statusSchema = ZEnum [''SUBMITTED'', ''UNDER_REVIEW'', ''ASSIGNED'', ''IN_PROGRESS'', ''RESOLVED'', ''CLOSED'',
     ''REOPENED'', ''REJECTED'', ''CANCELLED'']"

definition prioritySchema :: schema where
  "prioritySchema = ZEnum [''LOW'', ''MEDIUM'', ''HIGH'', ''URGENT'']"

definition coordinate :: "real \<Rightarrow> schema" where
  "coordinate most = ZOptional (ZNumber False [NumMin (- most), NumMax most])"

definition createComplaintSchema :: "(string \<Rightarrow> string) \<Rightarrow> schema" where
  "createComplaintSchema san = bodyOnly (strict [
     (''title'', safeText san 5 150),
     (''description'', safeText san 10 5000),
     (''categoryId'', uuid),
     (''wardId'', uuid),
     (''address'', safeText san 3 300),
     (''latitude'', coordinate 90),
     (''longitude'', coordinate 180)])"

definition updateComplaintSchema :: "(string \<Rightarrow> string) \<Rightarrow> schema" where
  "updateComplaintSchema san = withId (patchOf [
     (''title'', ZOptional (safeText san 5 150)),
     (''description'', ZOptional (safeText san 10 5000)),
     (''address'', ZOptional (safeText san 3 300)),
     (''latitude'', coordinate 90),
     (''longitude'', coordinate 180)])"

definition listComplaintsSchema :: schema where
  "listComplaintsSchema = queryOnly (strict [
     (''page'', pageField), (''limit'', pageField), (''status'', anyText), (''priority'', ZOptional prioritySchema),
     (''wardId'', ZOptional uuid), (''categoryId'', ZOptional uuid), (''officerId'', ZOptional uuid),
     (''isEscalated'', ZOptional (ZEnum [''true'', ''false''])), (''from'', anyText), (''to'', anyText),
     (''sortBy'', anyText), (''sortOrder'', sortOrderField), (''q'', ZOptional (upTo 120))])"

definition searchSchema :: schema where
  "searchSchema = queryOnly (strict [(''q'', trimmed 1 120), (''page'', pageField), (''limit'', pageField)])"

definition nearbySchema :: schema where
  "nearbySchema = queryOnly (strict [
     (''lat'', ZNumber True [NumMin (- 90), NumMax 90]),
     (''lng'', ZNumber True [NumMin (- 180), NumMax 180]),
     (''radiusKm'', ZDefault (ZNumber True [NumMin (1/10), NumMax 50]) (JNum 2)),
     (''limit'', pageField)])"

definition complaintIdSchema :: schema where
  "complaintIdSchema = paramsOnly [(''id'', uuid)]"

text \<open>\<^verbatim>\<open>^CC-\\d{4}-\\d{6}$\<close>.\<close>

definition trackingShape :: "string \<Rightarrow> bool" where
  "trackingShape s \<longleftrightarrow>
     (case split_on (CHR ''-'') s of [p, y, n] \<Rightarrow> p = ''CC'' \<and> nDigits 4 y \<and> nDigits 6 n | _ \<Rightarrow> False)"

definition trackingIdSchema :: schema where
  "trackingIdSchema = paramsOnly [(''trackingId'', ZString [StrTrim, StrRegex trackingShape])]"

definition changeStatusSchema :: "(string \<Rightarrow> string) \<Rightarrow> schema" where
  "changeStatusSchema san = withId (strict [(''status'', statusSchema), (''note'', ZOptional (safeText san 2 500))])"

definition assignSchema :: "(string \<Rightarrow> string) \<Rightarrow> schema" where
  "assignSchema san = withId (ZRefine
     (strict [(''officerId'', ZOptional uuid), (''auto'', ZOptional ZBoolean), (''reason'', ZOptional (safeText san 2 300))])
     (\<lambda>v. truthyAt ''officerId'' v \<noteq> truthyAt ''auto'' v))"

definition noteSchema :: "(string \<Rightarrow> string) \<Rightarrow> schema" where
  "noteSchema san = withId (strict [(''note'', ZOptional (safeText san 2 500))])"

definition commentSchema :: "(string \<Rightarrow> string) \<Rightarrow> schema" where
  "commentSchema san = withId (strict [(''body'', safeText san 1 2000),
     (''isInternal'', ZDefault (ZOptional ZBoolean) (JBool False))])"

definition feedbackSchema :: "(string \<Rightarrow> string) \<Rightarrow> schema" where
  "feedbackSchema san = withId (strict [(''rating'', ZNumber False [NumInt, NumMin 1, NumMax 5]),
     (''comment'', ZOptional (safeText san 1 1000))])"

definition attachmentSchema :: schema where
  "attachmentSchema = withId (strict [(''kind'', ZOptional (ZEnum [''EVIDENCE'', ''RESOLUTION_PROOF'']))])"

section \<open>Administration\<close>

text \<open>\<open>z.string().email()\<close> here is the format of the library.\<close>

definition adminEmail :: schema where
  "adminEmail = ZString [StrTrim, StrLower, StrFormat ''email'', StrMax 254]"

definition roleEnum :: schema where
  "roleEnum = ZEnum [''CITIZEN'', ''OFFICER'', ''ADMIN'']"

definition userStatusEnum :: schema where
  "userStatusEnum = ZEnum [''ACTIVE'', ''BLOCKED'']"

definition listUsersSchema :: schema where
  "listUsersSchema = queryOnly (strict [(''page'', pageField), (''limit'', pageField), (''role'', ZOptional roleEnum),
     (''status'', ZOptional userStatusEnum), (''q'', ZOptional (upTo 120)), (''sortBy'', anyText),
     (''sortOrder'', sortOrderField)])"

definition createOfficerSchema :: schema where
  "createOfficerSchema = bodyOnly (strict [(''name'', trimmed 2 80), (''email'', adminEmail),
     (''phone'', ZOptional (upTo 20)), (''departmentId'', uuid), (''wardId'', ZOptional uuid)])"

text \<open>The password of an admin has the same checks as \<open>password\<close>, written out again.\<close>

definition adminPassword :: schema where
  "adminPassword = ZString [StrMin 10, StrMax 128, StrRegex (list_ex isLower), StrRegex (list_ex isUpper),
     StrRegex (list_ex isDigit), StrRegex (list_ex notAlnum)]"

definition createAdminSchema :: schema where
  "createAdminSchema = bodyOnly (strict [(''name'', trimmed 2 80), (''email'', adminEmail), (''password'', adminPassword)])"

definition userIdSchema :: schema where
  "userIdSchema = paramsOnly [(''id'', uuid)]"

definition updateRoleSchema :: schema where
  "updateRoleSchema = withId (strict [(''role'', roleEnum)])"

definition updateStatusSchema :: schema where
  "updateStatusSchema = withId (strict [(''status'', userStatusEnum), (''reason'', ZOptional (upTo 300))])"

definition restoreSchema :: schema where
  "restoreSchema = paramsOnly [(''entity'', ZEnum [''complaint'', ''user'', ''category'', ''department'']), (''id'', uuid)]"

definition auditLogsSchema :: schema where
  "auditLogsSchema = queryOnly (strict [(''page'', pageField), (''limit'', pageField), (''actorId'', ZOptional uuid),
     (''action'', ZOptional (upTo 60)), (''entityType'', ZOptional (upTo 60)), (''from'', anyText), (''to'', anyText),
     (''sortBy'', anyText), (''sortOrder'', sortOrderField)])"

definition securityEventsSchema :: schema where
  "securityEventsSchema = queryOnly (strict [(''page'', pageField), (''limit'', pageField),
     (''type'', ZOptional (ZEnum [''LOGIN_SUCCESS'', ''LOGIN_FAILED'', ''OTP_SENT'', ''OTP_FAILED'', ''ACCOUNT_LOCKED'',
        ''NEW_DEVICE'', ''TOKEN_REUSE'', ''PASSWORD_CHANGED'', ''TWO_FA_TOGGLED'', ''ROLE_CHANGED'', ''SESSION_REVOKED''])),
     (''ip'', ZOptional (upTo 64)), (''from'', anyText), (''to'', anyText)])"

definition csvReportSchema :: schema where
  "csvReportSchema = queryOnly (strict [(''status'', anyText), (''wardId'', ZOptional uuid), (''categoryId'', ZOptional uuid),
     (''from'', anyText), (''to'', anyText)])"

definition settingKeySchema :: schema where
  "settingKeySchema = ZObject False [
     (''params'', ZObject False [(''key'', ZEnum [''REOPEN_LIMIT'', ''REOPEN_WINDOW_DAYS'', ''URGENT_SLA_FACTOR'',
        ''LOGIN_OTP_TTL_SEC'', ''SIGNUP_OTP_TTL_SEC''])]),
     (''body'', strict [(''value'', ZNumber False [])])]"

section \<open>Payments and service requests\<close>

definition initiatePaymentSchema :: schema where
  "initiatePaymentSchema = bodyOnly (strict [(''serviceRequestId'', uuid)])"

definition listPaymentsSchema :: schema where
  "listPaymentsSchema = queryOnly (strict [(''page'', pageField), (''limit'', pageField)])"

definition paymentIdSchema :: schema where
  "paymentIdSchema = paramsOnly [(''id'', uuid)]"

definition refundRequestSchema :: "(string \<Rightarrow> string) \<Rightarrow> schema" where
  "refundRequestSchema san = withId (strict [(''reason'', safeText san 5 500)])"

definition searchField :: "(string \<Rightarrow> string) \<Rightarrow> schema" where
  "searchField san = ZOptional (safeText san 2 100)"

definition ledgerFilters :: "(string \<Rightarrow> string) \<Rightarrow> (string \<times> schema) list" where
  "ledgerFilters san = [
     (''status'', ZOptional (ZEnum [''PENDING'', ''SUCCESS'', ''FAILED'', ''CANCELLED'', ''REFUNDED''])),
     (''serviceTypeId'', ZOptional uuid), (''from'', anyText), (''to'', anyText), (''q'', searchField san)]"

definition ledgerSchema :: "(string \<Rightarrow> string) \<Rightarrow> schema" where
  "ledgerSchema san = queryOnly (strict ([(''page'', pageField), (''limit'', pageField)] @ ledgerFilters san))"

definition ledgerSummarySchema :: "(string \<Rightarrow> string) \<Rightarrow> schema" where
  "ledgerSummarySchema san = queryOnly (strict [(''serviceTypeId'', ZOptional uuid), (''from'', anyText), (''to'', anyText),
     (''q'', searchField san)])"

definition ledgerCsvSchema :: "(string \<Rightarrow> string) \<Rightarrow> schema" where
  "ledgerCsvSchema san = queryOnly (strict (ledgerFilters san))"

definition createServiceRequestSchema :: schema where
  "createServiceRequestSchema = bodyOnly (strict [(''serviceTypeId'', uuid), (''details'', ZOptional ZRecord)])"

definition listServiceRequestsSchema :: schema where
  "listServiceRequestsSchema = queryOnly (strict [(''page'', pageField), (''limit'', pageField),
     (''status'', ZOptional (ZEnum [''PENDING_PAYMENT'', ''PAID'', ''PROCESSING'', ''COMPLETED'', ''REJECTED'', ''CANCELLED''])),
     (''sortBy'', anyText), (''sortOrder'', sortOrderField)])"

definition serviceRequestIdSchema :: schema where
  "serviceRequestIdSchema = paramsOnly [(''id'', uuid)]"

definition updateServiceRequestStatusSchema :: "(string \<Rightarrow> string) \<Rightarrow> schema" where
  "updateServiceRequestStatusSchema san = withId (strict [(''status'', ZEnum [''PROCESSING'', ''COMPLETED'', ''REJECTED'']),
     (''note'', ZOptional (ZTransform (upTo 500) (cleanString san)))])"

definition uploadDocumentSchema :: "(string \<Rightarrow> string) \<Rightarrow> schema" where
  "uploadDocumentSchema san = withId (strict [(''label'', safeText san 2 80)])"

definition documentIdSchema :: schema where
  "documentIdSchema = paramsOnly [(''id'', uuid), (''docId'', uuid)]"

section \<open>Roles and permissions\<close>

text \<open>
  \<^verbatim>\<open>^[a-z][a-z0-9]*(?:_{1,2}[a-z0-9]+)*$\<close>: a lower case letter first, then letters, digits and runs of one or two
  underscores, the last character not an underscore.
\<close>

fun threeUnderscores :: "string \<Rightarrow> bool" where
  "threeUnderscores (a # b # c # s) \<longleftrightarrow>
     a = CHR ''_'' \<and> b = CHR ''_'' \<and> c = CHR ''_'' \<or> threeUnderscores (b # c # s)"
| "threeUnderscores s \<longleftrightarrow> False"

definition codeShape :: "string \<Rightarrow> bool" where
  "codeShape s \<longleftrightarrow> s \<noteq> [] \<and> isLower (hd s) \<and> list_all (\<lambda>c. isLower c \<or> isDigit c \<or> c = CHR ''_'') s \<and>
     last s \<noteq> CHR ''_'' \<and> \<not> threeUnderscores s"

definition permissionCode :: schema where
  "permissionCode = ZString [StrTrim, StrMin 3, StrMax 80, StrRegex codeShape]"

definition listPermissionsSchema :: schema where
  "listPermissionsSchema = queryOnly (ZOptional (strict [(''category'', ZOptional (upTo 60)), (''search'', ZOptional (upTo 80))]))"

definition createPermissionSchema :: schema where
  "createPermissionSchema = bodyOnly (strict [(''code'', permissionCode), (''name'', trimmed 2 120),
     (''description'', ZOptional (upTo 400)), (''category'', trimmed 2 60)])"

definition updatePermissionSchema :: schema where
  "updatePermissionSchema = withId (patchOf [(''name'', ZOptional (trimmed 2 120)),
     (''description'', ZOptional (upTo 400)), (''category'', ZOptional (trimmed 2 60))])"

definition createRoleSchema :: schema where
  "createRoleSchema = bodyOnly (strict [(''name'', trimmed 2 60), (''description'', ZOptional (upTo 400)),
     (''permissionIds'', ZDefault (ZArray uuid 200) (JArr []))])"

definition updateAccessRoleSchema :: schema where
  "updateAccessRoleSchema = withId (patchOf [(''name'', ZOptional (trimmed 2 60)), (''description'', ZOptional (upTo 400)),
     (''permissionIds'', ZOptional (ZArray uuid 200))])"

definition assignUserRolesSchema :: schema where
  "assignUserRolesSchema = withId (strict [(''roleIds'', ZArray uuid 20)])"

definition idSchema :: schema where
  "idSchema = paramsOnly [(''id'', uuid)]"

section \<open>Master data, profile, contact desk, inbox\<close>

definition createContactMessageSchema :: schema where
  "createContactMessageSchema = bodyOnly (strict [(''name'', trimmed 2 80),
     (''email'', ZString [StrTrim, StrFormat ''email'', StrMax 254]),
     (''phone'', ZOr (ZOptional (upTo 30)) (ZLiteral [])),
     (''subject'', trimmed 3 120), (''message'', trimmed 10 2000)])"

definition contactStatusEnum :: schema where
  "contactStatusEnum = ZEnum [''NEW'', ''IN_PROGRESS'', ''RESOLVED'', ''SPAM'']"

definition listContactMessagesSchema :: schema where
  "listContactMessagesSchema = queryOnly (strict [(''page'', pageField),
     (''limit'', ZOptional (ZNumber True [NumInt, NumMin 1, NumMax 100])),
     (''status'', ZOptional contactStatusEnum), (''q'', ZOptional (upTo 120))])"

definition updateContactMessageSchema :: schema where
  "updateContactMessageSchema = withId (patchOf [(''status'', ZOptional contactStatusEnum),
     (''note'', ZOr (ZOptional (upTo 1000)) (ZLiteral []))])"

definition contactMessageIdSchema :: schema where
  "contactMessageIdSchema = paramsOnly [(''id'', uuid)]"

definition updateMeSchema :: schema where
  "updateMeSchema = bodyOnly (patchOf [(''name'', ZOptional (trimmed 2 80)), (''phone'', ZOptional (upTo 20)),
     (''wardId'', ZOptional uuid)])"

definition slaHoursField :: schema where
  "slaHoursField = ZNumber False [NumInt, NumMin 1, NumMax 8760]"

definition createCategorySchema :: schema where
  "createCategorySchema = bodyOnly (strict [(''name'', trimmed 2 80), (''departmentId'', uuid),
     (''slaHours'', ZDefault slaHoursField (JNum 72)), (''defaultPriority'', ZDefault prioritySchema (JStr ''MEDIUM''))])"

definition updateCategorySchema :: schema where
  "updateCategorySchema = withId (patchOf [(''name'', ZOptional (trimmed 2 80)), (''departmentId'', ZOptional uuid),
     (''slaHours'', ZOptional slaHoursField), (''defaultPriority'', ZOptional prioritySchema)])"

definition categoryIdSchema :: schema where
  "categoryIdSchema = paramsOnly [(''id'', uuid)]"

text \<open>The three optional fields that both department schemas have.\<close>

definition deptContact :: "(string \<times> schema) list" where
  "deptContact = [(''email'', ZOptional (ZString [StrTrim, StrFormat ''email'', StrMax 254])),
     (''phone'', ZOptional (upTo 30)), (''address'', ZOptional (upTo 200))]"

definition createDepartmentSchema :: schema where
  "createDepartmentSchema = bodyOnly (strict ((''name'', trimmed 2 80) # deptContact))"

definition updateDepartmentSchema :: schema where
  "updateDepartmentSchema = withId (patchOf ((''name'', ZOptional (trimmed 2 80)) # deptContact))"

definition departmentIdSchema :: schema where
  "departmentIdSchema = paramsOnly [(''id'', uuid)]"

definition wardNumber :: schema where
  "wardNumber = ZNumber False [NumInt, NumMin 1, NumMax 1000]"

definition createWardSchema :: schema where
  "createWardSchema = bodyOnly (strict [(''number'', wardNumber), (''name'', trimmed 2 80), (''zoneId'', ZOptional uuid)])"

definition updateWardSchema :: schema where
  "updateWardSchema = withId (patchOf [(''number'', ZOptional wardNumber), (''name'', ZOptional (trimmed 2 80)),
     (''zoneId'', ZOptional uuid)])"

definition createZoneSchema :: schema where
  "createZoneSchema = bodyOnly (strict [(''name'', trimmed 2 80)])"

text \<open>\<^verbatim>\<open>^\\d{1,8}(\\.\\d{1,2})?$\<close>.\<close>

definition feeShape :: "string \<Rightarrow> bool" where
  "feeShape s \<longleftrightarrow>
     (case split_on (CHR ''.'') s of
        [a] \<Rightarrow> 1 \<le> length a \<and> length a \<le> 8 \<and> list_all isDigit a
      | [a, b] \<Rightarrow> 1 \<le> length a \<and> length a \<le> 8 \<and> list_all isDigit a \<and>
          1 \<le> length b \<and> length b \<le> 2 \<and> list_all isDigit b
      | _ \<Rightarrow> False)"

definition feeField :: schema where
  "feeField = ZString [StrTrim, StrRegex feeShape]"

definition createServiceTypeSchema :: schema where
  "createServiceTypeSchema = bodyOnly (strict [(''name'', trimmed 2 120), (''fee'', feeField),
     (''isActive'', ZDefault ZBoolean (JBool True))])"

definition updateServiceTypeSchema :: schema where
  "updateServiceTypeSchema = withId (patchOf [(''name'', ZOptional (trimmed 2 120)), (''fee'', ZOptional feeField),
     (''isActive'', ZOptional ZBoolean)])"

text \<open>The transformation behind \<open>optional\<close> sees the missing value too.\<close>

definition unreadFlag :: "json option \<Rightarrow> json option" where
  "unreadFlag v = Some (JBool (v = Some (JStr ''true'')))"

definition listNotificationsSchema :: schema where
  "listNotificationsSchema = queryOnly (strict [(''page'', pageField), (''limit'', pageField),
     (''unread'', ZTransform (ZOptional (ZEnum [''true'', ''false''])) unreadFlag)])"

definition notificationIdSchema :: schema where
  "notificationIdSchema = paramsOnly [(''id'', uuid)]"

end
