(* ===== verification/SchemaProps.thy ===== *)
theory SchemaProps
  imports Schemas RouteProps
begin

text \<open>
  What the schemas keep out: which keys the handlers of the routers can see in a validated body, and what a
  password that passes looks like.
\<close>

section \<open>The schema of a route\<close>

text \<open>\<open>V.nameSchema\<close> of the module a handler belongs to.\<close>

definition schemasOf :: "(string \<Rightarrow> string) \<Rightarrow> string \<Rightarrow> (string \<times> schema) list" where
  "schemasOf san m =
     (if m = ''auth'' then [
        (''register'', registerSchema), (''verifyOtp'', verifyOtpSchema), (''resendOtp'', resendOtpSchema),
        (''login'', loginSchema), (''verifyLoginOtp'', verifyLoginOtpSchema),
        (''resendLoginOtp'', resendLoginOtpSchema), (''magicLogin'', magicLoginSchema),
        (''refresh'', refreshSchema), (''sessionId'', sessionIdSchema), (''toggle2fa'', toggle2faSchema),
        (''forgotPassword'', forgotPasswordSchema), (''resetPassword'', resetPasswordSchema),
        (''changePassword'', changePasswordSchema), (''googleToken'', googleTokenSchema)]
      else if m = ''complaint'' then [
        (''createComplaint'', createComplaintSchema san), (''updateComplaint'', updateComplaintSchema san),
        (''listComplaints'', listComplaintsSchema), (''search'', searchSchema), (''nearby'', nearbySchema),
        (''complaintId'', complaintIdSchema), (''trackingId'', trackingIdSchema),
        (''changeStatus'', changeStatusSchema san), (''assign'', assignSchema san), (''note'', noteSchema san),
        (''comment'', commentSchema san), (''feedback'', feedbackSchema san),
        (''attachment'', attachmentSchema)]
      else if m = ''admin'' then [
        (''listUsers'', listUsersSchema), (''createOfficer'', createOfficerSchema),
        (''createAdmin'', createAdminSchema), (''userId'', userIdSchema), (''updateRole'', updateRoleSchema),
        (''updateStatus'', updateStatusSchema), (''restore'', restoreSchema), (''auditLogs'', auditLogsSchema),
        (''securityEvents'', securityEventsSchema), (''csvReport'', csvReportSchema),
        (''settingKey'', settingKeySchema)]
      else if m = ''payment'' then [
        (''initiatePayment'', initiatePaymentSchema), (''listPayments'', listPaymentsSchema),
        (''paymentId'', paymentIdSchema), (''refundRequest'', refundRequestSchema san),
        (''ledger'', ledgerSchema san), (''ledgerSummary'', ledgerSummarySchema san),
        (''ledgerCsv'', ledgerCsvSchema san)]
      else if m = ''serviceRequest'' then [
        (''createServiceRequest'', createServiceRequestSchema),
        (''listServiceRequests'', listServiceRequestsSchema), (''serviceRequestId'', serviceRequestIdSchema),
        (''updateServiceRequestStatus'', updateServiceRequestStatusSchema san),
        (''uploadDocument'', uploadDocumentSchema san), (''documentId'', documentIdSchema)]
      else if m = ''rbac'' then [
        (''listPermissions'', listPermissionsSchema), (''createPermission'', createPermissionSchema),
        (''updatePermission'', updatePermissionSchema), (''createRole'', createRoleSchema),
        (''updateRole'', updateAccessRoleSchema), (''assignUserRoles'', assignUserRolesSchema),
        (''id'', idSchema)]
      else if m = ''contact'' then [
        (''createContactMessage'', createContactMessageSchema),
        (''listContactMessages'', listContactMessagesSchema),
        (''updateContactMessage'', updateContactMessageSchema), (''contactMessageId'', contactMessageIdSchema)]
      else if m = ''user'' then [
        (''updateMe'', updateMeSchema)]
      else if m = ''category'' then [
        (''createCategory'', createCategorySchema), (''updateCategory'', updateCategorySchema),
        (''categoryId'', categoryIdSchema)]
      else if m = ''department'' then [
        (''createDepartment'', createDepartmentSchema), (''updateDepartment'', updateDepartmentSchema),
        (''departmentId'', departmentIdSchema)]
      else if m = ''ward'' then [
        (''createWard'', createWardSchema), (''updateWard'', updateWardSchema)]
      else if m = ''zone'' then [
        (''createZone'', createZoneSchema)]
      else if m = ''serviceType'' then [
        (''createServiceType'', createServiceTypeSchema), (''updateServiceType'', updateServiceTypeSchema)]
      else if m = ''notification'' then [
        (''listNotifications'', listNotificationsSchema), (''notificationId'', notificationIdSchema)]
      else [])"

definition moduleOf :: "string \<Rightarrow> string" where
  "moduleOf h = takeWhile (\<lambda>c. c \<noteq> CHR ''.'') h"

definition schemaFor :: "(string \<Rightarrow> string) \<Rightarrow> string \<Rightarrow> string \<Rightarrow> schema option" where
  "schemaFor san h n = map_of (schemasOf san (moduleOf h)) n"

text \<open>The keys of a strict object, refined or not, and those of the body of a request.\<close>

fun strictKeys :: "schema \<Rightarrow> string list option" where
  "strictKeys (ZObject exact fs) = (if exact then Some (map fst fs) else None)"
| "strictKeys (ZRefine s p) = strictKeys s"
| "strictKeys _ = None"

fun bodySchema :: "schema \<Rightarrow> schema option" where
  "bodySchema (ZObject exact fs) = map_of fs ''body''"
| "bodySchema _ = None"

definition bodyKeys :: "schema \<Rightarrow> string list option" where
  "bodyKeys s = Option.bind (bodySchema s) strictKeys"

text \<open>The keys of every body there is, by module and schema; a schema without a body has none.\<close>

definition shapesOf :: "string \<Rightarrow> (string \<times> string list option) list" where
  "shapesOf m =
     (if m = ''auth'' then [
        (''register'', Some [''name'', ''email'', ''password'', ''phone'']),
        (''verifyOtp'', Some [''email'', ''otp'']), (''resendOtp'', Some [''email'']),
        (''login'', Some [''email'', ''password'', ''deviceToken'']),
        (''verifyLoginOtp'', Some [''challengeId'', ''otp'', ''trustDevice'']),
        (''resendLoginOtp'', Some [''challengeId'']), (''magicLogin'', None),
        (''refresh'', Some [''refreshToken'']), (''sessionId'', None),
        (''toggle2fa'', Some [''enabled'', ''password'', ''challengeId'', ''otp'']),
        (''forgotPassword'', Some [''email'']), (''resetPassword'', Some [''token'', ''password'']),
        (''changePassword'', Some [''currentPassword'', ''newPassword'']), (''googleToken'', Some [''idToken''])]
      else if m = ''complaint'' then [
        (''createComplaint'', Some [''title'', ''description'', ''categoryId'', ''wardId'', ''address'', ''latitude'', ''longitude'']),
        (''updateComplaint'', Some [''title'', ''description'', ''address'', ''latitude'', ''longitude'']),
        (''listComplaints'', None), (''search'', None), (''nearby'', None), (''complaintId'', None),
        (''trackingId'', None), (''changeStatus'', Some [''status'', ''note'']),
        (''assign'', Some [''officerId'', ''auto'', ''reason'']), (''note'', Some [''note'']),
        (''comment'', Some [''body'', ''isInternal'']), (''feedback'', Some [''rating'', ''comment'']),
        (''attachment'', Some [''kind''])]
      else if m = ''admin'' then [
        (''listUsers'', None),
        (''createOfficer'', Some [''name'', ''email'', ''phone'', ''departmentId'', ''wardId'']),
        (''createAdmin'', Some [''name'', ''email'', ''password'']), (''userId'', None),
        (''updateRole'', Some [''role'']), (''updateStatus'', Some [''status'', ''reason'']),
        (''restore'', None), (''auditLogs'', None), (''securityEvents'', None), (''csvReport'', None),
        (''settingKey'', Some [''value''])]
      else if m = ''payment'' then [
        (''initiatePayment'', Some [''serviceRequestId'']), (''listPayments'', None), (''paymentId'', None),
        (''refundRequest'', Some [''reason'']), (''ledger'', None), (''ledgerSummary'', None),
        (''ledgerCsv'', None)]
      else if m = ''serviceRequest'' then [
        (''createServiceRequest'', Some [''serviceTypeId'', ''details'']), (''listServiceRequests'', None),
        (''serviceRequestId'', None), (''updateServiceRequestStatus'', Some [''status'', ''note'']),
        (''uploadDocument'', Some [''label'']), (''documentId'', None)]
      else if m = ''rbac'' then [
        (''listPermissions'', None),
        (''createPermission'', Some [''code'', ''name'', ''description'', ''category'']),
        (''updatePermission'', Some [''name'', ''description'', ''category'']),
        (''createRole'', Some [''name'', ''description'', ''permissionIds'']),
        (''updateRole'', Some [''name'', ''description'', ''permissionIds'']),
        (''assignUserRoles'', Some [''roleIds'']), (''id'', None)]
      else if m = ''contact'' then [
        (''createContactMessage'', Some [''name'', ''email'', ''phone'', ''subject'', ''message'']),
        (''listContactMessages'', None), (''updateContactMessage'', Some [''status'', ''note'']),
        (''contactMessageId'', None)]
      else if m = ''user'' then [
        (''updateMe'', Some [''name'', ''phone'', ''wardId''])]
      else if m = ''category'' then [
        (''createCategory'', Some [''name'', ''departmentId'', ''slaHours'', ''defaultPriority'']),
        (''updateCategory'', Some [''name'', ''departmentId'', ''slaHours'', ''defaultPriority'']),
        (''categoryId'', None)]
      else if m = ''department'' then [
        (''createDepartment'', Some [''name'', ''email'', ''phone'', ''address'']),
        (''updateDepartment'', Some [''name'', ''email'', ''phone'', ''address'']), (''departmentId'', None)]
      else if m = ''ward'' then [
        (''createWard'', Some [''number'', ''name'', ''zoneId'']),
        (''updateWard'', Some [''number'', ''name'', ''zoneId''])]
      else if m = ''zone'' then [
        (''createZone'', Some [''name''])]
      else if m = ''serviceType'' then [
        (''createServiceType'', Some [''name'', ''fee'', ''isActive'']),
        (''updateServiceType'', Some [''name'', ''fee'', ''isActive''])]
      else if m = ''notification'' then [
        (''listNotifications'', None), (''notificationId'', None)]
      else [])"

lemmas schema_defs =
  bodyOnly_def queryOnly_def paramsOnly_def withId_def strict_def patchOf_def deptContact_def
  ledgerFilters_def registerSchema_def verifyOtpSchema_def resendOtpSchema_def loginSchema_def
  verifyLoginOtpSchema_def resendLoginOtpSchema_def magicLoginSchema_def refreshSchema_def
  sessionIdSchema_def toggle2faSchema_def forgotPasswordSchema_def resetPasswordSchema_def
  changePasswordSchema_def googleTokenSchema_def createComplaintSchema_def updateComplaintSchema_def
  listComplaintsSchema_def searchSchema_def nearbySchema_def complaintIdSchema_def trackingIdSchema_def
  changeStatusSchema_def assignSchema_def noteSchema_def commentSchema_def feedbackSchema_def
  attachmentSchema_def listUsersSchema_def createOfficerSchema_def createAdminSchema_def userIdSchema_def
  updateRoleSchema_def updateStatusSchema_def restoreSchema_def auditLogsSchema_def securityEventsSchema_def
  csvReportSchema_def settingKeySchema_def initiatePaymentSchema_def listPaymentsSchema_def
  paymentIdSchema_def refundRequestSchema_def ledgerSchema_def ledgerSummarySchema_def ledgerCsvSchema_def
  createServiceRequestSchema_def listServiceRequestsSchema_def serviceRequestIdSchema_def
  updateServiceRequestStatusSchema_def uploadDocumentSchema_def documentIdSchema_def
  listPermissionsSchema_def createPermissionSchema_def updatePermissionSchema_def createRoleSchema_def
  updateAccessRoleSchema_def assignUserRolesSchema_def idSchema_def createContactMessageSchema_def
  listContactMessagesSchema_def updateContactMessageSchema_def contactMessageIdSchema_def updateMeSchema_def
  createCategorySchema_def updateCategorySchema_def categoryIdSchema_def createDepartmentSchema_def
  updateDepartmentSchema_def departmentIdSchema_def createWardSchema_def updateWardSchema_def
  createZoneSchema_def createServiceTypeSchema_def updateServiceTypeSchema_def listNotificationsSchema_def
  notificationIdSchema_def

definition shapeOf :: "schema \<Rightarrow> string list option" where
  "shapeOf s = map_option (\<lambda>b. the (strictKeys b)) (bodySchema s)"

lemma shapes: "map (\<lambda>(n, s). (n, shapeOf s)) (schemasOf san m) = shapesOf m"
  by (simp add: schemasOf_def shapesOf_def shapeOf_def schema_defs)

lemma bodies_strict: "list_all (\<lambda>(n, s). case bodySchema s of None \<Rightarrow> True | Some b \<Rightarrow> strictKeys b \<noteq> None) (schemasOf san m)"
  by (simp add: schemasOf_def schema_defs)

lemma schema_shape:
  assumes "schemaFor san h n = Some s"
  shows "map_of (shapesOf (moduleOf h)) n = Some (bodyKeys s)"
proof -
  have "(n, s) \<in> set (schemasOf san (moduleOf h))" using assms by (auto simp: schemaFor_def dest: map_of_SomeD)
  then have "case bodySchema s of None \<Rightarrow> True | Some b \<Rightarrow> strictKeys b \<noteq> None"
    using bodies_strict [of san "moduleOf h"] unfolding list_all_iff by blast
  then have "shapeOf s = bodyKeys s" by (auto simp: shapeOf_def bodyKeys_def split: option.splits)
  moreover have "map_of (map (\<lambda>(n, s). (n, shapeOf s)) (schemasOf san (moduleOf h))) n = map_option shapeOf (schemaFor san h n)"
    by (simp add: schemaFor_def map_of_map)
  ultimately show ?thesis using assms by (simp add: shapes)
qed

lemma strictKeys_accepts:
  "accepts fmt s v r \<Longrightarrow> strictKeys s = Some ks \<Longrightarrow>
     \<exists>ins outs. v = Some (JObj ins) \<and> r = Some (JObj outs) \<and> fst ` set ins \<subseteq> set ks \<and> fst ` set outs \<subseteq> set ks"
proof (induction s arbitrary: v r rule: strictKeys.induct)
  case (1 exact fs)
  then have "exact" and "ks = map fst fs" by (simp_all split: if_splits)
  with "1.prems"(1) show ?case by simp blast
qed auto

text \<open>What a middleware lets through of the body.\<close>

lemma body_passed:
  assumes "zodLaws fmt parse" and "checkWith parse s rq w = (Inr rq', w')" and "bodySchema s = Some b"
  obtains r where "accepts fmt b (vr_body rq) r" and "vr_body rq' = (case r of None \<Rightarrow> vr_body rq | Some j \<Rightarrow> Some j)"
proof -
  obtain exact fs where s: "s = ZObject exact fs" and b: "map_of fs ''body'' = Some b"
    using assms(3) by (cases s) auto
  obtain parsed where p: "parse s (Some (requestJson rq)) = Inr parsed" and rq': "rq' = validatedRequest rq parsed"
    using assms(2) by (auto simp: checkWith_def validateRequest_def eval split: sum.splits)
  have "accepts fmt s (Some (requestJson rq)) parsed" using assms(1) p by (auto simp: zodLaws_def)
  then obtain ins outs where ins: "requestJson rq = JObj ins" and outs: "parsed = Some (JObj outs)"
    and fields: "acceptsFields fmt fs ins outs"
    by (auto simp: s)
  have "map_of ins ''body'' = vr_body rq"
    using ins by (auto simp: requestJson_def split: option.splits)
  then have "accepts fmt b (vr_body rq) (map_of outs ''body'')"
    using acceptsFields_get [OF fields map_of_SomeD [OF b]] by simp
  then show thesis by (rule that) (simp add: rq' validatedRequest_def outs partOf_def)
qed

lemma strict_body:
  assumes "zodLaws fmt parse" and "checkWith parse s rq w = (Inr rq', w')" and "bodyKeys s = Some ks"
  shows "\<exists>fs. vr_body rq' = Some (JObj fs) \<and> fst ` set fs \<subseteq> set ks"
proof -
  obtain b where b: "bodySchema s = Some b" "strictKeys b = Some ks"
    using assms(3) by (auto simp: bodyKeys_def Option.bind_eq_Some_conv)
  show ?thesis
    by (rule body_passed [OF assms(1,2) b(1)]) (use strictKeys_accepts [OF _ b(2)] in fastforce)
qed

section \<open>Keys that carry privileges\<close>

text \<open>The handlers that read \<open>req.body\<close>, but for the gateway's callbacks and the beacon, which take what comes.\<close>

definition bodyReaders :: "string list" where
  "bodyReaders = [
     ''auth.register'', ''auth.verifyOtp'', ''auth.resendOtp'', ''auth.login'', ''auth.verifyLoginOtp'', ''auth.resendLoginOtp'',
     ''auth.refreshToken'', ''auth.toggle2fa'', ''auth.forgotPassword'', ''auth.resetPassword'', ''auth.changePassword'',
     ''auth.googleToken'', ''admin.createOfficer'', ''admin.updateRole'', ''admin.updateStatus'', ''admin.createAdmin'',
     ''admin.updateSetting'', ''category.create'', ''category.update'', ''complaint.create'', ''complaint.update'',
     ''complaint.changeStatus'', ''complaint.assign'', ''complaint.cancel'', ''complaint.reopen'', ''complaint.addAttachment'',
     ''complaint.addComment'', ''complaint.feedback'', ''contact.create'', ''contact.update'', ''department.create'',
     ''department.update'', ''payment.initiate'', ''payment.requestRefund'', ''rbac.createPermission'', ''rbac.updatePermission'',
     ''rbac.createRole'', ''rbac.updateRole'', ''rbac.assignUserRoles'', ''serviceRequest.create'', ''serviceRequest.updateStatus'',
     ''serviceRequest.addDocument'', ''serviceType.create'', ''serviceType.update'', ''user.updateMe'', ''ward.create'',
     ''ward.update'', ''zone.create'']"

text \<open>Columns no request ever carries, and keys only staff with a grant may send.\<close>

definition neverSent :: "string list" where
  "neverSent = [''isSuperAdmin'', ''passwordHash'', ''emailVerified'', ''citizenId'', ''userId'', ''actorId'', ''amount'',
     ''paidAt'', ''trackingId'', ''upvoteCount'', ''reopenCount'', ''isEscalated'', ''slaDueAt'', ''deletedAt'', ''isSystem'']"

definition staffOnly :: "string list" where
  "staffOnly = [''role'', ''roleIds'', ''permissionIds'', ''departmentId'', ''code'', ''fee'', ''slaHours'',
     ''defaultPriority'', ''officerId'', ''value'', ''isActive'', ''zoneId'', ''number'']"

definition granted :: "guard list \<Rightarrow> bool" where
  "granted gs \<longleftrightarrow> SignedIn \<in> set gs \<and> Authorize [ADMIN] \<in> set gs \<and>
     (SuperAdminOnly \<in> set gs \<or> list_ex (\<lambda>g. case g of RequirePermission codes \<Rightarrow> codes \<noteq> [] | _ \<Rightarrow> False) gs)"

definition keyFits :: "guard list \<Rightarrow> string \<Rightarrow> bool" where
  "keyFits gs k \<longleftrightarrow> k \<notin> set neverSent \<and> (k \<in> set staffOnly \<longrightarrow> granted gs)"

text \<open>The chains of middlewares against the table of keys.\<close>

definition chainFits :: "guard list \<Rightarrow> (string \<times> string list option) list \<Rightarrow> guard \<Rightarrow> bool" where
  "chainFits gs shapes g \<longleftrightarrow>
     (case g of Validate n \<Rightarrow>
        (case map_of shapes n of None \<Rightarrow> False | Some None \<Rightarrow> True | Some (Some ks) \<Rightarrow> list_all (keyFits gs) ks)
      | _ \<Rightarrow> True)"

definition readsChecked :: "(string \<times> string list option) list \<Rightarrow> guard \<Rightarrow> bool" where
  "readsChecked shapes g \<longleftrightarrow>
     (case g of Validate n \<Rightarrow> (case map_of shapes n of Some (Some ks) \<Rightarrow> True | _ \<Rightarrow> False) | _ \<Rightarrow> False)"

lemma reachable_fits: "list_all (\<lambda>(gs, h). list_all (chainFits gs (shapesOf (moduleOf h))) gs) reachable"
  by code_simp

lemma reachable_reads:
  "list_all (\<lambda>(gs, h). h \<in> set bodyReaders \<longrightarrow> list_ex (readsChecked (shapesOf (moduleOf h))) gs) reachable"
  by code_simp

lemma chain_fits:
  assumes "m \<in> set modules" and "walk fits v path (snd m) = (gs, Some h)" and "Validate n \<in> set gs"
    and "schemaFor san h n = Some s" and "bodyKeys s = Some ks" and "k \<in> set ks"
  shows "keyFits gs k"
proof -
  have "chainFits gs (shapesOf (moduleOf h)) (Validate n)"
    using reachable_fits walk_reachable [OF assms(1,2)] assms(3) unfolding list_all_iff by fastforce
  then show ?thesis using schema_shape [OF assms(4)] assms(5,6) by (simp add: chainFits_def list_all_iff)
qed

lemma reader_checked:
  assumes "m \<in> set modules" and "walk fits v path (snd m) = (gs, Some h)" and "h \<in> set bodyReaders"
  shows "\<exists>n ks. Validate n \<in> set gs \<and> map_of (shapesOf (moduleOf h)) n = Some (Some ks)"
proof -
  have "list_ex (readsChecked (shapesOf (moduleOf h))) gs"
    using reachable_reads walk_reachable [OF assms(1,2)] assms(3) unfolding list_all_iff by fastforce
  then obtain g where g: "g \<in> set gs" "readsChecked (shapesOf (moduleOf h)) g" by (auto simp: list_ex_iff)
  show ?thesis by (cases g) (use g in \<open>auto simp: readsChecked_def split: option.splits\<close>)
qed

lemma shape_schema:
  assumes "map_of (shapesOf (moduleOf h)) n = Some (Some ks)"
  shows "\<exists>s. schemaFor san h n = Some s \<and> bodyKeys s = Some ks"
proof -
  have "map_of (map (\<lambda>(n, s). (n, shapeOf s)) (schemasOf san (moduleOf h))) n = map_option shapeOf (schemaFor san h n)"
    by (simp add: schemaFor_def map_of_map)
  then have "map_option shapeOf (schemaFor san h n) = Some (Some ks)" using assms by (simp add: shapes)
  then obtain s where "schemaFor san h n = Some s" by (cases "schemaFor san h n") simp_all
  then show ?thesis using schema_shape [of san h n s] assms by auto
qed


text \<open>An assignment names an officer, behind the grant for assignments.\<close>

definition assignBody :: rawRequest where
  "assignBody = \<lparr>vr_body = Some (JObj [(''officerId'', JStr ''o1'')]), vr_query = JObj [],
     vr_params = JObj [(''id'', JStr ''c1'')]\<rparr>"

lemma assignBody_passes:
  "checkWith (plainZod (\<lambda>_ _. True)) (assignSchema (\<lambda>t. t)) assignBody console = (Inr assignBody, console)"
  by (simp add: checkWith_def validateRequest_def plainZod_def assignSchema_def assignBody_def requestJson_def eval
      validatedRequest_def partOf_def truthyAt_def withId_def strict_def uuid_def safeText_def)


section \<open>Passwords\<close>

definition strongPassword :: "string \<Rightarrow> bool" where
  "strongPassword p \<longleftrightarrow> 10 \<le> length p \<and> length p \<le> 128 \<and> list_ex isLower p \<and> list_ex isUpper p \<and>
     list_ex isDigit p \<and> list_ex notAlnum p"

text \<open>The schemas through which a password is set, with its key.\<close>

definition passwordSchemas :: "(schema \<times> string) list" where
  "passwordSchemas = [(registerSchema, ''password''), (resetPasswordSchema, ''password''),
     (changePasswordSchema, ''newPassword''), (createAdminSchema, ''password'')]"

lemma password_run: "strRun fmt [StrMin 10, StrMax 128, StrRegex (list_ex isLower), StrRegex (list_ex isUpper),
     StrRegex (list_ex isDigit), StrRegex (list_ex notAlnum)] s = Some t \<longleftrightarrow> t = s \<and> strongPassword s"
  by (auto simp: strongPassword_def)

definition leavesPassword :: "string \<Rightarrow> schema \<Rightarrow> bool" where
  "leavesPassword k b \<longleftrightarrow> (\<forall>fmt v r. accepts fmt b v r \<longrightarrow>
     (\<exists>fs p. r = Some (JObj fs) \<and> map_of fs k = Some (JStr p) \<and> strongPassword p))"

lemma leaves_refine: "leavesPassword k b \<Longrightarrow> leavesPassword k (ZRefine b q)"
  by (auto simp: leavesPassword_def)

lemma leaves_object:
  assumes "(k, ZString [StrMin 10, StrMax 128, StrRegex (list_ex isLower), StrRegex (list_ex isUpper),
     StrRegex (list_ex isDigit), StrRegex (list_ex notAlnum)]) \<in> set fs"
  shows "leavesPassword k (ZObject True fs)"
  unfolding leavesPassword_def
proof (intro allI impI)
  fix fmt v r
  assume "accepts fmt (ZObject True fs) v r"
  then obtain ins outs where r: "r = Some (JObj outs)" and a: "acceptsFields fmt fs ins outs" by auto
  from acceptsFields_get [OF a assms] obtain p where "map_of outs k = Some (JStr p)" "strongPassword p"
    by (auto simp: password_run simp del: strRun.simps)
  with r show "\<exists>fs p. r = Some (JObj fs) \<and> map_of fs k = Some (JStr p) \<and> strongPassword p" by blast
qed

lemma password_body:
  assumes "(s, k) \<in> set passwordSchemas"
  shows "\<exists>b. bodySchema s = Some b \<and> leavesPassword k b"
  using assms
  by (auto simp: passwordSchemas_def registerSchema_def resetPasswordSchema_def changePasswordSchema_def
      createAdminSchema_def bodyOnly_def strict_def password_def adminPassword_def intro!: leaves_refine leaves_object)

text \<open>Whichever way a password is set, one that passes is long enough, mixed, and not longer than bcrypt is given.\<close>

theorem passwords_meet_the_policy:
  assumes "zodLaws fmt parse" and "(s, k) \<in> set passwordSchemas" and "checkWith parse s rq w = (Inr rq', w')"
  shows "\<exists>fs p. vr_body rq' = Some (JObj fs) \<and> map_of fs k = Some (JStr p) \<and> strongPassword p"
proof -
  obtain b where b: "bodySchema s = Some b" "leavesPassword k b" using password_body [OF assms(2)] by blast
  obtain r where r: "accepts fmt b (vr_body rq) r" "vr_body rq' = (case r of None \<Rightarrow> vr_body rq | Some j \<Rightarrow> Some j)"
    by (rule body_passed [OF assms(1,3) b(1)])
  then show ?thesis using b(2) unfolding leavesPassword_def by fastforce
qed

text \<open>The other half of the policy, that it must not hold the name or the email, is checked at signup only.\<close>

definition resetBody :: rawRequest where
  "resetBody = \<lparr>vr_body = Some (JObj [(''token'', JStr ''0123456789abcdef0123''), (''password'', JStr ''Karim#2024x'')]),
     vr_query = JObj [], vr_params = JObj []\<rparr>"

lemma reset_takes_the_name:
  "containsIdentity ''Karim#2024x'' (Some ''Karim'') ''karim@x.bd'' \<and>
   checkWith (plainZod (\<lambda>_ _. True)) resetPasswordSchema resetBody console =
     (Inr resetBody, console)"
proof
  show "containsIdentity ''Karim#2024x'' (Some ''Karim'') ''karim@x.bd''" by code_simp
  have "js_trim ''0123456789abcdef0123'' = ''0123456789abcdef0123''" by code_simp
  moreover have "strongPassword ''Karim#2024x''" by code_simp
  ultimately show "checkWith (plainZod (\<lambda>_ _. True)) resetPasswordSchema resetBody console =
     (Inr resetBody, console)"
    by (simp add: checkWith_def validateRequest_def plainZod_def resetPasswordSchema_def resetBody_def requestJson_def eval
      validatedRequest_def partOf_def bodyOnly_def strict_def password_def strongPassword_def)
qed

end
