(* ===== verification/AdminInv.thy ===== *)
theory AdminInv
  imports Profile
begin

text \<open>
  What the account operations do to the table of users, case by case, and the invariant of that table.
\<close>

section \<open>Steps that leave the accounts alone\<close>

definition calm :: "world \<Rightarrow> world \<Rightarrow> bool" where
  "calm w w' \<longleftrightarrow> users w' = users w \<and> uuidPos w \<le> uuidPos w'"

interpretation cm: step_preorder calm undoTx
  by unfold_locales (auto simp: calm_def undoTx_def)

lemma cm_small:
  "related calm (freshId L)" "related calm (randomToken L)" "related calm (bcrypt_hash L pw)"
  "related calm (audit L a b c d e f g)" "related calm (invalidate ks)" "related calm (clearSettingCache j)"
  "related calm (redisIncr k)" "related calm (redisExpire k n)" "related calm (revokeAllSessions i r)"
  by (simp_all add: related_def calm_def eval clearSettingCache_def invalidate_def redisDel_def redisIncr_def
      redisExpire_def redisPut_def revokeAllSessions_def redisCmd_def split: prod.split sum.split option.split)

lemma cm_mail: "related calm (sendMail L to t b)" "related calm (dispatchEmail (sendMail L to t b))"
  unfolding sendMail_def dispatchEmail_def orElse_def incCounter_def
  by (intro cm.rel_intros cm_small, (simp_all add: calm_def)?)+

lemma cm_log: "related calm (logSecurity L a b ty cx)"
  unfolding logSecurity_def orElse_def by (intro cm.rel_intros cm_small) (simp_all add: calm_def)

lemma cm_after: "related calm (thenM (thenM (revokeAllSessions i r) (returnM ())) (returnM x))"
  "related calm (thenM (thenM (revokeAllSessions i r) (returnM ())) (thenM (logSecurity L a b ty cx) (returnM x)))"
  "related calm (thenM (whenM b1 (thenM (revokeAllSessions i r) (returnM ()))) (returnM x))"
  by (intro cm.rel_intros cm_small cm_log)+

text \<open>After the write to the table nothing touches it any more.\<close>

lemma calm_bind: "(\<And>x. related calm (f x)) \<Longrightarrow> calm (snd (m w)) (snd (bindM m f w))"
  unfolding related_def bindM_def by (auto simp: cm.refl split: prod.split sum.split)

lemma calm_then: "related calm k \<Longrightarrow> calm (snd (m w)) (snd (thenM m k w))"
  using calm_bind [of "\<lambda>_. k"] by (simp add: thenM_def)

lemma run_saveUser [eval]:
  "saveUser i f w =
     (if list_ex (superWithoutAdmin i f) (users w) then (Inl (DbCheck ''user_superadmin_ck''), w)
      else updateUser i f w)"
  by (simp add: saveUser_def eval)

lemma run_updateUser:
  "updateUser i f w =
     (case find (\<lambda>u. u_id u = i) (users w) of
        None \<Rightarrow> (Inl (PrismaKnown ''P2025'' []), w)
      | Some r \<Rightarrow> ((Inr ((f r)\<lparr>u_updatedAt := clock w\<rparr>)),
          w\<lparr>users := updateWhere (\<lambda>u. u_id u = i) (\<lambda>u. (f u)\<lparr>u_updatedAt := clock w\<rparr>) (users w)\<rparr>))"
  by (simp add: updateUser_def eval split: option.split)

section \<open>The operations, case by case\<close>

text \<open>The rows of one account are rewritten, or none is.\<close>

definition rewritten :: "string \<Rightarrow> (user \<Rightarrow> user) \<Rightarrow> world \<Rightarrow> world \<Rightarrow> bool" where
  "rewritten i f w w' \<longleftrightarrow>
     users w' = updateWhere (\<lambda>u. u_id u = i) (\<lambda>u. (f u)\<lparr>u_updatedAt := clock w\<rparr>) (users w) \<and>
     \<not> list_ex (superWithoutAdmin i f) (users w) \<and> uuidPos w \<le> uuidPos w'"

text \<open>The two rules of \<open>assertMayManage\<close>.\<close>

definition mayManage :: "user \<Rightarrow> adminActor \<Rightarrow> bool" where
  "mayManage target a \<longleftrightarrow> u_id target \<noteq> a_id a \<and> (u_role target = ADMIN \<longrightarrow> a_isSuperAdmin a)"

definition otherSuper :: "string \<Rightarrow> world \<Rightarrow> bool" where
  "otherSuper i w \<longleftrightarrow> (\<exists>u \<in> set (users w). activeSuper u \<and> u_id u \<noteq> i)"

lemma run_assertNotLast:
  "assertNotLastSuperAdmin i w =
     ((if otherSuper i w then Inr () else Inl (apiError 409 ''At least one active super admin must remain''
         [det ''LAST_SUPER_ADMIN'' ''At least one active super admin must remain''])), w)"
  by (auto simp: assertNotLastSuperAdmin_def otherSuper_def eval countWhere_def filter_empty_conv)

lemmas commit_run = eval run_updateUser run_assertNotLast calm_def rewritten_def

lemma roleCommit_effect:
  assumes "w' = snd (roleCommit L i rl t a cx w)"
  shows "calm w w' \<or> rewritten i (\<lambda>u. u\<lparr>u_role := rl\<rparr>) w w'"
  unfolding assms by (auto simp: roleCommit_def commit_run split: option.split)

lemma statusCommit_effect:
  assumes "w' = snd (statusCommit L i st reason t a cx w)"
  shows "calm w w' \<or> rewritten i (\<lambda>u. u\<lparr>u_status := st\<rparr>) w w' \<and>
    (u_isSuperAdmin t \<and> st = BLOCKED \<longrightarrow> otherSuper i w)"
  unfolding assms by (auto simp: statusCommit_def commit_run split: option.split)

lemma removeCommit_effect:
  assumes "w' = snd (removeCommit L i t a cx w)"
  shows "calm w w' \<or> rewritten i (\<lambda>u. u\<lparr>u_deletedAt := Some (clock w)\<rparr>) w w' \<and>
    (u_isSuperAdmin t \<longrightarrow> otherSuper i w)"
  unfolding assms by (auto simp: removeCommit_def commit_run split: option.split)

lemma leaveCommit_effect:
  assumes "w' = snd (leaveCommit L i cx w)"
  shows "calm w w' \<or> rewritten i (\<lambda>u. u\<lparr>u_deletedAt := Some (clock w)\<rparr>) w w'"
  unfolding assms by (auto simp: leaveCommit_def commit_run split: option.split)

text \<open>A new row: a drawn id, a free address, no super admin.\<close>

definition joined :: "lib \<Rightarrow> role \<Rightarrow> world \<Rightarrow> world \<Rightarrow> bool" where
  "joined L rl w w' \<longleftrightarrow> (\<exists>u. users w' = users w @ [u] \<and> u_id u = uuidTape L (uuidPos w) \<and>
     uuidPos w < uuidPos w' \<and> u_role u = rl \<and> \<not> u_isSuperAdmin u \<and> u_deletedAt u = None \<and>
     (\<forall>r \<in> set (liveUsers w). u_email r \<noteq> u_email u))"

lemma officerCommit_effect:
  assumes "w' = snd (officerCommit L input pw a cx w)"
  shows "calm w w' \<or> joined L OFFICER w w'"
  unfolding assms
  by (auto simp: officerCommit_def insertAccount_def uniqueBy_def eval calm_def joined_def newOfficer_def
      newAccount_def live_defs)


lemma adminInsert_effect:
  assumes "w' = snd (createAdmin L input a cx w)"
  shows "calm w w' \<or> joined L ADMIN w w'"
  unfolding assms
  by (auto simp: createAdmin_def assertFreeEmail_def insertAccount_def uniqueBy_def eval calm_def joined_def
      newAccount_def live_defs)

text \<open>What a calm step adds after a write.\<close>

lemma rewritten_calm: "rewritten i f w w1 \<Longrightarrow> calm w1 w' \<Longrightarrow> rewritten i f w w'"
  by (auto simp: rewritten_def calm_def)

lemma joined_calm: "joined L rl w w1 \<Longrightarrow> calm w1 w' \<Longrightarrow> joined L rl w w'"
  unfolding joined_def calm_def by auto

lemma calm_joined: "calm w w1 \<Longrightarrow> joined L rl w1 w' \<Longrightarrow> uuidPos w1 = uuidPos w \<Longrightarrow> joined L rl w w'"
  by (simp add: joined_def calm_def live_defs)

lemma updateRole_effect:
  assumes "w' = snd (updateRole L i rl a cx w)"
  shows "calm w w' \<or> (\<exists>t. findUser i w = Some t \<and> mayManage t a \<and> (rl = ADMIN \<longrightarrow> a_isSuperAdmin a) \<and>
    rewritten i (\<lambda>u. u\<lparr>u_role := rl\<rparr>) w w')"
proof (cases "\<exists>t. findUser i w = Some t \<and> mayManage t a \<and> (rl = ADMIN \<longrightarrow> a_isSuperAdmin a)")
  case False
  then have "w' = w"
    unfolding assms by (auto simp: updateRole_def assertMayManage_def mayManage_def eval split: option.split)
  then show ?thesis by (simp add: cm.refl)
next
  case True
  then obtain t where t: "findUser i w = Some t" "mayManage t a" "rl = ADMIN \<longrightarrow> a_isSuperAdmin a" by blast
  then have "w' = snd (bindM (roleCommit L i rl t a cx) (\<lambda>updated.
      thenM (thenM (revokeAllSessions i ROLE_CHANGED) (returnM ()))
      (thenM (logSecurity L (Some i) None EV_ROLE_CHANGED cx) (returnM updated))) w)"
    unfolding assms by (auto simp: updateRole_def assertMayManage_def mayManage_def run_bind run_then run_gets
        run_orThrow run_throwIf)
  then have "calm (snd (roleCommit L i rl t a cx w)) w'" using calm_bind cm_after(2) by metis
  then show ?thesis using roleCommit_effect [OF refl, of w L i rl t a cx] t
    by (meson cm.trans rewritten_calm)
qed

lemma updateStatus_effect:
  assumes "w' = snd (updateStatus L i st reason a cx w)"
  shows "calm w w' \<or> (\<exists>t. findUser i w = Some t \<and> mayManage t a \<and>
    (u_isSuperAdmin t \<and> st = BLOCKED \<longrightarrow> otherSuper i w) \<and>
    rewritten i (\<lambda>u. u\<lparr>u_status := st\<rparr>) w w')"
proof (cases "\<exists>t. findUser i w = Some t \<and> mayManage t a")
  case False
  then have "w' = w"
    unfolding assms by (auto simp: updateStatus_def assertMayManage_def mayManage_def eval split: option.split)
  then show ?thesis by (simp add: cm.refl)
next
  case True
  then obtain t where t: "findUser i w = Some t" "mayManage t a" by blast
  then have "w' = snd (bindM (statusCommit L i st reason t a cx) (\<lambda>updated.
      thenM (whenM (st = BLOCKED) (thenM (revokeAllSessions i ADMIN_REVOKED) (returnM ()))) (returnM updated)) w)"
    unfolding assms by (auto simp: updateStatus_def assertMayManage_def mayManage_def run_bind run_then run_gets
        run_orThrow run_throwIf)
  then have "calm (snd (statusCommit L i st reason t a cx w)) w'" using calm_bind cm_after(3) by metis
  then show ?thesis using statusCommit_effect [OF refl, of w L i st reason t a cx] t
    by (meson cm.trans rewritten_calm)
qed

lemma removeAdmin_effect:
  assumes "w' = snd (removeAdmin L i a cx w)"
  shows "calm w w' \<or> (\<exists>t. t \<in> set (liveUsers w) \<and> u_id t = i \<and> i \<noteq> a_id a \<and>
    (u_isSuperAdmin t \<longrightarrow> otherSuper i w) \<and>
    rewritten i (\<lambda>u. u\<lparr>u_deletedAt := Some (clock w)\<rparr>) w w')"
proof (cases "i \<noteq> a_id a \<and> find (\<lambda>u. u_id u = i \<and> u_role u = ADMIN) (liveUsers w) \<noteq> None")
  case False
  then have "w' = w" unfolding assms by (auto simp: removeAdmin_def eval split: option.split)
  then show ?thesis by (simp add: cm.refl)
next
  case True
  then obtain t where t: "find (\<lambda>u. u_id u = i \<and> u_role u = ADMIN) (liveUsers w) = Some t" "i \<noteq> a_id a" by blast
  then have "w' = snd (thenM (removeCommit L i t a cx)
      (thenM (thenM (revokeAllSessions i ADMIN_REVOKED) (returnM ())) (returnM ''Admin removed'')) w)"
    unfolding assms by (auto simp: removeAdmin_def run_bind run_then run_gets run_orThrow run_throwIf)
  then have c: "calm (snd (removeCommit L i t a cx w)) w'" using calm_then cm_after(1) by metis
  have p: "t \<in> set (liveUsers w)" "u_id t = i" using find_Some_in [OF t(1)] by simp_all
  from removeCommit_effect [OF refl, of w L i t a cx] show ?thesis
    using p t(2) cm.trans [OF _ c] rewritten_calm [OF _ c] by blast
qed

lemma deleteMe_effect:
  assumes "w' = snd (deleteMe L i cx w)"
  shows "calm w w' \<or> (\<exists>t. findUser i w = Some t \<and> (u_isSuperAdmin t \<longrightarrow> otherSuper i w) \<and>
    rewritten i (\<lambda>u. u\<lparr>u_deletedAt := Some (clock w)\<rparr>) w w')"
proof (cases "\<exists>t. findUser i w = Some t \<and> (u_isSuperAdmin t \<longrightarrow> otherSuper i w)")
  case False
  then have "w' = w"
    unfolding assms
    by (auto simp: deleteMe_def otherSuper_def activeSuper_def eval countWhere_def filter_empty_conv live_defs
        split: option.split)
  then show ?thesis by (simp add: cm.refl)
next
  case True
  then obtain t where t: "findUser i w = Some t" "u_isSuperAdmin t \<longrightarrow> otherSuper i w" by blast
  then have "w' = snd (thenM (leaveCommit L i cx)
      (thenM (thenM (revokeAllSessions i ADMIN_REVOKED) (returnM ())) (returnM ''Account deleted'')) w)"
    unfolding assms
    by (auto simp: deleteMe_def otherSuper_def activeSuper_def run_bind run_then run_gets run_orThrow run_throwIf
        run_when countWhere_def filter_empty_conv live_defs)
  then have "calm (snd (leaveCommit L i cx w)) w'" using calm_then cm_after(1) by metis
  then show ?thesis using leaveCommit_effect [OF refl, of w L i cx] t
    by (meson cm.trans rewritten_calm)
qed

lemma createOfficer_effect:
  assumes "w' = snd (createOfficer L input a cx w)"
  shows "calm w w' \<or> joined L OFFICER w w'"
proof -
  let ?w = "snd (randomToken L w)" and ?t = "tokenTape L (tokPos w)"
  let ?mail = "\<lambda>officer. thenM (dispatchEmail (sendOfficerInviteEmail L (uv_email officer) (uv_name officer)
      (?t @ ''Aa1!''))) (returnM officer)"
  have same: "calm w ?w" "uuidPos ?w = uuidPos w" by (simp_all add: eval calm_def)
  have mail: "related calm (?mail x)" for x
    unfolding sendOfficerInviteEmail_def by (intro cm.rel_intros cm_mail)
  let ?o = "snd (officerCommit L input (?t @ ''Aa1!'') a cx ?w)"
  have "w' = w \<or> w' = snd (bindM (officerCommit L input (?t @ ''Aa1!'') a cx) ?mail ?w)"
    unfolding assms by (auto simp: createOfficer_def assertFreeEmail_def run_bind run_then run_gets run_throwIf
        run_randomToken)
  moreover have "calm ?o (snd (bindM (officerCommit L input (?t @ ''Aa1!'') a cx) ?mail ?w))"
    by (rule calm_bind) (rule mail)
  ultimately have "w' = w \<or> calm ?o w'" by (elim disjE) simp_all
  then consider "w' = w" | "calm ?o w'" by blast
  then show ?thesis
  proof cases
    case 1
    then show ?thesis by (simp add: cm.refl)
  next
    case 2
    then show ?thesis using officerCommit_effect [OF refl, of ?w L input "?t @ ''Aa1!''" a cx] same
      by (meson cm.trans joined_calm calm_joined)
  qed
qed

text \<open>A restored account.\<close>

definition revived :: "string \<Rightarrow> world \<Rightarrow> world \<Rightarrow> bool" where
  "revived i w w' \<longleftrightarrow> users w' = updateWhere (\<lambda>u. u_id u = i \<and> u_deletedAt u \<noteq> None)
     (\<lambda>u. u\<lparr>u_deletedAt := None, u_updatedAt := clock w\<rparr>) (users w) \<and> \<not> addressBack i w \<and> uuidPos w \<le> uuidPos w'"

lemma restore_effect:
  assumes "w' = snd (restore L entity i a cx w)"
  shows "calm w w' \<or> entity = RestoreUser \<and> revived i w w'"
proof -
  let ?tx = "transaction (bindM (restoreRows entity i) (\<lambda>count.
        thenM (throwIf (count = 0)
          (apiError 404 ''No deleted record with that id''
            [det ''NOT_FOUND'' ''No deleted record with that id'']))
        (thenM (audit L (Some (a_id a)) ''ENTITY_RESTORED'' (restorableName entity) i None
          (Some (JObj [(''restored'', JBool True)])) (Some cx))
        (returnM count))))"
  have "calm (snd (?tx w)) w'"
    unfolding assms restore_def invalidateMasterData_def by (intro calm_bind cm.rel_intros cm_small)
  moreover have "calm w (snd (?tx w)) \<or> entity = RestoreUser \<and> revived i w (snd (?tx w))"
    by (cases entity) (auto simp: restoreRows_def eval calm_def revived_def)
  ultimately show ?thesis unfolding revived_def by (auto simp: calm_def)
qed

text \<open>The rest of the console and the profile leave ids, addresses, roles and the flag alone.\<close>

lemma forceLogout_calm: "related calm (forceLogout L i a cx)"
  unfolding forceLogout_def assertMayManage_def transaction_def
  by (intro cm.rel_intros cm_small cm_log)

lemma updateSetting_calm: "related calm (updateSetting L k v a cx)"
  unfolding updateSetting_def upsertSetting_def transaction_def
  by (intro cm.rel_intros cm_small) (simp_all add: calm_def)

lemma updateMe_effect:
  assumes "w' = snd (updateMe i input w)"
  shows "calm w w' \<or> rewritten i (patchMe input) w w'"
  unfolding assms by (auto simp: updateMe_def commit_run split: option.split)

end
