(* ===== verification/AdminProps.thy ===== *)
theory AdminProps
  imports AdminInv AuthWorld
begin

text \<open>
  The properties of the administration: the console as a machine of requests, the invariant of the
  accounts, the super admin that always remains, the rank of the admins, and what blocking does.
\<close>

section \<open>The console as a machine\<close>

datatype adminOp =
    HireOfficer createOfficerInput
  | ChangeRole string role
  | ChangeStatus string user_status "string option"
  | ForceLogout string
  | HireAdmin createAdminInput
  | DropAdmin string
  | Restore restorable string
  | ChangeSetting string real
  | EditMe updateMeInput
  | Leave

text \<open>\<open>superAdminOnly\<close> or \<open>authorize\<close> of the route; the permission guard behind them refuses more.\<close>

fun routed :: "adminActor \<Rightarrow> adminOp \<Rightarrow> bool" where
  "routed a (HireAdmin input) = (a_role a = ADMIN \<and> a_isSuperAdmin a)"
| "routed a (DropAdmin i) = (a_role a = ADMIN \<and> a_isSuperAdmin a)"
| "routed a (Restore e i) = (a_role a = ADMIN \<and> a_isSuperAdmin a)"
| "routed a (ChangeSetting k v) = (a_role a = ADMIN \<and> a_isSuperAdmin a)"
| "routed a (EditMe input) = True"
| "routed a Leave = True"
| "routed a op = (a_role a = ADMIN)"

fun adminStep :: "lib \<Rightarrow> ctx \<Rightarrow> adminActor \<Rightarrow> adminOp \<Rightarrow> world \<Rightarrow> world" where
  "adminStep L cx a (HireOfficer input) w = snd (createOfficer L input (actor.truncate a) cx w)"
| "adminStep L cx a (ChangeRole i rl) w = snd (updateRole L i rl a cx w)"
| "adminStep L cx a (ChangeStatus i st reason) w = snd (updateStatus L i st reason a cx w)"
| "adminStep L cx a (ForceLogout i) w = snd (forceLogout L i a cx w)"
| "adminStep L cx a (HireAdmin input) w = snd (createAdmin L input (actor.truncate a) cx w)"
| "adminStep L cx a (DropAdmin i) w = snd (removeAdmin L i (actor.truncate a) cx w)"
| "adminStep L cx a (Restore e i) w = snd (restore L e i (actor.truncate a) cx w)"
| "adminStep L cx a (ChangeSetting k v) w = snd (updateSetting L k v (actor.truncate a) cx w)"
| "adminStep L cx a (EditMe input) w = snd (updateMe (a_id a) input w)"
| "adminStep L cx a Leave w = snd (deleteMe L (a_id a) cx w)"

definition adminRun :: "lib \<Rightarrow> ctx \<Rightarrow> (adminActor \<times> adminOp) list \<Rightarrow> world \<Rightarrow> world" where
  "adminRun L cx reqs w = fold (\<lambda>(a, op) w. if routed a op then adminStep L cx a op w else w) reqs w"

section \<open>Well-formed accounts\<close>

definition accountsGood :: "lib \<Rightarrow> world \<Rightarrow> bool" where
  "accountsGood L w \<longleftrightarrow>
     distinct (map u_id (users w)) \<and> distinct (map u_email (liveUsers w)) \<and>
     (\<forall>u \<in> set (users w). u_isSuperAdmin u \<longrightarrow> u_role u = ADMIN) \<and>
     u_id ` set (users w) \<subseteq> drawnIds L w"

definition superLeft :: "world \<Rightarrow> bool" where
  "superLeft w \<longleftrightarrow> (\<exists>u \<in> set (users w). activeSuper u)"

text \<open>What a rewrite of one account must leave as it is.\<close>

definition keepsAccount :: "(user \<Rightarrow> user) \<Rightarrow> bool" where
  "keepsAccount f \<longleftrightarrow> (\<forall>u. u_id (f u) = u_id u \<and> u_email (f u) = u_email u \<and>
     u_isSuperAdmin (f u) = u_isSuperAdmin u \<and> (u_deletedAt (f u) = None \<longrightarrow> u_deletedAt u = None))"

lemma live_emails_update:
  assumes "keepsAccount f" and "distinct (map u_email (filter (\<lambda>u. u_deletedAt u = None) us))"
  shows "distinct (map u_email (filter (\<lambda>u. u_deletedAt u = None) (updateWhere P f us)))"
proof -
  have sub: "u_email ` set (filter (\<lambda>u. u_deletedAt u = None) (updateWhere P f us)) \<subseteq>
      u_email ` set (filter (\<lambda>u. u_deletedAt u = None) us)" for us
    using assms(1) by (force simp: updateWhere_def keepsAccount_def)
  show ?thesis using assms(2)
  proof (induction us)
    case (Cons u us)
    then show ?case using sub [of us] assms(1) by (auto simp: updateWhere_def keepsAccount_def split: if_splits)
  qed (simp add: updateWhere_def)
qed

lemma good_calm: "calm w w' \<Longrightarrow> accountsGood L w \<Longrightarrow> accountsGood L w'"
  using drawn_mono [of w w' L] by (auto simp: calm_def accountsGood_def live_defs)

lemma good_rewritten:
  assumes "rewritten i f w w'" and "keepsAccount f" and "accountsGood L w"
  shows "accountsGood L w'"
proof -
  let ?f = "\<lambda>u. (f u)\<lparr>u_updatedAt := clock w\<rparr>"
  have us: "users w' = updateWhere (\<lambda>u. u_id u = i) ?f (users w)" and pos: "uuidPos w \<le> uuidPos w'"
    and ck: "\<not> list_ex (superWithoutAdmin i f) (users w)" using assms(1) by (simp_all add: rewritten_def)
  have ids: "map u_id (users w') = map u_id (users w)"
    using assms(2) by (simp add: us updateWhere_def keepsAccount_def)
  moreover have "u_id ` set (users w') = u_id ` set (users w)" using ids by (metis set_map)
  moreover have "keepsAccount ?f" using assms(2) by (simp add: keepsAccount_def)
  then have "distinct (map u_email (liveUsers w'))"
    using live_emails_update [of ?f "users w"] assms(3) by (simp add: us live_defs accountsGood_def)
  moreover have "\<forall>u \<in> set (users w'). u_isSuperAdmin u \<longrightarrow> u_role u = ADMIN"
    using assms(3) ck by (auto simp: us in_updateWhere superWithoutAdmin_def list_ex_iff accountsGood_def)
  ultimately show ?thesis using assms(3) drawn_mono [OF pos, of L] by (auto simp: accountsGood_def)
qed

lemma good_joined:
  assumes "joined L rl w w'" and "inj (uuidTape L)" and "accountsGood L w"
  shows "accountsGood L w'"
proof -
  obtain u where u: "users w' = users w @ [u]" "u_id u = uuidTape L (uuidPos w)" "uuidPos w < uuidPos w'"
    "\<not> u_isSuperAdmin u" "\<forall>r \<in> set (liveUsers w). u_email r \<noteq> u_email u"
    using assms(1) by (auto simp: joined_def)
  have "u_id u \<notin> drawnIds L w" "u_id u \<in> drawnIds L w'"
    using drawn_new [OF assms(2)] u(2,3) by simp_all
  then show ?thesis
    using assms(3) u drawn_mono [of w w' L] by (auto simp: accountsGood_def live_defs)
qed

lemma good_revived:
  assumes "revived i w w'" and "accountsGood L w"
  shows "accountsGood L w'"
proof -
  let ?f = "\<lambda>u. u\<lparr>u_deletedAt := None, u_updatedAt := clock w\<rparr>"
  let ?P = "\<lambda>u. u_id u = i \<and> u_deletedAt u \<noteq> None"
  have us: "users w' = updateWhere ?P ?f (users w)" and free: "\<not> addressBack i w"
    and pos: "uuidPos w \<le> uuidPos w'" using assms(1) by (simp_all add: revived_def)
  have d: "distinct (map u_id (users w))" and e: "distinct (map u_email (liveUsers w))"
    using assms(2) by (simp_all add: accountsGood_def)
  have ids: "map u_id (users w') = map u_id (users w)" by (simp add: us updateWhere_def)
  have "distinct (map u_email (liveUsers w'))"
  proof (cases "\<exists>r \<in> set (users w). ?P r")
    case False
    then have "users w' = users w" by (simp add: us updateWhere_none countWhere_0)
    then show ?thesis using e by (simp add: live_defs)
  next
    case True
    then obtain r xs ys where r: "users w = xs @ r # ys" "?P r" by (metis split_list)
    have others: "\<forall>u \<in> set xs \<union> set ys. \<not> ?P u" using d r by (auto simp: image_iff)
    then have "updateWhere ?P ?f xs = xs" "updateWhere ?P ?f ys = ys"
      by (simp_all add: updateWhere_none countWhere_0)
    then have "users w' = xs @ ?f r # ys" using r(2) by (simp add: us r(1) updateWhere_def)
    moreover have "u_email r \<notin> u_email ` set (liveUsers w)"
      using free r by (auto simp: addressBack_def list_ex_iff)
    ultimately show ?thesis using e r by (auto simp: live_defs)
  qed
  moreover have "\<forall>u \<in> set (users w'). u_isSuperAdmin u \<longrightarrow> u_role u = ADMIN"
    using assms(2) by (auto simp: us in_updateWhere accountsGood_def)
  moreover have "u_id ` set (users w') = u_id ` set (users w)" using ids by (metis set_map)
  ultimately show ?thesis using d ids drawn_mono [OF pos, of L] assms(2) by (auto simp: accountsGood_def)
qed

section \<open>A super admin remains\<close>

lemma left_calm: "calm w w' \<Longrightarrow> superLeft w \<Longrightarrow> superLeft w'"
  by (simp add: calm_def superLeft_def)

lemma left_joined: "joined L rl w w' \<Longrightarrow> superLeft w \<Longrightarrow> superLeft w'"
  by (auto simp: joined_def superLeft_def)

lemma mem_updateWhere: "r \<in> set rows \<Longrightarrow> (if P r then f r else r) \<in> set (updateWhere P f rows)"
  unfolding updateWhere_def set_map by (rule imageI)

text \<open>Rewriting one account is harmless if it stays a super admin or another one is left.\<close>

lemma left_rewritten:
  assumes "rewritten i f w w'" and "superLeft w"
    and "(\<forall>u. activeSuper u \<longrightarrow> activeSuper (f u)) \<or> otherSuper i w"
  shows "superLeft w'"
proof -
  have us: "users w' = updateWhere (\<lambda>u. u_id u = i) (\<lambda>u. (f u)\<lparr>u_updatedAt := clock w\<rparr>) (users w)"
    using assms(1) by (simp add: rewritten_def)
  have stays: "activeSuper ((f u)\<lparr>u_updatedAt := clock w\<rparr>) = activeSuper (f u)" for u
    by (simp add: activeSuper_def)
  show ?thesis using assms(2,3)
  proof (elim disjE)
    assume "superLeft w" and keep: "\<forall>u. activeSuper u \<longrightarrow> activeSuper (f u)"
    then obtain u where u: "u \<in> set (users w)" "activeSuper u" by (auto simp: superLeft_def)
    then have "activeSuper (if u_id u = i then (f u)\<lparr>u_updatedAt := clock w\<rparr> else u)" using keep stays by simp
    then show ?thesis unfolding superLeft_def us
      using mem_updateWhere [OF u(1), of "\<lambda>u. u_id u = i" "\<lambda>u. (f u)\<lparr>u_updatedAt := clock w\<rparr>"] by blast
  next
    assume "otherSuper i w"
    then obtain u where u: "u \<in> set (users w)" "activeSuper u" "u_id u \<noteq> i" by (auto simp: otherSuper_def)
    then show ?thesis unfolding superLeft_def us
      using mem_updateWhere [OF u(1), of "\<lambda>u. u_id u = i" "\<lambda>u. (f u)\<lparr>u_updatedAt := clock w\<rparr>"] by auto
  qed
qed

text \<open>If the account is no super admin, the one that is left is another.\<close>

lemma another_super:
  assumes "accountsGood L w" and "superLeft w" and "t \<in> set (users w)" and "u_id t = i"
    and "u_isSuperAdmin t \<longrightarrow> otherSuper i w"
  shows "otherSuper i w"
proof (cases "u_isSuperAdmin t")
  case False
  obtain u where u: "u \<in> set (users w)" "activeSuper u" using assms(2) by (auto simp: superLeft_def)
  then have "u \<noteq> t" using False by (auto simp: activeSuper_def)
  then have "u_id u \<noteq> i" using assms(1,3,4) u(1) by (auto simp: accountsGood_def distinct_map dest: inj_onD)
  then show ?thesis using u by (auto simp: otherSuper_def)
qed (use assms(5) in simp)

lemma findUser_in: "findUser i w = Some t \<Longrightarrow> t \<in> set (users w) \<and> u_id t = i \<and> u_deletedAt t = None"
  by (auto simp: findUser_def live_defs dest: find_Some_in)

lemma live_in: "t \<in> set (liveUsers w) \<Longrightarrow> t \<in> set (users w)"
  by (simp add: live_defs)

definition keptStep :: "lib \<Rightarrow> world \<Rightarrow> world \<Rightarrow> bool" where
  "keptStep L w w' \<longleftrightarrow> (accountsGood L w \<and> superLeft w \<longrightarrow> accountsGood L w' \<and> superLeft w')"

lemma kept_calm: "calm w w' \<Longrightarrow> keptStep L w w'"
  by (simp add: keptStep_def good_calm left_calm)

lemma kept_joined: "joined L rl w w' \<Longrightarrow> inj (uuidTape L) \<Longrightarrow> keptStep L w w'"
  by (simp add: keptStep_def good_joined left_joined)

lemma kept_rewritten:
  assumes "rewritten i f w w'" and "keepsAccount f"
    and "(\<forall>u. activeSuper u \<longrightarrow> activeSuper (f u)) \<or>
      (\<exists>t. t \<in> set (users w) \<and> u_id t = i \<and> (u_isSuperAdmin t \<longrightarrow> otherSuper i w))"
  shows "keptStep L w w'"
  unfolding keptStep_def
proof
  assume I: "accountsGood L w \<and> superLeft w"
  then have "(\<forall>u. activeSuper u \<longrightarrow> activeSuper (f u)) \<or> otherSuper i w"
    using assms(3) another_super by blast
  then show "accountsGood L w' \<and> superLeft w'"
    using I good_rewritten [OF assms(1,2)] left_rewritten [OF assms(1)] by blast
qed

lemma kept_revived:
  assumes "revived i w w'"
  shows "keptStep L w w'"
proof -
  let ?P = "\<lambda>u. u_id u = i \<and> u_deletedAt u \<noteq> None" and ?f = "\<lambda>u. u\<lparr>u_deletedAt := None, u_updatedAt := clock w\<rparr>"
  have "superLeft w \<Longrightarrow> superLeft w'"
  proof -
    assume "superLeft w"
    then obtain u where u: "u \<in> set (users w)" "activeSuper u" by (auto simp: superLeft_def)
    have "u \<in> set (updateWhere ?P ?f (users w))"
      using mem_updateWhere [OF u(1), of ?P ?f] u(2) by (simp add: activeSuper_def)
    then show ?thesis using u(2) assms by (auto simp: superLeft_def revived_def)
  qed
  then show ?thesis using good_revived [OF assms] by (simp add: keptStep_def)
qed

lemma kept_step:
  assumes "inj (uuidTape L)"
  shows "keptStep L w (adminStep L cx a op w)"
proof (cases op)
  case (HireOfficer input)
  then show ?thesis using createOfficer_effect [OF refl, of w L input "actor.truncate a" cx] kept_calm
      kept_joined [OF _ assms] by auto
next
  case (ChangeRole i rl)
  have "keepsAccount (\<lambda>u. u\<lparr>u_role := rl\<rparr>)" "\<forall>u. activeSuper u \<longrightarrow> activeSuper (u\<lparr>u_role := rl\<rparr>)"
    by (simp_all add: keepsAccount_def activeSuper_def)
  then show ?thesis using updateRole_effect [OF refl, of w L i rl a cx] kept_calm kept_rewritten ChangeRole by auto
next
  case (ChangeStatus i st reason)
  have k: "keepsAccount (\<lambda>u. u\<lparr>u_status := st\<rparr>)" by (simp add: keepsAccount_def)
  have s: "st = ACTIVE \<Longrightarrow> \<forall>u. activeSuper u \<longrightarrow> activeSuper (u\<lparr>u_status := st\<rparr>)" by (simp add: activeSuper_def)
  have st: "st = ACTIVE \<or> st = BLOCKED" by (cases st) simp_all
  from updateStatus_effect [OF refl, of w L i st reason a cx] have "keptStep L w (snd (updateStatus L i st reason a cx w))"
    by (elim disjE exE conjE) (use kept_calm kept_rewritten [OF _ k] s st findUser_in in blast)+
  then show ?thesis using ChangeStatus by simp
next
  case (DropAdmin i)
  have k: "keepsAccount (\<lambda>u. u\<lparr>u_deletedAt := Some (clock w)\<rparr>)" by (simp add: keepsAccount_def)
  from removeAdmin_effect [OF refl, of w L i "actor.truncate a" cx]
  have "keptStep L w (snd (removeAdmin L i (actor.truncate a) cx w))"
    by (elim disjE exE conjE) (use kept_calm kept_rewritten [OF _ k] live_in in blast)+
  then show ?thesis using DropAdmin by simp
next
  case Leave
  have k: "keepsAccount (\<lambda>u. u\<lparr>u_deletedAt := Some (clock w)\<rparr>)" by (simp add: keepsAccount_def)
  from deleteMe_effect [OF refl, of w L "a_id a" cx]
  have "keptStep L w (snd (deleteMe L (a_id a) cx w))"
    by (elim disjE exE conjE) (use kept_calm kept_rewritten [OF _ k] findUser_in in blast)+
  then show ?thesis using Leave by simp
next
  case (EditMe input)
  have "keepsAccount (patchMe input)" "\<forall>u. activeSuper u \<longrightarrow> activeSuper (patchMe input u)"
    by (simp_all add: keepsAccount_def activeSuper_def patchMe_def)
  then show ?thesis using updateMe_effect [OF refl, of w "a_id a" input] kept_calm kept_rewritten EditMe by auto
next
  case (HireAdmin input)
  then show ?thesis using adminInsert_effect [OF refl, of w L input "actor.truncate a" cx] kept_calm
      kept_joined [OF _ assms] by auto
next
  case (Restore e i)
  then show ?thesis using restore_effect [OF refl, of w L e i "actor.truncate a" cx] kept_calm kept_revived by auto
next
  case (ForceLogout i)
  then show ?thesis using forceLogout_calm [of L i a cx] kept_calm by (auto simp: related_def)
next
  case (ChangeSetting k v)
  then show ?thesis using updateSetting_calm [of L k v "actor.truncate a" cx] kept_calm by (auto simp: related_def)
qed

lemma kept_run:
  assumes "inj (uuidTape L)"
  shows "keptStep L w (adminRun L cx reqs w)"
proof (induction reqs arbitrary: w)
  case (Cons r reqs)
  obtain a op where r: "r = (a, op)" by (cases r)
  show ?case using Cons [of "if routed a op then adminStep L cx a op w else w"] kept_step [OF assms, of w cx a op]
    by (auto simp: adminRun_def r keptStep_def)
qed (simp add: adminRun_def keptStep_def)

section \<open>The properties\<close>

text \<open>Karima runs the console alone, with Rahim among the citizens.\<close>

definition office :: world where
  "office = empty_world\<lparr>uuidPos := 1, users := [(karima True)\<lparr>u_id := []\<rparr>]\<rparr>"

definition boss :: adminActor where
  "boss = \<lparr>a_id = [], a_role = ADMIN, a_departmentId = None, a_email = ''k@x.bd'', a_name = ''Karima'',
     a_isSuperAdmin = True\<rparr>"

lemma office_good: "accountsGood authLib office" "superLeft office"
  by (simp_all add: accountsGood_def superLeft_def activeSuper_def office_def empty_world_def live_defs drawnIds_def)



section \<open>Rank\<close>

text \<open>How the admins of one state carry over to a later one, when no super admin acts.\<close>

definition sameAdmins :: "(adminActor \<times> adminOp) list \<Rightarrow> world \<Rightarrow> world \<Rightarrow> bool" where
  "sameAdmins reqs w w' \<longleftrightarrow>
     (\<forall>u' \<in> set (users w'). u_role u' = ADMIN \<longrightarrow>
        (\<exists>u \<in> set (users w). u_id u = u_id u' \<and> u_role u = ADMIN)) \<and>
     (\<forall>u \<in> set (users w). u_role u = ADMIN \<longrightarrow>
        (\<exists>u' \<in> set (users w'). u_id u' = u_id u \<and> u_role u' = ADMIN \<and> u_status u' = u_status u \<and>
           (u_deletedAt u' = u_deletedAt u \<or> (\<exists>a. (a, Leave) \<in> set reqs \<and> a_id a = u_id u))))"

lemma sameAdmins_rewritten:
  assumes "rewritten i f w w'"
    and "\<And>u. u \<in> set (users w) \<Longrightarrow> u_id u = i \<Longrightarrow> u_id (f u) = i \<and>
      (u_role (f u) = ADMIN \<longleftrightarrow> u_role u = ADMIN) \<and> (u_role u = ADMIN \<longrightarrow> u_status (f u) = u_status u \<and>
      (u_deletedAt (f u) = u_deletedAt u \<or> (\<exists>a. (a, Leave) \<in> set reqs \<and> a_id a = u_id u)))"
  shows "sameAdmins reqs w w'"
proof -
  let ?f = "\<lambda>u. (f u)\<lparr>u_updatedAt := clock w\<rparr>"
  have us: "users w' = updateWhere (\<lambda>u. u_id u = i) ?f (users w)" using assms(1) by (simp add: rewritten_def)
  have "\<exists>u' \<in> set (users w'). u_id u' = u_id u \<and> u_role u' = ADMIN \<and> u_status u' = u_status u \<and>
      (u_deletedAt u' = u_deletedAt u \<or> (\<exists>a. (a, Leave) \<in> set reqs \<and> a_id a = u_id u))"
    if "u \<in> set (users w)" "u_role u = ADMIN" for u
    unfolding us by (rule bexI [OF _ mem_updateWhere [OF that(1)]]) (use that assms(2) [OF that(1)] in auto)
  moreover have "\<exists>u \<in> set (users w). u_id u = u_id u' \<and> u_role u = ADMIN"
    if u': "u' \<in> set (users w')" and rl: "u_role u' = ADMIN" for u'
  proof -
    obtain u where u: "u \<in> set (users w)" "u' = (if u_id u = i then ?f u else u)"
      using u' unfolding us updateWhere_def set_map by blast
    then have "u_id u = u_id u' \<and> u_role u = ADMIN"
      using assms(2) [OF u(1)] rl by (cases "u_id u = i") auto
    then show ?thesis using u(1) by blast
  qed
  ultimately show ?thesis by (simp add: sameAdmins_def)
qed

lemma sameAdmins_calm: "calm w w' \<Longrightarrow> sameAdmins reqs w w'"
  by (auto simp: sameAdmins_def calm_def)

lemma sameAdmins_step:
  assumes "accountsGood L w" and "\<not> a_isSuperAdmin a" and "routed a op"
  shows "sameAdmins [(a, op)] w (adminStep L cx a op w)"
proof -
  have only: "u = t" if "u \<in> set (users w)" "findUser i w = Some t" "u_id u = i" for u t i
    using that findUser_in [OF that(2)] assms(1) by (auto simp: accountsGood_def distinct_map dest: inj_onD)
  show ?thesis
  proof (cases op)
    case (HireOfficer input)
    have "joined L OFFICER w w' \<Longrightarrow> sameAdmins [(a, op)] w w'" for w'
      by (auto simp: joined_def sameAdmins_def)
    then show ?thesis using createOfficer_effect [OF refl, of w L input "actor.truncate a" cx] sameAdmins_calm HireOfficer
      by auto
  next
    case (ChangeRole i rl)
    from updateRole_effect [OF refl, of w L i rl a cx] have "sameAdmins [(a, op)] w (snd (updateRole L i rl a cx w))"
    proof (elim disjE exE conjE)
      fix t assume t: "findUser i w = Some t" "mayManage t a" "rl = ADMIN \<longrightarrow> a_isSuperAdmin a"
        and r: "rewritten i (\<lambda>u. u\<lparr>u_role := rl\<rparr>) w (snd (updateRole L i rl a cx w))"
      show ?thesis by (rule sameAdmins_rewritten [OF r]) (use only t assms(2) in \<open>auto simp: mayManage_def\<close>)
    qed (rule sameAdmins_calm)
    then show ?thesis using ChangeRole by simp
  next
    case (ChangeStatus i st reason)
    from updateStatus_effect [OF refl, of w L i st reason a cx]
    have "sameAdmins [(a, op)] w (snd (updateStatus L i st reason a cx w))"
    proof (elim disjE exE conjE)
      fix t assume t: "findUser i w = Some t" "mayManage t a"
        and r: "rewritten i (\<lambda>u. u\<lparr>u_status := st\<rparr>) w (snd (updateStatus L i st reason a cx w))"
      show ?thesis by (rule sameAdmins_rewritten [OF r]) (use only t assms(2) in \<open>auto simp: mayManage_def\<close>)
    qed (rule sameAdmins_calm)
    then show ?thesis using ChangeStatus by simp
  next
    case (ForceLogout i)
    then show ?thesis using forceLogout_calm [of L i a cx] sameAdmins_calm by (auto simp: related_def)
  next
    case (EditMe input)
    from updateMe_effect [OF refl, of w "a_id a" input] have "sameAdmins [(a, op)] w (snd (updateMe (a_id a) input w))"
    proof (elim disjE)
      assume r: "rewritten (a_id a) (patchMe input) w (snd (updateMe (a_id a) input w))"
      show ?thesis by (rule sameAdmins_rewritten [OF r]) (simp add: patchMe_def)
    qed (rule sameAdmins_calm)
    then show ?thesis using EditMe by simp
  next
    case Leave
    from deleteMe_effect [OF refl, of w L "a_id a" cx] have "sameAdmins [(a, op)] w (snd (deleteMe L (a_id a) cx w))"
    proof (elim disjE exE conjE)
      assume r: "rewritten (a_id a) (\<lambda>u. u\<lparr>u_deletedAt := Some (clock w)\<rparr>) w (snd (deleteMe L (a_id a) cx w))"
      show ?thesis by (rule sameAdmins_rewritten [OF r]) (auto simp: Leave)
    qed (rule sameAdmins_calm)
    then show ?thesis using Leave by simp
  qed (use assms(2,3) in simp_all)
qed

lemma sameAdmins_trans:
  assumes "sameAdmins xs u v" and "sameAdmins ys v w"
  shows "sameAdmins (xs @ ys) u w"
  using assms unfolding sameAdmins_def set_append Un_iff by (metis (no_types, lifting))

lemma sameAdmins_run:
  assumes "inj (uuidTape L)" and "\<forall>(a, op) \<in> set reqs. \<not> a_isSuperAdmin a" and "accountsGood L w" and "superLeft w"
  shows "sameAdmins reqs w (adminRun L cx reqs w)"
  using assms(2-4)
proof (induction reqs arbitrary: w)
  case Nil
  then show ?case by (auto simp: adminRun_def sameAdmins_def)
next
  case (Cons r reqs)
  obtain a op where r: "r = (a, op)" by (cases r)
  let ?w = "if routed a op then adminStep L cx a op w else w"
  have "sameAdmins [(a, op)] w ?w"
    using sameAdmins_step [OF Cons.prems(2), of a op cx] Cons.prems(1) sameAdmins_calm [OF cm.refl]
    by (auto simp: r)
  moreover have "accountsGood L ?w \<and> superLeft ?w"
    using kept_step [OF assms(1), of w cx a op] Cons.prems by (simp add: keptStep_def)
  then have "sameAdmins reqs ?w (adminRun L cx reqs ?w)" using Cons by simp
  ultimately have "sameAdmins ([(a, op)] @ reqs) w (adminRun L cx reqs ?w)" by (rule sameAdmins_trans)
  then show ?case by (simp add: adminRun_def r)
qed

text \<open>Karima's colleague without the flag.\<close>

definition clerk :: adminActor where
  "clerk = boss\<lparr>a_id := ''cl'', a_isSuperAdmin := False\<rparr>"



section \<open>Blocking\<close>

lemma statusCommit_Inr:
  assumes "fst (statusCommit L i st reason t a cx w) = Inr v"
  shows "rewritten i (\<lambda>u. u\<lparr>u_status := st\<rparr>) w (snd (statusCommit L i st reason t a cx w))"
  using assms by (auto simp: statusCommit_def commit_run split: option.splits if_splits)

lemma blocked_rows:
  assumes "updateStatus L i BLOCKED reason a cx w = (Inr v, w')"
  shows "\<forall>u \<in> set (users w'). u_id u = i \<longrightarrow> u_status u = BLOCKED" and "allRevoked i w'"
proof -
  obtain t v1 w0 w1 x where t: "statusCommit L i BLOCKED reason t a cx w0 = (Inr v1, w1)"
    and rest: "whenM (BLOCKED = BLOCKED) (thenM (revokeAllSessions i ADMIN_REVOKED) (returnM ())) w1 = (Inr x, w')"
    using assms unfolding updateStatus_def
    by (elim bindM_InrE thenM_InrE getsM_InrE orThrow_InrE returnM_InrE) metis
  have us: "users w1 = updateWhere (\<lambda>u. u_id u = i) (\<lambda>u. (u\<lparr>u_status := BLOCKED\<rparr>)\<lparr>u_updatedAt := clock w0\<rparr>) (users w0)"
    using statusCommit_Inr [of L i BLOCKED reason t a cx w0 v1] t by (simp add: rewritten_def)
  have "\<forall>u \<in> set (users w1). u_id u = i \<longrightarrow> u_status u = BLOCKED"
    unfolding us by (rule updateWhere_all) simp
  moreover obtain n where rev: "revokeAllSessions i ADMIN_REVOKED w1 = (Inr n, w')" and "allRevoked i w'"
    using rest by (rule_tac run_revokeAllSessions [of i ADMIN_REVOKED w1]) (auto simp: run_when run_then run_return)
  moreover have "users w' = users w1" using relatedD [OF cm_small(9) rev] by (simp add: calm_def)
  ultimately show "\<forall>u \<in> set (users w'). u_id u = i \<longrightarrow> u_status u = BLOCKED" and "allRevoked i w'" by simp_all
qed

lemma authUser_user:
  assumes "authUser p w = (Inr s, w')"
  shows "si_user s \<in> set (users w) \<and> u_status (si_user s) \<noteq> BLOCKED"
  using assms unfolding authUser_def
  by (cases "find (\<lambda>u. u_id u = ap_sub p) (liveUsers w)")
    (auto simp: eval live_defs dest!: find_Some_in split: if_splits)

lemma auth_user:
  assumes "fst (auth verify header w) = Inr s"
  shows "si_user s \<in> set (users w) \<and> u_status (si_user s) \<noteq> BLOCKED"
proof -
  obtain w' where "auth verify header w = (Inr s, w')" using assms by (metis prod.collapse)
  then obtain p r where "authUser p (w\<lparr>redis := r\<rparr>) = (Inr s, w')" by (rule auth_InrE)
  from authUser_user [OF this] show ?thesis by simp
qed

lemma liveUser_user:
  assumes "liveUser i w = (Inr u, w')"
  shows "w' = w \<and> u \<in> set (users w)"
  using assms unfolding liveUser_def
  by (elim bindM_InrE getsM_InrE orThrow_InrE) (auto simp: live_defs dest: find_Some_in [OF sym])

lemma refresh_user:
  assumes "fst (refresh L token cx w) = Inr t"
  shows "\<exists>u \<in> set (users w). u_id u = pu_id (tk_user t) \<and> u_status u \<noteq> BLOCKED"
proof -
  obtain w' where r: "refresh L token cx w = (Inr t, w')" using assms by (metis prod.collapse)
  obtain row where row: "find (\<lambda>t. rt_tokenHash t = sha256 L token) (refreshTokens w) = Some row"
    "rt_revokedAt row = None"
    using r by (cases "find (\<lambda>t. rt_tokenHash t = sha256 L token) (refreshTokens w)")
      (auto simp: refresh_def eval split: if_splits prod.splits sum.splits)
  have "bindM (getsM (\<lambda>w. sessionOf w row)) (\<lambda>s'.
       bindM (orThrow (OtherErr ''session'') s') (\<lambda>s.
       bindM (getsM clock) (\<lambda>now.
       thenM (throwIf (rt_expiresAt row < now \<or> se_revokedAt s \<noteq> None \<or> se_expiresAt s < now)
         (apiError 401 ''Refresh token expired'' [det ''TOKEN_EXPIRED'' ''Refresh token expired'']))
       (bindM (liveUser (rt_userId row)) (\<lambda>u.
        thenM (throwIf (u_status u = BLOCKED)
          (apiError 403 ''Account is blocked'' [detC ''ACCOUNT_BLOCKED'']))
        (bindM (signAccessToken L (u_id u) (u_role u) (rt_sessionId row)) (\<lambda>accessToken.
         bindM (signRefreshToken L (u_id u) (rt_sessionId row)) (\<lambda>refreshToken.
         thenM (rotate L refreshToken u row s)
         (returnM \<lparr>tk_accessToken = accessToken, tk_refreshToken = refreshToken,
                   tk_user = publicUserOf u\<rparr>))))))))) w = (Inr t, w')"
    using r row by (simp add: refresh_def run_bind run_gets run_orThrow)
  then obtain u v1 where "liveUser (rt_userId row) w = (Inr u, v1)" "u_status u \<noteq> BLOCKED"
    "tk_user t = publicUserOf u"
    by (elim bindM_InrE thenM_InrE getsM_InrE orThrow_InrE throwIf_InrE returnM_InrE) simp
  then show ?thesis using liveUser_user by (auto simp: publicUserOf_def)
qed

text \<open>C21: Blocking an account locks it out at once: all its sessions and refresh tokens are revoked, no
  access token, however it is verified, lets the account through \<open>auth\<close>, and no refresh token gets it a
  new one.\<close>

theorem blocked_accounts_are_locked_out:
  assumes "updateStatus L i BLOCKED reason a cx w = (Inr v, w')"
  shows "(\<forall>verify header s. fst (auth verify header w') = Inr s \<longrightarrow> u_id (si_user s) \<noteq> i) \<and>
    (\<forall>token cx2 t. fst (refresh L token cx2 w') = Inr t \<longrightarrow> pu_id (tk_user t) \<noteq> i) \<and>
    allRevoked i w'"
  using blocked_rows [OF assms] auth_user refresh_user by blast

theorem blocked_accounts_are_locked_out_witness:
  "\<exists>v w'. updateStatus authLib ''cit'' BLOCKED None boss browser (atDoor False) = (Inr v, w') \<and>
     (\<forall>verify header s. fst (auth verify header w') = Inr s \<longrightarrow> u_id (si_user s) \<noteq> ''cit'')"
proof -
  have "\<exists>v w'. updateStatus authLib ''cit'' BLOCKED None boss browser (atDoor False) = (Inr v, w')"
    by (simp add: updateStatus_def findUser_def live_defs assertMayManage_def statusCommit_def eval
        run_updateUser superWithoutAdmin_def revokeAllSessions_def invalidate_def redisDel_def redisCmd_def boss_def)
  then show ?thesis using blocked_accounts_are_locked_out by blast
qed

end
