(* ===== verification/Atomic.thy ===== *)
theory Atomic
  imports ComplaintFacts Profile Rbac
begin

text \<open>
  What a failed request leaves behind: the calculus of operations that either succeed or write nothing
  to the database, and the operations it applies to.
\<close>

section \<open>All or nothing\<close>

text \<open>Only what is not in the database has changed: Redis, the setting cache, mails, metrics, random draws.\<close>

definition offTables :: "world \<Rightarrow> world \<Rightarrow> bool" where
  "offTables w w' \<longleftrightarrow> w' = undoTx w w'"

definition allOrNothing :: "'a act \<Rightarrow> bool" where
  "allOrNothing m \<longleftrightarrow> (\<forall>w e w'. m w = (Inl e, w') \<longrightarrow> offTables w w')"

definition neverFails :: "'a act \<Rightarrow> bool" where
  "neverFails m \<longleftrightarrow> (\<forall>w. \<exists>x w'. m w = (Inr x, w'))"

lemma undoTx_absorb [simp]: "undoTx (undoTx w v) x = undoTx w x" "undoTx w (undoTx w x) = undoTx w x"
  by (simp_all add: undoTx_def)

interpretation ot: step_preorder offTables undoTx
proof unfold_locales
  fix u v w
  show "offTables w w" by (simp add: offTables_def)
  show "offTables w v \<Longrightarrow> offTables w (undoTx w v)" by (simp add: offTables_def)
  assume "offTables u v" "offTables v w"
  then have "w = undoTx (undoTx u v) w" unfolding offTables_def by metis
  then show "offTables u w" by (simp add: offTables_def)
qed

lemma ot_ro: "related (=) m \<Longrightarrow> related offTables m"
  by (simp add: related_def offTables_def)

lemma nf_return: "neverFails (returnM x)" and nf_gets: "neverFails (getsM f)"
  and nf_insert: "neverFails (insertRow put r)" and nf_modify: "neverFails (modifyM g)"
  and nf_updateMany: "neverFails (updateMany sel put P h)" and nf_deleteMany: "neverFails (deleteMany sel put P)"
  and nf_freshId: "neverFails (freshId L)" and nf_audit: "neverFails (audit L a b c d e j cx)"
  by (simp_all add: neverFails_def eval)

lemma nf_bind: "neverFails m \<Longrightarrow> (\<And>x. neverFails (f x)) \<Longrightarrow> neverFails (bindM m f)"
  unfolding neverFails_def
proof
  fix w assume "\<forall>w. \<exists>x w'. m w = (Inr x, w')" and f: "\<And>x. \<forall>w. \<exists>y w'. f x w = (Inr y, w')"
  then obtain x v where "m w = (Inr x, v)" by blast
  moreover obtain y v' where "f x v = (Inr y, v')" using f by blast
  ultimately show "\<exists>x w'. bindM m f w = (Inr x, w')" by (simp add: eval)
qed

lemma nf_then: "neverFails m \<Longrightarrow> neverFails k \<Longrightarrow> neverFails (thenM m k)"
  unfolding thenM_def by (rule nf_bind)

lemma nf_orElse: "neverFails (orElse m x)"
  by (simp add: neverFails_def orElse_def eval split: prod.split sum.split)

lemma nf_when: "neverFails m \<Longrightarrow> neverFails (whenM b m)"
  by (simp add: whenM_def nf_return)

lemma nf_transaction: "neverFails m \<Longrightarrow> neverFails (transaction m)"
  unfolding neverFails_def
proof
  fix w assume "\<forall>w. \<exists>x w'. m w = (Inr x, w')"
  then obtain x v where "m w = (Inr x, v)" by blast
  then show "\<exists>x w'. transaction m w = (Inr x, w')" by (simp add: run_transaction)
qed

lemma nf_option: "neverFails n \<Longrightarrow> (\<And>v. neverFails (f v)) \<Longrightarrow> neverFails (case x of None \<Rightarrow> n | Some v \<Rightarrow> f v)"
  by (simp split: option.split)

lemma nf_if: "neverFails m \<Longrightarrow> neverFails k \<Longrightarrow> neverFails (if b then m else k)"
  by simp

lemma nf_prod: "(\<And>a b. neverFails (f a b)) \<Longrightarrow> neverFails (case x of (a, b) \<Rightarrow> f a b)"
  by (simp split: prod.split)

lemma nf_dispatch: "neverFails (dispatchEmail m)"
  unfolding dispatchEmail_def by (rule nf_orElse)

lemma nf_notify: "neverFails (notify L u t b m)"
  unfolding notify_def by (simp add: neverFails_def eval)

lemma nf_invalidate: "neverFails (invalidate ks)" "neverFails invalidateAllPermissions"
  unfolding invalidate_def invalidateAllPermissions_def by (intro nf_when nf_orElse)+

lemmas nf_intros = nf_return nf_gets nf_insert nf_modify nf_updateMany nf_deleteMany nf_freshId nf_audit nf_bind
  nf_then nf_orElse nf_when nf_transaction nf_option nf_prod nf_if nf_dispatch nf_notify nf_invalidate

lemma aon_never: "neverFails m \<Longrightarrow> allOrNothing m"
  unfolding neverFails_def allOrNothing_def by (metis Inl_Inr_False prod.inject)

lemma aon_off: "related offTables m \<Longrightarrow> allOrNothing m"
  by (auto simp: allOrNothing_def dest: relatedD)

lemma aon_transaction: "allOrNothing (transaction m)"
  by (auto simp: allOrNothing_def offTables_def eval split: prod.splits sum.splits)

lemma aon_bind:
  assumes "related offTables m" and "\<And>x. allOrNothing (f x)"
  shows "allOrNothing (bindM m f)"
  unfolding allOrNothing_def
proof (intro allI impI)
  fix w e w' assume run: "bindM m f w = (Inl e, w')"
  obtain r v where m: "m w = (r, v)" by (cases "m w")
  then have "offTables w v" using relatedD [OF assms(1)] by blast
  then show "offTables w w'"
    using run m assms(2) by (cases r) (auto simp: eval allOrNothing_def intro: ot.trans)
qed

lemma aon_then: "related offTables m \<Longrightarrow> allOrNothing k \<Longrightarrow> allOrNothing (thenM m k)"
  unfolding thenM_def by (rule aon_bind)

lemma aon_bind_last: "allOrNothing m \<Longrightarrow> (\<And>x. neverFails (f x)) \<Longrightarrow> allOrNothing (bindM m f)"
  unfolding allOrNothing_def
proof (intro allI impI)
  fix w e w' assume m: "\<forall>w e w'. m w = (Inl e, w') \<longrightarrow> offTables w w'" and f: "\<And>x. neverFails (f x)"
    and run: "bindM m f w = (Inl e, w')"
  obtain r v where r: "m w = (r, v)" by (cases "m w")
  show "offTables w w'"
  proof (cases r)
    case (Inr x)
    obtain y v' where "f x v = (Inr y, v')" using f [of x] unfolding neverFails_def by blast
    with run r Inr show ?thesis by (simp add: eval)
  qed (use run r m in \<open>simp add: eval\<close>)
qed

lemma aon_then_last: "allOrNothing m \<Longrightarrow> neverFails k \<Longrightarrow> allOrNothing (thenM m k)"
  unfolding thenM_def by (rule aon_bind_last)

lemma nf_more: "neverFails (logSecurity L u e ty cx)" "neverFails (revokeAllSessions i reason)" "neverFails (selectById c)"
proof -
  show "neverFails (revokeAllSessions i reason)"
    unfolding neverFails_def by (metis run_revokeAllSessions)
qed (auto simp: logSecurity_def selectById_def intro!: nf_intros)

section \<open>Reads before the first write\<close>

lemma ot_small: "related offTables (freshId L)" "related offTables (randomToken L)" "related offTables (liftE r)"
  by (simp_all add: related_def offTables_def undoTx_def eval randomToken_def split: sum.split)

lemma ot_getSetting: "related offTables (getSetting L k)"
proof -
  have "offTables w (snd (getSetting L k w))" for w
    by (rule getSetting_cases [of L k w]) (simp add: offTables_def undoTx_def)
  then show ?thesis by (simp add: related_def)
qed

lemmas ot_reads = ot_ro [OF sel_getOrThrow] ot_ro [OF ro_assertOwner] ot_ro [OF ro_assertCanRead]
  ot_ro [OF ro_changeStatusGuard] ot_ro [OF ro_assignGuard] ot_getSetting ot_small

text \<open>The shape of a request: reads, then one transaction, then steps that cannot fail.\<close>

lemma aon_commit:
  "(\<And>x. neverFails (f x)) \<Longrightarrow> allOrNothing (bindM (transaction m) f)"
  "neverFails k \<Longrightarrow> allOrNothing (thenM (transaction m) k)"
  by (intro aon_bind_last aon_then_last aon_transaction; blast)+

lemma aon_insert:
  "allOrNothing (insertRow put r)"
  "(\<And>x. neverFails (f x)) \<Longrightarrow> allOrNothing (bindM (insertRow put r) f)"
  "(\<And>n. neverFails (g n)) \<Longrightarrow> allOrNothing (bindM (revokeAllSessions i reason) g)"
  by (intro aon_never nf_bind nf_insert nf_more; blast)+

lemmas aon_intros = aon_insert aon_commit aon_bind aon_then aon_transaction ot.rel_intros ot_reads nf_intros nf_more

section \<open>Complaints\<close>

lemma aon_changeStatus: "allOrNothing (changeStatus L i tgt note a cx)"
  unfolding changeStatus_def changeStatusCommit_def applyStatusChange_def by (intro aon_intros)

lemma aon_complaints:
  "allOrNothing (create L input a cx)" "allOrNothing (update L i patch a cx)" "allOrNothing (softDelete L i a cx)"
  "allOrNothing (cancel L i note a cx)" "allOrNothing (reopen L i note a cx)" "allOrNothing (assign L i ask a cx)"
  "allOrNothing (addAttachment L i up kind a)" "allOrNothing (addComment L i body internal a)"
  "allOrNothing (upvote L i a)"
proof -
  show "allOrNothing (create L input a cx)"
    unfolding create_def createTx_def findNearbyDuplicate_def by (intro aon_intros)
  show "allOrNothing (update L i patch a cx)" "allOrNothing (softDelete L i a cx)"
    unfolding update_def softDelete_def by (intro aon_intros)+
  show "allOrNothing (cancel L i note a cx)" unfolding cancel_def by (rule aon_changeStatus)
  show "allOrNothing (reopen L i note a cx)"
    unfolding reopen_def reopenGuard_def by (intro aon_changeStatus aon_intros)
  show "allOrNothing (assign L i ask a cx)"
    unfolding assign_def assignCommit_def Let_def by (intro aon_bind ot_reads) (auto intro!: aon_intros)
  show "allOrNothing (addAttachment L i up kind a)" "allOrNothing (addComment L i body internal a)"
    unfolding addAttachment_def addComment_def Let_def by (intro aon_intros)+
  show "allOrNothing (upvote L i a)"
    unfolding upvote_def upvoteTx_def by (intro aon_intros)
qed

section \<open>Accounts and access\<close>

lemma aon_access:
  "allOrNothing (createPermission L np b cx)" "allOrNothing (updatePermission L i xp b cx)"
  "allOrNothing (deletePermission L i b cx)" "allOrNothing (createRole L nr b cx)"
  "allOrNothing (updateAccessRole L i ur b cx)" "allOrNothing (deleteRole L i b cx)"
proof -
  have exist: "related offTables (assertPermissionsExist js)" "related offTables (assertRolesExist js)" for js
    unfolding assertPermissionsExist_def assertRolesExist_def by (intro ot.rel_intros)+
  note ins = aon_intros exist
  show "allOrNothing (createPermission L np b cx)" unfolding createPermission_def by (intro ins)
  show "allOrNothing (updatePermission L i xp b cx)" unfolding updatePermission_def by (intro ins)
  show "allOrNothing (deletePermission L i b cx)" unfolding deletePermission_def by (intro ins)
  show "allOrNothing (createRole L nr b cx)" unfolding createRole_def by (intro ins)
  show "allOrNothing (updateAccessRole L i ur b cx)" unfolding updateAccessRole_def by (intro ins)
  show "allOrNothing (deleteRole L i b cx)" unfolding deleteRole_def by (intro ins)
qed

lemma aon_accounts:
  "allOrNothing (createOfficer L officer a cx)" "allOrNothing (updateRole L i rl s cx)"
  "allOrNothing (updateStatus L i st note s cx)" "allOrNothing (forceLogout L i s cx)"
  "allOrNothing (createAdmin L adm a cx)" "allOrNothing (removeAdmin L i a cx)"
  "allOrNothing (restore L entity i a cx)" "allOrNothing (deleteMe L i cx)"
proof -
  have reads: "related offTables (assertMayManage u s)" "related offTables (assertFreeEmail e)" for u s e
    unfolding assertMayManage_def assertFreeEmail_def by (intro ot.rel_intros)+
  note ins = aon_intros reads
  have leave: "allOrNothing (leaveCommit L i cx)" unfolding leaveCommit_def by (intro ins)
  show "allOrNothing (createOfficer L officer a cx)" unfolding createOfficer_def officerCommit_def by (intro ins)
  show "allOrNothing (updateRole L i rl s cx)" unfolding updateRole_def roleCommit_def by (intro ins)
  show "allOrNothing (updateStatus L i st note s cx)" unfolding updateStatus_def statusCommit_def by (intro ins)
  show "allOrNothing (forceLogout L i s cx)" unfolding forceLogout_def by (intro ins)
  show "allOrNothing (createAdmin L adm a cx)" unfolding createAdmin_def by (intro ins)
  show "allOrNothing (removeAdmin L i a cx)" unfolding removeAdmin_def removeCommit_def by (intro ins)
  show "allOrNothing (restore L entity i a cx)" unfolding restore_def invalidateMasterData_def by (intro ins)
  show "allOrNothing (deleteMe L i cx)" unfolding deleteMe_def by (intro aon_then_last [OF leave] ins)
qed

section \<open>The property\<close>


end
