(* ===== verification/Endpoints.thy ===== *)
theory Endpoints
  imports Handlers SlaChecker Payment
begin

text \<open>
  The two endpoints a client may repeat, with the middlewares the routes put before them after
  \<^verbatim>\<open>auth\<close>: \<^verbatim>\<open>POST /complaints\<close> and \<^verbatim>\<open>POST /payments/initiate\<close> (\<^verbatim>\<open>complaint.route.ts\<close>,
  \<^verbatim>\<open>payment.route.ts\<close> and their controllers). What express and zod supply is a parameter: the parsed body
  and the JSON of an answer.
\<close>

section \<open>Controllers\<close>

text \<open>The parameters of this layer: the schemas, the JSON of the answers, and the error handler's settings.\<close>

record edge =
  parseComplaint :: "json \<Rightarrow> (string \<times> string) list + createInput"
  parseInitiate :: "json \<Rightarrow> (string \<times> string) list + string"
  complaintAnswer :: "complaint \<times> nearbyHint option \<Rightarrow> json"
  initiateAnswer :: "initiated \<Rightarrow> json"
  inProduction :: bool
  stackOf :: "exn \<Rightarrow> string option"

definition createHandler :: "lib \<Rightarrow> edge \<Rightarrow> createInput \<Rightarrow> user option \<Rightarrow> ctx \<Rightarrow> response act" where
  "createHandler L E body user cx =
     bindM (requireUser user) (\<lambda>u.
     bindM (create L body (toActor u) cx) (\<lambda>data.
     returnM (sendResponse (Some 201) ''Complaint submitted successfully'' (Some (complaintAnswer E data)) None)))"

definition initiateHandler :: "lib \<Rightarrow> gateway \<Rightarrow> edge \<Rightarrow> string \<Rightarrow> user option \<Rightarrow> ctx \<Rightarrow> response act" where
  "initiateHandler L G E serviceRequestId user cx =
     bindM (requireUser user) (\<lambda>u.
     bindM (initiate L G (u_id u) serviceRequestId cx) (\<lambda>data.
     returnM (sendResponse (Some 201) ''Payment session created'' (Some (initiateAnswer E data)) None)))"

section \<open>Endpoints\<close>

text \<open>The validated body as the idempotency middleware hashes it, in the order of the schema.\<close>

definition optField :: "string \<Rightarrow> real option \<Rightarrow> (string \<times> json) list" where
  "optField f x = (case x of None \<Rightarrow> [] | Some v \<Rightarrow> [(f, JNum v)])"

definition complaintBody :: "createInput \<Rightarrow> json" where
  "complaintBody i = JObj
     ([(''title'', JStr (ci_title i)), (''description'', JStr (ci_description i)),
       (''categoryId'', JStr (ci_categoryId i)), (''wardId'', JStr (ci_wardId i)),
       (''address'', JStr (ci_address i))] @
      optField ''latitude'' (ci_latitude i) @ optField ''longitude'' (ci_longitude i))"

definition initiateBody :: "string \<Rightarrow> json" where
  "initiateBody serviceRequestId = JObj [(''serviceRequestId'', JStr serviceRequestId)]"

definition failWith :: "edge \<Rightarrow> string \<Rightarrow> exn \<Rightarrow> response" where
  "failWith E requestId e = globalErrorHandler (inProduction E) requestId e (stackOf E e)"

definition postComplaint ::
  "lib \<Rightarrow> edge \<Rightarrow> string \<Rightarrow> string option \<Rightarrow> user option \<Rightarrow> json \<Rightarrow> ctx \<Rightarrow> response act" where
  "postComplaint L E requestId header user body cx =
     thenM (authorize [CITIZEN] user)
     (bindM (validateRequest (parseComplaint E) body) (\<lambda>input.
      idempotency L (failWith E requestId) ''POST /complaints'' header (map_option u_id user)
        (complaintBody input) (createHandler L E input user cx)))"

text \<open>The limiter before the validation is left out: it only ever answers 429 instead.\<close>

definition postInitiate ::
  "lib \<Rightarrow> gateway \<Rightarrow> edge \<Rightarrow> string \<Rightarrow> string option \<Rightarrow> user option \<Rightarrow> json \<Rightarrow> ctx \<Rightarrow> response act" where
  "postInitiate L G E requestId header user body cx =
     thenM (authorize [CITIZEN] user)
     (bindM (validateRequest (parseInitiate E) body) (\<lambda>serviceRequestId.
      idempotency L (failWith E requestId) ''POST /payments/initiate'' header (map_option u_id user)
        (initiateBody serviceRequestId) (initiateHandler L G E serviceRequestId user cx)))"

end
