(* ===== verification/EdgeProps.thy ===== *)
theory EdgeProps
  imports Endpoints Fixtures
begin

text \<open>
  Repeating a request: the two endpoints with an idempotency key, in any order with each other and
  with the purge, and what a repetition does.
\<close>

section \<open>The rows of the keys\<close>

text \<open>A handler leaves the stored keys and the clock alone.\<close>

definition sameKeys :: "world \<Rightarrow> world \<Rightarrow> bool" where
  "sameKeys w w' \<longleftrightarrow> idempotencyKeys w' = idempotencyKeys w \<and> clock w' = clock w"

interpretation sk: step_preorder sameKeys undoTx
  by unfold_locales (auto simp: sameKeys_def undoTx_def)

lemma sk_ro: "related (=) m \<Longrightarrow> related sameKeys m"
  by (simp add: related_def sameKeys_def)

lemma sk_small:
  "related sameKeys (freshId L)" "related sameKeys (randomToken L)"
  "related sameKeys (audit L a b c d e f g)" "related sameKeys nextTrackingId"
  by (simp_all add: related_def eval sameKeys_def nextTrackingId_def nextCounter_def Let_def
      split: prod.split sum.split option.split)

lemma sk_getSetting: "related sameKeys (getSetting L k)"
proof -
  have "sameKeys w (snd (getSetting L k w))" for w
    by (rule getSetting_cases [of L k w]) (simp add: sameKeys_def)
  then show ?thesis by (simp add: related_def)
qed

lemma sk_transaction: "related sameKeys m \<Longrightarrow> related sameKeys (transaction m)"
  unfolding transaction_def by (rule sk.rollback_rel)

lemma sk_create: "related sameKeys (create L input a cx)"
proof -
  have tx: "related sameKeys (createTx L input a cx k sh)" for k sh
    unfolding createTx_def insertComplaint_def insertHistory_def
    by (intro sk.rel_intros sk_transaction sk_small) (simp_all add: sameKeys_def)
  have nearby: "related (=) (findNearbyDuplicate c input)" for c
    unfolding findNearbyDuplicate_def by (intro ro.rel_intros)
  show ?thesis
    unfolding create_def by (intro sk.rel_intros tx sk_getSetting sk_ro [OF nearby])
qed

lemma sk_initiate: "related sameKeys (initiate L G u sr cx)"
  unfolding initiate_def assertGatewayConfigured_def insertPayment_def updatePayment_def Let_def
  by (intro sk.rel_intros sk_transaction sk_small) (simp_all add: sameKeys_def)

lemma sk_handlers:
  "related sameKeys (createHandler L E body user cx)" "related sameKeys (initiateHandler L G E sr user cx)"
  unfolding createHandler_def initiateHandler_def requireUser_def
  by (intro sk.rel_intros sk_create sk_initiate)+

text \<open>The row of one key, which requests under another key, user or endpoint leave alone.\<close>

definition keyKept :: "string \<Rightarrow> string \<Rightarrow> string \<Rightarrow> world \<Rightarrow> world \<Rightarrow> bool" where
  "keyKept k u ep w w' \<longleftrightarrow> findKey k u ep w' = findKey k u ep w \<and> clock w' = clock w"

interpretation kk: step_preorder "keyKept k u ep" undoTx for k u ep
  by unfold_locales (auto simp: keyKept_def undoTx_def findKey_def)

lemma find_apart:
  assumes "\<forall>r. P r \<longrightarrow> \<not> Q r"
  shows "find Q (deleteWhere P rows) = find Q rows"
    and "(\<And>r. P r \<Longrightarrow> \<not> Q (f r)) \<Longrightarrow> find Q (updateWhere P f rows) = find Q rows"
    and "P r \<Longrightarrow> find Q (rows @ [r]) = find Q rows"
  using assms by (induction rows) (auto simp: deleteWhere_def updateWhere_def)

lemma sk_kk: "related sameKeys m \<Longrightarrow> related (keyKept k u ep) m"
  by (auto simp: related_def sameKeys_def keyKept_def findKey_def)

lemma isKey_apart: "(k', u', ep') \<noteq> (k, u, ep) \<Longrightarrow> isKey k' u' ep' r \<Longrightarrow> \<not> isKey k u ep r"
  by (auto simp: isKey_def)

lemma isKey_simps [simp]:
  "isKey k u ep (r\<lparr>ik_requestHash := h, ik_statusCode := s, ik_expiresAt := x\<rparr>) = isKey k u ep r"
  "isKey k u ep (r\<lparr>ik_statusCode := s, ik_responseBody := b\<rparr>) = isKey k u ep r"
  "isKey k u ep \<lparr>ik_id = i, ik_key = k', ik_userId = u', ik_endpoint = ep', ik_requestHash = h,
     ik_responseBody = b, ik_statusCode = s, ik_expiresAt = x, ik_createdAt = n\<rparr> =
   ((k', u', ep') = (k, u, ep))"
  by (auto simp: isKey_def)

lemma kk_keys:
  assumes "(k', u', ep') \<noteq> (k, u, ep)"
  shows "related (keyKept k u ep) (openKey L k' u' ep' h)" "related (keyKept k u ep) (closeKey k' u' ep' r)"
proof -
  have "\<forall>r. isKey k' u' ep' r \<longrightarrow> \<not> isKey k u ep r" using isKey_apart [OF assms] by blast
  note apart = find_apart [OF this]
  have upd: "find (isKey k u ep) (updateWhere (isKey k' u' ep') f rows) = find (isKey k u ep) rows"
    if "\<And>r. isKey k u ep (f r) = isKey k u ep r" for f rows
    using isKey_apart [OF assms] that by (intro apart(2)) auto
  have add: "find (isKey k u ep) (rows @ [r]) = find (isKey k u ep) rows" if "isKey k' u' ep' r" for r rows
    using that by (rule apart(3))
  show "related (keyKept k u ep) (openKey L k' u' ep' h)"
    unfolding openKey_def
    by (intro kk.rel_intros sk_kk [OF sk_small(1)]) (simp_all add: keyKept_def findKey_def upd add)
  show "related (keyKept k u ep) (closeKey k' u' ep' r)"
    unfolding closeKey_def orElse_def
    by (intro kk.rel_intros) (simp_all add: keyKept_def findKey_def upd apart(1))
qed

lemma kk_idempotency:
  assumes "(hdr, usr, ep') \<noteq> (Some k, Some u, ep)" and "related sameKeys handler"
  shows "related (keyKept k u ep) (idempotency L onError ep' hdr usr body handler)"
proof (cases "\<exists>k' u'. hdr = Some k' \<and> usr = Some u'")
  case True
  then obtain k' u' where hu: "hdr = Some k'" "usr = Some u'" by blast
  with assms(1) have ne: "(k', u', ep') \<noteq> (k, u, ep)" by auto
  have run: "related (keyKept k u ep) (runKeyed L onError k' u' ep' h handler)" for h
    unfolding runKeyed_def by (intro kk.rel_intros kk_keys [OF ne] sk_kk [OF assms(2)])
  show ?thesis
    unfolding idempotency_def hu
    by (simp, intro conjI impI sk_kk [OF assms(2)] kk.rel_intros run)
next
  case False
  then show ?thesis using sk_kk [OF assms(2)] by (auto simp: idempotency_def split: option.split)
qed

section \<open>A stored answer\<close>

definition answered :: "string \<Rightarrow> string \<Rightarrow> string \<Rightarrow> string \<Rightarrow> response \<Rightarrow> instant \<Rightarrow> world \<Rightarrow> bool" where
  "answered k u ep h r until w \<longleftrightarrow>
     (\<exists>row. findKey k u ep w = Some row \<and> ik_requestHash row = h \<and> ik_statusCode row = Some (rs_status r) \<and>
        ik_responseBody row = Some (rs_body r) \<and> ik_expiresAt row = until)"

lemma answered_keyKept: "answered k u ep h r until w \<Longrightarrow> keyKept k u ep w w' \<Longrightarrow> answered k u ep h r until w'"
  by (simp add: answered_def keyKept_def)

text \<open>What a repetition meets while the answer is kept.\<close>

lemma repeated:
  assumes "answered k u ep h r until w" and "clock w < until" and "k \<noteq> []" "length k \<le> 255"
  shows "idempotency L onError ep (Some k) (Some u) body handler w =
    (if hashBody L body = h then Inr (r\<lparr>rs_replayed := True\<rparr>)
     else Inl (apiError 422 ''Idempotency key was already used with a different body''
       [det ''IDEMPOTENCY_MISMATCH'' ''Key reused with a different payload'']), w)"
  using assms by (cases r) (auto simp: idempotency_def answered_def eval)

lemma find_own: "find Q (updateWhere Q f rows) = map_option f (find Q rows)" if "\<And>r. Q r \<Longrightarrow> Q (f r)"
  using that by (induction rows) (auto simp: updateWhere_def)

lemma find_end: "find Q rows = None \<Longrightarrow> Q r \<Longrightarrow> find Q (rows @ [r]) = Some r"
  by (induction rows) (auto split: if_splits)

lemma opened:
  "\<exists>row w'. openKey L k u ep h w = (Inr (), w') \<and> findKey k u ep w' = Some row \<and> ik_requestHash row = h \<and>
     ik_expiresAt row = clock w + TTL_HOURS * 3600000 \<and> clock w' = clock w"
proof (cases "findKey k u ep w")
  case None
  then have "find (isKey k u ep) (idempotencyKeys w @ [r]) = Some r" if "isKey k u ep r" for r
    using that find_end [of "isKey k u ep" "idempotencyKeys w"] by (simp add: findKey_def)
  with None show ?thesis by (simp add: openKey_def eval freshId_def findKey_def)
next
  case (Some row)
  then show ?thesis by (simp add: openKey_def eval findKey_def find_own)
qed

lemma closed:
  assumes "findKey k u ep w = Some row" and "rs_status r < 400"
  shows "\<exists>w'. closeKey k u ep r w = (Inr (), w') \<and>
    findKey k u ep w' = Some (row\<lparr>ik_statusCode := Some (rs_status r), ik_responseBody := Some (rs_body r)\<rparr>) \<and>
    clock w' = clock w"
  using assms by (simp add: closeKey_def orElse_def eval findKey_def find_own)

lemma first_run:
  assumes "idempotency L onError ep (Some k) (Some u) body handler w = (Inr r, w')" and "k \<noteq> []"
    and "\<not> rs_replayed r" "rs_status r < 400" and "related sameKeys handler"
  shows "answered k u ep (hashBody L body) r (clock w + TTL_HOURS * 3600000) w' \<and> clock w' = clock w \<and>
    length k \<le> 255"
proof -
  have run: "runKeyed L onError k u ep (hashBody L body) handler w = (Inr r, w')" and len: "length k \<le> 255"
    using assms(1-3) by (auto simp: idempotency_def eval split: option.splits if_splits)
  obtain row v where o: "openKey L k u ep (hashBody L body) w = (Inr (), v)" "findKey k u ep v = Some row"
    "ik_requestHash row = hashBody L body" "ik_expiresAt row = clock w + TTL_HOURS * 3600000" "clock v = clock w"
    using opened [of L k u ep "hashBody L body" w] by blast
  have ch: "related sameKeys (catchM handler (\<lambda>e. returnM (onError e)))"
    by (intro sk.rel_intros assms(5))
  obtain v' where h: "catchM handler (\<lambda>e. returnM (onError e)) v = (Inr r, v')" and c: "closeKey k u ep r v' = (Inr (), w')"
    using run o(1)
    by (auto simp: runKeyed_def thenM_def bindM_def returnM_def split: prod.splits sum.splits)
  have "findKey k u ep v' = Some row" "clock v' = clock w"
    using relatedD [OF ch h] o by (simp_all add: sameKeys_def findKey_def)
  with closed [OF this(1) assms(4)] c o len show ?thesis by (auto simp: answered_def)
qed

section \<open>Requests in any order\<close>

datatype endpoint = Complaints | Initiate

fun path :: "endpoint \<Rightarrow> string" where
  "path Complaints = ''POST /complaints''"
| "path Initiate = ''POST /payments/initiate''"

fun serve :: "lib \<Rightarrow> gateway \<Rightarrow> edge \<Rightarrow> endpoint \<Rightarrow> string \<Rightarrow> string option \<Rightarrow> user option \<Rightarrow> json \<Rightarrow> ctx \<Rightarrow>
    response act" where
  "serve L G E Complaints = postComplaint L E"
| "serve L G E Initiate = postInitiate L G E"

text \<open>The body the middleware hashes, if the schema accepts the request.\<close>

fun accepted :: "edge \<Rightarrow> endpoint \<Rightarrow> json \<Rightarrow> json option" where
  "accepted E Complaints body = (case parseComplaint E body of Inl _ \<Rightarrow> None | Inr i \<Rightarrow> Some (complaintBody i))"
| "accepted E Initiate body = (case parseInitiate E body of Inl _ \<Rightarrow> None | Inr i \<Rightarrow> Some (initiateBody i))"

datatype edgeOp =
    Wait nat
  | PurgeJob
  | Request endpoint string "string option" "user option" json ctx

fun edgeStep :: "lib \<Rightarrow> gateway \<Rightarrow> edge \<Rightarrow> edgeOp \<Rightarrow> world \<Rightarrow> world" where
  "edgeStep L G E (Wait ms) w = w\<lparr>clock := clock w + int ms\<rparr>"
| "edgeStep L G E PurgeJob w = snd (runPurge L w)"
| "edgeStep L G E (Request ep rid hdr usr body cx) w = snd (serve L G E ep rid hdr usr body cx w)"

definition edgeRun :: "lib \<Rightarrow> gateway \<Rightarrow> edge \<Rightarrow> edgeOp list \<Rightarrow> world \<Rightarrow> world" where
  "edgeRun L G E ops w = foldl (\<lambda>v op. edgeStep L G E op v) w ops"

text \<open>Every endpoint is a check, a parse and the middleware around a handler that leaves the keys alone.\<close>

lemma reached:
  assumes "u_role x = CITIZEN" and "accepted E ep body = Some input"
  obtains handler where "related sameKeys handler"
    "serve L G E ep rid hdr (Some x) body cx w =
       idempotency L (failWith E rid) (path ep) hdr (Some (u_id x)) input handler w"
proof (cases ep)
  case Complaints
  with assms(2) obtain i where "parseComplaint E body = Inr i" "input = complaintBody i" by (auto split: sum.splits)
  with assms(1) Complaints show ?thesis
    by (intro that [of "createHandler L E i (Some x) cx"])
      (simp_all add: postComplaint_def authorize_def requireUser_def validateRequest_def eval sk_handlers)
next
  case Initiate
  with assms(2) obtain i where "parseInitiate E body = Inr i" "input = initiateBody i" by (auto split: sum.splits)
  with assms(1) Initiate show ?thesis
    by (intro that [of "initiateHandler L G E i (Some x) cx"])
      (simp_all add: postInitiate_def authorize_def requireUser_def validateRequest_def eval sk_handlers)
qed

lemma served:
  obtains e where "serve L G E ep rid hdr usr body cx w = (Inl e, w)"
  | x input handler where "usr = Some x" "u_role x = CITIZEN" "accepted E ep body = Some input"
      "related sameKeys handler" "serve L G E ep rid hdr usr body cx w =
        idempotency L (failWith E rid) (path ep) hdr (Some (u_id x)) input handler w"
proof (cases "usr = None \<or> u_role (the usr) \<noteq> CITIZEN \<or> accepted E ep body = None")
  case True
  then have "\<exists>e. serve L G E ep rid hdr usr body cx w = (Inl e, w)"
    by (cases ep; cases usr) (auto simp: postComplaint_def postInitiate_def authorize_def requireUser_def
        validateRequest_def eval split: sum.splits)
  then show ?thesis using that(1) by blast
next
  case False
  then obtain x input where x: "usr = Some x" "u_role x = CITIZEN" "accepted E ep body = Some input"
    by (cases usr) auto
  obtain handler where "related sameKeys handler" "serve L G E ep rid hdr usr body cx w =
      idempotency L (failWith E rid) (path ep) hdr (Some (u_id x)) input handler w"
    using reached [OF x(2,3), of L G rid hdr cx w] x(1) by blast
  with x show ?thesis by (rule that(2))
qed

lemma served_clock: "clock (snd (serve L G E ep rid hdr usr body cx w)) = clock w"
proof (cases rule: served [of L G E ep rid hdr usr body cx w])
  case (2 x input handler)
  have "(hdr, Some (u_id x), path ep) \<noteq> (Some k, Some u, ''x'' @ path ep)" for k u by simp
  from kk_idempotency [OF this 2(4)] 2(5) show ?thesis by (simp add: related_def keyKept_def)
qed simp

lemma served_answered:
  assumes "answered k u (path p) h r until w" and "clock w < until" and "k \<noteq> []" "length k \<le> 255"
  shows "answered k u (path p) h r until (snd (serve L G E ep rid hdr usr body cx w))"
proof (cases rule: served [of L G E ep rid hdr usr body cx w])
  case (2 x input handler)
  show ?thesis
  proof (cases "(hdr, Some (u_id x), path ep) = (Some k, Some u, path p)")
    case True
    then show ?thesis using assms 2(5) repeated [OF assms, of L "failWith E rid" input handler] by simp
  next
    case False
    from kk_idempotency [OF this 2(4)] show ?thesis
      using assms(1) 2(5) by (auto simp: related_def intro: answered_keyKept)
  qed
qed (use assms in simp)

lemma find_kept: "find Q rows = Some r \<Longrightarrow> \<not> P r \<Longrightarrow> find Q (deleteWhere P rows) = Some r"
  by (induction rows) (auto simp: deleteWhere_def split: if_splits)

text \<open>The purge deletes the keys that have run out and nothing else of them.\<close>

lemma purge_keys:
  "idempotencyKeys (snd (runPurge L w)) = deleteWhere (\<lambda>k. ik_expiresAt k < clock w) (idempotencyKeys w)"
  "clock (snd (runPurge L w)) = clock w"
proof -
  let ?v = "emailLogs_update (deleteWhere (\<lambda>e. el_createdAt e < daysAgo (clock w) 30))
     (idempotencyKeys_update (deleteWhere (\<lambda>k. ik_expiresAt k < clock w))
     (securityEvents_update (deleteWhere (\<lambda>e. sv_createdAt e < daysAgo (clock w) 90)) w))"
  have "related sameKeys (anonymiseDeletedUsers L)"
    unfolding anonymiseDeletedUsers_def by (intro sk.rel_intros sk_small) (simp add: sameKeys_def)
  then have "sameKeys ?v (snd (anonymiseDeletedUsers L ?v))" by (simp add: related_def)
  moreover have "snd (runPurge L w) = snd (anonymiseDeletedUsers L ?v)"
    by (auto simp: runPurge_def eval split: prod.split sum.split)
  ultimately show "idempotencyKeys (snd (runPurge L w)) =
      deleteWhere (\<lambda>k. ik_expiresAt k < clock w) (idempotencyKeys w)" "clock (snd (runPurge L w)) = clock w"
    by (simp_all add: sameKeys_def)
qed

lemma step_clock: "clock w \<le> clock (edgeStep L G E op w)"
  by (cases op) (simp_all add: purge_keys served_clock)

lemma step_answered:
  assumes "answered k u (path p) h r until w" and "clock (edgeStep L G E op w) < until" and "k \<noteq> []" "length k \<le> 255"
  shows "answered k u (path p) h r until (edgeStep L G E op w)"
proof (cases op)
  case PurgeJob
  then show ?thesis
    using assms by (auto simp: answered_def findKey_def purge_keys intro!: find_kept)
next
  case (Request ep rid hdr usr body cx)
  then show ?thesis using assms by (simp add: served_clock served_answered)
qed (use assms in \<open>simp add: answered_def findKey_def\<close>)

lemma run_clock: "clock w \<le> clock (edgeRun L G E ops w)"
  by (induction ops arbitrary: w) (auto simp: edgeRun_def intro: order_trans [OF step_clock])

lemma run_answered:
  assumes "answered k u (path p) h r until w" and "clock (edgeRun L G E ops w) < until" and "k \<noteq> []" "length k \<le> 255"
  shows "answered k u (path p) h r until (edgeRun L G E ops w)"
  using assms(1,2)
proof (induction ops arbitrary: w)
  case (Cons op ops)
  let ?v = "edgeStep L G E op w"
  have run: "edgeRun L G E (op # ops) w = edgeRun L G E ops ?v" by (simp add: edgeRun_def)
  have "clock ?v < until" using run_clock [of ?v L G E ops] Cons.prems(2) unfolding run by simp
  then show ?case using Cons step_answered [OF Cons.prems(1) _ assms(3,4)] unfolding run by simp
qed (simp add: edgeRun_def)

section \<open>The property\<close>

definition demoEdge :: edge where
  "demoEdge = \<lparr>parseComplaint = (\<lambda>_. Inr demoInput), parseInitiate = (\<lambda>_. Inr ''sr''),
     complaintAnswer = (\<lambda>_. JStr ''complaint''), initiateAnswer = (\<lambda>_. JNull), inProduction = True,
     stackOf = (\<lambda>_. None)\<rparr>"

lemma demo_filed:
  "\<exists>r w1. serve demoLib G demoEdge Complaints ''r1'' (Some ''key'') (Some (demoUser ''cit'' CITIZEN None)) JNull demoCtx
      (city []) = (Inr r, w1) \<and> \<not> rs_replayed r \<and> rs_status r = 201 \<and> clock w1 = 0 \<and> length (complaints w1) = 1"
proof -
  have none: "idempotencyKeys (city []) = []" "uuidPos (city []) = 0" by (simp_all add: city_def empty_world_def)
  have user: "u_role (demoUser ''cit'' CITIZEN None) = CITIZEN" "u_id (demoUser ''cit'' CITIZEN None) = ''cit''"
    by (simp_all add: demoUser_def)
  show ?thesis
    by (simp add: demoEdge_def postComplaint_def authorize_def requireUser_def validateRequest_def eval user none
        idempotency_def findKey_def runKeyed_def openKey_def closeKey_def createHandler_def create_run toActor_def
        sendResponse_def freshId_def orElse_def)
qed

text \<open>C29: Once a keyed request has been answered with a success, a repetition within 24 hours changes nothing:
  no second complaint is filed and no second payment is opened. The same body gets the stored answer,
  marked as a replay, and another body gets 422, whatever requests, other users' included, purges and
  waiting lie in between.\<close>

theorem repetition_is_replayed:
  assumes "serve L G E ep rid (Some k) (Some x) body cx w = (Inr r, w1)" and "k \<noteq> []"
    and "\<not> rs_replayed r" "rs_status r < 400"
    and "w2 = edgeRun L G E ops w1" and "clock w2 < clock w + 24 * 3600000"
    and "u_id x' = u_id x" "u_role x' = CITIZEN" "accepted E ep body' = Some input'"
  shows "snd (serve L G E ep rid' (Some k) (Some x') body' cx' w2) = w2 \<and>
    (body' = body \<longrightarrow> fst (serve L G E ep rid' (Some k) (Some x') body' cx' w2) = Inr (r\<lparr>rs_replayed := True\<rparr>)) \<and>
    (\<forall>input. accepted E ep body = Some input \<and> hashBody L input' \<noteq> hashBody L input \<longrightarrow>
      (\<exists>m d. fst (serve L G E ep rid' (Some k) (Some x') body' cx' w2) = Inl (ApiErr 422 m d)))"
proof (cases rule: served [of L G E ep rid "Some k" "Some x" body cx w])
  case (2 y input handler)
  then have "idempotency L (failWith E rid) (path ep) (Some k) (Some (u_id x)) input handler w = (Inr r, w1)"
    using assms(1) by simp
  from first_run [OF this assms(2-4) 2(4)]
  have "answered k (u_id x) (path ep) (hashBody L input) r (clock w + TTL_HOURS * 3600000) w1"
    and len: "length k \<le> 255" by auto
  from run_answered [OF this(1) _ assms(2) len] assms(5,6)
  have a: "answered k (u_id x') (path ep) (hashBody L input) r (clock w + TTL_HOURS * 3600000) w2"
    using assms(7) by (simp add: TTL_HOURS_def)
  obtain h' where h': "serve L G E ep rid' (Some k) (Some x') body' cx' w2 =
      idempotency L (failWith E rid') (path ep) (Some k) (Some (u_id x')) input' h' w2"
    using reached [OF assms(8,9), of L G rid' "Some k" cx' w2] by blast
  have live: "clock w2 < clock w + TTL_HOURS * 3600000" using assms(6) by (simp add: TTL_HOURS_def)
  show ?thesis
    unfolding h' repeated [OF a live assms(2) len] using 2(3) assms(9) by (auto simp: apiError_def)
qed (use assms in auto)

theorem repetition_is_replayed_witness:
  "\<forall>G. \<exists>r w1. serve demoLib G demoEdge Complaints ''r1'' (Some ''key'') (Some (demoUser ''cit'' CITIZEN None)) JNull demoCtx
      (city []) = (Inr r, w1) \<and> length (complaints w1) = 1 \<and>
    serve demoLib G demoEdge Complaints ''r2'' (Some ''key'') (Some (demoUser ''cit'' CITIZEN None)) JNull demoCtx
      (edgeRun demoLib G demoEdge [Wait 5000, PurgeJob] w1) =
      (Inr (r\<lparr>rs_replayed := True\<rparr>), edgeRun demoLib G demoEdge [Wait 5000, PurgeJob] w1)"
proof
  fix G
  obtain r w1 where run: "serve demoLib G demoEdge Complaints ''r1'' (Some ''key'')
      (Some (demoUser ''cit'' CITIZEN None)) JNull demoCtx (city []) = (Inr r, w1)"
    and r: "\<not> rs_replayed r" "rs_status r = 201" "clock w1 = 0" "length (complaints w1) = 1"
    using demo_filed by blast
  have "clock (edgeRun demoLib G demoEdge [Wait 5000, PurgeJob] w1) = 5000"
    using r by (simp add: edgeRun_def purge_keys)
  then show "\<exists>r w1. serve demoLib G demoEdge Complaints ''r1'' (Some ''key'') (Some (demoUser ''cit'' CITIZEN None)) JNull demoCtx
      (city []) = (Inr r, w1) \<and> length (complaints w1) = 1 \<and>
    serve demoLib G demoEdge Complaints ''r2'' (Some ''key'') (Some (demoUser ''cit'' CITIZEN None)) JNull demoCtx
      (edgeRun demoLib G demoEdge [Wait 5000, PurgeJob] w1) =
      (Inr (r\<lparr>rs_replayed := True\<rparr>), edgeRun demoLib G demoEdge [Wait 5000, PurgeJob] w1)"
    using repetition_is_replayed [OF run _ r(1) _ refl, of "[Wait 5000, PurgeJob]" "demoUser ''cit'' CITIZEN None"
        JNull "complaintBody demoInput" "''r2''" demoCtx] run r
    by (auto simp: demoUser_def demoEdge_def prod_eq_iff)
qed

end
