(* ===== verification/Config.thy ===== *)
theory Config
  imports Schemas
begin

text \<open>
  The configuration of the process: the environment (\<^verbatim>\<open>config/env.ts\<close>), the keys the logger hides (\<^verbatim>\<open>lib/logger.ts\<close>),
  the Redis client (\<^verbatim>\<open>config/redis.ts\<close>) and the file storage (\<^verbatim>\<open>config/cloudinary.ts\<close>). The clients themselves, ioredis
  and cloudinary, are libraries and come as parameters.
\<close>

section \<open>The environment\<close>

definition withDefault :: "string \<Rightarrow> schema" where
  "withDefault d = ZDefault (ZString []) (JStr d)"

definition countOr :: "real \<Rightarrow> real \<Rightarrow> schema" where
  "countOr least d = ZDefault (ZNumber True [NumInt, NumMin least]) (JNum d)"

definition isTrueText :: "json option \<Rightarrow> json option" where
  "isTrueText v = Some (JBool (v = Some (JStr ''true'')))"

text \<open>A positive whole number is one that is at least 1.\<close>

definition envFields :: "(string \<times> schema) list" where
  "envFields = [
     (''NODE_ENV'', ZDefault (ZEnum [''development'', ''test'', ''production'']) (JStr ''development'')),
     (''PORT'', countOr 1 5000),
     (''BACKEND_URL'', ZDefault (ZString [StrMin 1]) (JStr ''http://localhost:5000'')),
     (''CLIENT_URL'', ZDefault (ZString [StrMin 1]) (JStr ''http://localhost:3000'')),
     (''DATABASE_URL'', ZString [StrMin 1]),
     (''TEST_DATABASE_URL'', ZOptional (ZString [])),
     (''JWT_ACCESS_SECRET'', ZString [StrMin 32]),
     (''JWT_ACCESS_EXPIRES_IN'', withDefault ''15m''),
     (''JWT_REFRESH_SECRET'', ZString [StrMin 32]),
     (''JWT_REFRESH_EXPIRES_IN'', withDefault ''7d''),
     (''OTP_SECRET'', ZString [StrMin 32]),
     (''BCRYPT_SALT_ROUNDS'', ZDefault (ZNumber True [NumInt, NumMin 10, NumMax 15]) (JNum 12)),
     (''GOOGLE_CLIENT_ID'', withDefault []),
     (''GOOGLE_CLIENT_SECRET'', withDefault []),
     (''GOOGLE_CALLBACK_URL'', withDefault ''http://localhost:5000/api/v1/auth/google/callback''),
     (''SSL_STORE_ID'', withDefault []),
     (''SSL_STORE_PASSWORD'', withDefault []),
     (''SSL_IS_LIVE'', ZTransform (withDefault ''false'') isTrueText),
     (''CLOUDINARY_CLOUD_NAME'', withDefault []),
     (''CLOUDINARY_API_KEY'', withDefault []),
     (''CLOUDINARY_API_SECRET'', withDefault []),
     (''REDIS_URL'', withDefault []),
     (''REDIS_HOST'', withDefault []),
     (''REDIS_PORT'', countOr 1 6379),
     (''REDIS_USERNAME'', withDefault []),
     (''REDIS_PASSWORD'', withDefault []),
     (''SMTP_HOST'', withDefault ''smtp.gmail.com''),
     (''SMTP_PORT'', countOr 1 587),
     (''SMTP_USER'', withDefault []),
     (''SMTP_PASS'', withDefault []),
     (''EMAIL_FROM'', withDefault ''CityCare <no-reply@citycare.com>''),
     (''RATE_LIMIT_GLOBAL_MAX'', countOr 1 100),
     (''RATE_LIMIT_AUTH_MAX'', countOr 1 5),
     (''CRON_SECRET'', withDefault []),
     (''ADMIN_EMAIL'', withDefault ''admin@citycare.com''),
     (''ADMIN_PASSWORD'', withDefault ''Admin@12345''),
     (''SUPER_ADMIN_EMAIL'', withDefault ''admin@citycare.com'')]"

definition envSchema :: schema where
  "envSchema = ZObject False envFields"

text \<open>The lines printed before the process ends with code 1, or the environment it runs with.\<close>

definition loadEnv :: "zod \<Rightarrow> json \<Rightarrow> string list + json" where
  "loadEnv parse processEnv =
     (case parse envSchema (Some processEnv) of
        Inl issues \<Rightarrow> Inl (map (\<lambda>(path, message). ''  - '' @ path @ '': '' @ message) issues)
      | Inr parsed \<Rightarrow> Inr (case parsed of Some e \<Rightarrow> e | None \<Rightarrow> JObj []))"

definition nodeEnv :: "json \<Rightarrow> string \<Rightarrow> bool" where
  "nodeEnv e mode \<longleftrightarrow> textAt ''NODE_ENV'' e = Some mode"

definition isProd :: "json \<Rightarrow> bool" where
  "isProd e \<longleftrightarrow> nodeEnv e ''production''"

definition isTest :: "json \<Rightarrow> bool" where
  "isTest e \<longleftrightarrow> nodeEnv e ''test''"

definition isDev :: "json \<Rightarrow> bool" where
  "isDev e \<longleftrightarrow> nodeEnv e ''development''"

definition corsOrigins :: "string \<Rightarrow> string list" where
  "corsOrigins clientUrl = filter (\<lambda>s. s \<noteq> []) (map js_trim (split_on (CHR '','') clientUrl))"

definition googleConfigured :: "json \<Rightarrow> bool" where
  "googleConfigured e \<longleftrightarrow> truthyAt ''GOOGLE_CLIENT_ID'' e \<and> truthyAt ''GOOGLE_CLIENT_SECRET'' e"

text \<open>A server that starts has secrets of 32 characters and rounds that bcrypt can take.\<close>

lemma secret_fields:
  assumes "k \<in> {''JWT_ACCESS_SECRET'', ''JWT_REFRESH_SECRET'', ''OTP_SECRET''}"
  shows "(k, ZString [StrMin 32]) \<in> set envFields"
proof -
  consider "k = ''JWT_ACCESS_SECRET''" | "k = ''JWT_REFRESH_SECRET''" | "k = ''OTP_SECRET''" using assms by blast
  then show ?thesis unfolding envFields_def list.set by cases (hypsubst, intro insertI1 insertI2)+
qed

lemma rounds_field:
  "(''BCRYPT_SALT_ROUNDS'', ZDefault (ZNumber True [NumInt, NumMin 10, NumMax 15]) (JNum 12)) \<in> set envFields"
  unfolding envFields_def list.set by (intro insertI1 insertI2)

lemma started_env:
  assumes "zodLaws fmt parse" and "loadEnv parse p = Inr e"
  shows "\<exists>fs. e = JObj fs \<and>
    (\<forall>k \<in> {''JWT_ACCESS_SECRET'', ''JWT_REFRESH_SECRET'', ''OTP_SECRET''}. \<exists>s. map_of fs k = Some (JStr s) \<and> 32 \<le> length s) \<and>
    (\<exists>x. map_of fs ''BCRYPT_SALT_ROUNDS'' = Some (JNum x) \<and> 10 \<le> x \<and> x \<le> 15)"
proof -
  obtain parsed where p: "parse envSchema (Some p) = Inr parsed" and e: "e = (case parsed of Some e \<Rightarrow> e | None \<Rightarrow> JObj [])"
    using assms(2) by (auto simp: loadEnv_def split: sum.splits)
  have "accepts fmt (ZObject False envFields) (Some p) parsed" using assms(1) p unfolding zodLaws_def envSchema_def by blast
  then obtain ins outs where outs: "parsed = Some (JObj outs)" and f: "acceptsFields fmt envFields ins outs" by auto
  have "\<exists>s. map_of outs k = Some (JStr s) \<and> 32 \<le> length s"
    if "k \<in> {''JWT_ACCESS_SECRET'', ''JWT_REFRESH_SECRET'', ''OTP_SECRET''}" for k
    using acceptsFields_get [OF f secret_fields [OF that]] by (auto split: if_splits)
  moreover have "\<exists>x. map_of outs ''BCRYPT_SALT_ROUNDS'' = Some (JNum x) \<and> 10 \<le> x \<and> x \<le> 15"
    using acceptsFields_get [OF f rounds_field] by auto
  ultimately show ?thesis unfolding e outs by simp
qed

text \<open>Nothing keeps the three secrets apart.\<close>

definition oneSecret :: json where
  "oneSecret = JObj [(''DATABASE_URL'', JStr ''postgres://db''),
     (''JWT_ACCESS_SECRET'', JStr (replicate 32 (CHR ''s''))), (''JWT_REFRESH_SECRET'', JStr (replicate 32 (CHR ''s''))),
     (''OTP_SECRET'', JStr (replicate 32 (CHR ''s'')))]"

lemma secrets_may_be_one:
  "\<exists>e. loadEnv (plainZod fmt) oneSecret = Inr e \<and> textAt ''JWT_ACCESS_SECRET'' e = textAt ''JWT_REFRESH_SECRET'' e \<and>
     textAt ''OTP_SECRET'' e = textAt ''JWT_ACCESS_SECRET'' e \<and> textAt ''OTP_SECRET'' e \<noteq> None"
  by (simp add: loadEnv_def plainZod_def envSchema_def envFields_def oneSecret_def withDefault_def countOr_def isTrueText_def textAt_def)

section \<open>The log\<close>

definition REDACT_PATHS :: "string list" where
  "REDACT_PATHS = [
     ''req.headers.authorization'',
     ''req.headers.cookie'',
     ''res.headers['' @ [CHR 0x27] @ ''set-cookie'' @ [CHR 0x27] @ '']'',
     ''*.password'',
     ''*.passwordHash'',
     ''*.otp'',
     ''*.otpHash'',
     ''*.token'',
     ''*.tokenHash'',
     ''*.refreshToken'',
     ''*.accessToken'',
     ''*.deviceToken'',
     ''*.idToken'',
     ''*.val_id'']"

definition logLevel :: "json \<Rightarrow> string" where
  "logLevel e = (if isTest e then ''silent'' else if isDev e then ''debug'' else ''info'')"

section \<open>File storage\<close>

record uploadOptions =
  up_folder :: string
  up_type :: "string option"
  up_resourceType :: "string option"

text \<open>What is handed to \<open>upload_stream\<close>; the public id is drawn at random.\<close>

record uploadCall =
  uc_folder :: string
  uc_public_id :: string
  uc_type :: string
  uc_resource_type :: string
  uc_overwrite :: bool
  uc_invalidate :: bool

definition cloudinaryConfigured :: "json \<Rightarrow> bool" where
  "cloudinaryConfigured e \<longleftrightarrow> truthyAt ''CLOUDINARY_CLOUD_NAME'' e \<and> truthyAt ''CLOUDINARY_API_KEY'' e \<and>
     truthyAt ''CLOUDINARY_API_SECRET'' e"

text \<open>\<open>store\<close> is the upload of the library: the secure url and the public id, or nothing when it failed.\<close>

definition uploadBuffer ::
  "lib \<Rightarrow> bool \<Rightarrow> (uploadCall \<Rightarrow> string \<Rightarrow> (string \<times> string) option) \<Rightarrow> string \<Rightarrow> uploadOptions \<Rightarrow> (string \<times> string) act" where
  "uploadBuffer L configured store buffer options =
     (if \<not> configured
      then throwM (apiError 503 ''File storage is not configured''
        [det ''SERVICE_UNAVAILABLE'' ''Cloudinary credentials are missing''])
      else bindM (randomToken L) (\<lambda>publicId.
        case store \<lparr>uc_folder = up_folder options, uc_public_id = publicId,
            uc_type = (case up_type options of None \<Rightarrow> ''upload'' | Some t \<Rightarrow> t),
            uc_resource_type = (case up_resourceType options of None \<Rightarrow> ''image'' | Some t \<Rightarrow> t),
            uc_overwrite = False, uc_invalidate = True\<rparr> buffer of
          None \<Rightarrow> throwM (apiError 502 ''File upload failed'' [detC ''GATEWAY_ERROR''])
        | Some r \<Rightarrow> returnM r))"

record signedCall =
  sc_publicId :: string
  sc_type :: string
  sc_sign_url :: bool
  sc_secure :: bool
  sc_expires_at :: int

definition signedUrl :: "(signedCall \<Rightarrow> string) \<Rightarrow> string \<Rightarrow> int option \<Rightarrow> string act" where
  "signedUrl url publicId expiresInSec =
     getsM (\<lambda>w. url \<lparr>sc_publicId = publicId, sc_type = ''authenticated'', sc_sign_url = True, sc_secure = True,
       sc_expires_at = clock w div 1000 + (case expiresInSec of None \<Rightarrow> 600 | Some n \<Rightarrow> n)\<rparr>)"

definition destroyAsset :: "(string \<Rightarrow> string \<Rightarrow> unit act) \<Rightarrow> string \<Rightarrow> string option \<Rightarrow> unit act" where
  "destroyAsset destroy publicId type' =
     catchM (destroy publicId (case type' of None \<Rightarrow> ''upload'' | Some t \<Rightarrow> t)) (\<lambda>_. returnM ())"

text \<open>Storage that is not configured draws no id.\<close>

lemma upload_unconfigured: "snd (uploadBuffer L False store buffer options w) = w"
  by (simp add: uploadBuffer_def eval)

end
