(* ===== verification/Mail.thy ===== *)
theory Mail
  imports Config Utils
begin

text \<open>
  The mails of \<^verbatim>\<open>lib/mailer.ts\<close>: the subject and the page of each template, as functions of the values that
  \<open>sendMail\<close> of theory Utils records as the body, and whether there is a mail server. A dash outside ASCII is
  written by its bytes in UTF-8.
\<close>

section \<open>The frame\<close>

definition emDash :: string where
  "emDash = [CHR 0xE2, CHR 0x80, CHR 0x94]"

definition htmlLines :: "string list \<Rightarrow> string" where
  "htmlLines = join_with [CHR 0x0A]"

text \<open>\<open>x ? page : ""\<close> of an optional text, and \<open>x ?? "unknown"\<close>.\<close>

definition whenGiven :: "string option \<Rightarrow> (string \<Rightarrow> string) \<Rightarrow> string" where
  "whenGiven x page = (case x of Some s \<Rightarrow> if s = [] then [] else page s | None \<Rightarrow> [])"

definition orUnknown :: "string option \<Rightarrow> string" where
  "orUnknown x = (case x of Some s \<Rightarrow> s | None \<Rightarrow> ''unknown'')"

definition layout :: "string \<Rightarrow> string \<Rightarrow> string" where
  "layout title body = htmlLines [
     ''<!doctype html>'',
     ''<html><body style=\"margin:0;padding:24px;background:#f4f6f8;font-family:Segoe UI,Arial,sans-serif;color:#1f2933\">'',
     ''  <div style=\"max-width:560px;margin:0 auto;background:#fff;border-radius:12px;padding:32px\">'',
     ''    <h1 style=\"margin:0 0 4px;font-size:20px;color:#0b6bcb\">CityCare</h1>'',
     ''    <p style=\"margin:0 0 24px;font-size:13px;color:#6b7280\">City Complaint &amp; Service Platform</p>'',
     ''    <h2 style=\"font-size:17px;margin:0 0 12px\">'' @ title @ ''</h2>'',
     ''    '' @ body,
     ''    <hr style=\"border:none;border-top:1px solid #e5e7eb;margin:28px 0 12px\">'',
     ''    <p style=\"font-size:12px;color:#9ca3af;margin:0\">'',
     ''      This is an automated message '' @ emDash @ '' please do not reply.'',
     ''    </p>'',
     ''  </div>'',
     ''</body></html>'']"

definition otpBlock :: "string \<Rightarrow> int \<Rightarrow> string" where
  "otpBlock otp minutes = htmlLines [
     [],
     ''  <p style=\"margin:0 0 16px\">Use this verification code:</p>'',
     ''  <p style=\"font-size:30px;letter-spacing:8px;font-weight:700;margin:0 0 16px;color:#0b6bcb\">'' @ otp @ ''</p>'',
     ''  <p style=\"margin:0;color:#6b7280;font-size:14px\">'',
     ''    It expires in '' @ show_int minutes @ '' minutes. If you did not request it, ignore this email.'',
     ''  </p>'']"

definition magicBlock :: "string \<Rightarrow> int \<Rightarrow> string" where
  "magicBlock link minutes = htmlLines [
     [],
     ''  <p style=\"margin:24px 0 12px;color:#6b7280;font-size:14px\">Or sign in without typing it:</p>'',
     ''  <p style=\"margin:0 0 16px\">'',
     ''    <a href=\"'' @ link @ ''\" style=\"display:inline-block;background:#0b6bcb;color:#fff;text-decoration:none;'',
     ''       padding:12px 24px;border-radius:8px;font-weight:600;font-size:15px\">Sign in to CityCare</a>'',
     ''  </p>'',
     ''  <p style=\"margin:0;color:#9ca3af;font-size:12px\">'',
     ''    This link works once and expires in '' @ show_int minutes @ '' minutes. Do not forward this email '' @ emDash @ '' anyone who'',
     ''    opens the link is signed in as you.'',
     ''  </p>'']"

section \<open>The mails\<close>

record mail =
  ml_subject :: string
  ml_html :: string
  ml_attachments :: "(string \<times> string \<times> string) list"

definition mailWith :: "string \<Rightarrow> string \<Rightarrow> mail" where
  "mailWith subject html = \<lparr>ml_subject = subject, ml_html = html, ml_attachments = []\<rparr>"

definition otpMail :: "string \<Rightarrow> int \<Rightarrow> mail" where
  "otpMail otp minutes =
     mailWith ''Verify your CityCare account'' (layout ''Confirm your email'' (otpBlock otp minutes))"

definition loginOtpMail :: "string \<Rightarrow> int \<Rightarrow> string option \<Rightarrow> mail" where
  "loginOtpMail otp minutes magicLink =
     mailWith ''Your CityCare login code''
       (layout ''Two-factor verification''
         (otpBlock otp minutes @ whenGiven magicLink (\<lambda>link. magicBlock link minutes)))"

definition newLoginMail :: "string option \<Rightarrow> string option \<Rightarrow> mail" where
  "newLoginMail ip userAgent =
     mailWith ''New sign-in to your CityCare account'' (layout ''New device signed in'' (htmlLines [
     ''<p style=\"margin:0 0 12px\">A new device just signed in to your account.</p>'',
     ''       <p style=\"margin:0 0 4px;font-size:14px\"><b>IP:</b> '' @ orUnknown ip @ ''</p>'',
     ''       <p style=\"margin:0 0 16px;font-size:14px\"><b>Device:</b> '' @ orUnknown userAgent @ ''</p>'',
     ''       <p style=\"margin:0;color:#b91c1c\">If this was not you, change your password immediately.</p>'']))"

definition passwordResetMail :: "string \<Rightarrow> string \<Rightarrow> mail" where
  "passwordResetMail clientUrl token =
     (let link = hd (split_on (CHR '','') clientUrl) @ ''/auth/reset-password?token='' @ token in
      mailWith ''Reset your CityCare password'' (layout ''Password reset'' (htmlLines [
     ''<p style=\"margin:0 0 16px\">Click the button below to choose a new password. The link expires in 15 minutes.</p>'',
     ''       <p style=\"margin:0 0 16px\"><a href=\"'' @ link @ ''\" style=\"background:#0b6bcb;color:#fff;padding:11px 20px;border-radius:8px;text-decoration:none\">Reset password</a></p>'',
     ''       <p style=\"margin:0;color:#6b7280;font-size:13px\">If you did not request this, nothing has changed.</p>''])))"

definition statusUpdateMail :: "string \<Rightarrow> string \<Rightarrow> string option \<Rightarrow> mail" where
  "statusUpdateMail trackingId status note =
     mailWith (''Complaint '' @ trackingId @ '' is now '' @ status) (layout ''Complaint update'' (htmlLines [
     ''<p style=\"margin:0 0 12px\">Your complaint <b>'' @ trackingId @ ''</b> is now'',
     ''         <b style=\"color:#0b6bcb\">'' @ status @ ''</b>.</p>'',
     ''       '' @ whenGiven note (\<lambda>n. ''<p style=\"margin:0 0 12px;color:#4b5563\">'' @ n @ ''</p>''),
     ''       <p style=\"margin:0;font-size:13px;color:#6b7280\">Track it any time with your tracking id.</p>'']))"

definition receiptMail ::
  "string \<Rightarrow> string \<Rightarrow> string \<Rightarrow> string option \<Rightarrow> string option \<Rightarrow> string option \<Rightarrow> mail" where
  "receiptMail transactionId amount serviceName referenceNo receiptUrl pdf =
     (mailWith (''Payment receipt '' @ emDash @ '' '' @ transactionId) (layout ''Payment received'' (htmlLines [
     ''<p style=\"margin:0 0 12px\">We received your payment for <b>'' @ serviceName @ ''</b>.</p>'',
     ''       <p style=\"margin:0 0 4px;font-size:14px\"><b>Transaction:</b> '' @ transactionId @ ''</p>'',
     ''       '' @ whenGiven referenceNo (\<lambda>n. ''<p style=\"margin:0 0 4px;font-size:14px\"><b>Application:</b> '' @ n @ ''</p>''),
     ''       <p style=\"margin:0 0 16px;font-size:14px\"><b>Amount:</b> BDT '' @ amount @ ''</p>'',
     ''       <p style=\"margin:0 0 4px;font-size:14px\">'' @ (if pdf \<noteq> None then ''Your receipt is attached to this email as a PDF.'' else ''Your receipt is available from the Payments page when you sign in.'') @ ''</p>'',
     ''       '' @ whenGiven receiptUrl (\<lambda>n. ''<p style=\"margin:12px 0 0\"><a href=\"'' @ n @ ''\">Download receipt (PDF)</a></p>'')])))
     \<lparr>ml_attachments := (case pdf of None \<Rightarrow> []
        | Some content \<Rightarrow> [(''CityCare-receipt-'' @ transactionId @ ''.pdf'', content, ''application/pdf'')])\<rparr>"

definition officerInviteMail :: "string \<Rightarrow> string \<Rightarrow> string \<Rightarrow> mail" where
  "officerInviteMail to name tempPassword =
     mailWith ''Your CityCare officer account'' (layout ''Welcome to CityCare'' (htmlLines [
     ''<p style=\"margin:0 0 12px\">Hello '' @ name @ '', an officer account has been created for you.</p>'',
     ''       <p style=\"margin:0 0 4px;font-size:14px\"><b>Email:</b> '' @ to @ ''</p>'',
     ''       <p style=\"margin:0 0 16px;font-size:14px\"><b>Temporary password:</b> '' @ tempPassword @ ''</p>'',
     ''       <p style=\"margin:0;color:#b91c1c\">Change this password right after your first login.</p>'']))"

definition escalationMail :: "string \<Rightarrow> int \<Rightarrow> string \<Rightarrow> mail" where
  "escalationMail trackingId level reason =
     mailWith (''SLA breach '' @ emDash @ '' '' @ trackingId @ '' (level '' @ show_int level @ '')'') (layout ''SLA breached'' (htmlLines [
     ''<p style=\"margin:0 0 12px\">Complaint <b>'' @ trackingId @ ''</b> has breached its SLA.</p>'',
     ''       <p style=\"margin:0 0 4px;font-size:14px\"><b>Escalation level:</b> '' @ show_int level @ ''</p>'',
     ''       <p style=\"margin:0;font-size:14px\"><b>Reason:</b> '' @ reason @ ''</p>'']))"

section \<open>The server\<close>

definition smtpSet :: "json \<Rightarrow> bool" where
  "smtpSet e \<longleftrightarrow> truthyAt ''SMTP_USER'' e \<and> truthyAt ''SMTP_PASS'' e"

definition verifyMailer :: "lib \<Rightarrow> (exn + unit) \<Rightarrow> bool" where
  "verifyMailer L verify =
     (if \<not> smtpConfigured L then False else case verify of Inr _ \<Rightarrow> True | Inl _ \<Rightarrow> False)"

text \<open>What is printed so that a developer without a mailbox can go on; never in production.\<close>

definition devOtpHint :: "bool \<Rightarrow> bool \<Rightarrow> string \<Rightarrow> string \<Rightarrow> string \<Rightarrow> string option" where
  "devOtpHint live smtp to otp kind =
     (if live \<or> smtp then None else Some (''[dev only] '' @ kind @ '' OTP for '' @ to @ '': '' @ otp))"

section \<open>What a mail shows\<close>

definition carries :: "string \<Rightarrow> string \<Rightarrow> bool" where
  "carries page s \<longleftrightarrow> (\<exists>p q. page = p @ s @ q)"

lemma carries_refl [simp]: "carries s s"
  unfolding carries_def by (rule exI [of _ "[]"], rule exI [of _ "[]"]) simp

lemma carries_left: "carries page s \<Longrightarrow> carries (p @ page) s"
  unfolding carries_def by (metis append.assoc)

lemma carries_right: "carries page s \<Longrightarrow> carries (page @ q) s"
  unfolding carries_def by (metis append.assoc)

lemma carries_mid [simp]: "carries (p @ s @ q) s" "carries (s @ q) s" "carries (p @ s) s"
  unfolding carries_def by (blast, metis append_Nil, metis append_Nil2)

lemma carries_cons: "carries page s \<Longrightarrow> carries (c # page) s"
  using carries_left [of page s "[c]"] by simp

lemma carries_line: "l \<in> set ls \<Longrightarrow> carries l s \<Longrightarrow> carries (htmlLines ls) s"
  unfolding htmlLines_def
proof (induction "[CHR 0x0A]" ls rule: join_with.induct)
  case (3 t u ts)
  then show ?case by (auto intro: carries_left carries_cons carries_right)
qed simp_all

lemma carries_layout: "carries body s \<Longrightarrow> carries (layout title body) s"
  unfolding layout_def by (rule carries_line [of "''    '' @ body"]) (simp, rule carries_left)

text \<open>The codes and the link of a sign-in are on its page.\<close>

lemma otpBlock_carries: "carries (otpBlock otp minutes) otp"
  unfolding otpBlock_def
  by (rule carries_line [of "''  <p style=\"font-size:30px;letter-spacing:8px;font-weight:700;margin:0 0 16px;color:#0b6bcb\">'' @ otp @ ''</p>''"])
    (simp, intro carries_left carries_right carries_refl)

lemma code_is_in_the_mail:
  "carries (ml_html (otpMail otp minutes)) otp" "carries (ml_html (loginOtpMail otp minutes link)) otp"
  by (simp_all add: otpMail_def loginOtpMail_def mailWith_def otpBlock_carries carries_layout carries_right)

text \<open>
  Nothing is escaped: the user agent a stranger sends, the name of an officer and the note of a status change stand
  in the page as they are, markup included.
\<close>

lemma mails_escape_nothing:
  "carries (ml_html (newLoginMail ip (Some userAgent))) userAgent"
  "carries (ml_html (officerInviteMail to name tempPassword)) name"
  "carries (ml_html (statusUpdateMail trackingId status (Some note))) note"
proof -
  have "carries (htmlLines [a, b, c @ orUnknown (Some userAgent) @ d, e]) userAgent" for a b c d e
    by (rule carries_line [of "c @ orUnknown (Some userAgent) @ d"]) (auto simp: orUnknown_def)
  then show "carries (ml_html (newLoginMail ip (Some userAgent))) userAgent"
    unfolding newLoginMail_def mailWith_def mail.simps by (rule carries_layout)
  have "carries (htmlLines [a @ name @ b, c, d, e]) name" for a b c d e
    by (rule carries_line [of "a @ name @ b"]) auto
  then show "carries (ml_html (officerInviteMail to name tempPassword)) name"
    unfolding officerInviteMail_def mailWith_def mail.simps by (rule carries_layout)
  have "carries (htmlLines [a, b, c @ whenGiven (Some note) (\<lambda>n. d @ n @ e), f]) note" for a b c d e f
    by (rule carries_line [of "c @ whenGiven (Some note) (\<lambda>n. d @ n @ e)"])
      (auto simp: whenGiven_def carries_def intro: exI [of _ "c @ d"])
  then show "carries (ml_html (statusUpdateMail trackingId status (Some note))) note"
    unfolding statusUpdateMail_def mailWith_def mail.simps by (rule carries_layout)
qed

text \<open>The log of mails keeps nothing of what a mail said.\<close>

lemma log_keeps_no_body: "emailLogs (snd (sendMail L to t b w)) = emailLogs (snd (sendMail L to t b' w))"
  by (simp add: sendMail_def updateRow_def insertRow_def eval Let_def split: option.splits)

end
