(* ===== verification/Receipt.thy ===== *)
theory Receipt
  imports Ledger Mail
begin

text \<open>
  The receipt of a payment (\<^verbatim>\<open>lib/receipt.ts\<close>): the calls made on the document, in their order, and what the
  library makes of them, a parameter. The dates are formatted by \<open>Intl\<close>, whose formats are parameters too.
\<close>

section \<open>Text\<close>

definition LEFT :: int where
  "LEFT = 50"

definition RIGHT :: int where
  "RIGHT = 545"

definition INK :: string where
  "INK = ''#111827''"

definition MUTED :: string where
  "MUTED = ''#6b7280''"

definition BRAND :: string where
  "BRAND = ''#0b6bcb''"

definition RULE :: string where
  "RULE = ''#e5e7eb''"

text \<open>The medium date, and the medium date with the short time, of an instant in Dhaka.\<close>

record intl =
  in_date :: "instant \<Rightarrow> string"
  in_dateTime :: "instant \<Rightarrow> string"

definition stamp :: "intl \<Rightarrow> instant \<Rightarrow> string" where
  "stamp I d = in_dateTime I d @ '' (Asia/Dhaka)''"

definition dayOf :: "intl \<Rightarrow> instant \<Rightarrow> string" where
  "dayOf I d = in_date I d"

text \<open>Two decimals of a number; an amount that is no number stands as it is.\<close>

definition moneyText :: "lib \<Rightarrow> string \<Rightarrow> string \<Rightarrow> string" where
  "moneyText L currency amount =
     currency @ '' '' @ (case jsNumber L (JStr amount) of
        Some x \<Rightarrow> toFixed2 (if 0 \<le> x then \<lfloor>x * 100 + 1 / 2\<rfloor> else - \<lfloor>- x * 100 + 1 / 2\<rfloor>)
      | None \<Rightarrow> amount)"

definition toUpper :: "string \<Rightarrow> string" where
  "toUpper = map (\<lambda>c. let n = (of_char c :: nat) in if 97 \<le> n \<and> n \<le> 122 then char_of (n - 32) else c)"

section \<open>The calls\<close>

record textOptions =
  to_width :: "int option"
  to_align :: "string option"
  to_characterSpacing :: "real option"

datatype call =
    Font string
  | FontSize nat
  | FillColor string
  | Text string int int textOptions
  | MoveTo int int
  | LineTo int int
  | LineWidth nat
  | StrokeColor string
  | Stroke

record docInfo =
  di_size :: string
  di_margin :: nat
  di_Title :: string
  di_Author :: string
  di_Subject :: string

definition plainText :: textOptions where
  "plainText = \<lparr>to_width = None, to_align = None, to_characterSpacing = None\<rparr>"

definition wide :: "int \<Rightarrow> textOptions" where
  "wide n = plainText\<lparr>to_width := Some n\<rparr>"

definition acrossPage :: "string \<Rightarrow> textOptions" where
  "acrossPage a = (wide (RIGHT - LEFT))\<lparr>to_align := Some a\<rparr>"

definition styled :: "string \<Rightarrow> nat \<Rightarrow> string \<Rightarrow> call list" where
  "styled f n colour = [Font f, FontSize n, FillColor colour]"

definition rule :: "int \<Rightarrow> call list" where
  "rule y = [MoveTo LEFT y, LineTo RIGHT y, LineWidth 1, StrokeColor RULE, Stroke]"

definition field :: "string \<Rightarrow> string \<Rightarrow> int \<Rightarrow> int \<Rightarrow> int \<Rightarrow> call list" where
  "field label v x y width =
     styled ''Helvetica'' 8 MUTED @ [Text (toUpper label) x y ((wide width)\<lparr>to_characterSpacing := Some (6 / 10)\<rparr>)] @
     styled ''Helvetica-Bold'' 10 INK @ [Text v x (y + 12) (wide width)]"

definition infoOf :: "receiptData \<Rightarrow> docInfo" where
  "infoOf d = \<lparr>di_size = ''A4'', di_margin = 50, di_Title = ''CityCare receipt '' @ rd_transactionId d,
     di_Author = ''CityCare'', di_Subject = rd_serviceName d @ '' '' @ emDash @ '' '' @ rd_referenceNo d\<rparr>"

definition headerCalls :: "intl \<Rightarrow> receiptData \<Rightarrow> call list" where
  "headerCalls I d =
     styled ''Helvetica-Bold'' 20 BRAND @ [Text ''CityCare'' LEFT 50 plainText] @
     styled ''Helvetica'' 9 MUTED @ [Text ''City Complaint & Service Platform'' LEFT 74 plainText] @
     styled ''Helvetica-Bold'' 13 INK @ [Text ''PAYMENT RECEIPT'' LEFT 52 (acrossPage ''right'')] @
     styled ''Helvetica'' 9 MUTED @
       [Text (''Invoice no  '' @ rd_referenceNo d) LEFT 70 (acrossPage ''right''),
        Text (''Paid  '' @ dayOf I (rd_paidAt d)) LEFT 83 (acrossPage ''right'')] @
     rule 108"

definition payerCalls :: "receiptData \<Rightarrow> call list" where
  "payerCalls d =
     field ''Billed to'' (rd_payerName d) LEFT 124 250 @
     styled ''Helvetica'' 10 MUTED @ [Text (rd_payerEmail d) LEFT 150 (wide 250)] @
     field ''Status'' ''Paid in full'' 330 124 (RIGHT - 330)"

definition tableTop :: int where
  "tableTop = 196"

definition lineCalls :: "lib \<Rightarrow> receiptData \<Rightarrow> call list" where
  "lineCalls L d =
     styled ''Helvetica'' 8 MUTED @
       [Text ''DESCRIPTION'' LEFT tableTop (plainText\<lparr>to_characterSpacing := Some (6 / 10)\<rparr>),
        Text ''AMOUNT'' LEFT tableTop ((acrossPage ''right'')\<lparr>to_characterSpacing := Some (6 / 10)\<rparr>)] @
     rule (tableTop + 14) @
     styled ''Helvetica'' 11 INK @
       [Text (rd_serviceName d) LEFT (tableTop + 24) (wide 340),
        Text (moneyText L (rd_currency d) (rd_amount d)) LEFT (tableTop + 24) (acrossPage ''right'')] @
     rule (tableTop + 50) @
     styled ''Helvetica-Bold'' 12 INK @
       [Text ''Total paid'' LEFT (tableTop + 62) plainText,
        FillColor BRAND,
        Text (moneyText L (rd_currency d) (rd_amount d)) LEFT (tableTop + 62) (acrossPage ''right'')]"

definition detailsTop :: int where
  "detailsTop = tableTop + 110"

definition detailCalls :: "intl \<Rightarrow> receiptData \<Rightarrow> call list" where
  "detailCalls I d =
     styled ''Helvetica'' 8 MUTED @
       [Text ''PAYMENT DETAILS'' LEFT detailsTop (plainText\<lparr>to_characterSpacing := Some (6 / 10)\<rparr>)] @
     rule (detailsTop + 14) @
     field ''Transaction id'' (rd_transactionId d) LEFT (detailsTop + 26) 250 @
     field ''Gateway'' ''SSLCommerz'' 330 (detailsTop + 26) (RIGHT - 330) @
     field ''Application'' (rd_referenceNo d) LEFT (detailsTop + 66) 250 @
     field ''Paid at'' (stamp I (rd_paidAt d)) 330 (detailsTop + 66) (RIGHT - 330)"

definition footerCalls :: "call list" where
  "footerCalls =
     styled ''Helvetica'' 8 ''#9ca3af'' @
       [Text (''Generated automatically by CityCare and valid without a signature. '' @
          ''The transaction id above is the one the payment gateway holds.'') LEFT 760 (acrossPage ''center'')]"

definition receiptCalls :: "lib \<Rightarrow> intl \<Rightarrow> receiptData \<Rightarrow> call list" where
  "receiptCalls L I d = headerCalls I d @ payerCalls d @ lineCalls L d @ detailCalls I d @ footerCalls"

text \<open>\<open>pdf\<close> is the document the library builds of the calls, or its error.\<close>

definition render :: "(docInfo \<Rightarrow> call list \<Rightarrow> exn + string) \<Rightarrow> lib \<Rightarrow> intl \<Rightarrow> receiptData \<Rightarrow> exn + string" where
  "render pdf L I d = pdf (infoOf d) (receiptCalls L I d)"

definition receiptUpload :: uploadOptions where
  "receiptUpload = \<lparr>up_folder = ''citycare/receipts'', up_type = None, up_resourceType = Some ''raw''\<rparr>"

text \<open>A gateway whose receipts are these.\<close>

definition withReceipts ::
  "(docInfo \<Rightarrow> call list \<Rightarrow> exn + string) \<Rightarrow> lib \<Rightarrow> intl \<Rightarrow> gateway \<Rightarrow> gateway" where
  "withReceipts pdf L I G = G\<lparr>renderReceipt := render pdf L I\<rparr>"

section \<open>What is on the page\<close>

text \<open>The texts of a list of calls, and whether they and the lines stay inside the margins of the page.\<close>

fun textsOf :: "call list \<Rightarrow> string list" where
  "textsOf [] = []"
| "textsOf (Text s x y t # cs) = s # textsOf cs"
| "textsOf (c # cs) = textsOf cs"

fun insideMargins :: "call \<Rightarrow> bool" where
  "insideMargins (Text s x y t) \<longleftrightarrow> LEFT \<le> x \<and> 50 \<le> y \<and> y \<le> 792 \<and>
     (case to_width t of None \<Rightarrow> x \<le> RIGHT | Some n \<Rightarrow> 0 < n \<and> x + n \<le> RIGHT)"
| "insideMargins (MoveTo x y) \<longleftrightarrow> LEFT \<le> x \<and> x \<le> RIGHT \<and> 50 \<le> y \<and> y \<le> 792"
| "insideMargins (LineTo x y) \<longleftrightarrow> LEFT \<le> x \<and> x \<le> RIGHT \<and> 50 \<le> y \<and> y \<le> 792"
| "insideMargins c \<longleftrightarrow> True"

lemmas receipt_defs = receiptCalls_def headerCalls_def payerCalls_def lineCalls_def detailCalls_def footerCalls_def
  styled_def rule_def field_def wide_def acrossPage_def plainText_def tableTop_def detailsTop_def

lemma receipt_inside_margins: "list_all insideMargins (receiptCalls L I d)"
  by (simp add: receipt_defs LEFT_def RIGHT_def)

text \<open>A receipt says what was paid, for what, by whom and under which transaction; the line and the total agree.\<close>

lemma receipt_says:
  "{rd_transactionId d, rd_referenceNo d, rd_serviceName d, rd_payerName d, rd_payerEmail d} \<subseteq> set (textsOf (receiptCalls L I d))"
  "y \<in> {tableTop + 24, tableTop + 62} \<Longrightarrow>
     Text (moneyText L (rd_currency d) (rd_amount d)) LEFT y (acrossPage ''right'') \<in> set (receiptCalls L I d)"
  by (auto simp: receipt_defs)

end
