(* ===== verification/Process.thy ===== *)
theory Process
  imports Mail App
begin

text \<open>
  The life of the process: the Redis client (\<^verbatim>\<open>config/redis.ts\<close>), the scheduled jobs (\<^verbatim>\<open>jobs/index.ts\<close>), start-up and
  shutdown (\<^verbatim>\<open>server.ts\<close>) and the serverless entry (\<^verbatim>\<open>api/index.ts\<close>). What happens outside, a signal, a connection
  that ends or time that passes, is an event; what a connection attempt gives is a parameter.
\<close>

section \<open>The Redis client\<close>

definition retryStrategy :: "nat \<Rightarrow> nat" where
  "retryStrategy nth_try = min (nth_try * 500) 5000"

record redisOptions =
  ro_lazyConnect :: bool
  ro_maxRetriesPerRequest :: nat
  ro_enableOfflineQueue :: bool
  ro_connectTimeout :: nat
  ro_retryStrategy :: "nat \<Rightarrow> nat"

definition redisDefaults :: redisOptions where
  "redisDefaults = \<lparr>ro_lazyConnect = True, ro_maxRetriesPerRequest = 2, ro_enableOfflineQueue = False,
     ro_connectTimeout = 10000, ro_retryStrategy = retryStrategy\<rparr>"

text \<open>A client is made for a url, or for a host and a port with the credentials that are set.\<close>

datatype redisTarget =
    RedisUrl string
  | RedisHost string real "string option" "string option"

definition envText :: "string \<Rightarrow> json \<Rightarrow> string" where
  "envText k e = (case textAt k e of Some s \<Rightarrow> s | None \<Rightarrow> [])"

definition envNumber :: "string \<Rightarrow> json \<Rightarrow> real" where
  "envNumber k e = (case e of JObj fs \<Rightarrow> (case map_of fs k of Some (JNum x) \<Rightarrow> x | _ \<Rightarrow> 0) | _ \<Rightarrow> 0)"

definition whenSet :: "string \<Rightarrow> string option" where
  "whenSet s = (if s = [] then None else Some s)"

definition buildClient :: "json \<Rightarrow> redisTarget \<times> redisOptions" where
  "buildClient e =
     (if envText ''REDIS_URL'' e \<noteq> [] then (RedisUrl (envText ''REDIS_URL'' e), redisDefaults)
      else (RedisHost (if envText ''REDIS_HOST'' e = [] then ''127.0.0.1'' else envText ''REDIS_HOST'' e)
              (envNumber ''REDIS_PORT'' e) (whenSet (envText ''REDIS_USERNAME'' e)) (whenSet (envText ''REDIS_PASSWORD'' e)),
            redisDefaults))"

text \<open>One warning per window: the flag, the time the timer resets it at, and the times warned at.\<close>

record outage =
  warned :: bool
  rearmAt :: int
  warnings :: "int list"

definition noOutage :: outage where
  "noOutage = \<lparr>warned = False, rearmAt = 0, warnings = []\<rparr>"

definition onRedisError :: "int \<Rightarrow> outage \<Rightarrow> outage" where
  "onRedisError now s =
     (if warned s then s else \<lparr>warned = True, rearmAt = now + 30000, warnings = warnings s @ [now]\<rparr>)"

definition rearm :: "int \<Rightarrow> outage \<Rightarrow> outage" where
  "rearm now s = (if warned s \<and> rearmAt s \<le> now then s\<lparr>warned := False\<rparr> else s)"

text \<open>The errors of the client, at the times they come.\<close>

fun errorsAt :: "int list \<Rightarrow> outage \<Rightarrow> outage" where
  "errorsAt [] s = s"
| "errorsAt (t # ts) s = errorsAt ts (onRedisError t (rearm t s))"

definition spaced :: "int list \<Rightarrow> bool" where
  "spaced ts \<longleftrightarrow> sorted_wrt (\<lambda>a b. a + 30000 \<le> b) ts"

definition outageOk :: "outage \<Rightarrow> bool" where
  "outageOk s \<longleftrightarrow> spaced (warnings s) \<and> (\<forall>t \<in> set (warnings s). t + 30000 \<le> rearmAt s)"

text \<open>Whatever the errors, a warning keeps its distance of half a minute from the one before.\<close>

lemma error_keeps: "outageOk s \<Longrightarrow> (\<not> warned s \<longrightarrow> rearmAt s \<le> t) \<Longrightarrow> outageOk (onRedisError t s)"
  by (fastforce simp: outageOk_def spaced_def onRedisError_def sorted_wrt_append)

lemma warnings_are_spaced:
  assumes "outageOk s" and "\<not> warned s \<longrightarrow> (\<forall>t \<in> set ts. rearmAt s \<le> t)" and "sorted ts"
  shows "spaced (warnings (errorsAt ts s))"
  using assms
proof (induction ts arbitrary: s)
  case Nil
  then show ?case by (simp add: outageOk_def)
next
  case (Cons t ts)
  have "outageOk (rearm t s)" using Cons.prems(1) by (simp add: rearm_def outageOk_def)
  moreover have "\<not> warned (rearm t s) \<longrightarrow> rearmAt (rearm t s) \<le> t"
    using Cons.prems(2) by (auto simp: rearm_def)
  ultimately have "outageOk (onRedisError t (rearm t s))" by (rule error_keeps)
  moreover have "warned (onRedisError t (rearm t s))" by (simp add: onRedisError_def)
  ultimately show ?case using Cons.IH Cons.prems(3) by simp
qed

text \<open>The status of the client, and whether it connects; \<open>connectRedis\<close> answers and never fails.\<close>

definition connectRedis :: "string \<Rightarrow> (exn + unit) \<Rightarrow> bool" where
  "connectRedis status connect =
     (if status = ''ready'' \<or> status = ''connecting'' then True
      else case connect of Inr _ \<Rightarrow> True | Inl _ \<Rightarrow> False)"

definition redisReady :: "string \<Rightarrow> bool" where
  "redisReady status \<longleftrightarrow> status = ''ready''"

definition safeRedis :: "('s, 'a) svc \<Rightarrow> 'a \<Rightarrow> ('s, 'a) svc" where
  "safeRedis fn fallback = catchM fn (\<lambda>_. returnM fallback)"

lemma safe_never_fails: "\<exists>x. fst (safeRedis fn fallback s) = Inr x"
  by (auto simp: safeRedis_def eval split: prod.splits sum.splits)

section \<open>The scheduled jobs\<close>

text \<open>What a job does, under its guard; \<open>task\<close> is the expression of the schedule, the job and its time zone.\<close>

definition guardJob :: "('s, 'a) svc \<Rightarrow> ('s, unit) svc" where
  "guardJob fn = catchM (thenM fn (returnM ())) (\<lambda>_. returnM ())"

definition jobBody :: "lib \<Rightarrow> job \<Rightarrow> unit act" where
  "jobBody L j = (case j of Sla \<Rightarrow> guardJob (runSlaCheck L) | Purge \<Rightarrow> guardJob (runPurge L))"

type_synonym task = "string \<times> job \<times> string"

definition startJobs :: "bool \<Rightarrow> task list \<Rightarrow> task list" where
  "startJobs test tasks =
     (if test then tasks
      else tasks @ [(''0 * * * *'', Sla, ''UTC''), (''15 3 * * *'', Purge, ''UTC'')])"

definition stopJobs :: "task list \<Rightarrow> task list" where
  "stopJobs tasks = []"

text \<open>A job that fails does not take the process down, and keeps what it had written.\<close>

lemma guarded: "guardJob fn s = (Inr (), snd (fn s))"
  by (auto simp: guardJob_def eval split: prod.splits sum.splits)

lemma jobs_never_fail: "fst (jobBody L j w) = Inr ()"
  by (cases j) (simp_all add: jobBody_def guarded)

section \<open>Start-up and shutdown\<close>

datatype phase = Serving | Draining | Disconnecting

record process =
  pr_now :: int
  pr_listening :: bool
  pr_headersTimeout :: nat
  pr_requestTimeout :: nat
  pr_tasks :: "task list"
  pr_shuttingDown :: bool
  pr_force :: "int option"
  pr_phase :: phase
  pr_exit :: "nat option"

text \<open>
  What a start finds outside. \<open>bootstrap\<close> either ends with an exit code or leaves a server that listens: Redis and
  the mail server may be down, the database may not.
\<close>

definition bootstrap :: "lib \<Rightarrow> bool \<Rightarrow> (exn + unit) \<Rightarrow> string \<Rightarrow> (exn + unit) \<Rightarrow> (exn + unit) \<Rightarrow> int \<Rightarrow> nat + process" where
  "bootstrap L test db status redis' smtp now =
     (case db of
        Inl _ \<Rightarrow> Inl 1
      | Inr _ \<Rightarrow>
          (let r = connectRedis status redis'; m = verifyMailer L smtp in
           Inr \<lparr>pr_now = now, pr_listening = True, pr_headersTimeout = 15000, pr_requestTimeout = 30000,
             pr_tasks = startJobs test [], pr_shuttingDown = False, pr_force = None, pr_phase = Serving,
             pr_exit = None\<rparr>))"

datatype trigger = SIGTERM | SIGINT | UnhandledRejection | UncaughtException

datatype event =
    Trigger trigger
  | Drained
  | Disconnected "exn + unit"
  | Elapse nat

definition shutdown :: "process \<Rightarrow> process" where
  "shutdown p =
     (if pr_shuttingDown p then p
      else p\<lparr>pr_shuttingDown := True, pr_force := Some (pr_now p + 10000), pr_tasks := stopJobs (pr_tasks p),
        pr_listening := False, pr_phase := Draining\<rparr>)"

text \<open>The callback of \<open>close\<close> runs once the last connection has ended; an error of disconnecting is logged.\<close>

fun react :: "event \<Rightarrow> process \<Rightarrow> process" where
  "react (Trigger g) p = shutdown p"
| "react Drained p = (if pr_phase p = Draining then p\<lparr>pr_phase := Disconnecting\<rparr> else p)"
| "react (Disconnected r) p = (if pr_phase p = Disconnecting then p\<lparr>pr_force := None, pr_exit := Some 0\<rparr> else p)"
| "react (Elapse n) p =
     (let p' = p\<lparr>pr_now := pr_now p + int n\<rparr> in
      case pr_force p of
        Some t \<Rightarrow> (if t \<le> pr_now p' then p'\<lparr>pr_exit := Some 1\<rparr> else p')
      | None \<Rightarrow> p')"

definition onEvent :: "event \<Rightarrow> process \<Rightarrow> process" where
  "onEvent e p = (case pr_exit p of Some _ \<Rightarrow> p | None \<Rightarrow> react e p)"

definition runProcess :: "event list \<Rightarrow> process \<Rightarrow> process" where
  "runProcess es p = fold onEvent es p"

text \<open>What holds at every moment of a process, and how long the events take.\<close>

definition processOk :: "process \<Rightarrow> bool" where
  "processOk p \<longleftrightarrow>
     (pr_shuttingDown p \<longleftrightarrow> pr_phase p \<noteq> Serving) \<and>
     (pr_shuttingDown p \<longrightarrow> pr_tasks p = [] \<and> \<not> pr_listening p) \<and>
     (pr_exit p = None \<longrightarrow> (pr_shuttingDown p \<longleftrightarrow> pr_force p \<noteq> None)) \<and>
     (\<forall>t. pr_exit p = None \<and> pr_force p = Some t \<longrightarrow> pr_now p < t \<and> t \<le> pr_now p + 10000) \<and>
     (pr_exit p \<noteq> None \<longrightarrow> pr_shuttingDown p) \<and> (pr_exit p = Some 0 \<longrightarrow> pr_phase p = Disconnecting)"

fun elapsed :: "event list \<Rightarrow> int" where
  "elapsed [] = 0"
| "elapsed (Elapse n # es) = int n + elapsed es"
| "elapsed (_ # es) = elapsed es"

lemma started_ok: "bootstrap L test db status redis' smtp now = Inr p \<Longrightarrow> processOk p"
  by (auto simp: bootstrap_def processOk_def Let_def split: sum.splits)

lemma event_ok: "processOk p \<Longrightarrow> processOk (onEvent e p)"
  by (cases e) (auto simp: processOk_def onEvent_def shutdown_def stopJobs_def Let_def split: option.splits)

lemma run_ok: "processOk p \<Longrightarrow> processOk (runProcess es p)"
  unfolding runProcess_def by (induction es arbitrary: p) (simp_all add: event_ok)

lemma exited_stays: "pr_exit p = Some c \<Longrightarrow> runProcess es p = p"
  unfolding runProcess_def by (induction es) (simp_all add: onEvent_def)

text \<open>A process that shuts down is gone when ten seconds have passed, whatever else happens meanwhile.\<close>

lemma gone_by_deadline:
  assumes "processOk p" and "pr_force p = Some t" and "t \<le> pr_now p + elapsed es"
  shows "pr_exit (runProcess es p) \<noteq> None"
  using assms
proof (induction es arbitrary: p)
  case Nil
  then show ?case by (auto simp: processOk_def runProcess_def)
next
  case (Cons e es)
  have ok: "processOk (onEvent e p)" using Cons.prems(1) by (rule event_ok)
  have run: "runProcess (e # es) p = runProcess es (onEvent e p)" by (simp add: runProcess_def)
  show ?case
  proof (cases "pr_exit (onEvent e p)")
    case (Some c)
    then show ?thesis by (simp add: run exited_stays)
  next
    case None
    then have "pr_force (onEvent e p) = Some t \<and> pr_now p + elapsed (e # es) = pr_now (onEvent e p) + elapsed es"
      using Cons.prems(1,2) by (cases e) (auto simp: onEvent_def shutdown_def processOk_def Let_def split: option.splits if_splits)
    then show ?thesis using Cons.IH [OF ok] Cons.prems(3) by (simp add: run)
  qed
qed

theorem shutdown_is_bounded:
  assumes "bootstrap L test db status redis' smtp now = Inr p" and "pr_exit (runProcess es p) = None"
    and "10000 \<le> elapsed es'"
  shows "pr_exit (runProcess (Trigger g # es') (runProcess es p)) \<noteq> None"
proof -
  let ?q = "runProcess es p"
  let ?r = "onEvent (Trigger g) ?q"
  have ok: "processOk ?q" using run_ok [OF started_ok [OF assms(1)]] .
  then have r: "processOk ?r" by (rule event_ok)
  have now: "pr_now ?r = pr_now ?q" using assms(2) by (simp add: onEvent_def shutdown_def)
  have "pr_shuttingDown ?r \<and> pr_exit ?r = None" using assms(2) by (simp add: onEvent_def shutdown_def)
  then obtain t where t: "pr_force ?r = Some t" "t \<le> pr_now ?q + 10000"
    using r now by (auto simp: processOk_def)
  show ?thesis using gone_by_deadline [OF r t(1)] t(2) assms(3) now by (simp add: runProcess_def)
qed

section \<open>The serverless entry\<close>

text \<open>The first request of an instance connects; the answer is kept, also when it is no.\<close>

definition serverlessReady :: "bool option \<Rightarrow> bool \<Rightarrow> bool option" where
  "serverlessReady ready connects = (case ready of None \<Rightarrow> Some connects | Some r \<Rightarrow> Some r)"

lemma connects_once: "serverlessReady (serverlessReady r a) b = serverlessReady r a"
  by (simp add: serverlessReady_def split: option.splits)

end
