(* ===== verification/Spec2Isabelle.thy ===== *)
theory Spec2Isabelle
  imports ComplaintProps ComplaintRules ComplaintAccess PaymentProps LedgerProps AuthProps AuthProbe RbacProps SeedProps RouteProps AppProps AuthEdge SchemaProps AdminProps Desk Reports Atomic EdgeProps Receipt Process
begin

text \<open>
  A verification library for the CityCare backend, the server of a city's complaint and service
  desk. Citizens report complaints, follow them and pay for municipal services; officers and admins
  work on them. The program is TypeScript: express routes hand a validated request to a service, the
  service talks to Postgres through Prisma, to Redis, to a mailer, to a payment gateway. The library
  models the services, the handlers and middlewares between them and the client, and the scheduled
  jobs, and proves what makes them correct.

  \<^bold>\<open>The shape of the model.\<close> The whole state of the server is one record \<^verbatim>\<open>world\<close> (theory Schema): a
  list of rows for every Prisma model, the Redis store with the expiry of each key, the in-process
  setting cache, the mails handed to SMTP, the metric counters, a clock, and the positions of three
  tapes of random values. An operation of a service is a function \<^verbatim>\<open>'a act\<close>: from a world to
  either a thrown value or an answer, and the world afterwards (theory Prelude). Every throw of
  the code is a value of the datatype \<^verbatim>\<open>exn\<close>: an \<^verbatim>\<open>ApiError\<close> with its status and details, the error
  classes of Prisma, zod, multer and the JWT library, a violated database check, a failing Redis
  command. \<^verbatim>\<open>transaction\<close> undoes what a failed transaction wrote to the tables, and nothing else. Where
  the code locks optimistically (\<^verbatim>\<open>updateMany\<close> with the status it has read in the condition) an
  operation is split into the read part (\<open>...Guard\<close>) and the write part (\<open>...Commit\<close>), so that
  theorems can interleave other requests between the two.

  \<^bold>\<open>Parameters.\<close> The record \<^verbatim>\<open>lib\<close> of theory Db holds the functions of code that is not in the
  repository: SHA-256, bcrypt, signing of tokens, the random tapes, number and decimal formatting,
  \<^verbatim>\<open>ILIKE\<close>, date parsing, SMTP, the environment. \<^verbatim>\<open>gateway\<close> of theory Payment holds the SSLCommerz client
  and the PDF and storage services. A theorem that needs something of them states it: that UUIDs are
  distinct is \<^verbatim>\<open>inj (uuidTape L)\<close>, and a witness instantiates it.

  \<^bold>\<open>The theories.\<close>
  \<^item> Prelude, Js, Schema, Db, Utils: the state-and-exception functions, Prisma's table operations,
    the locales \<^verbatim>\<open>step_preorder\<close> (a preorder every step respects, from which frames and invariants of
    whole operations follow) and \<^verbatim>\<open>optimistic_lock\<close>; strings, numbers and UTC dates of JavaScript;
    \<^verbatim>\<open>prisma/schema/*.prisma\<close>; \<^verbatim>\<open>src/lib\<close> (prisma, redis, cache, settings, mailer, metrics,
    notification); \<^verbatim>\<open>src/utils\<close> (pagination, queryBuilder, trackingId, auditLogger, crypto).
  \<^item> ComplaintMachine, Complaint, ComplaintReads, SlaChecker: \<^verbatim>\<open>modules/complaint\<close> with its state
    machine, and \<^verbatim>\<open>jobs/slaChecker.ts\<close> and \<^verbatim>\<open>jobs/purge.ts\<close>. ComplaintFacts, ComplaintInv and
    ComplaintCounts hold the effects of each operation, the step relation of the module and the
    invariants of its runs; ComplaintProps, ComplaintRules and ComplaintAccess the properties.
  \<^item> AuthCore, Auth, AuthAccount: \<^verbatim>\<open>modules/auth/auth.service.ts\<close> and \<^verbatim>\<open>middlewares/auth.ts\<close>: signup,
    login with its second factor and its emailed link, sessions, refresh tokens, passwords, Google
    accounts. AuthFacts has the locale \<^verbatim>\<open>kv_store\<close>, the laws of Redis; AuthProps the properties, and
    AuthProbe what the forms let a stranger find out. OauthState: \<^verbatim>\<open>lib/oauthState.ts\<close> with its runs.
  \<^item> Cache, Rbac, Permissions: the locale \<^verbatim>\<open>read_through\<close> of \<^verbatim>\<open>lib/cache.ts\<close>;
    \<^verbatim>\<open>modules/rbac/rbac.service.ts\<close> with \<^verbatim>\<open>lib/permissions.ts\<close> and \<^verbatim>\<open>middlewares/authorize.ts\<close>;
    \<^verbatim>\<open>config/permissions.ts\<close> with what \<^verbatim>\<open>prisma/seed.ts\<close> writes of it. RbacFacts, RbacInv and
    RbacProps: effects, the access screen as a machine, the properties; SeedProps: what a seeded
    database lets each role do.
  \<^item> ServiceRequest, Payment, Ledger, Csv: \<^verbatim>\<open>modules/serviceRequest\<close>, \<^verbatim>\<open>modules/payment\<close> with the gateway
    callbacks of its controller, the ledger and the CSV exports. PaymentInv, PaymentProps and
    LedgerProps: the step relation of payments and requests, its invariant, the properties.
  \<^item> MasterData, Admin, Profile, Reports, Desk: the cached lists of categories, departments, wards,
    zones and service types; \<^verbatim>\<open>modules/admin\<close> with its dashboard and reports; \<^verbatim>\<open>modules/user\<close>; the contact
    desk and the notification inbox. AdminInv and AdminProps: effects, the console as a machine, the
    properties.
  \<^item> Atomic: which requests write nothing when they fail, across the modules.
  \<^item> Http, Endpoints, EdgeProps: \<^verbatim>\<open>middlewares/globalErrorHandler.ts\<close>, \<^verbatim>\<open>middlewares/validateRequest.ts\<close>,
    \<^verbatim>\<open>utils/sendResponse.ts\<close> and \<^verbatim>\<open>middlewares/idempotency.ts\<close>, the two endpoints that take an idempotency key,
    and what a repeated request gets. Middlewares, RateLimiter: request ids, the 404 answer, uploads, and the
    limiters whose store falls back from Redis to memory.
  \<^item> Handlers, AuthController, ComplaintController, PaymentController, StaffController, CitizenController:
    every handler of \<^verbatim>\<open>modules/*/*.controller.ts\<close>, under the name of its controller and function
    (\<^verbatim>\<open>complaintCreate\<close> is \<^verbatim>\<open>create\<close> of the complaint controller, \<^verbatim>\<open>loginHandler\<close> is \<^verbatim>\<open>login\<close> of the auth
    controller). AuthEdge: what the client reads from two of them.
  \<^item> Routes, App: \<^verbatim>\<open>modules/*/*.route.ts\<close> and \<^verbatim>\<open>routes/index.ts\<close> as tables, the passage of a request through its
    middlewares, \<^verbatim>\<open>app.ts\<close>. Zod, Schemas, SchemaProps: the schemas of \<^verbatim>\<open>modules/*/*.validation.ts\<close> as data, what
    passes them, and what they keep out. RouteProps, AppProps: what stands before which handler. PublicApi, PublicFrame: the
    public endpoints as one datatype of requests, and what none of them writes.
  \<^item> Config, Mail, Receipt, Process: \<^verbatim>\<open>config/env.ts\<close>, \<^verbatim>\<open>config/cloudinary.ts\<close> and \<^verbatim>\<open>lib/logger.ts\<close>; the pages of
    \<^verbatim>\<open>lib/mailer.ts\<close>; the calls that draw the page of \<^verbatim>\<open>lib/receipt.ts\<close>; \<^verbatim>\<open>server.ts\<close>, \<^verbatim>\<open>jobs/index.ts\<close>,
    \<^verbatim>\<open>config/redis.ts\<close> and \<^verbatim>\<open>api/index.ts\<close> as machines. Each proves what its part promises: secrets of a minimum length,
    a log of mails without their texts, a page inside its margins, a shutdown that ends within ten seconds.
  \<^item> Fixtures, AuthWorld, PaymentWorld: concrete parameters and small cities for the witnesses.

  \<^bold>\<open>What is proved.\<close> Complaints: a recorded history is a path of the state machine and finished
  complaints stay finished, in every run of the module with the SLA job; of several racing status
  writes one wins; the counting limits, the tracking ids, who sees and who changes what, and that
  an SLA run leaves nothing of its batch unescalated. Authentication: what a login needs, how often a challenge, a code or
  a refresh token works, what ends sessions. Access: the guard with its cache decides what the
  tables say at that moment; the tables stay well-formed and the built-in rows survive any use of the
  screen. Administration: a super admin always remains and other admins never touch admins. Payments:
  statuses only move forward, nothing is SUCCESS without the gateway's word, work is paid for, refunds
  match their payments, and neither forged nor repeated callbacks change that. Ledger: the export
  ends, holds every row once and reads back. The edge: staff endpoints need a grant of the access tables; a
  caller without credentials reaches the public handlers only, and these leave the city's data and
  everybody's standing alone; a repeated request with a key is answered from its first run; a failed
  request writes nothing; no body carries a privilege to a handler; the limits hold through outages of Redis; a state of a Google sign-in works
  once.

  \<^bold>\<open>Bounds.\<close> The only fuel is in \<^verbatim>\<open>csvPages\<close> of theory Csv, the export loop, which reads pages until one
  comes back short; the export theorem shows that one page more than the rows fill is enough. Amounts are paisa
  as integers (the columns are decimals of scale two); other JavaScript numbers are integers where the
  code keeps them whole and reals otherwise, so rounding of doubles is not modelled. Strings are
  compared by character code, where Postgres uses the collation of the database.

  \<^bold>\<open>Granularity.\<close> A request is one step, or two where the code locks optimistically; a transaction is
  atomic. What the code starts without waiting for (mails, audit rows, the storing of an idempotent
  answer) is done when the request is. The time a login takes is not modelled.

  \<^bold>\<open>Libraries.\<close> The path matching of express, the parsing of multer, the detection of
  \<^verbatim>\<open>file-type\<close>, the two counting stores of the rate limiters and passport come as parameters of the definitions
  that use them. What zod does with a schema is a parameter too, with the laws \<^verbatim>\<open>zodLaws\<close>. How a handler writes a row of the database as JSON is a parameter too (Prisma's
  types decide it); the objects the controllers build themselves are written out.

  \<^bold>\<open>Not modelled.\<close> What pdfkit, nodemailer, node-cron, pino and the Prometheus registry do with the calls they get,
  the request log, the options of helmet and cors, the served OpenAPI description, the settings of the command line tools,
  the development script that prints codes, and the demonstration data of the seed: glue around libraries, whose behaviour
  is not in the repository, or data. The services take their inputs as records, which stand for the objects the schemas
  describe.
\<close>

end
